(* ===== verification/Prelude.thy ===== *)
theory Prelude
  imports Main "HOL-Library.Word" "HOL-Library.Monad_Syntax"
begin

text \<open>
  The prelude of the development: the Go vocabulary every component shares.

  \<^item> A Go computation that can panic is an \<open>option\<close>: \<open>None\<close> is the panic (a nil pointer
    dereference or an explicit \<^verbatim>\<open>panic\<close>), and the \<open>do\<close> notation of the option monad sequences
    calls, so a panic stops everything after it.
  \<^item> A Go function with result \<^verbatim>\<open>(T, error)\<close> returns a sum: \<open>Inl\<close> the error text, \<open>Inr\<close> the value.
  \<^item> A pointer is an \<open>option\<close>, a slice a list, a Go map that is only built and looked up an
    association list, a fixed-width integer a word. Nil and empty slices are identified, except
    where the code compares slices with \<^verbatim>\<open>reflect.DeepEqual\<close>, which tells them apart: there a slice
    is an optional list (\<open>'a slice\<close>).

  The theory also holds the decimal printer behind \<^verbatim>\<open>%d\<close>, the string helpers of package
  \<^verbatim>\<open>strings\<close> the sources use, and the list lemmas the components share.
\<close>

section \<open>Vocabulary\<close>

type_synonym goerror = string
type_synonym 'a result = "goerror + 'a"
type_synonym 'a go = "'a option"
type_synonym 'a slice = "'a list option"

type_synonym uint32 = "32 word"
type_synonym uint64 = "64 word"
type_synonym int32 = "32 word"
type_synonym int64 = "64 word"

abbreviation (input) panic :: "'a go" where "panic \<equiv> None"

named_theorems go_defs \<open>definitions a component proof unfolds to step through a call\<close>
named_theorems link_laws \<open>what the operations on attachment lists keep\<close>

text \<open>What \<^verbatim>\<open>range\<close> sees of a slice.\<close>

definition elems :: "'a slice \<Rightarrow> 'a list" where
  "elems sl = (case sl of None \<Rightarrow> [] | Some xs \<Rightarrow> xs)"

definition isOk :: "'a result \<Rightarrow> bool" where
  "isOk r = (case r of Inl _ \<Rightarrow> False | Inr _ \<Rightarrow> True)"

lemma isOk_simps [simp]: "isOk (Inl e) = False" "isOk (Inr x) = True"
  by (simp_all add: isOk_def)

lemma isOk_conv: "isOk r \<longleftrightarrow> (\<exists>x. r = Inr x)"
  by (cases r) simp_all

section \<open>Decimal printing\<close>

text \<open>The digits \<^verbatim>\<open>fmt\<close> prints for \<^verbatim>\<open>%d\<close>, most significant first.\<close>

definition digit_char :: "nat \<Rightarrow> char" where
  "digit_char d = char_of (48 + d)"

fun digits_of :: "nat \<Rightarrow> nat list" where
  "digits_of n = (if n < 10 then [n] else digits_of (n div 10) @ [n mod 10])"

declare digits_of.simps [simp del]

definition show_nat :: "nat \<Rightarrow> string" where
  "show_nat n = map digit_char (digits_of n)"

definition show_int :: "int \<Rightarrow> string" where
  "show_int i = (if i < 0 then CHR ''-'' # show_nat (nat (- i)) else show_nat (nat i))"

fun value_of :: "nat list \<Rightarrow> nat" where
  "value_of ds = foldl (\<lambda>acc d. 10 * acc + d) 0 ds"

lemma digits_of_bound: "d \<in> set (digits_of n) \<Longrightarrow> d < 10"
proof (induction n rule: digits_of.induct)
  case (1 n)
  then show ?case
    by (cases "n < 10") (auto simp: digits_of.simps [of n])
qed

lemma value_digits: "value_of (digits_of n) = n"
proof (induction n rule: digits_of.induct)
  case (1 n)
  show ?case
  proof (cases "n < 10")
    case False
    with 1 show ?thesis by (simp add: digits_of.simps [of n])
  qed (simp add: digits_of.simps)
qed

lemma digit_char_inj: "a < 10 \<Longrightarrow> b < 10 \<Longrightarrow> digit_char a = digit_char b \<Longrightarrow> a = b"
  unfolding digit_char_def by (drule arg_cong [where f = "of_char :: char \<Rightarrow> nat"]) simp

lemma show_nat_inj: "show_nat m = show_nat n \<Longrightarrow> m = n"
proof -
  assume eq: "show_nat m = show_nat n"
  have "inj_on digit_char {0..<10}"
    by (auto intro!: inj_onI digit_char_inj)
  then have "inj_on digit_char (set (digits_of m) \<union> set (digits_of n))"
    by (rule inj_on_subset) (auto dest: digits_of_bound)
  with eq have "digits_of m = digits_of n"
    unfolding show_nat_def by (simp add: inj_on_map_eq_map)
  then show "m = n" by (metis value_digits)
qed

lemma minus_notin_show_nat: "CHR ''-'' \<notin> set (show_nat n)"
proof
  assume "CHR ''-'' \<in> set (show_nat n)"
  then obtain d where "d < 10" and "CHR ''-'' = digit_char d"
    by (auto simp: show_nat_def dest: digits_of_bound)
  then have "of_char CHR ''-'' = (of_char (digit_char d) :: nat)" by simp
  with \<open>d < 10\<close> show False by (simp add: digit_char_def)
qed

lemma show_nat_neq_minus: "show_nat n \<noteq> CHR ''-'' # xs"
  using minus_notin_show_nat [of n] by (metis list.set_intros(1))

lemma show_int_inj: "show_int i = show_int j \<Longrightarrow> i = j"
  by (auto simp: show_int_def show_nat_neq_minus show_nat_neq_minus [symmetric]
      dest!: show_nat_inj split: if_splits)

section \<open>Lists\<close>

text \<open>A Go search loop \<^verbatim>\<open>for i, a := range xs { if p(a) { return &i } }\<close>.\<close>

fun find_index_from :: "nat \<Rightarrow> ('a \<Rightarrow> bool) \<Rightarrow> 'a list \<Rightarrow> nat option" where
  "find_index_from i p [] = None"
| "find_index_from i p (x # xs) = (if p x then Some i else find_index_from (Suc i) p xs)"

abbreviation find_index :: "('a \<Rightarrow> bool) \<Rightarrow> 'a list \<Rightarrow> nat option" where
  "find_index \<equiv> find_index_from 0"

lemma find_index_from_SomeD:
  "find_index_from k p xs = Some i \<Longrightarrow> k \<le> i \<and> i - k < length xs \<and> p (xs ! (i - k))"
proof (induction xs arbitrary: k)
  case (Cons x xs)
  show ?case
  proof (cases "p x")
    case False
    with Cons have "Suc k \<le> i \<and> i - Suc k < length xs \<and> p (xs ! (i - Suc k))" by simp
    then show ?thesis by (auto simp: nth_Cons' Suc_diff_Suc)
  qed (use Cons.prems in simp)
qed simp

lemma find_index_SomeD: "find_index p xs = Some i \<Longrightarrow> i < length xs \<and> p (xs ! i)"
  by (drule find_index_from_SomeD) simp

lemma find_index_from_None_iff: "find_index_from k p xs = None \<longleftrightarrow> (\<forall>x\<in>set xs. \<not> p x)"
  by (induction xs arbitrary: k) auto

lemma find_index_first:
  "find_index p xs = Some i \<Longrightarrow> j < i \<Longrightarrow> \<not> p (xs ! j)"
proof -
  have "find_index_from k p xs = Some i \<Longrightarrow> k \<le> j \<Longrightarrow> j < i \<Longrightarrow> \<not> p (xs ! (j - k))" for k
  proof (induction xs arbitrary: k)
    case (Cons x xs)
    then show ?case by (cases "j = k") (auto simp: nth_Cons' split: if_splits)
  qed simp
  from this [of 0] show "find_index p xs = Some i \<Longrightarrow> j < i \<Longrightarrow> \<not> p (xs ! j)" by simp
qed

text \<open>A slice without the entries whose index is in a set of keys, as \<^verbatim>\<open>removeLinks\<close> builds it.\<close>

fun remove_from :: "nat \<Rightarrow> (nat \<Rightarrow> bool) \<Rightarrow> 'a list \<Rightarrow> 'a list" where
  "remove_from i del [] = []"
| "remove_from i del (x # xs) =
     (if del i then remove_from (Suc i) del xs else x # remove_from (Suc i) del xs)"

lemma remove_from_none: "(\<And>j. \<not> del j) \<Longrightarrow> remove_from i del xs = xs"
  by (induction xs arbitrary: i) auto

lemma set_remove_from_subset: "set (remove_from i del xs) \<subseteq> set xs"
  by (induction xs arbitrary: i) auto

lemma map_of_map_filter_None: "k \<notin> fst ` set xs \<Longrightarrow> map_of xs k = None"
  by (simp add: map_of_eq_None_iff)

section \<open>Package strings\<close>

text \<open>\<^verbatim>\<open>strings.Trim(s, " ")\<close>: leading and trailing blanks go.\<close>

definition trim_char :: "char \<Rightarrow> string \<Rightarrow> string" where
  "trim_char c s = rev (dropWhile ((=) c) (rev (dropWhile ((=) c) s)))"

text \<open>
  The submatches of the pattern between slashes that \<^verbatim>\<open>common.go\<close> compiles: the text starts and
  ends with a slash and what is between them has no newline (a dot matches everything else).
\<close>

definition slashed :: "string \<Rightarrow> string option" where
  "slashed s =
     (if 2 \<le> length s \<and> hd s = CHR ''/'' \<and> last s = CHR ''/'' \<and>
         CHR 0x0A \<notin> set (butlast (tl s))
      then Some (butlast (tl s)) else None)"

lemma slashed_enclose: "CHR 0x0A \<notin> set s \<Longrightarrow> slashed (''/'' @ s @ ''/'') = Some s"
  by (simp add: slashed_def)

lemma slashed_Some: "slashed s = Some m \<Longrightarrow> s = ''/'' @ m @ ''/''"
proof -
  assume h: "slashed s = Some m"
  then have "2 \<le> length s" and hd: "hd s = CHR ''/''" and last: "last s = CHR ''/''"
    and m: "m = butlast (tl s)"
    by (auto simp: slashed_def split: if_splits)
  then obtain c d u where "s = c # d # u" by (cases s rule: list.exhaust) (auto simp: Suc_le_length_iff)
  with hd last m have "s = CHR ''/'' # tl s" "tl s = m @ [CHR ''/'']"
    using append_butlast_last_id [of "tl s"] by auto
  then show ?thesis by simp
qed

end
