(* ===== verification/Api_Types.thy ===== *)
theory Api_Types
  imports Prelude
begin

text \<open>
  The custom resources of package \<^verbatim>\<open>apis/v1alpha1\<close>: the conditions and status enumerations of
  \<^verbatim>\<open>shared_types.go\<close>, the attach-point structs of the ten eBPF program types in their specification
  and state form, and the application and application-state objects, cluster and namespace scoped.

  A Go struct that embeds \<^verbatim>\<open>AttachInfoStateCommon\<close> is a record extension of it, so the code that
  works on any link works on every extension. An enumeration of string constants is a datatype with
  one more constructor for any other string a stored object may hold (the zero value is the empty
  string). Cluster and namespace objects have the same shape up to the type of their programs; they
  are instances of one polymorphic record each.
\<close>

section \<open>Metadata and conditions\<close>

record LabelSelectorRequirement =
  lsr_Key :: string
  lsr_Operator :: string
  lsr_Values :: "string list"

record LabelSelector =
  MatchLabels :: "(string \<times> string) list"
  MatchExpressions :: "LabelSelectorRequirement list"

record OwnerReference =
  or_Kind :: string
  or_Name :: string
  or_UID :: string
  or_Controller :: bool

record ObjectMeta =
  om_Name :: string
  om_Namespace :: string
  om_UID :: string
  om_Labels :: "(string \<times> string) list"
  om_Finalizers :: "string list"
  om_DeletionTimestamp :: "int option"
  om_OwnerReferences :: "OwnerReference list"

record Condition =
  cond_Type :: string
  cond_Status :: string
  cond_Reason :: string
  cond_Message :: string
  cond_LastTransitionTime :: int

definition emptyCondition :: Condition where
  "emptyCondition = \<lparr>cond_Type = '''', cond_Status = '''', cond_Reason = '''', cond_Message = '''',
     cond_LastTransitionTime = 0\<rparr>"

definition mkCondition :: "string \<Rightarrow> string \<Rightarrow> string \<Rightarrow> Condition" where
  "mkCondition ty reason msg = \<lparr>cond_Type = ty, cond_Status = ''True'', cond_Reason = reason,
     cond_Message = msg, cond_LastTransitionTime = 0\<rparr>"

datatype BpfApplicationConditionType =
    BpfAppCondPending | BpfAppCondSuccess | BpfAppCondError | BpfAppCondDeleteError

fun BpfAppCond_string :: "BpfApplicationConditionType \<Rightarrow> string" where
  "BpfAppCond_string BpfAppCondPending = ''Pending''"
| "BpfAppCond_string BpfAppCondSuccess = ''Success''"
| "BpfAppCond_string BpfAppCondError = ''Error''"
| "BpfAppCond_string BpfAppCondDeleteError = ''DeleteError''"

fun BpfAppCond_Condition :: "BpfApplicationConditionType \<Rightarrow> string \<Rightarrow> Condition" where
  "BpfAppCond_Condition BpfAppCondPending message =
     mkCondition (BpfAppCond_string BpfAppCondPending) ''Pending''
       (if message = [] then ''Waiting for Bpf Application Object to be reconciled on all nodes''
        else message)"
| "BpfAppCond_Condition BpfAppCondError message =
     mkCondition (BpfAppCond_string BpfAppCondError) ''Error''
       (if message = [] then ''An error has occurred on one or more nodes'' else message)"
| "BpfAppCond_Condition BpfAppCondSuccess message =
     mkCondition (BpfAppCond_string BpfAppCondSuccess) ''Success''
       (if message = [] then ''BPF application configuration successfully applied on all nodes''
        else message)"
| "BpfAppCond_Condition BpfAppCondDeleteError message =
     mkCondition (BpfAppCond_string BpfAppCondDeleteError) ''DeleteError''
       (if message = [] then ''Deletion failed on one or more nodes'' else message)"

datatype BpfApplicationStateConditionType =
    BpfAppStateCondPending | BpfAppStateCondSuccess | BpfAppStateCondError
  | BpfAppStateCondProgramListChangedError | BpfAppStateCondUnloadError | BpfAppStateCondUnloaded

fun BpfAppStateCond_string :: "BpfApplicationStateConditionType \<Rightarrow> string" where
  "BpfAppStateCond_string BpfAppStateCondPending = ''Pending''"
| "BpfAppStateCond_string BpfAppStateCondSuccess = ''Success''"
| "BpfAppStateCond_string BpfAppStateCondError = ''Error''"
| "BpfAppStateCond_string BpfAppStateCondProgramListChangedError = ''ProgramListChangedError''"
| "BpfAppStateCond_string BpfAppStateCondUnloadError = ''UnloadError''"
| "BpfAppStateCond_string BpfAppStateCondUnloaded = ''Unloaded''"

text \<open>
  The switch of \<^verbatim>\<open>Condition()\<close> has no case for the program-list error, so that condition type is
  promoted to the zero condition.
\<close>

fun BpfAppStateCond_Condition :: "BpfApplicationStateConditionType \<Rightarrow> Condition" where
  "BpfAppStateCond_Condition BpfAppStateCondPending =
     mkCondition (BpfAppStateCond_string BpfAppStateCondPending) ''Pending'' ''Not yet complete''"
| "BpfAppStateCond_Condition BpfAppStateCondSuccess =
     mkCondition (BpfAppStateCond_string BpfAppStateCondSuccess) ''Success''
       ''The BPF application has been successfully loaded and attached''"
| "BpfAppStateCond_Condition BpfAppStateCondError =
     mkCondition (BpfAppStateCond_string BpfAppStateCondError) ''Error'' ''An error has occurred''"
| "BpfAppStateCond_Condition BpfAppStateCondUnloadError =
     mkCondition (BpfAppStateCond_string BpfAppStateCondUnloadError) ''Unload Error''
       ''Unload failed for one or more programs''"
| "BpfAppStateCond_Condition BpfAppStateCondUnloaded =
     mkCondition (BpfAppStateCond_string BpfAppStateCondUnloaded) ''Unloaded''
       ''The application has been successfully unloaded''"
| "BpfAppStateCond_Condition BpfAppStateCondProgramListChangedError = emptyCondition"

text \<open>\<^verbatim>\<open>meta.SetStatusCondition\<close> on a list without a condition of that type: it is appended, stamped now.\<close>

fun updateConditionIn :: "int \<Rightarrow> Condition \<Rightarrow> Condition list \<Rightarrow> Condition list option" where
  "updateConditionIn now c [] = None"
| "updateConditionIn now c (x # xs) =
     (if cond_Type x = cond_Type c
      then Some (c\<lparr>cond_LastTransitionTime :=
                     (if cond_Status x \<noteq> cond_Status c
                      then (if cond_LastTransitionTime c \<noteq> 0 then cond_LastTransitionTime c else now)
                      else cond_LastTransitionTime x)\<rparr> # xs)
      else map_option ((#) x) (updateConditionIn now c xs))"

definition SetStatusCondition :: "int \<Rightarrow> Condition list \<Rightarrow> Condition \<Rightarrow> Condition list" where
  "SetStatusCondition now conds c =
     (case updateConditionIn now c conds of
        Some cs \<Rightarrow> cs
      | None \<Rightarrow> conds @
          [if cond_LastTransitionTime c = 0 then c\<lparr>cond_LastTransitionTime := now\<rparr> else c])"

datatype AppLoadStatus =
    AppLoadNotLoaded | AppLoadSuccess | AppLoadError | AppUnLoadSuccess | AppUnloadError
  | NotSelected | ProgListChangedError | AppLoadStatusOther string

datatype ProgramLinkStatus =
    ProgAttachPending | ProgAttachSuccess | ProgAttachError | UpdateAttachInfoError
  | ProgramLinkStatusOther string

datatype LinkStatus =
    ApAttachAttached | ApAttachNotAttached | ApAttachError | ApDetachError | LinkStatusOther string

section \<open>Selectors\<close>

record InterfaceDiscovery =
  InterfaceAutoDiscovery :: "bool option"
  ExcludeInterfaces :: "string list"
  AllowedInterfaces :: "string list"

record InterfaceSelector =
  InterfacesDiscoveryConfig :: "InterfaceDiscovery option"
  Interfaces :: "string list"
  PrimaryNodeInterface :: "bool option"

record ClContainerSelector =
  clcs_Namespace :: string
  clcs_Pods :: LabelSelector
  clcs_ContainerNames :: "string list"

record ContainerSelector =
  cs_Pods :: LabelSelector
  cs_ContainerNames :: "string list"

record ClNetworkNamespaceSelector =
  clnns_Namespace :: string
  clnns_Pods :: LabelSelector

record NetworkNamespaceSelector =
  nns_Pods :: LabelSelector

record ImagePullSecretSelector =
  ips_Name :: string
  ips_Namespace :: string

record ByteCodeImage =
  bi_Url :: string
  bi_ImagePullPolicy :: string
  bi_ImagePullSecret :: "ImagePullSecretSelector option"

record ByteCodeSelector =
  bc_Image :: "ByteCodeImage option"
  bc_Path :: "string option"

record BpfAppCommon =
  NodeSelector :: LabelSelector
  GlobalData :: "(string \<times> 8 word list) list"
  ByteCode :: ByteCodeSelector
  MapOwnerSelector :: "LabelSelector option"

definition DefaultAttachPriority :: int32 where
  "DefaultAttachPriority = 1000"

section \<open>Attach points\<close>

record AttachInfoStateCommon =
  ShouldAttach :: bool
  UUID :: string
  LinkId :: "uint32 option"
  LinkStatus :: LinkStatus

type_synonym TcProceedOnValue = string
type_synonym XdpProceedOnValue = string

datatype TCDirectionType = TCIngress | TCEgress | TCDirectionOther string

text \<open>The fields the three network program types have in common, specification and state.\<close>

record 'ns NetAttachInfo =
  na_InterfaceSelector :: InterfaceSelector
  na_NetworkNamespaces :: 'ns
  na_Priority :: "int32 option"

record 'ns TcAttachInfo_of = "'ns NetAttachInfo" +
  tca_Direction :: TCDirectionType
  tca_ProceedOn :: "TcProceedOnValue slice"

record 'ns TcxAttachInfo_of = "'ns NetAttachInfo" +
  tcxa_Direction :: TCDirectionType

record 'ns XdpAttachInfo_of = "'ns NetAttachInfo" +
  xdpa_ProceedOn :: "XdpProceedOnValue slice"

type_synonym ClTcAttachInfo = "ClNetworkNamespaceSelector option TcAttachInfo_of"
type_synonym ClTcxAttachInfo = "ClNetworkNamespaceSelector option TcxAttachInfo_of"
type_synonym ClXdpAttachInfo = "ClNetworkNamespaceSelector option XdpAttachInfo_of"
type_synonym TcAttachInfo = "NetworkNamespaceSelector TcAttachInfo_of"
type_synonym TcxAttachInfo = "NetworkNamespaceSelector TcxAttachInfo_of"
type_synonym XdpAttachInfo = "NetworkNamespaceSelector XdpAttachInfo_of"

record NetAttachInfoState = AttachInfoStateCommon +
  InterfaceName :: string
  NetnsPath :: string
  Priority :: int32

record ClTcAttachInfoState = NetAttachInfoState +
  tc_Direction :: TCDirectionType
  tc_ProceedOn :: "TcProceedOnValue slice"

record ClTcxAttachInfoState = NetAttachInfoState +
  tcx_Direction :: TCDirectionType

record ClXdpAttachInfoState = NetAttachInfoState +
  xdp_ProceedOn :: "XdpProceedOnValue slice"

type_synonym TcAttachInfoState = ClTcAttachInfoState
type_synonym TcxAttachInfoState = ClTcxAttachInfoState
type_synonym XdpAttachInfoState = ClXdpAttachInfoState

record 'c UprobeAttachInfo_of =
  upa_Function :: string
  upa_Offset :: int64
  upa_Target :: string
  upa_Pid :: "int32 option"
  upa_Containers :: 'c

type_synonym ClUprobeAttachInfo = "ClContainerSelector option UprobeAttachInfo_of"
type_synonym UprobeAttachInfo = "ContainerSelector UprobeAttachInfo_of"

record 'pid UprobeAttachInfoState_of = AttachInfoStateCommon +
  up_Function :: string
  up_Offset :: int64
  up_Target :: string
  up_Pid :: "int32 option"
  up_ContainerPid :: 'pid

type_synonym ClUprobeAttachInfoState = "int32 option UprobeAttachInfoState_of"
type_synonym UprobeAttachInfoState = "int32 UprobeAttachInfoState_of"

record ClKprobeAttachInfo =
  kpa_Function :: string
  kpa_Offset :: int64

record ClKprobeAttachInfoState = AttachInfoStateCommon +
  kp_Function :: string
  kp_Offset :: int64

record ClKretprobeAttachInfo =
  krpa_Function :: string

record ClKretprobeAttachInfoState = AttachInfoStateCommon +
  krp_Function :: string

record ClTracepointAttachInfo =
  tpa_Name :: string

record ClTracepointAttachInfoState = AttachInfoStateCommon +
  tp_Name :: string

record ClFentryAttachInfo =
  fentry_Mode :: string

record ClFexitAttachInfo =
  fexit_Mode :: string

type_synonym ClFentryAttachInfoState = AttachInfoStateCommon
type_synonym ClFexitAttachInfoState = AttachInfoStateCommon

section \<open>Programs of an application\<close>

datatype EBPFProgType =
    ProgTypeXDP | ProgTypeTC | ProgTypeTCX | ProgTypeFentry | ProgTypeFexit | ProgTypeKprobe
  | ProgTypeKretprobe | ProgTypeUprobe | ProgTypeUretprobe | ProgTypeTracepoint
  | ProgTypeOther string

text \<open>A program info struct is a list of links; fentry and fexit add the function they load for.\<close>

record 'l ProgramInfo =
  Links :: "'l list"

record 'l FnProgramInfo = "'l ProgramInfo" +
  Function :: string

record ClBpfApplicationProgram =
  cp_Name :: string
  cp_Type :: EBPFProgType
  cp_XDP :: "ClXdpAttachInfo ProgramInfo option"
  cp_TC :: "ClTcAttachInfo ProgramInfo option"
  cp_TCX :: "ClTcxAttachInfo ProgramInfo option"
  cp_FEntry :: "ClFentryAttachInfo FnProgramInfo option"
  cp_FExit :: "ClFexitAttachInfo FnProgramInfo option"
  cp_KProbe :: "ClKprobeAttachInfo ProgramInfo option"
  cp_KRetProbe :: "ClKretprobeAttachInfo ProgramInfo option"
  cp_UProbe :: "ClUprobeAttachInfo ProgramInfo option"
  cp_URetProbe :: "ClUprobeAttachInfo ProgramInfo option"
  cp_TracePoint :: "ClTracepointAttachInfo ProgramInfo option"

record BpfApplicationProgram =
  np_Name :: string
  np_Type :: EBPFProgType
  np_XDP :: "XdpAttachInfo ProgramInfo option"
  np_TC :: "TcAttachInfo ProgramInfo option"
  np_TCX :: "TcxAttachInfo ProgramInfo option"
  np_UProbe :: "UprobeAttachInfo ProgramInfo option"
  np_URetProbe :: "UprobeAttachInfo ProgramInfo option"

record BpfProgramStateCommon =
  Name :: string
  ProgramLinkStatus :: ProgramLinkStatus
  ProgramId :: "uint32 option"

record ClBpfApplicationProgramState = BpfProgramStateCommon +
  cs_Type :: EBPFProgType
  cs_XDP :: "ClXdpAttachInfoState ProgramInfo option"
  cs_TC :: "ClTcAttachInfoState ProgramInfo option"
  cs_TCX :: "ClTcxAttachInfoState ProgramInfo option"
  cs_FEntry :: "ClFentryAttachInfoState FnProgramInfo option"
  cs_FExit :: "ClFexitAttachInfoState FnProgramInfo option"
  cs_KProbe :: "ClKprobeAttachInfoState ProgramInfo option"
  cs_KRetProbe :: "ClKretprobeAttachInfoState ProgramInfo option"
  cs_UProbe :: "ClUprobeAttachInfoState ProgramInfo option"
  cs_URetProbe :: "ClUprobeAttachInfoState ProgramInfo option"
  cs_TracePoint :: "ClTracepointAttachInfoState ProgramInfo option"

record BpfApplicationProgramState = BpfProgramStateCommon +
  ns_Type :: EBPFProgType
  ns_XDP :: "XdpAttachInfoState ProgramInfo option"
  ns_TC :: "TcAttachInfoState ProgramInfo option"
  ns_TCX :: "TcxAttachInfoState ProgramInfo option"
  ns_UProbe :: "UprobeAttachInfoState ProgramInfo option"
  ns_URetProbe :: "UprobeAttachInfoState ProgramInfo option"

section \<open>Application and application-state objects\<close>

record 'q AppSpec = BpfAppCommon +
  SpecPrograms :: "'q list"

record 'q App =
  app_Meta :: ObjectMeta
  app_Spec :: "'q AppSpec"
  app_Conditions :: "Condition list"

record 'p AppStateStatus =
  UpdateCount :: int64
  Node :: string
  AppLoadStatus :: AppLoadStatus
  Programs :: "'p list"
  Conditions :: "Condition list"

record 'p AppState =
  st_Meta :: ObjectMeta
  st_Status :: "'p AppStateStatus"

type_synonym ClusterBpfApplication = "ClBpfApplicationProgram App"
type_synonym ClBpfApplicationStateStatus = "ClBpfApplicationProgramState AppStateStatus"
type_synonym ClusterBpfApplicationState = "ClBpfApplicationProgramState AppState"
type_synonym BpfApplication = "BpfApplicationProgram App"
type_synonym BpfApplicationStateStatus = "BpfApplicationProgramState AppStateStatus"
type_synonym BpfApplicationState = "BpfApplicationProgramState AppState"

section \<open>Lemmas\<close>

lemma SetStatusCondition_fresh:
  "cond_LastTransitionTime c = 0 \<Longrightarrow> SetStatusCondition now [] c = [c\<lparr>cond_LastTransitionTime := now\<rparr>]"
  by (simp add: SetStatusCondition_def)

lemma BpfAppStateCond_time [simp]: "cond_LastTransitionTime (BpfAppStateCond_Condition t) = 0"
  by (cases t) (simp_all add: mkCondition_def emptyCondition_def)

lemma BpfAppCond_time [simp]: "cond_LastTransitionTime (BpfAppCond_Condition t m) = 0"
  by (cases t) (simp_all add: mkCondition_def)

lemma BpfAppCond_type [simp]: "cond_Type (BpfAppCond_Condition t m) = BpfAppCond_string t"
  by (cases t) (simp_all add: mkCondition_def)

lemma BpfAppStateCond_type:
  "cond_Type (BpfAppStateCond_Condition t) =
     (if t = BpfAppStateCondProgramListChangedError then '''' else BpfAppStateCond_string t)"
  by (cases t) (simp_all add: mkCondition_def emptyCondition_def)

lemma BpfAppCond_string_inj: "BpfAppCond_string a = BpfAppCond_string b \<longleftrightarrow> a = b"
  by (cases a; cases b) simp_all

lemma BpfAppStateCond_string_inj: "BpfAppStateCond_string a = BpfAppStateCond_string b \<longleftrightarrow> a = b"
  by (cases a; cases b) simp_all

end
