(* ===== verification/Agent_Env.thy ===== *)
theory Agent_Env
  imports Api_Types
begin

text \<open>
  What the agent talks to. The bpfman daemon, the Kubernetes API server, the operating system and the
  libraries the agent calls are the fields of one record of functions over an abstract world
  \<open>'w\<close>, the parameter every definition of the agent takes; the messages of the daemon's gRPC
  interface are datatypes. The reconciler's own mutable state beside the objects it holds is the
  network-namespace cache, so the state threaded through a reconcile is the world and that cache.

  The theory also holds the cache itself (\<^verbatim>\<open>ReconcilerNetNsCache\<close> of \<^verbatim>\<open>common.go\<close>) and the thin
  wrappers of \<^verbatim>\<open>internal/bpfman_core.go\<close> and \<^verbatim>\<open>internal/auth.go\<close>.
\<close>

section \<open>Messages of the daemon\<close>

datatype BpfmanProgramType =
    BpfmanProgramType_XDP | BpfmanProgramType_TC | BpfmanProgramType_TRACEPOINT
  | BpfmanProgramType_KPROBE | BpfmanProgramType_UPROBE | BpfmanProgramType_FENTRY
  | BpfmanProgramType_FEXIT | BpfmanProgramType_TCX

type_synonym metadata = "(string \<times> string) list"

datatype BytecodeLocation =
    BytecodeLocation_Image (image_Url: string) (image_PullPolicy: int32)
      (image_Username: "string option") (image_Password: "string option")
  | BytecodeLocation_File (file_Path: string)

datatype ProgSpecificInfo = FentryLoadInfo string | FexitLoadInfo string

record LoadInfo =
  li_Name :: string
  li_ProgramType :: BpfmanProgramType
  li_Info :: "ProgSpecificInfo option"

record LoadRequest =
  lr_Bytecode :: BytecodeLocation
  lr_Metadata :: metadata
  lr_GlobalData :: "(string \<times> 8 word list) list"
  lr_Uuid :: "string option"
  lr_MapOwnerId :: "uint32 option"
  lr_Info :: "LoadInfo list"

record ProgramInfoMsg =
  pi_Name :: string
  pi_Links :: "uint32 list"

record LoadResponseInfo =
  lri_Info :: "ProgramInfoMsg option"
  lri_KernelId :: "uint32 option"

record GetResponse =
  gr_Info :: "ProgramInfoMsg option"
  gr_KernelId :: "uint32 option"

text \<open>The attach-point variants of \<^verbatim>\<open>AttachInfo\<close>, with the message fields the agent sets.\<close>

datatype AttachInfo =
    AttachInfo_TcAttachInfo int32 string string "int32 list" metadata "string option"
      \<comment> \<open>Priority, Iface, Direction, ProceedOn, Metadata, Netns\<close>
  | AttachInfo_TcxAttachInfo int32 string string metadata "string option"
      \<comment> \<open>Priority, Iface, Direction, Metadata, Netns\<close>
  | AttachInfo_XdpAttachInfo int32 string "int32 list" metadata "string option"
      \<comment> \<open>Priority, Iface, ProceedOn, Metadata, Netns\<close>
  | AttachInfo_KprobeAttachInfo string uint64 metadata
      \<comment> \<open>FnName, Offset, Metadata\<close>
  | AttachInfo_UprobeAttachInfo "string option" uint64 string "int32 option" "int32 option" metadata
      \<comment> \<open>FnName, Offset, Target, Pid, ContainerPid, Metadata\<close>
  | AttachInfo_FentryAttachInfo metadata
  | AttachInfo_FexitAttachInfo metadata
  | AttachInfo_TracepointAttachInfo string metadata
      \<comment> \<open>Tracepoint, Metadata\<close>

fun AttachInfo_Metadata :: "AttachInfo \<Rightarrow> metadata" where
  "AttachInfo_Metadata (AttachInfo_TcAttachInfo _ _ _ _ m _) = m"
| "AttachInfo_Metadata (AttachInfo_TcxAttachInfo _ _ _ m _) = m"
| "AttachInfo_Metadata (AttachInfo_XdpAttachInfo _ _ _ m _) = m"
| "AttachInfo_Metadata (AttachInfo_KprobeAttachInfo _ _ m) = m"
| "AttachInfo_Metadata (AttachInfo_UprobeAttachInfo _ _ _ _ _ m) = m"
| "AttachInfo_Metadata (AttachInfo_FentryAttachInfo m) = m"
| "AttachInfo_Metadata (AttachInfo_FexitAttachInfo m) = m"
| "AttachInfo_Metadata (AttachInfo_TracepointAttachInfo _ m) = m"

record AttachRequest =
  ar_Id :: uint32
  ar_Attach :: AttachInfo

section \<open>Operating system and library values\<close>

record DiscoveredIface =
  if_Name :: string
  if_NSName :: string

type_synonym IP = "8 word list"

datatype NetAddr = IPAddr string | IPNet IP | OtherAddr

record NetInterface =
  ni_Name :: string
  ni_Addrs :: "NetAddr list result"

record NodeAddress =
  na_Type :: string
  na_Address :: string

record NodeObject =
  nd_Name :: string
  nd_Labels :: "(string \<times> string) list"
  nd_Addresses :: "NodeAddress list"

record ContainerInfo =
  ci_podName :: string
  ci_containerName :: string
  ci_pid :: int32

record ContainerConfigEntry =
  Username :: string
  Password :: string
  Email :: string

type_synonym ContainerConfig = "(string \<times> ContainerConfigEntry) list"

record SecretObject =
  sec_Type :: string
  sec_Data :: "(string \<times> 8 word list) list"

section \<open>The environment\<close>

record 'w Env =
  bpfman_Load :: "LoadRequest \<Rightarrow> 'w \<Rightarrow> LoadResponseInfo list result \<times> 'w"
  bpfman_Unload :: "uint32 \<Rightarrow> 'w \<Rightarrow> unit result \<times> 'w"
  bpfman_Attach :: "AttachRequest \<Rightarrow> 'w \<Rightarrow> uint32 result \<times> 'w"
  bpfman_Detach :: "uint32 \<Rightarrow> 'w \<Rightarrow> unit result \<times> 'w"
  bpfman_Get :: "uint32 \<Rightarrow> 'w \<Rightarrow> GetResponse result \<times> 'w"
  uuid_New :: "'w \<Rightarrow> string \<times> 'w"
  os_Stat :: "string \<Rightarrow> 'w \<Rightarrow> uint64 option result"
  time_Now :: "'w \<Rightarrow> int"
  Interfaces_Range :: "'w \<Rightarrow> (DiscoveredIface \<times> bool) list"
  regexp_Compile :: "string \<Rightarrow> (string \<Rightarrow> bool) result"
  net_Interfaces :: "'w \<Rightarrow> NetInterface list result"
  net_ParseIP :: "string \<Rightarrow> IP"
  Containers_GetContainers ::
    "string \<Rightarrow> LabelSelector \<Rightarrow> string list option \<Rightarrow> 'w \<Rightarrow> ContainerInfo list option result \<times> 'w"
  LabelSelectorAsSelector :: "LabelSelector \<Rightarrow> ((string \<times> string) list \<Rightarrow> bool) result"
  ConvertLabels :: "(string \<times> string) list \<Rightarrow> (string \<times> string) list result"
  reference_ParseNamed :: "string \<Rightarrow> string result"
  reference_Domain :: "string \<Rightarrow> string"
  k8s_GetSecret :: "string \<Rightarrow> string \<Rightarrow> 'w \<Rightarrow> SecretObject result \<times> 'w"
  json_DockerConfigJson :: "8 word list \<Rightarrow> ContainerConfig result"
  json_DockerConfig :: "8 word list \<Rightarrow> ContainerConfig result"

text \<open>The state a reconcile threads: the world, and the cache of network-namespace inodes.\<close>

record 'w rst =
  world :: 'w
  netns_cache :: "(string \<times> uint64) list"

definition lift_world :: "('w \<Rightarrow> 'a \<times> 'w) \<Rightarrow> 'w rst \<Rightarrow> 'a \<times> 'w rst" where
  "lift_world f s = (case f (world s) of (x, w) \<Rightarrow> (x, s\<lparr>world := w\<rparr>))"

section \<open>The network-namespace cache\<close>

definition hostNetNs :: string where
  "hostNetNs = ''/host/proc/1/ns/net''"

definition GetNetNsId :: "('w, 'z) Env_scheme \<Rightarrow> string \<Rightarrow> 'w rst \<Rightarrow> uint64 option \<times> 'w rst" where
  "GetNetNsId env path0 s =
     (let path = (if path0 = [] then hostNetNs else path0) in
      case map_of (netns_cache s) path of
        Some i \<Rightarrow> (Some i, s)
      | None \<Rightarrow>
          (case os_Stat env path (world s) of
             Inl _ \<Rightarrow> (None, s)
           | Inr None \<Rightarrow> (None, s)
           | Inr (Some ino) \<Rightarrow> (Some ino, s\<lparr>netns_cache := (path, ino) # netns_cache s\<rparr>)))"

definition NetNsCache_Reset :: "'w rst \<Rightarrow> 'w rst" where
  "NetNsCache_Reset s = s\<lparr>netns_cache := []\<rparr>"

section \<open>Calls of the daemon\<close>

definition UnloadBpfmanProgram :: "('w, 'z) Env_scheme \<Rightarrow> uint32 \<Rightarrow> 'w rst \<Rightarrow> unit result \<times> 'w rst" where
  "UnloadBpfmanProgram env progId s =
     (case lift_world (bpfman_Unload env progId) s of
        (Inl err, s') \<Rightarrow> (Inl (''failed to unload bpfProgram via bpfman: '' @ err), s')
      | (Inr _, s') \<Rightarrow> (Inr (), s'))"

definition AttachBpfmanProgram ::
    "('w, 'z) Env_scheme \<Rightarrow> AttachRequest \<Rightarrow> 'w rst \<Rightarrow> uint32 result \<times> 'w rst" where
  "AttachBpfmanProgram env req s =
     (case lift_world (bpfman_Attach env req) s of
        (Inl err, s') \<Rightarrow> (Inl (''failed to attach bpfProgram via bpfman: '' @ err), s')
      | (Inr linkId, s') \<Rightarrow> (Inr linkId, s'))"

definition DetachBpfmanProgram :: "('w, 'z) Env_scheme \<Rightarrow> uint32 \<Rightarrow> 'w rst \<Rightarrow> unit result \<times> 'w rst" where
  "DetachBpfmanProgram env linkId s =
     (case lift_world (bpfman_Detach env linkId) s of
        (Inl err, s') \<Rightarrow> (Inl (''failed to unload bpfProgram via bpfman: '' @ err), s')
      | (Inr _, s') \<Rightarrow> (Inr (), s'))"

definition GetBpfmanProgramById ::
    "('w, 'z) Env_scheme \<Rightarrow> uint32 \<Rightarrow> 'w rst \<Rightarrow> GetResponse result \<times> 'w rst" where
  "GetBpfmanProgramById env progId s = lift_world (bpfman_Get env progId) s"

text \<open>A response entry whose \<^verbatim>\<open>Info\<close> or \<^verbatim>\<open>KernelInfo\<close> is nil is dereferenced: a panic.\<close>

fun GetBpfProgramId :: "string \<Rightarrow> LoadResponseInfo list \<Rightarrow> uint32 result go" where
  "GetBpfProgramId name [] = Some (Inl (''program with name '' @ name @ '' not found''))"
| "GetBpfProgramId name (program # programs) =
     do { info \<leftarrow> lri_Info program;
          if pi_Name info = name
          then do { kid \<leftarrow> lri_KernelId program; Some (Inr kid) }
          else GetBpfProgramId name programs }"

definition imagePullPolicyConversion :: "string \<Rightarrow> int32" where
  "imagePullPolicyConversion policy =
     (if policy = ''Always'' then 0
      else if policy = ''IfNotPresent'' then 1
      else if policy = ''Never'' then 2
      else 1)"

section \<open>Registry credentials\<close>

definition ParseAuth ::
    "('w, 'z) Env_scheme \<Rightarrow> string \<Rightarrow> string \<Rightarrow> 'w rst \<Rightarrow> ContainerConfig option result \<times> 'w rst" where
  "ParseAuth env secretName secretNamespace s =
     (case lift_world (k8s_GetSecret env secretNamespace secretName) s of
        (Inl err, s') \<Rightarrow> (Inl (''failed image auth secret '' @ secretName @ '': '' @ err), s')
      | (Inr sec, s') \<Rightarrow>
          ((case (map_of (sec_Data sec) ''.dockerconfigjson'', map_of (sec_Data sec) ''.dockercfg'') of
              (jsonData, cfgData) \<Rightarrow>
                if sec_Type sec = ''kubernetes.io/dockerconfigjson'' \<and> jsonData \<noteq> None \<and> the jsonData \<noteq> []
                then map_sum id Some (json_DockerConfigJson env (the jsonData))
                else if sec_Type sec = ''kubernetes.io/dockercfg'' \<and> cfgData \<noteq> None \<and> the cfgData \<noteq> []
                then map_sum id Some (json_DockerConfig env (the cfgData))
                else Inr (Some [])), s'))"

definition credentialDomain :: "string \<Rightarrow> string" where
  "credentialDomain domain =
     (if domain = ''docker.io'' \<or> domain = [] then ''https://index.docker.io/v1/'' else domain)"

definition lookupCredential :: "ContainerConfig \<Rightarrow> string \<Rightarrow> ContainerConfigEntry" where
  "lookupCredential creds domain =
     (case map_of creds domain of
        Some c \<Rightarrow> c
      | None \<Rightarrow> \<lparr>Username = [], Password = [], Email = []\<rparr>)"

text \<open>With neither an image nor a path the path pointer is dereferenced: a panic.\<close>

definition GetBytecode ::
    "('w, 'z) Env_scheme \<Rightarrow> ByteCodeSelector \<Rightarrow> 'w rst \<Rightarrow> (BytecodeLocation result \<times> 'w rst) go" where
  "GetBytecode env b s =
     (case bc_Image b of
        Some img \<Rightarrow>
          (case reference_ParseNamed env (bi_Url img) of
             Inl err \<Rightarrow> Some (Inl err, s)
           | Inr ref \<Rightarrow>
               (case bi_ImagePullSecret img of
                  None \<Rightarrow> Some (Inr (BytecodeLocation_Image (bi_Url img)
                             (imagePullPolicyConversion (bi_ImagePullPolicy img)) (Some []) (Some [])), s)
                | Some sec \<Rightarrow>
                    (case ParseAuth env (ips_Name sec) (ips_Namespace sec) s of
                       (Inl err, s') \<Rightarrow> Some (Inl err, s')
                     | (Inr None, s') \<Rightarrow>
                         Some (Inl (''no registry credentials found in secret: &{'' @ ips_Name sec @
                                    '' '' @ ips_Namespace sec @ ''}''), s')
                     | (Inr (Some creds), s') \<Rightarrow>
                         (let cred = lookupCredential creds (credentialDomain (reference_Domain env ref))
                          in Some (Inr (BytecodeLocation_Image (bi_Url img)
                               (imagePullPolicyConversion (bi_ImagePullPolicy img))
                               (Some (Username cred)) (Some (Password cred))), s')))))
      | None \<Rightarrow> do { path \<leftarrow> bc_Path b; Some (Inr (BytecodeLocation_File path), s) })"

section \<open>Lemmas\<close>

lemma lift_world_cache [simp]: "lift_world f s = (x, s') \<Longrightarrow> netns_cache s' = netns_cache s"
  by (auto simp: lift_world_def split: prod.splits)

lemma GetNetNsId_world [simp]: "world (snd (GetNetNsId env p s)) = world s"
  by (simp add: GetNetNsId_def Let_def split: option.split sum.split)

lemma GetNetNsId_empty: "GetNetNsId env [] s = GetNetNsId env hostNetNs s"
  by (simp add: GetNetNsId_def hostNetNs_def)

text \<open>Once a path has resolved it keeps the inode it resolved to until the cache is reset.\<close>

lemma GetNetNsId_cached:
  "GetNetNsId env p s = (Some i, s') \<Longrightarrow> GetNetNsId env' p s'' = (Some i, s'')"
  if "netns_cache s'' = netns_cache s'" for env' :: "('v, 'y) Env_scheme" and s'' :: "'v rst"
  using that by (auto simp: GetNetNsId_def Let_def split: option.splits sum.splits if_splits)

lemma GetNetNsId_extends:
  "GetNetNsId env p s = (r, s') \<Longrightarrow> map_of (netns_cache s) q = Some i \<Longrightarrow>
   map_of (netns_cache s') q = Some i"
  by (auto simp: GetNetNsId_def Let_def split: option.splits sum.splits if_splits)

lemma GetBpfProgramId_found:
  "GetBpfProgramId name rs = Some (Inr i) \<Longrightarrow>
   \<exists>r\<in>set rs. \<exists>inf. lri_Info r = Some inf \<and> pi_Name inf = name \<and> lri_KernelId r = Some i"
  by (induction rs) (auto split: Option.bind_splits if_splits)

lemma GetBytecode_total: "bc_Image b \<noteq> None \<or> bc_Path b \<noteq> None \<Longrightarrow> GetBytecode env b s \<noteq> None"
  by (auto simp: GetBytecode_def Let_def split: option.splits sum.splits prod.splits)

end
