(* ===== verification/Link_Reconcile.thy ===== *)
theory Link_Reconcile
  imports Agent_Env
begin

text \<open>
  The part of \<^verbatim>\<open>controllers/bpfman-agent/common.go\<close> that reconciles one link with the daemon
  (\<^verbatim>\<open>doesLinkExist\<close>, \<^verbatim>\<open>isAttached\<close>, \<^verbatim>\<open>reconcileBpfLink\<close>, \<^verbatim>\<open>isAttachSuccess\<close>, \<^verbatim>\<open>reconcileProgram\<close>) and the loops
  every program reconciler repeats over its list of links: \<^verbatim>\<open>updateLinks\<close>, \<^verbatim>\<open>processLinks\<close>,
  \<^verbatim>\<open>removeLinks\<close>, \<^verbatim>\<open>updateProgramAttachStatus\<close>. A link is any record that extends
  \<^verbatim>\<open>AttachInfoStateCommon\<close>. What differs between program types is an argument: how the expected
  links of one attach point are computed, how a link is looked up among the existing ones, and the
  attach request of a link.

  The locale \<open>program_reconciler\<close> of \<^verbatim>\<open>Link_Contract\<close> states what these loops rely on, and the lemmas
  about them are proved in it once; the theories of the program types interpret it.
\<close>

section \<open>One link\<close>

definition isAttachSuccess :: "bool \<Rightarrow> LinkStatus \<Rightarrow> bool" where
  "isAttachSuccess shouldAttach status =
     (if shouldAttach \<and> status = ApAttachAttached then True
      else if \<not> shouldAttach \<and> status = ApAttachNotAttached then True
      else False)"

definition doesLinkExist ::
    "('w, 'z) Env_scheme \<Rightarrow> uint32 \<Rightarrow> uint32 \<Rightarrow> 'w rst \<Rightarrow> (bool \<times> 'w rst) go" where
  "doesLinkExist env programId linkId s =
     (case GetBpfmanProgramById env programId s of
        (Inl _, s') \<Rightarrow> Some (False, s')
      | (Inr program, s') \<Rightarrow>
          do { info \<leftarrow> gr_Info program; Some (linkId \<in> set (pi_Links info), s') })"

definition isAttached ::
    "('w, 'z) Env_scheme \<Rightarrow> uint32 option \<Rightarrow> 'l AttachInfoStateCommon_scheme \<Rightarrow> 'w rst \<Rightarrow>
     (bool \<times> 'w rst) go" where
  "isAttached env programId link s =
     (case (programId, LinkId link) of
        (Some p, Some l) \<Rightarrow> doesLinkExist env p l s
      | _ \<Rightarrow> Some (False, s))"

text \<open>
  \<^verbatim>\<open>getAttachRequest\<close> dereferences the program id, which the argument \<open>mkReq\<close> models by returning
  no request for a nil id. The result is the updated link, and whether it is to be removed.
\<close>

definition reconcileBpfLink ::
    "('w, 'z) Env_scheme \<Rightarrow>
     (uint32 option \<Rightarrow> 'l AttachInfoStateCommon_scheme \<Rightarrow> AttachRequest go) \<Rightarrow> uint32 option \<Rightarrow>
     'l AttachInfoStateCommon_scheme \<Rightarrow> 'w rst \<Rightarrow>
     (('l AttachInfoStateCommon_scheme \<times> bool) \<times> 'w rst) go" where
  "reconcileBpfLink env mkReq programId link s =
     do { (attached, s) \<leftarrow> isAttached env programId link s;
          (link', s) \<leftarrow>
            (if ShouldAttach link then
               if attached then Some (link\<lparr>LinkStatus := ApAttachAttached\<rparr>, s)
               else do { req \<leftarrow> mkReq programId link;
                         Some (case AttachBpfmanProgram env req s of
                                 (Inl _, s) \<Rightarrow> (link\<lparr>LinkStatus := ApAttachError\<rparr>, s)
                               | (Inr linkId, s) \<Rightarrow>
                                   (link\<lparr>LinkId := Some linkId, LinkStatus := ApAttachAttached\<rparr>, s)) }
             else
               if attached then
                 do { linkId \<leftarrow> LinkId link;
                      Some (case DetachBpfmanProgram env linkId s of
                              (Inl _, s) \<Rightarrow> (link\<lparr>LinkStatus := ApDetachError\<rparr>, s)
                            | (Inr _, s) \<Rightarrow>
                                (link\<lparr>LinkId := None, LinkStatus := ApAttachNotAttached\<rparr>, s)) }
               else Some (link\<lparr>LinkStatus := ApAttachNotAttached\<rparr>, s));
          Some ((link', \<not> ShouldAttach link \<and> LinkStatus link' = ApAttachNotAttached), s) }"

section \<open>The loops over the links of a program\<close>

text \<open>The first loop of \<^verbatim>\<open>updateLinks\<close>.\<close>

definition clearShouldAttach ::
    "'l AttachInfoStateCommon_scheme list \<Rightarrow> 'l AttachInfoStateCommon_scheme list" where
  "clearShouldAttach links = map (\<lambda>l. l\<lparr>ShouldAttach := False\<rparr>) links"

text \<open>Its inner loop: mark a link that is there already, skip one whose lookup fails, add a new one.\<close>

fun addExpectedLinks ::
    "('l AttachInfoStateCommon_scheme \<Rightarrow> 'l AttachInfoStateCommon_scheme list \<Rightarrow> 'w rst \<Rightarrow>
      nat option result \<times> 'w rst) \<Rightarrow>
     'l AttachInfoStateCommon_scheme list \<Rightarrow> 'l AttachInfoStateCommon_scheme list \<Rightarrow> 'w rst \<Rightarrow>
     'l AttachInfoStateCommon_scheme list \<times> 'w rst" where
  "addExpectedLinks findLink [] links s = (links, s)"
| "addExpectedLinks findLink (link # expected) links s =
     (case findLink link links s of
        (Inl err, s) \<Rightarrow> addExpectedLinks findLink expected links s
      | (Inr (Some index), s) \<Rightarrow>
          addExpectedLinks findLink expected (links[index := (links ! index)\<lparr>ShouldAttach := True\<rparr>]) s
      | (Inr None, s) \<Rightarrow> addExpectedLinks findLink expected (links @ [link]) s)"

text \<open>Its outer loop over the attach points of the specification; the first error stops it.\<close>

fun addAttachInfos ::
    "('a \<Rightarrow> 'w rst \<Rightarrow> 'l AttachInfoStateCommon_scheme list result \<times> 'w rst) \<Rightarrow>
     ('l AttachInfoStateCommon_scheme \<Rightarrow> 'l AttachInfoStateCommon_scheme list \<Rightarrow> 'w rst \<Rightarrow>
      nat option result \<times> 'w rst) \<Rightarrow>
     'a list \<Rightarrow> 'l AttachInfoStateCommon_scheme list \<Rightarrow> 'w rst \<Rightarrow>
     (unit result \<times> 'l AttachInfoStateCommon_scheme list) \<times> 'w rst" where
  "addAttachInfos getExpectedLinks findLink [] links s = ((Inr (), links), s)"
| "addAttachInfos getExpectedLinks findLink (attachInfo # rest) links s =
     (case getExpectedLinks attachInfo s of
        (Inl err, s) \<Rightarrow> ((Inl (''failed to get node links: '' @ err), links), s)
      | (Inr expected, s) \<Rightarrow>
          (case addExpectedLinks findLink expected links s of
             (links, s) \<Rightarrow> addAttachInfos getExpectedLinks findLink rest links s))"

definition updateLinks ::
    "('a \<Rightarrow> 'w rst \<Rightarrow> 'l AttachInfoStateCommon_scheme list result \<times> 'w rst) \<Rightarrow>
     ('l AttachInfoStateCommon_scheme \<Rightarrow> 'l AttachInfoStateCommon_scheme list \<Rightarrow> 'w rst \<Rightarrow>
      nat option result \<times> 'w rst) \<Rightarrow>
     'a list \<Rightarrow> bool \<Rightarrow> 'l AttachInfoStateCommon_scheme list \<Rightarrow> 'w rst \<Rightarrow>
     (unit result \<times> 'l AttachInfoStateCommon_scheme list) \<times> 'w rst" where
  "updateLinks getExpectedLinks findLink specLinks isBeingDeleted links s =
     (let links = clearShouldAttach links in
      if isBeingDeleted then ((Inr (), links), s)
      else addAttachInfos getExpectedLinks findLink specLinks links s)"

text \<open>
  The loop of \<^verbatim>\<open>processLinks\<close>: the updated links, and for each index whether it goes into the map
  \<^verbatim>\<open>linksToRemove\<close>. The error result of \<^verbatim>\<open>reconcileBpfLink\<close> is always nil.
\<close>

fun reconcileEach ::
    "('w, 'z) Env_scheme \<Rightarrow>
     (uint32 option \<Rightarrow> 'l AttachInfoStateCommon_scheme \<Rightarrow> AttachRequest go) \<Rightarrow> uint32 option \<Rightarrow>
     'l AttachInfoStateCommon_scheme list \<Rightarrow> 'w rst \<Rightarrow>
     (('l AttachInfoStateCommon_scheme \<times> bool) list \<times> 'w rst) go" where
  "reconcileEach env mkReq programId [] s = Some ([], s)"
| "reconcileEach env mkReq programId (link # links) s =
     do { (lr, s) \<leftarrow> reconcileBpfLink env mkReq programId link s;
          (lrs, s) \<leftarrow> reconcileEach env mkReq programId links s;
          Some (lr # lrs, s) }"

definition removeLinks :: "'l list \<Rightarrow> (nat \<Rightarrow> bool) \<Rightarrow> 'l list" where
  "removeLinks links linksToRemove = remove_from 0 linksToRemove links"

fun updateProgramAttachStatus :: "'l AttachInfoStateCommon_scheme list \<Rightarrow> ProgramLinkStatus" where
  "updateProgramAttachStatus [] = ProgAttachSuccess"
| "updateProgramAttachStatus (link # links) =
     (if \<not> isAttachSuccess (ShouldAttach link) (LinkStatus link) then ProgAttachError
      else updateProgramAttachStatus links)"

definition processLinks ::
    "('w, 'z) Env_scheme \<Rightarrow>
     (uint32 option \<Rightarrow> 'l AttachInfoStateCommon_scheme \<Rightarrow> AttachRequest go) \<Rightarrow> uint32 option \<Rightarrow>
     'l AttachInfoStateCommon_scheme list \<Rightarrow> 'w rst \<Rightarrow>
     (('l AttachInfoStateCommon_scheme list \<times> ProgramLinkStatus) \<times> 'w rst) go" where
  "processLinks env mkReq programId links s =
     do { (lrs, s) \<leftarrow> reconcileEach env mkReq programId links s;
          let links = map fst lrs;
          let linksToRemove = (\<lambda>i. i < length lrs \<and> snd (lrs ! i));
          let links = (if \<exists>i<length lrs. linksToRemove i then removeLinks links linksToRemove else links);
          Some ((links, updateProgramAttachStatus links), s) }"

text \<open>
  The methods \<^verbatim>\<open>updateLinks\<close> and \<^verbatim>\<open>processLinks\<close> of a program reconciler work on the list of links
  inside the program state. Where that list is differs between the types, so how to get at it
  (\<open>None\<close> is the nil dereference) and how to store it back are arguments.
\<close>

definition progUpdateLinks ::
    "('p BpfProgramStateCommon_scheme \<Rightarrow> 'l AttachInfoStateCommon_scheme list go) \<Rightarrow>
     ('l AttachInfoStateCommon_scheme list \<Rightarrow> 'p BpfProgramStateCommon_scheme \<Rightarrow>
      'p BpfProgramStateCommon_scheme) \<Rightarrow>
     ('a \<Rightarrow> 'w rst \<Rightarrow> 'l AttachInfoStateCommon_scheme list result \<times> 'w rst) \<Rightarrow>
     ('l AttachInfoStateCommon_scheme \<Rightarrow> 'l AttachInfoStateCommon_scheme list \<Rightarrow> 'w rst \<Rightarrow>
      nat option result \<times> 'w rst) \<Rightarrow>
     'a list \<Rightarrow> bool \<Rightarrow> 'p BpfProgramStateCommon_scheme \<Rightarrow> 'w rst \<Rightarrow>
     ((unit result \<times> 'p BpfProgramStateCommon_scheme) \<times> 'w rst) go" where
  "progUpdateLinks getLinks setLinks getExpectedLinks findLink specLinks isBeingDeleted ps s =
     do { links \<leftarrow> getLinks ps;
          Some (case updateLinks getExpectedLinks findLink specLinks isBeingDeleted links s of
                  ((r, links), s) \<Rightarrow> ((r, setLinks links ps), s)) }"

definition progProcessLinks ::
    "('w, 'z) Env_scheme \<Rightarrow>
     ('p BpfProgramStateCommon_scheme \<Rightarrow> 'l AttachInfoStateCommon_scheme list go) \<Rightarrow>
     ('l AttachInfoStateCommon_scheme list \<Rightarrow> 'p BpfProgramStateCommon_scheme \<Rightarrow>
      'p BpfProgramStateCommon_scheme) \<Rightarrow>
     (uint32 option \<Rightarrow> 'l AttachInfoStateCommon_scheme \<Rightarrow> AttachRequest go) \<Rightarrow>
     'p BpfProgramStateCommon_scheme \<Rightarrow> 'w rst \<Rightarrow> ('p BpfProgramStateCommon_scheme \<times> 'w rst) go" where
  "progProcessLinks env getLinks setLinks getAttachRequest ps s =
     do { links \<leftarrow> getLinks ps;
          ((links, status), s) \<leftarrow> processLinks env getAttachRequest (ProgramId ps) links s;
          Some ((setLinks links ps)\<lparr>ProgramLinkStatus := status\<rparr>, s) }"

text \<open>
  \<^verbatim>\<open>reconcileProgram\<close>: the two methods of the program reconciler it calls are arguments, each a
  transformer of the program state.
\<close>

definition reconcileProgram ::
    "(bool \<Rightarrow> 'p BpfProgramStateCommon_scheme \<Rightarrow> 'w rst \<Rightarrow>
       ((unit result \<times> 'p BpfProgramStateCommon_scheme) \<times> 'w rst) go) \<Rightarrow>
     ('p BpfProgramStateCommon_scheme \<Rightarrow> 'w rst \<Rightarrow> ('p BpfProgramStateCommon_scheme \<times> 'w rst) go) \<Rightarrow>
     bool \<Rightarrow> 'p BpfProgramStateCommon_scheme \<Rightarrow> 'w rst \<Rightarrow>
     ((unit result \<times> 'p BpfProgramStateCommon_scheme) \<times> 'w rst) go" where
  "reconcileProgram update process isBeingDeleted ps s =
     do { ((r, ps), s) \<leftarrow> update isBeingDeleted ps s;
          case r of
            Inl err \<Rightarrow> Some ((Inl err, ps\<lparr>ProgramLinkStatus := UpdateAttachInfoError\<rparr>), s)
          | Inr _ \<Rightarrow> do { (ps, s) \<leftarrow> process ps s; Some ((Inr (), ps), s) } }"

section \<open>One link: what reconcileBpfLink does\<close>

lemma isAttachSuccess_iff:
  "isAttachSuccess sa st \<longleftrightarrow> st = (if sa then ApAttachAttached else ApAttachNotAttached)"
  by (simp add: isAttachSuccess_def)

lemma updateProgramAttachStatus_eq:
  "updateProgramAttachStatus links =
     (if \<forall>l\<in>set links. isAttachSuccess (ShouldAttach l) (LinkStatus l) then ProgAttachSuccess
      else ProgAttachError)"
  by (induction links) auto

text \<open>The six ways through \<^verbatim>\<open>reconcileBpfLink\<close>.\<close>

lemma reconcileBpfLink_cases:
  assumes "reconcileBpfLink env mkReq p link s = Some ((link', rm), s')"
  obtains
    (already) "ShouldAttach link" "isAttached env p link s = Some (True, s')"
      "link' = link\<lparr>LinkStatus := ApAttachAttached\<rparr>" "\<not> rm"
  | (attach) t req i where "ShouldAttach link" "isAttached env p link s = Some (False, t)"
      "mkReq p link = Some req" "AttachBpfmanProgram env req t = (Inr i, s')"
      "link' = link\<lparr>LinkId := Some i, LinkStatus := ApAttachAttached\<rparr>" "\<not> rm"
  | (attach_error) t req e where "ShouldAttach link" "isAttached env p link s = Some (False, t)"
      "mkReq p link = Some req" "AttachBpfmanProgram env req t = (Inl e, s')"
      "link' = link\<lparr>LinkStatus := ApAttachError\<rparr>" "\<not> rm"
  | (detach) t i where "\<not> ShouldAttach link" "isAttached env p link s = Some (True, t)"
      "LinkId link = Some i" "DetachBpfmanProgram env i t = (Inr (), s')"
      "link' = link\<lparr>LinkId := None, LinkStatus := ApAttachNotAttached\<rparr>" "rm"
  | (detach_error) t i e where "\<not> ShouldAttach link" "isAttached env p link s = Some (True, t)"
      "LinkId link = Some i" "DetachBpfmanProgram env i t = (Inl e, s')"
      "link' = link\<lparr>LinkStatus := ApDetachError\<rparr>" "\<not> rm"
  | (gone) "\<not> ShouldAttach link" "isAttached env p link s = Some (False, s')"
      "link' = link\<lparr>LinkStatus := ApAttachNotAttached\<rparr>" "rm"
proof -
  from assms obtain a t where at: "isAttached env p link s = Some (a, t)"
    unfolding reconcileBpfLink_def by (cases "isAttached env p link s") auto
  note red = assms [unfolded reconcileBpfLink_def at]
  consider "ShouldAttach link" "a" | "ShouldAttach link" "\<not> a" | "\<not> ShouldAttach link" "a"
    | "\<not> ShouldAttach link" "\<not> a" by blast
  then show thesis
  proof cases
    case 1
    with red at already show thesis by simp
  next
    case 2
    with red obtain req where req: "mkReq p link = Some req" by (cases "mkReq p link") simp_all
    show thesis
    proof (cases "AttachBpfmanProgram env req t")
      case (Pair r u)
      with 2 red at req attach attach_error show thesis by (cases r) auto
    qed
  next
    case 3
    with red obtain i where i: "LinkId link = Some i" by (cases "LinkId link") simp_all
    show thesis
    proof (cases "DetachBpfmanProgram env i t")
      case (Pair r u)
      with 3 red at i detach detach_error show thesis by (cases r) auto
    qed
  next
    case 4
    with red at gone show thesis by simp
  qed
qed

text \<open>The fields it may write are the link id and the status.\<close>

lemma reconcileBpfLink_frame:
  assumes "reconcileBpfLink env mkReq p link s = Some ((link', rm), s')"
  shows "\<exists>i st. link' = link\<lparr>LinkId := i, LinkStatus := st\<rparr>"
proof -
  have upd: "link\<lparr>LinkStatus := st\<rparr> = link\<lparr>LinkId := LinkId link, LinkStatus := st\<rparr>" for st
    by (cases link) simp
  from assms show ?thesis
    by (cases rule: reconcileBpfLink_cases) (blast intro: upd)+
qed

lemma reconcileBpfLink_ShouldAttach:
  "reconcileBpfLink env mkReq p link s = Some ((link', rm), s') \<Longrightarrow> ShouldAttach link' = ShouldAttach link"
  by (auto dest: reconcileBpfLink_frame)

text \<open>A link that should attach ends attached or with an attach error; one that should not, off or with a detach error.\<close>

lemma reconcileBpfLink_status:
  assumes "reconcileBpfLink env mkReq p link s = Some ((link', rm), s')"
  shows "LinkStatus link' \<in> (if ShouldAttach link then {ApAttachAttached, ApAttachError}
                             else {ApAttachNotAttached, ApDetachError})"
    and "rm \<longleftrightarrow> \<not> ShouldAttach link \<and> LinkStatus link' = ApAttachNotAttached"
  using assms by (cases rule: reconcileBpfLink_cases; simp)+

text \<open>The nil dereference: a link to attach and no program id.\<close>

lemma reconcileBpfLink_panic:
  assumes "ShouldAttach link" and "mkReq None link = None"
  shows "reconcileBpfLink env mkReq None link s = None"
  using assms by (simp add: reconcileBpfLink_def isAttached_def)

section \<open>The loops\<close>

lemma reconcileEach_list_all2:
  "reconcileEach env mkReq p links s = Some (lrs, s') \<Longrightarrow>
   list_all2 (\<lambda>l lr. \<exists>t t'. reconcileBpfLink env mkReq p l t = Some (lr, t')) links lrs"
proof (induction links arbitrary: s lrs)
  case (Cons l ls)
  then show ?case by (fastforce split: Option.bind_splits)
qed simp

lemma remove_from_filter:
  "(\<And>j. j < length lrs \<Longrightarrow> del (k + j) = snd (lrs ! j)) \<Longrightarrow>
   remove_from k del (map fst lrs) = map fst (filter (\<lambda>lr. \<not> snd lr) lrs)"
proof (induction lrs arbitrary: k)
  case (Cons lr lrs)
  from Cons.prems [of 0] have "del k = snd lr" by simp
  moreover have "remove_from (Suc k) del (map fst lrs) = map fst (filter (\<lambda>lr. \<not> snd lr) lrs)"
    using Cons.prems [of "Suc j" for j] by (intro Cons.IH) auto
  ultimately show ?case by simp
qed simp

lemma processLinks_eq:
  "processLinks env mkReq p links s =
     map_option (\<lambda>(lrs, s'). let ls = map fst (filter (\<lambda>lr. \<not> snd lr) lrs)
                              in ((ls, updateProgramAttachStatus ls), s'))
       (reconcileEach env mkReq p links s)"
proof -
  have "(if \<exists>i<length lrs. i < length lrs \<and> snd (lrs ! i)
         then removeLinks (map fst lrs) (\<lambda>i. i < length lrs \<and> snd (lrs ! i)) else map fst lrs)
        = map fst (filter (\<lambda>lr. \<not> snd lr) lrs)" for lrs :: "('a AttachInfoStateCommon_scheme \<times> bool) list"
  proof (cases "\<exists>i<length lrs. snd (lrs ! i)")
    case True
    then show ?thesis
      using remove_from_filter [of lrs "\<lambda>i. i < length lrs \<and> snd (lrs ! i)" 0]
      by (simp add: removeLinks_def)
  next
    case False
    then have "filter (\<lambda>lr. \<not> snd lr) lrs = lrs"
      unfolding filter_id_conv by (metis in_set_conv_nth)
    with False show ?thesis by auto
  qed
  then show ?thesis
    by (cases "reconcileEach env mkReq p links s") (auto simp: processLinks_def Let_def split: prod.splits)
qed

end
