(* ===== verification/Link_Contract.thy ===== *)
theory Link_Contract
  imports Link_Reconcile
begin

text \<open>
  The interface between the link loops of \<^verbatim>\<open>Link_Reconcile\<close> and the code of one program type, and
  what follows from it.

  The locale \<open>link_finder\<close> is the contract of \<^verbatim>\<open>findLink\<close>: a lookup compares keys, fails exactly
  when the link it looks for has no key (its network namespace does not resolve) and changes
  nothing but the cache. The locale \<open>program_reconciler\<close> adds \<^verbatim>\<open>getExpectedLinks\<close> and
  \<^verbatim>\<open>getAttachRequest\<close>. The lemmas about \<^verbatim>\<open>updateLinks\<close> are proved in the locales; every program type
  interprets them.

  The second half states what the agent relies on from the bpfman daemon
  (\<open>daemon_contract\<close>) and proves that \<^verbatim>\<open>processLinks\<close> then keeps the recorded link state true.
\<close>

section \<open>Marking links\<close>

text \<open>All that \<^verbatim>\<open>updateLinks\<close> does to a link that is there already is to set the flag.\<close>

definition marked :: "'l AttachInfoStateCommon_scheme \<Rightarrow> 'l AttachInfoStateCommon_scheme \<Rightarrow> bool" where
  "marked a b \<longleftrightarrow> b = a \<or> b = a\<lparr>ShouldAttach := True\<rparr>"

lemma marked_refl [simp, intro]: "marked a a"
  by (simp add: marked_def)

lemma marked_set [simp, intro]: "marked a (a\<lparr>ShouldAttach := True\<rparr>)"
  by (simp add: marked_def)

lemma marked_trans: "marked a b \<Longrightarrow> marked b c \<Longrightarrow> marked a c"
  by (auto simp: marked_def)

lemma marked_list_trans:
  "list_all2 marked xs ys \<Longrightarrow> list_all2 marked ys zs \<Longrightarrow> list_all2 marked xs zs"
  by (rule list_all2_trans [OF marked_trans])

lemma marked_list_update:
  "i < length ls \<Longrightarrow> list_all2 marked ls (ls[i := (ls ! i)\<lparr>ShouldAttach := True\<rparr>])"
  by (auto simp: list_all2_conv_all_nth nth_list_update)

text \<open>
  The expected links of a run of \<^verbatim>\<open>updateLinks\<close>, each with the state its lookup starts from: a
  ghost of the outer loop, to say what the run must have produced.
\<close>

fun expectedRun ::
    "('a \<Rightarrow> 'w rst \<Rightarrow> 'l AttachInfoStateCommon_scheme list result \<times> 'w rst) \<Rightarrow>
     ('l AttachInfoStateCommon_scheme \<Rightarrow> 'l AttachInfoStateCommon_scheme list \<Rightarrow> 'w rst \<Rightarrow>
      nat option result \<times> 'w rst) \<Rightarrow>
     'a list \<Rightarrow> 'l AttachInfoStateCommon_scheme list \<Rightarrow> 'w rst \<Rightarrow>
     ('l AttachInfoStateCommon_scheme \<times> 'w rst) list" where
  "expectedRun g f [] ls s = []"
| "expectedRun g f (a # as) ls s =
     (case g a s of
        (Inl _, s1) \<Rightarrow> []
      | (Inr es, s1) \<Rightarrow>
          map (\<lambda>e. (e, s1)) es @
          (case addExpectedLinks f es ls s1 of (ls2, s2) \<Rightarrow> expectedRun g f as ls2 s2))"

text \<open>No two links of a list name the same attach point.\<close>

definition unique_links :: "('l \<Rightarrow> 'l \<Rightarrow> bool) \<Rightarrow> 'l list \<Rightarrow> bool" where
  "unique_links exact ls = sorted_wrt (\<lambda>a b. \<not> exact a b) ls"

section \<open>The contract of a lookup\<close>

locale link_finder =
  fixes findLink :: "'l AttachInfoStateCommon_scheme \<Rightarrow> 'l AttachInfoStateCommon_scheme list \<Rightarrow> 'w rst \<Rightarrow>
                     nat option result \<times> 'w rst"
    and key :: "'w rst \<Rightarrow> 'l AttachInfoStateCommon_scheme \<Rightarrow> 'k option"
    and same :: "'l AttachInfoStateCommon_scheme \<Rightarrow> 'l AttachInfoStateCommon_scheme \<Rightarrow> bool"
    and exact :: "'l AttachInfoStateCommon_scheme \<Rightarrow> 'l AttachInfoStateCommon_scheme \<Rightarrow> bool"
  assumes find_none: "key s l = None \<Longrightarrow> \<exists>e. fst (findLink l ls s) = Inl e"
    and find_some: "key s l = Some k \<Longrightarrow>
                    fst (findLink l ls s) = Inr (find_index (\<lambda>a. key s a = Some k) ls)"
    and find_key: "key (snd (findLink l ls s)) = key s"
    and find_world: "world (snd (findLink l ls s)) = world s"
    and key_flag: "key s (l\<lparr>ShouldAttach := flag\<rparr>) = key s l"
    and key_same: "key s a = Some k \<Longrightarrow> key s b = Some k \<Longrightarrow> same a b"
    and same_flag: "same (a\<lparr>ShouldAttach := flag\<rparr>) c = same a c"
    and same_state: "same (a\<lparr>LinkId := i, LinkStatus := st\<rparr>) c = same a c"
    and exact_key: "exact a b \<Longrightarrow> key s a = key s b"
    and exact_flag: "exact (a\<lparr>ShouldAttach := flag\<rparr>) c = exact a c"
                    "exact c (a\<lparr>ShouldAttach := flag\<rparr>) = exact c a"
    and exact_state: "exact (a\<lparr>LinkId := i, LinkStatus := st\<rparr>) c = exact a c"
                     "exact c (a\<lparr>LinkId := i, LinkStatus := st\<rparr>) = exact c a"
begin

lemma marked_key: "marked a b \<Longrightarrow> key s b = key s a"
  by (auto simp: marked_def key_flag)

text \<open>The three outcomes of a lookup, and what the loop goes on with.\<close>

lemma find_cases:
  obtains (failed) e s1 where "findLink l ls s = (Inl e, s1)" "key s1 = key s" "world s1 = world s"
      "key s l = None"
  | (found) i s1 k where "findLink l ls s = (Inr (Some i), s1)" "key s1 = key s" "world s1 = world s"
      "key s l = Some k" "i < length ls" "key s (ls ! i) = Some k"
  | (absent) s1 k where "findLink l ls s = (Inr None, s1)" "key s1 = key s" "world s1 = world s"
      "key s l = Some k" "\<forall>a\<in>set ls. key s a \<noteq> Some k"
proof -
  obtain r s1 where f: "findLink l ls s = (r, s1)" by (cases "findLink l ls s")
  from f have st: "key s1 = key s" "world s1 = world s"
    using find_key [of l ls s] find_world [of l ls s] by simp_all
  show thesis
  proof (cases "key s l")
    case None
    with find_none [OF None, of ls] f st failed show thesis by auto
  next
    case (Some k)
    note r = find_some [OF Some, of ls, unfolded f fst_conv]
    show thesis
    proof (cases "find_index (\<lambda>a. key s a = Some k) ls")
      case None
      then have "\<forall>a\<in>set ls. key s a \<noteq> Some k" by (simp add: find_index_from_None_iff)
      with f r None st \<open>key s l = Some k\<close> show thesis by (intro absent [OF _ st]) simp_all
    next
      case (Some i)
      from find_index_SomeD [OF this] have "i < length ls" "key s (ls ! i) = Some k" by simp_all
      with f r Some st \<open>key s l = Some k\<close> show thesis by (intro found [OF _ st]) simp_all
    qed
  qed
qed

lemma add_step:
  assumes "addExpectedLinks findLink (l # es) ls s = (ls', s')"
  obtains (failed) s1 where "addExpectedLinks findLink es ls s1 = (ls', s')"
      "key s1 = key s" "world s1 = world s" "key s l = None"
  | (found) i s1 k where
      "addExpectedLinks findLink es (ls[i := (ls ! i)\<lparr>ShouldAttach := True\<rparr>]) s1 = (ls', s')"
      "key s1 = key s" "world s1 = world s"
      "key s l = Some k" "i < length ls" "key s (ls ! i) = Some k"
  | (absent) s1 k where "addExpectedLinks findLink es (ls @ [l]) s1 = (ls', s')"
      "key s1 = key s" "world s1 = world s" "key s l = Some k" "\<forall>a\<in>set ls. key s a \<noteq> Some k"
  using assms by (cases rule: find_cases [of l ls s]) simp_all

lemma add_state:
  "addExpectedLinks findLink es ls s = (ls', s') \<Longrightarrow> key s' = key s \<and> world s' = world s"
proof (induction es arbitrary: ls s)
  case (Cons e es)
  from Cons.prems show ?case by (cases rule: add_step) (use Cons.IH in fastforce)+
qed simp

text \<open>What was there stays, in its place; what is new was expected.\<close>

lemma add_frame:
  "addExpectedLinks findLink es ls s = (ls', s') \<Longrightarrow>
   \<exists>new. set new \<subseteq> set es \<and> list_all2 marked (ls @ new) ls'"
proof (induction es arbitrary: ls s)
  case Nil
  then show ?case by (auto intro!: exI [of _ "[]"] list.rel_refl)
next
  case (Cons e es)
  from Cons.prems show ?case
  proof (cases rule: add_step)
    case (failed s1)
    from Cons.IH [OF failed(1)] show ?thesis by auto
  next
    case (found i s1 k)
    let ?ls1 = "ls[i := (ls ! i)\<lparr>ShouldAttach := True\<rparr>]"
    from Cons.IH [OF found(1)] obtain new
      where new: "set new \<subseteq> set es" "list_all2 marked (?ls1 @ new) ls'" by blast
    have "list_all2 marked (ls @ new) (?ls1 @ new)"
      by (intro list_all2_appendI marked_list_update found) (auto intro: list.rel_refl)
    with new show ?thesis by (auto intro: marked_list_trans)
  next
    case (absent s1 k)
    from Cons.IH [OF absent(1)] obtain new
      where "set new \<subseteq> set es" "list_all2 marked ((ls @ [e]) @ new) ls'" by blast
    then show ?thesis by (intro exI [of _ "e # new"]) auto
  qed
qed

lemma add_keeps_wanted:
  assumes "addExpectedLinks findLink es ls s = (ls', s')" and "l \<in> set ls" and "ShouldAttach l"
  shows "l \<in> set ls'"
proof -
  from add_frame [OF assms(1)] obtain new where m: "list_all2 marked (ls @ new) ls'" by blast
  from assms(2) obtain i where i: "i < length ls" "ls ! i = l" by (auto simp: in_set_conv_nth)
  with list_all2_nthD [OF m, of i] list_all2_lengthD [OF m]
  have "marked l (ls' ! i)" "i < length ls'" by (auto simp: nth_append)
  with \<open>ShouldAttach l\<close> show ?thesis by (cases l) (auto simp: marked_def in_set_conv_nth)
qed

text \<open>Every expected link that has a key is covered by a wanted link.\<close>

lemma add_covers:
  assumes "addExpectedLinks findLink es ls s = (ls', s')" and "\<forall>e\<in>set es. ShouldAttach e"
    and "e \<in> set es" and "key s e = Some k"
  shows "\<exists>l\<in>set ls'. ShouldAttach l \<and> key s l = Some k"
  using assms
proof (induction es arbitrary: ls s)
  case (Cons x es)
  show ?case
  proof (cases "e \<in> set es")
    case True
    from Cons.prems(1) obtain ls1 s1
      where "addExpectedLinks findLink es ls1 s1 = (ls', s')" "key s1 = key s"
      by (cases rule: add_step) auto
    from Cons.IH [OF this(1)] True Cons.prems this(2) show ?thesis by auto
  next
    case False
    with Cons.prems have x: "key s x = Some k" "ShouldAttach x" by auto
    from Cons.prems(1) show ?thesis
    proof (cases rule: add_step)
      case (found i s1 k')
      let ?l = "(ls ! i)\<lparr>ShouldAttach := True\<rparr>"
      have "?l \<in> set ls'"
        using found by (intro add_keeps_wanted [OF found(1)]) (auto simp: set_update_memI)
      with found x show ?thesis by (intro bexI [of _ ?l]) (auto simp: key_flag)
    next
      case (absent s1 k')
      have "x \<in> set ls'" using x by (intro add_keeps_wanted [OF absent(1)]) auto
      with x show ?thesis by auto
    qed (use x in simp)
  qed
qed simp

text \<open>Conversely a link ends wanted only if it was, or an expected link has its key.\<close>

lemma add_justified:
  assumes "addExpectedLinks findLink es ls s = (ls', s')" and "l \<in> set ls'" and "ShouldAttach l"
  shows "l \<in> set ls \<or> (\<exists>e\<in>set es. \<exists>k. key s e = Some k \<and> key s l = Some k)"
  using assms(1)
proof (induction es arbitrary: ls s)
  case Nil
  with assms show ?case by simp
next
  case (Cons x es)
  from Cons.prems show ?case
  proof (cases rule: add_step)
    case (failed s1)
    from Cons.IH [OF failed(1)] failed show ?thesis by auto
  next
    case (found i s1 k)
    let ?l = "(ls ! i)\<lparr>ShouldAttach := True\<rparr>"
    have "l \<in> set (ls[i := ?l]) \<Longrightarrow> l \<in> set ls \<or> l = ?l"
      by (metis insertE set_update_subset_insert subsetD)
    with Cons.IH [OF found(1)] found show ?thesis by (auto simp: key_flag)
  next
    case (absent s1 k)
    from Cons.IH [OF absent(1)] absent show ?thesis by auto
  qed
qed

text \<open>No lookup ever adds a second copy of a link.\<close>

lemma marked_unique:
  "list_all2 marked ls ls' \<Longrightarrow> unique_links exact ls' = unique_links exact ls"
proof -
  assume m: "list_all2 marked ls ls'"
  have "exact (ls' ! i) (ls' ! j) = exact (ls ! i) (ls ! j)" if "i < length ls" "j < length ls" for i j
    using list_all2_nthD [OF m that(1)] list_all2_nthD [OF m that(2)]
    by (auto simp: marked_def exact_flag)
  with m show ?thesis
    by (auto simp: unique_links_def sorted_wrt_iff_nth_less dest: list_all2_lengthD)
qed

lemma add_unique:
  assumes "addExpectedLinks findLink es ls s = (ls', s')" and "unique_links exact ls"
  shows "unique_links exact ls'"
  using assms
proof (induction es arbitrary: ls s)
  case (Cons x es)
  from Cons.prems(1) show ?case
  proof (cases rule: add_step)
    case (failed s1)
    with Cons show ?thesis by blast
  next
    case (found i s1 k)
    with marked_unique [OF marked_list_update [OF found(5)]] Cons show ?thesis by blast
  next
    case (absent s1 k)
    then have "\<forall>a\<in>set ls. \<not> exact a x" using exact_key [of _ x s] by metis
    with Cons.prems(2) have "unique_links exact (ls @ [x])"
      by (simp add: unique_links_def sorted_wrt_append)
    with absent Cons show ?thesis by blast
  qed
qed simp

end

section \<open>The contract of a program type\<close>

definition UuidMetadataKey :: string where
  "UuidMetadataKey = ''bpfman.io/uuid''"

locale program_reconciler = link_finder findLink key same exact
  for findLink :: "'l AttachInfoStateCommon_scheme \<Rightarrow> 'l AttachInfoStateCommon_scheme list \<Rightarrow> 'w rst \<Rightarrow>
                   nat option result \<times> 'w rst"
    and key :: "'w rst \<Rightarrow> 'l AttachInfoStateCommon_scheme \<Rightarrow> 'k option"
    and same :: "'l AttachInfoStateCommon_scheme \<Rightarrow> 'l AttachInfoStateCommon_scheme \<Rightarrow> bool"
    and exact :: "'l AttachInfoStateCommon_scheme \<Rightarrow> 'l AttachInfoStateCommon_scheme \<Rightarrow> bool" +
  fixes getExpectedLinks :: "'a \<Rightarrow> 'w rst \<Rightarrow> 'l AttachInfoStateCommon_scheme list result \<times> 'w rst"
    and getAttachRequest :: "uint32 option \<Rightarrow> 'l AttachInfoStateCommon_scheme \<Rightarrow> AttachRequest go"
  assumes expected_new: "getExpectedLinks a s = (Inr es, s') \<Longrightarrow> e \<in> set es \<Longrightarrow>
                         ShouldAttach e \<and> LinkId e = None \<and> LinkStatus e = ApAttachNotAttached"
    and request_nil: "getAttachRequest None l = None"
    and request_id: "\<exists>req. getAttachRequest (Some p) l = Some req \<and> ar_Id req = p \<and>
                           AttachInfo_Metadata (ar_Attach req) = [(UuidMetadataKey, UUID l)]"
begin

abbreviation run :: "'a list \<Rightarrow> 'l AttachInfoStateCommon_scheme list \<Rightarrow> 'w rst \<Rightarrow>
                     ('l AttachInfoStateCommon_scheme \<times> 'w rst) list" where
  "run \<equiv> expectedRun getExpectedLinks findLink"

abbreviation addAll where
  "addAll \<equiv> addAttachInfos getExpectedLinks findLink"

lemma addAll_step:
  assumes "addAll (a # as) ls s = ((Inr (), ls'), s')"
  obtains es s1 ls2 s2 where "getExpectedLinks a s = (Inr es, s1)"
    "addExpectedLinks findLink es ls s1 = (ls2, s2)" "addAll as ls2 s2 = ((Inr (), ls'), s')"
    "run (a # as) ls s = map (\<lambda>e. (e, s1)) es @ run as ls2 s2"
proof (cases "getExpectedLinks a s")
  case (Pair r s1)
  with assms obtain es where r: "r = Inr es" by (cases r) simp_all
  show thesis
  proof (cases "addExpectedLinks findLink es ls s1")
    case (Pair ls2 s2)
    with \<open>getExpectedLinks a s = (r, s1)\<close> r assms that show thesis by simp
  qed
qed

lemma addAll_keeps_wanted:
  assumes "addAll as ls s = ((Inr (), ls'), s')" and "l \<in> set ls" and "ShouldAttach l"
  shows "l \<in> set ls'"
  using assms
proof (induction as arbitrary: ls s)
  case (Cons a as)
  from Cons.prems(1) show ?case
    by (cases rule: addAll_step) (use Cons add_keeps_wanted in blast)
qed simp

lemma addAll_covers:
  assumes "addAll as ls s = ((Inr (), ls'), s')" and "(e, t) \<in> set (run as ls s)" and "key t e \<noteq> None"
  shows "\<exists>l\<in>set ls'. ShouldAttach l \<and> same l e"
  using assms
proof (induction as arbitrary: ls s)
  case (Cons a as)
  from Cons.prems(1) show ?case
  proof (cases rule: addAll_step)
    case (1 es s1 ls2 s2)
    from 1(4) Cons.prems(2) consider "e \<in> set es" "t = s1" | "(e, t) \<in> set (run as ls2 s2)" by auto
    then show ?thesis
    proof cases
      case 1: 1
      from Cons.prems(3) obtain k where "key t e = Some k" by blast
      with 1 add_covers [OF \<open>addExpectedLinks findLink es ls s1 = (ls2, s2)\<close>, of e k]
      obtain l where "l \<in> set ls2" "ShouldAttach l" "key s1 l = Some k"
        using expected_new [OF \<open>getExpectedLinks a s = (Inr es, s1)\<close>] by blast
      with 1 \<open>key t e = Some k\<close> show ?thesis
        using addAll_keeps_wanted [OF \<open>addAll as ls2 s2 = ((Inr (), ls'), s')\<close>] key_same by blast
    next
      case 2
      with Cons.IH \<open>addAll as ls2 s2 = ((Inr (), ls'), s')\<close> Cons.prems(3) show ?thesis by blast
    qed
  qed
qed simp

lemma addAll_justified:
  assumes "addAll as ls s = ((Inr (), ls'), s')" and "l \<in> set ls'" and "ShouldAttach l"
  shows "l \<in> set ls \<or> (\<exists>(e, t)\<in>set (run as ls s). key t e \<noteq> None \<and> same l e)"
  using assms(1)
proof (induction as arbitrary: ls s)
  case Nil
  with assms show ?case by simp
next
  case (Cons a as)
  from Cons.prems show ?case
  proof (cases rule: addAll_step)
    case (1 es s1 ls2 s2)
    from Cons.IH [OF 1(3)] consider "l \<in> set ls2"
      | "\<exists>(e, t)\<in>set (run as ls2 s2). key t e \<noteq> None \<and> same l e" by blast
    then show ?thesis
    proof cases
      case 1: 1
      from add_justified [OF \<open>addExpectedLinks findLink es ls s1 = (ls2, s2)\<close> this assms(3)]
      show ?thesis using 1 \<open>run (a # as) ls s = _\<close> key_same by fastforce
    qed (use 1 in auto)
  qed
qed

lemma addAll_unique:
  "addAll as ls s = ((r, ls'), s') \<Longrightarrow> unique_links exact ls \<Longrightarrow> unique_links exact ls'"
proof (induction as arbitrary: ls s)
  case (Cons a as)
  show ?case
  proof (cases "getExpectedLinks a s")
    case (Pair q s1)
    show ?thesis
    proof (cases q)
      case (Inl e)
      with Pair Cons.prems show ?thesis by simp
    next
      case (Inr es)
      obtain ls2 s2 where a: "addExpectedLinks findLink es ls s1 = (ls2, s2)" by fastforce
      from add_unique [OF a Cons.prems(2)] Cons.IH Cons.prems(1) Pair Inr a show ?thesis by simp
    qed
  qed
qed simp

lemma clear_unique: "unique_links exact (clearShouldAttach ls) = unique_links exact ls"
  by (simp add: unique_links_def clearShouldAttach_def sorted_wrt_map exact_flag)

text \<open>\<^verbatim>\<open>updateLinks\<close> of an application that stays: the wanted links are the expected ones.\<close>

lemma update_covers:
  "updateLinks getExpectedLinks findLink as False ls s = ((Inr (), ls'), s') \<Longrightarrow>
   (e, t) \<in> set (run as (clearShouldAttach ls) s) \<Longrightarrow> key t e \<noteq> None \<Longrightarrow>
   \<exists>l\<in>set ls'. ShouldAttach l \<and> same l e"
  by (simp add: updateLinks_def addAll_covers)

lemma update_justified:
  "updateLinks getExpectedLinks findLink as False ls s = ((Inr (), ls'), s') \<Longrightarrow>
   l \<in> set ls' \<Longrightarrow> ShouldAttach l \<Longrightarrow>
   \<exists>(e, t)\<in>set (run as (clearShouldAttach ls) s). key t e \<noteq> None \<and> same l e"
  using addAll_justified [of as "clearShouldAttach ls" s ls' s' l]
  by (auto simp: updateLinks_def clearShouldAttach_def)

lemma update_unique:
  "updateLinks getExpectedLinks findLink as b ls s = ((r, ls'), s') \<Longrightarrow> unique_links exact ls \<Longrightarrow>
   unique_links exact ls'"
  by (auto simp: updateLinks_def clear_unique Let_def split: if_splits dest: addAll_unique)

text \<open>The attach request never fails for a loaded program and never exists for one that is not.\<close>

lemma reconcile_nil_panics:
  "ShouldAttach l \<Longrightarrow> l \<in> set ls \<Longrightarrow> processLinks env getAttachRequest None ls s = None"
proof -
  assume l: "ShouldAttach l" "l \<in> set ls"
  then have "reconcileEach env getAttachRequest None ls s = None"
  proof (induction ls arbitrary: s)
    case (Cons x xs)
    show ?case
    proof (cases "x = l")
      case True
      with Cons.prems show ?thesis by (simp add: reconcileBpfLink_panic request_nil)
    next
      case False
      with Cons have "reconcileEach env getAttachRequest None xs t = None" for t by simp
      then show ?thesis by (auto split: Option.bind_splits)
    qed
  qed simp
  then show ?thesis by (simp add: processLinks_def)
qed

end

end
