(* ===== verification/Daemon_Contract.thy ===== *)
theory Daemon_Contract
  imports Link_Contract
begin

text \<open>
  What the agent relies on from the bpfman daemon, and what \<^verbatim>\<open>processLinks\<close> guarantees on top of it.

  \<open>live w p\<close> is the set of link ids the daemon holds for program \<open>p\<close> in world \<open>w\<close>, and
  \<open>issued w\<close> the ids it has handed out. \<open>daemon_contract\<close> collects the documented behaviour of
  the calls of the gRPC interface: \<^verbatim>\<open>Get\<close> reports the links of the program and changes nothing,
  \<^verbatim>\<open>Attach\<close> adds one link under an id never handed out before, \<^verbatim>\<open>Detach\<close> removes one, and a call
  that fails changes nothing.
\<close>

section \<open>The contract\<close>

definition daemon_contract ::
    "('w, 'z) Env_scheme \<Rightarrow> ('w \<Rightarrow> uint32 \<Rightarrow> uint32 set) \<Rightarrow> ('w \<Rightarrow> uint32 set) \<Rightarrow> bool" where
  "daemon_contract env live issued \<longleftrightarrow>
     (\<forall>p w r w'. bpfman_Get env p w = (r, w') \<longrightarrow>
        live w' = live w \<and> issued w' = issued w \<and>
        (\<forall>g. r = Inr g \<longrightarrow> (\<exists>info. gr_Info g = Some info \<and> set (pi_Links info) = live w p))) \<and>
     (\<forall>req w e w'. bpfman_Attach env req w = (Inl e, w') \<longrightarrow> live w' = live w \<and> issued w' = issued w) \<and>
     (\<forall>req w i w'. bpfman_Attach env req w = (Inr i, w') \<longrightarrow>
        i \<notin> issued w \<and> issued w' = insert i (issued w) \<and>
        live w' = (live w)(ar_Id req := insert i (live w (ar_Id req)))) \<and>
     (\<forall>i w e w'. bpfman_Detach env i w = (Inl e, w') \<longrightarrow> live w' = live w \<and> issued w' = issued w) \<and>
     (\<forall>i w w'. bpfman_Detach env i w = (Inr (), w') \<longrightarrow>
        issued w' = issued w \<and> live w' = (\<lambda>p. live w p - {i}))"

text \<open>\<^verbatim>\<open>Get\<close> answers for program \<open>p\<close>, in every world a run may pass through.\<close>

definition get_answers :: "('w, 'z) Env_scheme \<Rightarrow> uint32 \<Rightarrow> bool" where
  "get_answers env p \<longleftrightarrow> (\<forall>w. \<exists>g w'. bpfman_Get env p w = (Inr g, w'))"

text \<open>The ids recorded in a list of links.\<close>

fun linkIds :: "'l AttachInfoStateCommon_scheme list \<Rightarrow> uint32 list" where
  "linkIds [] = []"
| "linkIds (l # ls) = (case LinkId l of None \<Rightarrow> linkIds ls | Some i \<Rightarrow> i # linkIds ls)"

lemma set_linkIds: "set (linkIds ls) = {i. \<exists>l\<in>set ls. LinkId l = Some i}"
  by (induction ls) (auto split: option.splits)

section \<open>The calls of the agent\<close>

definition unchanged :: "('w \<Rightarrow> 'a) \<Rightarrow> ('w \<Rightarrow> 'b) \<Rightarrow> 'w rst \<Rightarrow> 'w rst \<Rightarrow> bool" where
  "unchanged live issued s s' \<longleftrightarrow> live (world s') = live (world s) \<and> issued (world s') = issued (world s)"

lemma contract_Get:
  assumes "daemon_contract env live issued" and "GetBpfmanProgramById env p s = (r, s')"
  shows "unchanged live issued s s'"
    and "r = Inr g \<Longrightarrow> \<exists>info. gr_Info g = Some info \<and> set (pi_Links info) = live (world s) p"
proof -
  from assms(2) obtain w' where w': "bpfman_Get env p (world s) = (r, w')" "s' = s\<lparr>world := w'\<rparr>"
    by (auto simp: GetBpfmanProgramById_def lift_world_def split: prod.splits)
  with assms(1) show "unchanged live issued s s'"
    and "r = Inr g \<Longrightarrow> \<exists>info. gr_Info g = Some info \<and> set (pi_Links info) = live (world s) p"
    unfolding daemon_contract_def unchanged_def by auto
qed

lemma contract_Attach:
  assumes "daemon_contract env live issued"
  shows "AttachBpfmanProgram env req s = (Inl e, s') \<Longrightarrow> unchanged live issued s s'"
    and "AttachBpfmanProgram env req s = (Inr i, s') \<Longrightarrow>
         i \<notin> issued (world s) \<and> issued (world s') = insert i (issued (world s)) \<and>
         live (world s') = (live (world s))(ar_Id req := insert i (live (world s) (ar_Id req)))"
  using assms unfolding daemon_contract_def AttachBpfmanProgram_def lift_world_def unchanged_def
  by (auto split: prod.splits sum.splits)

lemma contract_Detach:
  assumes "daemon_contract env live issued"
  shows "DetachBpfmanProgram env i s = (Inl e, s') \<Longrightarrow> unchanged live issued s s'"
    and "DetachBpfmanProgram env i s = (Inr (), s') \<Longrightarrow>
         issued (world s') = issued (world s) \<and> live (world s') = (\<lambda>p. live (world s) p - {i})"
  using assms unfolding daemon_contract_def DetachBpfmanProgram_def lift_world_def unchanged_def
  by (auto split: prod.splits sum.splits)

section \<open>One link\<close>

lemma isAttached_unchanged:
  assumes "daemon_contract env live issued" and "isAttached env p l s = Some (a, s')"
  shows "unchanged live issued s s'"
proof (cases "\<exists>q i. p = Some q \<and> LinkId l = Some i")
  case True
  then obtain q i where qi: "p = Some q" "LinkId l = Some i" by blast
  obtain r t where g: "GetBpfmanProgramById env q s = (r, t)" by fastforce
  with assms(2) qi have "s' = t"
    by (cases r) (auto simp: isAttached_def doesLinkExist_def split: Option.bind_splits)
  with contract_Get(1) [OF assms(1) g] show ?thesis by simp
next
  case False
  with assms(2) have "s' = s" by (auto simp: isAttached_def split: option.splits)
  then show ?thesis by (simp add: unchanged_def)
qed

lemma isAttached_True:
  assumes "daemon_contract env live issued" and "isAttached env (Some q) l s = Some (True, s')"
  shows "\<exists>i. LinkId l = Some i \<and> i \<in> live (world s) q"
proof -
  from assms(2) obtain i where i: "LinkId l = Some i"
    by (cases "LinkId l") (simp_all add: isAttached_def)
  obtain r t where g: "GetBpfmanProgramById env q s = (r, t)" by fastforce
  with assms(2) i obtain g' where r: "r = Inr g'"
    by (cases r) (simp_all add: isAttached_def doesLinkExist_def)
  from contract_Get(2) [OF assms(1) g r] obtain info
    where "gr_Info g' = Some info" "set (pi_Links info) = live (world s) q" by blast
  with r i g assms(2) show ?thesis by (simp add: isAttached_def doesLinkExist_def)
qed

lemma isAttached_answers:
  assumes "daemon_contract env live issued" and "get_answers env q"
  shows "\<exists>s'. isAttached env (Some q) l s =
           Some (case LinkId l of None \<Rightarrow> False | Some i \<Rightarrow> i \<in> live (world s) q, s')"
proof (cases "LinkId l")
  case (Some i)
  obtain r t where g: "GetBpfmanProgramById env q s = (r, t)" by fastforce
  from assms(2) obtain g' w' where "bpfman_Get env q (world s) = (Inr g', w')"
    unfolding get_answers_def by blast
  with g have r: "r = Inr g'" by (simp add: GetBpfmanProgramById_def lift_world_def)
  from contract_Get(2) [OF assms(1) g r] obtain info
    where "gr_Info g' = Some info" "set (pi_Links info) = live (world s) q" by blast
  with r Some g show ?thesis by (simp add: isAttached_def doesLinkExist_def)
qed (simp add: isAttached_def)

text \<open>
  One call of \<^verbatim>\<open>reconcileBpfLink\<close>: ids are only added, only the link at hand is touched, a link
  that ends attached is live, and the id it carries is its own old one or a new one.
\<close>

lemma reconcileBpfLink_contract:
  assumes dc: "daemon_contract env live issued"
    and req: "\<forall>l req. mkReq (Some p) l = Some req \<longrightarrow> ar_Id req = p"
    and r: "reconcileBpfLink env mkReq (Some p) l s = Some ((l', rm), s')"
  shows "issued (world s) \<subseteq> issued (world s')"
    and "j \<in> issued (world s) \<Longrightarrow> LinkId l \<noteq> Some j \<Longrightarrow>
         j \<in> live (world s') q \<longleftrightarrow> j \<in> live (world s) q"
    and "LinkStatus l' = ApAttachAttached \<Longrightarrow> \<exists>i. LinkId l' = Some i \<and> i \<in> live (world s') p"
    and "LinkId l' = Some i \<Longrightarrow> LinkId l = Some i \<or> i \<in> issued (world s') - issued (world s)"
proof -
  have goals: "issued (world s) \<subseteq> issued (world s') \<and>
    (\<forall>j q. j \<in> issued (world s) \<longrightarrow> LinkId l \<noteq> Some j \<longrightarrow>
       (j \<in> live (world s') q \<longleftrightarrow> j \<in> live (world s) q)) \<and>
    (LinkStatus l' = ApAttachAttached \<longrightarrow> (\<exists>i. LinkId l' = Some i \<and> i \<in> live (world s') p)) \<and>
    (\<forall>i. LinkId l' = Some i \<longrightarrow> LinkId l = Some i \<or> i \<in> issued (world s') - issued (world s))"
    using r
  proof (cases rule: reconcileBpfLink_cases)
    case already
    with isAttached_unchanged [OF dc] isAttached_True [OF dc] show ?thesis
      by (fastforce simp: unchanged_def)
  next
    case (attach t req i)
    with isAttached_unchanged [OF dc attach(2)] contract_Attach(2) [OF dc attach(4)] assms(2)
    show ?thesis by (auto simp: unchanged_def)
  next
    case (attach_error t req e)
    with isAttached_unchanged [OF dc attach_error(2)] contract_Attach(1) [OF dc attach_error(4)]
    show ?thesis by (auto simp: unchanged_def)
  next
    case (detach t i)
    with isAttached_unchanged [OF dc detach(2)] contract_Detach(2) [OF dc detach(4)]
    show ?thesis by (auto simp: unchanged_def)
  next
    case (detach_error t i e)
    with isAttached_unchanged [OF dc detach_error(2)] contract_Detach(1) [OF dc detach_error(4)]
    show ?thesis by (auto simp: unchanged_def)
  next
    case gone
    with isAttached_unchanged [OF dc gone(2)] show ?thesis by (auto simp: unchanged_def)
  qed
  from goals show "issued (world s) \<subseteq> issued (world s')"
    and "j \<in> issued (world s) \<Longrightarrow> LinkId l \<noteq> Some j \<Longrightarrow>
         j \<in> live (world s') q \<longleftrightarrow> j \<in> live (world s) q"
    and "LinkStatus l' = ApAttachAttached \<Longrightarrow> \<exists>i. LinkId l' = Some i \<and> i \<in> live (world s') p"
    and "LinkId l' = Some i \<Longrightarrow> LinkId l = Some i \<or> i \<in> issued (world s') - issued (world s)"
    by blast+
qed

section \<open>All the links of a program\<close>

text \<open>
  What \<^verbatim>\<open>reconcileEach\<close> keeps over the list: ids of other programs' links and of links not in the list
  are untouched, attached links are live when the loop ends, and ids stay distinct.
\<close>

lemma reconcileEach_contract:
  assumes dc: "daemon_contract env live issued"
    and req: "\<forall>l req. mkReq (Some p) l = Some req \<longrightarrow> ar_Id req = p"
    and "reconcileEach env mkReq (Some p) ls s = Some (lrs, s')"
    and "distinct (linkIds ls)" and "set (linkIds ls) \<subseteq> issued (world s)"
  shows "issued (world s) \<subseteq> issued (world s') \<and>
    (\<forall>j q. j \<in> issued (world s) - set (linkIds ls) \<longrightarrow>
       (j \<in> live (world s') q \<longleftrightarrow> j \<in> live (world s) q)) \<and>
    (\<forall>lr\<in>set lrs. LinkStatus (fst lr) = ApAttachAttached \<longrightarrow>
       (\<exists>i. LinkId (fst lr) = Some i \<and> i \<in> live (world s') p)) \<and>
    set (linkIds (map fst lrs)) \<subseteq> set (linkIds ls) \<union> (issued (world s') - issued (world s)) \<and>
    distinct (linkIds (map fst lrs))"
  using assms(3-5)
proof (induction ls arbitrary: s lrs)
  case (Cons l ls)
  from Cons.prems(1) obtain l' rm s1 lrs' where
    h: "reconcileBpfLink env mkReq (Some p) l s = Some ((l', rm), s1)" and
    t: "reconcileEach env mkReq (Some p) ls s1 = Some (lrs', s')" and lrs: "lrs = (l', rm) # lrs'"
    by (auto simp: bind_eq_Some_conv)
  note hd = reconcileBpfLink_contract [OF dc req h]
  from Cons.prems(2,3) hd(1) have pre: "distinct (linkIds ls)" "set (linkIds ls) \<subseteq> issued (world s1)"
    by (auto split: option.splits)
  note tl = Cons.IH [OF t pre]
  have own: "i \<in> issued (world s1) - set (linkIds ls)" if "LinkId l' = Some i" for i
    using hd(4) [OF that] Cons.prems(2,3) hd(1) by (auto split: option.splits)
  have truth: "\<exists>i. LinkId l' = Some i \<and> i \<in> live (world s') p" if a: "LinkStatus l' = ApAttachAttached"
    using hd(3) [OF a] own tl by blast
  have frame: "j \<in> live (world s') q \<longleftrightarrow> j \<in> live (world s) q"
    if "j \<in> issued (world s) - set (linkIds (l # ls))" for j q
    using that hd(1) hd(2) [of j q] tl by (auto split: option.splits)
  have ids: "set (linkIds (map fst lrs)) \<subseteq> set (linkIds (l # ls)) \<union> (issued (world s') - issued (world s))"
    using hd(1,4) tl lrs by (auto split: option.splits)
  have dist: "distinct (linkIds (map fst lrs))"
    using own tl lrs by (auto split: option.splits)
  from hd(1) tl truth frame ids dist lrs show ?case by auto
qed simp

lemma linkIds_filter:
  "set (linkIds (map fst (filter P lrs))) \<subseteq> set (linkIds (map fst lrs))"
  "distinct (linkIds (map fst lrs)) \<Longrightarrow> distinct (linkIds (map fst (filter P lrs)))"
proof -
  show sub: "set (linkIds (map fst (filter P lrs))) \<subseteq> set (linkIds (map fst lrs))"
    for lrs :: "('a AttachInfoStateCommon_scheme \<times> 'b) list"
    by (induction lrs) (auto split: option.splits)
  show "distinct (linkIds (map fst lrs)) \<Longrightarrow> distinct (linkIds (map fst (filter P lrs)))"
    using sub by (induction lrs) (auto split: option.splits)
qed

lemma processLinks_contract:
  assumes dc: "daemon_contract env live issued"
    and req: "\<forall>l req. mkReq (Some p) l = Some req \<longrightarrow> ar_Id req = p"
    and pl: "processLinks env mkReq (Some p) ls s = Some ((ls', st), s')"
    and ids: "distinct (linkIds ls)" "set (linkIds ls) \<subseteq> issued (world s)"
  shows "\<forall>l\<in>set ls'. LinkStatus l = ApAttachAttached \<longrightarrow> (\<exists>i. LinkId l = Some i \<and> i \<in> live (world s') p)"
    and "distinct (linkIds ls') \<and> set (linkIds ls') \<subseteq> issued (world s')"
    and "j \<in> issued (world s) \<Longrightarrow> j \<notin> set (linkIds ls) \<Longrightarrow>
         j \<in> live (world s') q \<longleftrightarrow> j \<in> live (world s) q"
proof -
  from pl obtain lrs where r: "reconcileEach env mkReq (Some p) ls s = Some (lrs, s')"
    and ls': "ls' = map fst (filter (\<lambda>lr. \<not> snd lr) lrs)"
    by (auto simp: processLinks_eq Let_def)
  note c = reconcileEach_contract [OF dc req r ids]
  show "\<forall>l\<in>set ls'. LinkStatus l = ApAttachAttached \<longrightarrow> (\<exists>i. LinkId l = Some i \<and> i \<in> live (world s') p)"
    using c ls' by auto
  show "distinct (linkIds ls') \<and> set (linkIds ls') \<subseteq> issued (world s')"
    using c ls' ids linkIds_filter [where lrs = lrs and P = "\<lambda>lr. \<not> snd lr"] by blast
  show "j \<in> issued (world s) \<Longrightarrow> j \<notin> set (linkIds ls) \<Longrightarrow>
         j \<in> live (world s') q \<longleftrightarrow> j \<in> live (world s) q"
    using c by blast
qed

section \<open>Totality, results and the fixed point\<close>

text \<open>A loaded program whose daemon answers never panics.\<close>

lemma reconcileBpfLink_total:
  assumes "daemon_contract env live issued" and "mkReq (Some p) l \<noteq> None"
  shows "reconcileBpfLink env mkReq (Some p) l s \<noteq> None"
proof -
  obtain a t where at: "isAttached env (Some p) l s = Some (a, t)"
  proof (cases "LinkId l")
    case (Some i)
    obtain r u where g: "GetBpfmanProgramById env p s = (r, u)" by fastforce
    with contract_Get(2) [OF assms(1) g] Some that show thesis
      by (cases r) (auto simp: isAttached_def doesLinkExist_def)
  next
    case None
    then have "isAttached env (Some p) l s = Some (False, s)" by (simp add: isAttached_def)
    with that show thesis by blast
  qed
  moreover have "LinkId l \<noteq> None" if "a"
    using at that by (cases "LinkId l") (simp_all add: isAttached_def)
  ultimately show ?thesis using assms(2)
    by (auto simp: reconcileBpfLink_def split: prod.split)
qed

lemma processLinks_total:
  assumes "daemon_contract env live issued" and "\<And>l. mkReq (Some p) l \<noteq> None"
  shows "processLinks env mkReq (Some p) ls s \<noteq> None"
proof -
  have "reconcileEach env mkReq (Some p) ls s \<noteq> None"
  proof (induction ls arbitrary: s)
    case (Cons l ls)
    from reconcileBpfLink_total [of env live issued mkReq p l s, OF assms]
    obtain lr t where "reconcileBpfLink env mkReq (Some p) l s = Some (lr, t)" by (auto simp: not_None_eq)
    with Cons.IH [of t] show ?case by auto
  qed simp
  then show ?thesis by (simp add: processLinks_eq)
qed

text \<open>The links that are left, and when the program counts as attached.\<close>

lemma reconcileEach_links:
  assumes "reconcileEach env mkReq p ls s = Some (lrs, s')" and "lr \<in> set lrs"
  shows "\<exists>l\<in>set ls. \<exists>t t'. reconcileBpfLink env mkReq p l t = Some (lr, t')"
proof -
  note all2 = reconcileEach_list_all2 [OF assms(1)]
  from assms(2) obtain i where "i < length lrs" "lrs ! i = lr" by (auto simp: in_set_conv_nth)
  with list_all2_nthD2 [OF all2, of i] list_all2_lengthD [OF all2] show ?thesis
    by (metis nth_mem)
qed

lemma processLinks_left:
  assumes "processLinks env mkReq p ls s = Some ((ls', st), s')" and "l \<in> set ls'"
  shows "if ShouldAttach l then LinkStatus l \<in> {ApAttachAttached, ApAttachError}
         else LinkStatus l = ApDetachError"
proof -
  from assms obtain lrs where r: "reconcileEach env mkReq p ls s = Some (lrs, s')"
    and lr: "(l, False) \<in> set lrs"
    by (auto simp: processLinks_eq Let_def)
  from reconcileEach_links [OF r lr] obtain l0 t t'
    where b: "reconcileBpfLink env mkReq p l0 t = Some ((l, False), t')" by blast
  from reconcileBpfLink_status [OF b] reconcileBpfLink_ShouldAttach [OF b] show ?thesis
    by (auto split: if_splits)
qed

lemma processLinks_success:
  assumes "processLinks env mkReq p ls s = Some ((ls', st), s')"
  shows "st = (if \<forall>l\<in>set ls'. ShouldAttach l \<and> LinkStatus l = ApAttachAttached
               then ProgAttachSuccess else ProgAttachError)"
proof -
  from assms have "st = updateProgramAttachStatus ls'" by (auto simp: processLinks_eq Let_def)
  with processLinks_left [OF assms] show ?thesis
    by (auto simp: updateProgramAttachStatus_eq isAttachSuccess_iff split: if_splits)
qed

text \<open>No link is lost: one that is still live at the end is still on the list.\<close>

lemma reconcileBpfLink_no_leak:
  assumes dc: "daemon_contract env live issued" and ga: "get_answers env p"
    and req: "\<forall>l req. mkReq (Some p) l = Some req \<longrightarrow> ar_Id req = p"
    and r: "reconcileBpfLink env mkReq (Some p) l s = Some ((l', rm), s')"
    and i: "LinkId l = Some i" "i \<in> issued (world s)" "i \<in> live (world s') p"
  shows "\<not> rm \<and> LinkId l' = Some i"
proof -
  obtain t0 where a: "isAttached env (Some p) l s = Some (i \<in> live (world s) p, t0)"
    using isAttached_answers [OF dc ga, of l s] i(1) by auto
  note u = isAttached_unchanged [OF dc a, unfolded unchanged_def]
  from r show ?thesis
  proof (cases rule: reconcileBpfLink_cases)
    case (attach t q j)
    with a u i contract_Attach(2) [OF dc attach(4)] show ?thesis by (auto split: if_splits)
  next
    case (detach t j)
    with i contract_Detach(2) [OF dc detach(4)] show ?thesis by auto
  next
    case gone
    with a u i show ?thesis by auto
  qed (use i in auto)
qed

lemma reconcileEach_no_leak:
  assumes dc: "daemon_contract env live issued" and ga: "get_answers env p"
    and req: "\<forall>l req. mkReq (Some p) l = Some req \<longrightarrow> ar_Id req = p"
    and "reconcileEach env mkReq (Some p) ls s = Some (lrs, s')"
    and "distinct (linkIds ls)" and "set (linkIds ls) \<subseteq> issued (world s)"
    and "i \<in> set (linkIds ls)" and "i \<in> live (world s') p"
  shows "\<exists>l. (l, False) \<in> set lrs \<and> LinkId l = Some i"
  using assms(4-8)
proof (induction ls arbitrary: s lrs)
  case (Cons l ls)
  from Cons.prems(1) obtain l' rm s1 lrs' where
    h: "reconcileBpfLink env mkReq (Some p) l s = Some ((l', rm), s1)" and
    t: "reconcileEach env mkReq (Some p) ls s1 = Some (lrs', s')" and lrs: "lrs = (l', rm) # lrs'"
    by (auto simp: bind_eq_Some_conv)
  note hd = reconcileBpfLink_contract [OF dc req h]
  from Cons.prems(2,3) hd(1) have pre: "distinct (linkIds ls)" "set (linkIds ls) \<subseteq> issued (world s1)"
    by (auto split: option.splits)
  show ?case
  proof (cases "i \<in> set (linkIds ls)")
    case True
    from Cons.IH [OF t pre True Cons.prems(5)] lrs show ?thesis by auto
  next
    case False
    with Cons.prems(3,4) have l: "LinkId l = Some i" "i \<in> issued (world s)"
      by (auto split: option.splits)
    with False hd(1) reconcileEach_contract [OF dc req t pre] Cons.prems(5)
    have "i \<in> live (world s1) p" by blast
    from reconcileBpfLink_no_leak [OF dc ga req h l this] lrs show ?thesis by auto
  qed
qed simp

lemma processLinks_no_leak:
  assumes "daemon_contract env live issued" and "get_answers env p"
    and "\<forall>l req. mkReq (Some p) l = Some req \<longrightarrow> ar_Id req = p"
    and pl: "processLinks env mkReq (Some p) ls s = Some ((ls', st), s')"
    and "distinct (linkIds ls)" and "set (linkIds ls) \<subseteq> issued (world s)"
    and "i \<in> set (linkIds ls)" and "i \<in> live (world s') p"
  shows "i \<in> set (linkIds ls')"
proof -
  from pl obtain lrs where r: "reconcileEach env mkReq (Some p) ls s = Some (lrs, s')"
    and ls': "ls' = map fst (filter (\<lambda>lr. \<not> snd lr) lrs)"
    by (auto simp: processLinks_eq Let_def)
  from reconcileEach_no_leak [OF assms(1-3) r assms(5-8)] ls' show ?thesis
    by (force simp: set_linkIds)
qed

text \<open>The fixed point: once everything is attached, another pass changes nothing, here or in the daemon.\<close>

lemma reconcileEach_stable:
  assumes dc: "daemon_contract env live issued" and ga: "get_answers env p"
    and "\<forall>l\<in>set ls. ShouldAttach l \<and> LinkStatus l = ApAttachAttached \<and>
                     (\<exists>i. LinkId l = Some i \<and> i \<in> live (world s) p)"
  shows "\<exists>s'. reconcileEach env mkReq (Some p) ls s = Some (map (\<lambda>l. (l, False)) ls, s') \<and>
              unchanged live issued s s'"
  using assms(3)
proof (induction ls arbitrary: s)
  case (Cons l ls)
  from Cons.prems obtain i where l: "ShouldAttach l" "LinkStatus l = ApAttachAttached"
    "LinkId l = Some i" "i \<in> live (world s) p" by auto
  obtain t where a: "isAttached env (Some p) l s = Some (True, t)"
    using isAttached_answers [OF dc ga, of l s] l by auto
  have "l\<lparr>LinkStatus := ApAttachAttached\<rparr> = l" using l(2) by (cases l) simp
  with a l have h: "reconcileBpfLink env mkReq (Some p) l s = Some ((l, False), t)"
    by (simp add: reconcileBpfLink_def)
  note u = isAttached_unchanged [OF dc a, unfolded unchanged_def]
  have "\<exists>s'. reconcileEach env mkReq (Some p) ls t = Some (map (\<lambda>l. (l, False)) ls, s') \<and>
             unchanged live issued t s'"
    using Cons.prems u by (intro Cons.IH) simp
  with h u show ?case by (auto simp: unchanged_def)
qed (simp add: unchanged_def)

lemma processLinks_stable:
  assumes dc: "daemon_contract env live issued" and ga: "get_answers env p"
    and req: "\<forall>l req. mkReq (Some p) l = Some req \<longrightarrow> ar_Id req = p"
    and pl: "processLinks env mkReq (Some p) ls s = Some ((ls', ProgAttachSuccess), s')"
    and ids: "distinct (linkIds ls)" "set (linkIds ls) \<subseteq> issued (world s)"
  shows "\<exists>s''. processLinks env mkReq (Some p) ls' s' = Some ((ls', ProgAttachSuccess), s'') \<and>
               unchanged live issued s' s''"
proof -
  from processLinks_success [OF pl] have ok: "\<forall>l\<in>set ls'. ShouldAttach l \<and> LinkStatus l = ApAttachAttached"
    by (auto split: if_splits)
  with processLinks_contract(1) [OF dc req pl ids]
  obtain s'' where "reconcileEach env mkReq (Some p) ls' s' = Some (map (\<lambda>l. (l, False)) ls', s'')"
    and "unchanged live issued s' s''"
    using reconcileEach_stable [OF dc ga, of ls' s' mkReq] by blast
  moreover have "map fst (filter (\<lambda>lr. \<not> snd lr) (map (\<lambda>l. (l, False)) ls')) = ls'"
    by (induction ls') auto
  moreover have "updateProgramAttachStatus ls' = ProgAttachSuccess"
    using ok by (simp add: updateProgramAttachStatus_eq isAttachSuccess_iff)
  ultimately show ?thesis by (simp add: processLinks_eq Let_def)
qed

end
