(* ===== verification/Program_Contract.thy ===== *)
theory Program_Contract
  imports Daemon_Contract
begin

text \<open>
  The complete contract of a program type: the lookup, the expected links and the attach request of
  \<^verbatim>\<open>Link_Contract\<close>, and where the links live in the program state. The locale \<open>program_type\<close>
  proves, once for all program types, what a whole \<^verbatim>\<open>reconcileProgram\<close> achieves: which links the
  program ends with, that \<^verbatim>\<open>Success\<close> means every expected link is attached in the daemon, that
  nothing is leaked, and that a second run changes nothing.
\<close>

text \<open>Creating a UUID and listing containers do not touch the daemon.\<close>

definition daemon_quiet ::
    "('w, 'z) Env_scheme \<Rightarrow> ('w \<Rightarrow> uint32 \<Rightarrow> uint32 set) \<Rightarrow> ('w \<Rightarrow> uint32 set) \<Rightarrow> bool" where
  "daemon_quiet env live issued \<longleftrightarrow>
     (\<forall>w u w'. uuid_New env w = (u, w') \<longrightarrow> live w' = live w \<and> issued w' = issued w) \<and>
     (\<forall>ns sel names w r w'. Containers_GetContainers env ns sel names w = (r, w') \<longrightarrow>
        live w' = live w \<and> issued w' = issued w)"

text \<open>The recorded ids are the daemon's, and no two links share one.\<close>

definition ids_ok :: "('w \<Rightarrow> uint32 set) \<Rightarrow> 'l AttachInfoStateCommon_scheme list \<Rightarrow> 'w rst \<Rightarrow> bool" where
  "ids_ok issued ls s \<longleftrightarrow> distinct (linkIds ls) \<and> set (linkIds ls) \<subseteq> issued (world s)"

lemma unchanged_refl [simp]: "unchanged live issued s s"
  by (simp add: unchanged_def)

lemma unchanged_trans:
  "unchanged live issued s t \<Longrightarrow> unchanged live issued t u \<Longrightarrow> unchanged live issued s u"
  by (simp add: unchanged_def)

lemma unchanged_world: "world s' = world s \<Longrightarrow> unchanged live issued s s'"
  by (simp add: unchanged_def)

lemma linkIds_append: "linkIds (xs @ ys) = linkIds xs @ linkIds ys"
  by (induction xs) (auto split: option.splits)

lemma linkIds_none: "(\<forall>l\<in>set ls. LinkId l = None) \<Longrightarrow> linkIds ls = []"
  by (induction ls) auto

lemma linkIds_marked: "list_all2 marked xs ys \<Longrightarrow> linkIds ys = linkIds xs"
proof (induction rule: list_all2_induct)
  case (Cons x xs y ys)
  then have "LinkId y = LinkId x" by (auto simp: marked_def)
  with Cons show ?case by (simp split: option.split)
qed simp

lemma linkIds_clear [simp]: "linkIds (clearShouldAttach ls) = linkIds ls"
  by (induction ls) (auto simp: clearShouldAttach_def split: option.splits)

locale program_type = program_reconciler findLink key same exact getExpectedLinks getAttachRequest
  for findLink :: "'l AttachInfoStateCommon_scheme \<Rightarrow> 'l AttachInfoStateCommon_scheme list \<Rightarrow> 'w rst \<Rightarrow>
                   nat option result \<times> 'w rst"
    and key :: "'w rst \<Rightarrow> 'l AttachInfoStateCommon_scheme \<Rightarrow> 'k option"
    and same :: "'l AttachInfoStateCommon_scheme \<Rightarrow> 'l AttachInfoStateCommon_scheme \<Rightarrow> bool"
    and exact :: "'l AttachInfoStateCommon_scheme \<Rightarrow> 'l AttachInfoStateCommon_scheme \<Rightarrow> bool"
    and getExpectedLinks :: "'a \<Rightarrow> 'w rst \<Rightarrow> 'l AttachInfoStateCommon_scheme list result \<times> 'w rst"
    and getAttachRequest :: "uint32 option \<Rightarrow> 'l AttachInfoStateCommon_scheme \<Rightarrow> AttachRequest go" +
  fixes env :: "('w, 'z) Env_scheme"
    and getLinks :: "'p BpfProgramStateCommon_scheme \<Rightarrow> 'l AttachInfoStateCommon_scheme list go"
    and setLinks :: "'l AttachInfoStateCommon_scheme list \<Rightarrow> 'p BpfProgramStateCommon_scheme \<Rightarrow>
                     'p BpfProgramStateCommon_scheme"
    and owns :: "'p BpfProgramStateCommon_scheme \<Rightarrow> bool"
  assumes get_set: "owns ps \<Longrightarrow> getLinks ps = Some old \<Longrightarrow> getLinks (setLinks ls ps) = Some ls"
    and set_id: "ProgramId (setLinks ls ps) = ProgramId ps"
    and set_owns: "owns (setLinks ls ps) = owns ps"
    and get_status: "getLinks (ps\<lparr>ProgramLinkStatus := status\<rparr>) = getLinks ps"
    and expected_quiet: "daemon_quiet env live issued \<Longrightarrow> getExpectedLinks a s = (r, s') \<Longrightarrow>
                         unchanged live issued s s'"
begin

abbreviation reconcile :: "'a list \<Rightarrow> bool \<Rightarrow> 'p BpfProgramStateCommon_scheme \<Rightarrow> 'w rst \<Rightarrow>
    ((unit result \<times> 'p BpfProgramStateCommon_scheme) \<times> 'w rst) go" where
  "reconcile specs \<equiv> reconcileProgram
     (progUpdateLinks getLinks setLinks getExpectedLinks findLink specs)
     (progProcessLinks env getLinks setLinks getAttachRequest)"

abbreviation update where
  "update \<equiv> updateLinks getExpectedLinks findLink"

abbreviation proc where
  "proc \<equiv> processLinks env getAttachRequest"

lemma request_ar_id: "\<forall>l req. getAttachRequest (Some p) l = Some req \<longrightarrow> ar_Id req = p"
  using request_id by (metis option.inject)

lemma request_some: "getAttachRequest (Some p) l \<noteq> None"
  using request_id by (metis option.distinct(1))

text \<open>A successful reconcile is the two passes, one after the other.\<close>

lemma reconcile_passes:
  assumes "owns ps" "getLinks ps = Some ls" "reconcile specs b ps s = Some ((Inr (), ps'), s')"
  obtains ls1 s1 ls' where "update specs b ls s = ((Inr (), ls1), s1)"
    "proc (ProgramId ps) ls1 s1 = Some ((ls', ProgramLinkStatus ps'), s')"
    "getLinks ps' = Some ls'" "ProgramId ps' = ProgramId ps" "owns (setLinks ls1 ps)"
proof -
  obtain r ls1 s1 where u: "update specs b ls s = ((r, ls1), s1)" by (metis prod.collapse)
  with assms have r: "r = Inr ()"
    by (cases r) (auto simp: reconcileProgram_def progUpdateLinks_def)
  have g: "getLinks (setLinks ls1 ps) = Some ls1" using get_set assms by blast
  from assms u r g obtain ls' st where
    p: "proc (ProgramId ps) ls1 s1 = Some ((ls', st), s')"
    and ps': "ps' = (setLinks ls' (setLinks ls1 ps))\<lparr>ProgramLinkStatus := st\<rparr>"
    by (auto simp: reconcileProgram_def progUpdateLinks_def progProcessLinks_def set_id bind_eq_Some_conv)
  have "getLinks ps' = Some ls'" using ps' get_status get_set set_owns assms(1) g by metis
  moreover have "ProgramId ps' = ProgramId ps" "ProgramLinkStatus ps' = st"
    using ps' by (simp_all add: set_id)
  ultimately show thesis using u r p that set_owns assms(1) by blast
qed

text \<open>An error of \<^verbatim>\<open>getExpectedLinks\<close> is recorded and stops before the daemon is asked anything.\<close>

lemma reconcile_error:
  assumes "getLinks ps = Some ls" "update specs b ls s = ((Inl e, ls1), s1)"
  shows "reconcile specs b ps s =
         Some ((Inl e, (setLinks ls1 ps)\<lparr>ProgramLinkStatus := UpdateAttachInfoError\<rparr>), s1)"
  using assms by (simp add: reconcileProgram_def progUpdateLinks_def)

lemma addAll_quiet:
  "daemon_quiet env live issued \<Longrightarrow> addAll as ls s = ((r, ls'), s') \<Longrightarrow> unchanged live issued s s'"
proof (induction as arbitrary: ls s)
  case (Cons a as)
  obtain q s1 where g: "getExpectedLinks a s = (q, s1)" by fastforce
  note u1 = expected_quiet [OF Cons.prems(1) g]
  show ?case
  proof (cases q)
    case (Inl e)
    with g Cons.prems u1 show ?thesis by simp
  next
    case (Inr es)
    obtain ls2 s2 where a: "addExpectedLinks findLink es ls s1 = (ls2, s2)" by fastforce
    with g Inr Cons have "unchanged live issued s2 s'" by simp
    with u1 add_state [OF a] show ?thesis by (auto simp: unchanged_def)
  qed
qed simp

lemma addAll_ids: "addAll as ls s = ((r, ls'), s') \<Longrightarrow> linkIds ls' = linkIds ls"
proof (induction as arbitrary: ls s)
  case (Cons a as)
  obtain q s1 where g: "getExpectedLinks a s = (q, s1)" by fastforce
  show ?case
  proof (cases q)
    case (Inl e)
    with g Cons.prems show ?thesis by simp
  next
    case (Inr es)
    obtain ls2 s2 where a: "addExpectedLinks findLink es ls s1 = (ls2, s2)" by fastforce
    from add_frame [OF a] obtain new
      where new: "set new \<subseteq> set es" "list_all2 marked (ls @ new) ls2" by blast
    from new(1) expected_new [OF g [unfolded Inr]] have "linkIds new = []" by (intro linkIds_none) blast
    with linkIds_marked [OF new(2)] have "linkIds ls2 = linkIds ls" by (simp add: linkIds_append)
    with Cons g Inr a show ?thesis by simp
  qed
qed simp

lemma update_ids_ok:
  assumes "daemon_quiet env live issued" "update specs b ls s = ((r, ls1), s1)" "ids_ok issued ls s"
  shows "ids_ok issued ls1 s1" and "unchanged live issued s s1"
proof -
  have "linkIds ls1 = linkIds ls \<and> unchanged live issued s s1"
    using assms(2) addAll_ids [of specs "clearShouldAttach ls" s] addAll_quiet [OF assms(1)]
    by (auto simp: updateLinks_def Let_def split: if_splits)
  with assms(3) show "ids_ok issued ls1 s1" and "unchanged live issued s s1"
    by (auto simp: ids_ok_def unchanged_def)
qed

text \<open>A wanted link survives the second pass, with a new id and status at most.\<close>

lemma proc_keeps_wanted:
  assumes "proc p ls s = Some ((ls', st), s')" "l \<in> set ls" "ShouldAttach l"
  shows "\<exists>i status. l\<lparr>LinkId := i, LinkStatus := status\<rparr> \<in> set ls'"
proof -
  from assms(1) obtain lrs where r: "reconcileEach env getAttachRequest p ls s = Some (lrs, s')"
    and ls': "ls' = map fst (filter (\<lambda>lr. \<not> snd lr) lrs)" by (auto simp: processLinks_eq Let_def)
  note all2 = reconcileEach_list_all2 [OF r]
  from assms(2) obtain n where n: "n < length ls" "ls ! n = l" by (auto simp: in_set_conv_nth)
  with list_all2_nthD [OF all2, of n] obtain t t' where
    b: "reconcileBpfLink env getAttachRequest p l t = Some (lrs ! n, t')" by auto
  obtain l' rm where lr: "lrs ! n = (l', rm)" by fastforce
  from reconcileBpfLink_frame [OF b [unfolded lr]] reconcileBpfLink_status(2) [OF b [unfolded lr]] assms(3)
  obtain i status where "l' = l\<lparr>LinkId := i, LinkStatus := status\<rparr>" "\<not> rm" by blast
  moreover have "(l', rm) \<in> set lrs" using n lr list_all2_lengthD [OF all2] by (metis nth_mem)
  ultimately show ?thesis using ls' by force
qed

lemma proc_from:
  assumes "proc p ls s = Some ((ls', st), s')" "l' \<in> set ls'"
  shows "\<exists>l\<in>set ls. \<exists>i status. l' = l\<lparr>LinkId := i, LinkStatus := status\<rparr>"
proof -
  from assms obtain lrs where r: "reconcileEach env getAttachRequest p ls s = Some (lrs, s')"
    and lr: "(l', False) \<in> set lrs" by (auto simp: processLinks_eq Let_def)
  from reconcileEach_links [OF r lr] show ?thesis using reconcileBpfLink_frame by blast
qed

section \<open>What a reconcile achieves\<close>

lemma reconcile_no_panic:
  assumes "owns ps" "getLinks ps = Some ls" "ProgramId ps = Some p" "daemon_contract env live issued"
  shows "reconcile specs b ps s \<noteq> None"
proof -
  obtain r ls1 s1 where u: "update specs b ls s = ((r, ls1), s1)" by (metis prod.collapse)
  have g: "getLinks (setLinks ls1 ps) = Some ls1" using get_set assms by blast
  from processLinks_total [OF assms(4), of getAttachRequest p ls1 s1, OF request_some]
  obtain q t where p: "proc (Some p) ls1 s1 = Some (q, t)" by fast
  then show ?thesis
    using assms u g
    by (cases r; cases q) (simp_all add: reconcileProgram_def progUpdateLinks_def progProcessLinks_def set_id)
qed

lemma reconcile_nil_id_panics:
  assumes "owns ps" "getLinks ps = Some ls" "ProgramId ps = None"
    and "update specs b ls s = ((Inr (), ls1), s1)" "l \<in> set ls1" "ShouldAttach l"
  shows "reconcile specs b ps s = None"
proof -
  have "getLinks (setLinks ls1 ps) = Some ls1" using get_set assms by blast
  with assms reconcile_nil_panics [OF assms(6,5), of env s1] show ?thesis
    by (simp add: reconcileProgram_def progUpdateLinks_def progProcessLinks_def set_id)
qed

text \<open>\<^verbatim>\<open>Success\<close> means every expected link that resolves is attached, and the daemon holds it.\<close>

lemma reconcile_success:
  assumes ps: "owns ps" "getLinks ps = Some ls" "ProgramId ps = Some p"
    and r: "reconcile specs False ps s = Some ((Inr (), ps'), s')"
    and ok: "ProgramLinkStatus ps' = ProgAttachSuccess"
    and dc: "daemon_contract env live issued" and q: "daemon_quiet env live issued"
    and ids: "ids_ok issued ls s"
    and e: "(e, t) \<in> set (run specs (clearShouldAttach ls) s)" "key t e \<noteq> None"
  shows "\<exists>ls'. getLinks ps' = Some ls' \<and>
           (\<exists>l\<in>set ls'. same l e \<and> LinkStatus l = ApAttachAttached \<and>
              (\<exists>i. LinkId l = Some i \<and> i \<in> live (world s') p))"
proof -
  from reconcile_passes [OF ps(1,2) r] ps(3) ok obtain ls1 s1 ls' where
    u: "update specs False ls s = ((Inr (), ls1), s1)" and
    p: "proc (Some p) ls1 s1 = Some ((ls', ProgAttachSuccess), s')" and g: "getLinks ps' = Some ls'"
    by metis
  from update_covers [OF u e] obtain l where l: "l \<in> set ls1" "ShouldAttach l" "same l e" by blast
  from proc_keeps_wanted [OF p l(1,2)] obtain i st where l': "l\<lparr>LinkId := i, LinkStatus := st\<rparr> \<in> set ls'"
    (is "?l' \<in> _") by blast
  have same: "same ?l' e" using l(3) same_state by metis
  have ids1: "distinct (linkIds ls1)" "set (linkIds ls1) \<subseteq> issued (world s1)"
    using update_ids_ok(1) [OF q u ids] by (simp_all add: ids_ok_def)
  have att: "LinkStatus ?l' = ApAttachAttached"
    using processLinks_success [OF p] l' by (auto split: if_splits)
  with processLinks_contract(1) [OF dc request_ar_id p ids1] l'
  have "\<exists>i. LinkId ?l' = Some i \<and> i \<in> live (world s') p" by blast
  with g l' same att show ?thesis by blast
qed

text \<open>And the list holds nothing else.\<close>

lemma reconcile_success_only:
  assumes ps: "owns ps" "getLinks ps = Some ls"
    and r: "reconcile specs False ps s = Some ((Inr (), ps'), s')"
    and ok: "ProgramLinkStatus ps' = ProgAttachSuccess" "getLinks ps' = Some ls'" "l \<in> set ls'"
  shows "ShouldAttach l \<and> LinkStatus l = ApAttachAttached \<and>
         (\<exists>(e, t)\<in>set (run specs (clearShouldAttach ls) s). key t e \<noteq> None \<and> same l e)"
proof -
  from reconcile_passes [OF ps r] ok obtain ls1 s1 where
    u: "update specs False ls s = ((Inr (), ls1), s1)" and
    p: "proc (ProgramId ps) ls1 s1 = Some ((ls', ProgAttachSuccess), s')"
    by (metis option.inject)
  have w: "ShouldAttach l \<and> LinkStatus l = ApAttachAttached"
    using processLinks_success [OF p] ok(3) by (auto split: if_splits)
  from proc_from [OF p ok(3)] obtain l1 i st where l1: "l1 \<in> set ls1" "l = l1\<lparr>LinkId := i, LinkStatus := st\<rparr>"
    by blast
  with w have "ShouldAttach l1" by simp
  from update_justified [OF u l1(1) this] l1(2) w show ?thesis by (auto simp: same_state)
qed

text \<open>Deleting: whatever is left could not be detached.\<close>

lemma reconcile_deleted:
  assumes ps: "owns ps" "getLinks ps = Some ls"
    and r: "reconcile specs True ps s = Some ((Inr (), ps'), s')"
  shows "\<exists>ls'. getLinks ps' = Some ls' \<and>
           (\<forall>l\<in>set ls'. \<not> ShouldAttach l \<and> LinkStatus l = ApDetachError) \<and>
           (ProgramLinkStatus ps' = ProgAttachSuccess \<longleftrightarrow> ls' = [])"
proof -
  from reconcile_passes [OF ps r] obtain ls1 s1 ls' where
    u: "update specs True ls s = ((Inr (), ls1), s1)" and
    p: "proc (ProgramId ps) ls1 s1 = Some ((ls', ProgramLinkStatus ps'), s')" and g: "getLinks ps' = Some ls'"
    by metis
  from u have "\<forall>l\<in>set ls1. \<not> ShouldAttach l" by (auto simp: updateLinks_def clearShouldAttach_def)
  with proc_from [OF p] have off: "\<forall>l\<in>set ls'. \<not> ShouldAttach l" by fastforce
  moreover have "\<forall>l\<in>set ls'. LinkStatus l = ApDetachError"
    using processLinks_left [OF p] off by fastforce
  moreover have "ProgramLinkStatus ps' = ProgAttachSuccess \<longleftrightarrow> ls' = []"
    using processLinks_success [OF p] off by (cases ls') auto
  ultimately show ?thesis using g by blast
qed

text \<open>A link that is still live in the daemon at the end is still on the list.\<close>

lemma reconcile_no_leak:
  assumes ps: "owns ps" "getLinks ps = Some ls" "ProgramId ps = Some p"
    and r: "reconcile specs b ps s = Some ((Inr (), ps'), s')"
    and dc: "daemon_contract env live issued" and q: "daemon_quiet env live issued"
    and ga: "get_answers env p" and ids: "ids_ok issued ls s"
    and i: "i \<in> set (linkIds ls)" "i \<in> live (world s') p"
  shows "\<exists>ls'. getLinks ps' = Some ls' \<and> i \<in> set (linkIds ls') \<and> ids_ok issued ls' s'"
proof -
  from reconcile_passes [OF ps(1,2) r] ps(3) obtain ls1 s1 ls' where
    u: "update specs b ls s = ((Inr (), ls1), s1)" and
    p: "proc (Some p) ls1 s1 = Some ((ls', ProgramLinkStatus ps'), s')" and g: "getLinks ps' = Some ls'"
    by metis
  have ids1: "distinct (linkIds ls1)" "set (linkIds ls1) \<subseteq> issued (world s1)"
    using update_ids_ok(1) [OF q u ids] by (simp_all add: ids_ok_def)
  have "linkIds ls1 = linkIds ls"
    using u addAll_ids [of specs "clearShouldAttach ls" s] by (auto simp: updateLinks_def Let_def split: if_splits)
  with processLinks_no_leak [OF dc ga request_ar_id p ids1] i
  have "i \<in> set (linkIds ls')" by simp
  moreover have "ids_ok issued ls' s'"
    using processLinks_contract(2) [OF dc request_ar_id p ids1] by (simp add: ids_ok_def)
  ultimately show ?thesis using g by blast
qed

text \<open>No attach point is ever listed twice.\<close>

lemma frame_unique:
  "list_all2 (\<lambda>l l'. \<exists>i st. l' = l\<lparr>LinkId := i, LinkStatus := st\<rparr>) ls ls' \<Longrightarrow>
   unique_links exact ls \<Longrightarrow> unique_links exact ls'"
  unfolding unique_links_def sorted_wrt_iff_nth_less list_all2_conv_all_nth
  by (metis exact_state order.strict_trans)

lemma reconcile_unique:
  assumes ps: "owns ps" "getLinks ps = Some ls" and r: "reconcile specs b ps s = Some ((Inr (), ps'), s')"
    and un: "unique_links exact ls"
  shows "\<exists>ls'. getLinks ps' = Some ls' \<and> unique_links exact ls'"
proof -
  from reconcile_passes [OF ps r] obtain ls1 s1 ls' where
    u: "update specs b ls s = ((Inr (), ls1), s1)" and
    p: "proc (ProgramId ps) ls1 s1 = Some ((ls', ProgramLinkStatus ps'), s')" and g: "getLinks ps' = Some ls'"
    by metis
  from p obtain lrs where e: "reconcileEach env getAttachRequest (ProgramId ps) ls1 s1 = Some (lrs, s')"
    and ls': "ls' = map fst (filter (\<lambda>lr. \<not> snd lr) lrs)" by (auto simp: processLinks_eq Let_def)
  have "list_all2 (\<lambda>l l'. \<exists>i st. l' = l\<lparr>LinkId := i, LinkStatus := st\<rparr>) ls1 (map fst lrs)"
    unfolding list_all2_map2 using reconcileEach_list_all2 [OF e]
    by (rule list_all2_mono) (metis prod.collapse reconcileBpfLink_frame)
  from frame_unique [OF this update_unique [OF u un]] have "unique_links exact (map fst lrs)" .
  then have "unique_links exact ls'"
    unfolding unique_links_def ls' sorted_wrt_map by (rule sorted_wrt_filter)
  with g show ?thesis by blast
qed

end

end
