(* ===== verification/Selectors.thy ===== *)
theory Selectors
  imports Agent_Env
begin

text \<open>
  The selection helpers of the agent: which interfaces, containers and nodes an attach point names.
  From \<^verbatim>\<open>controllers/bpfman-agent/common.go\<close> (interface discovery and allow lists, node selection,
  the event predicates, the small conversions), \<^verbatim>\<open>internal/iface.go\<close> (the primary interface of the
  node), \<^verbatim>\<open>containers.go\<close> (one container per pod) and \<^verbatim>\<open>pkg/helpers/helpers.go\<close> (the default
  priority and the reading of state conditions).
\<close>

section \<open>Conversions\<close>

definition GetPriority :: "int32 option \<Rightarrow> int32" where
  "GetPriority priority = (case priority of None \<Rightarrow> DefaultAttachPriority | Some p \<Rightarrow> p)"

fun directionToStr :: "TCDirectionType \<Rightarrow> string" where
  "directionToStr TCIngress = ''ingress''"
| "directionToStr TCEgress = ''egress''"
| "directionToStr (TCDirectionOther _) = ''''"

definition netnsPathFromPID :: "int32 \<Rightarrow> string" where
  "netnsPathFromPID pid = ''/host/proc/'' @ show_int (sint pid) @ ''/ns/net''"

definition NetNsPath :: string where
  "NetNsPath = ''/run/netns''"

section \<open>Interface discovery\<close>

definition isInterfacesDiscoveryEnabled :: "InterfaceSelector \<Rightarrow> bool" where
  "isInterfacesDiscoveryEnabled sel =
     (case InterfacesDiscoveryConfig sel of
        None \<Rightarrow> False
      | Some cfg \<Rightarrow> InterfaceAutoDiscovery cfg = Some True)"

definition interfaceInExcludeList :: "InterfaceDiscovery \<Rightarrow> string \<Rightarrow> bool" where
  "interfaceInExcludeList cfg intf = (\<exists>i\<in>set (ExcludeInterfaces cfg). i = intf)"

text \<open>A definition that does not compile ends the loop: the rest of the list is dropped.\<close>

fun setupAllowed ::
    "('w, 'z) Env_scheme \<Rightarrow> string list \<Rightarrow> (string \<Rightarrow> bool) list \<Rightarrow> string list \<Rightarrow>
     (string \<Rightarrow> bool) list \<times> string list" where
  "setupAllowed env [] res matches = (res, matches)"
| "setupAllowed env (d # ds) res matches =
     (let definition = trim_char (CHR '' '') d in
      case slashed definition of
        Some sm \<Rightarrow>
          (case regexp_Compile env sm of
             Inl _ \<Rightarrow> (res, matches)
           | Inr re \<Rightarrow> setupAllowed env ds (res @ [re]) matches)
      | None \<Rightarrow> setupAllowed env ds res (matches @ [definition]))"

definition setupAllowedInterfacesLists ::
    "('w, 'z) Env_scheme \<Rightarrow> InterfaceDiscovery \<Rightarrow> (string \<Rightarrow> bool) list \<times> string list" where
  "setupAllowedInterfacesLists env cfg = setupAllowed env (AllowedInterfaces cfg) [] []"

definition interfaceInAllowedList :: "string \<Rightarrow> (string \<Rightarrow> bool) list \<Rightarrow> string list \<Rightarrow> bool" where
  "interfaceInAllowedList intf allowedRegexpes allowedMatches =
     (if allowedRegexpes = [] \<and> allowedMatches = [] then True
      else if \<exists>re\<in>set allowedRegexpes. re intf then True
      else (\<exists>n\<in>set allowedMatches. n = intf))"

record discoveredInterface =
  interfaceName :: string
  netNSPath :: string

definition discovered :: "DiscoveredIface \<Rightarrow> discoveredInterface" where
  "discovered intf = \<lparr>interfaceName = if_Name intf,
     netNSPath = (if if_NSName intf = [] then [] else NetNsPath @ ''/'' @ if_NSName intf)\<rparr>"

text \<open>The callback of \<^verbatim>\<open>Range\<close>, with the slice and the set it closes over.\<close>

fun discoverLoop ::
    "(string \<Rightarrow> bool) \<Rightarrow> (DiscoveredIface \<times> bool) list \<Rightarrow> discoveredInterface list \<Rightarrow>
     discoveredInterface list" where
  "discoverLoop ok [] acc = acc"
| "discoverLoop ok ((intf, up) # rest) acc =
     (if up \<and> ok (if_Name intf) \<and> discovered intf \<notin> set acc
      then discoverLoop ok rest (acc @ [discovered intf])
      else discoverLoop ok rest acc)"

definition getDiscoveredInterfaces ::
    "('w, 'z) Env_scheme \<Rightarrow> InterfaceDiscovery \<Rightarrow> 'w \<Rightarrow> discoveredInterface list" where
  "getDiscoveredInterfaces env cfg w =
     (case setupAllowedInterfacesLists env cfg of
        (allowedRegexpes, allowedMatches) \<Rightarrow>
          discoverLoop (\<lambda>n. \<not> interfaceInExcludeList cfg n \<and>
                            interfaceInAllowedList n allowedRegexpes allowedMatches)
            (Interfaces_Range env w) [])"

section \<open>The interfaces of the node\<close>

text \<open>\<^verbatim>\<open>net.IP.Equal\<close>: an IPv4 address equals its IPv6 form.\<close>

definition v4InV6Prefix :: "8 word list" where
  "v4InV6Prefix = replicate 10 0 @ [0xff, 0xff]"

definition IP_Equal :: "IP \<Rightarrow> IP \<Rightarrow> bool" where
  "IP_Equal ip x =
     (if length ip = length x then ip = x
      else if length ip = 4 \<and> length x = 16 then x = v4InV6Prefix @ ip
      else if length ip = 16 \<and> length x = 4 then ip = v4InV6Prefix @ x
      else False)"

definition addrMatches :: "('w, 'z) Env_scheme \<Rightarrow> string \<Rightarrow> NetAddr \<Rightarrow> bool" where
  "addrMatches env address a =
     (case a of
        IPAddr str \<Rightarrow> address = str
      | IPNet ip \<Rightarrow> IP_Equal ip (net_ParseIP env address)
      | OtherAddr \<Rightarrow> False)"

fun findIface :: "('w, 'z) Env_scheme \<Rightarrow> string \<Rightarrow> NetInterface list \<Rightarrow> string option" where
  "findIface env address [] = None"
| "findIface env address (i # ifaces) =
     (case ni_Addrs i of
        Inl _ \<Rightarrow> findIface env address ifaces
      | Inr addrs \<Rightarrow>
          if \<exists>a\<in>set addrs. addrMatches env address a then Some (ni_Name i)
          else findIface env address ifaces)"

fun findNodeIface ::
    "('w, 'z) Env_scheme \<Rightarrow> NetInterface list \<Rightarrow> NodeAddress list \<Rightarrow> string option" where
  "findNodeIface env ifaces [] = None"
| "findNodeIface env ifaces (ipaddr # rest) =
     (if na_Type ipaddr = ''InternalIP'' then
        (case findIface env (na_Address ipaddr) ifaces of
           Some n \<Rightarrow> Some n
         | None \<Rightarrow> findNodeIface env ifaces rest)
      else findNodeIface env ifaces rest)"

definition GetPrimaryNodeInterface :: "('w, 'z) Env_scheme \<Rightarrow> NodeObject \<Rightarrow> 'w \<Rightarrow> string result" where
  "GetPrimaryNodeInterface env ourNode w =
     (case net_Interfaces env w of
        Inl err \<Rightarrow> Inl (''failed to read node interfaces: '' @ err)
      | Inr ifaces \<Rightarrow>
          (case findNodeIface env ifaces (nd_Addresses ourNode) of
             Some n \<Rightarrow> Inr n
           | None \<Rightarrow> Inl ''unable to find Node Interface''))"

definition getInterfaces ::
    "('w, 'z) Env_scheme \<Rightarrow> InterfaceSelector \<Rightarrow> NodeObject \<Rightarrow> 'w \<Rightarrow> string list result" where
  "getInterfaces env sel ourNode w =
     (if Interfaces sel \<noteq> [] then Inr (Interfaces sel)
      else if PrimaryNodeInterface sel \<noteq> None then
        (case GetPrimaryNodeInterface env ourNode w of
           Inl err \<Rightarrow> Inl err
         | Inr nodeIface \<Rightarrow> Inr [nodeIface])
      else Inl ''no interfaces selected'')"

section \<open>Containers\<close>

fun oneContainerLoop :: "string list \<Rightarrow> ContainerInfo list \<Rightarrow> ContainerInfo list" where
  "oneContainerLoop uniquePods [] = []"
| "oneContainerLoop uniquePods (container # containers) =
     (if ci_podName container \<notin> set uniquePods
      then container # oneContainerLoop (ci_podName container # uniquePods) containers
      else oneContainerLoop uniquePods containers)"

definition GetOneContainerPerPod :: "ContainerInfo list \<Rightarrow> ContainerInfo list" where
  "GetOneContainerPerPod containers = oneContainerLoop [] containers"

section \<open>Node selection and event predicates\<close>

definition isNodeSelected ::
    "('w, 'z) Env_scheme \<Rightarrow> LabelSelector \<Rightarrow> (string \<times> string) list \<Rightarrow> bool result" where
  "isNodeSelected env selector nodeLabels =
     (case LabelSelectorAsSelector env selector of
        Inl err \<Rightarrow> Inl (''failed to parse nodeSelector: '' @ err)
      | Inr matches \<Rightarrow>
          (case ConvertLabels env nodeLabels of
             Inl err \<Rightarrow> Inl (''failed to parse node labels : '' @ err)
           | Inr nodeLabelSet \<Rightarrow> Inr (matches nodeLabelSet)))"

datatype EventKind = GenericEvent | CreateEvent | UpdateEvent | DeleteEvent

definition nodePredicate :: "string \<Rightarrow> EventKind \<Rightarrow> (string \<times> string) list \<Rightarrow> bool" where
  "nodePredicate nodeName kind labels =
     ((case map_of labels ''kubernetes.io/hostname'' of None \<Rightarrow> [] | Some v \<Rightarrow> v) = nodeName)"

record PodObject =
  pod_NodeName :: string
  pod_Phase :: string

text \<open>The object of the event is a pod or something else (\<open>None\<close>).\<close>

definition podOnNodePredicate :: "string \<Rightarrow> EventKind \<Rightarrow> PodObject option \<Rightarrow> bool" where
  "podOnNodePredicate nodeName kind obj =
     (case obj of
        None \<Rightarrow> False
      | Some pod \<Rightarrow>
          pod_NodeName pod = nodeName \<and>
          (case kind of
             CreateEvent \<Rightarrow> pod_Phase pod = ''Running''
           | UpdateEvent \<Rightarrow> pod_Phase pod = ''Running''
           | GenericEvent \<Rightarrow> True
           | DeleteEvent \<Rightarrow> True))"

section \<open>Reading the condition of an application state\<close>

definition IsBpfAppStateConditionFailure :: "Condition list \<Rightarrow> bool" where
  "IsBpfAppStateConditionFailure conditions =
     (case conditions of
        [] \<Rightarrow> True
      | c # _ \<Rightarrow>
          cond_Type c = BpfAppStateCond_string BpfAppStateCondError \<or>
          cond_Type c = BpfAppStateCond_string BpfAppStateCondProgramListChangedError \<or>
          cond_Type c = BpfAppStateCond_string BpfAppStateCondUnloadError)"

definition IsBpfAppStateConditionPending :: "Condition list \<Rightarrow> bool" where
  "IsBpfAppStateConditionPending conditions =
     (case conditions of
        [] \<Rightarrow> True
      | c # _ \<Rightarrow> cond_Type c = BpfAppCond_string BpfAppCondPending)"

section \<open>Lemmas\<close>

lemma sint32_inj: "sint (a :: 32 word) = sint b \<Longrightarrow> a = b"
  by (simp add: signed_word_eqI)

lemma netnsPathFromPID_inj: "netnsPathFromPID a = netnsPathFromPID b \<longleftrightarrow> a = b"
  by (auto simp: netnsPathFromPID_def dest: show_int_inj sint32_inj)

lemma netnsPathFromPID_nonempty: "netnsPathFromPID pid \<noteq> []"
  by (simp add: netnsPathFromPID_def)

lemma discoverLoop_set:
  "set (discoverLoop ok rng acc) =
     set acc \<union> {discovered i | i. (i, True) \<in> set rng \<and> ok (if_Name i)}"
proof (induction rng arbitrary: acc)
  case (Cons x rng)
  obtain intf up where "x = (intf, up)" by fastforce
  with Cons.IH show ?case by auto
qed simp

lemma discoverLoop_distinct: "distinct acc \<Longrightarrow> distinct (discoverLoop ok rng acc)"
proof (induction rng arbitrary: acc)
  case (Cons x rng)
  obtain intf up where "x = (intf, up)" by fastforce
  with Cons show ?case by simp
qed simp

lemma oneContainerLoop_pods:
  "distinct (map ci_podName (oneContainerLoop seen cs))"
  "set (map ci_podName (oneContainerLoop seen cs)) = ci_podName ` set cs - set seen"
proof -
  have "distinct (map ci_podName (oneContainerLoop seen cs)) \<and>
        set (map ci_podName (oneContainerLoop seen cs)) = ci_podName ` set cs - set seen"
    by (induction cs arbitrary: seen) auto
  then show "distinct (map ci_podName (oneContainerLoop seen cs))"
    and "set (map ci_podName (oneContainerLoop seen cs)) = ci_podName ` set cs - set seen" by blast+
qed

lemma oneContainerLoop_first:
  "c \<in> set (oneContainerLoop seen cs) \<Longrightarrow> find (\<lambda>d. ci_podName d = ci_podName c) cs = Some c"
proof (induction cs arbitrary: seen)
  case (Cons d cs)
  show ?case
  proof (cases "c = d")
    case False
    with Cons.prems have c: "c \<in> set (oneContainerLoop (ci_podName d # seen) cs) \<or>
        (ci_podName d \<in> set seen \<and> c \<in> set (oneContainerLoop seen cs))" by (auto split: if_splits)
    have "ci_podName x \<notin> set seen'" if "x \<in> set (oneContainerLoop seen' cs)" for x seen'
      using oneContainerLoop_pods(2) [of seen' cs] that by (metis DiffD2 imageI list.set_map)
    with c have "ci_podName c \<noteq> ci_podName d" by fastforce
    with c Cons.IH show ?thesis by auto
  qed simp
qed simp

lemma IP_Equal_sym: "IP_Equal a b = IP_Equal b a"
  by (auto simp: IP_Equal_def)

lemma findIface_sound:
  "findIface env a ifs = Some n \<Longrightarrow>
   \<exists>i\<in>set ifs. ni_Name i = n \<and> (\<exists>as. ni_Addrs i = Inr as \<and> (\<exists>x\<in>set as. addrMatches env a x))"
  by (induction ifs) (fastforce split: sum.splits if_splits)+

lemma findIface_complete:
  "findIface env a ifs = None \<Longrightarrow> i \<in> set ifs \<Longrightarrow> ni_Addrs i = Inr as \<Longrightarrow> x \<in> set as \<Longrightarrow>
   \<not> addrMatches env a x"
  by (induction ifs) (auto split: sum.splits if_splits)

lemma findNodeIface_sound:
  "findNodeIface env ifs addrs = Some n \<Longrightarrow>
   \<exists>ip\<in>set addrs. na_Type ip = ''InternalIP'' \<and> findIface env (na_Address ip) ifs = Some n"
  by (induction addrs) (auto split: option.splits if_splits)

lemma findNodeIface_complete:
  "findNodeIface env ifs addrs = None \<Longrightarrow> ip \<in> set addrs \<Longrightarrow> na_Type ip = ''InternalIP'' \<Longrightarrow>
   findIface env (na_Address ip) ifs = None"
  by (induction addrs) (auto split: option.splits if_splits)

end
