(* ===== verification/Tracing_Programs.thy ===== *)
theory Tracing_Programs
  imports Program_Contract Selectors
begin

text \<open>
  The cluster-scoped program types that attach to functions and tracepoints:
  \<^verbatim>\<open>cl_fentry_program.go\<close>, \<^verbatim>\<open>cl_fexit_program.go\<close>, \<^verbatim>\<open>cl_kprobe_program.go\<close>,
  \<^verbatim>\<open>cl_kretprobe_program.go\<close>, \<^verbatim>\<open>cl_tracepoint_program.go\<close> and \<^verbatim>\<open>cl_uprobe_program.go\<close>. For each: where its
  links are in the program state, the attach request, \<^verbatim>\<open>findLink\<close>, \<^verbatim>\<open>getExpectedLinks\<close>, the methods
  \<^verbatim>\<open>updateLinks\<close> and \<^verbatim>\<open>processLinks\<close>, the load information, and the interpretation of the
  contract \<open>program_type\<close>.
\<close>

section \<open>Shared pieces\<close>

text \<open>The links of a specification: none when the struct of the type is nil.\<close>

definition specLinks :: "('a, 'z) ProgramInfo_scheme option \<Rightarrow> 'a list" where
  "specLinks info = (case info of None \<Rightarrow> [] | Some i \<Rightarrow> Links i)"

definition uuidMetadata :: "'l AttachInfoStateCommon_scheme \<Rightarrow> metadata" where
  "uuidMetadata link = [(UuidMetadataKey, UUID link)]"

definition mkAttachRequest :: "uint32 option \<Rightarrow> AttachInfo \<Rightarrow> AttachRequest go" where
  "mkAttachRequest programId info = do { p \<leftarrow> programId; Some \<lparr>ar_Id = p, ar_Attach = info\<rparr> }"

text \<open>One new link with a fresh UUID.\<close>

definition newLink ::
    "('w, 'z) Env_scheme \<Rightarrow> (string \<Rightarrow> 'l) \<Rightarrow> 'w rst \<Rightarrow> 'l list result \<times> 'w rst" where
  "newLink env mk s = (case lift_world (uuid_New env) s of (u, s) \<Rightarrow> (Inr [mk u], s))"

fun newLinks ::
    "('w, 'z) Env_scheme \<Rightarrow> ('x \<Rightarrow> string \<Rightarrow> 'l) \<Rightarrow> 'x list \<Rightarrow> 'w rst \<Rightarrow> 'l list \<times> 'w rst" where
  "newLinks env mk [] s = ([], s)"
| "newLinks env mk (x # xs) s =
     (case lift_world (uuid_New env) s of (u, s) \<Rightarrow>
        (case newLinks env mk xs s of (ls, s) \<Rightarrow> (mk x u # ls, s)))"

definition mkLoadInfo :: "string \<Rightarrow> BpfmanProgramType \<Rightarrow> ProgSpecificInfo option \<Rightarrow> LoadInfo" where
  "mkLoadInfo name ty info = \<lparr>li_Name = name, li_ProgramType = ty, li_Info = info\<rparr>"

lemma lift_uuid_unchanged:
  "daemon_quiet env live issued \<Longrightarrow> lift_world (uuid_New env) s = (u, s') \<Longrightarrow> unchanged live issued s s'"
  by (auto simp: daemon_quiet_def lift_world_def unchanged_def split: prod.splits)

lemma newLink_unchanged:
  "daemon_quiet env live issued \<Longrightarrow> newLink env mk s = (r, s') \<Longrightarrow> unchanged live issued s s'"
  by (auto simp: newLink_def split: prod.splits dest: lift_uuid_unchanged)

lemma newLinks_unchanged:
  "daemon_quiet env live issued \<Longrightarrow> newLinks env mk xs s = (ls, s') \<Longrightarrow> unchanged live issued s s'"
proof (induction xs arbitrary: s ls)
  case (Cons x xs)
  obtain u t where l: "lift_world (uuid_New env) s = (u, t)" by fastforce
  obtain ks t' where n: "newLinks env mk xs t = (ks, t')" by fastforce
  from l n Cons.prems have "t' = s'" by simp
  with n Cons.IH Cons.prems(1) have "unchanged live issued t s'" by blast
  with lift_uuid_unchanged [OF Cons.prems(1) l] show ?case by (rule unchanged_trans)
qed simp

lemma newLinks_list_all2: "newLinks env mk xs s = (ls, s') \<Longrightarrow> list_all2 (\<lambda>x l. \<exists>u. l = mk x u) xs ls"
  by (induction xs arbitrary: s ls) (auto split: prod.splits)

lemma newLinks_mk: "newLinks env mk xs s = (ls, s') \<Longrightarrow> l \<in> set ls \<Longrightarrow> \<exists>x\<in>set xs. \<exists>u. l = mk x u"
  by (drule newLinks_list_all2) (fastforce simp: list_all2_conv_all_nth in_set_conv_nth)

lemma newLink_mk: "newLink env mk s = (Inr es, s') \<Longrightarrow> e \<in> set es \<Longrightarrow> \<exists>u. e = mk u"
  by (auto simp: newLink_def split: prod.splits)

lemma mkAttachRequest_nil [simp]: "mkAttachRequest None info = None"
  by (simp add: mkAttachRequest_def)

lemma mkAttachRequest_Some [simp]: "mkAttachRequest (Some p) info = Some \<lparr>ar_Id = p, ar_Attach = info\<rparr>"
  by (simp add: mkAttachRequest_def)

text \<open>
  The contract for a type that compares links by a key of their own fields: what each type has to
  show of its definitions.
\<close>

lemma program_type_by_key:
  assumes find: "\<And>l ls s. findLink l ls s = (Inr (find_index (\<lambda>a. k a = k l) ls), s)"
    and k_flag: "\<And>l b. k (l\<lparr>ShouldAttach := b\<rparr>) = k l"
    and k_state: "\<And>l i st. k (l\<lparr>LinkId := i, LinkStatus := st\<rparr>) = k l"
    and new: "\<And>a s es s' e. getExpectedLinks a s = (Inr es, s') \<Longrightarrow> e \<in> set es \<Longrightarrow>
                ShouldAttach e \<and> LinkId e = None \<and> LinkStatus e = ApAttachNotAttached"
    and quiet: "\<And>live issued a s r s'. daemon_quiet env live issued \<Longrightarrow>
                  getExpectedLinks a s = (r, s') \<Longrightarrow> unchanged live issued s s'"
    and req: "\<And>p l. getAttachRequest p l = mkAttachRequest p (info l)"
    and meta: "\<And>l. AttachInfo_Metadata (info l) = uuidMetadata l"
    and get_set: "\<And>ps old ls. owns ps \<Longrightarrow> getLinks ps = Some old \<Longrightarrow> getLinks (setLinks ls ps) = Some ls"
    and set_id: "\<And>ls ps. ProgramId (setLinks ls ps) = ProgramId ps"
    and set_owns: "\<And>ls ps. owns (setLinks ls ps) = owns ps"
    and get_status: "\<And>ps st. getLinks (ps\<lparr>ProgramLinkStatus := st\<rparr>) = getLinks ps"
  shows "program_type findLink (\<lambda>s l. Some (k l)) (\<lambda>a b. k a = k b) (\<lambda>a b. k a = k b)
           getExpectedLinks getAttachRequest env getLinks setLinks owns"
  by unfold_locales (simp_all add: assms uuidMetadata_def)

section \<open>fentry\<close>

definition ClFentry_getLinks :: "ClBpfApplicationProgramState \<Rightarrow> ClFentryAttachInfoState list go" where
  "ClFentry_getLinks ps = map_option Links (cs_FEntry ps)"

definition ClFentry_setLinks ::
    "ClFentryAttachInfoState list \<Rightarrow> ClBpfApplicationProgramState \<Rightarrow> ClBpfApplicationProgramState" where
  "ClFentry_setLinks links ps =
     ps\<lparr>cs_FEntry := map_option (\<lambda>i. i\<lparr>Links := links\<rparr>) (cs_FEntry ps)\<rparr>"

definition ClFentry_getAttachRequest :: "uint32 option \<Rightarrow> ClFentryAttachInfoState \<Rightarrow> AttachRequest go" where
  "ClFentry_getAttachRequest programId link =
     mkAttachRequest programId (AttachInfo_FentryAttachInfo (uuidMetadata link))"

text \<open>\<^verbatim>\<open>findLink\<close> returns the first index whatever it is asked for.\<close>

definition ClFentry_findLink ::
    "ClFentryAttachInfoState \<Rightarrow> ClFentryAttachInfoState list \<Rightarrow> 'w rst \<Rightarrow> nat option result \<times> 'w rst" where
  "ClFentry_findLink link links s = (Inr (find_index (\<lambda>_. True) links), s)"

definition ClFentry_getExpectedLinks ::
    "('w, 'z) Env_scheme \<Rightarrow> ClFentryAttachInfo \<Rightarrow> 'w rst \<Rightarrow> ClFentryAttachInfoState list result \<times> 'w rst" where
  "ClFentry_getExpectedLinks env attachInfo s =
     newLink env (\<lambda>u. \<lparr>ShouldAttach = True, UUID = u, LinkId = None, LinkStatus = ApAttachNotAttached\<rparr>) s"

definition ClFentry_updateLinks ::
    "('w, 'z) Env_scheme \<Rightarrow> ClBpfApplicationProgram \<Rightarrow> bool \<Rightarrow> ClBpfApplicationProgramState \<Rightarrow> 'w rst \<Rightarrow>
     ((unit result \<times> ClBpfApplicationProgramState) \<times> 'w rst) go" where
  "ClFentry_updateLinks env prog =
     progUpdateLinks ClFentry_getLinks ClFentry_setLinks (ClFentry_getExpectedLinks env) ClFentry_findLink
       (specLinks (cp_FEntry prog))"

definition ClFentry_processLinks ::
    "('w, 'z) Env_scheme \<Rightarrow> ClBpfApplicationProgramState \<Rightarrow> 'w rst \<Rightarrow>
     (ClBpfApplicationProgramState \<times> 'w rst) go" where
  "ClFentry_processLinks env =
     progProcessLinks env ClFentry_getLinks ClFentry_setLinks ClFentry_getAttachRequest"

definition ClFentry_getProgramLoadInfo :: "ClBpfApplicationProgram \<Rightarrow> LoadInfo go" where
  "ClFentry_getProgramLoadInfo prog =
     do { info \<leftarrow> cp_FEntry prog;
          Some (mkLoadInfo (cp_Name prog) BpfmanProgramType_FENTRY (Some (FentryLoadInfo (Function info)))) }"

interpretation clFentry: program_type ClFentry_findLink "\<lambda>s l. Some ()" "\<lambda>a b. () = ()" "\<lambda>a b. () = ()"
    "ClFentry_getExpectedLinks env" ClFentry_getAttachRequest env ClFentry_getLinks ClFentry_setLinks "\<lambda>_. True"
  for env :: "('w, 'z) Env_scheme"
  by (rule program_type_by_key [where info = "\<lambda>l. AttachInfo_FentryAttachInfo (uuidMetadata l)"])
    (auto simp: ClFentry_findLink_def ClFentry_getExpectedLinks_def ClFentry_getAttachRequest_def
      ClFentry_getLinks_def ClFentry_setLinks_def dest: newLink_mk newLink_unchanged)

section \<open>fexit\<close>

definition ClFexit_getLinks :: "ClBpfApplicationProgramState \<Rightarrow> ClFexitAttachInfoState list go" where
  "ClFexit_getLinks ps = map_option Links (cs_FExit ps)"

definition ClFexit_setLinks ::
    "ClFexitAttachInfoState list \<Rightarrow> ClBpfApplicationProgramState \<Rightarrow> ClBpfApplicationProgramState" where
  "ClFexit_setLinks links ps =
     ps\<lparr>cs_FExit := map_option (\<lambda>i. i\<lparr>Links := links\<rparr>) (cs_FExit ps)\<rparr>"

definition ClFexit_getAttachRequest :: "uint32 option \<Rightarrow> ClFexitAttachInfoState \<Rightarrow> AttachRequest go" where
  "ClFexit_getAttachRequest programId link = mkAttachRequest programId (AttachInfo_FexitAttachInfo (uuidMetadata link))"

definition ClFexit_findLink ::
    "ClFexitAttachInfoState \<Rightarrow> ClFexitAttachInfoState list \<Rightarrow> 'w rst \<Rightarrow> nat option result \<times> 'w rst" where
  "ClFexit_findLink link links s = (Inr (find_index (\<lambda>_. True) links), s)"

definition ClFexit_getExpectedLinks ::
    "('w, 'z) Env_scheme \<Rightarrow> ClFexitAttachInfo \<Rightarrow> 'w rst \<Rightarrow> ClFexitAttachInfoState list result \<times> 'w rst" where
  "ClFexit_getExpectedLinks env attachInfo s =
     newLink env (\<lambda>u. \<lparr>ShouldAttach = True, UUID = u, LinkId = None, LinkStatus = ApAttachNotAttached\<rparr>) s"

definition ClFexit_updateLinks ::
    "('w, 'z) Env_scheme \<Rightarrow> ClBpfApplicationProgram \<Rightarrow> bool \<Rightarrow> ClBpfApplicationProgramState \<Rightarrow> 'w rst \<Rightarrow>
     ((unit result \<times> ClBpfApplicationProgramState) \<times> 'w rst) go" where
  "ClFexit_updateLinks env prog =
     progUpdateLinks ClFexit_getLinks ClFexit_setLinks (ClFexit_getExpectedLinks env) ClFexit_findLink
       (specLinks (cp_FExit prog))"

definition ClFexit_processLinks ::
    "('w, 'z) Env_scheme \<Rightarrow> ClBpfApplicationProgramState \<Rightarrow> 'w rst \<Rightarrow>
     (ClBpfApplicationProgramState \<times> 'w rst) go" where
  "ClFexit_processLinks env = progProcessLinks env ClFexit_getLinks ClFexit_setLinks ClFexit_getAttachRequest"

definition ClFexit_getProgramLoadInfo :: "ClBpfApplicationProgram \<Rightarrow> LoadInfo go" where
  "ClFexit_getProgramLoadInfo prog =
     do { info \<leftarrow> cp_FExit prog;
          Some (mkLoadInfo (cp_Name prog) BpfmanProgramType_FEXIT (Some (FexitLoadInfo (Function info)))) }"

interpretation clFexit: program_type ClFexit_findLink "\<lambda>s l. Some (())" "\<lambda>a b. () = ()"
    "\<lambda>a b. () = ()" "ClFexit_getExpectedLinks env" ClFexit_getAttachRequest env ClFexit_getLinks ClFexit_setLinks "\<lambda>_. True"
  for env :: "('w, 'z) Env_scheme"
  by (rule program_type_by_key [where info = "\<lambda>l. AttachInfo_FexitAttachInfo (uuidMetadata l)"])
    (auto simp: ClFexit_findLink_def ClFexit_getExpectedLinks_def ClFexit_getAttachRequest_def
      ClFexit_getLinks_def ClFexit_setLinks_def dest: newLink_mk newLink_unchanged)

section \<open>kprobe\<close>

text \<open>A state of another type has no links here: the code works on a slice of its own.\<close>

definition ClKprobe_getAppStateLinks :: "ClBpfApplicationProgramState \<Rightarrow> ClKprobeAttachInfoState list go" where
  "ClKprobe_getAppStateLinks ps =
     (if cs_Type ps = ProgTypeKprobe then map_option Links (cs_KProbe ps) else Some [])"

definition ClKprobe_setLinks ::
    "ClKprobeAttachInfoState list \<Rightarrow> ClBpfApplicationProgramState \<Rightarrow> ClBpfApplicationProgramState" where
  "ClKprobe_setLinks links ps =
     (if cs_Type ps = ProgTypeKprobe
      then ps\<lparr>cs_KProbe := map_option (\<lambda>i. i\<lparr>Links := links\<rparr>) (cs_KProbe ps)\<rparr> else ps)"

definition ClKprobe_getAppLinks :: "ClBpfApplicationProgram \<Rightarrow> ClKprobeAttachInfo list" where
  "ClKprobe_getAppLinks prog = (if cp_Type prog = ProgTypeKprobe then specLinks (cp_KProbe prog) else [])"

definition ClKprobe_getAttachRequest :: "uint32 option \<Rightarrow> ClKprobeAttachInfoState \<Rightarrow> AttachRequest go" where
  "ClKprobe_getAttachRequest programId link = mkAttachRequest programId (AttachInfo_KprobeAttachInfo (kp_Function link) (kp_Offset link) (uuidMetadata link))"

definition ClKprobe_findLink ::
    "ClKprobeAttachInfoState \<Rightarrow> ClKprobeAttachInfoState list \<Rightarrow> 'w rst \<Rightarrow> nat option result \<times> 'w rst" where
  "ClKprobe_findLink link links s = (Inr (find_index (\<lambda>a. kp_Function a = kp_Function link \<and> kp_Offset a = kp_Offset link) links), s)"

definition ClKprobe_getExpectedLinks ::
    "('w, 'z) Env_scheme \<Rightarrow> ClKprobeAttachInfo \<Rightarrow> 'w rst \<Rightarrow> ClKprobeAttachInfoState list result \<times> 'w rst" where
  "ClKprobe_getExpectedLinks env attachInfo s =
     newLink env (\<lambda>u. \<lparr>ShouldAttach = True, UUID = u, LinkId = None, LinkStatus = ApAttachNotAttached,
       kp_Function = kpa_Function attachInfo, kp_Offset = kpa_Offset attachInfo\<rparr>) s"

definition ClKprobe_updateLinks ::
    "('w, 'z) Env_scheme \<Rightarrow> ClBpfApplicationProgram \<Rightarrow> bool \<Rightarrow> ClBpfApplicationProgramState \<Rightarrow> 'w rst \<Rightarrow>
     ((unit result \<times> ClBpfApplicationProgramState) \<times> 'w rst) go" where
  "ClKprobe_updateLinks env prog =
     progUpdateLinks ClKprobe_getAppStateLinks ClKprobe_setLinks (ClKprobe_getExpectedLinks env) ClKprobe_findLink
       (ClKprobe_getAppLinks prog)"

definition ClKprobe_processLinks ::
    "('w, 'z) Env_scheme \<Rightarrow> ClBpfApplicationProgramState \<Rightarrow> 'w rst \<Rightarrow>
     (ClBpfApplicationProgramState \<times> 'w rst) go" where
  "ClKprobe_processLinks env = progProcessLinks env ClKprobe_getAppStateLinks ClKprobe_setLinks ClKprobe_getAttachRequest"

definition ClKprobe_getProgramLoadInfo :: "ClBpfApplicationProgram \<Rightarrow> LoadInfo go" where
  "ClKprobe_getProgramLoadInfo prog =
     Some (mkLoadInfo (cp_Name prog) BpfmanProgramType_KPROBE None)"

interpretation clKprobe: program_type ClKprobe_findLink "\<lambda>s l. Some ((kp_Function l, kp_Offset l))" "\<lambda>a b. (kp_Function a, kp_Offset a) = (kp_Function b, kp_Offset b)"
    "\<lambda>a b. (kp_Function a, kp_Offset a) = (kp_Function b, kp_Offset b)" "ClKprobe_getExpectedLinks env" ClKprobe_getAttachRequest env ClKprobe_getAppStateLinks ClKprobe_setLinks "\<lambda>ps. cs_Type ps = ProgTypeKprobe"
  for env :: "('w, 'z) Env_scheme"
  by (rule program_type_by_key [where info = "\<lambda>l. AttachInfo_KprobeAttachInfo (kp_Function l) (kp_Offset l) (uuidMetadata l)"])
    (auto simp: ClKprobe_findLink_def ClKprobe_getExpectedLinks_def ClKprobe_getAttachRequest_def
      ClKprobe_getAppStateLinks_def ClKprobe_setLinks_def dest: newLink_mk newLink_unchanged)

section \<open>kretprobe\<close>

text \<open>A state of another type has no links here: the code works on a slice of its own.\<close>

definition ClKretprobe_getAppStateLinks :: "ClBpfApplicationProgramState \<Rightarrow> ClKretprobeAttachInfoState list go" where
  "ClKretprobe_getAppStateLinks ps =
     (if cs_Type ps = ProgTypeKretprobe then map_option Links (cs_KRetProbe ps) else Some [])"

definition ClKretprobe_setLinks ::
    "ClKretprobeAttachInfoState list \<Rightarrow> ClBpfApplicationProgramState \<Rightarrow> ClBpfApplicationProgramState" where
  "ClKretprobe_setLinks links ps =
     (if cs_Type ps = ProgTypeKretprobe
      then ps\<lparr>cs_KRetProbe := map_option (\<lambda>i. i\<lparr>Links := links\<rparr>) (cs_KRetProbe ps)\<rparr> else ps)"

definition ClKretprobe_getAppLinks :: "ClBpfApplicationProgram \<Rightarrow> ClKretprobeAttachInfo list" where
  "ClKretprobe_getAppLinks prog = (if cp_Type prog = ProgTypeKretprobe then specLinks (cp_KRetProbe prog) else [])"

definition ClKretprobe_getAttachRequest :: "uint32 option \<Rightarrow> ClKretprobeAttachInfoState \<Rightarrow> AttachRequest go" where
  "ClKretprobe_getAttachRequest programId link = mkAttachRequest programId (AttachInfo_KprobeAttachInfo (krp_Function link) 0 (uuidMetadata link))"

definition ClKretprobe_findLink ::
    "ClKretprobeAttachInfoState \<Rightarrow> ClKretprobeAttachInfoState list \<Rightarrow> 'w rst \<Rightarrow> nat option result \<times> 'w rst" where
  "ClKretprobe_findLink link links s = (Inr (find_index (\<lambda>a. krp_Function a = krp_Function link) links), s)"

definition ClKretprobe_getExpectedLinks ::
    "('w, 'z) Env_scheme \<Rightarrow> ClKretprobeAttachInfo \<Rightarrow> 'w rst \<Rightarrow> ClKretprobeAttachInfoState list result \<times> 'w rst" where
  "ClKretprobe_getExpectedLinks env attachInfo s =
     newLink env (\<lambda>u. \<lparr>ShouldAttach = True, UUID = u, LinkId = None, LinkStatus = ApAttachNotAttached,
       krp_Function = krpa_Function attachInfo\<rparr>) s"

definition ClKretprobe_updateLinks ::
    "('w, 'z) Env_scheme \<Rightarrow> ClBpfApplicationProgram \<Rightarrow> bool \<Rightarrow> ClBpfApplicationProgramState \<Rightarrow> 'w rst \<Rightarrow>
     ((unit result \<times> ClBpfApplicationProgramState) \<times> 'w rst) go" where
  "ClKretprobe_updateLinks env prog =
     progUpdateLinks ClKretprobe_getAppStateLinks ClKretprobe_setLinks (ClKretprobe_getExpectedLinks env) ClKretprobe_findLink
       (ClKretprobe_getAppLinks prog)"

definition ClKretprobe_processLinks ::
    "('w, 'z) Env_scheme \<Rightarrow> ClBpfApplicationProgramState \<Rightarrow> 'w rst \<Rightarrow>
     (ClBpfApplicationProgramState \<times> 'w rst) go" where
  "ClKretprobe_processLinks env = progProcessLinks env ClKretprobe_getAppStateLinks ClKretprobe_setLinks ClKretprobe_getAttachRequest"

definition ClKretprobe_getProgramLoadInfo :: "ClBpfApplicationProgram \<Rightarrow> LoadInfo go" where
  "ClKretprobe_getProgramLoadInfo prog =
     Some (mkLoadInfo (cp_Name prog) BpfmanProgramType_KPROBE None)"

interpretation clKretprobe: program_type ClKretprobe_findLink "\<lambda>s l. Some (krp_Function l)" "\<lambda>a b. krp_Function a = krp_Function b"
    "\<lambda>a b. krp_Function a = krp_Function b" "ClKretprobe_getExpectedLinks env" ClKretprobe_getAttachRequest env ClKretprobe_getAppStateLinks ClKretprobe_setLinks "\<lambda>ps. cs_Type ps = ProgTypeKretprobe"
  for env :: "('w, 'z) Env_scheme"
  by (rule program_type_by_key [where info = "\<lambda>l. AttachInfo_KprobeAttachInfo (krp_Function l) 0 (uuidMetadata l)"])
    (auto simp: ClKretprobe_findLink_def ClKretprobe_getExpectedLinks_def ClKretprobe_getAttachRequest_def
      ClKretprobe_getAppStateLinks_def ClKretprobe_setLinks_def dest: newLink_mk newLink_unchanged)

section \<open>tracepoint\<close>

definition ClTracepoint_getLinks :: "ClBpfApplicationProgramState \<Rightarrow> ClTracepointAttachInfoState list go" where
  "ClTracepoint_getLinks ps = map_option Links (cs_TracePoint ps)"

definition ClTracepoint_setLinks ::
    "ClTracepointAttachInfoState list \<Rightarrow> ClBpfApplicationProgramState \<Rightarrow> ClBpfApplicationProgramState" where
  "ClTracepoint_setLinks links ps =
     ps\<lparr>cs_TracePoint := map_option (\<lambda>i. i\<lparr>Links := links\<rparr>) (cs_TracePoint ps)\<rparr>"

definition ClTracepoint_getAttachRequest :: "uint32 option \<Rightarrow> ClTracepointAttachInfoState \<Rightarrow> AttachRequest go" where
  "ClTracepoint_getAttachRequest programId link = mkAttachRequest programId (AttachInfo_TracepointAttachInfo (tp_Name link) (uuidMetadata link))"

definition ClTracepoint_findLink ::
    "ClTracepointAttachInfoState \<Rightarrow> ClTracepointAttachInfoState list \<Rightarrow> 'w rst \<Rightarrow> nat option result \<times> 'w rst" where
  "ClTracepoint_findLink link links s = (Inr (find_index (\<lambda>a. tp_Name a = tp_Name link) links), s)"

definition ClTracepoint_getExpectedLinks ::
    "('w, 'z) Env_scheme \<Rightarrow> ClTracepointAttachInfo \<Rightarrow> 'w rst \<Rightarrow> ClTracepointAttachInfoState list result \<times> 'w rst" where
  "ClTracepoint_getExpectedLinks env attachInfo s =
     newLink env (\<lambda>u. \<lparr>ShouldAttach = True, UUID = u, LinkId = None, LinkStatus = ApAttachNotAttached,
       tp_Name = tpa_Name attachInfo\<rparr>) s"

definition ClTracepoint_updateLinks ::
    "('w, 'z) Env_scheme \<Rightarrow> ClBpfApplicationProgram \<Rightarrow> bool \<Rightarrow> ClBpfApplicationProgramState \<Rightarrow> 'w rst \<Rightarrow>
     ((unit result \<times> ClBpfApplicationProgramState) \<times> 'w rst) go" where
  "ClTracepoint_updateLinks env prog =
     progUpdateLinks ClTracepoint_getLinks ClTracepoint_setLinks (ClTracepoint_getExpectedLinks env) ClTracepoint_findLink
       (specLinks (cp_TracePoint prog))"

definition ClTracepoint_processLinks ::
    "('w, 'z) Env_scheme \<Rightarrow> ClBpfApplicationProgramState \<Rightarrow> 'w rst \<Rightarrow>
     (ClBpfApplicationProgramState \<times> 'w rst) go" where
  "ClTracepoint_processLinks env = progProcessLinks env ClTracepoint_getLinks ClTracepoint_setLinks ClTracepoint_getAttachRequest"

definition ClTracepoint_getProgramLoadInfo :: "ClBpfApplicationProgram \<Rightarrow> LoadInfo go" where
  "ClTracepoint_getProgramLoadInfo prog =
     Some (mkLoadInfo (cp_Name prog) BpfmanProgramType_TRACEPOINT None)"

interpretation clTracepoint: program_type ClTracepoint_findLink "\<lambda>s l. Some (tp_Name l)" "\<lambda>a b. tp_Name a = tp_Name b"
    "\<lambda>a b. tp_Name a = tp_Name b" "ClTracepoint_getExpectedLinks env" ClTracepoint_getAttachRequest env ClTracepoint_getLinks ClTracepoint_setLinks "\<lambda>_. True"
  for env :: "('w, 'z) Env_scheme"
  by (rule program_type_by_key [where info = "\<lambda>l. AttachInfo_TracepointAttachInfo (tp_Name l) (uuidMetadata l)"])
    (auto simp: ClTracepoint_findLink_def ClTracepoint_getExpectedLinks_def ClTracepoint_getAttachRequest_def
      ClTracepoint_getLinks_def ClTracepoint_setLinks_def dest: newLink_mk newLink_unchanged)

section \<open>uprobe and uretprobe\<close>

definition ClUprobe_getAppStateLinks :: "ClBpfApplicationProgramState \<Rightarrow> ClUprobeAttachInfoState list go" where
  "ClUprobe_getAppStateLinks ps =
     (case cs_Type ps of
        ProgTypeUprobe \<Rightarrow> map_option Links (cs_UProbe ps)
      | ProgTypeUretprobe \<Rightarrow> map_option Links (cs_URetProbe ps)
      | _ \<Rightarrow> Some [])"

definition ClUprobe_setLinks ::
    "ClUprobeAttachInfoState list \<Rightarrow> ClBpfApplicationProgramState \<Rightarrow> ClBpfApplicationProgramState" where
  "ClUprobe_setLinks links ps =
     (case cs_Type ps of
        ProgTypeUprobe \<Rightarrow> ps\<lparr>cs_UProbe := map_option (\<lambda>i. i\<lparr>Links := links\<rparr>) (cs_UProbe ps)\<rparr>
      | ProgTypeUretprobe \<Rightarrow> ps\<lparr>cs_URetProbe := map_option (\<lambda>i. i\<lparr>Links := links\<rparr>) (cs_URetProbe ps)\<rparr>
      | _ \<Rightarrow> ps)"

definition ClUprobe_getAppLinks :: "ClBpfApplicationProgram \<Rightarrow> ClUprobeAttachInfo list" where
  "ClUprobe_getAppLinks prog =
     (case cp_Type prog of
        ProgTypeUprobe \<Rightarrow> specLinks (cp_UProbe prog)
      | ProgTypeUretprobe \<Rightarrow> specLinks (cp_URetProbe prog)
      | _ \<Rightarrow> [])"

definition ClUprobe_getAttachRequest :: "uint32 option \<Rightarrow> ClUprobeAttachInfoState \<Rightarrow> AttachRequest go" where
  "ClUprobe_getAttachRequest programId link =
     mkAttachRequest programId
       (AttachInfo_UprobeAttachInfo (Some (up_Function link)) (up_Offset link) (up_Target link)
          (up_Pid link) (up_ContainerPid link) (uuidMetadata link))"

definition ClUprobe_findLink ::
    "ClUprobeAttachInfoState \<Rightarrow> ClUprobeAttachInfoState list \<Rightarrow> 'w rst \<Rightarrow> nat option result \<times> 'w rst" where
  "ClUprobe_findLink link links s =
     (Inr (find_index (\<lambda>a. up_Function a = up_Function link \<and> up_Offset a = up_Offset link \<and>
                           up_Target a = up_Target link \<and> up_Pid a = up_Pid link \<and>
                           up_ContainerPid a = up_ContainerPid link) links), s)"

definition mkUprobeLink ::
    "'c UprobeAttachInfo_of \<Rightarrow> 'pid \<Rightarrow> string \<Rightarrow> 'pid UprobeAttachInfoState_of" where
  "mkUprobeLink attachInfo containerPid u =
     \<lparr>ShouldAttach = True, UUID = u, LinkId = None, LinkStatus = ApAttachNotAttached,
      up_Function = upa_Function attachInfo, up_Offset = upa_Offset attachInfo,
      up_Target = upa_Target attachInfo, up_Pid = upa_Pid attachInfo, up_ContainerPid = containerPid\<rparr>"

definition ClUprobe_getExpectedLinks ::
    "('w, 'z) Env_scheme \<Rightarrow> ClUprobeAttachInfo \<Rightarrow> 'w rst \<Rightarrow> ClUprobeAttachInfoState list result \<times> 'w rst" where
  "ClUprobe_getExpectedLinks env attachInfo s =
     (case upa_Containers attachInfo of
        Some sel \<Rightarrow>
          (case lift_world (Containers_GetContainers env (clcs_Namespace sel) (clcs_Pods sel)
                              (Some (clcs_ContainerNames sel))) s of
             (Inl err, s) \<Rightarrow> (Inl (''failed to get container pids: '' @ err), s)
           | (Inr None, s) \<Rightarrow> (Inr [], s)
           | (Inr (Some containerInfo), s) \<Rightarrow>
               (case newLinks env (\<lambda>container. mkUprobeLink attachInfo (Some (ci_pid container))) containerInfo s of
                  (links, s) \<Rightarrow> (Inr links, s)))
      | None \<Rightarrow> newLink env (mkUprobeLink attachInfo None) s)"

definition ClUprobe_updateLinks ::
    "('w, 'z) Env_scheme \<Rightarrow> ClBpfApplicationProgram \<Rightarrow> bool \<Rightarrow> ClBpfApplicationProgramState \<Rightarrow> 'w rst \<Rightarrow>
     ((unit result \<times> ClBpfApplicationProgramState) \<times> 'w rst) go" where
  "ClUprobe_updateLinks env prog =
     progUpdateLinks ClUprobe_getAppStateLinks ClUprobe_setLinks (ClUprobe_getExpectedLinks env)
       ClUprobe_findLink (ClUprobe_getAppLinks prog)"

definition ClUprobe_processLinks ::
    "('w, 'z) Env_scheme \<Rightarrow> ClBpfApplicationProgramState \<Rightarrow> 'w rst \<Rightarrow>
     (ClBpfApplicationProgramState \<times> 'w rst) go" where
  "ClUprobe_processLinks env =
     progProcessLinks env ClUprobe_getAppStateLinks ClUprobe_setLinks ClUprobe_getAttachRequest"

definition ClUprobe_getProgramLoadInfo :: "ClBpfApplicationProgram \<Rightarrow> LoadInfo go" where
  "ClUprobe_getProgramLoadInfo prog =
     Some (mkLoadInfo (cp_Name prog) BpfmanProgramType_UPROBE None)"

lemma lift_containers_unchanged:
  "daemon_quiet env live issued \<Longrightarrow> lift_world (Containers_GetContainers env ns sel names) s = (r, s') \<Longrightarrow>
   unchanged live issued s s'"
  by (auto simp: daemon_quiet_def lift_world_def unchanged_def split: prod.splits)

lemma mkUprobeLink_new [simp]:
  "ShouldAttach (mkUprobeLink ai c u)" "LinkId (mkUprobeLink ai c u) = None"
  "LinkStatus (mkUprobeLink ai c u) = ApAttachNotAttached"
  by (simp_all add: mkUprobeLink_def)

lemma ClUprobe_expected_new:
  "ClUprobe_getExpectedLinks env a s = (Inr es, s') \<Longrightarrow> e \<in> set es \<Longrightarrow> \<exists>c u. e = mkUprobeLink a c u"
  by (auto simp: ClUprobe_getExpectedLinks_def split: option.splits prod.splits sum.splits)
    (blast dest: newLink_mk newLinks_mk)+

lemma ClUprobe_expected_quiet:
  "daemon_quiet env live issued \<Longrightarrow> ClUprobe_getExpectedLinks env a s = (r, s') \<Longrightarrow>
   unchanged live issued s s'"
  by (auto simp: ClUprobe_getExpectedLinks_def split: option.splits prod.splits sum.splits
      dest: newLink_unchanged intro: unchanged_trans [OF lift_containers_unchanged newLinks_unchanged]
      lift_containers_unchanged)

definition uprobeKey :: "'pid UprobeAttachInfoState_of \<Rightarrow> string \<times> int64 \<times> string \<times> int32 option \<times> 'pid" where
  "uprobeKey l = (up_Function l, up_Offset l, up_Target l, up_Pid l, up_ContainerPid l)"

interpretation clUprobe: program_type ClUprobe_findLink "\<lambda>s l. Some (uprobeKey l)"
    "\<lambda>a b. uprobeKey a = uprobeKey b" "\<lambda>a b. uprobeKey a = uprobeKey b"
    "ClUprobe_getExpectedLinks env" ClUprobe_getAttachRequest env ClUprobe_getAppStateLinks ClUprobe_setLinks
    "\<lambda>ps. cs_Type ps = ProgTypeUprobe \<or> cs_Type ps = ProgTypeUretprobe"
  for env :: "('w, 'z) Env_scheme"
  by (rule program_type_by_key [where info = "\<lambda>l. AttachInfo_UprobeAttachInfo (Some (up_Function l))
        (up_Offset l) (up_Target l) (up_Pid l) (up_ContainerPid l) (uuidMetadata l)"])
    (auto simp: ClUprobe_findLink_def ClUprobe_getAttachRequest_def uprobeKey_def
      ClUprobe_getAppStateLinks_def ClUprobe_setLinks_def split: EBPFProgType.splits
      dest: ClUprobe_expected_new ClUprobe_expected_quiet)

end
