(* ===== verification/Net_Programs.thy ===== *)
theory Net_Programs
  imports Tracing_Programs
begin

text \<open>
  The program types that attach to network interfaces, cluster and namespace scoped:
  \<^verbatim>\<open>cl_tc_program.go\<close>, \<^verbatim>\<open>cl_tcx_program.go\<close>, \<^verbatim>\<open>cl_xdp_program.go\<close>, \<^verbatim>\<open>ns_tc_program.go\<close>,
  \<^verbatim>\<open>ns_tcx_program.go\<close>, \<^verbatim>\<open>ns_xdp_program.go\<close>, and the namespace-scoped uprobes of
  \<^verbatim>\<open>ns_uprobe_program.go\<close>. A network link is looked up by the fields of its attach point and by the
  inode of its network namespace, which goes through the cache; the lookup is shown equal to a
  search by key, so the cache is transparent.
\<close>

section \<open>Looking up a network link\<close>

text \<open>
  The loop of \<^verbatim>\<open>findLink\<close>: the namespace of a candidate is resolved only when its fields agree.
\<close>

fun netFindLoop ::
    "('w, 'z) Env_scheme \<Rightarrow> ('l NetAttachInfoState_scheme \<Rightarrow> bool) \<Rightarrow> uint64 \<Rightarrow> nat \<Rightarrow>
     'l NetAttachInfoState_scheme list \<Rightarrow> 'w rst \<Rightarrow> nat option \<times> 'w rst" where
  "netFindLoop env sameFields newNetnsId i [] s = (None, s)"
| "netFindLoop env sameFields newNetnsId i (a # links) s =
     (if sameFields a then
        (case GetNetNsId env (NetnsPath a) s of
           (r, s) \<Rightarrow> if r = Some newNetnsId then (Some i, s)
                     else netFindLoop env sameFields newNetnsId (Suc i) links s)
      else netFindLoop env sameFields newNetnsId (Suc i) links s)"

definition netFindLink ::
    "('w, 'z) Env_scheme \<Rightarrow>
     ('l NetAttachInfoState_scheme \<Rightarrow> 'l NetAttachInfoState_scheme \<Rightarrow> bool) \<Rightarrow>
     'l NetAttachInfoState_scheme \<Rightarrow> 'l NetAttachInfoState_scheme list \<Rightarrow> 'w rst \<Rightarrow>
     nat option result \<times> 'w rst" where
  "netFindLink env sameFields link links s =
     (case GetNetNsId env (NetnsPath link) s of
        (None, s) \<Rightarrow> (Inl (''failed to get netnsId for path '' @ NetnsPath link), s)
      | (Some newNetnsId, s) \<Rightarrow>
          (case netFindLoop env (\<lambda>a. sameFields a link) newNetnsId 0 links s of (i, s) \<Rightarrow> (Inr i, s)))"

definition tcSameFields :: "ClTcAttachInfoState \<Rightarrow> ClTcAttachInfoState \<Rightarrow> bool" where
  "tcSameFields a link \<longleftrightarrow>
     InterfaceName a = InterfaceName link \<and> tc_Direction a = tc_Direction link \<and>
     Priority a = Priority link \<and> tc_ProceedOn a = tc_ProceedOn link"

definition tcxSameFields :: "ClTcxAttachInfoState \<Rightarrow> ClTcxAttachInfoState \<Rightarrow> bool" where
  "tcxSameFields a link \<longleftrightarrow>
     InterfaceName a = InterfaceName link \<and> tcx_Direction a = tcx_Direction link \<and>
     Priority a = Priority link"

definition xdpSameFields :: "ClXdpAttachInfoState \<Rightarrow> ClXdpAttachInfoState \<Rightarrow> bool" where
  "xdpSameFields a link \<longleftrightarrow>
     InterfaceName a = InterfaceName link \<and> Priority a = Priority link \<and>
     xdp_ProceedOn a = xdp_ProceedOn link"

section \<open>Where to attach\<close>

text \<open>One point per interface in the network namespace of each pod.\<close>

definition containerPoints :: "string list \<Rightarrow> ContainerInfo list \<Rightarrow> (string \<times> string) list" where
  "containerPoints interfaces containerInfo =
     concat (map (\<lambda>container. map (\<lambda>iface. (iface, netnsPathFromPID (ci_pid container))) interfaces)
               (GetOneContainerPerPod containerInfo))"

text \<open>
  The interface name and namespace path of the links \<^verbatim>\<open>getExpectedLinks\<close> creates: by discovery,
  in the namespaces of selected pods, or on the host.
\<close>

definition clNetPoints ::
    "('w, 'z) Env_scheme \<Rightarrow> NodeObject \<Rightarrow> (ClNetworkNamespaceSelector option, 'a) NetAttachInfo_scheme \<Rightarrow>
     'w rst \<Rightarrow> (string \<times> string) list result \<times> 'w rst" where
  "clNetPoints env ourNode attachInfo s =
     (case (isInterfacesDiscoveryEnabled (na_InterfaceSelector attachInfo),
            InterfacesDiscoveryConfig (na_InterfaceSelector attachInfo)) of
        (True, Some cfg) \<Rightarrow>
          (Inr (map (\<lambda>i. (interfaceName i, netNSPath i)) (getDiscoveredInterfaces env cfg (world s))), s)
      | _ \<Rightarrow>
          (case getInterfaces env (na_InterfaceSelector attachInfo) ourNode (world s) of
             Inl err \<Rightarrow> (Inl (''failed to get interfaces for XdpProgram: '' @ err), s)
           | Inr interfaces \<Rightarrow>
               (case na_NetworkNamespaces attachInfo of
                  Some netns \<Rightarrow>
                    (case lift_world (Containers_GetContainers env (clnns_Namespace netns) (clnns_Pods netns) None) s of
                       (Inl err, s) \<Rightarrow> (Inl (''failed to get container pids: '' @ err), s)
                     | (Inr None, s) \<Rightarrow> (Inr [], s)
                     | (Inr (Some containerInfo), s) \<Rightarrow> (Inr (containerPoints interfaces containerInfo), s))
                | None \<Rightarrow> (Inr (map (\<lambda>iface. (iface, '''')) interfaces), s))))"

text \<open>The namespace-scoped types know no discovery and always select pods, in the reconciler's namespace.\<close>

definition nsNetPoints ::
    "string \<Rightarrow> ('w, 'z) Env_scheme \<Rightarrow> string \<Rightarrow> NodeObject \<Rightarrow> (NetworkNamespaceSelector, 'a) NetAttachInfo_scheme \<Rightarrow>
     'w rst \<Rightarrow> (string \<times> string) list result \<times> 'w rst" where
  "nsNetPoints what env namespace ourNode attachInfo s =
     (case getInterfaces env (na_InterfaceSelector attachInfo) ourNode (world s) of
        Inl err \<Rightarrow> (Inl (''failed to get interfaces for '' @ what @ '': '' @ err), s)
      | Inr interfaces \<Rightarrow>
          (case lift_world (Containers_GetContainers env namespace (nns_Pods (na_NetworkNamespaces attachInfo)) None) s of
             (Inl err, s) \<Rightarrow> (Inl (''failed to get container pids: '' @ err), s)
           | (Inr None, s) \<Rightarrow> (Inr [], s)
           | (Inr (Some containerInfo), s) \<Rightarrow> (Inr (containerPoints interfaces containerInfo), s)))"

definition linksAt ::
    "('w, 'z) Env_scheme \<Rightarrow> (string \<times> string \<Rightarrow> string \<Rightarrow> 'l) \<Rightarrow> (string \<times> string) list result \<times> 'w rst \<Rightarrow>
     'l list result \<times> 'w rst" where
  "linksAt env createLinkEntry ps =
     (case ps of
        (Inl err, s) \<Rightarrow> (Inl err, s)
      | (Inr points, s) \<Rightarrow> (case newLinks env createLinkEntry points s of (links, s) \<Rightarrow> (Inr links, s)))"

definition netnsOpt :: "string \<Rightarrow> string option" where
  "netnsOpt path = (if 0 < length path then Some path else None)"

section \<open>The lookup is a search by key\<close>

abbreviation netnsId :: "('w, 'z) Env_scheme \<Rightarrow> 'w rst \<Rightarrow> string \<Rightarrow> uint64 option" where
  "netnsId env s path \<equiv> fst (GetNetNsId env path s)"

text \<open>Resolving one path changes what no path resolves to.\<close>

definition netnsPathOf :: "string \<Rightarrow> string" where
  "netnsPathOf p = (if p = [] then hostNetNs else p)"

lemma netnsId_eq:
  "netnsId env s p =
     (case map_of (netns_cache s) (netnsPathOf p) of
        Some i \<Rightarrow> Some i
      | None \<Rightarrow> (case os_Stat env (netnsPathOf p) (world s) of Inl _ \<Rightarrow> None | Inr i \<Rightarrow> i))"
  by (simp add: GetNetNsId_def netnsPathOf_def Let_def split: option.split sum.split)

lemma GetNetNsId_cases:
  assumes "GetNetNsId env p s = (r, s')"
  obtains "s' = s"
  | ino where "map_of (netns_cache s) (netnsPathOf p) = None"
      "os_Stat env (netnsPathOf p) (world s) = Inr (Some ino)"
      "s' = s\<lparr>netns_cache := (netnsPathOf p, ino) # netns_cache s\<rparr>"
  using assms unfolding GetNetNsId_def netnsPathOf_def Let_def
  by (cases "map_of (netns_cache s) (if p = [] then hostNetNs else p)";
      cases "os_Stat env (if p = [] then hostNetNs else p) (world s)") (auto split: option.splits)

lemma GetNetNsId_transparent: "GetNetNsId env p s = (r, s') \<Longrightarrow> netnsId env s' q = netnsId env s q"
proof (erule GetNetNsId_cases)
  fix ino assume "map_of (netns_cache s) (netnsPathOf p) = None"
    "os_Stat env (netnsPathOf p) (world s) = Inr (Some ino)"
    "s' = s\<lparr>netns_cache := (netnsPathOf p, ino) # netns_cache s\<rparr>"
  then show ?thesis by (cases "netnsPathOf q = netnsPathOf p") (simp_all add: netnsId_eq split: option.split)
qed simp

lemma GetNetNsId_state: "GetNetNsId env p s = (r, s') \<Longrightarrow> world s' = world s"
  by (metis GetNetNsId_world snd_conv)

lemma netFindLoop_spec:
  "netFindLoop env sf n i ls s = (r, s') \<Longrightarrow>
   r = find_index_from i (\<lambda>a. sf a \<and> netnsId env s (NetnsPath a) = Some n) ls \<and>
   (\<forall>q. netnsId env s' q = netnsId env s q) \<and> world s' = world s"
proof (induction ls arbitrary: i s)
  case (Cons a ls)
  show ?case
  proof (cases "sf a")
    case True
    obtain x t where g: "GetNetNsId env (NetnsPath a) s = (x, t)" by fastforce
    note t = GetNetNsId_transparent [OF g] GetNetNsId_state [OF g]
    show ?thesis
    proof (cases "x = Some n")
      case True
      with \<open>sf a\<close> g Cons.prems t show ?thesis by auto
    next
      case False
      with \<open>sf a\<close> g Cons.prems have "netFindLoop env sf n (Suc i) ls t = (r, s')" by simp
      from Cons.IH [OF this] False g t show ?thesis by simp
    qed
  next
    case False
    with Cons show ?thesis by simp
  qed
qed simp

lemma netFindLink_none:
  "netnsId env s (NetnsPath l) = None \<Longrightarrow>
   fst (netFindLink env sf l ls s) = Inl (''failed to get netnsId for path '' @ NetnsPath l)"
  by (cases "GetNetNsId env (NetnsPath l) s") (simp add: netFindLink_def)

lemma netFindLink_some:
  assumes "netnsId env s (NetnsPath l) = Some n"
  shows "fst (netFindLink env sf l ls s) =
         Inr (find_index (\<lambda>a. sf a l \<and> netnsId env s (NetnsPath a) = Some n) ls)"
proof -
  from assms obtain t where g: "GetNetNsId env (NetnsPath l) s = (Some n, t)" by (metis prod.collapse)
  obtain y u where f: "netFindLoop env (\<lambda>a. sf a l) n 0 ls t = (y, u)" by fastforce
  with g netFindLoop_spec [OF f] GetNetNsId_transparent [OF g] show ?thesis
    by (simp add: netFindLink_def)
qed

lemma netFindLink_state:
  "netnsId env (snd (netFindLink env sf l ls s)) q = netnsId env s q \<and>
   world (snd (netFindLink env sf l ls s)) = world s"
proof -
  obtain x t where g: "GetNetNsId env (NetnsPath l) s = (x, t)" by fastforce
  note t = GetNetNsId_transparent [OF g] GetNetNsId_state [OF g]
  show ?thesis
  proof (cases x)
    case (Some n)
    obtain y u where f: "netFindLoop env (\<lambda>a. sf a l) n 0 ls t = (y, u)" by fastforce
    with g Some netFindLoop_spec [OF f] t show ?thesis by (simp add: netFindLink_def)
  qed (use g t in \<open>simp add: netFindLink_def\<close>)
qed

lemma clNetPoints_quiet:
  "daemon_quiet env live issued \<Longrightarrow> clNetPoints env node a s = (r, s') \<Longrightarrow> unchanged live issued s s'"
  by (auto simp: clNetPoints_def split: prod.splits sum.splits option.splits bool.splits
      dest: lift_containers_unchanged)

lemma nsNetPoints_quiet:
  "daemon_quiet env live issued \<Longrightarrow> nsNetPoints what env ns node a s = (r, s') \<Longrightarrow> unchanged live issued s s'"
  by (auto simp: nsNetPoints_def split: prod.splits sum.splits option.splits
      dest: lift_containers_unchanged)

lemma linksAt_quiet:
  assumes "daemon_quiet env live issued" "linksAt env mk (q, t) = (r, s')"
  shows "unchanged live issued t s'"
  using assms(2) by (cases q) (auto simp: linksAt_def split: prod.splits dest: newLinks_unchanged [OF assms(1)])

lemma linksAt_mk: "linksAt env mk (q, t) = (Inr es, s') \<Longrightarrow> e \<in> set es \<Longrightarrow>
   \<exists>points. q = Inr points \<and> (\<exists>x\<in>set points. \<exists>u. e = mk x u)"
  by (cases q) (auto simp: linksAt_def split: prod.splits dest: newLinks_mk)

text \<open>The contract for a network type: what each type has to show of its definitions.\<close>

lemma program_type_by_netns:
  assumes find: "\<And>l ls s. findLink l ls s = netFindLink env sf l ls s"
    and sf: "\<And>a b. sf a b \<longleftrightarrow> k a = k b"
    and k_flag: "\<And>l b. k (l\<lparr>ShouldAttach := b\<rparr>) = k l"
    and k_state: "\<And>l i st. k (l\<lparr>LinkId := i, LinkStatus := st\<rparr>) = k l"
    and exp: "\<And>a s. getExpectedLinks a s = linksAt env (mk a) (points a s)"
    and new: "\<And>a x u. ShouldAttach (mk a x u) \<and> LinkId (mk a x u) = None \<and>
                LinkStatus (mk a x u) = ApAttachNotAttached"
    and quiet: "\<And>live issued a s r s'. daemon_quiet env live issued \<Longrightarrow>
                  points a s = (r, s') \<Longrightarrow> unchanged live issued s s'"
    and req: "\<And>p l. getAttachRequest p l = mkAttachRequest p (info l)"
    and meta: "\<And>l. AttachInfo_Metadata (info l) = uuidMetadata l"
    and get_set: "\<And>ps old ls. getLinks ps = Some old \<Longrightarrow> getLinks (setLinks ls ps) = Some ls"
    and set_id: "\<And>ls ps. ProgramId (setLinks ls ps) = ProgramId ps"
    and get_status: "\<And>ps st. getLinks (ps\<lparr>ProgramLinkStatus := st\<rparr>) = getLinks ps"
  shows "program_type findLink (\<lambda>s l. map_option (Pair (k l)) (netnsId env s (NetnsPath l))) sf
           (\<lambda>a b. sf a b \<and> NetnsPath a = NetnsPath b)
           getExpectedLinks getAttachRequest env getLinks setLinks (\<lambda>_. True)"
proof (unfold_locales, goal_cases)
  case (1 s l ls)
  then show ?case by (simp add: find netFindLink_none)
next
  case (2 s l v ls)
  then obtain n where n: "netnsId env s (NetnsPath l) = Some n" "v = (k l, n)" by auto
  have "(\<lambda>a. sf a l \<and> netnsId env s (NetnsPath a) = Some n) =
        (\<lambda>a. map_option (Pair (k a)) (netnsId env s (NetnsPath a)) = Some v)"
    using n(2) by (auto simp: sf fun_eq_iff)
  with netFindLink_some [OF n(1), of sf ls] show ?case by (simp add: find)
next
  case (3 l ls s)
  then show ?case by (simp add: find netFindLink_state fun_eq_iff)
next
  case (4 l ls s)
  then show ?case by (simp add: find netFindLink_state)
next
  case (14 a s es s' e)
  then show ?case using new by (metis exp linksAt_mk prod.collapse)
next
  case (21 live issued a s r s')
  then show ?case using quiet linksAt_quiet exp by (metis prod.collapse unchanged_trans)
qed (use assms in \<open>auto simp: uuidMetadata_def\<close>)

section \<open>Conversions of the proceed-on values\<close>

fun tcProceedOnToInt :: "TcProceedOnValue list \<Rightarrow> int32 list" where
  "tcProceedOnToInt [] = []"
| "tcProceedOnToInt (p # ps) =
     (if p = ''Unspec'' then [-1]
      else if p = ''OK'' then [0]
      else if p = ''ReClassify'' then [1]
      else if p = ''Shot'' then [2]
      else if p = ''Pipe'' then [3]
      else if p = ''Stolen'' then [4]
      else if p = ''Queued'' then [5]
      else if p = ''Repeat'' then [6]
      else if p = ''ReDirect'' then [7]
      else if p = ''Trap'' then [8]
      else if p = ''DispatcherReturn'' then [30]
      else []) @ tcProceedOnToInt ps"

fun xdpProceedOnToInt :: "XdpProceedOnValue list \<Rightarrow> int32 list" where
  "xdpProceedOnToInt [] = []"
| "xdpProceedOnToInt (p # ps) =
     (if p = ''Aborted'' then [0]
      else if p = ''Drop'' then [1]
      else if p = ''Pass'' then [2]
      else if p = ''TX'' then [3]
      else if p = ''ReDirect'' then [4]
      else if p = ''DispatcherReturn'' then [31]
      else []) @ xdpProceedOnToInt ps"

section \<open>The links of the three types\<close>

definition mkTcLink :: "'ns TcAttachInfo_of \<Rightarrow> string \<times> string \<Rightarrow> string \<Rightarrow> ClTcAttachInfoState" where
  "mkTcLink attachInfo pt u =
     \<lparr>ShouldAttach = True, UUID = u, LinkId = None, LinkStatus = ApAttachNotAttached,
      InterfaceName = fst pt, NetnsPath = snd pt, Priority = GetPriority (na_Priority attachInfo),
      tc_Direction = tca_Direction attachInfo, tc_ProceedOn = tca_ProceedOn attachInfo\<rparr>"

definition mkTcxLink :: "'ns TcxAttachInfo_of \<Rightarrow> string \<times> string \<Rightarrow> string \<Rightarrow> ClTcxAttachInfoState" where
  "mkTcxLink attachInfo pt u =
     \<lparr>ShouldAttach = True, UUID = u, LinkId = None, LinkStatus = ApAttachNotAttached,
      InterfaceName = fst pt, NetnsPath = snd pt, Priority = GetPriority (na_Priority attachInfo),
      tcx_Direction = tcxa_Direction attachInfo\<rparr>"

definition mkXdpLink :: "'ns XdpAttachInfo_of \<Rightarrow> string \<times> string \<Rightarrow> string \<Rightarrow> ClXdpAttachInfoState" where
  "mkXdpLink attachInfo pt u =
     \<lparr>ShouldAttach = True, UUID = u, LinkId = None, LinkStatus = ApAttachNotAttached,
      InterfaceName = fst pt, NetnsPath = snd pt, Priority = GetPriority (na_Priority attachInfo),
      xdp_ProceedOn = xdpa_ProceedOn attachInfo\<rparr>"

section \<open>TC, cluster scoped\<close>

definition ClTc_getLinks :: "ClBpfApplicationProgramState \<Rightarrow> ClTcAttachInfoState list go" where
  "ClTc_getLinks ps = map_option Links (cs_TC ps)"

definition ClTc_setLinks :: "ClTcAttachInfoState list \<Rightarrow> ClBpfApplicationProgramState \<Rightarrow> ClBpfApplicationProgramState" where
  "ClTc_setLinks links ps = ps\<lparr>cs_TC := map_option (\<lambda>i. i\<lparr>Links := links\<rparr>) (cs_TC ps)\<rparr>"

definition ClTc_getAttachRequest :: "uint32 option \<Rightarrow> ClTcAttachInfoState \<Rightarrow> AttachRequest go" where
  "ClTc_getAttachRequest programId link =
     mkAttachRequest programId
       (AttachInfo_TcAttachInfo (Priority link) (InterfaceName link) (directionToStr (tc_Direction link))
          (tcProceedOnToInt (elems (tc_ProceedOn link))) (uuidMetadata link) (netnsOpt (NetnsPath link)))"

definition ClTc_findLink ::
    "('w, 'z) Env_scheme \<Rightarrow> ClTcAttachInfoState \<Rightarrow> ClTcAttachInfoState list \<Rightarrow> 'w rst \<Rightarrow> nat option result \<times> 'w rst" where
  "ClTc_findLink env link links s = netFindLink env tcSameFields link links s"

definition ClTc_getExpectedLinks ::
    "('w, 'z) Env_scheme \<Rightarrow> NodeObject \<Rightarrow> ClTcAttachInfo \<Rightarrow> 'w rst \<Rightarrow> ClTcAttachInfoState list result \<times> 'w rst" where
  "ClTc_getExpectedLinks env ourNode attachInfo s =
     linksAt env (mkTcLink attachInfo) (clNetPoints env ourNode attachInfo s)"

definition ClTc_updateLinks ::
    "('w, 'z) Env_scheme \<Rightarrow> NodeObject \<Rightarrow> ClBpfApplicationProgram \<Rightarrow> bool \<Rightarrow> ClBpfApplicationProgramState \<Rightarrow> 'w rst \<Rightarrow>
     ((unit result \<times> ClBpfApplicationProgramState) \<times> 'w rst) go" where
  "ClTc_updateLinks env ourNode prog =
     progUpdateLinks ClTc_getLinks ClTc_setLinks (ClTc_getExpectedLinks env ourNode)
       (ClTc_findLink env) (specLinks (cp_TC prog))"

definition ClTc_processLinks ::
    "('w, 'z) Env_scheme \<Rightarrow> ClBpfApplicationProgramState \<Rightarrow> 'w rst \<Rightarrow> (ClBpfApplicationProgramState \<times> 'w rst) go" where
  "ClTc_processLinks env = progProcessLinks env ClTc_getLinks ClTc_setLinks ClTc_getAttachRequest"

definition ClTc_getProgramLoadInfo :: "ClBpfApplicationProgram \<Rightarrow> LoadInfo go" where
  "ClTc_getProgramLoadInfo prog = Some (mkLoadInfo (cp_Name prog) BpfmanProgramType_TC None)"

interpretation clTc: program_type "ClTc_findLink env"
    "\<lambda>s l. map_option (Pair (InterfaceName l, tc_Direction l, Priority l, tc_ProceedOn l)) (netnsId env s (NetnsPath l))" tcSameFields
    "\<lambda>a b. tcSameFields a b \<and> NetnsPath a = NetnsPath b"
    "ClTc_getExpectedLinks env ourNode" ClTc_getAttachRequest env ClTc_getLinks ClTc_setLinks "\<lambda>_. True"
  for env :: "('w, 'z) Env_scheme" and ourNode
  by (rule program_type_by_netns [where mk = mkTcLink and
        points = "\<lambda>attachInfo s. clNetPoints env ourNode attachInfo s" and
        info = "\<lambda>l. AttachInfo_TcAttachInfo (Priority l) (InterfaceName l) (directionToStr (tc_Direction l))
          (tcProceedOnToInt (elems (tc_ProceedOn l))) (uuidMetadata l) (netnsOpt (NetnsPath l))"])
    (auto simp: ClTc_findLink_def tcSameFields_def ClTc_getExpectedLinks_def ClTc_getAttachRequest_def
      mkTcLink_def ClTc_getLinks_def ClTc_setLinks_def dest: clNetPoints_quiet)

section \<open>TCX, cluster scoped\<close>

definition ClTcx_getLinks :: "ClBpfApplicationProgramState \<Rightarrow> ClTcxAttachInfoState list go" where
  "ClTcx_getLinks ps = map_option Links (cs_TCX ps)"

definition ClTcx_setLinks :: "ClTcxAttachInfoState list \<Rightarrow> ClBpfApplicationProgramState \<Rightarrow> ClBpfApplicationProgramState" where
  "ClTcx_setLinks links ps = ps\<lparr>cs_TCX := map_option (\<lambda>i. i\<lparr>Links := links\<rparr>) (cs_TCX ps)\<rparr>"

definition ClTcx_getAttachRequest :: "uint32 option \<Rightarrow> ClTcxAttachInfoState \<Rightarrow> AttachRequest go" where
  "ClTcx_getAttachRequest programId link =
     mkAttachRequest programId
       (AttachInfo_TcxAttachInfo (Priority link) (InterfaceName link) (directionToStr (tcx_Direction link))
          (uuidMetadata link) (netnsOpt (NetnsPath link)))"

definition ClTcx_findLink ::
    "('w, 'z) Env_scheme \<Rightarrow> ClTcxAttachInfoState \<Rightarrow> ClTcxAttachInfoState list \<Rightarrow> 'w rst \<Rightarrow> nat option result \<times> 'w rst" where
  "ClTcx_findLink env link links s = netFindLink env tcxSameFields link links s"

definition ClTcx_getExpectedLinks ::
    "('w, 'z) Env_scheme \<Rightarrow> NodeObject \<Rightarrow> ClTcxAttachInfo \<Rightarrow> 'w rst \<Rightarrow> ClTcxAttachInfoState list result \<times> 'w rst" where
  "ClTcx_getExpectedLinks env ourNode attachInfo s =
     linksAt env (mkTcxLink attachInfo) (clNetPoints env ourNode attachInfo s)"

definition ClTcx_updateLinks ::
    "('w, 'z) Env_scheme \<Rightarrow> NodeObject \<Rightarrow> ClBpfApplicationProgram \<Rightarrow> bool \<Rightarrow> ClBpfApplicationProgramState \<Rightarrow> 'w rst \<Rightarrow>
     ((unit result \<times> ClBpfApplicationProgramState) \<times> 'w rst) go" where
  "ClTcx_updateLinks env ourNode prog =
     progUpdateLinks ClTcx_getLinks ClTcx_setLinks (ClTcx_getExpectedLinks env ourNode)
       (ClTcx_findLink env) (specLinks (cp_TCX prog))"

definition ClTcx_processLinks ::
    "('w, 'z) Env_scheme \<Rightarrow> ClBpfApplicationProgramState \<Rightarrow> 'w rst \<Rightarrow> (ClBpfApplicationProgramState \<times> 'w rst) go" where
  "ClTcx_processLinks env = progProcessLinks env ClTcx_getLinks ClTcx_setLinks ClTcx_getAttachRequest"

definition ClTcx_getProgramLoadInfo :: "ClBpfApplicationProgram \<Rightarrow> LoadInfo go" where
  "ClTcx_getProgramLoadInfo prog = Some (mkLoadInfo (cp_Name prog) BpfmanProgramType_TCX None)"

interpretation clTcx: program_type "ClTcx_findLink env"
    "\<lambda>s l. map_option (Pair (InterfaceName l, tcx_Direction l, Priority l)) (netnsId env s (NetnsPath l))" tcxSameFields
    "\<lambda>a b. tcxSameFields a b \<and> NetnsPath a = NetnsPath b"
    "ClTcx_getExpectedLinks env ourNode" ClTcx_getAttachRequest env ClTcx_getLinks ClTcx_setLinks "\<lambda>_. True"
  for env :: "('w, 'z) Env_scheme" and ourNode
  by (rule program_type_by_netns [where mk = mkTcxLink and
        points = "\<lambda>attachInfo s. clNetPoints env ourNode attachInfo s" and
        info = "\<lambda>l. AttachInfo_TcxAttachInfo (Priority l) (InterfaceName l) (directionToStr (tcx_Direction l))
          (uuidMetadata l) (netnsOpt (NetnsPath l))"])
    (auto simp: ClTcx_findLink_def tcxSameFields_def ClTcx_getExpectedLinks_def ClTcx_getAttachRequest_def
      mkTcxLink_def ClTcx_getLinks_def ClTcx_setLinks_def dest: clNetPoints_quiet)

section \<open>XDP, cluster scoped\<close>

definition ClXdp_getLinks :: "ClBpfApplicationProgramState \<Rightarrow> ClXdpAttachInfoState list go" where
  "ClXdp_getLinks ps = map_option Links (cs_XDP ps)"

definition ClXdp_setLinks :: "ClXdpAttachInfoState list \<Rightarrow> ClBpfApplicationProgramState \<Rightarrow> ClBpfApplicationProgramState" where
  "ClXdp_setLinks links ps = ps\<lparr>cs_XDP := map_option (\<lambda>i. i\<lparr>Links := links\<rparr>) (cs_XDP ps)\<rparr>"

definition ClXdp_getAttachRequest :: "uint32 option \<Rightarrow> ClXdpAttachInfoState \<Rightarrow> AttachRequest go" where
  "ClXdp_getAttachRequest programId link =
     mkAttachRequest programId
       (AttachInfo_XdpAttachInfo (Priority link) (InterfaceName link)
          (xdpProceedOnToInt (elems (xdp_ProceedOn link))) (uuidMetadata link) (netnsOpt (NetnsPath link)))"

definition ClXdp_findLink ::
    "('w, 'z) Env_scheme \<Rightarrow> ClXdpAttachInfoState \<Rightarrow> ClXdpAttachInfoState list \<Rightarrow> 'w rst \<Rightarrow> nat option result \<times> 'w rst" where
  "ClXdp_findLink env link links s = netFindLink env xdpSameFields link links s"

definition ClXdp_getExpectedLinks ::
    "('w, 'z) Env_scheme \<Rightarrow> NodeObject \<Rightarrow> ClXdpAttachInfo \<Rightarrow> 'w rst \<Rightarrow> ClXdpAttachInfoState list result \<times> 'w rst" where
  "ClXdp_getExpectedLinks env ourNode attachInfo s =
     linksAt env (mkXdpLink attachInfo) (clNetPoints env ourNode attachInfo s)"

definition ClXdp_updateLinks ::
    "('w, 'z) Env_scheme \<Rightarrow> NodeObject \<Rightarrow> ClBpfApplicationProgram \<Rightarrow> bool \<Rightarrow> ClBpfApplicationProgramState \<Rightarrow> 'w rst \<Rightarrow>
     ((unit result \<times> ClBpfApplicationProgramState) \<times> 'w rst) go" where
  "ClXdp_updateLinks env ourNode prog =
     progUpdateLinks ClXdp_getLinks ClXdp_setLinks (ClXdp_getExpectedLinks env ourNode)
       (ClXdp_findLink env) (specLinks (cp_XDP prog))"

definition ClXdp_processLinks ::
    "('w, 'z) Env_scheme \<Rightarrow> ClBpfApplicationProgramState \<Rightarrow> 'w rst \<Rightarrow> (ClBpfApplicationProgramState \<times> 'w rst) go" where
  "ClXdp_processLinks env = progProcessLinks env ClXdp_getLinks ClXdp_setLinks ClXdp_getAttachRequest"

definition ClXdp_getProgramLoadInfo :: "ClBpfApplicationProgram \<Rightarrow> LoadInfo go" where
  "ClXdp_getProgramLoadInfo prog = Some (mkLoadInfo (cp_Name prog) BpfmanProgramType_XDP None)"

interpretation clXdp: program_type "ClXdp_findLink env"
    "\<lambda>s l. map_option (Pair (InterfaceName l, Priority l, xdp_ProceedOn l)) (netnsId env s (NetnsPath l))" xdpSameFields
    "\<lambda>a b. xdpSameFields a b \<and> NetnsPath a = NetnsPath b"
    "ClXdp_getExpectedLinks env ourNode" ClXdp_getAttachRequest env ClXdp_getLinks ClXdp_setLinks "\<lambda>_. True"
  for env :: "('w, 'z) Env_scheme" and ourNode
  by (rule program_type_by_netns [where mk = mkXdpLink and
        points = "\<lambda>attachInfo s. clNetPoints env ourNode attachInfo s" and
        info = "\<lambda>l. AttachInfo_XdpAttachInfo (Priority l) (InterfaceName l)
          (xdpProceedOnToInt (elems (xdp_ProceedOn l))) (uuidMetadata l) (netnsOpt (NetnsPath l))"])
    (auto simp: ClXdp_findLink_def xdpSameFields_def ClXdp_getExpectedLinks_def ClXdp_getAttachRequest_def
      mkXdpLink_def ClXdp_getLinks_def ClXdp_setLinks_def dest: clNetPoints_quiet)

section \<open>TC, namespace scoped\<close>

definition NsTc_getLinks :: "BpfApplicationProgramState \<Rightarrow> TcAttachInfoState list go" where
  "NsTc_getLinks ps = map_option Links (ns_TC ps)"

definition NsTc_setLinks :: "TcAttachInfoState list \<Rightarrow> BpfApplicationProgramState \<Rightarrow> BpfApplicationProgramState" where
  "NsTc_setLinks links ps = ps\<lparr>ns_TC := map_option (\<lambda>i. i\<lparr>Links := links\<rparr>) (ns_TC ps)\<rparr>"

definition NsTc_getAttachRequest :: "uint32 option \<Rightarrow> TcAttachInfoState \<Rightarrow> AttachRequest go" where
  "NsTc_getAttachRequest programId link =
     mkAttachRequest programId
       (AttachInfo_TcAttachInfo (Priority link) (InterfaceName link) (directionToStr (tc_Direction link))
          (tcProceedOnToInt (elems (tc_ProceedOn link))) (uuidMetadata link) (Some (NetnsPath link)))"

definition NsTc_findLink ::
    "('w, 'z) Env_scheme \<Rightarrow> TcAttachInfoState \<Rightarrow> TcAttachInfoState list \<Rightarrow> 'w rst \<Rightarrow> nat option result \<times> 'w rst" where
  "NsTc_findLink env link links s = netFindLink env tcSameFields link links s"

definition NsTc_getExpectedLinks ::
    "('w, 'z) Env_scheme \<Rightarrow> string \<Rightarrow> NodeObject \<Rightarrow> TcAttachInfo \<Rightarrow> 'w rst \<Rightarrow> TcAttachInfoState list result \<times> 'w rst" where
  "NsTc_getExpectedLinks env namespace ourNode attachInfo s =
     linksAt env (mkTcLink attachInfo) (nsNetPoints ''TcProgram'' env namespace ourNode attachInfo s)"

definition NsTc_updateLinks ::
    "('w, 'z) Env_scheme \<Rightarrow> string \<Rightarrow> NodeObject \<Rightarrow> BpfApplicationProgram \<Rightarrow> bool \<Rightarrow> BpfApplicationProgramState \<Rightarrow> 'w rst \<Rightarrow>
     ((unit result \<times> BpfApplicationProgramState) \<times> 'w rst) go" where
  "NsTc_updateLinks env namespace ourNode prog =
     progUpdateLinks NsTc_getLinks NsTc_setLinks (NsTc_getExpectedLinks env namespace ourNode)
       (NsTc_findLink env) (specLinks (np_TC prog))"

definition NsTc_processLinks ::
    "('w, 'z) Env_scheme \<Rightarrow> BpfApplicationProgramState \<Rightarrow> 'w rst \<Rightarrow> (BpfApplicationProgramState \<times> 'w rst) go" where
  "NsTc_processLinks env = progProcessLinks env NsTc_getLinks NsTc_setLinks NsTc_getAttachRequest"

definition NsTc_getProgramLoadInfo :: "BpfApplicationProgram \<Rightarrow> LoadInfo go" where
  "NsTc_getProgramLoadInfo prog = Some (mkLoadInfo (np_Name prog) BpfmanProgramType_TC None)"

interpretation nsTc: program_type "NsTc_findLink env"
    "\<lambda>s l. map_option (Pair (InterfaceName l, tc_Direction l, Priority l, tc_ProceedOn l)) (netnsId env s (NetnsPath l))" tcSameFields
    "\<lambda>a b. tcSameFields a b \<and> NetnsPath a = NetnsPath b"
    "NsTc_getExpectedLinks env namespace ourNode" NsTc_getAttachRequest env NsTc_getLinks NsTc_setLinks "\<lambda>_. True"
  for env :: "('w, 'z) Env_scheme" and namespace and ourNode
  by (rule program_type_by_netns [where mk = mkTcLink and
        points = "\<lambda>attachInfo s. nsNetPoints ''TcProgram'' env namespace ourNode attachInfo s" and
        info = "\<lambda>l. AttachInfo_TcAttachInfo (Priority l) (InterfaceName l) (directionToStr (tc_Direction l))
          (tcProceedOnToInt (elems (tc_ProceedOn l))) (uuidMetadata l) (Some (NetnsPath l))"])
    (auto simp: NsTc_findLink_def tcSameFields_def NsTc_getExpectedLinks_def NsTc_getAttachRequest_def
      mkTcLink_def NsTc_getLinks_def NsTc_setLinks_def dest: nsNetPoints_quiet)

section \<open>TCX, namespace scoped\<close>

definition NsTcx_getLinks :: "BpfApplicationProgramState \<Rightarrow> TcxAttachInfoState list go" where
  "NsTcx_getLinks ps = map_option Links (ns_TCX ps)"

definition NsTcx_setLinks :: "TcxAttachInfoState list \<Rightarrow> BpfApplicationProgramState \<Rightarrow> BpfApplicationProgramState" where
  "NsTcx_setLinks links ps = ps\<lparr>ns_TCX := map_option (\<lambda>i. i\<lparr>Links := links\<rparr>) (ns_TCX ps)\<rparr>"

definition NsTcx_getAttachRequest :: "uint32 option \<Rightarrow> TcxAttachInfoState \<Rightarrow> AttachRequest go" where
  "NsTcx_getAttachRequest programId link =
     mkAttachRequest programId
       (AttachInfo_TcxAttachInfo (Priority link) (InterfaceName link) (directionToStr (tcx_Direction link))
          (uuidMetadata link) (Some (NetnsPath link)))"

definition NsTcx_findLink ::
    "('w, 'z) Env_scheme \<Rightarrow> TcxAttachInfoState \<Rightarrow> TcxAttachInfoState list \<Rightarrow> 'w rst \<Rightarrow> nat option result \<times> 'w rst" where
  "NsTcx_findLink env link links s = netFindLink env tcxSameFields link links s"

definition NsTcx_getExpectedLinks ::
    "('w, 'z) Env_scheme \<Rightarrow> string \<Rightarrow> NodeObject \<Rightarrow> TcxAttachInfo \<Rightarrow> 'w rst \<Rightarrow> TcxAttachInfoState list result \<times> 'w rst" where
  "NsTcx_getExpectedLinks env namespace ourNode attachInfo s =
     linksAt env (mkTcxLink attachInfo) (nsNetPoints ''TcxNsProgram'' env namespace ourNode attachInfo s)"

definition NsTcx_updateLinks ::
    "('w, 'z) Env_scheme \<Rightarrow> string \<Rightarrow> NodeObject \<Rightarrow> BpfApplicationProgram \<Rightarrow> bool \<Rightarrow> BpfApplicationProgramState \<Rightarrow> 'w rst \<Rightarrow>
     ((unit result \<times> BpfApplicationProgramState) \<times> 'w rst) go" where
  "NsTcx_updateLinks env namespace ourNode prog =
     progUpdateLinks NsTcx_getLinks NsTcx_setLinks (NsTcx_getExpectedLinks env namespace ourNode)
       (NsTcx_findLink env) (specLinks (np_TCX prog))"

definition NsTcx_processLinks ::
    "('w, 'z) Env_scheme \<Rightarrow> BpfApplicationProgramState \<Rightarrow> 'w rst \<Rightarrow> (BpfApplicationProgramState \<times> 'w rst) go" where
  "NsTcx_processLinks env = progProcessLinks env NsTcx_getLinks NsTcx_setLinks NsTcx_getAttachRequest"

definition NsTcx_getProgramLoadInfo :: "BpfApplicationProgram \<Rightarrow> LoadInfo go" where
  "NsTcx_getProgramLoadInfo prog = Some (mkLoadInfo (np_Name prog) BpfmanProgramType_TCX None)"

interpretation nsTcx: program_type "NsTcx_findLink env"
    "\<lambda>s l. map_option (Pair (InterfaceName l, tcx_Direction l, Priority l)) (netnsId env s (NetnsPath l))" tcxSameFields
    "\<lambda>a b. tcxSameFields a b \<and> NetnsPath a = NetnsPath b"
    "NsTcx_getExpectedLinks env namespace ourNode" NsTcx_getAttachRequest env NsTcx_getLinks NsTcx_setLinks "\<lambda>_. True"
  for env :: "('w, 'z) Env_scheme" and namespace and ourNode
  by (rule program_type_by_netns [where mk = mkTcxLink and
        points = "\<lambda>attachInfo s. nsNetPoints ''TcxNsProgram'' env namespace ourNode attachInfo s" and
        info = "\<lambda>l. AttachInfo_TcxAttachInfo (Priority l) (InterfaceName l) (directionToStr (tcx_Direction l))
          (uuidMetadata l) (Some (NetnsPath l))"])
    (auto simp: NsTcx_findLink_def tcxSameFields_def NsTcx_getExpectedLinks_def NsTcx_getAttachRequest_def
      mkTcxLink_def NsTcx_getLinks_def NsTcx_setLinks_def dest: nsNetPoints_quiet)

section \<open>XDP, namespace scoped\<close>

definition NsXdp_getLinks :: "BpfApplicationProgramState \<Rightarrow> XdpAttachInfoState list go" where
  "NsXdp_getLinks ps = map_option Links (ns_XDP ps)"

definition NsXdp_setLinks :: "XdpAttachInfoState list \<Rightarrow> BpfApplicationProgramState \<Rightarrow> BpfApplicationProgramState" where
  "NsXdp_setLinks links ps = ps\<lparr>ns_XDP := map_option (\<lambda>i. i\<lparr>Links := links\<rparr>) (ns_XDP ps)\<rparr>"

definition NsXdp_getAttachRequest :: "uint32 option \<Rightarrow> XdpAttachInfoState \<Rightarrow> AttachRequest go" where
  "NsXdp_getAttachRequest programId link =
     mkAttachRequest programId
       (AttachInfo_XdpAttachInfo (Priority link) (InterfaceName link)
          (xdpProceedOnToInt (elems (xdp_ProceedOn link))) (uuidMetadata link) (Some (NetnsPath link)))"

definition NsXdp_findLink ::
    "('w, 'z) Env_scheme \<Rightarrow> XdpAttachInfoState \<Rightarrow> XdpAttachInfoState list \<Rightarrow> 'w rst \<Rightarrow> nat option result \<times> 'w rst" where
  "NsXdp_findLink env link links s = netFindLink env xdpSameFields link links s"

definition NsXdp_getExpectedLinks ::
    "('w, 'z) Env_scheme \<Rightarrow> string \<Rightarrow> NodeObject \<Rightarrow> XdpAttachInfo \<Rightarrow> 'w rst \<Rightarrow> XdpAttachInfoState list result \<times> 'w rst" where
  "NsXdp_getExpectedLinks env namespace ourNode attachInfo s =
     linksAt env (mkXdpLink attachInfo) (nsNetPoints ''XdpNsProgram'' env namespace ourNode attachInfo s)"

definition NsXdp_updateLinks ::
    "('w, 'z) Env_scheme \<Rightarrow> string \<Rightarrow> NodeObject \<Rightarrow> BpfApplicationProgram \<Rightarrow> bool \<Rightarrow> BpfApplicationProgramState \<Rightarrow> 'w rst \<Rightarrow>
     ((unit result \<times> BpfApplicationProgramState) \<times> 'w rst) go" where
  "NsXdp_updateLinks env namespace ourNode prog =
     progUpdateLinks NsXdp_getLinks NsXdp_setLinks (NsXdp_getExpectedLinks env namespace ourNode)
       (NsXdp_findLink env) (specLinks (np_XDP prog))"

definition NsXdp_processLinks ::
    "('w, 'z) Env_scheme \<Rightarrow> BpfApplicationProgramState \<Rightarrow> 'w rst \<Rightarrow> (BpfApplicationProgramState \<times> 'w rst) go" where
  "NsXdp_processLinks env = progProcessLinks env NsXdp_getLinks NsXdp_setLinks NsXdp_getAttachRequest"

definition NsXdp_getProgramLoadInfo :: "BpfApplicationProgram \<Rightarrow> LoadInfo go" where
  "NsXdp_getProgramLoadInfo prog = Some (mkLoadInfo (np_Name prog) BpfmanProgramType_XDP None)"

interpretation nsXdp: program_type "NsXdp_findLink env"
    "\<lambda>s l. map_option (Pair (InterfaceName l, Priority l, xdp_ProceedOn l)) (netnsId env s (NetnsPath l))" xdpSameFields
    "\<lambda>a b. xdpSameFields a b \<and> NetnsPath a = NetnsPath b"
    "NsXdp_getExpectedLinks env namespace ourNode" NsXdp_getAttachRequest env NsXdp_getLinks NsXdp_setLinks "\<lambda>_. True"
  for env :: "('w, 'z) Env_scheme" and namespace and ourNode
  by (rule program_type_by_netns [where mk = mkXdpLink and
        points = "\<lambda>attachInfo s. nsNetPoints ''XdpNsProgram'' env namespace ourNode attachInfo s" and
        info = "\<lambda>l. AttachInfo_XdpAttachInfo (Priority l) (InterfaceName l)
          (xdpProceedOnToInt (elems (xdp_ProceedOn l))) (uuidMetadata l) (Some (NetnsPath l))"])
    (auto simp: NsXdp_findLink_def xdpSameFields_def NsXdp_getExpectedLinks_def NsXdp_getAttachRequest_def
      mkXdpLink_def NsXdp_getLinks_def NsXdp_setLinks_def dest: nsNetPoints_quiet)

section \<open>uprobe and uretprobe, namespace scoped\<close>

definition NsUprobe_getAppStateLinks :: "BpfApplicationProgramState \<Rightarrow> UprobeAttachInfoState list go" where
  "NsUprobe_getAppStateLinks ps =
     (case ns_Type ps of
        ProgTypeUprobe \<Rightarrow> map_option Links (ns_UProbe ps)
      | ProgTypeUretprobe \<Rightarrow> map_option Links (ns_URetProbe ps)
      | _ \<Rightarrow> Some [])"

definition NsUprobe_setLinks ::
    "UprobeAttachInfoState list \<Rightarrow> BpfApplicationProgramState \<Rightarrow> BpfApplicationProgramState" where
  "NsUprobe_setLinks links ps =
     (case ns_Type ps of
        ProgTypeUprobe \<Rightarrow> ps\<lparr>ns_UProbe := map_option (\<lambda>i. i\<lparr>Links := links\<rparr>) (ns_UProbe ps)\<rparr>
      | ProgTypeUretprobe \<Rightarrow> ps\<lparr>ns_URetProbe := map_option (\<lambda>i. i\<lparr>Links := links\<rparr>) (ns_URetProbe ps)\<rparr>
      | _ \<Rightarrow> ps)"

definition NsUprobe_getAppLinks :: "BpfApplicationProgram \<Rightarrow> UprobeAttachInfo list" where
  "NsUprobe_getAppLinks prog =
     (case np_Type prog of
        ProgTypeUprobe \<Rightarrow> specLinks (np_UProbe prog)
      | ProgTypeUretprobe \<Rightarrow> specLinks (np_URetProbe prog)
      | _ \<Rightarrow> [])"

definition NsUprobe_getAttachRequest :: "uint32 option \<Rightarrow> UprobeAttachInfoState \<Rightarrow> AttachRequest go" where
  "NsUprobe_getAttachRequest programId link =
     mkAttachRequest programId
       (AttachInfo_UprobeAttachInfo (Some (up_Function link)) (up_Offset link) (up_Target link)
          (up_Pid link) (Some (up_ContainerPid link)) (uuidMetadata link))"

definition NsUprobe_findLink ::
    "UprobeAttachInfoState \<Rightarrow> UprobeAttachInfoState list \<Rightarrow> 'w rst \<Rightarrow> nat option result \<times> 'w rst" where
  "NsUprobe_findLink link links s =
     (Inr (find_index (\<lambda>a. up_Function a = up_Function link \<and> up_Offset a = up_Offset link \<and>
                           up_Target a = up_Target link \<and> up_Pid a = up_Pid link \<and>
                           up_ContainerPid a = up_ContainerPid link) links), s)"

definition NsUprobe_getExpectedLinks ::
    "('w, 'z) Env_scheme \<Rightarrow> string \<Rightarrow> UprobeAttachInfo \<Rightarrow> 'w rst \<Rightarrow> UprobeAttachInfoState list result \<times> 'w rst" where
  "NsUprobe_getExpectedLinks env namespace attachInfo s =
     (case lift_world (Containers_GetContainers env namespace (cs_Pods (upa_Containers attachInfo))
                         (Some (cs_ContainerNames (upa_Containers attachInfo)))) s of
        (Inl err, s) \<Rightarrow> (Inl (''failed to get container pids: '' @ err), s)
      | (Inr None, s) \<Rightarrow> (Inr [], s)
      | (Inr (Some containerInfo), s) \<Rightarrow>
          (case newLinks env (\<lambda>container. mkUprobeLink attachInfo (ci_pid container)) containerInfo s of
             (links, s) \<Rightarrow> (Inr links, s)))"

definition NsUprobe_updateLinks ::
    "('w, 'z) Env_scheme \<Rightarrow> string \<Rightarrow> BpfApplicationProgram \<Rightarrow> bool \<Rightarrow> BpfApplicationProgramState \<Rightarrow> 'w rst \<Rightarrow>
     ((unit result \<times> BpfApplicationProgramState) \<times> 'w rst) go" where
  "NsUprobe_updateLinks env namespace prog =
     progUpdateLinks NsUprobe_getAppStateLinks NsUprobe_setLinks (NsUprobe_getExpectedLinks env namespace)
       NsUprobe_findLink (NsUprobe_getAppLinks prog)"

definition NsUprobe_processLinks ::
    "('w, 'z) Env_scheme \<Rightarrow> BpfApplicationProgramState \<Rightarrow> 'w rst \<Rightarrow> (BpfApplicationProgramState \<times> 'w rst) go" where
  "NsUprobe_processLinks env =
     progProcessLinks env NsUprobe_getAppStateLinks NsUprobe_setLinks NsUprobe_getAttachRequest"

definition NsUprobe_getProgramLoadInfo :: "BpfApplicationProgram \<Rightarrow> LoadInfo go" where
  "NsUprobe_getProgramLoadInfo prog = Some (mkLoadInfo (np_Name prog) BpfmanProgramType_UPROBE None)"

lemma NsUprobe_expected_new:
  "NsUprobe_getExpectedLinks env ns a s = (Inr es, s') \<Longrightarrow> e \<in> set es \<Longrightarrow> \<exists>c u. e = mkUprobeLink a c u"
  by (auto simp: NsUprobe_getExpectedLinks_def split: option.splits prod.splits sum.splits)
    (blast dest: newLinks_mk)

lemma NsUprobe_expected_quiet:
  "daemon_quiet env live issued \<Longrightarrow> NsUprobe_getExpectedLinks env ns a s = (r, s') \<Longrightarrow>
   unchanged live issued s s'"
  by (auto simp: NsUprobe_getExpectedLinks_def split: option.splits prod.splits sum.splits
      intro: unchanged_trans [OF lift_containers_unchanged newLinks_unchanged] lift_containers_unchanged)

interpretation nsUprobe: program_type NsUprobe_findLink "\<lambda>s l. Some (uprobeKey l)"
    "\<lambda>a b. uprobeKey a = uprobeKey b" "\<lambda>a b. uprobeKey a = uprobeKey b"
    "NsUprobe_getExpectedLinks env namespace" NsUprobe_getAttachRequest env NsUprobe_getAppStateLinks NsUprobe_setLinks
    "\<lambda>ps. ns_Type ps = ProgTypeUprobe \<or> ns_Type ps = ProgTypeUretprobe"
  for env :: "('w, 'z) Env_scheme" and namespace
  by (rule program_type_by_key [where info = "\<lambda>l. AttachInfo_UprobeAttachInfo (Some (up_Function l))
        (up_Offset l) (up_Target l) (up_Pid l) (Some (up_ContainerPid l)) (uuidMetadata l)"])
    (auto simp: NsUprobe_findLink_def NsUprobe_getAttachRequest_def uprobeKey_def
      NsUprobe_getAppStateLinks_def NsUprobe_setLinks_def split: EBPFProgType.splits
      dest: NsUprobe_expected_new NsUprobe_expected_quiet)

end
