(* ===== verification/App_Reconcile.thy ===== *)
theory App_Reconcile
  imports Net_Programs
begin

text \<open>
  The application reconcilers of the agent: \<^verbatim>\<open>cl_application_program.go\<close>,
  \<^verbatim>\<open>ns_application_program.go\<close> and the functions of \<^verbatim>\<open>common.go\<close> they share (\<^verbatim>\<open>reconcileLoad\<close>,
  \<^verbatim>\<open>updateBpfAppStateCondition\<close>, \<^verbatim>\<open>removeFinalizer\<close>, \<^verbatim>\<open>generateUniqueName\<close>). The two files are
  the same up to the program types they dispatch on and the namespace of the objects, so the
  methods are defined once over a record of what differs (\<open>AppOps\<close>); \<^verbatim>\<open>Cl_Application\<close> and
  \<^verbatim>\<open>Ns_Application\<close> build that record for their files.

  The Kubernetes API is an extension of the environment. The mutable fields of the reconciler are
  passed explicitly: the application, its state object and the threaded state.
\<close>

section \<open>What differs between the two reconcilers\<close>

record ('q, 'p, 'w) AppOps =
  op_Name :: "'q \<Rightarrow> string"
  op_getProgState :: "'q \<Rightarrow> 'p list \<Rightarrow> nat result go"
  op_newProgState :: "'q \<Rightarrow> 'p result go"
  op_deleteLinks :: "'p \<Rightarrow> 'p go"
  op_reconcileProgram :: "'q \<Rightarrow> bool \<Rightarrow> 'p \<Rightarrow> 'w rst \<Rightarrow> (((unit result \<times> 'p) result) \<times> 'w rst) go"
  op_getProgramLoadInfo :: "'q \<Rightarrow> LoadInfo result go"
  op_Namespaced :: bool
  op_finalizer :: string

text \<open>The methods of a \<^verbatim>\<open>ProgramReconciler\<close> the applications call, for the program at hand.\<close>

record ('p, 'w) ProgramRec =
  rec_updateLinks :: "bool \<Rightarrow> 'p \<Rightarrow> 'w rst \<Rightarrow> ((unit result \<times> 'p) \<times> 'w rst) go"
  rec_processLinks :: "'p \<Rightarrow> 'w rst \<Rightarrow> ('p \<times> 'w rst) go"
  rec_getProgramLoadInfo :: "LoadInfo go"

definition recReconcileProgram ::
    "('p BpfProgramStateCommon_scheme, 'w) ProgramRec result \<Rightarrow> bool \<Rightarrow> 'p BpfProgramStateCommon_scheme \<Rightarrow>
     'w rst \<Rightarrow> (((unit result \<times> 'p BpfProgramStateCommon_scheme) result) \<times> 'w rst) go" where
  "recReconcileProgram r deleted ps s =
     (case r of
        Inl err \<Rightarrow> Some (Inl err, s)
      | Inr rec \<Rightarrow>
          do { (q, s) \<leftarrow> reconcileProgram (rec_updateLinks rec) (rec_processLinks rec) deleted ps s;
               Some (Inr q, s) })"

definition recLoadInfo :: "('p, 'w) ProgramRec result \<Rightarrow> LoadInfo result go" where
  "recLoadInfo r =
     (case r of
        Inl err \<Rightarrow> Some (Inl err)
      | Inr rec \<Rightarrow> do { info \<leftarrow> rec_getProgramLoadInfo rec; Some (Inr info) })"

section \<open>The Kubernetes API\<close>

record ('w, 'q, 'p) KEnv = "'w Env" +
  k8s_GetNode :: "string \<Rightarrow> 'w \<Rightarrow> NodeObject result \<times> 'w"
  k8s_ListApps :: "'w \<Rightarrow> 'q App list result \<times> 'w"
  k8s_ListStates :: "string option \<Rightarrow> (string \<times> string) list \<Rightarrow> 'w \<Rightarrow> 'p AppState list result \<times> 'w"
  k8s_Create :: "'p AppState \<Rightarrow> 'w \<Rightarrow> 'p AppState result \<times> 'w"
  k8s_StatusUpdate :: "'p AppState \<Rightarrow> 'w \<Rightarrow> 'p AppState result \<times> 'w"
  k8s_Update :: "'p AppState \<Rightarrow> 'w \<Rightarrow> unit result \<times> 'w"
  SetControllerReference :: "ObjectMeta \<Rightarrow> ObjectMeta \<Rightarrow> ObjectMeta result"
  pollAttempts :: nat
  NodeName :: string

text \<open>
  \<^verbatim>\<open>ctrl.Result\<close> with the error: done, requeue after a delay, or an error. \<open>pollAttempts\<close> is how
  often a poll of two minutes runs its condition.
\<close>

datatype ReconcileResult = Done | Requeue | Failed goerror

definition BpfAppStateOwner :: string where "BpfAppStateOwner = ''bpfman.io/ownedByProgram''"
definition K8sHostLabel :: string where "K8sHostLabel = ''kubernetes.io/hostname''"
definition ProgramNameKey :: string where "ProgramNameKey = ''bpfman.io/ProgramName''"

section \<open>Accessors of the application reconciler\<close>

definition isBeingDeleted :: "'q App \<Rightarrow> bool" where
  "isBeingDeleted app \<longleftrightarrow> om_DeletionTimestamp (app_Meta app) \<noteq> None"

definition updStatus :: "('p AppStateStatus \<Rightarrow> 'p AppStateStatus) \<Rightarrow> 'p AppState \<Rightarrow> 'p AppState" where
  "updStatus f st = st\<lparr>st_Status := f (st_Status st)\<rparr>"

definition setAppLoadStatus :: "AppLoadStatus \<Rightarrow> 'p AppState \<Rightarrow> 'p AppState" where
  "setAppLoadStatus status = updStatus (\<lambda>x. x\<lparr>AppLoadStatus := status\<rparr>)"

definition setAppStateConditions :: "int \<Rightarrow> Condition \<Rightarrow> 'p AppState \<Rightarrow> 'p AppState" where
  "setAppStateConditions now condition = updStatus (\<lambda>x. x\<lparr>Conditions := SetStatusCondition now [] condition\<rparr>)"

definition statePrograms :: "'p AppState \<Rightarrow> 'p list" where
  "statePrograms st = Programs (st_Status st)"

definition setPrograms :: "'p list \<Rightarrow> 'p AppState \<Rightarrow> 'p AppState" where
  "setPrograms ps = updStatus (\<lambda>x. x\<lparr>Programs := ps\<rparr>)"

definition updateBpfAppStateCondition ::
    "int \<Rightarrow> BpfApplicationStateConditionType \<Rightarrow> 'p AppState \<Rightarrow> bool \<times> 'p AppState" where
  "updateBpfAppStateCondition now condition st =
     (case Conditions (st_Status st) of
        [c] \<Rightarrow> if cond_Type c = BpfAppStateCond_string condition then (False, st)
               else (True, setAppStateConditions now (BpfAppStateCond_Condition condition) st)
      | _ \<Rightarrow> (True, setAppStateConditions now (BpfAppStateCond_Condition condition) st))"

section \<open>Loading and unloading\<close>

text \<open>The loop asks the daemon about every program with an id, whatever the earlier answers were.\<close>

fun isLoadedLoop ::
    "('w, 'z) Env_scheme \<Rightarrow> 'p BpfProgramStateCommon_scheme list \<Rightarrow> bool \<Rightarrow> 'w rst \<Rightarrow> bool \<times> 'w rst" where
  "isLoadedLoop env [] allLoaded s = (allLoaded, s)"
| "isLoadedLoop env (program # programs) allLoaded s =
     (case ProgramId program of
        None \<Rightarrow> isLoadedLoop env programs False s
      | Some i \<Rightarrow>
          (case GetBpfmanProgramById env i s of
             (Inl _, s) \<Rightarrow> isLoadedLoop env programs False s
           | (Inr _, s) \<Rightarrow> isLoadedLoop env programs allLoaded s))"

definition isLoaded ::
    "('w, 'z) Env_scheme \<Rightarrow> 'p BpfProgramStateCommon_scheme AppState \<Rightarrow> 'w rst \<Rightarrow> bool \<times> 'w rst" where
  "isLoaded env st s = isLoadedLoop env (statePrograms st) True s"

fun loadInfos :: "('q, 'p, 'w) AppOps \<Rightarrow> 'p list \<Rightarrow> 'q list \<Rightarrow> LoadInfo list result go" where
  "loadInfos ops states [] = Some (Inr [])"
| "loadInfos ops states (program # programs) =
     do { r \<leftarrow> op_getProgState ops program states;
          case r of
            Inl err \<Rightarrow> Some (Inl (''failed to get program state: '' @ err))
          | Inr _ \<Rightarrow>
              do { r \<leftarrow> op_getProgramLoadInfo ops program;
                   case r of
                     Inl err \<Rightarrow> Some (Inl (''failed to get program reconciler: '' @ err))
                   | Inr info \<Rightarrow>
                       do { r \<leftarrow> loadInfos ops states programs;
                            Some (map_sum id ((#) info) r) } } }"

definition getLoadRequest ::
    "('w, 'z) Env_scheme \<Rightarrow> ('q, 'p, 'w) AppOps \<Rightarrow> 'q App \<Rightarrow> 'p AppState \<Rightarrow> 'w rst \<Rightarrow>
     (LoadRequest result \<times> 'w rst) go" where
  "getLoadRequest env ops app st s =
     do { (b, s) \<leftarrow> GetBytecode env (ByteCode (app_Spec app)) s;
          case b of
            Inl err \<Rightarrow> Some (Inl (''failed to process bytecode selector: '' @ err), s)
          | Inr bytecode \<Rightarrow>
              do { r \<leftarrow> loadInfos ops (statePrograms st) (SpecPrograms (app_Spec app));
                   case r of
                     Inl err \<Rightarrow> Some (Inl err, s)
                   | Inr loadInfo \<Rightarrow>
                       Some (Inr \<lparr>lr_Bytecode = bytecode,
                                  lr_Metadata = [(UuidMetadataKey, om_UID (st_Meta st)),
                                                 (ProgramNameKey, om_Name (app_Meta app))],
                                  lr_GlobalData = GlobalData (app_Spec app),
                                  lr_Uuid = Some [], lr_MapOwnerId = None, lr_Info = loadInfo\<rparr>, s) } }"

text \<open>The ids of the response go into the programs one by one; the first name without one stops the loop.\<close>

fun assignIds ::
    "LoadResponseInfo list \<Rightarrow> 'p BpfProgramStateCommon_scheme list \<Rightarrow>
     (unit result \<times> 'p BpfProgramStateCommon_scheme list) go" where
  "assignIds resp [] = Some (Inr (), [])"
| "assignIds resp (program # programs) =
     do { r \<leftarrow> GetBpfProgramId (Name program) resp;
          case r of
            Inl err \<Rightarrow> Some (Inl (''failed to get program id: '' @ err), program # programs)
          | Inr i \<Rightarrow>
              do { (r, ps) \<leftarrow> assignIds resp programs;
                   Some (r, program\<lparr>ProgramId := Some i\<rparr> # ps) } }"

definition load ::
    "('w, 'z) Env_scheme \<Rightarrow> ('q, 'p BpfProgramStateCommon_scheme, 'w) AppOps \<Rightarrow> 'q App \<Rightarrow>
     'p BpfProgramStateCommon_scheme AppState \<Rightarrow> 'w rst \<Rightarrow>
     ((unit result \<times> 'p BpfProgramStateCommon_scheme AppState) \<times> 'w rst) go" where
  "load env ops app st s =
     do { (r, s) \<leftarrow> getLoadRequest env ops app st s;
          case r of
            Inl err \<Rightarrow> Some ((Inl (''failed to get LoadRequest: '' @ err), st), s)
          | Inr loadRequest \<Rightarrow>
              (case lift_world (bpfman_Load env loadRequest) s of
                 (Inl err, s) \<Rightarrow> Some ((Inl (''failed to load eBPF Program: '' @ err), st), s)
               | (Inr loadResponse, s) \<Rightarrow>
                   do { (r, ps) \<leftarrow> assignIds loadResponse (statePrograms st);
                        Some ((r, setPrograms ps st), s) }) }"

fun unloadLoop ::
    "('w, 'z) Env_scheme \<Rightarrow> ('q, 'p BpfProgramStateCommon_scheme, 'w) AppOps \<Rightarrow>
     'p BpfProgramStateCommon_scheme list \<Rightarrow> 'w rst \<Rightarrow> ('p BpfProgramStateCommon_scheme list \<times> 'w rst) go" where
  "unloadLoop env ops [] s = Some ([], s)"
| "unloadLoop env ops (program # programs) s =
     do { (p, s) \<leftarrow>
            (case ProgramId program of
               None \<Rightarrow> Some (program, s)
             | Some i \<Rightarrow>
                 (case UnloadBpfmanProgram env i s of
                    (_, s) \<Rightarrow> do { p \<leftarrow> op_deleteLinks ops (program\<lparr>ProgramId := None\<rparr>); Some (p, s) }));
          (ps, s) \<leftarrow> unloadLoop env ops programs s;
          Some (p\<lparr>ProgramLinkStatus := ProgAttachSuccess\<rparr> # ps, s) }"

definition unload ::
    "('w, 'z) Env_scheme \<Rightarrow> ('q, 'p BpfProgramStateCommon_scheme, 'w) AppOps \<Rightarrow>
     'p BpfProgramStateCommon_scheme AppState \<Rightarrow> 'w rst \<Rightarrow>
     ('p BpfProgramStateCommon_scheme AppState \<times> 'w rst) go" where
  "unload env ops st s = do { (ps, s) \<leftarrow> unloadLoop env ops (statePrograms st) s; Some (setPrograms ps st, s) }"

text \<open>
  The map of names left to be found, and the text of the added ones. Go visits the names that are
  left in an unspecified order; here they are in the order of the program list.
\<close>

fun validateLoop :: "string list \<Rightarrow> string \<Rightarrow> string list \<Rightarrow> string list \<times> string" where
  "validateLoop m added [] = (m, added)"
| "validateLoop m added (name # names) =
     (if name \<notin> set m then validateLoop m (added @ name @ '' '') names
      else validateLoop (removeAll name m) added names)"

definition validateProgramList ::
    "('q, 'p BpfProgramStateCommon_scheme, 'w) AppOps \<Rightarrow> 'q App \<Rightarrow> 'p BpfProgramStateCommon_scheme AppState \<Rightarrow>
     unit result" where
  "validateProgramList ops app st =
     (case validateLoop (map Name (statePrograms st)) '''' (map (op_Name ops) (SpecPrograms (app_Spec app))) of
        (m, added) \<Rightarrow>
          if added \<noteq> [] then Inl (''programs have been added: '' @ added)
          else if m \<noteq> [] then Inl (''programs have been removed: '' @ concat (map (\<lambda>n. n @ '' '') (remdups m)))
          else Inr ())"

definition reconcileLoad ::
    "('w, 'z) Env_scheme \<Rightarrow> ('q, 'p BpfProgramStateCommon_scheme, 'w) AppOps \<Rightarrow> NodeObject \<Rightarrow> 'q App \<Rightarrow>
     'p BpfProgramStateCommon_scheme AppState \<Rightarrow> 'w rst \<Rightarrow>
     ((unit result \<times> 'p BpfProgramStateCommon_scheme AppState) \<times> 'w rst) go" where
  "reconcileLoad env ops ourNode app st s =
     (case isNodeSelected env (NodeSelector (app_Spec app)) (nd_Labels ourNode) of
        Inl err \<Rightarrow> Some ((Inl (''check if node is selected failed: '' @ err), st), s)
      | Inr selected \<Rightarrow>
          if \<not> selected then
            do { (st, s) \<leftarrow> unload env ops st s; Some ((Inr (), setAppLoadStatus NotSelected st), s) }
          else if isBeingDeleted app then
            do { (st, s) \<leftarrow> unload env ops st s; Some ((Inr (), setAppLoadStatus AppUnLoadSuccess st), s) }
          else
            (case validateProgramList ops app st of
               Inl err \<Rightarrow> Some ((Inl err, setAppLoadStatus ProgListChangedError st), s)
             | Inr _ \<Rightarrow>
                 (case isLoaded env st s of
                    (True, s) \<Rightarrow> Some ((Inr (), setAppLoadStatus AppLoadSuccess st), s)
                  | (False, s) \<Rightarrow>
                      do { ((r, st), s) \<leftarrow> load env ops app st s;
                           case r of
                             Inl err \<Rightarrow> Some ((Inl (''failed to load program: '' @ err),
                                               setAppLoadStatus AppLoadError st), s)
                           | Inr _ \<Rightarrow> Some ((Inr (), setAppLoadStatus AppLoadSuccess st), s) })))"

section \<open>The state object\<close>

definition getBpfAppState ::
    "('w, 'q, 'p, 'z) KEnv_scheme \<Rightarrow> ('q, 'p, 'w) AppOps \<Rightarrow> 'q App \<Rightarrow> 'w rst \<Rightarrow>
     'p AppState option result \<times> 'w rst" where
  "getBpfAppState env ops app s =
     (case lift_world (k8s_ListStates env
             (if op_Namespaced ops then Some (om_Namespace (app_Meta app)) else None)
             [(BpfAppStateOwner, om_Name (app_Meta app)), (K8sHostLabel, NodeName env)]) s of
        (Inl err, s) \<Rightarrow> (Inl err, s)
      | (Inr [], s) \<Rightarrow> (Inr None, s)
      | (Inr [item], s) \<Rightarrow> (Inr (Some item), s)
      | (Inr items, s) \<Rightarrow>
          (Inl (''more than one BpfApplicationState found ('' @ show_nat (length items) @ '')''), s))"

text \<open>The polls: \<open>i\<close> counts the attempts made, the other argument those left.\<close>

fun waitForSpec ::
    "('w, 'q, 'p, 'z) KEnv_scheme \<Rightarrow> ('q, 'p, 'w) AppOps \<Rightarrow> 'q App \<Rightarrow> nat \<Rightarrow> nat \<Rightarrow> 'p AppState \<Rightarrow>
     'w rst \<Rightarrow> (unit result \<times> 'p AppState) \<times> 'w rst" where
  "waitForSpec env ops app i 0 st s =
     ((Inl (''failed to get updated BpfApplicationState spec.  Attempts: '' @ show_nat i), st), s)"
| "waitForSpec env ops app i (Suc n) st s =
     (case getBpfAppState env ops app s of
        (Inr (Some st'), s) \<Rightarrow> ((Inr (), st'), s)
      | (_, s) \<Rightarrow> waitForSpec env ops app (Suc i) n st s)"

definition waitForBpfAppStateSpecUpdate ::
    "('w, 'q, 'p, 'z) KEnv_scheme \<Rightarrow> ('q, 'p, 'w) AppOps \<Rightarrow> 'q App \<Rightarrow> 'p AppState \<Rightarrow> 'w rst \<Rightarrow>
     (unit result \<times> 'p AppState) \<times> 'w rst" where
  "waitForBpfAppStateSpecUpdate env ops app st s = waitForSpec env ops app 0 (pollAttempts env) st s"

fun waitForStatus ::
    "('w, 'q, 'p, 'z) KEnv_scheme \<Rightarrow> ('q, 'p, 'w) AppOps \<Rightarrow> 'q App \<Rightarrow> nat \<Rightarrow> nat \<Rightarrow> 'p AppState \<Rightarrow>
     'w rst \<Rightarrow> (unit result \<times> 'p AppState) \<times> 'w rst" where
  "waitForStatus env ops app i 0 st s =
     ((Inl (''failed to get updated BpfApplicationState status.  Attempts: '' @ show_nat i), st), s)"
| "waitForStatus env ops app i (Suc n) st s =
     (case getBpfAppState env ops app s of
        (Inr (Some st'), s) \<Rightarrow>
          if sint (UpdateCount (st_Status st)) \<le> sint (UpdateCount (st_Status st'))
          then ((Inr (), st'), s)
          else waitForStatus env ops app (Suc i) n st s
      | (_, s) \<Rightarrow> waitForStatus env ops app (Suc i) n st s)"

definition waitForBpfAppStateStatusUpdate ::
    "('w, 'q, 'p, 'z) KEnv_scheme \<Rightarrow> ('q, 'p, 'w) AppOps \<Rightarrow> 'q App \<Rightarrow> 'p AppState \<Rightarrow> 'w rst \<Rightarrow>
     (unit result \<times> 'p AppState) \<times> 'w rst" where
  "waitForBpfAppStateStatusUpdate env ops app st s = waitForStatus env ops app 0 (pollAttempts env) st s"

text \<open>The result: whether an update was needed, and its error; the state object as it is afterwards.\<close>

definition updateBpfAppStateStatus ::
    "('w, 'q, 'p, 'z) KEnv_scheme \<Rightarrow> ('q, 'p, 'w) AppOps \<Rightarrow> 'q App \<Rightarrow> 'p AppState option \<Rightarrow> 'p AppState \<Rightarrow>
     'w rst \<Rightarrow> (bool \<times> unit result \<times> 'p AppState) \<times> 'w rst" where
  "updateBpfAppStateStatus env ops app originalAppState st s =
     (if originalAppState = None \<or> st_Status (the originalAppState) \<noteq> st_Status st then
        (let st = updStatus (\<lambda>x. x\<lparr>UpdateCount := UpdateCount x + 1\<rparr>) st in
         case lift_world (k8s_StatusUpdate env st) s of
           (Inl err, s) \<Rightarrow> ((True, Inl err, st), s)
         | (Inr st, s) \<Rightarrow>
             (case waitForBpfAppStateStatusUpdate env ops app st s of
                ((r, st), s) \<Rightarrow> ((True, r, st), s)))
      else ((False, Inr (), st), s))"

definition generateUniqueName :: "('w, 'z) Env_scheme \<Rightarrow> string \<Rightarrow> 'w rst \<Rightarrow> string \<times> 'w rst" where
  "generateUniqueName env baseName s =
     (case lift_world (uuid_New env) s of (u, s) \<Rightarrow> (baseName @ ''-'' @ take 8 u, s))"

definition emptyStatus :: "'p AppStateStatus" where
  "emptyStatus = \<lparr>UpdateCount = 0, Node = [], AppLoadStatus = AppLoadStatusOther [], Programs = [],
     Conditions = []\<rparr>"

definition initBpfAppState ::
    "('w, 'q, 'p, 'z) KEnv_scheme \<Rightarrow> ('q, 'p, 'w) AppOps \<Rightarrow> 'q App \<Rightarrow> 'w rst \<Rightarrow> 'p AppState result \<times> 'w rst" where
  "initBpfAppState env ops app s =
     (case generateUniqueName env (om_Name (app_Meta app)) s of
        (name, s) \<Rightarrow>
          (let meta = \<lparr>om_Name = name,
                       om_Namespace = (if op_Namespaced ops then om_Namespace (app_Meta app) else []),
                       om_UID = [],
                       om_Labels = [(BpfAppStateOwner, om_Name (app_Meta app)), (K8sHostLabel, NodeName env)],
                       om_Finalizers = [op_finalizer ops], om_DeletionTimestamp = None,
                       om_OwnerReferences = []\<rparr> in
           case SetControllerReference env (app_Meta app) meta of
             Inl err \<Rightarrow> (Inl (''failed to set bpfAppState object owner reference: '' @ err), s)
           | Inr meta \<Rightarrow> (Inr \<lparr>st_Meta = meta, st_Status = emptyStatus\<rparr>, s)))"

fun initLoop :: "('q, 'p, 'w) AppOps \<Rightarrow> 'q list \<Rightarrow> 'p list \<Rightarrow> (unit result \<times> 'p list) go" where
  "initLoop ops [] acc = Some (Inr (), acc)"
| "initLoop ops (prog # progs) acc =
     do { r \<leftarrow> op_getProgState ops prog acc;
          case r of
            Inr _ \<Rightarrow> Some (Inl (''duplicate bpf function detected. bpfFunctionName: '' @ op_Name ops prog), acc)
          | Inl _ \<Rightarrow>
              do { r \<leftarrow> op_newProgState ops prog;
                   case r of
                     Inl err \<Rightarrow> Some (Inl err, acc)
                   | Inr ps \<Rightarrow> initLoop ops progs (acc @ [ps]) } }"

definition initializeNodeProgramList ::
    "('q, 'p, 'w) AppOps \<Rightarrow> 'q App \<Rightarrow> 'p AppState \<Rightarrow> (unit result \<times> 'p AppState) go" where
  "initializeNodeProgramList ops app st =
     (if statePrograms st \<noteq> []
      then Some (Inl ''BpfApplicationState programs list has already been initialized'', st)
      else do { (r, ps) \<leftarrow> initLoop ops (SpecPrograms (app_Spec app)) [];
                Some (r, setPrograms ps st) })"

definition initBpfAppStateStatus ::
    "('w, 'q, 'p, 'z) KEnv_scheme \<Rightarrow> ('q, 'p, 'w) AppOps \<Rightarrow> 'q App \<Rightarrow> int \<Rightarrow> 'p AppState \<Rightarrow>
     (unit result \<times> 'p AppState) go" where
  "initBpfAppStateStatus env ops app now st =
     (let st = st\<lparr>st_Status := \<lparr>UpdateCount = 0, Node = NodeName env, AppLoadStatus = AppLoadNotLoaded,
                                 Programs = [], Conditions = []\<rparr>\<rparr> in
      do { (r, st) \<leftarrow> initializeNodeProgramList ops app st;
           case r of
             Inl err \<Rightarrow> Some (Inl (''failed to initialize BpfApplicationState program list. Name: '' @
                                   om_Name (app_Meta app) @ '', Error: '' @ err), st)
           | Inr _ \<Rightarrow> Some (Inr (), snd (updateBpfAppStateCondition now BpfAppStateCondPending st)) })"

definition createInitialBpfAppState ::
    "('w, 'q, 'p, 'z) KEnv_scheme \<Rightarrow> ('q, 'p, 'w) AppOps \<Rightarrow> 'q App \<Rightarrow> 'p AppState \<Rightarrow> 'w rst \<Rightarrow>
     (unit result \<times> 'p AppState) \<times> 'w rst" where
  "createInitialBpfAppState env ops app st s =
     (case lift_world (k8s_Create env st) s of
        (Inl err, s) \<Rightarrow> ((Inl err, st), s)
      | (Inr st, s) \<Rightarrow> waitForBpfAppStateSpecUpdate env ops app st s)"

definition createBpfAppState ::
    "('w, 'q, 'p, 'z) KEnv_scheme \<Rightarrow> ('q, 'p, 'w) AppOps \<Rightarrow> 'q App \<Rightarrow> 'w rst \<Rightarrow>
     (ReconcileResult \<times> 'w rst) go" where
  "createBpfAppState env ops app s =
     (case initBpfAppState env ops app s of
        (Inl _, s) \<Rightarrow> Some (Requeue, s)
      | (Inr st, s) \<Rightarrow>
          (case createInitialBpfAppState env ops app st s of
             ((Inl _, st), s) \<Rightarrow> Some (Requeue, s)
           | ((Inr _, st), s) \<Rightarrow>
               do { (r, st) \<leftarrow> initBpfAppStateStatus env ops app (time_Now env (world s)) st;
                    case r of
                      Inl _ \<Rightarrow> Some (Requeue, s)
                    | Inr _ \<Rightarrow>
                        (case updateBpfAppStateStatus env ops app None st s of
                           ((_, Inl _, _), s) \<Rightarrow> Some (Requeue, s)
                         | ((_, Inr _, _), s) \<Rightarrow> Some (Done, s)) }))"

section \<open>Reconciling the programs of an application\<close>

definition checkProgramStatus ::
    "'p BpfProgramStateCommon_scheme AppState \<Rightarrow> BpfApplicationStateConditionType" where
  "checkProgramStatus st =
     (if AppLoadStatus (st_Status st) = AppLoadError then BpfAppStateCondUnloadError
      else if AppLoadStatus (st_Status st) = AppUnLoadSuccess then BpfAppStateCondUnloaded
      else if \<exists>program\<in>set (statePrograms st). ProgramLinkStatus program \<noteq> ProgAttachSuccess
           then BpfAppStateCondError
      else BpfAppStateCondSuccess)"

fun reconcilePrograms ::
    "('q, 'p, 'w) AppOps \<Rightarrow> bool \<Rightarrow> 'q list \<Rightarrow> BpfApplicationStateConditionType \<Rightarrow> 'p list \<Rightarrow> 'w rst \<Rightarrow>
     ((BpfApplicationStateConditionType \<times> 'p list) \<times> 'w rst) go" where
  "reconcilePrograms ops deleted [] status ps s = Some ((status, ps), s)"
| "reconcilePrograms ops deleted (prog # progs) status ps s =
     do { r \<leftarrow> op_getProgState ops prog ps;
          case r of
            Inl _ \<Rightarrow> reconcilePrograms ops deleted progs BpfAppStateCondProgramListChangedError ps s
          | Inr i \<Rightarrow>
              do { (r, s) \<leftarrow> op_reconcileProgram ops prog deleted (ps ! i) s;
                   case r of
                     Inl _ \<Rightarrow> reconcilePrograms ops deleted progs BpfAppStateCondError ps s
                   | Inr (_, p) \<Rightarrow> reconcilePrograms ops deleted progs status (ps[i := p]) s } }"

definition removeFinalizer ::
    "('w, 'q, 'p, 'z) KEnv_scheme \<Rightarrow> string \<Rightarrow> 'p AppState \<Rightarrow> 'w rst \<Rightarrow> bool \<times> 'w rst" where
  "removeFinalizer env finalizer st s =
     (if finalizer \<in> set (om_Finalizers (st_Meta st)) then
        (case lift_world (k8s_Update env (st\<lparr>st_Meta := (st_Meta st)\<lparr>om_Finalizers :=
                 removeAll finalizer (om_Finalizers (st_Meta st))\<rparr>\<rparr>)) s of
           (_, s) \<Rightarrow> (True, s))
      else (False, s))"

text \<open>The programs and the condition of an application whose code is in place.\<close>

definition reconcileAppPrograms ::
    "('w, 'z) Env_scheme \<Rightarrow> ('q, 'p BpfProgramStateCommon_scheme, 'w) AppOps \<Rightarrow> 'q App \<Rightarrow>
     'p BpfProgramStateCommon_scheme AppState \<Rightarrow> 'w rst \<Rightarrow>
     ('p BpfProgramStateCommon_scheme AppState \<times> 'w rst) go" where
  "reconcileAppPrograms env ops app st s =
     do { ((status, ps), s) \<leftarrow>
            (if \<not> isBeingDeleted app
             then reconcilePrograms ops (isBeingDeleted app) (SpecPrograms (app_Spec app))
                    BpfAppStateCondSuccess (statePrograms st) s
             else Some ((BpfAppStateCondSuccess, statePrograms st), s));
          let st = setPrograms ps st;
          let status = (if status = BpfAppStateCondSuccess then checkProgramStatus st else status);
          Some (snd (updateBpfAppStateCondition (time_Now env (world s)) status st), s) }"

text \<open>
  One turn of the loop over the applications: \<open>None\<close> goes on with the next one, a result ends the
  reconcile.
\<close>

definition afterLoad ::
    "('w, 'q, 'p BpfProgramStateCommon_scheme, 'z) KEnv_scheme \<Rightarrow>
     ('q, 'p BpfProgramStateCommon_scheme, 'w) AppOps \<Rightarrow> 'q App \<Rightarrow>
     'p BpfProgramStateCommon_scheme AppState \<Rightarrow> 'p BpfProgramStateCommon_scheme AppState \<Rightarrow> 'w rst \<Rightarrow>
     (ReconcileResult option \<times> 'w rst) go" where
  "afterLoad env ops app original st s =
     do { (st, s) \<leftarrow> reconcileAppPrograms env ops app st s;
          case updateBpfAppStateStatus env ops app (Some original) st s of
            ((_, Inl _, st), s) \<Rightarrow> Some (Some Requeue, s)
          | ((True, Inr _, st), s) \<Rightarrow> Some (Some Done, s)
          | ((False, Inr _, st), s) \<Rightarrow>
              if isBeingDeleted app \<and> \<not> IsBpfAppStateConditionFailure (Conditions (st_Status st)) then
                (case removeFinalizer env (op_finalizer ops) st s of
                   (True, s) \<Rightarrow> Some (Some Done, s)
                 | (False, s) \<Rightarrow> Some (None, s))
              else Some (None, s) }"

definition reconcileApp ::
    "('w, 'q, 'p BpfProgramStateCommon_scheme, 'z) KEnv_scheme \<Rightarrow>
     ('q, 'p BpfProgramStateCommon_scheme, 'w) AppOps \<Rightarrow> NodeObject \<Rightarrow> 'q App \<Rightarrow> 'w rst \<Rightarrow>
     (ReconcileResult option \<times> 'w rst) go" where
  "reconcileApp env ops ourNode app s =
     (case getBpfAppState env ops app s of
        (Inl err, s) \<Rightarrow> Some (Some (Failed err), s)
      | (Inr None, s) \<Rightarrow>
          if isBeingDeleted app then Some (None, s)
          else do { (r, s) \<leftarrow> createBpfAppState env ops app s; Some (Some r, s) }
      | (Inr (Some appState), s) \<Rightarrow>
          do { ((r, st), s) \<leftarrow> reconcileLoad env ops ourNode app appState s;
               case r of
                 Inl err \<Rightarrow>
                   (let st = snd (updateBpfAppStateCondition (time_Now env (world s)) BpfAppStateCondError st) in
                    case updateBpfAppStateStatus env ops app None st s of
                      ((_, Inl _, st), s) \<Rightarrow> Some (Some Requeue, s)
                    | ((True, Inr _, st), s) \<Rightarrow> Some (Some Done, s)
                    | ((False, Inr _, st), s) \<Rightarrow> Some (None, s))
               | Inr _ \<Rightarrow> afterLoad env ops app appState st s })"

fun reconcileApps ::
    "('w, 'q, 'p BpfProgramStateCommon_scheme, 'z) KEnv_scheme \<Rightarrow>
     ('q, 'p BpfProgramStateCommon_scheme, 'w) AppOps \<Rightarrow> NodeObject \<Rightarrow> 'q App list \<Rightarrow> 'w rst \<Rightarrow>
     (ReconcileResult \<times> 'w rst) go" where
  "reconcileApps env ops ourNode [] s = Some (Done, s)"
| "reconcileApps env ops ourNode (app # apps) s =
     do { (r, s) \<leftarrow> reconcileApp env ops ourNode app s;
          case r of
            Some result \<Rightarrow> Some (result, s)
          | None \<Rightarrow> reconcileApps env ops ourNode apps s }"

text \<open>\<^verbatim>\<open>Reconcile\<close>: the record of program operations depends on the node it has just read.\<close>

definition Reconcile ::
    "string \<Rightarrow> ('w, 'q, 'p BpfProgramStateCommon_scheme, 'z) KEnv_scheme \<Rightarrow>
     (NodeObject \<Rightarrow> ('q, 'p BpfProgramStateCommon_scheme, 'w) AppOps) \<Rightarrow> string \<Rightarrow> 'w rst \<Rightarrow>
     (ReconcileResult \<times> 'w rst) go" where
  "Reconcile what env ops req s =
     (let s = NetNsCache_Reset s in
      case lift_world (k8s_GetNode env (NodeName env)) s of
        (Inl err, s) \<Rightarrow> Some (Failed (''failed getting bpfman-agent node '' @ req @ '' : '' @ err), s)
      | (Inr ourNode, s) \<Rightarrow>
          (case lift_world (k8s_ListApps env) s of
             (Inl err, s) \<Rightarrow>
               Some (Failed (''failed getting '' @ what @ '' for full reconcile '' @ req @ '' : '' @ err), s)
           | (Inr apps, s) \<Rightarrow>
               if apps = [] then Some (Done, s) else reconcileApps env (ops ourNode) ourNode apps s))"

end
