(* ===== verification/Fake_Env.thy ===== *)
theory Fake_Env
  imports App_Reconcile
begin

text \<open>
  A concrete environment: a daemon that keeps, per program, the list of its link ids, and an API
  server that keeps the state objects in a list. It meets the daemon contract, so the hypotheses of
  the theorems that rest on the contract can be met; the witnesses evaluate the model in it.
\<close>

record ('q, 'p) fw =
  fw_links :: "(uint32 \<times> uint32 list) list"
  fw_issued :: nat
  fw_uuid :: nat
  fw_containers :: "ContainerInfo list"
  fw_apps :: "'q App list"
  fw_states :: "'p AppState list"

definition linksOf :: "uint32 \<Rightarrow> ('q, 'p) fw \<Rightarrow> uint32 list" where
  "linksOf p w = (case map_of (fw_links w) p of None \<Rightarrow> [] | Some ls \<Rightarrow> ls)"

definition fakeGet :: "uint32 \<Rightarrow> ('q, 'p) fw \<Rightarrow> GetResponse result \<times> ('q, 'p) fw" where
  "fakeGet p w =
     (if p = 0 then (Inl ''not found'', w)
      else (Inr \<lparr>gr_Info = Some \<lparr>pi_Name = '''', pi_Links = linksOf p w\<rparr>, gr_KernelId = Some p\<rparr>, w))"

definition fakeAttach :: "AttachRequest \<Rightarrow> ('q, 'p) fw \<Rightarrow> uint32 result \<times> ('q, 'p) fw" where
  "fakeAttach req w =
     (if 2 ^ 32 \<le> fw_issued w then (Inl ''no link ids left'', w)
      else (Inr (of_nat (fw_issued w)),
            w\<lparr>fw_links := (ar_Id req, of_nat (fw_issued w) # linksOf (ar_Id req) w) # fw_links w,
              fw_issued := Suc (fw_issued w)\<rparr>))"

definition fakeDetach :: "uint32 \<Rightarrow> ('q, 'p) fw \<Rightarrow> unit result \<times> ('q, 'p) fw" where
  "fakeDetach i w = (Inr (), w\<lparr>fw_links := map (\<lambda>(p, ls). (p, removeAll i ls)) (fw_links w)\<rparr>)"

definition fakeLoad :: "LoadRequest \<Rightarrow> ('q, 'p) fw \<Rightarrow> LoadResponseInfo list result \<times> ('q, 'p) fw" where
  "fakeLoad req w =
     (Inr (map (\<lambda>(n, i). \<lparr>lri_Info = Some \<lparr>pi_Name = li_Name i, pi_Links = []\<rparr>, lri_KernelId = Some (of_nat n)\<rparr>)
             (zip [1..<Suc (length (lr_Info req))] (lr_Info req))), w)"

definition fakeUuid :: "('q, 'p) fw \<Rightarrow> string \<times> ('q, 'p) fw" where
  "fakeUuid w = (show_nat (fw_uuid w), w\<lparr>fw_uuid := Suc (fw_uuid w)\<rparr>)"

definition hasLabels :: "(string \<times> string) list \<Rightarrow> 'p AppState \<Rightarrow> bool" where
  "hasLabels labels st = list_all (\<lambda>(k, v). map_of (om_Labels (st_Meta st)) k = Some v) labels"

definition putState :: "'p AppState \<Rightarrow> 'p AppState list \<Rightarrow> 'p AppState list" where
  "putState st states =
     map (\<lambda>x. if om_Name (st_Meta x) = om_Name (st_Meta st) then st else x) states"

definition fakeNode :: NodeObject where
  "fakeNode = \<lparr>nd_Name = ''n1'', nd_Labels = [(''zone'', ''a'')], nd_Addresses = []\<rparr>"

definition fakeEnv :: "(('q, 'p) fw, 'q, 'p) KEnv" where
  "fakeEnv =
     \<lparr>bpfman_Load = fakeLoad, bpfman_Unload = (\<lambda>_ w. (Inr (), w)), bpfman_Attach = fakeAttach,
      bpfman_Detach = fakeDetach, bpfman_Get = fakeGet, uuid_New = fakeUuid,
      os_Stat = (\<lambda>p w. Inr (Some (of_nat (length p)))), time_Now = (\<lambda>_. 5),
      Interfaces_Range = (\<lambda>_. []), regexp_Compile = (\<lambda>_. Inl ''no regexps''),
      net_Interfaces = (\<lambda>_. Inr []), net_ParseIP = (\<lambda>_. []),
      Containers_GetContainers = (\<lambda>_ _ _ w. (Inr (Some (fw_containers w)), w)),
      LabelSelectorAsSelector =
        (\<lambda>sel. Inr (\<lambda>labels. list_all (\<lambda>(k, v). map_of labels k = Some v) (MatchLabels sel))),
      ConvertLabels = (\<lambda>labels. Inr labels), reference_ParseNamed = (\<lambda>u. Inr u),
      reference_Domain = (\<lambda>_. ''docker.io''), k8s_GetSecret = (\<lambda>_ _ w. (Inl ''no secret'', w)),
      json_DockerConfigJson = (\<lambda>_. Inr []), json_DockerConfig = (\<lambda>_. Inr []),
      k8s_GetNode = (\<lambda>_ w. (Inr fakeNode, w)), k8s_ListApps = (\<lambda>w. (Inr (fw_apps w), w)),
      k8s_ListStates = (\<lambda>_ labels w. (Inr (filter (hasLabels labels) (fw_states w)), w)),
      k8s_Create = (\<lambda>st w. (Inr st, w\<lparr>fw_states := fw_states w @ [st]\<rparr>)),
      k8s_StatusUpdate = (\<lambda>st w. (Inr st, w\<lparr>fw_states := putState st (fw_states w)\<rparr>)),
      k8s_Update = (\<lambda>st w. (Inr (), w\<lparr>fw_states := putState st (fw_states w)\<rparr>)),
      SetControllerReference = (\<lambda>_ m. Inr m), pollAttempts = 3, NodeName = ''n1''\<rparr>"

definition fakeLive :: "('q, 'p) fw \<Rightarrow> uint32 \<Rightarrow> uint32 set" where
  "fakeLive w p = set (linksOf p w)"

definition fakeIssued :: "('q, 'p) fw \<Rightarrow> uint32 set" where
  "fakeIssued w = of_nat ` {..<fw_issued w}"

lemma of_nat32_fresh: "n < 2 ^ 32 \<Longrightarrow> (of_nat n :: uint32) \<notin> of_nat ` {..<n}"
proof
  assume n: "n < 2 ^ 32" and "(of_nat n :: uint32) \<in> of_nat ` {..<n}"
  then obtain m where m: "m < n" "(of_nat n :: uint32) = of_nat m" by auto
  from m(2) have "unat (of_nat n :: uint32) = unat (of_nat m :: uint32)" by simp
  with n m(1) show False by (simp add: unat_of_nat)
qed

lemma linksOf_removeAll:
  "linksOf p (w\<lparr>fw_links := map (\<lambda>(p, ls). (p, removeAll i ls)) (fw_links w)\<rparr>) = removeAll i (linksOf p w)"
proof -
  have "map_of (map (\<lambda>(p, ls). (p, removeAll i ls)) xs) p = map_option (removeAll i) (map_of xs p)"
    for xs :: "(uint32 \<times> uint32 list) list"
    by (induction xs) auto
  then show ?thesis by (simp add: linksOf_def split: option.split)
qed

lemma fakeEnv_contract: "daemon_contract fakeEnv fakeLive fakeIssued"
  unfolding daemon_contract_def
proof (intro conjI allI impI)
  fix req and w w' :: "('a, 'b) fw" and i
  assume a: "bpfman_Attach fakeEnv req w = (Inr i, w')"
  then have "\<not> 2 ^ 32 \<le> fw_issued w" by (auto simp: fakeEnv_def fakeAttach_def split: if_splits)
  with a have i: "i = of_nat (fw_issued w)" "fw_issued w < 2 ^ 32"
    "w' = w\<lparr>fw_links := (ar_Id req, i # linksOf (ar_Id req) w) # fw_links w, fw_issued := Suc (fw_issued w)\<rparr>"
    by (auto simp: fakeEnv_def fakeAttach_def)
  show "i \<notin> fakeIssued w" using of_nat32_fresh [OF i(2)] i(1) by (simp add: fakeIssued_def)
  show "fakeIssued w' = insert i (fakeIssued w)" using i by (simp add: fakeIssued_def lessThan_Suc)
  show "fakeLive w' = (fakeLive w)(ar_Id req := insert i (fakeLive w (ar_Id req)))"
    using i(3) by (auto simp: fakeLive_def fun_eq_iff linksOf_def)
next
  fix i and w w' :: "('a, 'b) fw"
  assume "bpfman_Detach fakeEnv i w = (Inr (), w')"
  then have w': "w' = w\<lparr>fw_links := map (\<lambda>(p, ls). (p, removeAll i ls)) (fw_links w)\<rparr>"
    by (simp add: fakeEnv_def fakeDetach_def)
  then show "fakeIssued w' = fakeIssued w" by (simp add: fakeIssued_def)
  show "fakeLive w' = (\<lambda>p. fakeLive w p - {i})"
    unfolding w' fakeLive_def fun_eq_iff linksOf_removeAll by auto
qed (auto simp: fakeEnv_def fakeGet_def fakeAttach_def fakeDetach_def fakeLive_def split: if_splits)

lemma fakeEnv_quiet: "daemon_quiet fakeEnv fakeLive fakeIssued"
  by (auto simp: daemon_quiet_def fakeEnv_def fakeUuid_def fakeLive_def fakeIssued_def linksOf_def fun_eq_iff)

lemma fakeEnv_answers: "p \<noteq> 0 \<Longrightarrow> get_answers fakeEnv p"
  by (simp add: get_answers_def fakeEnv_def fakeGet_def)

end
