(* ===== verification/Selector_Properties.thy ===== *)
theory Selector_Properties
  imports Fake_Env
begin

text \<open>
  What the selectors select: discovered interfaces, the primary interface of the node, one container per
  pod and the attach points they give, and how the proceed-on values reach the daemon.
\<close>

section \<open>Interfaces\<close>

text \<open>
  Interface discovery returns, without duplicates, exactly the interfaces that are up, are not on the exclude
  list and are on the allow list, each with the path of its network namespace.
\<close>

theorem discovery_exact:
  "distinct (getDiscoveredInterfaces env cfg w) \<and>
   set (getDiscoveredInterfaces env cfg w) =
     {discovered i |i. (i, True) \<in> set (Interfaces_Range env w) \<and> if_Name i \<notin> set (ExcludeInterfaces cfg) \<and>
        interfaceInAllowedList (if_Name i) (fst (setupAllowedInterfacesLists env cfg)) (snd (setupAllowedInterfacesLists env cfg))}"
  by (auto simp: getDiscoveredInterfaces_def discoverLoop_set discoverLoop_distinct interfaceInExcludeList_def
      split: prod.split)

text \<open>
  An allow list whose first entry is a regular expression that does not compile allows everything: every interface
  that is up and not excluded is discovered, whatever the rest of the list says.
\<close>

theorem bad_regexp_allows_all:
  assumes "AllowedInterfaces cfg = d # ds" and "slashed (trim_char (CHR '' '') d) = Some re" and "regexp_Compile env re = Inl err"
  shows "set (getDiscoveredInterfaces env cfg w) =
           {discovered i |i. (i, True) \<in> set (Interfaces_Range env w) \<and> if_Name i \<notin> set (ExcludeInterfaces cfg)}"
  using assms
  by (auto simp: getDiscoveredInterfaces_def discoverLoop_set interfaceInExcludeList_def setupAllowedInterfacesLists_def
      interfaceInAllowedList_def Let_def)

definition badCfg :: InterfaceDiscovery where
  "badCfg = \<lparr>InterfaceAutoDiscovery = Some True, ExcludeInterfaces = [''lo''], AllowedInterfaces = [''/veth[/'', ''eth1'']\<rparr>"

definition ifaceEnv :: "((unit, unit) fw, unit, unit) KEnv" where
  "ifaceEnv = fakeEnv\<lparr>Interfaces_Range := (\<lambda>_. [(\<lparr>if_Name = ''eth0'', if_NSName = ''''\<rparr>, True), (\<lparr>if_Name = ''lo'', if_NSName = ''''\<rparr>, True)])\<rparr>"

definition blankWorld :: "(unit, unit) fw" where
  "blankWorld = \<lparr>fw_links = [], fw_issued = 0, fw_uuid = 0, fw_containers = [], fw_apps = [], fw_states = []\<rparr>"

lemma bad_regexp_allows_all_witness:
  "set (getDiscoveredInterfaces ifaceEnv badCfg blankWorld) = {\<lparr>interfaceName = ''eth0'', netNSPath = ''''\<rparr>}"
proof -
  have "AllowedInterfaces badCfg = ''/veth[/'' # [''eth1'']" by (simp add: badCfg_def)
  moreover have "slashed (trim_char (CHR '' '') ''/veth[/'') = Some ''veth[''" by (simp add: slashed_def trim_char_def)
  moreover have "regexp_Compile ifaceEnv ''veth['' = Inl ''no regexps''" by (simp add: ifaceEnv_def fakeEnv_def)
  ultimately have "set (getDiscoveredInterfaces ifaceEnv badCfg blankWorld) =
      {discovered i |i. (i, True) \<in> set (Interfaces_Range ifaceEnv blankWorld) \<and> if_Name i \<notin> set (ExcludeInterfaces badCfg)}"
    by (rule bad_regexp_allows_all)
  also have "\<dots> = {\<lparr>interfaceName = ''eth0'', netNSPath = ''''\<rparr>}"
    by (auto simp: ifaceEnv_def badCfg_def discovered_def intro: exI [of _ "\<lparr>if_Name = ''eth0'', if_NSName = ''''\<rparr>"])
  finally show ?thesis .
qed

text \<open>
  The primary interface of the node is found exactly when the interfaces can be read and some interface carries one of
  the node's internal addresses; the name returned is then that of such an interface.
\<close>

theorem primary_interface_exact:
  "(\<exists>n. GetPrimaryNodeInterface env ourNode w = Inr n) \<longleftrightarrow>
     (\<exists>ifs i as ip x. net_Interfaces env w = Inr ifs \<and> ip \<in> set (nd_Addresses ourNode) \<and> na_Type ip = ''InternalIP'' \<and>
        i \<in> set ifs \<and> ni_Addrs i = Inr as \<and> x \<in> set as \<and> addrMatches env (na_Address ip) x)"
  (is "?found \<longleftrightarrow> ?carries")
proof
  assume ?found
  then obtain n ifs where "net_Interfaces env w = Inr ifs" "findNodeIface env ifs (nd_Addresses ourNode) = Some n"
    by (auto simp: GetPrimaryNodeInterface_def split: sum.splits option.splits)
  moreover from findNodeIface_sound [OF this(2)] obtain ip where "ip \<in> set (nd_Addresses ourNode)"
    "na_Type ip = ''InternalIP''" "findIface env (na_Address ip) ifs = Some n" by blast
  ultimately show ?carries using findIface_sound by blast
next
  assume ?carries
  then obtain ifs i as ip x where c: "net_Interfaces env w = Inr ifs" "ip \<in> set (nd_Addresses ourNode)"
    "na_Type ip = ''InternalIP''" "i \<in> set ifs" "ni_Addrs i = Inr as" "x \<in> set as" "addrMatches env (na_Address ip) x" by blast
  then have "findIface env (na_Address ip) ifs \<noteq> None" using findIface_complete by blast
  with findNodeIface_complete [of env ifs "nd_Addresses ourNode" ip] c(2,3)
  have "findNodeIface env ifs (nd_Addresses ourNode) \<noteq> None" by auto
  with c(1) show ?found by (auto simp: GetPrimaryNodeInterface_def)
qed

section \<open>Containers and attach points\<close>

lemma one_container_iff:
  "c \<in> set (GetOneContainerPerPod cs) \<longleftrightarrow> find (\<lambda>d. ci_podName d = ci_podName c) cs = Some c"
proof
  assume "c \<in> set (GetOneContainerPerPod cs)"
  then show "find (\<lambda>d. ci_podName d = ci_podName c) cs = Some c"
    unfolding GetOneContainerPerPod_def by (rule oneContainerLoop_first)
next
  assume f: "find (\<lambda>d. ci_podName d = ci_podName c) cs = Some c"
  then have "ci_podName c \<in> ci_podName ` set cs" by (auto simp: find_Some_iff)
  with oneContainerLoop_pods(2) [of "[]" cs] have "ci_podName c \<in> ci_podName ` set (GetOneContainerPerPod cs)"
    by (simp add: GetOneContainerPerPod_def)
  then obtain c' where c': "c' \<in> set (GetOneContainerPerPod cs)" "ci_podName c' = ci_podName c" by (metis imageE)
  from c'(1) oneContainerLoop_first [of c' "[]" cs] c'(2) f show "c \<in> set (GetOneContainerPerPod cs)"
    by (simp add: GetOneContainerPerPod_def)
qed

lemma oneContainerLoop_sub: "set (oneContainerLoop seen cs) \<subseteq> set cs"
  by (induction cs arbitrary: seen) (auto split: if_splits)

lemma oneContainerLoop_pids: "distinct (map ci_pid cs) \<Longrightarrow> distinct (map ci_pid (oneContainerLoop seen cs))"
proof (induction cs arbitrary: seen)
  case (Cons c cs)
  then have "ci_pid c \<notin> ci_pid ` set (oneContainerLoop seen' cs)" for seen'
    using oneContainerLoop_sub [of seen' cs] by auto
  with Cons show ?case by simp
qed simp

lemma distinct_points:
  "distinct (map ci_pid cs) \<Longrightarrow> distinct ifs \<Longrightarrow>
   distinct (concat (map (\<lambda>c. map (\<lambda>i. (i, netnsPathFromPID (ci_pid c))) ifs) cs))"
  by (induction cs) (auto simp: distinct_map inj_on_def netnsPathFromPID_inj)

text \<open>
  The points a network program attaches to in the namespaces of pods are the selected interfaces in the network
  namespace of the first listed container of each pod: one namespace per pod, every pod of the list, and no
  point twice when the interfaces are distinct and so are the container pids.
\<close>

theorem container_points_exact:
  "set (containerPoints ifs cs) =
     {(i, netnsPathFromPID (ci_pid c)) |i c. i \<in> set ifs \<and> find (\<lambda>d. ci_podName d = ci_podName c) cs = Some c} \<and>
   (distinct ifs \<and> distinct (map ci_pid cs) \<longrightarrow> distinct (containerPoints ifs cs))"
  by (auto simp: containerPoints_def distinct_points oneContainerLoop_pids GetOneContainerPerPod_def
      simp flip: one_container_iff)

lemma container_points_exact_witness:
  "distinct (containerPoints [''eth0'', ''eth1'']
     [\<lparr>ci_podName = ''a'', ci_containerName = ''x'', ci_pid = 10\<rparr>, \<lparr>ci_podName = ''a'', ci_containerName = ''y'', ci_pid = 11\<rparr>,
      \<lparr>ci_podName = ''b'', ci_containerName = ''z'', ci_pid = 12\<rparr>])"
  using container_points_exact [of "[''eth0'', ''eth1'']"
     "[\<lparr>ci_podName = ''a'', ci_containerName = ''x'', ci_pid = 10\<rparr>, \<lparr>ci_podName = ''a'', ci_containerName = ''y'', ci_pid = 11\<rparr>,
      \<lparr>ci_podName = ''b'', ci_containerName = ''z'', ci_pid = 12\<rparr>]"] by simp

section \<open>Proceed-on values\<close>

text \<open>The values the API accepts for an XDP and for a TC program.\<close>

definition xdpValues :: "string list" where
  "xdpValues = [''Aborted'', ''Drop'', ''Pass'', ''TX'', ''ReDirect'', ''DispatcherReturn'']"

lemma xdpProceedOnToInt_Cons: "xdpProceedOnToInt (p # ps) = xdpProceedOnToInt [p] @ xdpProceedOnToInt ps"
  by simp

lemma xdpProceedOnToInt_value:
  "p \<in> set xdpValues \<Longrightarrow> \<exists>n. xdpProceedOnToInt [p] = [n] \<and> (\<forall>q\<in>set xdpValues. xdpProceedOnToInt [q] = [n] \<longrightarrow> q = p)"
  by (auto simp: xdpValues_def)

text \<open>
  The proceed-on values of an XDP program lose nothing on the way to the daemon: two lists of values the API
  accepts that translate to the same numbers are the same list.
\<close>

theorem xdp_proceed_on_faithful:
  assumes "set ps \<subseteq> set xdpValues" and "set qs \<subseteq> set xdpValues" and "xdpProceedOnToInt ps = xdpProceedOnToInt qs"
  shows "ps = qs"
  using assms
proof (induction ps arbitrary: qs)
  case Nil
  then show ?case
  proof (cases qs)
    case (Cons q qs')
    with Nil.prems(2) xdpProceedOnToInt_value [of q] Nil.prems(3) show ?thesis
      by (auto simp: xdpProceedOnToInt_Cons [of q qs'] simp del: xdpProceedOnToInt.simps(2))
  qed simp
next
  case (Cons p ps)
  from Cons.prems(1) xdpProceedOnToInt_value [of p] obtain n where
    n: "xdpProceedOnToInt [p] = [n]" "\<forall>q\<in>set xdpValues. xdpProceedOnToInt [q] = [n] \<longrightarrow> q = p" by auto
  show ?case
  proof (cases qs)
    case Nil
    with Cons.prems(3) n(1) show ?thesis
      by (simp add: xdpProceedOnToInt_Cons [of p ps] del: xdpProceedOnToInt.simps(2))
  next
    case q: (Cons q qs')
    from Cons.prems(2) q xdpProceedOnToInt_value [of q] obtain m where m: "xdpProceedOnToInt [q] = [m]" by auto
    from Cons.prems(3) q n(1) m have "n = m" "xdpProceedOnToInt ps = xdpProceedOnToInt qs'"
      by (simp_all add: xdpProceedOnToInt_Cons [of p ps] xdpProceedOnToInt_Cons [of q qs'] del: xdpProceedOnToInt.simps(2))
    moreover from this(1) n(2) m Cons.prems(2) q have "q = p" by simp
    moreover have "set ps \<subseteq> set xdpValues" "set qs' \<subseteq> set xdpValues" using Cons.prems(1,2) q by simp_all
    ultimately show ?thesis using Cons.IH q by blast
  qed
qed

lemma xdp_proceed_on_faithful_witness:
  "[''Pass'', ''TX''] = [''Pass'', ''TX''] \<and> xdpProceedOnToInt [''Pass'', ''TX''] \<noteq> xdpProceedOnToInt [''TX'', ''Pass'']"
  using xdp_proceed_on_faithful [of "[''Pass'', ''TX'']" "[''TX'', ''Pass'']"] by (auto simp: xdpValues_def)

text \<open>
  The value \<^verbatim>\<open>UnSpec\<close> of the API never reaches the daemon: the translation for a TC program drops it, because it
  compares with a different spelling.
\<close>

theorem tc_unspec_dropped: "tcProceedOnToInt (filter (\<lambda>p. p \<noteq> ''UnSpec'') ps) = tcProceedOnToInt ps"
  by (induction ps) auto

section \<open>Bytecode\<close>

text \<open>
  The location of the bytecode is determined by the selector: an image selector always answers, with an image at the
  given URL or with an error, and leaves the path alone; without an image a path gives that file; and only a
  selector with neither makes the code panic.
\<close>

theorem bytecode_location:
  "(GetBytecode env b s = None \<longleftrightarrow> bc_Image b = None \<and> bc_Path b = None) \<and>
   (\<forall>loc s'. GetBytecode env b s = Some (Inr loc, s') \<longrightarrow>
      (case bc_Image b of
         Some img \<Rightarrow> \<exists>policy user pw. loc = BytecodeLocation_Image (bi_Url img) policy user pw
       | None \<Rightarrow> loc = BytecodeLocation_File (the (bc_Path b)) \<and> s' = s))"
proof (cases "bc_Image b")
  case None
  then show ?thesis by (cases "bc_Path b") (simp_all add: GetBytecode_def)
next
  case (Some img)
  show ?thesis
  proof (cases "reference_ParseNamed env (bi_Url img)")
    case (Inl err)
    with Some show ?thesis by (simp add: GetBytecode_def)
  next
    case ref: (Inr ref)
    show ?thesis
    proof (cases "bi_ImagePullSecret img")
      case None
      with Some ref show ?thesis by (simp add: GetBytecode_def)
    next
      case (Some sec)
      obtain q t where "ParseAuth env (ips_Name sec) (ips_Namespace sec) s = (q, t)" by fastforce
      with Some ref \<open>bc_Image b = Some img\<close> show ?thesis
        by (auto simp: GetBytecode_def Let_def split: option.split sum.split)
    qed
  qed
qed

lemma bytecode_location_witness:
  "\<exists>r. GetBytecode fakeEnv \<lparr>bc_Image = None, bc_Path = Some ''/p.o''\<rparr> \<lparr>world = blankWorld, netns_cache = []\<rparr> = Some r"
  using bytecode_location [of fakeEnv "\<lparr>bc_Image = None, bc_Path = Some ''/p.o''\<rparr>" "\<lparr>world = blankWorld, netns_cache = []\<rparr>"]
  by auto

end
