(* ===== verification/App_Contract.thy ===== *)
theory App_Contract
  imports App_Reconcile
begin

text \<open>
  The interface \<^verbatim>\<open>ApplicationReconciler\<close> as a locale: what \<^verbatim>\<open>reconcileLoad\<close> and the loops of an
  application rely on from the operations of its program types, and the lemmas about loading,
  unloading, initialising and validating that follow. \<^verbatim>\<open>Cl_Contract\<close> and \<^verbatim>\<open>Ns_Application\<close> interpret it.
\<close>

section \<open>The condition of a state object\<close>

lemma updateBpfAppStateCondition_single:
  assumes "updateBpfAppStateCondition now c st = (True, st')"
  shows "Conditions (st_Status st') =
           [(BpfAppStateCond_Condition c)\<lparr>cond_LastTransitionTime := now\<rparr>]"
  using assms
  by (auto simp: updateBpfAppStateCondition_def setAppStateConditions_def updStatus_def
      SetStatusCondition_fresh split: list.splits if_splits)

lemma updateBpfAppStateCondition_frame:
  "snd (updateBpfAppStateCondition now c st) =
     st\<lparr>st_Status := (st_Status st)\<lparr>Conditions :=
        Conditions (st_Status (snd (updateBpfAppStateCondition now c st)))\<rparr>\<rparr>"
  by (simp add: updateBpfAppStateCondition_def setAppStateConditions_def updStatus_def split: list.split)

lemma updateBpfAppStateCondition_again:
  "updateBpfAppStateCondition now' c (snd (updateBpfAppStateCondition now c st)) =
     (if c = BpfAppStateCondProgramListChangedError \<and> fst (updateBpfAppStateCondition now c st)
      then (True, setAppStateConditions now' emptyCondition (snd (updateBpfAppStateCondition now c st)))
      else (False, snd (updateBpfAppStateCondition now c st)))"
proof (cases "fst (updateBpfAppStateCondition now c st)")
  case True
  then obtain st' where u: "updateBpfAppStateCondition now c st = (True, st')" by (metis prod.collapse)
  from updateBpfAppStateCondition_single [OF u] u show ?thesis
    by (auto simp: updateBpfAppStateCondition_def [of now' c st'] BpfAppStateCond_type)
next
  case False
  then have "updateBpfAppStateCondition now c st = (False, st) \<and>
             (\<exists>k. Conditions (st_Status st) = [k] \<and> cond_Type k = BpfAppStateCond_string c)"
    by (auto simp: updateBpfAppStateCondition_def split: list.splits if_splits)
  then show ?thesis by (auto simp: updateBpfAppStateCondition_def [of now' c st])
qed

section \<open>The program list\<close>

lemma validateLoop_added: "snd (validateLoop m a names) = [] \<Longrightarrow> a = []"
proof (induction names arbitrary: m a)
  case (Cons n names)
  then show ?case using Cons.IH [of m "a @ n @ '' ''"] by (auto split: if_splits)
qed simp

lemma validateLoop_ok:
  "snd (validateLoop m [] names) = [] \<longleftrightarrow> distinct names \<and> set names \<subseteq> set m"
proof (induction names arbitrary: m)
  case (Cons n names)
  show ?case
  proof (cases "n \<in> set m")
    case True
    with Cons.IH [of "removeAll n m"] show ?thesis by auto
  next
    case False
    with validateLoop_added [of m "n @ '' ''" names] show ?thesis by auto
  qed
qed simp

lemma validateLoop_left:
  "snd (validateLoop m [] names) = [] \<Longrightarrow> set (fst (validateLoop m [] names)) = set m - set names"
proof (induction names arbitrary: m)
  case (Cons n names)
  show ?case
  proof (cases "n \<in> set m")
    case True
    with Cons.IH [of "removeAll n m"] Cons.prems show ?thesis by auto
  next
    case False
    with validateLoop_added [of m "n @ '' ''" names] Cons.prems show ?thesis by auto
  qed
qed simp

lemma validateProgramList_iff:
  "validateProgramList ops app st = Inr () \<longleftrightarrow>
     distinct (map (op_Name ops) (SpecPrograms (app_Spec app))) \<and>
     op_Name ops ` set (SpecPrograms (app_Spec app)) = Name ` set (statePrograms st)"
proof -
  let ?names = "map (op_Name ops) (SpecPrograms (app_Spec app))"
  let ?m = "map Name (statePrograms st)"
  obtain m a where v: "validateLoop ?m [] ?names = (m, a)" by fastforce
  show ?thesis
  proof (cases "a = []")
    case True
    with v validateLoop_ok [of ?m ?names] validateLoop_left [of ?m ?names]
    have "distinct ?names" "set ?names \<subseteq> set ?m" "set m = set ?m - set ?names" by simp_all
    then have "m = [] \<longleftrightarrow> set ?names = set ?m" by (metis Diff_eq_empty_iff set_empty subset_antisym order_refl)
    with True v \<open>distinct ?names\<close> show ?thesis by (auto simp: validateProgramList_def)
  next
    case False
    with v validateLoop_ok [of ?m ?names] have "\<not> (distinct ?names \<and> set ?names \<subseteq> set ?m)" by simp
    with False v show ?thesis by (auto simp: validateProgramList_def)
  qed
qed

section \<open>Loading\<close>

lemma isLoadedLoop_False [simp]: "fst (isLoadedLoop env ps False s) = False"
  by (induction ps arbitrary: s) (auto split: option.splits sum.splits prod.splits)

lemma isLoadedLoop_ids: "fst (isLoadedLoop env ps b s) \<Longrightarrow> p \<in> set ps \<Longrightarrow> ProgramId p \<noteq> None"
proof (induction ps arbitrary: s)
  case (Cons q ps)
  show ?case
  proof (cases "ProgramId q")
    case None
    with Cons.prems isLoadedLoop_False [of env ps s] show ?thesis by simp
  next
    case (Some i)
    obtain r t where g: "GetBpfmanProgramById env i s = (r, t)" by fastforce
    with Cons.prems Some obtain g' where "r = Inr g'"
      using isLoadedLoop_False [of env ps t] by (cases r) simp_all
    with Cons g Some show ?thesis by auto
  qed
qed simp

lemma assignIds_ok:
  "assignIds resp ps = Some (Inr (), ps') \<Longrightarrow>
   list_all2 (\<lambda>p p'. \<exists>i. p' = p\<lparr>ProgramId := Some i\<rparr> \<and> GetBpfProgramId (Name p) resp = Some (Inr i)) ps ps'"
proof (induction ps arbitrary: ps')
  case (Cons p ps)
  from Cons.prems obtain r where r: "GetBpfProgramId (Name p) resp = Some r" by (auto simp: bind_eq_Some_conv)
  with Cons.prems obtain i where i: "r = Inr i" by (cases r) simp_all
  with Cons r show ?case by (auto simp: bind_eq_Some_conv)
qed simp

lemma assignIds_names:
  "assignIds resp ps = Some (r, ps') \<Longrightarrow> map Name ps' = map Name ps"
proof (induction ps arbitrary: r ps')
  case (Cons p ps)
  from Cons.prems obtain q where q: "GetBpfProgramId (Name p) resp = Some q" by (auto simp: bind_eq_Some_conv)
  with Cons show ?case by (cases q) (auto simp: bind_eq_Some_conv)
qed simp

section \<open>What reconciling a program keeps\<close>

text \<open>Anything the store of links and the status do not touch is untouched.\<close>

lemma reconcileProgram_keeps:
  assumes set: "\<And>ls x. P (setLinks ls x) = P x" and st: "\<And>x st. P (x\<lparr>ProgramLinkStatus := st\<rparr>) = P x"
    and r: "reconcileProgram (progUpdateLinks getLinks setLinks g f specs)
              (progProcessLinks env getLinks setLinks req) b ps s = Some ((r, ps'), s')"
  shows "P ps' = P ps"
proof -
  from r obtain links where links: "getLinks ps = Some links"
    by (auto simp: reconcileProgram_def progUpdateLinks_def bind_eq_Some_conv)
  obtain q ls1 s1 where u: "updateLinks g f specs b links s = ((q, ls1), s1)" by (metis prod.collapse)
  show ?thesis
  proof (cases q)
    case (Inl e)
    with r links u show ?thesis by (auto simp: reconcileProgram_def progUpdateLinks_def set st)
  next
    case (Inr x)
    with r links u obtain ls where "ps' = (setLinks ls (setLinks ls1 ps))\<lparr>ProgramLinkStatus := ProgramLinkStatus ps'\<rparr>"
      by (auto simp: reconcileProgram_def progUpdateLinks_def progProcessLinks_def bind_eq_Some_conv)
    then have "P ps' = P (setLinks ls (setLinks ls1 ps))" by (metis st)
    with set show ?thesis by simp
  qed
qed

section \<open>The contract\<close>

locale app_ops =
  fixes ops :: "('q, 'p BpfProgramStateCommon_scheme, 'w) AppOps"
    and wf :: "'p BpfProgramStateCommon_scheme \<Rightarrow> bool"
    and no_links :: "'p BpfProgramStateCommon_scheme \<Rightarrow> bool"
  assumes state_found: "op_getProgState ops q ps = Some (Inr i) \<Longrightarrow>
                        i < length ps \<and> Name (ps ! i) = op_Name ops q"
    and state_absent: "\<forall>p\<in>set ps. Name p \<noteq> op_Name ops q \<Longrightarrow> \<exists>e. op_getProgState ops q ps = Some (Inl e)"
    and new_state: "op_newProgState ops q = Some (Inr p) \<Longrightarrow>
                    Name p = op_Name ops q \<and> ProgramId p = None \<and> ProgramLinkStatus p = ProgAttachPending \<and>
                    wf p \<and> no_links p"
    and new_found: "op_newProgState ops q = Some (Inr p) \<Longrightarrow> \<forall>x\<in>set ps. Name x \<noteq> op_Name ops q \<Longrightarrow>
                    op_getProgState ops q (ps @ p # rest) = Some (Inr (length ps))"
    and delete_links: "wf p \<Longrightarrow> \<exists>p'. op_deleteLinks ops p = Some p' \<and> no_links p' \<and> wf p' \<and>
                       Name p' = Name p \<and> ProgramId p' = ProgramId p"
    and wf_upd: "wf (p\<lparr>ProgramId := pid\<rparr>) = wf p" "wf (p\<lparr>ProgramLinkStatus := st\<rparr>) = wf p"
    and no_links_upd: "no_links (p\<lparr>ProgramLinkStatus := st\<rparr>) = no_links p"
    and reconcile_frame: "op_reconcileProgram ops q b p s = Some (Inr (r, p'), s') \<Longrightarrow>
                          Name p' = Name p \<and> ProgramId p' = ProgramId p \<and> wf p' = wf p"
begin

text \<open>Unloading never panics on well-formed programs and leaves every one of them unloaded.\<close>

lemma unloadLoop_all:
  "\<forall>p\<in>set ps. wf p \<Longrightarrow>
   \<exists>ps' s'. unloadLoop env ops ps s = Some (ps', s') \<and>
     list_all2 (\<lambda>p p'. Name p' = Name p \<and> ProgramId p' = None \<and> wf p' \<and>
                  ProgramLinkStatus p' = ProgAttachSuccess \<and> (ProgramId p \<noteq> None \<longrightarrow> no_links p')) ps ps'"
proof (induction ps arbitrary: s)
  case (Cons p ps)
  show ?case
  proof (cases "ProgramId p")
    case None
    from Cons.IH [of s] Cons.prems obtain ps' s' where "unloadLoop env ops ps s = Some (ps', s')"
      "list_all2 (\<lambda>p p'. Name p' = Name p \<and> ProgramId p' = None \<and> wf p' \<and>
         ProgramLinkStatus p' = ProgAttachSuccess \<and> (ProgramId p \<noteq> None \<longrightarrow> no_links p')) ps ps'" by auto
    with None Cons.prems show ?thesis by (auto simp: wf_upd)
  next
    case (Some i)
    obtain r t where u: "UnloadBpfmanProgram env i s = (r, t)" by fastforce
    from Cons.prems wf_upd(1) have "wf (p\<lparr>ProgramId := None\<rparr>)" by simp
    from delete_links [OF this] obtain p' where p': "op_deleteLinks ops (p\<lparr>ProgramId := None\<rparr>) = Some p'"
      "no_links p'" "wf p'" "Name p' = Name p" "ProgramId p' = None" by auto
    from Cons.IH [of t] Cons.prems obtain ps' s' where "unloadLoop env ops ps t = Some (ps', s')"
      "list_all2 (\<lambda>p p'. Name p' = Name p \<and> ProgramId p' = None \<and> wf p' \<and>
         ProgramLinkStatus p' = ProgAttachSuccess \<and> (ProgramId p \<noteq> None \<longrightarrow> no_links p')) ps ps'" by auto
    with Some u p' show ?thesis by (auto simp: wf_upd no_links_upd)
  qed
qed simp

text \<open>A fresh program list: one pending, unloaded entry per program of the application.\<close>

lemma initLoop_states:
  "initLoop ops qs acc = Some (Inr (), ps) \<Longrightarrow>
   \<exists>new. ps = acc @ new \<and>
     list_all2 (\<lambda>q p. Name p = op_Name ops q \<and> ProgramId p = None \<and>
                  ProgramLinkStatus p = ProgAttachPending \<and> wf p \<and> no_links p) qs new"
proof (induction qs arbitrary: acc)
  case (Cons q qs)
  from Cons.prems obtain r where "op_getProgState ops q acc = Some r" by (auto simp: bind_eq_Some_conv)
  with Cons.prems obtain e where e: "op_getProgState ops q acc = Some (Inl e)" by (cases r) simp_all
  with Cons.prems obtain r' where "op_newProgState ops q = Some r'" by (auto simp: bind_eq_Some_conv)
  with Cons.prems e obtain p where p: "op_newProgState ops q = Some (Inr p)"
    "initLoop ops qs (acc @ [p]) = Some (Inr (), ps)" by (cases r') simp_all
  from Cons.IH [OF p(2)] obtain new where "ps = (acc @ [p]) @ new"
    "list_all2 (\<lambda>q p. Name p = op_Name ops q \<and> ProgramId p = None \<and>
                  ProgramLinkStatus p = ProgAttachPending \<and> wf p \<and> no_links p) qs new" by blast
  with new_state [OF p(1)] show ?case by (intro exI [of _ "p # new"]) simp
qed simp

text \<open>With distinct names and known types the initialisation goes through.\<close>

lemma initLoop_succeeds:
  "distinct (map (op_Name ops) qs) \<Longrightarrow> \<forall>q\<in>set qs. \<exists>p. op_newProgState ops q = Some (Inr p) \<Longrightarrow>
   \<forall>q\<in>set qs. \<forall>p\<in>set acc. Name p \<noteq> op_Name ops q \<Longrightarrow> \<exists>ps. initLoop ops qs acc = Some (Inr (), ps)"
proof (induction qs arbitrary: acc)
  case (Cons q qs)
  from Cons.prems(2) obtain p where p: "op_newProgState ops q = Some (Inr p)" by auto
  from state_absent [of acc q] Cons.prems(3) obtain e where "op_getProgState ops q acc = Some (Inl e)" by auto
  moreover have "\<exists>ps. initLoop ops qs (acc @ [p]) = Some (Inr (), ps)"
  proof (rule Cons.IH)
    show "\<forall>x\<in>set qs. \<forall>y\<in>set (acc @ [p]). Name y \<noteq> op_Name ops x"
    proof (intro ballI)
      fix x y assume x: "x \<in> set qs" "y \<in> set (acc @ [p])"
      from Cons.prems(1) x(1) have "op_Name ops q \<noteq> op_Name ops x" by (auto simp: rev_image_eqI)
      with x Cons.prems(3) new_state [OF p] show "Name y \<noteq> op_Name ops x" by auto
    qed
  qed (use Cons.prems in auto)
  ultimately show ?case using p by simp
qed simp

text \<open>The loop over the programs changes neither names nor ids.\<close>

lemma reconcilePrograms_frame:
  "reconcilePrograms ops b qs c ps s = Some ((c', ps'), s') \<Longrightarrow>
   map Name ps' = map Name ps \<and> map ProgramId ps' = map ProgramId ps \<and> map wf ps' = map wf ps"
proof (induction qs arbitrary: c ps s)
  case (Cons q qs)
  from Cons.prems obtain r where r: "op_getProgState ops q ps = Some r" by (auto simp: bind_eq_Some_conv)
  show ?case
  proof (cases r)
    case (Inl e)
    with Cons r show ?thesis by simp
  next
    case (Inr i)
    with Cons.prems r obtain x t where x: "op_reconcileProgram ops q b (ps ! i) s = Some (x, t)"
      by (auto simp: bind_eq_Some_conv)
    show ?thesis
    proof (cases x)
      case (Inl e)
      with Cons r Inr x show ?thesis by simp
    next
      case (Inr y)
      obtain u p where y: "y = (u, p)" by fastforce
      from reconcile_frame [of q b "ps ! i" s u p t] x Inr y
      have p: "Name p = Name (ps ! i)" "ProgramId p = ProgramId (ps ! i)" "wf p = wf (ps ! i)"
        by simp_all
      from Cons.IH [of c "ps[i := p]" t] Cons.prems r \<open>r = Inr i\<close> x Inr y
      have "map Name ps' = map Name (ps[i := p]) \<and> map ProgramId ps' = map ProgramId (ps[i := p]) \<and>
            map wf ps' = map wf (ps[i := p])" by simp
      with p state_found [of q ps i] r \<open>r = Inr i\<close> show ?thesis by (simp add: map_update list_update_same_conv)
    qed
  qed
qed simp

section \<open>What reconcileLoad leaves behind\<close>

lemma statePrograms_upd [simp]:
  "statePrograms (setPrograms ps st) = ps" "statePrograms (setAppLoadStatus x st) = statePrograms st"
  by (simp_all add: statePrograms_def setPrograms_def setAppLoadStatus_def updStatus_def)

lemma loadStatus_upd [simp]:
  "AppLoadStatus (st_Status (setAppLoadStatus x st)) = x"
  "AppLoadStatus (st_Status (setPrograms ps st)) = AppLoadStatus (st_Status st)"
  by (simp_all add: setPrograms_def setAppLoadStatus_def updStatus_def)

lemma unload_all:
  assumes "\<forall>p\<in>set (statePrograms st). wf p"
  shows "\<exists>st' s'. unload env ops st s = Some (st', s') \<and>
           map Name (statePrograms st') = map Name (statePrograms st) \<and>
           (\<forall>p\<in>set (statePrograms st'). ProgramId p = None \<and> ProgramLinkStatus p = ProgAttachSuccess \<and> wf p)"
proof -
  from unloadLoop_all [OF assms, of env s] obtain ps' s' where
    u: "unloadLoop env ops (statePrograms st) s = Some (ps', s')" and
    l: "list_all2 (\<lambda>p p'. Name p' = Name p \<and> ProgramId p' = None \<and> wf p' \<and>
          ProgramLinkStatus p' = ProgAttachSuccess \<and> (ProgramId p \<noteq> None \<longrightarrow> no_links p'))
          (statePrograms st) ps'" by blast
  from l have "map Name ps' = map Name (statePrograms st)"
    by (induction rule: list_all2_induct) simp_all
  moreover from l have "\<forall>p\<in>set ps'. ProgramId p = None \<and> ProgramLinkStatus p = ProgAttachSuccess \<and> wf p"
    by (induction rule: list_all2_induct) auto
  ultimately show ?thesis using u by (simp add: unload_def)
qed

text \<open>Without an error, the programs are all loaded or all unloaded, as the load status says.\<close>

lemma load_all:
  assumes "load env ops app st s = Some ((Inr (), st'), s')" and wf: "\<forall>p\<in>set (statePrograms st). wf p"
  shows "map Name (statePrograms st') = map Name (statePrograms st) \<and>
         (\<forall>p\<in>set (statePrograms st'). ProgramId p \<noteq> None \<and> wf p)"
proof -
  from assms(1) obtain q t where q: "getLoadRequest env ops app st s = Some (q, t)"
    by (auto simp: load_def bind_eq_Some_conv)
  with assms(1) obtain req where "q = Inr req" by (cases q) (simp_all add: load_def)
  moreover obtain l u where l: "lift_world (bpfman_Load env req) t = (l, u)" by fastforce
  ultimately obtain resp where "l = Inr resp" using assms(1) q by (cases l) (simp_all add: load_def)
  with assms(1) q l \<open>q = Inr req\<close> obtain ps where a: "assignIds resp (statePrograms st) = Some (Inr (), ps)"
    and st': "st' = setPrograms ps st" by (auto simp: load_def bind_eq_Some_conv)
  from assignIds_ok [OF a] wf have "\<forall>p\<in>set ps. ProgramId p \<noteq> None \<and> wf p"
    by (induction rule: list_all2_induct) (auto simp: wf_upd)
  with assignIds_names [OF a] st' show ?thesis by simp
qed

lemma reconcileLoad_ok:
  assumes r: "reconcileLoad env ops node app st s = Some ((Inr (), st'), s')"
    and wf: "\<forall>p\<in>set (statePrograms st). wf p"
  shows "map Name (statePrograms st') = map Name (statePrograms st)"
    and "AppLoadStatus (st_Status st') = AppLoadSuccess \<Longrightarrow>
         \<not> isBeingDeleted app \<and> validateProgramList ops app st = Inr () \<and>
         (\<forall>p\<in>set (statePrograms st'). ProgramId p \<noteq> None \<and> wf p)"
    and "AppLoadStatus (st_Status st') \<noteq> AppLoadSuccess \<Longrightarrow>
         AppLoadStatus (st_Status st') \<in> {NotSelected, AppUnLoadSuccess} \<and>
         (\<forall>p\<in>set (statePrograms st'). ProgramId p = None \<and> ProgramLinkStatus p = ProgAttachSuccess \<and> wf p)"
proof -
  have "map Name (statePrograms st') = map Name (statePrograms st) \<and>
    (if AppLoadStatus (st_Status st') = AppLoadSuccess
     then \<not> isBeingDeleted app \<and> validateProgramList ops app st = Inr () \<and>
         (\<forall>p\<in>set (statePrograms st'). ProgramId p \<noteq> None \<and> wf p)
     else AppLoadStatus (st_Status st') \<in> {NotSelected, AppUnLoadSuccess} \<and>
       (\<forall>p\<in>set (statePrograms st'). ProgramId p = None \<and> ProgramLinkStatus p = ProgAttachSuccess \<and> wf p))"
  proof (cases "isNodeSelected env (NodeSelector (app_Spec app)) (nd_Labels node)")
    case (Inl e)
    with r show ?thesis by (simp add: reconcileLoad_def)
  next
    case sel: (Inr sel)
    from unload_all [OF wf, of env s] obtain su s1 where
      u: "unload env ops st s = Some (su, s1)" "map Name (statePrograms su) = map Name (statePrograms st)"
      "\<forall>p\<in>set (statePrograms su). ProgramId p = None \<and> ProgramLinkStatus p = ProgAttachSuccess \<and> wf p" by blast
    show ?thesis
    proof (cases "sel \<and> \<not> isBeingDeleted app")
      case False
      with r sel u show ?thesis by (auto simp: reconcileLoad_def split: if_splits)
    next
      case True
      with r sel have v: "validateProgramList ops app st = Inr ()"
        by (cases "validateProgramList ops app st") (simp_all add: reconcileLoad_def)
      obtain b s1 where b: "isLoaded env st s = (b, s1)" by fastforce
      show ?thesis
      proof (cases b)
        case True
        with b have "\<forall>p\<in>set (statePrograms st). ProgramId p \<noteq> None"
          using isLoadedLoop_ids [of env "statePrograms st" True s] by (simp add: isLoaded_def)
        with wf r sel v b True \<open>sel \<and> \<not> isBeingDeleted app\<close> show ?thesis by (auto simp: reconcileLoad_def)
      next
        case False
        with r sel v b \<open>sel \<and> \<not> isBeingDeleted app\<close> obtain q sl s2 where
          l: "load env ops app st s1 = Some ((q, sl), s2)" by (auto simp: reconcileLoad_def bind_eq_Some_conv)
        with r sel v b False \<open>sel \<and> \<not> isBeingDeleted app\<close> have "q = Inr ()" and "st' = setAppLoadStatus AppLoadSuccess sl"
          by (cases q; simp add: reconcileLoad_def)+
        with load_all [of env app st s1 sl s2] wf l v \<open>sel \<and> \<not> isBeingDeleted app\<close> show ?thesis by simp
      qed
    qed
  qed
  then show "map Name (statePrograms st') = map Name (statePrograms st)"
    and "AppLoadStatus (st_Status st') = AppLoadSuccess \<Longrightarrow>
         \<not> isBeingDeleted app \<and> validateProgramList ops app st = Inr () \<and>
         (\<forall>p\<in>set (statePrograms st'). ProgramId p \<noteq> None \<and> wf p)"
    and "AppLoadStatus (st_Status st') \<noteq> AppLoadSuccess \<Longrightarrow>
         AppLoadStatus (st_Status st') \<in> {NotSelected, AppUnLoadSuccess} \<and>
         (\<forall>p\<in>set (statePrograms st'). ProgramId p = None \<and> ProgramLinkStatus p = ProgAttachSuccess \<and> wf p)"
    by (auto split: if_splits)
qed

text \<open>A fresh program list passes validation exactly when the names are distinct.\<close>

lemma init_then_validate:
  assumes "initializeNodeProgramList ops app st = Some (Inr (), st')"
  shows "validateProgramList ops app st' = Inr () \<longleftrightarrow>
         distinct (map (op_Name ops) (SpecPrograms (app_Spec app)))"
proof -
  from assms obtain ps where i: "initLoop ops (SpecPrograms (app_Spec app)) [] = Some (Inr (), ps)"
    and st': "st' = setPrograms ps st"
    by (auto simp: initializeNodeProgramList_def bind_eq_Some_conv split: if_splits)
  from initLoop_states [OF i] have "list_all2 (\<lambda>q p. Name p = op_Name ops q) (SpecPrograms (app_Spec app)) ps"
    by (auto elim: list_all2_mono)
  then have "map Name ps = map (op_Name ops) (SpecPrograms (app_Spec app))"
    by (induction rule: list_all2_induct) simp_all
  then have "Name ` set ps = op_Name ops ` set (SpecPrograms (app_Spec app))" by (metis list.set_map)
  with st' show ?thesis by (simp add: validateProgramList_iff)
qed

end

end
