(* ===== verification/Cl_Application.thy ===== *)
theory Cl_Application
  imports App_Reconcile
begin

text \<open>
  What is particular to \<^verbatim>\<open>cl_application_program.go\<close>: finding the state of a program, the
  reconciler for its type, the initial state of a program and the deletion of its links.
\<close>

fun Cl_getProgStateFrom ::
    "nat \<Rightarrow> ClBpfApplicationProgram \<Rightarrow> ClBpfApplicationProgramState list \<Rightarrow> nat result go" where
  "Cl_getProgStateFrom i prog [] = Some (Inl ''BpfApplicationProgramState not found'')"
| "Cl_getProgStateFrom i prog (progState # programs) =
     (if cs_Type progState = cp_Type prog \<and> Name progState = cp_Name prog then
        (case cp_Type prog of
           ProgTypeFentry \<Rightarrow>
             do { a \<leftarrow> cs_FEntry progState; b \<leftarrow> cp_FEntry prog;
                  if Function a = Function b then Some (Inr i)
                  else Cl_getProgStateFrom (Suc i) prog programs }
         | ProgTypeFexit \<Rightarrow>
             do { a \<leftarrow> cs_FExit progState; b \<leftarrow> cp_FExit prog;
                  if Function a = Function b then Some (Inr i)
                  else Cl_getProgStateFrom (Suc i) prog programs }
         | _ \<Rightarrow> Some (Inr i))
      else Cl_getProgStateFrom (Suc i) prog programs)"

definition Cl_getProgState ::
    "ClBpfApplicationProgram \<Rightarrow> ClBpfApplicationProgramState list \<Rightarrow> nat result go" where
  "Cl_getProgState prog programs = Cl_getProgStateFrom 0 prog programs"

definition Cl_getProgramReconciler ::
    "('w, 'z) Env_scheme \<Rightarrow> NodeObject \<Rightarrow> ClBpfApplicationProgram \<Rightarrow>
     (ClBpfApplicationProgramState, 'w) ProgramRec result" where
  "Cl_getProgramReconciler env ourNode prog =
     (case cp_Type prog of
        ProgTypeFentry \<Rightarrow> Inr \<lparr>rec_updateLinks = ClFentry_updateLinks env prog,
          rec_processLinks = ClFentry_processLinks env,
          rec_getProgramLoadInfo = ClFentry_getProgramLoadInfo prog\<rparr>
      | ProgTypeFexit \<Rightarrow> Inr \<lparr>rec_updateLinks = ClFexit_updateLinks env prog,
          rec_processLinks = ClFexit_processLinks env,
          rec_getProgramLoadInfo = ClFexit_getProgramLoadInfo prog\<rparr>
      | ProgTypeKprobe \<Rightarrow> Inr \<lparr>rec_updateLinks = ClKprobe_updateLinks env prog,
          rec_processLinks = ClKprobe_processLinks env,
          rec_getProgramLoadInfo = ClKprobe_getProgramLoadInfo prog\<rparr>
      | ProgTypeKretprobe \<Rightarrow> Inr \<lparr>rec_updateLinks = ClKretprobe_updateLinks env prog,
          rec_processLinks = ClKretprobe_processLinks env,
          rec_getProgramLoadInfo = ClKretprobe_getProgramLoadInfo prog\<rparr>
      | ProgTypeUprobe \<Rightarrow> Inr \<lparr>rec_updateLinks = ClUprobe_updateLinks env prog,
          rec_processLinks = ClUprobe_processLinks env,
          rec_getProgramLoadInfo = ClUprobe_getProgramLoadInfo prog\<rparr>
      | ProgTypeUretprobe \<Rightarrow> Inr \<lparr>rec_updateLinks = ClUprobe_updateLinks env prog,
          rec_processLinks = ClUprobe_processLinks env,
          rec_getProgramLoadInfo = ClUprobe_getProgramLoadInfo prog\<rparr>
      | ProgTypeTracepoint \<Rightarrow> Inr \<lparr>rec_updateLinks = ClTracepoint_updateLinks env prog,
          rec_processLinks = ClTracepoint_processLinks env,
          rec_getProgramLoadInfo = ClTracepoint_getProgramLoadInfo prog\<rparr>
      | ProgTypeTC \<Rightarrow> Inr \<lparr>rec_updateLinks = ClTc_updateLinks env ourNode prog,
          rec_processLinks = ClTc_processLinks env,
          rec_getProgramLoadInfo = ClTc_getProgramLoadInfo prog\<rparr>
      | ProgTypeTCX \<Rightarrow> Inr \<lparr>rec_updateLinks = ClTcx_updateLinks env ourNode prog,
          rec_processLinks = ClTcx_processLinks env,
          rec_getProgramLoadInfo = ClTcx_getProgramLoadInfo prog\<rparr>
      | ProgTypeXDP \<Rightarrow> Inr \<lparr>rec_updateLinks = ClXdp_updateLinks env ourNode prog,
          rec_processLinks = ClXdp_processLinks env,
          rec_getProgramLoadInfo = ClXdp_getProgramLoadInfo prog\<rparr>
      | ProgTypeOther _ \<Rightarrow> Inl ''unsupported bpf program type'')"

definition Cl_blankState :: "string \<Rightarrow> EBPFProgType \<Rightarrow> ClBpfApplicationProgramState" where
  "Cl_blankState name ty =
     \<lparr>Name = name, ProgramLinkStatus = ProgAttachPending, ProgramId = None, cs_Type = ty,
      cs_XDP = None, cs_TC = None, cs_TCX = None, cs_FEntry = None, cs_FExit = None, cs_KProbe = None,
      cs_KRetProbe = None, cs_UProbe = None, cs_URetProbe = None, cs_TracePoint = None\<rparr>"

text \<open>
  The body of the loop of \<^verbatim>\<open>initializeNodeProgramList\<close>; \<^verbatim>\<open>%#v\<close> prints a string type quoted.
\<close>

definition Cl_newProgState :: "ClBpfApplicationProgram \<Rightarrow> ClBpfApplicationProgramState result go" where
  "Cl_newProgState prog =
     (let progState = Cl_blankState (cp_Name prog) (cp_Type prog) in
      case cp_Type prog of
        ProgTypeFentry \<Rightarrow>
          do { info \<leftarrow> cp_FEntry prog;
               Some (Inr (progState\<lparr>cs_FEntry := Some \<lparr>Links = [], Function = Function info\<rparr>\<rparr>)) }
      | ProgTypeFexit \<Rightarrow>
          do { info \<leftarrow> cp_FExit prog;
               Some (Inr (progState\<lparr>cs_FExit := Some \<lparr>Links = [], Function = Function info\<rparr>\<rparr>)) }
      | ProgTypeKprobe \<Rightarrow> Some (Inr (progState\<lparr>cs_KProbe := Some \<lparr>Links = []\<rparr>\<rparr>))
      | ProgTypeKretprobe \<Rightarrow> Some (Inr (progState\<lparr>cs_KRetProbe := Some \<lparr>Links = []\<rparr>\<rparr>))
      | ProgTypeTC \<Rightarrow> Some (Inr (progState\<lparr>cs_TC := Some \<lparr>Links = []\<rparr>\<rparr>))
      | ProgTypeTCX \<Rightarrow> Some (Inr (progState\<lparr>cs_TCX := Some \<lparr>Links = []\<rparr>\<rparr>))
      | ProgTypeTracepoint \<Rightarrow> Some (Inr (progState\<lparr>cs_TracePoint := Some \<lparr>Links = []\<rparr>\<rparr>))
      | ProgTypeUprobe \<Rightarrow> Some (Inr (progState\<lparr>cs_UProbe := Some \<lparr>Links = []\<rparr>\<rparr>))
      | ProgTypeUretprobe \<Rightarrow> Some (Inr (progState\<lparr>cs_URetProbe := Some \<lparr>Links = []\<rparr>\<rparr>))
      | ProgTypeXDP \<Rightarrow> Some (Inr (progState\<lparr>cs_XDP := Some \<lparr>Links = []\<rparr>\<rparr>))
      | ProgTypeOther ty \<Rightarrow> Some (Inl (''unexpected EBPFProgType: '' @ CHR 0x22 # ty @ [CHR 0x22])))"

definition Cl_deleteLinks :: "ClBpfApplicationProgramState \<Rightarrow> ClBpfApplicationProgramState go" where
  "Cl_deleteLinks program =
     (case cs_Type program of
        ProgTypeFentry \<Rightarrow> do { i \<leftarrow> cs_FEntry program; Some (program\<lparr>cs_FEntry := Some (i\<lparr>Links := []\<rparr>)\<rparr>) }
      | ProgTypeFexit \<Rightarrow> do { i \<leftarrow> cs_FExit program; Some (program\<lparr>cs_FExit := Some (i\<lparr>Links := []\<rparr>)\<rparr>) }
      | ProgTypeKprobe \<Rightarrow> do { i \<leftarrow> cs_KProbe program; Some (program\<lparr>cs_KProbe := Some (i\<lparr>Links := []\<rparr>)\<rparr>) }
      | ProgTypeKretprobe \<Rightarrow> do { i \<leftarrow> cs_KRetProbe program; Some (program\<lparr>cs_KRetProbe := Some (i\<lparr>Links := []\<rparr>)\<rparr>) }
      | ProgTypeTC \<Rightarrow> do { i \<leftarrow> cs_TC program; Some (program\<lparr>cs_TC := Some (i\<lparr>Links := []\<rparr>)\<rparr>) }
      | ProgTypeTCX \<Rightarrow> do { i \<leftarrow> cs_TCX program; Some (program\<lparr>cs_TCX := Some (i\<lparr>Links := []\<rparr>)\<rparr>) }
      | ProgTypeTracepoint \<Rightarrow> do { i \<leftarrow> cs_TracePoint program; Some (program\<lparr>cs_TracePoint := Some (i\<lparr>Links := []\<rparr>)\<rparr>) }
      | ProgTypeUprobe \<Rightarrow> do { i \<leftarrow> cs_UProbe program; Some (program\<lparr>cs_UProbe := Some (i\<lparr>Links := []\<rparr>)\<rparr>) }
      | ProgTypeUretprobe \<Rightarrow> do { i \<leftarrow> cs_URetProbe program; Some (program\<lparr>cs_URetProbe := Some (i\<lparr>Links := []\<rparr>)\<rparr>) }
      | ProgTypeXDP \<Rightarrow> do { i \<leftarrow> cs_XDP program; Some (program\<lparr>cs_XDP := Some (i\<lparr>Links := []\<rparr>)\<rparr>) }
      | ProgTypeOther _ \<Rightarrow> Some program)"

definition ClBpfApplicationControllerFinalizer :: string where
  "ClBpfApplicationControllerFinalizer = ''bpfman.io.clbpfapplicationcontroller/finalizer''"

definition Cl_ops ::
    "('w, 'z) Env_scheme \<Rightarrow> NodeObject \<Rightarrow> (ClBpfApplicationProgram, ClBpfApplicationProgramState, 'w) AppOps" where
  "Cl_ops env ourNode =
     \<lparr>op_Name = cp_Name, op_getProgState = Cl_getProgState, op_newProgState = Cl_newProgState,
      op_deleteLinks = Cl_deleteLinks,
      op_reconcileProgram = (\<lambda>prog. recReconcileProgram (Cl_getProgramReconciler env ourNode prog)),
      op_getProgramLoadInfo = (\<lambda>prog. recLoadInfo (Cl_getProgramReconciler env ourNode prog)),
      op_Namespaced = False, op_finalizer = ClBpfApplicationControllerFinalizer\<rparr>"

definition Cl_Reconcile ::
    "('w, ClBpfApplicationProgram, ClBpfApplicationProgramState, 'z) KEnv_scheme \<Rightarrow> string \<Rightarrow> 'w rst \<Rightarrow>
     (ReconcileResult \<times> 'w rst) go" where
  "Cl_Reconcile env req s = Reconcile ''BpfApplicationPrograms'' env (Cl_ops env) req s"

end
