(* ===== verification/Cl_Contract.thy ===== *)
theory Cl_Contract
  imports App_Contract Cl_Application
begin

text \<open>The cluster-scoped application reconciler meets the contract of \<^verbatim>\<open>App_Contract\<close>.\<close>

text \<open>A program state is well formed when the struct of its type is there.\<close>

definition Cl_wf :: "ClBpfApplicationProgramState \<Rightarrow> bool" where
  "Cl_wf p =
     (case cs_Type p of
        ProgTypeXDP \<Rightarrow> cs_XDP p \<noteq> None | ProgTypeTC \<Rightarrow> cs_TC p \<noteq> None | ProgTypeTCX \<Rightarrow> cs_TCX p \<noteq> None
      | ProgTypeFentry \<Rightarrow> cs_FEntry p \<noteq> None | ProgTypeFexit \<Rightarrow> cs_FExit p \<noteq> None
      | ProgTypeKprobe \<Rightarrow> cs_KProbe p \<noteq> None | ProgTypeKretprobe \<Rightarrow> cs_KRetProbe p \<noteq> None
      | ProgTypeUprobe \<Rightarrow> cs_UProbe p \<noteq> None | ProgTypeUretprobe \<Rightarrow> cs_URetProbe p \<noteq> None
      | ProgTypeTracepoint \<Rightarrow> cs_TracePoint p \<noteq> None | ProgTypeOther _ \<Rightarrow> False)"

definition Cl_no_links :: "ClBpfApplicationProgramState \<Rightarrow> bool" where
  "Cl_no_links p =
     (case cs_Type p of
        ProgTypeXDP \<Rightarrow> specLinks (cs_XDP p) = [] | ProgTypeTC \<Rightarrow> specLinks (cs_TC p) = []
      | ProgTypeTCX \<Rightarrow> specLinks (cs_TCX p) = [] | ProgTypeFentry \<Rightarrow> specLinks (cs_FEntry p) = []
      | ProgTypeFexit \<Rightarrow> specLinks (cs_FExit p) = [] | ProgTypeKprobe \<Rightarrow> specLinks (cs_KProbe p) = []
      | ProgTypeKretprobe \<Rightarrow> specLinks (cs_KRetProbe p) = [] | ProgTypeUprobe \<Rightarrow> specLinks (cs_UProbe p) = []
      | ProgTypeUretprobe \<Rightarrow> specLinks (cs_URetProbe p) = []
      | ProgTypeTracepoint \<Rightarrow> specLinks (cs_TracePoint p) = [] | ProgTypeOther _ \<Rightarrow> True)"

lemma Cl_getProgStateFrom_found:
  "Cl_getProgStateFrom k q ps = Some (Inr i) \<Longrightarrow>
   k \<le> i \<and> i - k < length ps \<and> Name (ps ! (i - k)) = cp_Name q \<and> cs_Type (ps ! (i - k)) = cp_Type q"
proof (induction ps arbitrary: k)
  case (Cons p ps)
  have next_p: "Cl_getProgStateFrom (Suc k) q ps = Some (Inr i) \<Longrightarrow>
     k \<le> i \<and> i - k < length (p # ps) \<and> Name ((p # ps) ! (i - k)) = cp_Name q \<and>
     cs_Type ((p # ps) ! (i - k)) = cp_Type q"
    using Cons.IH [of "Suc k"] by (auto simp: nth_Cons' Suc_diff_Suc)
  show ?case
  proof (cases "cs_Type p = cp_Type q \<and> Name p = cp_Name q")
    case True
    with Cons.prems have "i = k \<or> Cl_getProgStateFrom (Suc k) q ps = Some (Inr i)"
      by (auto simp: bind_eq_Some_conv split: EBPFProgType.splits if_splits)
    with True next_p show ?thesis by auto
  next
    case False
    with Cons.prems next_p show ?thesis by auto
  qed
qed simp

lemma Cl_getProgStateFrom_absent:
  "\<forall>p\<in>set ps. Name p \<noteq> cp_Name q \<Longrightarrow>
   Cl_getProgStateFrom k q ps = Some (Inl ''BpfApplicationProgramState not found'')"
  by (induction ps arbitrary: k) auto

lemma Cl_getProgStateFrom_skip:
  "\<forall>p\<in>set ps. Name p \<noteq> cp_Name q \<Longrightarrow>
   Cl_getProgStateFrom k q (ps @ rest) = Cl_getProgStateFrom (k + length ps) q rest"
  by (induction ps arbitrary: k) auto

lemmas Cl_setLinks_defs = ClFentry_setLinks_def ClFexit_setLinks_def ClKprobe_setLinks_def
  ClKretprobe_setLinks_def ClTracepoint_setLinks_def ClUprobe_setLinks_def ClTc_setLinks_def
  ClTcx_setLinks_def ClXdp_setLinks_def

lemmas Cl_method_defs = ClFentry_updateLinks_def ClFexit_updateLinks_def ClKprobe_updateLinks_def
  ClKretprobe_updateLinks_def ClTracepoint_updateLinks_def ClUprobe_updateLinks_def ClTc_updateLinks_def
  ClTcx_updateLinks_def ClXdp_updateLinks_def ClFentry_processLinks_def ClFexit_processLinks_def
  ClKprobe_processLinks_def ClKretprobe_processLinks_def ClTracepoint_processLinks_def
  ClUprobe_processLinks_def ClTc_processLinks_def ClTcx_processLinks_def ClXdp_processLinks_def

definition Cl_shape :: "ClBpfApplicationProgramState \<Rightarrow> string \<times> uint32 option \<times> EBPFProgType \<times> bool" where
  "Cl_shape p = (Name p, ProgramId p, cs_Type p, Cl_wf p)"

lemma Cl_shape_status: "Cl_shape (p\<lparr>ProgramLinkStatus := st\<rparr>) = Cl_shape p"
  by (simp add: Cl_shape_def Cl_wf_def split: EBPFProgType.split)

lemma Cl_shape_setLinks:
  "Cl_shape (ClFentry_setLinks a p) = Cl_shape p" "Cl_shape (ClFexit_setLinks b p) = Cl_shape p"
  "Cl_shape (ClKprobe_setLinks c p) = Cl_shape p" "Cl_shape (ClKretprobe_setLinks d p) = Cl_shape p"
  "Cl_shape (ClTracepoint_setLinks e p) = Cl_shape p" "Cl_shape (ClUprobe_setLinks f p) = Cl_shape p"
  "Cl_shape (ClTc_setLinks g p) = Cl_shape p" "Cl_shape (ClTcx_setLinks h p) = Cl_shape p"
  "Cl_shape (ClXdp_setLinks j p) = Cl_shape p"
  by (simp_all add: Cl_shape_def Cl_wf_def Cl_setLinks_defs split: EBPFProgType.split)

lemma Cl_reconcile_shape:
  assumes "recReconcileProgram (Cl_getProgramReconciler env node q) b p s = Some (Inr (r, p'), s')"
  shows "Cl_shape p' = Cl_shape p"
  using assms unfolding recReconcileProgram_def Cl_getProgramReconciler_def Cl_method_defs
  by (cases "cp_Type q")
    (auto simp: bind_eq_Some_conv Cl_shape_setLinks Cl_shape_status
      dest!: reconcileProgram_keeps [where P = "\<lambda>x. Cl_shape x = Cl_shape p", rotated 2])

lemma Cl_newProgState_spec:
  assumes "Cl_newProgState q = Some (Inr p)"
  shows "Name p = cp_Name q \<and> ProgramId p = None \<and> ProgramLinkStatus p = ProgAttachPending \<and>
         cs_Type p = cp_Type q \<and> Cl_wf p \<and> Cl_no_links p"
    and "Cl_getProgStateFrom k q (p # rest) = Some (Inr k)"
  using assms
  by (cases "cp_Type q"; auto simp: Cl_newProgState_def Cl_blankState_def Cl_wf_def Cl_no_links_def
      specLinks_def bind_eq_Some_conv Let_def)+

lemma Cl_deleteLinks_spec:
  assumes "Cl_wf p"
  shows "\<exists>p'. Cl_deleteLinks p = Some p' \<and> Cl_no_links p' \<and> Cl_wf p' \<and> Name p' = Name p \<and> ProgramId p' = ProgramId p"
  using assms
  by (cases "cs_Type p") (auto simp: Cl_deleteLinks_def Cl_wf_def Cl_no_links_def specLinks_def)

interpretation clApp: app_ops "Cl_ops env ourNode" Cl_wf Cl_no_links
  for env :: "('w, 'z) Env_scheme" and ourNode
proof (unfold_locales, goal_cases)
  case (1 q ps i)
  then show ?case using Cl_getProgStateFrom_found [of 0 q ps i] by (simp add: Cl_ops_def Cl_getProgState_def)
next
  case (2 ps q)
  then show ?case by (simp add: Cl_ops_def Cl_getProgState_def Cl_getProgStateFrom_absent)
next
  case (3 q p)
  then show ?case using Cl_newProgState_spec(1) [of q p] by (simp add: Cl_ops_def)
next
  case (4 q p ps rest)
  then show ?case
    using Cl_newProgState_spec(2) [of q p] by (simp add: Cl_ops_def Cl_getProgState_def Cl_getProgStateFrom_skip)
next
  case (5 p)
  then show ?case using Cl_deleteLinks_spec [of p] by (simp add: Cl_ops_def)
next
  case (9 q b p s r p' s')
  then show ?case using Cl_reconcile_shape [of env ourNode q b p s r p' s'] by (simp add: Cl_ops_def Cl_shape_def)
qed (simp_all add: Cl_wf_def Cl_no_links_def split: EBPFProgType.split)

end
