(* ===== verification/Ns_Application.thy ===== *)
theory Ns_Application
  imports App_Contract
begin

text \<open>
  What is particular to \<^verbatim>\<open>ns_application_program.go\<close>, and the interpretation of the contract of
  \<^verbatim>\<open>App_Contract\<close> for it. \<^verbatim>\<open>getProgramReconciler\<close> never sets the field \<^verbatim>\<open>namespace\<close> of the
  reconcilers it builds, so they all work with the empty namespace (\<open>unsetNamespace\<close>).
\<close>

section \<open>Definitions\<close>

definition Ns_getProgState ::
    "BpfApplicationProgram \<Rightarrow> BpfApplicationProgramState list \<Rightarrow> nat result go" where
  "Ns_getProgState prog programs =
     (case find_index (\<lambda>progState. ns_Type progState = np_Type prog \<and> Name progState = np_Name prog) programs of
        Some i \<Rightarrow> Some (Inr i)
      | None \<Rightarrow> Some (Inl ''BpfNsApplicationProgramState not found''))"

definition unsetNamespace :: string where
  "unsetNamespace = ''''"

definition Ns_getProgramReconciler ::
    "('w, 'z) Env_scheme \<Rightarrow> NodeObject \<Rightarrow> BpfApplicationProgram \<Rightarrow>
     (BpfApplicationProgramState, 'w) ProgramRec result" where
  "Ns_getProgramReconciler env ourNode prog =
     (let uprobe = Inr \<lparr>rec_updateLinks = NsUprobe_updateLinks env unsetNamespace prog,
                        rec_processLinks = NsUprobe_processLinks env,
                        rec_getProgramLoadInfo = NsUprobe_getProgramLoadInfo prog\<rparr> in
      case np_Type prog of
        ProgTypeUprobe \<Rightarrow> uprobe
      | ProgTypeUretprobe \<Rightarrow> uprobe
      | ProgTypeTC \<Rightarrow> Inr \<lparr>rec_updateLinks = NsTc_updateLinks env unsetNamespace ourNode prog,
          rec_processLinks = NsTc_processLinks env,
          rec_getProgramLoadInfo = NsTc_getProgramLoadInfo prog\<rparr>
      | ProgTypeTCX \<Rightarrow> Inr \<lparr>rec_updateLinks = NsTcx_updateLinks env unsetNamespace ourNode prog,
          rec_processLinks = NsTcx_processLinks env,
          rec_getProgramLoadInfo = NsTcx_getProgramLoadInfo prog\<rparr>
      | ProgTypeXDP \<Rightarrow> Inr \<lparr>rec_updateLinks = NsXdp_updateLinks env unsetNamespace ourNode prog,
          rec_processLinks = NsXdp_processLinks env,
          rec_getProgramLoadInfo = NsXdp_getProgramLoadInfo prog\<rparr>
      | _ \<Rightarrow> Inl ''unsupported bpf program type'')"

definition Ns_blankState :: "string \<Rightarrow> EBPFProgType \<Rightarrow> BpfApplicationProgramState" where
  "Ns_blankState name ty =
     \<lparr>Name = name, ProgramLinkStatus = ProgAttachPending, ProgramId = None, ns_Type = ty,
      ns_XDP = None, ns_TC = None, ns_TCX = None, ns_UProbe = None, ns_URetProbe = None\<rparr>"

text \<open>The body of the loop of \<^verbatim>\<open>initializeNodeProgramList\<close>: an unknown type panics.\<close>

definition Ns_newProgState :: "BpfApplicationProgram \<Rightarrow> BpfApplicationProgramState result go" where
  "Ns_newProgState prog =
     (let progState = Ns_blankState (np_Name prog) (np_Type prog) in
      case np_Type prog of
        ProgTypeTC \<Rightarrow> Some (Inr (progState\<lparr>ns_TC := Some \<lparr>Links = []\<rparr>\<rparr>))
      | ProgTypeTCX \<Rightarrow> Some (Inr (progState\<lparr>ns_TCX := Some \<lparr>Links = []\<rparr>\<rparr>))
      | ProgTypeUprobe \<Rightarrow> Some (Inr (progState\<lparr>ns_UProbe := Some \<lparr>Links = []\<rparr>\<rparr>))
      | ProgTypeUretprobe \<Rightarrow> Some (Inr (progState\<lparr>ns_URetProbe := Some \<lparr>Links = []\<rparr>\<rparr>))
      | ProgTypeXDP \<Rightarrow> Some (Inr (progState\<lparr>ns_XDP := Some \<lparr>Links = []\<rparr>\<rparr>))
      | _ \<Rightarrow> panic)"

definition Ns_deleteLinks :: "BpfApplicationProgramState \<Rightarrow> BpfApplicationProgramState go" where
  "Ns_deleteLinks program =
     (case ns_Type program of
        ProgTypeTC \<Rightarrow> do { i \<leftarrow> ns_TC program; Some (program\<lparr>ns_TC := Some (i\<lparr>Links := []\<rparr>)\<rparr>) }
      | ProgTypeTCX \<Rightarrow> do { i \<leftarrow> ns_TCX program; Some (program\<lparr>ns_TCX := Some (i\<lparr>Links := []\<rparr>)\<rparr>) }
      | ProgTypeUprobe \<Rightarrow> do { i \<leftarrow> ns_UProbe program; Some (program\<lparr>ns_UProbe := Some (i\<lparr>Links := []\<rparr>)\<rparr>) }
      | ProgTypeUretprobe \<Rightarrow> do { i \<leftarrow> ns_URetProbe program; Some (program\<lparr>ns_URetProbe := Some (i\<lparr>Links := []\<rparr>)\<rparr>) }
      | ProgTypeXDP \<Rightarrow> do { i \<leftarrow> ns_XDP program; Some (program\<lparr>ns_XDP := Some (i\<lparr>Links := []\<rparr>)\<rparr>) }
      | _ \<Rightarrow> Some program)"

definition NsBpfApplicationControllerFinalizer :: string where
  "NsBpfApplicationControllerFinalizer = ''bpfman.io.nsbpfapplicationcontroller/finalizer''"

definition Ns_ops ::
    "('w, 'z) Env_scheme \<Rightarrow> NodeObject \<Rightarrow> (BpfApplicationProgram, BpfApplicationProgramState, 'w) AppOps" where
  "Ns_ops env ourNode =
     \<lparr>op_Name = np_Name, op_getProgState = Ns_getProgState, op_newProgState = Ns_newProgState,
      op_deleteLinks = Ns_deleteLinks,
      op_reconcileProgram = (\<lambda>prog. recReconcileProgram (Ns_getProgramReconciler env ourNode prog)),
      op_getProgramLoadInfo = (\<lambda>prog. recLoadInfo (Ns_getProgramReconciler env ourNode prog)),
      op_Namespaced = True, op_finalizer = NsBpfApplicationControllerFinalizer\<rparr>"

definition Ns_Reconcile ::
    "('w, BpfApplicationProgram, BpfApplicationProgramState, 'z) KEnv_scheme \<Rightarrow> string \<Rightarrow> 'w rst \<Rightarrow>
     (ReconcileResult \<times> 'w rst) go" where
  "Ns_Reconcile env req s = Reconcile ''BpfNsApplicationPrograms'' env (Ns_ops env) req s"

section \<open>The contract\<close>

definition Ns_wf :: "BpfApplicationProgramState \<Rightarrow> bool" where
  "Ns_wf p =
     (case ns_Type p of
        ProgTypeXDP \<Rightarrow> ns_XDP p \<noteq> None | ProgTypeTC \<Rightarrow> ns_TC p \<noteq> None | ProgTypeTCX \<Rightarrow> ns_TCX p \<noteq> None
      | ProgTypeUprobe \<Rightarrow> ns_UProbe p \<noteq> None | ProgTypeUretprobe \<Rightarrow> ns_URetProbe p \<noteq> None
      | _ \<Rightarrow> False)"

definition Ns_no_links :: "BpfApplicationProgramState \<Rightarrow> bool" where
  "Ns_no_links p =
     (case ns_Type p of
        ProgTypeXDP \<Rightarrow> specLinks (ns_XDP p) = [] | ProgTypeTC \<Rightarrow> specLinks (ns_TC p) = []
      | ProgTypeTCX \<Rightarrow> specLinks (ns_TCX p) = [] | ProgTypeUprobe \<Rightarrow> specLinks (ns_UProbe p) = []
      | ProgTypeUretprobe \<Rightarrow> specLinks (ns_URetProbe p) = [] | _ \<Rightarrow> True)"

lemmas Ns_setLinks_defs = NsUprobe_setLinks_def NsTc_setLinks_def NsTcx_setLinks_def NsXdp_setLinks_def

lemmas Ns_method_defs = NsUprobe_updateLinks_def NsTc_updateLinks_def NsTcx_updateLinks_def
  NsXdp_updateLinks_def NsUprobe_processLinks_def NsTc_processLinks_def NsTcx_processLinks_def
  NsXdp_processLinks_def

definition Ns_shape :: "BpfApplicationProgramState \<Rightarrow> string \<times> uint32 option \<times> EBPFProgType \<times> bool" where
  "Ns_shape p = (Name p, ProgramId p, ns_Type p, Ns_wf p)"

lemma Ns_shape_status: "Ns_shape (p\<lparr>ProgramLinkStatus := st\<rparr>) = Ns_shape p"
  by (simp add: Ns_shape_def Ns_wf_def split: EBPFProgType.split)

lemma Ns_shape_setLinks:
  "Ns_shape (NsUprobe_setLinks a p) = Ns_shape p" "Ns_shape (NsTc_setLinks b p) = Ns_shape p"
  "Ns_shape (NsTcx_setLinks c p) = Ns_shape p" "Ns_shape (NsXdp_setLinks d p) = Ns_shape p"
  by (simp_all add: Ns_shape_def Ns_wf_def Ns_setLinks_defs split: EBPFProgType.split)

lemma Ns_reconcile_shape:
  assumes "recReconcileProgram (Ns_getProgramReconciler env node q) b p s = Some (Inr (r, p'), s')"
  shows "Ns_shape p' = Ns_shape p"
  using assms unfolding recReconcileProgram_def Ns_getProgramReconciler_def Ns_method_defs Let_def
  by (cases "np_Type q")
    (auto simp: bind_eq_Some_conv Ns_shape_setLinks Ns_shape_status
      dest!: reconcileProgram_keeps [where P = "\<lambda>x. Ns_shape x = Ns_shape p", rotated 2])

lemma Ns_newProgState_spec:
  assumes "Ns_newProgState q = Some (Inr p)"
  shows "Name p = np_Name q \<and> ProgramId p = None \<and> ProgramLinkStatus p = ProgAttachPending \<and>
         ns_Type p = np_Type q \<and> Ns_wf p \<and> Ns_no_links p"
  using assms
  by (cases "np_Type q") (auto simp: Ns_newProgState_def Ns_blankState_def Ns_wf_def Ns_no_links_def
      specLinks_def Let_def)

lemma Ns_deleteLinks_spec:
  assumes "Ns_wf p"
  shows "\<exists>p'. Ns_deleteLinks p = Some p' \<and> Ns_no_links p' \<and> Ns_wf p' \<and> Name p' = Name p \<and> ProgramId p' = ProgramId p"
  using assms
  by (cases "ns_Type p") (auto simp: Ns_deleteLinks_def Ns_wf_def Ns_no_links_def specLinks_def)

lemma find_index_from_skip:
  "\<forall>x\<in>set xs. \<not> P x \<Longrightarrow> P y \<Longrightarrow> find_index_from k P (xs @ y # ys) = Some (k + length xs)"
  by (induction xs arbitrary: k) auto

interpretation nsApp: app_ops "Ns_ops env ourNode" Ns_wf Ns_no_links
  for env :: "('w, 'z) Env_scheme" and ourNode
proof (unfold_locales, goal_cases)
  case (1 q ps i)
  then show ?case
    by (auto simp: Ns_ops_def Ns_getProgState_def split: option.splits dest: find_index_SomeD)
next
  case (2 ps q)
  then have "find_index (\<lambda>p. ns_Type p = np_Type q \<and> Name p = np_Name q) ps = None"
    by (auto simp: find_index_from_None_iff Ns_ops_def)
  then show ?case by (simp add: Ns_ops_def Ns_getProgState_def)
next
  case (3 q p)
  then show ?case using Ns_newProgState_spec [of q p] by (simp add: Ns_ops_def)
next
  case (4 q p ps rest)
  then have "find_index (\<lambda>p. ns_Type p = np_Type q \<and> Name p = np_Name q) (ps @ p # rest) = Some (length ps)"
    using Ns_newProgState_spec [of q p] find_index_from_skip [of ps _ p 0 rest] by (auto simp: Ns_ops_def)
  then show ?case by (simp add: Ns_ops_def Ns_getProgState_def)
next
  case (5 p)
  then show ?case using Ns_deleteLinks_spec [of p] by (simp add: Ns_ops_def)
next
  case (9 q b p s r p' s')
  then show ?case using Ns_reconcile_shape [of env ourNode q b p s r p' s'] by (simp add: Ns_ops_def Ns_shape_def)
qed (simp_all add: Ns_wf_def Ns_no_links_def split: EBPFProgType.split)

end
