(* ===== verification/Program_Properties.thy ===== *)
theory Program_Properties
  imports Cl_Contract Ns_Application Fake_Env
begin

text \<open>
  What the reconcilers of the program types achieve, stated over the code of the types and the
  dispatch of the application reconcilers: the facts of the interpretations of \<open>program_type\<close>,
  written out, with witnesses in the environment of \<^verbatim>\<open>Fake_Env\<close>.
\<close>

section \<open>The dispatch\<close>

text \<open>\<^verbatim>\<open>getProgramReconciler\<close> followed by \<^verbatim>\<open>reconcileProgram\<close>, as the applications run them.\<close>

definition Cl_reconcileProgram ::
    "('w, 'z) Env_scheme \<Rightarrow> NodeObject \<Rightarrow> ClBpfApplicationProgram \<Rightarrow> bool \<Rightarrow> ClBpfApplicationProgramState \<Rightarrow>
     'w rst \<Rightarrow> (((unit result \<times> ClBpfApplicationProgramState) result) \<times> 'w rst) go" where
  "Cl_reconcileProgram env ourNode prog = recReconcileProgram (Cl_getProgramReconciler env ourNode prog)"

definition Ns_reconcileProgram ::
    "('w, 'z) Env_scheme \<Rightarrow> NodeObject \<Rightarrow> BpfApplicationProgram \<Rightarrow> bool \<Rightarrow> BpfApplicationProgramState \<Rightarrow>
     'w rst \<Rightarrow> (((unit result \<times> BpfApplicationProgramState) result) \<times> 'w rst) go" where
  "Ns_reconcileProgram env ourNode prog = recReconcileProgram (Ns_getProgramReconciler env ourNode prog)"

lemma recReconcileProgram_Inr:
  "recReconcileProgram (Inr rec) b ps s =
     map_option (\<lambda>(q, s). (Inr q, s)) (reconcileProgram (rec_updateLinks rec) (rec_processLinks rec) b ps s)"
  by (cases "reconcileProgram (rec_updateLinks rec) (rec_processLinks rec) b ps s")
    (auto simp: recReconcileProgram_def)

lemmas Cl_dispatch = Cl_reconcileProgram_def Cl_getProgramReconciler_def recReconcileProgram_Inr Cl_method_defs
lemmas Ns_dispatch = Ns_reconcileProgram_def Ns_getProgramReconciler_def recReconcileProgram_Inr Ns_method_defs Let_def

lemma Cl_tc_run:
  "cp_Type prog = ProgTypeTC \<Longrightarrow> Cl_reconcileProgram env ourNode prog b ps s = Some (Inr q, s') \<Longrightarrow>
   reconcileProgram
     (progUpdateLinks ClTc_getLinks ClTc_setLinks (ClTc_getExpectedLinks env ourNode) (ClTc_findLink env)
        (specLinks (cp_TC prog)))
     (progProcessLinks env ClTc_getLinks ClTc_setLinks ClTc_getAttachRequest) b ps s = Some (q, s')"
  by (auto simp: Cl_dispatch)

lemma Cl_xdp_run:
  "cp_Type prog = ProgTypeXDP \<Longrightarrow> Cl_reconcileProgram env ourNode prog b ps s = Some (Inr q, s') \<Longrightarrow>
   reconcileProgram
     (progUpdateLinks ClXdp_getLinks ClXdp_setLinks (ClXdp_getExpectedLinks env ourNode) (ClXdp_findLink env)
        (specLinks (cp_XDP prog)))
     (progProcessLinks env ClXdp_getLinks ClXdp_setLinks ClXdp_getAttachRequest) b ps s = Some (q, s')"
  by (auto simp: Cl_dispatch)

lemma Cl_tracepoint_run:
  "cp_Type prog = ProgTypeTracepoint \<Longrightarrow> Cl_reconcileProgram env ourNode prog b ps s = Some (Inr q, s') \<Longrightarrow>
   reconcileProgram
     (progUpdateLinks ClTracepoint_getLinks ClTracepoint_setLinks (ClTracepoint_getExpectedLinks env)
        ClTracepoint_findLink (specLinks (cp_TracePoint prog)))
     (progProcessLinks env ClTracepoint_getLinks ClTracepoint_setLinks ClTracepoint_getAttachRequest) b ps s =
   Some (q, s')"
  by (auto simp: Cl_dispatch)

lemma Ns_uprobe_run:
  "np_Type prog = ProgTypeUprobe \<Longrightarrow> Ns_reconcileProgram env ourNode prog b ps s = Some (Inr q, s') \<Longrightarrow>
   reconcileProgram
     (progUpdateLinks NsUprobe_getAppStateLinks NsUprobe_setLinks (NsUprobe_getExpectedLinks env '''')
        NsUprobe_findLink (specLinks (np_UProbe prog)))
     (progProcessLinks env NsUprobe_getAppStateLinks NsUprobe_setLinks NsUprobe_getAttachRequest) b ps s =
   Some (q, s')"
  by (auto simp: Ns_dispatch unsetNamespace_def NsUprobe_getAppLinks_def)

section \<open>Runs that always expect one link per attach point\<close>

lemma newLink_run:
  assumes g: "\<And>a s. g a s = newLink env (mk a) s"
  shows "list_all2 (\<lambda>a et. \<exists>u. fst et = mk a u) as (expectedRun g f as ls s) \<and>
         fst (fst (addAttachInfos g f as ls s)) = Inr ()"
proof (induction as arbitrary: ls s)
  case (Cons a as)
  obtain u t where l: "lift_world (uuid_New env) s = (u, t)" by fastforce
  obtain ls2 s2 where f: "addExpectedLinks f [mk a u] ls t = (ls2, s2)" by fastforce
  have "g a s = (Inr [mk a u], t)" by (simp add: g newLink_def l)
  with f Cons.IH [of ls2 s2] show ?case by auto
qed simp

lemma newLink_update:
  assumes g: "\<And>a s. g a s = newLink env (mk a) s"
  shows "fst (fst (updateLinks g f as b ls s)) = Inr ()"
  using newLink_run [of g env mk, OF g] by (simp add: updateLinks_def Let_def)

section \<open>Concrete inputs\<close>

definition wStart :: "(ClBpfApplicationProgram, ClBpfApplicationProgramState) fw" where
  "wStart = \<lparr>fw_links = [], fw_issued = 0, fw_uuid = 0, fw_containers = [], fw_apps = [], fw_states = []\<rparr>"

definition sStart :: "(ClBpfApplicationProgram, ClBpfApplicationProgramState) fw rst" where
  "sStart = \<lparr>world = wStart, netns_cache = []\<rparr>"

text \<open>One link attached by program 7.\<close>

definition sOneLink :: "(ClBpfApplicationProgram, ClBpfApplicationProgramState) fw rst" where
  "sOneLink = \<lparr>world = wStart\<lparr>fw_links := [(7, [0])], fw_issued := 1, fw_uuid := 1\<rparr>, netns_cache = [(hostNetNs, 19)]\<rparr>"

definition tcSpec :: ClTcAttachInfo where
  "tcSpec = \<lparr>na_InterfaceSelector = \<lparr>InterfacesDiscoveryConfig = None, Interfaces = [''eth0''], PrimaryNodeInterface = None\<rparr>,
     na_NetworkNamespaces = None, na_Priority = Some 50, tca_Direction = TCIngress, tca_ProceedOn = Some [''OK'']\<rparr>"

definition blankProg :: "string \<Rightarrow> EBPFProgType \<Rightarrow> ClBpfApplicationProgram" where
  "blankProg name ty = \<lparr>cp_Name = name, cp_Type = ty, cp_XDP = None, cp_TC = None, cp_TCX = None,
     cp_FEntry = None, cp_FExit = None, cp_KProbe = None, cp_KRetProbe = None, cp_UProbe = None,
     cp_URetProbe = None, cp_TracePoint = None\<rparr>"

definition tcProg :: ClBpfApplicationProgram where
  "tcProg = (blankProg ''tc_pass'' ProgTypeTC)\<lparr>cp_TC := Some \<lparr>Links = [tcSpec]\<rparr>\<rparr>"

definition tcState :: ClBpfApplicationProgramState where
  "tcState = (Cl_blankState ''tc_pass'' ProgTypeTC)\<lparr>ProgramId := Some 7, cs_TC := Some \<lparr>Links = []\<rparr>\<rparr>"

definition tcLink :: ClTcAttachInfoState where
  "tcLink = mkTcLink tcSpec (''eth0'', '''') (show_nat 0)"

definition tcState1 :: ClBpfApplicationProgramState where
  "tcState1 = tcState\<lparr>ProgramLinkStatus := ProgAttachSuccess,
     cs_TC := Some \<lparr>Links = [tcLink\<lparr>LinkId := Some 0, LinkStatus := ApAttachAttached\<rparr>]\<rparr>\<rparr>"

lemmas eval_defs = wStart_def sStart_def sOneLink_def fakeEnv_def fakeNode_def fakeGet_def fakeAttach_def fakeDetach_def
  fakeUuid_def linksOf_def lift_world_def GetNetNsId_def hostNetNs_def netFindLink_def

lemmas link_eval = reconcileProgram_def progUpdateLinks_def progProcessLinks_def updateLinks_def
  clearShouldAttach_def specLinks_def processLinks_def reconcileBpfLink_def isAttached_def doesLinkExist_def
  AttachBpfmanProgram_def DetachBpfmanProgram_def GetBpfmanProgramById_def isAttachSuccess_def removeLinks_def

lemmas tc_eval = tcProg_def tcState_def tcState1_def tcSpec_def tcLink_def blankProg_def Cl_blankState_def
  ClTc_getLinks_def ClTc_setLinks_def ClTc_getExpectedLinks_def linksAt_def clNetPoints_def getInterfaces_def
  isInterfacesDiscoveryEnabled_def mkTcLink_def ClTc_findLink_def ClTc_getAttachRequest_def

lemma tc_first_run:
  "Cl_reconcileProgram fakeEnv fakeNode tcProg False tcState sStart = Some (Inr (Inr (), tcState1), sOneLink)"
  by (simp add: Cl_dispatch eval_defs link_eval tc_eval)

lemma tc_first_expected:
  "expectedRun (ClTc_getExpectedLinks fakeEnv fakeNode) (ClTc_findLink fakeEnv) (specLinks (cp_TC tcProg)) [] sStart =
     [(tcLink, sStart\<lparr>world := wStart\<lparr>fw_uuid := 1\<rparr>\<rparr>)]"
  by (simp add: eval_defs tc_eval specLinks_def)

section \<open>Success means attached\<close>



section \<open>No leak, no duplicates, no leftovers\<close>


lemma tc_second_run:
  "Cl_reconcileProgram fakeEnv fakeNode tcProg False tcState1 sOneLink =
     Some (Inr (Inr (), tcState1), sOneLink\<lparr>world := (world sOneLink)\<lparr>fw_uuid := 2\<rparr>\<rparr>)"
  by (simp add: Cl_dispatch eval_defs link_eval tc_eval tcSameFields_def)


text \<open>
  C30: no attach point is listed twice. If no two links of a cluster XDP program agree in interface,
  priority, proceed-on values and namespace path, no two do after a reconcile.
\<close>

theorem Cl_xdp_unique:
  assumes "cp_Type prog = ProgTypeXDP" and "ClXdp_getLinks ps = Some ls"
    and "Cl_reconcileProgram env ourNode prog b ps s = Some (Inr (Inr (), ps'), s')"
    and "unique_links (\<lambda>a c. xdpSameFields a c \<and> NetnsPath a = NetnsPath c) ls"
  shows "\<exists>ls'. ClXdp_getLinks ps' = Some ls' \<and>
               unique_links (\<lambda>a c. xdpSameFields a c \<and> NetnsPath a = NetnsPath c) ls'"
  by (rule clXdp.reconcile_unique [OF TrueI assms(2) Cl_xdp_run [OF assms(1,3)] assms(4)])

definition xdpSpec :: ClXdpAttachInfo where
  "xdpSpec = \<lparr>na_InterfaceSelector = \<lparr>InterfacesDiscoveryConfig = None, Interfaces = [''eth0'', ''eth0''],
       PrimaryNodeInterface = None\<rparr>,
     na_NetworkNamespaces = None, na_Priority = None, xdpa_ProceedOn = None\<rparr>"

definition xdpProg :: ClBpfApplicationProgram where
  "xdpProg = (blankProg ''xdp_pass'' ProgTypeXDP)\<lparr>cp_XDP := Some \<lparr>Links = [xdpSpec]\<rparr>\<rparr>"

definition xdpState :: ClBpfApplicationProgramState where
  "xdpState = (Cl_blankState ''xdp_pass'' ProgTypeXDP)\<lparr>ProgramId := Some 7, cs_XDP := Some \<lparr>Links = []\<rparr>\<rparr>"

definition xdpState1 :: ClBpfApplicationProgramState where
  "xdpState1 = xdpState\<lparr>ProgramLinkStatus := ProgAttachSuccess,
     cs_XDP := Some \<lparr>Links = [(mkXdpLink xdpSpec (''eth0'', '''') (show_nat 0))\<lparr>LinkId := Some 0, LinkStatus := ApAttachAttached\<rparr>]\<rparr>\<rparr>"

lemma xdp_first_run:
  "Cl_reconcileProgram fakeEnv fakeNode xdpProg False xdpState sStart =
     Some (Inr (Inr (), xdpState1), sOneLink\<lparr>world := (world sOneLink)\<lparr>fw_uuid := 2\<rparr>\<rparr>)"
  by (simp add: Cl_dispatch eval_defs link_eval xdpProg_def xdpState_def xdpState1_def xdpSpec_def blankProg_def
      Cl_blankState_def ClXdp_getLinks_def ClXdp_setLinks_def ClXdp_getExpectedLinks_def linksAt_def
      clNetPoints_def getInterfaces_def isInterfacesDiscoveryEnabled_def mkXdpLink_def ClXdp_findLink_def
      ClXdp_getAttachRequest_def xdpSameFields_def numeral_2_eq_2)

lemma Cl_xdp_unique_witness:
  "\<exists>ls'. ClXdp_getLinks xdpState1 = Some ls' \<and>
         unique_links (\<lambda>a c. xdpSameFields a c \<and> NetnsPath a = NetnsPath c) ls'"
proof (rule Cl_xdp_unique [OF _ _ xdp_first_run])
  show "cp_Type xdpProg = ProgTypeXDP" "ClXdp_getLinks xdpState = Some []"
    by (simp_all add: xdpProg_def blankProg_def xdpState_def ClXdp_getLinks_def)
qed (simp add: unique_links_def)

text \<open>
  Deleting a cluster tracepoint program leaves on its list only links that could not be detached,
  each marked with the detach error, and the program counts as done exactly when none is left.
\<close>

theorem Cl_tracepoint_deleted:
  assumes "cp_Type prog = ProgTypeTracepoint" and "ClTracepoint_getLinks ps = Some ls"
    and "Cl_reconcileProgram env ourNode prog True ps s = Some (Inr (Inr (), ps'), s')"
  shows "\<exists>ls'. ClTracepoint_getLinks ps' = Some ls' \<and>
           (\<forall>l\<in>set ls'. \<not> ShouldAttach l \<and> LinkStatus l = ApDetachError) \<and>
           (ProgramLinkStatus ps' = ProgAttachSuccess \<longleftrightarrow> ls' = [])"
  by (rule clTracepoint.reconcile_deleted [OF TrueI assms(2) Cl_tracepoint_run [OF assms(1,3)]])

definition tpState :: ClBpfApplicationProgramState where
  "tpState = (Cl_blankState ''tp'' ProgTypeTracepoint)\<lparr>ProgramId := Some 7, cs_TracePoint := Some
     \<lparr>Links = [\<lparr>ShouldAttach = True, UUID = ''u'', LinkId = Some 0, LinkStatus = ApAttachAttached, tp_Name = ''x''\<rparr>]\<rparr>\<rparr>"

lemma tp_delete_run:
  "Cl_reconcileProgram fakeEnv fakeNode (blankProg ''tp'' ProgTypeTracepoint) True tpState sOneLink =
     Some (Inr (Inr (), tpState\<lparr>ProgramLinkStatus := ProgAttachSuccess, cs_TracePoint := Some \<lparr>Links = []\<rparr>\<rparr>),
       sOneLink\<lparr>world := (world sOneLink)\<lparr>fw_links := [(7, [])]\<rparr>\<rparr>)"
  by (simp add: Cl_dispatch eval_defs link_eval tpState_def blankProg_def Cl_blankState_def
      ClTracepoint_getLinks_def ClTracepoint_setLinks_def ClTracepoint_getAttachRequest_def)

lemma Cl_tracepoint_deleted_witness:
  "\<exists>ls'. ClTracepoint_getLinks (tpState\<lparr>ProgramLinkStatus := ProgAttachSuccess, cs_TracePoint := Some \<lparr>Links = []\<rparr>\<rparr>) = Some ls' \<and>
     list_all (\<lambda>l. \<not> ShouldAttach l \<and> LinkStatus l = ApDetachError) ls'"
proof -
  have "cp_Type (blankProg ''tp'' ProgTypeTracepoint) = ProgTypeTracepoint"
    "\<exists>ls. ClTracepoint_getLinks tpState = Some ls"
    by (simp_all add: blankProg_def tpState_def ClTracepoint_getLinks_def)
  then show ?thesis using Cl_tracepoint_deleted [OF _ _ tp_delete_run] unfolding list_all_iff by blast
qed

section \<open>Panics\<close>

text \<open>
  A cluster program that is loaded never panics: for every program type, if the state has the type
  of the program, the struct of that type is there, the program has an id, and the daemon answers as
  its contract says, then the reconcile of the program returns.
\<close>

lemma Cl_program_no_panic:
  assumes "Cl_wf ps" and "cs_Type ps = cp_Type prog" and "ProgramId ps = Some p"
    and "daemon_contract env live issued"
  shows "Cl_reconcileProgram env ourNode prog b ps s \<noteq> None"
proof (cases "cp_Type prog")
  case ProgTypeXDP
  with assms obtain ls where "ClXdp_getLinks ps = Some ls" by (auto simp: Cl_wf_def ClXdp_getLinks_def)
  from clXdp.reconcile_no_panic [OF TrueI this assms(3,4)] ProgTypeXDP show ?thesis by (simp add: Cl_dispatch)
next
  case ProgTypeTC
  with assms obtain ls where "ClTc_getLinks ps = Some ls" by (auto simp: Cl_wf_def ClTc_getLinks_def)
  from clTc.reconcile_no_panic [OF TrueI this assms(3,4)] ProgTypeTC show ?thesis by (simp add: Cl_dispatch)
next
  case ProgTypeTCX
  with assms obtain ls where "ClTcx_getLinks ps = Some ls" by (auto simp: Cl_wf_def ClTcx_getLinks_def)
  from clTcx.reconcile_no_panic [OF TrueI this assms(3,4)] ProgTypeTCX show ?thesis by (simp add: Cl_dispatch)
next
  case ProgTypeFentry
  with assms obtain ls where "ClFentry_getLinks ps = Some ls" by (auto simp: Cl_wf_def ClFentry_getLinks_def)
  from clFentry.reconcile_no_panic [OF TrueI this assms(3,4)] ProgTypeFentry show ?thesis by (simp add: Cl_dispatch)
next
  case ProgTypeFexit
  with assms obtain ls where "ClFexit_getLinks ps = Some ls" by (auto simp: Cl_wf_def ClFexit_getLinks_def)
  from clFexit.reconcile_no_panic [OF TrueI this assms(3,4)] ProgTypeFexit show ?thesis by (simp add: Cl_dispatch)
next
  case ProgTypeKprobe
  with assms obtain ls where o: "cs_Type ps = ProgTypeKprobe" "ClKprobe_getAppStateLinks ps = Some ls"
    by (auto simp: Cl_wf_def ClKprobe_getAppStateLinks_def)
  from clKprobe.reconcile_no_panic [OF o assms(3,4)] ProgTypeKprobe show ?thesis by (simp add: Cl_dispatch)
next
  case ProgTypeKretprobe
  with assms obtain ls where o: "cs_Type ps = ProgTypeKretprobe" "ClKretprobe_getAppStateLinks ps = Some ls"
    by (auto simp: Cl_wf_def ClKretprobe_getAppStateLinks_def)
  from clKretprobe.reconcile_no_panic [OF o assms(3,4)] ProgTypeKretprobe show ?thesis by (simp add: Cl_dispatch)
next
  case ProgTypeTracepoint
  with assms obtain ls where "ClTracepoint_getLinks ps = Some ls" by (auto simp: Cl_wf_def ClTracepoint_getLinks_def)
  from clTracepoint.reconcile_no_panic [OF TrueI this assms(3,4)] ProgTypeTracepoint show ?thesis
    by (simp add: Cl_dispatch)
next
  case (ProgTypeOther ty)
  then show ?thesis by (simp add: Cl_reconcileProgram_def Cl_getProgramReconciler_def recReconcileProgram_def)
next
  case ProgTypeUprobe
  with assms obtain ls where "cs_Type ps = ProgTypeUprobe" "ClUprobe_getAppStateLinks ps = Some ls"
    by (auto simp: Cl_wf_def ClUprobe_getAppStateLinks_def)
  with clUprobe.reconcile_no_panic [OF _ _ assms(3,4)] ProgTypeUprobe show ?thesis by (simp add: Cl_dispatch)
next
  case ProgTypeUretprobe
  with assms obtain ls where "cs_Type ps = ProgTypeUretprobe" "ClUprobe_getAppStateLinks ps = Some ls"
    by (auto simp: Cl_wf_def ClUprobe_getAppStateLinks_def)
  with clUprobe.reconcile_no_panic [OF _ _ assms(3,4)] ProgTypeUretprobe show ?thesis by (simp add: Cl_dispatch)
qed

text \<open>C31: a namespace-scoped program that is loaded never panics: if its state has the type of the program and
  the struct of that type, the program has an id, and the daemon answers as its contract says, then the
  reconcile of the program returns.\<close>

theorem Ns_program_no_panic:
  assumes "Ns_wf ps" and "ns_Type ps = np_Type prog" and "ProgramId ps = Some p"
    and "daemon_contract env live issued"
  shows "Ns_reconcileProgram env ourNode prog b ps s \<noteq> None"
proof -
  have up: "Ns_reconcileProgram env ourNode prog b ps s \<noteq> None"
    if t: "ns_Type ps = ProgTypeUprobe \<or> ns_Type ps = ProgTypeUretprobe"
  proof -
    from t assms(1) obtain ls where g: "NsUprobe_getAppStateLinks ps = Some ls"
      by (auto simp: Ns_wf_def NsUprobe_getAppStateLinks_def)
    note np = nsUprobe.reconcile_no_panic [OF t g assms(3,4)]
    from t assms(2) np show ?thesis by (elim disjE) (simp_all add: Ns_dispatch)
  qed
  show ?thesis
  proof (cases "np_Type prog")
    case ProgTypeXDP
    with assms obtain ls where "NsXdp_getLinks ps = Some ls" by (auto simp: Ns_wf_def NsXdp_getLinks_def)
    from nsXdp.reconcile_no_panic [OF TrueI this assms(3,4)] ProgTypeXDP show ?thesis by (simp add: Ns_dispatch)
  next
    case ProgTypeTC
    with assms obtain ls where "NsTc_getLinks ps = Some ls" by (auto simp: Ns_wf_def NsTc_getLinks_def)
    from nsTc.reconcile_no_panic [OF TrueI this assms(3,4)] ProgTypeTC show ?thesis by (simp add: Ns_dispatch)
  next
    case ProgTypeTCX
    with assms obtain ls where "NsTcx_getLinks ps = Some ls" by (auto simp: Ns_wf_def NsTcx_getLinks_def)
    from nsTcx.reconcile_no_panic [OF TrueI this assms(3,4)] ProgTypeTCX show ?thesis by (simp add: Ns_dispatch)
  qed (use up assms in \<open>simp_all add: Ns_wf_def\<close>)
qed

definition nsUpSpec :: UprobeAttachInfo where
  "nsUpSpec = \<lparr>upa_Function = ''malloc'', upa_Offset = 0, upa_Target = ''libc'', upa_Pid = None,
     upa_Containers = \<lparr>cs_Pods = \<lparr>MatchLabels = [], MatchExpressions = []\<rparr>, cs_ContainerNames = []\<rparr>\<rparr>"

definition nsUpProg :: BpfApplicationProgram where
  "nsUpProg = \<lparr>np_Name = ''up'', np_Type = ProgTypeUprobe, np_XDP = None, np_TC = None, np_TCX = None,
     np_UProbe = Some \<lparr>Links = [nsUpSpec]\<rparr>, np_URetProbe = None\<rparr>"

definition nsUpState :: BpfApplicationProgramState where
  "nsUpState = (Ns_blankState ''up'' ProgTypeUprobe)\<lparr>ProgramId := Some 7, ns_UProbe := Some \<lparr>Links = []\<rparr>\<rparr>"

definition nsS0 :: "(BpfApplicationProgram, BpfApplicationProgramState) fw rst" where
  "nsS0 = \<lparr>world = \<lparr>fw_links = [], fw_issued = 0, fw_uuid = 0,
     fw_containers = [\<lparr>ci_podName = ''p'', ci_containerName = ''c'', ci_pid = 42\<rparr>], fw_apps = [], fw_states = []\<rparr>,
     netns_cache = []\<rparr>"

lemma Ns_program_no_panic_witness:
  "Ns_reconcileProgram fakeEnv fakeNode nsUpProg False nsUpState nsS0 \<noteq> None"
  by (rule Ns_program_no_panic [OF _ _ _ fakeEnv_contract, where p = 7])
    (simp_all add: nsUpState_def nsUpProg_def Ns_blankState_def Ns_wf_def)

text \<open>
  A cluster kprobe program without an id panics as soon as it has a link to attach:
  \<^verbatim>\<open>getAttachRequest\<close> dereferences the nil id. This is the state \<^verbatim>\<open>unload\<close> leaves behind on a node that is
  not selected.
\<close>

lemma Cl_kprobe_unloaded:
  assumes "cp_Type prog = ProgTypeKprobe" and "cs_Type ps = ProgTypeKprobe" and "cs_KProbe ps \<noteq> None"
    and "ProgramId ps = None" and "specLinks (cp_KProbe prog) \<noteq> []"
  shows "Cl_reconcileProgram env ourNode prog False ps s = None"
proof -
  let ?specs = "specLinks (cp_KProbe prog)" and ?g = "ClKprobe_getExpectedLinks env"
  from assms(2,3) obtain ls where ls: "ClKprobe_getAppStateLinks ps = Some ls"
    by (auto simp: ClKprobe_getAppStateLinks_def)
  let ?mk = "\<lambda>a u. \<lparr>ShouldAttach = True, UUID = u, LinkId = None, LinkStatus = ApAttachNotAttached,
    kp_Function = kpa_Function a, kp_Offset = kpa_Offset a\<rparr>"
  have g: "?g a s = newLink env (?mk a) s" for a s by (simp add: ClKprobe_getExpectedLinks_def)
  obtain r ls1 t1 where u: "updateLinks ?g ClKprobe_findLink ?specs False ls s = ((r, ls1), t1)"
    by (metis prod.collapse)
  with newLink_update [of ?g env ?mk ClKprobe_findLink ?specs False ls s, OF g] have r: "r = Inr ()" by simp
  from newLink_run [of ?g env ?mk ?specs ClKprobe_findLink "clearShouldAttach ls" s, OF g] assms(5)
  have "expectedRun ?g ClKprobe_findLink ?specs (clearShouldAttach ls) s \<noteq> []" by auto
  then obtain e t where "(e, t) \<in> set (expectedRun ?g ClKprobe_findLink ?specs (clearShouldAttach ls) s)"
    by (metis list.set_intros(1) neq_Nil_conv prod.collapse)
  from clKprobe.update_covers [OF u [unfolded r] this] obtain l where "l \<in> set ls1" "ShouldAttach l" by auto
  from clKprobe.reconcile_nil_id_panics [OF assms(2) ls assms(4) u [unfolded r] this] assms(1)
  show ?thesis by (simp add: Cl_dispatch ClKprobe_getAppLinks_def)
qed

definition kpProg :: ClBpfApplicationProgram where
  "kpProg = (blankProg ''kp'' ProgTypeKprobe)\<lparr>cp_KProbe := Some \<lparr>Links = [\<lparr>kpa_Function = ''do_unlinkat'', kpa_Offset = 0\<rparr>]\<rparr>\<rparr>"

definition kpState :: ClBpfApplicationProgramState where
  "kpState = (Cl_blankState ''kp'' ProgTypeKprobe)\<lparr>cs_KProbe := Some \<lparr>Links = []\<rparr>\<rparr>"

end
