(* ===== verification/Link_Properties.thy ===== *)
theory Link_Properties
  imports Program_Properties
begin

text \<open>
  Which links the two passes of a reconcile produce: the lookup of a link, the links a specification
  asks for, and the fixed point of the second pass.
\<close>

section \<open>The lookup of a network link\<close>

text \<open>
  C27: \<^verbatim>\<open>findLink\<close> of a cluster TC program is a search by key: it fails exactly when the network namespace of the
  wanted link does not resolve, and otherwise returns the first link with the same interface, direction,
  priority and proceed-on values whose namespace is the same inode. The cache it fills is invisible: every
  path resolves afterwards as it did before, and nothing else changes.
\<close>

theorem Cl_tc_lookup:
  "fst (ClTc_findLink env l ls s) =
     (case netnsId env s (NetnsPath l) of
        None \<Rightarrow> Inl (''failed to get netnsId for path '' @ NetnsPath l)
      | Some n \<Rightarrow> Inr (find_index (\<lambda>a. tcSameFields a l \<and> netnsId env s (NetnsPath a) = Some n) ls)) \<and>
   (\<forall>q. netnsId env (snd (ClTc_findLink env l ls s)) q = netnsId env s q) \<and>
   world (snd (ClTc_findLink env l ls s)) = world s"
  by (cases "netnsId env s (NetnsPath l)")
    (simp_all add: ClTc_findLink_def netFindLink_none netFindLink_some netFindLink_state)

section \<open>Which links are wanted\<close>

text \<open>
  Updating the links of a cluster kprobe program that is not being deleted never fails, and afterwards the links
  marked to be attached are exactly the functions and offsets of the specification.
\<close>

theorem Cl_kprobe_wanted:
  assumes "cp_Type prog = ProgTypeKprobe" and "cs_Type ps = ProgTypeKprobe" and "cs_KProbe ps \<noteq> None"
  shows "\<exists>ps' s' ls'. ClKprobe_updateLinks env prog False ps s = Some ((Inr (), ps'), s') \<and>
           ClKprobe_getAppStateLinks ps' = Some ls' \<and>
           {(kp_Function l, kp_Offset l) |l. l \<in> set ls' \<and> ShouldAttach l} =
           (\<lambda>a. (kpa_Function a, kpa_Offset a)) ` set (specLinks (cp_KProbe prog))"
proof -
  let ?specs = "specLinks (cp_KProbe prog)" and ?g = "ClKprobe_getExpectedLinks env"
  let ?mk = "\<lambda>a u. \<lparr>ShouldAttach = True, UUID = u, LinkId = None, LinkStatus = ApAttachNotAttached,
    kp_Function = kpa_Function a, kp_Offset = kpa_Offset a\<rparr>"
  let ?key = "\<lambda>l. (kp_Function l, kp_Offset l)" and ?skey = "\<lambda>a. (kpa_Function a, kpa_Offset a)"
  from assms obtain info where k: "cs_KProbe ps = Some info" by auto
  then have ls: "ClKprobe_getAppStateLinks ps = Some (Links info)" using assms(2) by (simp add: ClKprobe_getAppStateLinks_def)
  have g: "?g a s = newLink env (?mk a) s" for a s by (simp add: ClKprobe_getExpectedLinks_def)
  obtain r ls1 t where u: "updateLinks ?g ClKprobe_findLink ?specs False (Links info) s = ((r, ls1), t)"
    by (metis prod.collapse)
  with newLink_update [of ?g env ?mk ClKprobe_findLink ?specs False "Links info" s, OF g] have r: "r = Inr ()" by simp
  let ?run = "expectedRun ?g ClKprobe_findLink ?specs (clearShouldAttach (Links info)) s"
  from newLink_run [of ?g env ?mk ?specs ClKprobe_findLink "clearShouldAttach (Links info)" s, OF g]
  have "list_all2 (\<lambda>a et. \<exists>u. fst et = ?mk a u) ?specs ?run" by blast
  then have run: "map (\<lambda>et. ?key (fst et)) ?run = map ?skey ?specs"
    by (induction rule: list_all2_induct) auto
  have run': "(\<lambda>et. ?key (fst et)) ` set ?run = ?skey ` set ?specs"
    using arg_cong [OF run, of set] by simp
  have "?key l \<in> (\<lambda>et. ?key (fst et)) ` set ?run" if "l \<in> set ls1" "ShouldAttach l" for l
    using clKprobe.update_justified [OF u [unfolded r] that] by force
  moreover have "?key (fst et) \<in> {?key l |l. l \<in> set ls1 \<and> ShouldAttach l}" if "et \<in> set ?run" for et
    using clKprobe.update_covers [OF u [unfolded r], of "fst et" "snd et"] that by (auto intro: sym)
  ultimately have "{?key l |l. l \<in> set ls1 \<and> ShouldAttach l} = ?skey ` set ?specs" unfolding run' [symmetric] by auto
  moreover have "ClKprobe_updateLinks env prog False ps s = Some ((Inr (), ClKprobe_setLinks ls1 ps), t)"
    using u r ls assms(1) by (simp add: ClKprobe_updateLinks_def progUpdateLinks_def ClKprobe_getAppLinks_def)
  moreover have "ClKprobe_getAppStateLinks (ClKprobe_setLinks ls1 ps) = Some ls1"
    using assms(2) k by (simp add: ClKprobe_getAppStateLinks_def ClKprobe_setLinks_def)
  ultimately show ?thesis by blast
qed

lemma Cl_kprobe_wanted_witness:
  "\<exists>ps' s' ls'. ClKprobe_updateLinks fakeEnv kpProg False kpState sStart = Some ((Inr (), ps'), s') \<and>
     ClKprobe_getAppStateLinks ps' = Some ls' \<and>
     {(kp_Function l, kp_Offset l) |l. l \<in> set ls' \<and> ShouldAttach l} = {(''do_unlinkat'', 0)}"
  using Cl_kprobe_wanted [of kpProg kpState fakeEnv sStart]
  by (simp add: kpProg_def kpState_def blankProg_def Cl_blankState_def specLinks_def)

text \<open>
  When the reconcile of a namespace-scoped uprobe program ends with status \<^verbatim>\<open>Success\<close>, its list holds nothing
  but attached links the specification asked for during the run: same function, offset, target, pid and
  container pid.
\<close>

theorem Ns_uprobe_success_only:
  assumes "np_Type prog = ProgTypeUprobe" and "ns_Type ps = ProgTypeUprobe" and "NsUprobe_getAppStateLinks ps = Some ls"
    and "Ns_reconcileProgram env ourNode prog False ps s = Some (Inr (Inr (), ps'), s')"
    and "ProgramLinkStatus ps' = ProgAttachSuccess" and "NsUprobe_getAppStateLinks ps' = Some ls'" and "l \<in> set ls'"
  shows "ShouldAttach l \<and> LinkStatus l = ApAttachAttached \<and>
         (\<exists>(e, t)\<in>set (expectedRun (NsUprobe_getExpectedLinks env '''') NsUprobe_findLink
                         (specLinks (np_UProbe prog)) (clearShouldAttach ls) s). uprobeKey l = uprobeKey e)"
proof -
  from assms(2) have o: "ns_Type ps = ProgTypeUprobe \<or> ns_Type ps = ProgTypeUretprobe" by simp
  from nsUprobe.reconcile_success_only [OF o assms(3) Ns_uprobe_run [OF assms(1,4)] assms(5-7)] show ?thesis by auto
qed

definition nsUpLink :: UprobeAttachInfoState where
  "nsUpLink = \<lparr>ShouldAttach = True, UUID = show_nat 0, LinkId = Some 0, LinkStatus = ApAttachAttached,
     up_Function = ''malloc'', up_Offset = 0, up_Target = ''libc'', up_Pid = None, up_ContainerPid = 42\<rparr>"

definition nsUpState1 :: BpfApplicationProgramState where
  "nsUpState1 = nsUpState\<lparr>ProgramLinkStatus := ProgAttachSuccess, ns_UProbe := Some \<lparr>Links = [nsUpLink]\<rparr>\<rparr>"

lemma ns_up_run:
  "\<exists>s'. Ns_reconcileProgram fakeEnv fakeNode nsUpProg False nsUpState nsS0 = Some (Inr (Inr (), nsUpState1), s')"
  by (simp add: Ns_dispatch eval_defs link_eval nsUpProg_def nsUpState_def nsUpState1_def nsUpSpec_def nsS0_def nsUpLink_def
      Ns_blankState_def NsUprobe_getAppStateLinks_def NsUprobe_setLinks_def NsUprobe_getAppLinks_def
      NsUprobe_getExpectedLinks_def NsUprobe_findLink_def NsUprobe_getAttachRequest_def mkUprobeLink_def mkAttachRequest_def
      uuidMetadata_def)

lemma Ns_uprobe_success_only_witness:
  "\<exists>(e, t)\<in>set (expectedRun (NsUprobe_getExpectedLinks fakeEnv '''') NsUprobe_findLink
       (specLinks (np_UProbe nsUpProg)) (clearShouldAttach []) nsS0). uprobeKey nsUpLink = uprobeKey e"
proof -
  from ns_up_run obtain s' where r: "Ns_reconcileProgram fakeEnv fakeNode nsUpProg False nsUpState nsS0 =
    Some (Inr (Inr (), nsUpState1), s')" ..
  have "NsUprobe_getAppStateLinks nsUpState = Some []" "NsUprobe_getAppStateLinks nsUpState1 = Some [nsUpLink]"
    "np_Type nsUpProg = ProgTypeUprobe" "ns_Type nsUpState = ProgTypeUprobe" "ProgramLinkStatus nsUpState1 = ProgAttachSuccess"
    by (simp_all add: NsUprobe_getAppStateLinks_def nsUpState1_def nsUpState_def nsUpProg_def Ns_blankState_def)
  with Ns_uprobe_success_only [OF _ _ _ r] show ?thesis by simp
qed

section \<open>The second pass has nothing left to do\<close>


definition tcxState :: ClBpfApplicationProgramState where
  "tcxState = (Cl_blankState ''tcx'' ProgTypeTCX)\<lparr>ProgramId := Some 7, cs_TCX := Some \<lparr>Links =
     [\<lparr>ShouldAttach = True, UUID = ''u'', LinkId = None, LinkStatus = ApAttachNotAttached, InterfaceName = ''eth0'',
       NetnsPath = '''', Priority = 50, tcx_Direction = TCIngress\<rparr>]\<rparr>\<rparr>"

definition tcxState1 :: ClBpfApplicationProgramState where
  "tcxState1 = tcxState\<lparr>ProgramLinkStatus := ProgAttachSuccess, cs_TCX := Some \<lparr>Links =
     [\<lparr>ShouldAttach = True, UUID = ''u'', LinkId = Some 0, LinkStatus = ApAttachAttached, InterfaceName = ''eth0'',
       NetnsPath = '''', Priority = 50, tcx_Direction = TCIngress\<rparr>]\<rparr>\<rparr>"

lemma tcx_first_pass:
  "ClTcx_processLinks fakeEnv tcxState sStart =
     Some (tcxState1, sStart\<lparr>world := wStart\<lparr>fw_links := [(7, [0])], fw_issued := 1\<rparr>\<rparr>)"
  by (simp add: ClTcx_processLinks_def tcxState_def tcxState1_def Cl_blankState_def ClTcx_getLinks_def ClTcx_setLinks_def
      ClTcx_getAttachRequest_def mkAttachRequest_def eval_defs link_eval uuidMetadata_def)


end
