(* ===== verification/App_Properties.thy ===== *)
theory App_Properties
  imports Program_Properties
begin

text \<open>
  What the application reconcilers achieve: loading and unloading, the program list of a state
  object, the condition a reconcile leaves behind, deletion, and what the loop over the applications
  does when one of them fails. The facts of the interpretations of \<open>app_ops\<close> carry the proofs.
\<close>

section \<open>Loading is all or nothing\<close>

text \<open>
  C9: when \<^verbatim>\<open>reconcileLoad\<close> of a cluster application reports no error, the programs keep their names and
  are all in the same situation: either the load status is \<^verbatim>\<open>AppLoadSuccess\<close>, the application is not
  being deleted, its program list is the one of the state object and every program has an id; or the
  status is \<^verbatim>\<open>NotSelected\<close> or \<^verbatim>\<open>AppUnLoadSuccess\<close>, and no program has an id.
\<close>

theorem Cl_load_all_or_nothing:
  assumes "reconcileLoad env (Cl_ops env ourNode) ourNode app st s = Some ((Inr (), st'), s')"
    and "\<forall>p\<in>set (statePrograms st). Cl_wf p"
  shows "map Name (statePrograms st') = map Name (statePrograms st) \<and>
         (AppLoadStatus (st_Status st') = AppLoadSuccess \<and> \<not> isBeingDeleted app \<and>
          validateProgramList (Cl_ops env ourNode) app st = Inr () \<and>
          (\<forall>p\<in>set (statePrograms st'). ProgramId p \<noteq> None)
          \<or> AppLoadStatus (st_Status st') \<in> {NotSelected, AppUnLoadSuccess} \<and>
          (\<forall>p\<in>set (statePrograms st'). ProgramId p = None \<and> ProgramLinkStatus p = ProgAttachSuccess))"
  using clApp.reconcileLoad_ok [OF assms] by (cases "AppLoadStatus (st_Status st') = AppLoadSuccess") blast+

definition appMeta :: "string \<Rightarrow> int option \<Rightarrow> ObjectMeta" where
  "appMeta name deleted = \<lparr>om_Name = name, om_Namespace = '''', om_UID = ''uid'', om_Labels = [], om_Finalizers = [],
     om_DeletionTimestamp = deleted, om_OwnerReferences = []\<rparr>"

definition mkApp ::
    "string \<Rightarrow> int option \<Rightarrow> (string \<times> string) list \<Rightarrow> ClBpfApplicationProgram list \<Rightarrow> ClusterBpfApplication" where
  "mkApp name deleted sel progs =
     \<lparr>app_Meta = appMeta name deleted,
      app_Spec = \<lparr>NodeSelector = \<lparr>MatchLabels = sel, MatchExpressions = []\<rparr>, GlobalData = [],
                  ByteCode = \<lparr>bc_Image = None, bc_Path = Some ''/prog.o''\<rparr>, MapOwnerSelector = None,
                  SpecPrograms = progs\<rparr>,
      app_Conditions = []\<rparr>"

definition mkState ::
    "string \<Rightarrow> AppLoadStatus \<Rightarrow> ClBpfApplicationProgramState list \<Rightarrow> Condition list \<Rightarrow> ClusterBpfApplicationState" where
  "mkState app status ps conds =
     \<lparr>st_Meta = \<lparr>om_Name = app @ ''-0'', om_Namespace = '''', om_UID = ''uid0'',
        om_Labels = [(BpfAppStateOwner, app), (K8sHostLabel, ''n1'')],
        om_Finalizers = [ClBpfApplicationControllerFinalizer], om_DeletionTimestamp = None, om_OwnerReferences = []\<rparr>,
      st_Status = \<lparr>UpdateCount = 1, Node = ''n1'', AppLoadStatus = status, Programs = ps, Conditions = conds\<rparr>\<rparr>"

lemmas app_eval = mkApp_def mkState_def appMeta_def isBeingDeleted_def isNodeSelected_def fakeEnv_def fakeNode_def
  statePrograms_def setPrograms_def setAppLoadStatus_def updStatus_def

lemmas load_eval = reconcileLoad_def validateProgramList_def isLoaded_def load_def getLoadRequest_def
  GetBytecode_def Cl_ops_def Cl_getProgState_def recLoadInfo_def Cl_getProgramReconciler_def mkLoadInfo_def
  ClTc_getProgramLoadInfo_def ClKprobe_getProgramLoadInfo_def fakeLoad_def unload_def UnloadBpfmanProgram_def
  Cl_deleteLinks_def

definition tcFresh :: ClBpfApplicationProgramState where
  "tcFresh = (Cl_blankState ''tc_pass'' ProgTypeTC)\<lparr>cs_TC := Some \<lparr>Links = []\<rparr>\<rparr>"

lemma tc_load_run:
  "reconcileLoad fakeEnv (Cl_ops fakeEnv fakeNode) fakeNode (mkApp ''app'' None [] [tcProg])
     (mkState ''app'' AppLoadNotLoaded [tcFresh] []) sStart =
   Some ((Inr (), mkState ''app'' AppLoadSuccess [tcFresh\<lparr>ProgramId := Some 1\<rparr>] []), sStart)"
  by (simp add: load_eval app_eval tcFresh_def tcProg_def blankProg_def Cl_blankState_def sStart_def lift_world_def)

lemma Cl_load_all_or_nothing_witness:
  "list_all (\<lambda>p. ProgramId p \<noteq> None) (statePrograms (mkState ''app'' AppLoadSuccess [tcFresh\<lparr>ProgramId := Some 1\<rparr>] [])) \<and>
   validateProgramList (Cl_ops fakeEnv fakeNode :: (_, _, (ClBpfApplicationProgram, ClBpfApplicationProgramState) fw) AppOps)
     (mkApp ''app'' None [] [tcProg]) (mkState ''app'' AppLoadNotLoaded [tcFresh] []) = Inr ()"
proof -
  have "\<forall>p\<in>set (statePrograms (mkState ''app'' AppLoadNotLoaded [tcFresh] [])). Cl_wf p"
    by (simp add: app_eval tcFresh_def Cl_blankState_def Cl_wf_def)
  from Cl_load_all_or_nothing [OF tc_load_run this] show ?thesis by (simp add: app_eval)
qed

section \<open>Unloading\<close>

lemma unloadLoop_calls:
  "unloadLoop env ops ps s = Some (ps', s') \<Longrightarrow>
   s' = fold (\<lambda>i s. snd (UnloadBpfmanProgram env i s)) (List.map_filter ProgramId ps) s"
proof (induction ps arbitrary: ps' s)
  case (Cons p ps)
  show ?case
  proof (cases "ProgramId p")
    case None
    with Cons show ?thesis by (auto simp: bind_eq_Some_conv List.map_filter_simps)
  next
    case (Some i)
    obtain r t where "UnloadBpfmanProgram env i s = (r, t)" by fastforce
    with Some Cons show ?thesis by (auto simp: bind_eq_Some_conv List.map_filter_simps)
  qed
qed (simp add: List.map_filter_simps)

text \<open>
  Unloading a cluster application asks the daemon once for every program that has an id, in order and
  whatever the earlier answers are, and leaves every program without an id; the programs that were
  loaded have no links left. It never panics when every program state has the struct of its type.
\<close>

theorem Cl_unload_everything:
  assumes "\<forall>p\<in>set (statePrograms st). Cl_wf p"
  shows "\<exists>st'. unload env (Cl_ops env ourNode) st s =
             Some (st', fold (\<lambda>i s. snd (UnloadBpfmanProgram env i s)) (List.map_filter ProgramId (statePrograms st)) s) \<and>
           list_all2 (\<lambda>p p'. Name p' = Name p \<and> ProgramId p' = None \<and> ProgramLinkStatus p' = ProgAttachSuccess \<and>
                        (ProgramId p \<noteq> None \<longrightarrow> Cl_no_links p')) (statePrograms st) (statePrograms st')"
proof -
  from clApp.unloadLoop_all [OF assms, of env env ourNode s] obtain ps' s' where
    u: "unloadLoop env (Cl_ops env ourNode) (statePrograms st) s = Some (ps', s')" and
    l: "list_all2 (\<lambda>p p'. Name p' = Name p \<and> ProgramId p' = None \<and> Cl_wf p' \<and>
          ProgramLinkStatus p' = ProgAttachSuccess \<and> (ProgramId p \<noteq> None \<longrightarrow> Cl_no_links p'))
          (statePrograms st) ps'" by blast
  from l have "list_all2 (\<lambda>p p'. Name p' = Name p \<and> ProgramId p' = None \<and> ProgramLinkStatus p' = ProgAttachSuccess \<and>
      (ProgramId p \<noteq> None \<longrightarrow> Cl_no_links p')) (statePrograms st) ps'" by (auto elim: list_all2_mono)
  with u unloadLoop_calls [OF u] show ?thesis by (simp add: unload_def statePrograms_def setPrograms_def updStatus_def)
qed

lemma Cl_unload_everything_witness:
  "\<exists>st'. unload fakeEnv (Cl_ops fakeEnv fakeNode) (mkState ''app'' AppLoadSuccess [tcState1] []) sOneLink =
           Some (st', fold (\<lambda>i s. snd (UnloadBpfmanProgram fakeEnv i s)) [7] sOneLink) \<and>
         list_all2 (\<lambda>p p'. Name p' = Name p \<and> ProgramId p' = None \<and> ProgramLinkStatus p' = ProgAttachSuccess \<and>
                      Cl_no_links p') [tcState1] (statePrograms st')"
proof -
  let ?st = "mkState ''app'' AppLoadSuccess [tcState1] []"
  have ps: "statePrograms ?st = [tcState1]" by (simp add: app_eval)
  moreover have "Cl_wf tcState1" "ProgramId tcState1 = Some 7" by (simp_all add: tc_eval Cl_wf_def)
  ultimately show ?thesis using Cl_unload_everything [of ?st fakeEnv fakeNode sOneLink] by (simp add: List.map_filter_simps list_all2_Cons1)
qed

section \<open>The program list\<close>

text \<open>
  The program list of a state object passes validation exactly when the names of the application's
  programs are distinct and are the names of the state object's programs. Nothing but the names is
  compared.
\<close>

theorem Cl_validate_iff:
  "validateProgramList (Cl_ops env ourNode) app st = Inr () \<longleftrightarrow>
     distinct (map cp_Name (SpecPrograms (app_Spec app))) \<and>
     cp_Name ` set (SpecPrograms (app_Spec app)) = Name ` set (statePrograms st)"
  using validateProgramList_iff [of "Cl_ops env ourNode" app st] by (simp add: Cl_ops_def)

text \<open>
  A namespace application with distinct program names of supported types gets its program list: one entry
  per program, in order, with its name and type, pending, without an id and without links; and the list
  passes validation.
\<close>

theorem Ns_initialize_then_validate:
  assumes "statePrograms st = []" and "distinct (map np_Name (SpecPrograms (app_Spec app)))"
    and "\<forall>q\<in>set (SpecPrograms (app_Spec app)). np_Type q \<in> {ProgTypeTC, ProgTypeTCX, ProgTypeUprobe, ProgTypeUretprobe, ProgTypeXDP}"
  shows "\<exists>st'. initializeNodeProgramList (Ns_ops env ourNode) app st = Some (Inr (), st') \<and>
           list_all2 (\<lambda>q p. Name p = np_Name q \<and> ProgramId p = None \<and> ProgramLinkStatus p = ProgAttachPending \<and> Ns_no_links p)
             (SpecPrograms (app_Spec app)) (statePrograms st') \<and>
           validateProgramList (Ns_ops env ourNode) app st' = Inr ()"
proof -
  let ?ops = "Ns_ops env ourNode" and ?qs = "SpecPrograms (app_Spec app)"
  from assms(3) have "\<forall>q\<in>set ?qs. \<exists>p. op_newProgState ?ops q = Some (Inr p)"
    by (auto simp: Ns_ops_def Ns_newProgState_def Let_def)
  with nsApp.initLoop_succeeds [of env ourNode ?qs "[]"] assms(2) obtain ps where
    i: "initLoop ?ops ?qs [] = Some (Inr (), ps)" by (auto simp: Ns_ops_def)
  with assms(1) have n: "initializeNodeProgramList ?ops app st = Some (Inr (), setPrograms ps st)"
    by (simp add: initializeNodeProgramList_def)
  from nsApp.initLoop_states [OF i] have
    "list_all2 (\<lambda>q p. Name p = np_Name q \<and> ProgramId p = None \<and> ProgramLinkStatus p = ProgAttachPending \<and> Ns_no_links p) ?qs ps"
    by (auto simp: Ns_ops_def elim: list_all2_mono)
  with n nsApp.init_then_validate [OF n] assms(2) show ?thesis
    by (simp add: Ns_ops_def statePrograms_def setPrograms_def updStatus_def)
qed

definition nsApp1 :: BpfApplication where
  "nsApp1 = \<lparr>app_Meta = appMeta ''nsapp'' None,
     app_Spec = \<lparr>NodeSelector = \<lparr>MatchLabels = [], MatchExpressions = []\<rparr>, GlobalData = [],
       ByteCode = \<lparr>bc_Image = None, bc_Path = Some ''/prog.o''\<rparr>, MapOwnerSelector = None, SpecPrograms = [nsUpProg]\<rparr>,
     app_Conditions = []\<rparr>"

lemma Ns_initialize_then_validate_witness:
  "\<exists>st'. initializeNodeProgramList (Ns_ops (fakeEnv :: ((BpfApplicationProgram, BpfApplicationProgramState) fw, _, _) KEnv) fakeNode)
           nsApp1 \<lparr>st_Meta = appMeta ''x'' None, st_Status = emptyStatus\<rparr> = Some (Inr (), st') \<and>
         list_all2 (\<lambda>q p. Name p = np_Name q \<and> ProgramId p = None \<and> ProgramLinkStatus p = ProgAttachPending \<and> Ns_no_links p)
           (SpecPrograms (app_Spec nsApp1)) (statePrograms st')"
proof -
  let ?st = "\<lparr>st_Meta = appMeta ''x'' None, st_Status = emptyStatus\<rparr>"
  have "statePrograms ?st = []" by (simp add: statePrograms_def emptyStatus_def)
  moreover have "distinct (map np_Name (SpecPrograms (app_Spec nsApp1)))"
    "\<forall>q\<in>set (SpecPrograms (app_Spec nsApp1)). np_Type q \<in> {ProgTypeTC, ProgTypeTCX, ProgTypeUprobe, ProgTypeUretprobe, ProgTypeXDP}"
    by (simp_all add: nsApp1_def nsUpProg_def)
  ultimately show ?thesis using Ns_initialize_then_validate [of ?st nsApp1 fakeEnv fakeNode] by blast
qed

section \<open>The condition of a state object\<close>

lemma updateBpfAppStateCondition_type:
  "\<exists>k. Conditions (st_Status (snd (updateBpfAppStateCondition now c st))) = [k] \<and>
       (cond_Type k = BpfAppStateCond_string c \<or> c = BpfAppStateCondProgramListChangedError \<and> cond_Type k = [])"
proof (cases "fst (updateBpfAppStateCondition now c st)")
  case True
  then obtain st' where u: "updateBpfAppStateCondition now c st = (True, st')" by (metis prod.collapse)
  from updateBpfAppStateCondition_single [OF u] u show ?thesis
    by (cases c) (auto simp: mkCondition_def emptyCondition_def)
next
  case False
  then show ?thesis by (auto simp: updateBpfAppStateCondition_def split: list.splits if_splits)
qed

lemma updateBpfAppStateCondition_programs [simp]:
  "statePrograms (snd (updateBpfAppStateCondition now c st)) = statePrograms st"
  by (subst updateBpfAppStateCondition_frame) (simp add: statePrograms_def)

lemma setPrograms_programs [simp]: "statePrograms (setPrograms ps st) = ps"
  by (simp add: statePrograms_def setPrograms_def updStatus_def)

lemma checkProgramStatus_success:
  "checkProgramStatus st = BpfAppStateCondSuccess \<Longrightarrow> p \<in> set (statePrograms st) \<Longrightarrow> ProgramLinkStatus p = ProgAttachSuccess"
  by (auto simp: checkProgramStatus_def split: if_splits)

lemma reconcileAppPrograms_success:
  assumes r: "reconcileAppPrograms env ops app st s = Some (st', s')"
    and c: "Conditions (st_Status st') = [k]" "cond_Type k = ''Success''"
  shows "\<forall>p\<in>set (statePrograms st'). ProgramLinkStatus p = ProgAttachSuccess"
proof -
  from r obtain status ps where "\<exists>x. st' = snd (updateBpfAppStateCondition x
      (if status = BpfAppStateCondSuccess then checkProgramStatus (setPrograms ps st) else status) (setPrograms ps st))"
    by (auto simp: reconcileAppPrograms_def bind_eq_Some_conv Let_def)
  then obtain x where st': "st' = snd (updateBpfAppStateCondition x
      (if status = BpfAppStateCondSuccess then checkProgramStatus (setPrograms ps st) else status) (setPrograms ps st))" ..
  let ?status = "if status = BpfAppStateCondSuccess then checkProgramStatus (setPrograms ps st) else status"
  from updateBpfAppStateCondition_type [of x ?status "setPrograms ps st"] c st'
  have "BpfAppStateCond_string ?status = BpfAppStateCond_string BpfAppStateCondSuccess" by auto
  then have "checkProgramStatus (setPrograms ps st) = BpfAppStateCondSuccess"
    unfolding BpfAppStateCond_string_inj by (auto split: if_splits)
  with st' checkProgramStatus_success show ?thesis by fastforce
qed

text \<open>
  C7: a cluster application whose state object ends up with the condition \<^verbatim>\<open>Success\<close> after its code was loaded
  is in place: every program of the specification has an entry with its name, an id, and link status
  \<^verbatim>\<open>Success\<close>.
\<close>

theorem Cl_success_condition:
  assumes "reconcileLoad env (Cl_ops env ourNode) ourNode app st s = Some ((Inr (), st1), s1)"
    and "AppLoadStatus (st_Status st1) = AppLoadSuccess" and "\<forall>p\<in>set (statePrograms st). Cl_wf p"
    and "reconcileAppPrograms env (Cl_ops env ourNode) app st1 s1 = Some (st2, s2)"
    and "Conditions (st_Status st2) = [c]" and "cond_Type c = ''Success''"
  shows "\<forall>q\<in>set (SpecPrograms (app_Spec app)). \<exists>p\<in>set (statePrograms st2).
           Name p = cp_Name q \<and> ProgramId p \<noteq> None \<and> ProgramLinkStatus p = ProgAttachSuccess"
proof -
  note load = clApp.reconcileLoad_ok [OF assms(1,3)]
  from assms(4) load(2) [OF assms(2)] obtain c' ps' t where
    "reconcilePrograms (Cl_ops env ourNode) False (SpecPrograms (app_Spec app)) BpfAppStateCondSuccess (statePrograms st1) s1 =
       Some ((c', ps'), t)" and ps': "statePrograms st2 = ps'"
    by (auto simp: reconcileAppPrograms_def bind_eq_Some_conv Let_def)
  from clApp.reconcilePrograms_frame [OF this(1)] ps'
  have frame: "map Name (statePrograms st2) = map Name (statePrograms st1)"
    "map ProgramId (statePrograms st2) = map ProgramId (statePrograms st1)" by simp_all
  have names: "Name ` set (statePrograms st2) = cp_Name ` set (SpecPrograms (app_Spec app))"
    using load(1) load(2) [OF assms(2)] frame(1) validateProgramList_iff [of "Cl_ops env ourNode" app st]
    by (metis (no_types, lifting) Cl_ops_def AppOps.select_convs(1) list.set_map)
  have "None \<notin> set (map ProgramId (statePrograms st2))"
    unfolding frame(2) using load(2) [OF assms(2)] by auto
  then have ids: "\<forall>p\<in>set (statePrograms st2). ProgramId p \<noteq> None" by force
  show ?thesis
  proof
    fix q assume "q \<in> set (SpecPrograms (app_Spec app))"
    with names have "cp_Name q \<in> Name ` set (statePrograms st2)" by simp
    with ids reconcileAppPrograms_success [OF assms(4-6)]
    show "\<exists>p\<in>set (statePrograms st2). Name p = cp_Name q \<and> ProgramId p \<noteq> None \<and> ProgramLinkStatus p = ProgAttachSuccess"
      by force
  qed
qed

definition stateCond :: "BpfApplicationStateConditionType \<Rightarrow> Condition" where
  "stateCond c = (BpfAppStateCond_Condition c)\<lparr>cond_LastTransitionTime := 5\<rparr>"

definition tcAttached :: ClBpfApplicationProgramState where
  "tcAttached = tcState1\<lparr>ProgramId := Some 1\<rparr>"

definition sAttached :: "(ClBpfApplicationProgram, ClBpfApplicationProgramState) fw rst" where
  "sAttached = sOneLink\<lparr>world := (world sOneLink)\<lparr>fw_links := [(1, [0])]\<rparr>\<rparr>"

lemmas cond_eval = updateBpfAppStateCondition_def setAppStateConditions_def SetStatusCondition_def
  stateCond_def mkCondition_def emptyCondition_def checkProgramStatus_def

lemma tc_app_run:
  "reconcileAppPrograms fakeEnv (Cl_ops fakeEnv fakeNode) (mkApp ''app'' None [] [tcProg])
     (mkState ''app'' AppLoadSuccess [tcFresh\<lparr>ProgramId := Some 1\<rparr>] []) sStart =
   Some (mkState ''app'' AppLoadSuccess [tcAttached] [stateCond BpfAppStateCondSuccess], sAttached)"
  by (simp add: reconcileAppPrograms_def app_eval Cl_ops_def Cl_getProgState_def recReconcileProgram_def
      Cl_getProgramReconciler_def Cl_method_defs eval_defs link_eval tc_eval tcFresh_def tcAttached_def sAttached_def
      cond_eval)

lemma Cl_success_condition_witness:
  "\<exists>p\<in>{tcAttached}. Name p = cp_Name tcProg \<and> ProgramId p \<noteq> None \<and> ProgramLinkStatus p = ProgAttachSuccess"
proof -
  have "\<forall>p\<in>set (statePrograms (mkState ''app'' AppLoadNotLoaded [tcFresh] [])). Cl_wf p"
    by (simp add: app_eval tcFresh_def Cl_blankState_def Cl_wf_def)
  from Cl_success_condition [OF tc_load_run _ this tc_app_run] show ?thesis
    by (simp add: app_eval stateCond_def mkCondition_def)
qed

section \<open>No panics once the code is loaded\<close>

text \<open>The fields the API server's validation makes mandatory.\<close>

definition Cl_spec_valid :: "ClBpfApplicationProgram \<Rightarrow> bool" where
  "Cl_spec_valid q \<longleftrightarrow> (cp_Type q = ProgTypeFentry \<longrightarrow> cp_FEntry q \<noteq> None) \<and> (cp_Type q = ProgTypeFexit \<longrightarrow> cp_FExit q \<noteq> None)"

lemma Cl_getProgStateFrom_returns:
  "\<forall>p\<in>set ps. Cl_wf p \<Longrightarrow> Cl_spec_valid q \<Longrightarrow> Cl_getProgStateFrom k q ps \<noteq> None"
  by (induction ps arbitrary: k)
    (auto simp: Cl_wf_def Cl_spec_valid_def split: EBPFProgType.split)

lemma Cl_reconcilePrograms_returns:
  assumes dc: "daemon_contract env live issued"
  shows "\<forall>p\<in>set ps. Cl_wf p \<and> ProgramId p \<noteq> None \<Longrightarrow> \<forall>q\<in>set qs. Cl_spec_valid q \<Longrightarrow>
     reconcilePrograms (Cl_ops env ourNode) b qs c ps s \<noteq> None"
proof (induction qs arbitrary: c ps s)
  case (Cons q qs)
  from Cons.prems Cl_getProgStateFrom_returns [of ps q 0] obtain r where
    r: "op_getProgState (Cl_ops env ourNode) q ps = Some r" by (auto simp: Cl_ops_def Cl_getProgState_def)
  show ?case
  proof (cases r)
    case (Inl e)
    with r Cons show ?thesis by auto
  next
    case (Inr i)
    with r Cl_getProgStateFrom_found [of 0 q ps i]
    have i: "i < length ps" "cs_Type (ps ! i) = cp_Type q" by (simp_all add: Cl_ops_def Cl_getProgState_def)
    with Cons.prems(1) obtain pid where p: "Cl_wf (ps ! i)" "ProgramId (ps ! i) = Some pid" by fastforce
    from Cl_program_no_panic [OF p(1) i(2) p(2) dc, of ourNode b s] obtain x t where
      x: "op_reconcileProgram (Cl_ops env ourNode) q b (ps ! i) s = Some (x, t)"
      by (auto simp: Cl_ops_def Cl_reconcileProgram_def)
    show ?thesis
    proof (cases x)
      case (Inl e)
      with r \<open>r = Inr i\<close> x Cons show ?thesis by auto
    next
      case (Inr y)
      obtain u p' where y: "y = (u, p')" by fastforce
      with clApp.reconcile_frame [OF x [unfolded Inr y]] p have "Cl_wf p'" "ProgramId p' \<noteq> None" by auto
      with Cons.prems(1) have "\<forall>p\<in>set (ps[i := p']). Cl_wf p \<and> ProgramId p \<noteq> None"
        by (auto dest!: set_update_subset_insert [THEN subsetD])
      with Cons.IH [of "ps[i := p']" c t] Cons.prems(2) r \<open>r = Inr i\<close> x Inr y show ?thesis by auto
    qed
  qed
qed simp

text \<open>
  C8: once \<^verbatim>\<open>reconcileLoad\<close> has reported the code of a cluster application as loaded, the reconcile of its
  programs never panics, for any mix of program types: every program state is found by name and type,
  has the struct of its type and an id.
\<close>

theorem Cl_loaded_app_no_panic:
  assumes "reconcileLoad env (Cl_ops env ourNode) ourNode app st s = Some ((Inr (), st1), s1)"
    and "AppLoadStatus (st_Status st1) = AppLoadSuccess" and "\<forall>p\<in>set (statePrograms st). Cl_wf p"
    and "\<forall>q\<in>set (SpecPrograms (app_Spec app)). Cl_spec_valid q"
    and "daemon_contract env live issued"
  shows "reconcileAppPrograms env (Cl_ops env ourNode) app st1 s1 \<noteq> None"
proof -
  from clApp.reconcileLoad_ok(2) [OF assms(1,3,2)]
  have "\<forall>p\<in>set (statePrograms st1). Cl_wf p \<and> ProgramId p \<noteq> None" by blast
  from Cl_reconcilePrograms_returns [OF assms(5) this assms(4), of ourNode False BpfAppStateCondSuccess s1]
  obtain c ps t where "reconcilePrograms (Cl_ops env ourNode) False (SpecPrograms (app_Spec app))
      BpfAppStateCondSuccess (statePrograms st1) s1 = Some ((c, ps), t)" by (metis not_None_eq prod.collapse)
  then show ?thesis by (cases "isBeingDeleted app") (simp_all add: reconcileAppPrograms_def Let_def)
qed

lemma Cl_loaded_app_no_panic_witness:
  "reconcileAppPrograms fakeEnv (Cl_ops fakeEnv fakeNode) (mkApp ''app'' None [] [tcProg])
     (mkState ''app'' AppLoadSuccess [tcFresh\<lparr>ProgramId := Some 1\<rparr>] []) sStart \<noteq> None"
  by (rule Cl_loaded_app_no_panic [OF tc_load_run _ _ _ fakeEnv_contract])
    (simp_all add: app_eval tcFresh_def Cl_blankState_def Cl_wf_def Cl_spec_valid_def tcProg_def blankProg_def)

section \<open>Deletion\<close>

text \<open>What the state object of an application looks like once it has let go of everything.\<close>

definition unloadedState :: "'p BpfProgramStateCommon_scheme AppState \<Rightarrow> bool" where
  "unloadedState st \<longleftrightarrow>
     AppLoadStatus (st_Status st) = AppUnLoadSuccess \<and>
     (\<forall>p\<in>set (statePrograms st). ProgramId p = None \<and> ProgramLinkStatus p = ProgAttachSuccess) \<and>
     (\<exists>c. Conditions (st_Status st) = [c] \<and> cond_Type c = ''Unloaded'')"

text \<open>
  C17: deleting a cluster application on a selected node unloads every program that has an id, once each, and
  leaves a state object with the condition \<^verbatim>\<open>Unloaded\<close> in which no program has an id. No program is
  reconciled.
\<close>

theorem Cl_delete_unloads:
  assumes "isBeingDeleted app" and "isNodeSelected env (NodeSelector (app_Spec app)) (nd_Labels ourNode) = Inr True"
    and "\<forall>p\<in>set (statePrograms st). Cl_wf p"
  shows "\<exists>st1. reconcileLoad env (Cl_ops env ourNode) ourNode app st s =
             Some ((Inr (), st1), fold (\<lambda>i s. snd (UnloadBpfmanProgram env i s)) (List.map_filter ProgramId (statePrograms st)) s) \<and>
           (\<forall>t. \<exists>st2. reconcileAppPrograms env (Cl_ops env ourNode) app st1 t = Some (st2, t) \<and> unloadedState st2)"
proof -
  from clApp.unload_all [OF assms(3), of env env ourNode s] obtain st' s' where
    u: "unload env (Cl_ops env ourNode) st s = Some (st', s')"
      "\<forall>p\<in>set (statePrograms st'). ProgramId p = None \<and> ProgramLinkStatus p = ProgAttachSuccess" by blast
  then have s': "s' = fold (\<lambda>i s. snd (UnloadBpfmanProgram env i s)) (List.map_filter ProgramId (statePrograms st)) s"
    by (auto simp: unload_def bind_eq_Some_conv dest: unloadLoop_calls)
  let ?st1 = "setAppLoadStatus AppUnLoadSuccess st'"
  have l: "reconcileLoad env (Cl_ops env ourNode) ourNode app st s = Some ((Inr (), ?st1), s')"
    using assms u by (simp add: reconcileLoad_def)
  have p: "setPrograms (statePrograms ?st1) ?st1 = ?st1" by (simp add: setPrograms_def statePrograms_def updStatus_def)
  have c: "checkProgramStatus ?st1 = BpfAppStateCondUnloaded"
    by (simp add: checkProgramStatus_def setAppLoadStatus_def updStatus_def)
  have r: "reconcileAppPrograms env (Cl_ops env ourNode) app ?st1 t =
      Some (snd (updateBpfAppStateCondition (time_Now env (world t)) BpfAppStateCondUnloaded ?st1), t)" for t
    using assms(1) p c by (simp add: reconcileAppPrograms_def Let_def)
  have "unloadedState (snd (updateBpfAppStateCondition now BpfAppStateCondUnloaded ?st1))" for now
    unfolding unloadedState_def updateBpfAppStateCondition_programs
    using updateBpfAppStateCondition_type [of now BpfAppStateCondUnloaded ?st1] u(2)
    by (subst updateBpfAppStateCondition_frame) (auto simp: setAppLoadStatus_def updStatus_def statePrograms_def)
  with l r s' show ?thesis by blast
qed

lemma Cl_delete_unloads_witness:
  "\<exists>st1. reconcileLoad fakeEnv (Cl_ops fakeEnv fakeNode) fakeNode (mkApp ''app'' (Some 3) [] [tcProg])
       (mkState ''app'' AppLoadSuccess [tcAttached] [stateCond BpfAppStateCondSuccess]) sAttached =
     Some ((Inr (), st1), fold (\<lambda>i s. snd (UnloadBpfmanProgram fakeEnv i s)) [1] sAttached) \<and>
     (\<forall>t :: (ClBpfApplicationProgram, ClBpfApplicationProgramState) fw rst. \<exists>st2. reconcileAppPrograms fakeEnv (Cl_ops fakeEnv fakeNode) (mkApp ''app'' (Some 3) [] [tcProg]) st1 t = Some (st2, t) \<and>
          unloadedState st2)"
proof -
  let ?app = "mkApp ''app'' (Some 3) [] [tcProg]" and ?e = "fakeEnv :: ((ClBpfApplicationProgram, ClBpfApplicationProgramState) fw, _, _) KEnv"
  let ?st = "mkState ''app'' AppLoadSuccess [tcAttached] [stateCond BpfAppStateCondSuccess]"
  have "isBeingDeleted ?app" "isNodeSelected ?e (NodeSelector (app_Spec ?app)) (nd_Labels fakeNode) = Inr True"
    "statePrograms ?st = [tcAttached]" "Cl_wf tcAttached" "ProgramId tcAttached = Some 1"
    by (simp_all add: app_eval tcAttached_def tc_eval Cl_wf_def)
  with Cl_delete_unloads [of ?app ?e fakeNode ?st sAttached] show ?thesis by (simp add: List.map_filter_simps)
qed

lemma unloadLoop_done:
  "\<forall>p\<in>set ps. ProgramId p = None \<and> ProgramLinkStatus p = ProgAttachSuccess \<Longrightarrow> unloadLoop env ops ps s = Some (ps, s)"
  by (induction ps arbitrary: s) auto

text \<open>
  Once that state is what the API server returns, the next reconcile of the deleted application calls the
  daemon for nothing and writes no status: it removes the agent's finalizer from the state object, with
  everything else unchanged, and ends.
\<close>

theorem Cl_delete_releases:
  assumes "getBpfAppState env (Cl_ops env ourNode) app s = (Inr (Some st), s1)" and "unloadedState st"
    and "isBeingDeleted app" and "isNodeSelected env (NodeSelector (app_Spec app)) (nd_Labels ourNode) = Inr True"
    and "ClBpfApplicationControllerFinalizer \<in> set (om_Finalizers (st_Meta st))"
  shows "reconcileApp env (Cl_ops env ourNode) ourNode app s =
           Some (Some Done, snd (lift_world (k8s_Update env (st\<lparr>st_Meta := (st_Meta st)\<lparr>om_Finalizers :=
                                   removeAll ClBpfApplicationControllerFinalizer (om_Finalizers (st_Meta st))\<rparr>\<rparr>)) s1))"
proof -
  let ?ops = "Cl_ops env ourNode"
  from assms(2) obtain c where c: "AppLoadStatus (st_Status st) = AppUnLoadSuccess"
      "\<forall>p\<in>set (statePrograms st). ProgramId p = None \<and> ProgramLinkStatus p = ProgAttachSuccess"
      "Conditions (st_Status st) = [c]" "cond_Type c = ''Unloaded''" by (auto simp: unloadedState_def)
  have [simp]: "setAppLoadStatus AppUnLoadSuccess st = st" "setPrograms (statePrograms st) st = st"
    using c(1) by (simp_all add: setAppLoadStatus_def setPrograms_def statePrograms_def updStatus_def)
  have load: "reconcileLoad env ?ops ourNode app st s1 = Some ((Inr (), st), s1)"
    using assms(3,4) unloadLoop_done [OF c(2), of env ?ops s1] by (simp add: reconcileLoad_def unload_def)
  have progs: "reconcileAppPrograms env ?ops app st s1 = Some (st, s1)"
    using assms(3) c by (simp add: reconcileAppPrograms_def checkProgramStatus_def updateBpfAppStateCondition_def)
  obtain r t where upd: "lift_world (k8s_Update env (st\<lparr>st_Meta := (st_Meta st)\<lparr>om_Finalizers :=
      removeAll ClBpfApplicationControllerFinalizer (om_Finalizers (st_Meta st))\<rparr>\<rparr>)) s1 = (r, t)" by fastforce
  have "\<not> IsBpfAppStateConditionFailure (Conditions (st_Status st))"
    using c by (simp add: IsBpfAppStateConditionFailure_def)
  with assms(3,5) progs upd have "afterLoad env ?ops app st st s1 = Some (Some Done, t)"
    by (simp add: afterLoad_def updateBpfAppStateStatus_def removeFinalizer_def Cl_ops_def)
  with assms(1) load upd show ?thesis by (simp add: reconcileApp_def)
qed

definition tcGone :: ClusterBpfApplicationState where
  "tcGone = mkState ''app'' AppUnLoadSuccess [tcFresh\<lparr>ProgramLinkStatus := ProgAttachSuccess\<rparr>] [stateCond BpfAppStateCondUnloaded]"

lemma Cl_delete_releases_witness:
  "\<exists>s'. reconcileApp fakeEnv (Cl_ops fakeEnv fakeNode) fakeNode (mkApp ''app'' (Some 3) [] [tcProg])
          (sStart\<lparr>world := wStart\<lparr>fw_states := [tcGone]\<rparr>\<rparr>) = Some (Some Done, s') \<and>
        map (om_Finalizers \<circ> st_Meta) (fw_states (world s')) = [[]]"
proof -
  let ?app = "mkApp ''app'' (Some 3) [] [tcProg]" and ?s = "sStart\<lparr>world := wStart\<lparr>fw_states := [tcGone]\<rparr>\<rparr>"
  have a: "getBpfAppState fakeEnv (Cl_ops fakeEnv fakeNode) ?app ?s = (Inr (Some tcGone), ?s)"
    by (simp add: getBpfAppState_def tcGone_def app_eval eval_defs Cl_ops_def hasLabels_def BpfAppStateOwner_def K8sHostLabel_def)
  have b: "unloadedState tcGone"
    by (simp add: unloadedState_def tcGone_def app_eval tcFresh_def Cl_blankState_def stateCond_def mkCondition_def)
  have c: "isBeingDeleted ?app" by (simp add: app_eval)
  have d: "isNodeSelected (fakeEnv :: ((ClBpfApplicationProgram, ClBpfApplicationProgramState) fw, _, _) KEnv)
      (NodeSelector (app_Spec ?app)) (nd_Labels fakeNode) = Inr True" by (simp add: app_eval)
  have e: "ClBpfApplicationControllerFinalizer \<in> set (om_Finalizers (st_Meta tcGone))" by (simp add: tcGone_def mkState_def)
  show ?thesis
    unfolding Cl_delete_releases [OF a b c d e] by (simp add: eval_defs putState_def tcGone_def mkState_def)
qed

section \<open>Failures\<close>

text \<open>
  C36: on a node the application does not select, a cluster application whose program is a kprobe with at least one
  link makes the agent panic: \<^verbatim>\<open>reconcileLoad\<close> unloads the program, which drops its id, reports no error, and
  the reconcile goes on to attach the link.
\<close>

theorem Cl_unselected_node_panics:
  assumes "getBpfAppState env (Cl_ops env ourNode) app s = (Inr (Some st), s1)"
    and "isNodeSelected env (NodeSelector (app_Spec app)) (nd_Labels ourNode) = Inr False" and "\<not> isBeingDeleted app"
    and "SpecPrograms (app_Spec app) = [prog]" and "statePrograms st = [ps]" and "Name ps = cp_Name prog"
    and "cp_Type prog = ProgTypeKprobe" and "cs_Type ps = ProgTypeKprobe" and "cs_KProbe ps \<noteq> None"
    and "specLinks (cp_KProbe prog) \<noteq> []"
  shows "reconcileApp env (Cl_ops env ourNode) ourNode app s = None"
proof -
  let ?ops = "Cl_ops env ourNode"
  obtain info where k: "cs_KProbe ps = Some info" using assms(9) by auto
  obtain ps1 s2 where u: "unloadLoop env ?ops [ps] s1 = Some ([ps1], s2)"
    and p: "ProgramId ps1 = None" "Name ps1 = cp_Name prog" "cs_Type ps1 = ProgTypeKprobe" "cs_KProbe ps1 \<noteq> None"
  proof (cases "ProgramId ps")
    case None
    then show ?thesis using that [of "ps\<lparr>ProgramLinkStatus := ProgAttachSuccess\<rparr>" s1] assms(6,8) k by simp
  next
    case (Some i)
    obtain r t where "UnloadBpfmanProgram env i s1 = (r, t)" by fastforce
    with Some show ?thesis using assms(6,8) k
        that [of "ps\<lparr>ProgramId := None, cs_KProbe := Some (info\<lparr>Links := []\<rparr>), ProgramLinkStatus := ProgAttachSuccess\<rparr>" t]
      by (simp add: Cl_ops_def Cl_deleteLinks_def)
  qed
  then have load: "reconcileLoad env ?ops ourNode app st s1 =
      Some ((Inr (), setAppLoadStatus NotSelected (setPrograms [ps1] st)), s2)"
    using assms(2,5) by (simp add: reconcileLoad_def unload_def)
  have "Cl_reconcileProgram env ourNode prog False ps1 s2 = None"
    by (rule Cl_kprobe_unloaded) (use p assms(7,10) in simp_all)
  then have "reconcilePrograms ?ops False [prog] BpfAppStateCondSuccess [ps1] s2 = None"
    using p assms(7) by (simp add: Cl_ops_def Cl_getProgState_def Cl_reconcileProgram_def)
  with assms(3,4) have "reconcileAppPrograms env ?ops app (setAppLoadStatus NotSelected (setPrograms [ps1] st)) s2 = None"
    by (simp add: reconcileAppPrograms_def statePrograms_def setAppLoadStatus_def setPrograms_def updStatus_def)
  with assms(1) load show ?thesis by (simp add: reconcileApp_def afterLoad_def)
qed

definition kpLoaded :: ClusterBpfApplicationState where
  "kpLoaded = mkState ''kpapp'' AppLoadSuccess [kpState\<lparr>ProgramId := Some 7\<rparr>] [stateCond BpfAppStateCondSuccess]"

lemma Cl_unselected_node_panics_witness:
  "reconcileApp fakeEnv (Cl_ops fakeEnv fakeNode) fakeNode (mkApp ''kpapp'' None [(''zone'', ''b'')] [kpProg])
     (sStart\<lparr>world := wStart\<lparr>fw_states := [kpLoaded]\<rparr>\<rparr>) = None"
proof (rule Cl_unselected_node_panics [where prog = kpProg and ps = "kpState\<lparr>ProgramId := Some 7\<rparr>"])
  let ?s = "sStart\<lparr>world := wStart\<lparr>fw_states := [kpLoaded]\<rparr>\<rparr>"
  show "getBpfAppState fakeEnv (Cl_ops fakeEnv fakeNode) (mkApp ''kpapp'' None [(''zone'', ''b'')] [kpProg]) ?s =
      (Inr (Some kpLoaded), ?s)"
    by (simp add: getBpfAppState_def kpLoaded_def app_eval eval_defs Cl_ops_def hasLabels_def BpfAppStateOwner_def K8sHostLabel_def)
qed (simp_all add: app_eval kpLoaded_def kpProg_def kpState_def blankProg_def Cl_blankState_def specLinks_def)

text \<open>
  C37: when \<^verbatim>\<open>reconcileLoad\<close> of an application fails, the reconcile of the node ends with that application: the
  outcome does not depend on the applications after it in the list, which are not looked at.
\<close>

theorem load_failure_blocks_the_rest:
  assumes "getBpfAppState env ops app s = (Inr (Some st), s1)"
    and "reconcileLoad env ops ourNode app st s1 = Some ((Inl err, st'), s2)"
  shows "\<exists>r s'. r \<in> {Done, Requeue} \<and> (\<forall>apps. reconcileApps env ops ourNode (app # apps) s = Some (r, s'))"
proof -
  let ?st = "snd (updateBpfAppStateCondition (time_Now env (world s2)) BpfAppStateCondError st')"
  obtain b r stf t where u: "updateBpfAppStateStatus env ops app None ?st s2 = ((b, r, stf), t)"
    by (metis prod.collapse)
  then have b: "b = True"
    by (auto simp: updateBpfAppStateStatus_def Let_def split: sum.splits prod.splits)
  show ?thesis
  proof (cases r)
    case (Inl e)
    with assms u b have "reconcileApp env ops ourNode app s = Some (Some Requeue, t)"
      by (simp add: reconcileApp_def Let_def)
    then show ?thesis by auto
  next
    case (Inr x)
    with assms u b have "reconcileApp env ops ourNode app s = Some (Some Done, t)"
      by (simp add: reconcileApp_def Let_def)
    then show ?thesis by auto
  qed
qed


lemma empty_state_run:
  "\<exists>err. reconcileLoad fakeEnv (Cl_ops fakeEnv fakeNode) fakeNode (mkApp ''app'' None [] [tcProg])
     (mkState ''app'' AppLoadNotLoaded [] []) s = Some ((Inl err, mkState ''app'' ProgListChangedError [] []), s)"
  by (simp add: reconcileLoad_def validateProgramList_def app_eval Cl_ops_def tcProg_def blankProg_def)

lemma load_failure_blocks_the_rest_witness:
  "\<exists>r s'. r \<in> {Done, Requeue} \<and>
     (\<forall>apps. reconcileApps fakeEnv (Cl_ops fakeEnv fakeNode) fakeNode (mkApp ''app'' None [] [tcProg] # apps)
        (sStart\<lparr>world := wStart\<lparr>fw_states := [mkState ''app'' AppLoadNotLoaded [] []]\<rparr>\<rparr>) = Some (r, s'))"
proof -
  let ?s = "sStart\<lparr>world := wStart\<lparr>fw_states := [mkState ''app'' AppLoadNotLoaded [] []]\<rparr>\<rparr>"
  have g: "getBpfAppState fakeEnv (Cl_ops fakeEnv fakeNode) (mkApp ''app'' None [] [tcProg]) ?s =
      (Inr (Some (mkState ''app'' AppLoadNotLoaded [] [])), ?s)"
    by (simp add: getBpfAppState_def app_eval eval_defs Cl_ops_def hasLabels_def BpfAppStateOwner_def K8sHostLabel_def)
  from empty_state_run [of ?s] obtain err where
    "reconcileLoad fakeEnv (Cl_ops fakeEnv fakeNode) fakeNode (mkApp ''app'' None [] [tcProg])
       (mkState ''app'' AppLoadNotLoaded [] []) ?s = Some ((Inl err, mkState ''app'' ProgListChangedError [] []), ?s)" ..
  from load_failure_blocks_the_rest [OF g this] show ?thesis .
qed


section \<open>Conditions\<close>

text \<open>
  Recording a condition twice changes nothing the second time, except for the program-list error, which is
  promoted to the empty condition and therefore is written anew on every reconcile.
\<close>

theorem condition_update_idempotent:
  "updateBpfAppStateCondition now' c (snd (updateBpfAppStateCondition now c st)) =
     (if c = BpfAppStateCondProgramListChangedError \<and> fst (updateBpfAppStateCondition now c st)
      then (True, setAppStateConditions now' emptyCondition (snd (updateBpfAppStateCondition now c st)))
      else (False, snd (updateBpfAppStateCondition now c st)))"
  by (rule updateBpfAppStateCondition_again)

section \<open>Waiting for a status to arrive\<close>

text \<open>What the attempts of a poll read, in order.\<close>

fun readStates ::
    "('w, 'q, 'p, 'z) KEnv_scheme \<Rightarrow> ('q, 'p, 'w) AppOps \<Rightarrow> 'q App \<Rightarrow> nat \<Rightarrow> 'w rst \<Rightarrow> 'p AppState option list" where
  "readStates env ops app 0 s = []"
| "readStates env ops app (Suc n) s =
     (case getBpfAppState env ops app s of
        (Inl _, s) \<Rightarrow> None # readStates env ops app n s
      | (Inr r, s) \<Rightarrow> r # readStates env ops app n s)"

lemma waitForStatus_finds:
  "fst (waitForStatus env ops app i n st s) =
     (case find (\<lambda>r. \<exists>x. r = Some x \<and> UpdateCount (st_Status st) \<le>s UpdateCount (st_Status x)) (readStates env ops app n s) of
        Some (Some x) \<Rightarrow> (Inr (), x)
      | _ \<Rightarrow> (Inl (''failed to get updated BpfApplicationState status.  Attempts: '' @ show_nat (i + n)), st))"
proof (induction n arbitrary: i s)
  case (Suc n)
  obtain r t where g: "getBpfAppState env ops app s = (r, t)" by fastforce
  show ?case
  proof (cases r)
    case (Inl e)
    with g show ?thesis by (simp add: Suc.IH split: option.split)
  next
    case (Inr o')
    with g show ?thesis by (cases o') (simp_all add: Suc.IH word_sle_eq split: option.split)
  qed
qed simp

text \<open>
  The poll after a status update succeeds exactly when one of its attempts reads a state object whose update
  count, as a signed 64-bit number, is at least the one written, and then returns the first such object;
  otherwise it reports the number of attempts and keeps the object. It always ends.
\<close>

theorem status_wait_exact:
  "fst (waitForBpfAppStateStatusUpdate env ops app st s) =
     (case find (\<lambda>r. \<exists>x. r = Some x \<and> UpdateCount (st_Status st) \<le>s UpdateCount (st_Status x))
              (readStates env ops app (pollAttempts env) s) of
        Some (Some x) \<Rightarrow> (Inr (), x)
      | _ \<Rightarrow> (Inl (''failed to get updated BpfApplicationState status.  Attempts: '' @ show_nat (pollAttempts env)), st))"
  unfolding waitForBpfAppStateStatusUpdate_def waitForStatus_finds by (simp split: option.split)

end
