(* ===== verification/Operator.thy ===== *)
theory Operator
  imports Selectors
begin

text \<open>
  The operator's application controllers: \<^verbatim>\<open>controllers/bpfman-operator/common.go\<close> and its cluster
  and namespace instances (\<^verbatim>\<open>common_cluster.go\<close>, \<^verbatim>\<open>cl_application_programs.go\<close>,
  \<^verbatim>\<open>common_namespace.go\<close>, \<^verbatim>\<open>ns_application_programs.go\<close>). The operator aggregates the state objects the
  agents write, one per node, into one condition of the application, and holds the application with a
  finalizer until every agent has let go of its state object.

  The interface \<^verbatim>\<open>ApplicationReconciler\<close> is the record \<open>OperRec\<close>; what \<^verbatim>\<open>reconcileBpfApplication\<close> relies
  on from it is the locale \<open>operator_app\<close>, interpreted for both instances. \<open>verdict\<close> is the
  abstract specification the reconcile is shown to implement.
\<close>

section \<open>The API server\<close>

datatype GetError = NotFound | OtherError goerror

record ('w, 'q, 'p) OEnv =
  oe_GetApp :: "string \<Rightarrow> string \<Rightarrow> 'w \<Rightarrow> (GetError + 'q App) \<times> 'w"
  oe_GetState :: "string \<Rightarrow> string \<Rightarrow> 'w \<Rightarrow> (GetError + 'p AppState) \<times> 'w"
  oe_ListStates :: "string option \<Rightarrow> (string \<times> string) list \<Rightarrow> 'w \<Rightarrow> 'p AppState list result \<times> 'w"
  oe_ListNodes :: "'w \<Rightarrow> NodeObject list result \<times> 'w"
  oe_Update :: "'q App \<Rightarrow> 'w \<Rightarrow> unit result \<times> 'w"
  oe_StatusUpdate :: "'q App \<Rightarrow> 'w \<Rightarrow> unit result \<times> 'w"
  oe_Now :: "'w \<Rightarrow> int"

datatype OperResult = OperDone | OperRequeue | OperFailed goerror

record ('w, 'p) OperRec =
  orc_getAppStateList :: "string \<Rightarrow> string \<Rightarrow> 'w \<Rightarrow> 'p AppState list result \<times> 'w"
  orc_updateStatus :: "string \<Rightarrow> string \<Rightarrow> BpfApplicationConditionType \<Rightarrow> string \<Rightarrow> 'w \<Rightarrow> OperResult \<times> 'w"
  orc_getFinalizer :: string

definition BpfmanOperatorFinalizer :: string where
  "BpfmanOperatorFinalizer = ''bpfman.io.operator/finalizer''"

definition OwnerLabel :: string where "OwnerLabel = ''bpfman.io/ownedByProgram''"
definition HostLabel :: string where "HostLabel = ''kubernetes.io/hostname''"

section \<open>Finalizers and conditions\<close>

definition ContainsFinalizer :: "ObjectMeta \<Rightarrow> string \<Rightarrow> bool" where
  "ContainsFinalizer m f \<longleftrightarrow> f \<in> set (om_Finalizers m)"

definition oper_removeFinalizer ::
    "('w, 'q, 'p) OEnv \<Rightarrow> 'q App \<Rightarrow> string \<Rightarrow> 'w \<Rightarrow> OperResult \<times> 'w" where
  "oper_removeFinalizer env app finalizer w =
     (if finalizer \<in> set (om_Finalizers (app_Meta app)) then
        (case oe_Update env (app\<lparr>app_Meta := (app_Meta app)\<lparr>om_Finalizers :=
                 removeAll finalizer (om_Finalizers (app_Meta app))\<rparr>\<rparr>) w of
           (Inl _, w) \<Rightarrow> (OperRequeue, w)
         | (Inr _, w) \<Rightarrow> (OperDone, w))
      else (OperDone, w))"

definition addFinalizer :: "('w, 'q, 'p) OEnv \<Rightarrow> 'q App \<Rightarrow> string \<Rightarrow> 'w \<Rightarrow> OperResult \<times> 'w" where
  "addFinalizer env app finalizer w =
     (let fs = om_Finalizers (app_Meta app);
          app = app\<lparr>app_Meta := (app_Meta app)\<lparr>om_Finalizers :=
                  (if finalizer \<in> set fs then fs else fs @ [finalizer])\<rparr>\<rparr> in
      case oe_Update env app w of
        (Inl _, w) \<Rightarrow> (OperRequeue, w)
      | (Inr _, w) \<Rightarrow> (OperDone, w))"

text \<open>An application with one condition of the same type is left alone, whatever the message.\<close>

definition updateCondition ::
    "('w, 'q, 'p) OEnv \<Rightarrow> 'q App \<Rightarrow> BpfApplicationConditionType \<Rightarrow> string \<Rightarrow> 'w \<Rightarrow> OperResult \<times> 'w" where
  "updateCondition env app cond message w =
     (if length (app_Conditions app) = 1 \<and> cond_Type (hd (app_Conditions app)) = BpfAppCond_string cond
      then (OperDone, w)
      else
        (case oe_StatusUpdate env
                (app\<lparr>app_Conditions := SetStatusCondition (oe_Now env w) [] (BpfAppCond_Condition cond message)\<rparr>) w of
           (Inl _, w) \<Rightarrow> (OperRequeue, w)
         | (Inr _, w) \<Rightarrow> (OperDone, w)))"

section \<open>Reconciling an application\<close>

definition hostOf :: "'p AppState \<Rightarrow> string" where
  "hostOf st = (case map_of (om_Labels (st_Meta st)) HostLabel of None \<Rightarrow> [] | Some v \<Rightarrow> v)"

fun someNodeMissing :: "'p AppState list \<Rightarrow> NodeObject list \<Rightarrow> bool" where
  "someNodeMissing states [] = False"
| "someNodeMissing states (node # nodes) =
     (if \<exists>st\<in>set states. nd_Name node = hostOf st then someNodeMissing states nodes else True)"

text \<open>The three lists the loop over the state objects fills: pending, failed, still finalized.\<close>

fun sortStates ::
    "string \<Rightarrow> 'p AppState list \<Rightarrow> string list \<Rightarrow> string list \<Rightarrow> string list \<Rightarrow>
     string list \<times> string list \<times> string list" where
  "sortStates fin [] pending failed applied = (pending, failed, applied)"
| "sortStates fin (st # states) pending failed applied =
     (let applied = (if ContainsFinalizer (st_Meta st) fin then applied @ [om_Name (st_Meta st)] else applied);
          conditions = Conditions (st_Status st) in
      if IsBpfAppStateConditionFailure conditions
      then sortStates fin states pending (failed @ [om_Name (st_Meta st)]) applied
      else if IsBpfAppStateConditionPending conditions
      then sortStates fin states (pending @ [om_Name (st_Meta st)]) failed applied
      else sortStates fin states pending failed applied)"

text \<open>\<^verbatim>\<open>%v\<close> of a slice of strings.\<close>

fun joinBlank :: "string list \<Rightarrow> string" where
  "joinBlank [] = ''''"
| "joinBlank [x] = x"
| "joinBlank (x # xs) = x @ '' '' @ joinBlank xs"

definition showNames :: "string list \<Rightarrow> string" where
  "showNames xs = ''['' @ joinBlank xs @ '']''"

definition msgDelete :: "string list \<Rightarrow> string" where
  "msgDelete xs = ''Program Deletion failed on the following BpfApplicationState objects: '' @ showNames xs"

definition msgFailed :: "string list \<Rightarrow> string" where
  "msgFailed xs = ''BpfApplication Reconciliation failed on the following BpfApplicationState objects: '' @ showNames xs"

definition msgPending :: "string list \<Rightarrow> string" where
  "msgPending xs = ''BpfApplication Reconciliation is pending on the following BpfApplicationState objects: '' @ showNames xs"

definition appDeleted :: "'q App \<Rightarrow> bool" where
  "appDeleted app \<longleftrightarrow> om_DeletionTimestamp (app_Meta app) \<noteq> None"

definition reconcileBpfApplication ::
    "('w, 'q, 'p) OEnv \<Rightarrow> ('w, 'p) OperRec \<Rightarrow> 'q App \<Rightarrow> 'w \<Rightarrow> OperResult \<times> 'w" where
  "reconcileBpfApplication env rec app w =
     (let appName = om_Name (app_Meta app); appNamespace = om_Namespace (app_Meta app) in
      if \<not> ContainsFinalizer (app_Meta app) BpfmanOperatorFinalizer
      then addFinalizer env app BpfmanOperatorFinalizer w
      else
        (case orc_getAppStateList rec appName appNamespace w of
           (Inl _, w) \<Rightarrow> (OperDone, w)
         | (Inr states, w) \<Rightarrow>
             (case oe_ListNodes env w of
                (Inl _, w) \<Rightarrow> (OperRequeue, w)
              | (Inr nodes, w) \<Rightarrow>
                  if \<not> appDeleted app \<and> someNodeMissing states nodes
                  then orc_updateStatus rec appNamespace appName BpfAppCondPending '''' w
                  else
                    (case sortStates (orc_getFinalizer rec) states [] [] [] of
                       (pending, failed, applied) \<Rightarrow>
                         if appDeleted app then
                           if applied = [] then oper_removeFinalizer env app BpfmanOperatorFinalizer w
                           else orc_updateStatus rec appNamespace appName BpfAppCondDeleteError (msgDelete applied) w
                         else if failed \<noteq> []
                         then orc_updateStatus rec appNamespace appName BpfAppCondError (msgFailed failed) w
                         else if pending \<noteq> []
                         then orc_updateStatus rec appNamespace appName BpfAppCondPending (msgPending pending) w
                         else orc_updateStatus rec appNamespace appName BpfAppCondSuccess '''' w))))"

section \<open>The two instances\<close>

text \<open>A cluster-scoped object is read with the empty namespace and listed over all of them.\<close>

definition oper_updateStatus ::
    "('w, 'q, 'p) OEnv \<Rightarrow> string \<Rightarrow> string \<Rightarrow> BpfApplicationConditionType \<Rightarrow> string \<Rightarrow> 'w \<Rightarrow> OperResult \<times> 'w" where
  "oper_updateStatus env ns name cond message w =
     (case oe_GetApp env ns name w of
        (Inl _, w) \<Rightarrow> (OperRequeue, w)
      | (Inr app, w) \<Rightarrow> updateCondition env app cond message w)"

definition Cluster_OperRec ::
    "('w, ClBpfApplicationProgram, ClBpfApplicationProgramState) OEnv \<Rightarrow>
     ('w, ClBpfApplicationProgramState) OperRec" where
  "Cluster_OperRec env =
     \<lparr>orc_getAppStateList = (\<lambda>appName _. oe_ListStates env None [(OwnerLabel, appName)]),
      orc_updateStatus = (\<lambda>_ name. oper_updateStatus env '''' name),
      orc_getFinalizer = ''bpfman.io.clbpfapplicationcontroller/finalizer''\<rparr>"

definition Namespace_OperRec ::
    "('w, BpfApplicationProgram, BpfApplicationProgramState) OEnv \<Rightarrow> ('w, BpfApplicationProgramState) OperRec" where
  "Namespace_OperRec env =
     \<lparr>orc_getAppStateList = (\<lambda>appName appNamespace. oe_ListStates env (Some appNamespace) [(OwnerLabel, appName)]),
      orc_updateStatus = (\<lambda>namespace name. oper_updateStatus env namespace name),
      orc_getFinalizer = ''bpfman.io.nsbpfapplicationcontroller/finalizer''\<rparr>"

text \<open>
  \<^verbatim>\<open>Reconcile\<close>: the request names an application, or else a state object whose owner is looked up
  in the namespace \<open>ownerNs\<close>.
\<close>

definition GetControllerOf :: "ObjectMeta \<Rightarrow> OwnerReference option" where
  "GetControllerOf m = find or_Controller (om_OwnerReferences m)"

definition oper_Reconcile ::
    "goerror \<Rightarrow> ('w, 'q, 'p) OEnv \<Rightarrow> ('w, 'p) OperRec \<Rightarrow> (string \<Rightarrow> string) \<Rightarrow> string \<Rightarrow> string \<Rightarrow> 'w \<Rightarrow>
     OperResult \<times> 'w" where
  "oper_Reconcile noOwner env rec ownerNs ns name w =
     (case oe_GetApp env ns name w of
        (Inr app, w) \<Rightarrow> reconcileBpfApplication env rec app w
      | (Inl (OtherError _), w) \<Rightarrow> (OperDone, w)
      | (Inl NotFound, w) \<Rightarrow>
          (case oe_GetState env ns name w of
             (Inl _, w) \<Rightarrow> (OperDone, w)
           | (Inr st, w) \<Rightarrow>
               (case GetControllerOf (st_Meta st) of
                  None \<Rightarrow> (OperFailed noOwner, w)
                | Some ownerRef \<Rightarrow>
                    (case oe_GetApp env (ownerNs ns) (or_Name ownerRef) w of
                       (Inl _, w) \<Rightarrow> (OperDone, w)
                     | (Inr app, w) \<Rightarrow> reconcileBpfApplication env rec app w))))"

definition Cluster_Reconcile ::
    "('w, ClBpfApplicationProgram, ClBpfApplicationProgramState) OEnv \<Rightarrow> string \<Rightarrow> string \<Rightarrow> 'w \<Rightarrow>
     OperResult \<times> 'w" where
  "Cluster_Reconcile env =
     oper_Reconcile ''failed getting BpfApplicationState object owner'' env (Cluster_OperRec env) (\<lambda>_. '''')"

definition Namespace_Reconcile ::
    "('w, BpfApplicationProgram, BpfApplicationProgramState) OEnv \<Rightarrow> string \<Rightarrow> string \<Rightarrow> 'w \<Rightarrow> OperResult \<times> 'w" where
  "Namespace_Reconcile env =
     oper_Reconcile ''failed getting BpfNsApplicationState Object owner'' env (Namespace_OperRec env) (\<lambda>ns. ns)"

definition statusChangedPredicate :: "string \<Rightarrow> EventKind \<Rightarrow> 'p AppState \<Rightarrow> 'p AppState \<Rightarrow> bool" where
  "statusChangedPredicate finalizer kind oldObject newObject =
     (case kind of
        UpdateEvent \<Rightarrow>
          Conditions (st_Status oldObject) \<noteq> Conditions (st_Status newObject) \<or>
          ContainsFinalizer (st_Meta oldObject) finalizer \<noteq> ContainsFinalizer (st_Meta newObject) finalizer
      | _ \<Rightarrow> False)"

section \<open>The specification\<close>

datatype Verdict = Prune | Report BpfApplicationConditionType string

definition stateFailed :: "'p AppState \<Rightarrow> bool" where
  "stateFailed st \<longleftrightarrow> IsBpfAppStateConditionFailure (Conditions (st_Status st))"

definition statePending :: "'p AppState \<Rightarrow> bool" where
  "statePending st \<longleftrightarrow> \<not> stateFailed st \<and> IsBpfAppStateConditionPending (Conditions (st_Status st))"

definition namesOf :: "('p AppState \<Rightarrow> bool) \<Rightarrow> 'p AppState list \<Rightarrow> string list" where
  "namesOf P states = map (om_Name \<circ> st_Meta) (filter P states)"

definition verdict :: "string \<Rightarrow> bool \<Rightarrow> 'p AppState list \<Rightarrow> NodeObject list \<Rightarrow> Verdict" where
  "verdict fin deleted states nodes =
     (if deleted then
        if \<forall>st\<in>set states. \<not> ContainsFinalizer (st_Meta st) fin then Prune
        else Report BpfAppCondDeleteError (msgDelete (namesOf (\<lambda>st. ContainsFinalizer (st_Meta st) fin) states))
      else if \<exists>node\<in>set nodes. nd_Name node \<notin> hostOf ` set states then Report BpfAppCondPending ''''
      else if \<exists>st\<in>set states. stateFailed st then Report BpfAppCondError (msgFailed (namesOf stateFailed states))
      else if \<exists>st\<in>set states. statePending st then Report BpfAppCondPending (msgPending (namesOf statePending states))
      else Report BpfAppCondSuccess '''')"

section \<open>Lemmas\<close>

lemma someNodeMissing_iff:
  "someNodeMissing states nodes \<longleftrightarrow> (\<exists>node\<in>set nodes. nd_Name node \<notin> hostOf ` set states)"
  by (induction nodes) auto

lemma sortStates_lists:
  "sortStates fin states p f a =
     (p @ namesOf statePending states, f @ namesOf stateFailed states,
      a @ namesOf (\<lambda>st. ContainsFinalizer (st_Meta st) fin) states)"
  by (induction states arbitrary: p f a)
    (auto simp: namesOf_def stateFailed_def statePending_def Let_def)

lemma namesOf_empty: "namesOf P states = [] \<longleftrightarrow> (\<forall>st\<in>set states. \<not> P st)"
  by (auto simp: namesOf_def filter_empty_conv)

locale operator_app =
  fixes env :: "('w, 'q, 'p) OEnv" and rec :: "('w, 'p) OperRec"
    and getNs :: "string \<Rightarrow> string" and listNs :: "string \<Rightarrow> string option"
  assumes list_law: "orc_getAppStateList rec name ns = oe_ListStates env (listNs ns) [(OwnerLabel, name)]"
    and status_law: "orc_updateStatus rec ns name = oper_updateStatus env (getNs ns) name"
begin

text \<open>The reconcile of an application that has the finalizer and whose lists can be read.\<close>

lemma reconcile_verdict:
  assumes "ContainsFinalizer (app_Meta app) BpfmanOperatorFinalizer"
    and "oe_ListStates env (listNs (om_Namespace (app_Meta app))) [(OwnerLabel, om_Name (app_Meta app))] w = (Inr states, w1)"
    and "oe_ListNodes env w1 = (Inr nodes, w2)"
  shows "reconcileBpfApplication env rec app w =
    (case verdict (orc_getFinalizer rec) (appDeleted app) states nodes of
       Prune \<Rightarrow> oper_removeFinalizer env app BpfmanOperatorFinalizer w2
     | Report c m \<Rightarrow> oper_updateStatus env (getNs (om_Namespace (app_Meta app))) (om_Name (app_Meta app)) c m w2)"
  using assms
  by (simp add: reconcileBpfApplication_def list_law status_law someNodeMissing_iff sortStates_lists
      verdict_def namesOf_empty Let_def)

end

interpretation clOper: operator_app env "Cluster_OperRec env" "\<lambda>_. ''''" "\<lambda>_. None"
  for env :: "('w, ClBpfApplicationProgram, ClBpfApplicationProgramState) OEnv"
  by unfold_locales (simp_all add: Cluster_OperRec_def)

interpretation nsOper: operator_app env "Namespace_OperRec env" "\<lambda>ns. ns" Some
  for env :: "('w, BpfApplicationProgram, BpfApplicationProgramState) OEnv"
  by unfold_locales (simp_all add: Namespace_OperRec_def)

lemma verdict_success:
  "verdict fin deleted states nodes = Report BpfAppCondSuccess m \<longleftrightarrow>
     \<not> deleted \<and> m = '''' \<and> nd_Name ` set nodes \<subseteq> hostOf ` set states \<and>
     (\<forall>st\<in>set states. \<not> stateFailed st \<and> \<not> statePending st)"
  by (auto simp: verdict_def)

lemma verdict_prune:
  "verdict fin deleted states nodes = Prune \<longleftrightarrow>
     deleted \<and> (\<forall>st\<in>set states. \<not> ContainsFinalizer (st_Meta st) fin)"
  by (auto simp: verdict_def)

end
