(* ===== verification/Operator_Properties.thy ===== *)
theory Operator_Properties
  imports Operator
begin

text \<open>
  What the operator's application controllers report and when they let an application go, for the cluster and
  for the namespace instance, over the facts of the interpretations of \<open>operator_app\<close>.
\<close>

section \<open>A concrete API server\<close>

text \<open>It stores one application, the world, and answers with fixed lists of state objects and nodes.\<close>

definition fakeOper :: "'p AppState list \<Rightarrow> NodeObject list \<Rightarrow> ('q App, 'q, 'p) OEnv" where
  "fakeOper states nodes =
     \<lparr>oe_GetApp = (\<lambda>ns n w. (Inr w, w)), oe_GetState = (\<lambda>ns n w. (Inl NotFound, w)),
      oe_ListStates = (\<lambda>ns ls w. (Inr states, w)), oe_ListNodes = (\<lambda>w. (Inr nodes, w)),
      oe_Update = (\<lambda>a w. (Inr (), a)), oe_StatusUpdate = (\<lambda>a w. (Inr (), a)), oe_Now = (\<lambda>_. 5)\<rparr>"

definition operMeta :: "string \<Rightarrow> string \<Rightarrow> (string \<times> string) list \<Rightarrow> string list \<Rightarrow> int option \<Rightarrow> ObjectMeta" where
  "operMeta ns name labels fins deleted = \<lparr>om_Name = name, om_Namespace = ns, om_UID = ''u'', om_Labels = labels,
     om_Finalizers = fins, om_DeletionTimestamp = deleted, om_OwnerReferences = []\<rparr>"

definition operApp :: "string \<Rightarrow> int option \<Rightarrow> 'q App" where
  "operApp ns deleted =
     \<lparr>app_Meta = operMeta ns ''app'' [] [BpfmanOperatorFinalizer] deleted,
      app_Spec = \<lparr>NodeSelector = \<lparr>MatchLabels = [], MatchExpressions = []\<rparr>, GlobalData = [],
                  ByteCode = \<lparr>bc_Image = None, bc_Path = Some ''/prog.o''\<rparr>, MapOwnerSelector = None, SpecPrograms = []\<rparr>,
      app_Conditions = []\<rparr>"

definition operState :: "string \<Rightarrow> string list \<Rightarrow> BpfApplicationStateConditionType \<Rightarrow> 'p AppState" where
  "operState node fins c =
     \<lparr>st_Meta = operMeta '''' (''app-'' @ node) [(OwnerLabel, ''app''), (HostLabel, node)] fins None,
      st_Status = \<lparr>UpdateCount = 1, Node = node, AppLoadStatus = AppLoadSuccess, Programs = [],
                   Conditions = [BpfAppStateCond_Condition c]\<rparr>\<rparr>"

definition operNode :: "string \<Rightarrow> NodeObject" where
  "operNode n = \<lparr>nd_Name = n, nd_Labels = [], nd_Addresses = []\<rparr>"

lemmas oper_eval = fakeOper_def operApp_def operState_def operNode_def operMeta_def ContainsFinalizer_def appDeleted_def
  hostOf_def HostLabel_def OwnerLabel_def BpfmanOperatorFinalizer_def

section \<open>The verdict\<close>

text \<open>
  C10: the operator's reconcile of a cluster application that carries the finalizer implements the verdict: a deleted
  application is pruned when no state object carries the agent's finalizer and otherwise reports the ones that do;
  a live one is pending while a node has no state object, then reports the failed state objects, then the pending
  ones, and success only when there is none of either.
\<close>

theorem Cluster_verdict:
  assumes "ContainsFinalizer (app_Meta app) BpfmanOperatorFinalizer"
    and "oe_ListStates env None [(OwnerLabel, om_Name (app_Meta app))] w = (Inr states, w1)"
    and "oe_ListNodes env w1 = (Inr nodes, w2)"
  shows "reconcileBpfApplication env (Cluster_OperRec env) app w =
    (case verdict (orc_getFinalizer (Cluster_OperRec env)) (appDeleted app) states nodes of
       Prune \<Rightarrow> oper_removeFinalizer env app BpfmanOperatorFinalizer w2
     | Report c m \<Rightarrow> oper_updateStatus env '''' (om_Name (app_Meta app)) c m w2)"
  by (rule clOper.reconcile_verdict [OF assms])

lemma Cluster_verdict_witness:
  "app_Conditions (snd (reconcileBpfApplication
      (fakeOper [operState ''n1'' [] BpfAppStateCondError, operState ''n2'' [] BpfAppStateCondSuccess] [operNode ''n1'', operNode ''n2''])
      (Cluster_OperRec (fakeOper [operState ''n1'' [] BpfAppStateCondError, operState ''n2'' [] BpfAppStateCondSuccess]
         [operNode ''n1'', operNode ''n2'']))
      (operApp '''' None) (operApp '''' None))) =
   [(BpfAppCond_Condition BpfAppCondError (msgFailed [''app-n1'']))\<lparr>cond_LastTransitionTime := 5\<rparr>]"
proof -
  let ?states = "[operState ''n1'' [] BpfAppStateCondError, operState ''n2'' [] BpfAppStateCondSuccess] :: ClusterBpfApplicationState list"
  let ?nodes = "[operNode ''n1'', operNode ''n2'']" and ?app = "operApp '''' None :: ClusterBpfApplication"
  have "verdict fin False ?states ?nodes = Report BpfAppCondError (msgFailed [''app-n1''])" for fin
    by (simp add: verdict_def oper_eval stateFailed_def namesOf_def IsBpfAppStateConditionFailure_def mkCondition_def)
  with Cluster_verdict [of ?app "fakeOper ?states ?nodes" ?app ?states ?app ?nodes ?app] show ?thesis
    by (simp add: oper_eval oper_updateStatus_def updateCondition_def SetStatusCondition_def msgFailed_def mkCondition_def)
qed

text \<open>The same for a namespace application, whose state objects are looked up in its own namespace.\<close>

theorem Namespace_verdict:
  assumes "ContainsFinalizer (app_Meta app) BpfmanOperatorFinalizer"
    and "oe_ListStates env (Some (om_Namespace (app_Meta app))) [(OwnerLabel, om_Name (app_Meta app))] w = (Inr states, w1)"
    and "oe_ListNodes env w1 = (Inr nodes, w2)"
  shows "reconcileBpfApplication env (Namespace_OperRec env) app w =
    (case verdict (orc_getFinalizer (Namespace_OperRec env)) (appDeleted app) states nodes of
       Prune \<Rightarrow> oper_removeFinalizer env app BpfmanOperatorFinalizer w2
     | Report c m \<Rightarrow> oper_updateStatus env (om_Namespace (app_Meta app)) (om_Name (app_Meta app)) c m w2)"
  by (rule nsOper.reconcile_verdict [OF assms])

lemma Namespace_verdict_witness:
  "app_Conditions (snd (reconcileBpfApplication (fakeOper [] [operNode ''n1'']) (Namespace_OperRec (fakeOper [] [operNode ''n1'']))
      (operApp ''ns'' None) (operApp ''ns'' None))) =
   [(BpfAppCond_Condition BpfAppCondPending '''')\<lparr>cond_LastTransitionTime := 5\<rparr>]"
proof -
  let ?app = "operApp ''ns'' None :: BpfApplication"
  have "verdict fin False ([] :: BpfApplicationState list) [operNode ''n1''] = Report BpfAppCondPending ''''" for fin
    by (simp add: verdict_def)
  with Namespace_verdict [of ?app "fakeOper [] [operNode ''n1'']" ?app "[]" ?app "[operNode ''n1'']" ?app] show ?thesis
    by (simp add: oper_eval oper_updateStatus_def updateCondition_def SetStatusCondition_def mkCondition_def)
qed

section \<open>Letting go\<close>

text \<open>
  The operator removes its finalizer from a deleted cluster application exactly when none of the listed state objects
  carries the agents' finalizer any more; as long as one does, it records the deletion error and writes nothing else.
\<close>

theorem Cluster_prune_safe:
  assumes "ContainsFinalizer (app_Meta app) BpfmanOperatorFinalizer" and "appDeleted app"
    and "oe_ListStates env None [(OwnerLabel, om_Name (app_Meta app))] w = (Inr states, w1)"
    and "oe_ListNodes env w1 = (Inr nodes, w2)"
  shows "reconcileBpfApplication env (Cluster_OperRec env) app w =
    (if \<exists>st\<in>set states. ''bpfman.io.clbpfapplicationcontroller/finalizer'' \<in> set (om_Finalizers (st_Meta st))
     then oper_updateStatus env '''' (om_Name (app_Meta app)) BpfAppCondDeleteError
            (msgDelete (map (om_Name \<circ> st_Meta)
               (filter (\<lambda>st. ''bpfman.io.clbpfapplicationcontroller/finalizer'' \<in> set (om_Finalizers (st_Meta st))) states))) w2
     else oper_removeFinalizer env app BpfmanOperatorFinalizer w2)"
  using clOper.reconcile_verdict [OF assms(1,3,4)] assms(2)
  by (simp add: verdict_def Cluster_OperRec_def ContainsFinalizer_def namesOf_def)

lemma Cluster_prune_safe_witness:
  "om_Finalizers (app_Meta (snd (reconcileBpfApplication (fakeOper [operState ''n1'' [] BpfAppStateCondUnloaded] [operNode ''n1''])
      (Cluster_OperRec (fakeOper [operState ''n1'' [] BpfAppStateCondUnloaded] [operNode ''n1'']))
      (operApp '''' (Some 3)) (operApp '''' (Some 3))))) = []"
proof -
  let ?states = "[operState ''n1'' [] BpfAppStateCondUnloaded] :: ClusterBpfApplicationState list"
  let ?app = "operApp '''' (Some 3) :: ClusterBpfApplication"
  from Cluster_prune_safe [of ?app "fakeOper ?states [operNode ''n1'']" ?app ?states ?app "[operNode ''n1'']" ?app] show ?thesis
    by (simp add: oper_eval oper_removeFinalizer_def)
qed

text \<open>
  A condition is not refreshed: once the operator has written a condition of some type, recording the same type
  again writes nothing, whatever message it comes with, so the list of failed objects of the first time stays.
\<close>

theorem condition_message_stale:
  "updateCondition env (app\<lparr>app_Conditions := SetStatusCondition now [] (BpfAppCond_Condition cond message)\<rparr>) cond message' w =
     (OperDone, w)"
  by (cases cond) (simp_all add: updateCondition_def SetStatusCondition_def mkCondition_def)

end
