(* ===== verification/Config_Types.thy ===== *)
theory Config_Types
  imports Operator "HOL-Library.AList"
begin

text \<open>
  The data of the operator's configuration controller (\<^verbatim>\<open>controllers/bpfman-operator/config.go\<close>): the
  \<^verbatim>\<open>Config\<close> resource of \<^verbatim>\<open>apis/v1alpha1/config_types.go\<close>, the Kubernetes objects the controller writes, and the
  API server it writes them to.

  An object is its type information, its metadata and a body, one constructor of \<open>Body\<close> per kind; so
  the accessors of Go's \<^verbatim>\<open>client.Object\<close> are the fields of \<open>Obj\<close>. A field of a body that the controller neither reads
  nor writes by itself is part of an opaque remainder. Go maps are association lists compared by
  \<open>mapEqual\<close>; \<^verbatim>\<open>equality.Semantic\<close> identifies nil and empty slices and maps, so no
  distinction is needed here.
\<close>

section \<open>Go maps\<close>

type_synonym strmap = "(string \<times> string) list"

text \<open>The value a Go map lookup yields: the empty string for a missing key.\<close>

definition mapGet :: "strmap \<Rightarrow> string \<Rightarrow> string" where
  "mapGet m k = (case map_of m k of None \<Rightarrow> '''' | Some v \<Rightarrow> v)"

definition mapEqual :: "strmap \<Rightarrow> strmap \<Rightarrow> bool" where
  "mapEqual a b = list_all (\<lambda>k. map_of a k = map_of b k) (map fst a @ map fst b)"

definition maps_Copy :: "strmap \<Rightarrow> strmap \<Rightarrow> strmap" where
  "maps_Copy dst src = fold (\<lambda>(k, v). AList.update k v) src dst"

lemma mapEqual_iff: "mapEqual a b \<longleftrightarrow> map_of a = map_of b"
proof
  assume h: "mapEqual a b"
  show "map_of a = map_of b"
  proof
    fix k
    show "map_of a k = map_of b k"
    proof (cases "k \<in> fst ` set a \<union> fst ` set b")
      case True
      with h show ?thesis by (auto simp: mapEqual_def list_all_iff)
    qed (simp add: map_of_map_filter_None)
  qed
qed (simp add: mapEqual_def list_all_iff)

lemma mapEqual_refl [simp]: "mapEqual a a"
  by (simp add: mapEqual_iff)

lemma map_of_update: "map_of (AList.update k v m) = (map_of m)(k \<mapsto> v)"
  by (rule update_conv')

lemma map_of_maps_Copy:
  "map_of (maps_Copy dst src) k = (case map_of (rev src) k of None \<Rightarrow> map_of dst k | Some v \<Rightarrow> Some v)"
  unfolding maps_Copy_def
proof (induction src rule: rev_induct)
  case (snoc x xs)
  then show ?case by (cases x) (simp add: map_of_update)
qed simp

section \<open>The Config resource\<close>

record AgentSpec =
  as_HealthProbePort :: int
  as_Image :: string
  as_LogLevel :: string

record DaemonSpec =
  ds_CsiRegistrarImage :: string
  ds_Image :: string
  ds_LogLevel :: string

record ComponentOverride =
  co_APIVersion :: string
  co_Kind :: string
  co_Namespace :: string
  co_Name :: string
  co_Unmanaged :: bool

record ConfigSpec =
  cs_Agent :: AgentSpec
  cs_Configuration :: string
  cs_Daemon :: DaemonSpec
  cs_Namespace :: string
  cs_Overrides :: "ComponentOverride list"

record Config =
  cfg_Meta :: ObjectMeta
  cfg_Spec :: ConfigSpec

section \<open>Managed objects\<close>

type_synonym opaque = string

record VolumeMount =
  vm_Name :: string
  vm_MountPath :: string
  vm_ReadOnly :: bool

record Container =
  ctr_Name :: string
  ctr_Image :: string
  ctr_Args :: "string list"
  ctr_ImagePullPolicy :: string
  ctr_VolumeMounts :: "VolumeMount list"
  ctr_rest :: opaque

datatype Volume = SecretVolume string string int | OtherVolume opaque
  \<comment> \<open>Name, SecretName, DefaultMode\<close>

record DaemonSetSpec =
  ds_Annotations :: strmap
  ds_AutomountToken :: "bool option"
  ds_InitContainers :: "Container list"
  ds_Containers :: "Container list"
  ds_Volumes :: "Volume list"
  ds_rest :: opaque

record SCCSpec =
  AllowHostDirVolumePlugin :: bool
  AllowHostIPC :: bool
  AllowHostNetwork :: bool
  AllowHostPID :: bool
  AllowHostPorts :: bool
  AllowPrivilegeEscalation :: "bool option"
  AllowPrivilegedContainer :: bool
  RequiredDropCapabilities :: "string list"
  RunAsUser :: string
  SELinuxContext :: string
  SupplementalGroups :: string
  FSGroup :: string
  Volumes :: "string list"
  scc_rest :: opaque

record ServicePort =
  sp_Name :: string
  sp_Port :: int
  sp_Protocol :: string
  sp_TargetPort :: string
  sp_rest :: opaque

record ServiceSpec =
  svc_ClusterIP :: string
  svc_ClusterIPs :: "string list"
  svc_Ports :: "ServicePort list"
  svc_Selector :: strmap
  svc_rest :: opaque

record TLSConfig =
  tls_CAFile :: string
  tls_ServerName :: "string option"
  tls_InsecureSkipVerify :: "bool option"

record Endpoint =
  ep_Path :: string
  ep_Port :: string
  ep_Scheme :: "string option"
  ep_BearerTokenFile :: string
  ep_TLSConfig :: "TLSConfig option"
  ep_rest :: opaque

record ServiceMonitorSpec =
  sm_Endpoints :: "Endpoint list"
  sm_Selector :: LabelSelector
  sm_rest :: opaque

record PolicyRule =
  pr_APIGroups :: "string list"
  pr_ResourceNames :: "string list"
  pr_Resources :: "string list"
  pr_Verbs :: "string list"

record RoleRef =
  rr_APIGroup :: string
  rr_Kind :: string
  rr_Name :: string

record Subject =
  sj_Kind :: string
  sj_Name :: string
  sj_Namespace :: string

datatype Body =
    ConfigMap strmap
  | CSIDriver opaque
  | SCC SCCSpec
  | DaemonSet DaemonSetSpec
  | Service ServiceSpec
  | ServiceMonitor ServiceMonitorSpec
  | ClusterRole "PolicyRule list"
  | ClusterRoleBinding RoleRef "Subject list"
  | Role "PolicyRule list"
  | RoleBinding RoleRef "Subject list"
  | Namespace opaque

datatype Kind =
    KConfigMap | KCSIDriver | KSCC | KDaemonSet | KService | KServiceMonitor
  | KClusterRole | KClusterRoleBinding | KRole | KRoleBinding | KNamespace

fun kindOf :: "Body \<Rightarrow> Kind" where
  "kindOf (ConfigMap _) = KConfigMap"
| "kindOf (CSIDriver _) = KCSIDriver"
| "kindOf (SCC _) = KSCC"
| "kindOf (DaemonSet _) = KDaemonSet"
| "kindOf (Service _) = KService"
| "kindOf (ServiceMonitor _) = KServiceMonitor"
| "kindOf (ClusterRole _) = KClusterRole"
| "kindOf (ClusterRoleBinding _ _) = KClusterRoleBinding"
| "kindOf (Role _) = KRole"
| "kindOf (RoleBinding _ _) = KRoleBinding"
| "kindOf (Namespace _) = KNamespace"

record FullMeta = ObjectMeta +
  om_Annotations :: strmap
  om_ResourceVersion :: string

text \<open>\<^verbatim>\<open>TypeMeta\<close> is empty in an object built in code and filled in an object read from the manager's cache.\<close>

record TypeMeta =
  tm_APIVersion :: string
  tm_Kind :: string

record Obj =
  obj_TypeMeta :: TypeMeta
  obj_Meta :: FullMeta
  obj_Body :: Body

definition noTypeMeta :: TypeMeta where
  "noTypeMeta = \<lparr>tm_APIVersion = '''', tm_Kind = ''''\<rparr>"

definition mkMeta :: "string \<Rightarrow> string \<Rightarrow> strmap \<Rightarrow> FullMeta" where
  "mkMeta name ns labels =
     \<lparr>om_Name = name, om_Namespace = ns, om_UID = '''', om_Labels = labels, om_Finalizers = [],
      om_DeletionTimestamp = None, om_OwnerReferences = [], om_Annotations = [], om_ResourceVersion = ''''\<rparr>"

definition mkObj :: "string \<Rightarrow> string \<Rightarrow> strmap \<Rightarrow> Body \<Rightarrow> Obj" where
  "mkObj name ns labels body = \<lparr>obj_TypeMeta = noTypeMeta, obj_Meta = mkMeta name ns labels, obj_Body = body\<rparr>"

text \<open>What identifies an object in the cluster.\<close>

definition keyOf :: "Obj \<Rightarrow> Kind \<times> string \<times> string" where
  "keyOf x = (kindOf (obj_Body x), om_Namespace (obj_Meta x), om_Name (obj_Meta x))"

lemma keyOf_simps [simp]:
  "keyOf (mkObj name ns labels body) = (kindOf body, ns, name)"
  "obj_Body (mkObj name ns labels body) = body"
  "obj_Meta (mkObj name ns labels body) = mkMeta name ns labels"
  "obj_TypeMeta (mkObj name ns labels body) = noTypeMeta"
  by (simp_all add: keyOf_def mkObj_def mkMeta_def)

section \<open>The cluster\<close>

record GroupVersionKind =
  gvk_Group :: string
  gvk_Version :: string
  gvk_Kind :: string

text \<open>
  What the controller is given: typed reads and writes of the API server, the scheme, the owner-reference helper of
  controller-runtime, the manifests in the operator's image with their decoder, and the environment variables.
  Opening and reading a manifest fail with the same message, so they are one operation.
\<close>

record 'w CEnv =
  ce_GetConfig :: "string \<Rightarrow> 'w \<Rightarrow> (GetError + Config) \<times> 'w"
  ce_UpdateConfig :: "Config \<Rightarrow> 'w \<Rightarrow> unit result \<times> 'w"
  ce_Get :: "Kind \<times> string \<times> string \<Rightarrow> 'w \<Rightarrow> (GetError + Obj) \<times> 'w"
  ce_Create :: "Obj \<Rightarrow> 'w \<Rightarrow> unit result \<times> 'w"
  ce_Update :: "Obj \<Rightarrow> 'w \<Rightarrow> unit result \<times> 'w"
  ce_ObjectKinds :: "Kind \<Rightarrow> GroupVersionKind list result"
  ce_SetControllerReference :: "Config \<Rightarrow> FullMeta \<Rightarrow> FullMeta result"
  ce_ReadFile :: "string \<Rightarrow> string result"
  ce_Decode :: "string \<Rightarrow> Kind \<Rightarrow> Obj result"
  ce_Getenv :: "string \<Rightarrow> string"

record ConfigReconciler =
  BpfmanStandardDS :: string
  BpfmanMetricsProxyDS :: string
  CsiDriverDS :: string
  IsOpenshift :: bool
  HasMonitoring :: bool

type_synonym 'w step = "'w \<Rightarrow> (unit result \<times> 'w) go"

end
