(* ===== verification/Go_Strings.thy ===== *)
theory Go_Strings
  imports Prelude
begin

text \<open>
  Functions of the Go package \<^verbatim>\<open>strings\<close> the operator's helpers are written with, on strings of bytes: search for a
  substring, cutting at a separator, and splitting into white-space separated fields. The white space is that of ASCII.
\<close>

section \<open>Searching\<close>

definition strings_HasPrefix :: "string \<Rightarrow> string \<Rightarrow> bool" where
  "strings_HasPrefix s p \<longleftrightarrow> take (length p) s = p"

fun strings_IndexFrom :: "nat \<Rightarrow> string \<Rightarrow> string \<Rightarrow> nat option" where
  "strings_IndexFrom i [] p = (if p = [] then Some i else None)"
| "strings_IndexFrom i (c # s) p =
     (if strings_HasPrefix (c # s) p then Some i else strings_IndexFrom (Suc i) s p)"

definition strings_Index :: "string \<Rightarrow> string \<Rightarrow> nat option" where
  "strings_Index = strings_IndexFrom 0"

definition strings_Contains :: "string \<Rightarrow> string \<Rightarrow> bool" where
  "strings_Contains s p \<longleftrightarrow> strings_Index s p \<noteq> None"

lemma strings_HasPrefix_append [simp]: "strings_HasPrefix (p @ s) p"
  by (simp add: strings_HasPrefix_def)

lemma strings_HasPrefix_iff: "strings_HasPrefix s p \<longleftrightarrow> (\<exists>t. s = p @ t)"
  unfolding strings_HasPrefix_def by (metis append_eq_conv_conj append_take_drop_id)

lemma strings_IndexFrom_Some:
  "strings_IndexFrom k s p = Some i \<Longrightarrow> \<exists>u v. s = u @ p @ v \<and> i = k + length u"
proof (induction s arbitrary: k)
  case (Cons c s)
  show ?case
  proof (cases "strings_HasPrefix (c # s) p")
    case True
    then obtain v where "c # s = p @ v" by (auto simp: strings_HasPrefix_iff)
    moreover from Cons.prems True have "i = k" by simp
    ultimately have "c # s = [] @ p @ v \<and> i = k + length ([] :: string)" by simp
    then show ?thesis by blast
  next
    case False
    with Cons obtain u v where "s = u @ p @ v" "i = Suc k + length u" by force
    then have "c # s = (c # u) @ p @ v \<and> i = k + length (c # u)" by simp
    then show ?thesis by blast
  qed
qed (auto split: if_splits)

lemma strings_IndexFrom_first:
  "p \<noteq> [] \<Longrightarrow> (\<And>u' v'. s = u' @ p @ v' \<Longrightarrow> length u \<le> length u') \<Longrightarrow> s = u @ p @ v \<Longrightarrow>
     strings_IndexFrom k s p = Some (k + length u)"
proof (induction s arbitrary: k u)
  case (Cons c s)
  show ?case
  proof (cases u)
    case Nil
    with Cons.prems(3) have "strings_HasPrefix (c # s) p" by (auto simp: strings_HasPrefix_iff)
    with Nil show ?thesis by simp
  next
    case (Cons d u')
    have "\<not> strings_HasPrefix (c # s) p"
      using Cons.prems(2) [of "[]"] \<open>u = d # u'\<close> by (auto simp: strings_HasPrefix_iff)
    moreover have "strings_IndexFrom (Suc k) s p = Some (Suc k + length u')"
    proof (rule Cons.IH)
      show "p \<noteq> []" by (rule Cons.prems(1))
      show "s = u' @ p @ v" using Cons.prems(3) \<open>u = d # u'\<close> by simp
      show "length u' \<le> length w" if "s = w @ p @ v'" for w v'
        using Cons.prems(2) [of "c # w" v'] that \<open>u = d # u'\<close> by simp
    qed
    ultimately show ?thesis using \<open>u = d # u'\<close> by simp
  qed
qed simp

lemma strings_IndexFrom_None: "strings_IndexFrom k s p = None \<Longrightarrow> s \<noteq> u @ p @ v"
proof (induction s arbitrary: k u)
  case (Cons c s)
  show ?case
  proof (cases u)
    case Nil
    with Cons.prems show ?thesis by (auto split: if_splits simp: strings_HasPrefix_iff)
  next
    case (Cons d u')
    with Cons.prems Cons.IH [of "Suc k" u'] show ?thesis by (auto split: if_splits)
  qed
qed (auto split: if_splits)

lemma strings_Contains_iff: "strings_Contains s p \<longleftrightarrow> (\<exists>u v. s = u @ p @ v)"
proof (cases "strings_IndexFrom 0 s p")
  case None
  with strings_IndexFrom_None show ?thesis unfolding strings_Contains_def strings_Index_def by metis
next
  case (Some i)
  then show ?thesis using strings_IndexFrom_Some unfolding strings_Contains_def strings_Index_def by fastforce
qed

section \<open>Cutting\<close>

text \<open>\<^verbatim>\<open>SplitN(s, sep, 2)\<close> for a one-byte separator: one part when it does not occur, else the parts around the first.\<close>

definition strings_SplitN2 :: "string \<Rightarrow> char \<Rightarrow> string list" where
  "strings_SplitN2 s c =
     (if c \<in> set s then [takeWhile ((\<noteq>) c) s, tl (dropWhile ((\<noteq>) c) s)] else [s])"

lemma strings_SplitN2_append: "c \<notin> set a \<Longrightarrow> strings_SplitN2 (a @ c # b) c = [a, b]"
proof -
  assume h: "c \<notin> set a"
  then have "takeWhile ((\<noteq>) c) (a @ c # b) = a" "dropWhile ((\<noteq>) c) (a @ c # b) = c # b"
    by (auto simp: takeWhile_append dropWhile_append)
  then show ?thesis by (simp add: strings_SplitN2_def)
qed

lemma strings_SplitN2_two: "strings_SplitN2 s c = [a, b] \<longleftrightarrow> s = a @ c # b \<and> c \<notin> set a"
proof
  assume h: "strings_SplitN2 s c = [a, b]"
  then have c: "c \<in> set s" by (auto simp: strings_SplitN2_def split: if_splits)
  then have "dropWhile ((\<noteq>) c) s \<noteq> []" by (auto simp: dropWhile_eq_Nil_conv)
  moreover from this have "hd (dropWhile ((\<noteq>) c) s) = c" using hd_dropWhile [of "(\<noteq>) c" s] by simp
  ultimately have "dropWhile ((\<noteq>) c) s = c # tl (dropWhile ((\<noteq>) c) s)" by (metis list.collapse)
  then have "s = takeWhile ((\<noteq>) c) s @ c # tl (dropWhile ((\<noteq>) c) s)" by (metis takeWhile_dropWhile_id)
  with h c show "s = a @ c # b \<and> c \<notin> set a"
    by (auto simp: strings_SplitN2_def dest: set_takeWhileD)
qed (auto simp: strings_SplitN2_append)

section \<open>Fields\<close>

definition isSpace :: "char \<Rightarrow> bool" where
  "isSpace c \<longleftrightarrow> c \<in> set [CHR '' '', CHR 0x09, CHR 0x0A, CHR 0x0B, CHR 0x0C, CHR 0x0D]"

fun fieldsLoop :: "string \<Rightarrow> string \<Rightarrow> string list" where
  "fieldsLoop cur [] = (if cur = [] then [] else [cur])"
| "fieldsLoop cur (c # s) =
     (if isSpace c then (if cur = [] then fieldsLoop [] s else cur # fieldsLoop [] s)
      else fieldsLoop (cur @ [c]) s)"

definition strings_Fields :: "string \<Rightarrow> string list" where
  "strings_Fields = fieldsLoop []"

definition isWord :: "string \<Rightarrow> bool" where
  "isWord w \<longleftrightarrow> w \<noteq> [] \<and> list_all (\<lambda>c. \<not> isSpace c) w"

lemma fieldsLoop_word: "list_all (\<lambda>c. \<not> isSpace c) w \<Longrightarrow> fieldsLoop cur (w @ s) = fieldsLoop (cur @ w) s"
  by (induction w arbitrary: cur) auto

lemma strings_Fields_word: "isWord w \<Longrightarrow> strings_Fields w = [w]"
  using fieldsLoop_word [of w "[]" "[]"] by (auto simp: strings_Fields_def isWord_def)

lemma strings_Fields_Cons: "isWord w \<Longrightarrow> strings_Fields (w @ CHR '' '' # s) = w # strings_Fields s"
  using fieldsLoop_word [of w "[]" "CHR '' '' # s"]
  by (auto simp: strings_Fields_def isWord_def isSpace_def)

lemma fieldsLoop_words:
  "list_all (\<lambda>c. \<not> isSpace c) cur \<Longrightarrow> list_all isWord (fieldsLoop cur s)"
  by (induction cur s rule: fieldsLoop.induct) (auto simp: isWord_def)

lemma strings_Fields_words: "list_all isWord (strings_Fields s)"
  by (simp add: strings_Fields_def fieldsLoop_words)

end
