(* ===== verification/Config_Reconcile.thy ===== *)
theory Config_Reconcile
  imports Config_Types Go_Strings
begin

text \<open>
  The operator's configuration controller, \<^verbatim>\<open>controllers/bpfman-operator/config.go\<close>: from one \<^verbatim>\<open>Config\<close> resource it
  keeps the config map, the CSI driver, the daemon sets and, depending on the platform, the monitoring and OpenShift
  objects of a bpfman deployment in the cluster. One definition per function of the file, in its order of use; the
  closure \<^verbatim>\<open>needsUpdate\<close> of each resource answers with the desired object too, because it may adjust it.
\<close>

section \<open>Names\<close>

named_theorems config_names \<open>the object names of internal/constants.go\<close>

definition BpfmanCmName :: string where [config_names]: "BpfmanCmName = ''bpfman-config''"
definition BpfmanCsiDriverName :: string where [config_names]: "BpfmanCsiDriverName = ''csi.bpfman.io''"
definition BpfmanRestrictedSccName :: string where [config_names]: "BpfmanRestrictedSccName = ''bpfman-restricted''"
definition BpfmanDsName :: string where [config_names]: "BpfmanDsName = ''bpfman-daemon''"
definition BpfmanMetricsProxyDsName :: string where
  [config_names]: "BpfmanMetricsProxyDsName = ''bpfman-metrics-proxy''"
definition BpfmanAgentServiceMonitorName :: string where
  [config_names]: "BpfmanAgentServiceMonitorName = ''bpfman-agent-metrics-monitor''"
definition BpfmanControllerServiceMonitorName :: string where
  [config_names]: "BpfmanControllerServiceMonitorName = ''bpfman-controller-manager-metrics-monitor''"
definition BpfmanAgentMetricsServiceName :: string where
  [config_names]: "BpfmanAgentMetricsServiceName = ''bpfman-agent-metrics-service''"
definition BpfmanControllerMetricsServiceName :: string where
  [config_names]: "BpfmanControllerMetricsServiceName = ''bpfman-controller-manager-metrics-service''"
definition BpfmanContainerName :: string where [config_names]: "BpfmanContainerName = ''bpfman''"
definition BpfmanAgentContainerName :: string where [config_names]: "BpfmanAgentContainerName = ''bpfman-agent''"
definition BpfmanInitContainerName :: string where [config_names]: "BpfmanInitContainerName = ''mount-bpffs''"
definition BpfmanCsiDriverRegistrarName :: string where
  [config_names]: "BpfmanCsiDriverRegistrarName = ''node-driver-registrar''"
definition BpfmanMetricsProxyContainer :: string where
  [config_names]: "BpfmanMetricsProxyContainer = ''metrics-proxy''"
definition BpfmanPrivilegedSccClusterRoleBindingName :: string where
  [config_names]: "BpfmanPrivilegedSccClusterRoleBindingName = ''bpfman-privileged-scc''"
definition BpfmanUserClusterRoleName :: string where [config_names]: "BpfmanUserClusterRoleName = ''bpfman-user''"
definition BpfmanPrometheusClusterRoleBindingName :: string where
  [config_names]: "BpfmanPrometheusClusterRoleBindingName = ''bpfman-prometheus-metrics-reader''"
definition BpfmanPrometheusRoleName :: string where [config_names]: "BpfmanPrometheusRoleName = ''bpfman-prometheus-k8s''"
definition BpfmanPrometheusRoleBindingName :: string where
  [config_names]: "BpfmanPrometheusRoleBindingName = ''bpfman-prometheus-k8s''"
definition BpfmanTOML :: string where "BpfmanTOML = ''bpfman.toml''"
definition BpfmanLogLevel :: string where "BpfmanLogLevel = ''bpfman.log.level''"
definition BpfmanAgentLogLevel :: string where "BpfmanAgentLogLevel = ''bpfman.agent.log.level''"
definition APIPrefix :: string where "APIPrefix = ''bpfman.io''"
definition BpfmanConfigFinalizer :: string where "BpfmanConfigFinalizer = ''bpfman.io/config-finalizer''"

section \<open>Overrides\<close>

text \<open>\<^verbatim>\<open>schema.ParseGroupVersion\<close>, the group only: nothing, a version, or a group and a version around one slash.\<close>

definition ParseGroupVersion :: "string \<Rightarrow> string result" where
  "ParseGroupVersion gv =
     (if gv = '''' \<or> gv = ''/'' then Inr ''''
      else if count_list gv (CHR ''/'') = 0 then Inr ''''
      else if count_list gv (CHR ''/'') = 1 then Inr (takeWhile ((\<noteq>) (CHR ''/'')) gv)
      else Inl (''unexpected GroupVersion string: '' @ gv))"

fun overrideLoop :: "GroupVersionKind \<Rightarrow> Obj \<Rightarrow> ComponentOverride list \<Rightarrow> bool" where
  "overrideLoop resourceGVK resource [] = False"
| "overrideLoop resourceGVK resource (override # overrides) =
     (if \<not> co_Unmanaged override then overrideLoop resourceGVK resource overrides
      else
        (case ParseGroupVersion (co_APIVersion override) of
           Inl _ \<Rightarrow> overrideLoop resourceGVK resource overrides
         | Inr overrideGroup \<Rightarrow>
             if co_Kind override = gvk_Kind resourceGVK \<and> overrideGroup = gvk_Group resourceGVK \<and>
                co_Namespace override = om_Namespace (obj_Meta resource) \<and>
                co_Name override = om_Name (obj_Meta resource)
             then True
             else overrideLoop resourceGVK resource overrides))"

definition isOverridden :: "'w CEnv \<Rightarrow> Obj \<Rightarrow> ComponentOverride list \<Rightarrow> bool" where
  "isOverridden env resource overrides =
     (case ce_ObjectKinds env (kindOf (obj_Body resource)) of
        Inl _ \<Rightarrow> False
      | Inr [] \<Rightarrow> False
      | Inr (resourceGVK # _) \<Rightarrow> overrideLoop resourceGVK resource overrides)"

section \<open>Ensuring one resource\<close>

definition assureResource ::
    "'w CEnv \<Rightarrow> Config \<Rightarrow> Obj \<Rightarrow> (Obj \<Rightarrow> Obj \<Rightarrow> bool \<times> Obj) \<Rightarrow> 'w \<Rightarrow> unit result \<times> 'w" where
  "assureResource env bpfmanConfig resource needsUpdate w =
     (if isOverridden env resource (cs_Overrides (cfg_Spec bpfmanConfig)) then (Inr (), w)
      else
        (case ce_SetControllerReference env bpfmanConfig (obj_Meta resource) of
           Inl err \<Rightarrow> (Inl err, w)
         | Inr m \<Rightarrow>
             (let resource = resource\<lparr>obj_Meta := m\<rparr> in
              case ce_Get env (keyOf resource) w of
                (Inl NotFound, w) \<Rightarrow> ce_Create env resource w
              | (Inl (OtherError err), w) \<Rightarrow> (Inl err, w)
              | (Inr existingResource, w) \<Rightarrow>
                  (case needsUpdate existingResource resource of
                     (differs, resource) \<Rightarrow>
                       if differs \<or>
                          om_OwnerReferences (obj_Meta existingResource) \<noteq> om_OwnerReferences (obj_Meta resource)
                       then ce_Update env (resource\<lparr>obj_Meta := (obj_Meta resource)
                              \<lparr>om_ResourceVersion := om_ResourceVersion (obj_Meta existingResource)\<rparr>\<rparr>) w
                       else (Inr (), w)))))"

text \<open>\<^verbatim>\<open>if err := a(); err != nil { return err }\<close>, then \<open>b\<close>.\<close>

definition andThen :: "'w step \<Rightarrow> 'w step \<Rightarrow> 'w step" where
  "andThen a b w =
     do { (r, w) \<leftarrow> a w;
          case r of Inl err \<Rightarrow> Some (Inl err, w) | Inr _ \<Rightarrow> b w }"

text \<open>A manifest that decodes to an object of another kind fails the type assertion: a panic.\<close>

definition loadManifest :: "'w CEnv \<Rightarrow> Kind \<Rightarrow> string \<Rightarrow> string \<Rightarrow> Obj result go" where
  "loadManifest env kind path name =
     (let failed = (\<lambda>err. Some (Inl (''load '' @ name @ '' from '' @ path @ '': '' @ err))) in
      case ce_ReadFile env path of
        Inl err \<Rightarrow> failed err
      | Inr b \<Rightarrow>
          (case ce_Decode env b kind of
             Inl err \<Rightarrow> failed err
           | Inr obj \<Rightarrow>
               if kindOf (obj_Body obj) = kind
               then Some (Inr (obj\<lparr>obj_Meta := (obj_Meta obj)\<lparr>om_Name := name\<rparr>\<rparr>))
               else panic))"

section \<open>The update tests\<close>

text \<open>
  \<^verbatim>\<open>Get\<close> fills an object of the desired object's type, so only bodies of one kind are ever compared.
\<close>

definition dsSpecEqual :: "DaemonSetSpec \<Rightarrow> DaemonSetSpec \<Rightarrow> bool" where
  "dsSpecEqual a b \<longleftrightarrow>
     mapEqual (ds_Annotations a) (ds_Annotations b) \<and> a\<lparr>ds_Annotations := []\<rparr> = b\<lparr>ds_Annotations := []\<rparr>"

definition selectorEqual :: "LabelSelector \<Rightarrow> LabelSelector \<Rightarrow> bool" where
  "selectorEqual a b \<longleftrightarrow> mapEqual (MatchLabels a) (MatchLabels b) \<and> MatchExpressions a = MatchExpressions b"

fun copyPolicies :: "Container list \<Rightarrow> Container list \<Rightarrow> Container list" where
  "copyPolicies src [] = []"
| "copyPolicies [] dst = dst"
| "copyPolicies (s # src) (d # dst) =
     (if ctr_ImagePullPolicy d = '''' then d\<lparr>ctr_ImagePullPolicy := ctr_ImagePullPolicy s\<rparr> else d)
     # copyPolicies src dst"

definition copyImagePullPolicy :: "DaemonSetSpec \<Rightarrow> DaemonSetSpec \<Rightarrow> DaemonSetSpec" where
  "copyImagePullPolicy src dst =
     dst\<lparr>ds_InitContainers := copyPolicies (ds_InitContainers src) (ds_InitContainers dst),
         ds_Containers := copyPolicies (ds_Containers src) (ds_Containers dst)\<rparr>"

definition cmNeedsUpdate :: "Obj \<Rightarrow> Obj \<Rightarrow> bool \<times> Obj" where
  "cmNeedsUpdate existing desired =
     (case (obj_Body existing, obj_Body desired) of
        (ConfigMap a, ConfigMap b) \<Rightarrow> (\<not> mapEqual a b, desired)
      | _ \<Rightarrow> (True, desired))"

definition csiNeedsUpdate :: "Obj \<Rightarrow> Obj \<Rightarrow> bool \<times> Obj" where
  "csiNeedsUpdate existing desired =
     (case (obj_Body existing, obj_Body desired) of
        (CSIDriver a, CSIDriver b) \<Rightarrow> (a \<noteq> b, desired)
      | _ \<Rightarrow> (True, desired))"

text \<open>The copies are compared without their metadata but with their \<^verbatim>\<open>TypeMeta\<close>.\<close>

definition sccNeedsUpdate :: "Obj \<Rightarrow> Obj \<Rightarrow> bool \<times> Obj" where
  "sccNeedsUpdate existing desired =
     (case (obj_Body existing, obj_Body desired) of
        (SCC a, SCC b) \<Rightarrow> (\<not> (obj_TypeMeta existing = obj_TypeMeta desired \<and> a = b), desired)
      | _ \<Rightarrow> (True, desired))"

definition dsNeedsUpdate :: "Obj \<Rightarrow> Obj \<Rightarrow> bool \<times> Obj" where
  "dsNeedsUpdate existing desired =
     (case (obj_Body existing, obj_Body desired) of
        (DaemonSet a, DaemonSet b) \<Rightarrow>
          (let b = copyImagePullPolicy a b in (\<not> dsSpecEqual a b, desired\<lparr>obj_Body := DaemonSet b\<rparr>))
      | _ \<Rightarrow> (True, desired))"

definition svcNeedsUpdate :: "Obj \<Rightarrow> Obj \<Rightarrow> bool \<times> Obj" where
  "svcNeedsUpdate existing desired =
     (case (obj_Body existing, obj_Body desired) of
        (Service a, Service b) \<Rightarrow>
          (let b = b\<lparr>svc_ClusterIP := svc_ClusterIP a, svc_ClusterIPs := svc_ClusterIPs a\<rparr> in
           (\<not> mapEqual (om_Labels (obj_Meta existing)) (om_Labels (obj_Meta desired)) \<or>
            svc_Ports a \<noteq> svc_Ports b \<or> \<not> mapEqual (svc_Selector a) (svc_Selector b),
            desired\<lparr>obj_Body := Service b\<rparr>))
      | _ \<Rightarrow> (True, desired))"

definition smNeedsUpdate :: "Obj \<Rightarrow> Obj \<Rightarrow> bool \<times> Obj" where
  "smNeedsUpdate existing desired =
     (case (obj_Body existing, obj_Body desired) of
        (ServiceMonitor a, ServiceMonitor b) \<Rightarrow>
          (sm_Endpoints a \<noteq> sm_Endpoints b \<or> \<not> selectorEqual (sm_Selector a) (sm_Selector b), desired)
      | _ \<Rightarrow> (True, desired))"

definition bindingNeedsUpdate :: "Obj \<Rightarrow> Obj \<Rightarrow> bool \<times> Obj" where
  "bindingNeedsUpdate existing desired =
     (case (obj_Body existing, obj_Body desired) of
        (ClusterRoleBinding r s, ClusterRoleBinding r' s') \<Rightarrow> (r \<noteq> r' \<or> s \<noteq> s', desired)
      | (RoleBinding r s, RoleBinding r' s') \<Rightarrow> (r \<noteq> r' \<or> s \<noteq> s', desired)
      | _ \<Rightarrow> (True, desired))"

definition roleNeedsUpdate :: "Obj \<Rightarrow> Obj \<Rightarrow> bool \<times> Obj" where
  "roleNeedsUpdate existing desired =
     (case (obj_Body existing, obj_Body desired) of
        (ClusterRole a, ClusterRole b) \<Rightarrow> (a \<noteq> b, desired)
      | (Role a, Role b) \<Rightarrow> (a \<noteq> b, desired)
      | _ \<Rightarrow> (True, desired))"


section \<open>Configuring the daemon sets\<close>

definition healthProbeAddress :: "int \<Rightarrow> string" where
  "healthProbeAddress healthProbePort =
     (if healthProbePort \<le> 0 \<or> healthProbePort > 65535 then '''' else '':'' @ show_int healthProbePort)"

definition probeArg :: "string \<Rightarrow> string \<Rightarrow> string" where
  "probeArg addr arg =
     (if addr \<noteq> '''' \<and> strings_Contains arg ''health-probe-bind-address''
      then ''--health-probe-bind-address='' @ addr else arg)"

definition configureContainer :: "ConfigSpec \<Rightarrow> Container \<Rightarrow> Container" where
  "configureContainer spec c =
     (if ctr_Name c = BpfmanContainerName then c\<lparr>ctr_Image := ds_Image (cs_Daemon spec)\<rparr>
      else if ctr_Name c = BpfmanAgentContainerName
      then c\<lparr>ctr_Image := as_Image (cs_Agent spec),
             ctr_Args := map (probeArg (healthProbeAddress (as_HealthProbePort (cs_Agent spec)))) (ctr_Args c)\<rparr>
      else if ctr_Name c = BpfmanCsiDriverRegistrarName \<and> ds_CsiRegistrarImage (cs_Daemon spec) \<noteq> ''''
      then c\<lparr>ctr_Image := ds_CsiRegistrarImage (cs_Daemon spec)\<rparr>
      else c)"

definition setPullPolicy :: "string \<Rightarrow> Container list \<Rightarrow> Container list" where
  "setPullPolicy p cs = (if p \<noteq> '''' then map (ctr_ImagePullPolicy_update (\<lambda>_. p)) cs else cs)"

definition configAnnotations :: "ConfigSpec \<Rightarrow> strmap" where
  "configAnnotations spec =
     [(APIPrefix @ ''.'' @ BpfmanLogLevel, ds_LogLevel (cs_Daemon spec)),
      (APIPrefix @ ''.'' @ BpfmanAgentLogLevel, as_LogLevel (cs_Agent spec)),
      (APIPrefix @ ''.'' @ BpfmanTOML, cs_Configuration spec)]"

definition configureBpfmanDsSpec :: "'w CEnv \<Rightarrow> ConfigSpec \<Rightarrow> DaemonSetSpec \<Rightarrow> DaemonSetSpec" where
  "configureBpfmanDsSpec env spec ds =
     (let p = ce_Getenv env ''BPFMAN_IMAGE_PULL_POLICY'' in
      ds\<lparr>ds_Annotations := maps_Copy (ds_Annotations ds) (configAnnotations spec),
         ds_AutomountToken := Some True,
         ds_InitContainers := setPullPolicy p (map (\<lambda>c.
           if ctr_Name c = BpfmanInitContainerName then c\<lparr>ctr_Image := as_Image (cs_Agent spec)\<rparr> else c)
           (ds_InitContainers ds)),
         ds_Containers := setPullPolicy p (map (configureContainer spec) (ds_Containers ds))\<rparr>)"

definition placeObj :: "string \<Rightarrow> string \<Rightarrow> Obj \<Rightarrow> Obj" where
  "placeObj name ns x = x\<lparr>obj_Meta := (obj_Meta x)\<lparr>om_Name := name, om_Namespace := ns\<rparr>\<rparr>"

definition configureBpfmanDs :: "'w CEnv \<Rightarrow> Obj \<Rightarrow> Config \<Rightarrow> Obj" where
  "configureBpfmanDs env staticBpfmanDS config =
     (let x = placeObj BpfmanDsName (cs_Namespace (cfg_Spec config)) staticBpfmanDS in
      case obj_Body x of
        DaemonSet ds \<Rightarrow> x\<lparr>obj_Body := DaemonSet (configureBpfmanDsSpec env (cfg_Spec config) ds)\<rparr>
      | _ \<Rightarrow> x)"

definition tlsMount :: VolumeMount where
  "tlsMount = \<lparr>vm_Name = ''agent-metrics-tls'', vm_MountPath = ''/tmp/k8s-webhook-server/serving-certs'',
     vm_ReadOnly = True\<rparr>"

definition configureProxyContainer :: "bool \<Rightarrow> string \<Rightarrow> Container \<Rightarrow> Container" where
  "configureProxyContainer isOpenshift img c =
     (if ctr_Name c = BpfmanMetricsProxyContainer
      then c\<lparr>ctr_Image := img,
             ctr_VolumeMounts := (if isOpenshift then ctr_VolumeMounts c @ [tlsMount] else ctr_VolumeMounts c)\<rparr>
      else c)"

definition servingCertKey :: string where
  "servingCertKey = ''service.beta.openshift.io/serving-cert-secret-name''"

definition configureMetricsProxyDsSpec ::
    "'w CEnv \<Rightarrow> ConfigSpec \<Rightarrow> bool \<Rightarrow> DaemonSetSpec \<Rightarrow> DaemonSetSpec" where
  "configureMetricsProxyDsSpec env spec isOpenshift ds =
     ds\<lparr>ds_Annotations := (if isOpenshift then AList.update servingCertKey ''agent-metrics-tls'' (ds_Annotations ds)
                          else ds_Annotations ds),
        ds_AutomountToken := Some True,
        ds_Containers := setPullPolicy (ce_Getenv env ''BPFMAN_IMAGE_PULL_POLICY'')
          (map (configureProxyContainer isOpenshift (as_Image (cs_Agent spec))) (ds_Containers ds)),
        ds_Volumes := (if isOpenshift
                       then ds_Volumes ds @ [SecretVolume ''agent-metrics-tls'' ''agent-metrics-tls'' 420]
                       else ds_Volumes ds)\<rparr>"

definition configureMetricsProxyDs :: "'w CEnv \<Rightarrow> Obj \<Rightarrow> Config \<Rightarrow> bool \<Rightarrow> Obj" where
  "configureMetricsProxyDs env staticMetricsProxyDS config isOpenshift =
     (let x = placeObj BpfmanMetricsProxyDsName (cs_Namespace (cfg_Spec config)) staticMetricsProxyDS in
      case obj_Body x of
        DaemonSet ds \<Rightarrow> x\<lparr>obj_Body := DaemonSet (configureMetricsProxyDsSpec env (cfg_Spec config) isOpenshift ds)\<rparr>
      | _ \<Rightarrow> x)"

section \<open>The resources\<close>

definition desiredCM :: "Config \<Rightarrow> Obj" where
  "desiredCM config =
     mkObj BpfmanCmName (cs_Namespace (cfg_Spec config)) []
       (ConfigMap [(BpfmanTOML, cs_Configuration (cfg_Spec config)),
                   (BpfmanAgentLogLevel, as_LogLevel (cs_Agent (cfg_Spec config))),
                   (BpfmanLogLevel, ds_LogLevel (cs_Daemon (cfg_Spec config)))])"

definition reconcileCM :: "'w CEnv \<Rightarrow> Config \<Rightarrow> 'w step" where
  "reconcileCM env config w = Some (assureResource env config (desiredCM config) cmNeedsUpdate w)"

definition reconcileCSIDriver :: "'w CEnv \<Rightarrow> ConfigReconciler \<Rightarrow> Config \<Rightarrow> 'w step" where
  "reconcileCSIDriver env r config w =
     do { loaded \<leftarrow> loadManifest env KCSIDriver (CsiDriverDS r) BpfmanCsiDriverName;
          Some (case loaded of
                  Inl err \<Rightarrow> (Inl err, w)
                | Inr csiDriver \<Rightarrow> assureResource env config csiDriver csiNeedsUpdate w) }"

definition bpfmanRestrictedSCC :: Obj where
  "bpfmanRestrictedSCC =
     mkObj BpfmanRestrictedSccName '''' []
       (SCC \<lparr>AllowHostDirVolumePlugin = False, AllowHostIPC = False, AllowHostNetwork = False, AllowHostPID = False,
             AllowHostPorts = False, AllowPrivilegeEscalation = Some False, AllowPrivilegedContainer = False,
             RequiredDropCapabilities = [''ALL''], RunAsUser = ''MustRunAsNonRoot'', SELinuxContext = ''RunAsAny'',
             SupplementalGroups = ''MustRunAs'', FSGroup = ''RunAsAny'',
             Volumes = [''configMap'', ''csi'', ''downwardAPI'', ''emptyDir'', ''ephemeral'',
                        ''persistentVolumeClaim'', ''projected'', ''secret''],
             scc_rest = ''''\<rparr>)"

definition reconcileSCC :: "'w CEnv \<Rightarrow> ConfigReconciler \<Rightarrow> Config \<Rightarrow> 'w step" where
  "reconcileSCC env r config w =
     Some (if IsOpenshift r then assureResource env config bpfmanRestrictedSCC sccNeedsUpdate w else (Inr (), w))"

definition reconcileStandardDS :: "'w CEnv \<Rightarrow> ConfigReconciler \<Rightarrow> Config \<Rightarrow> 'w step" where
  "reconcileStandardDS env r config w =
     do { loaded \<leftarrow> loadManifest env KDaemonSet (BpfmanStandardDS r) BpfmanDsName;
          Some (case loaded of
                  Inl err \<Rightarrow> (Inl err, w)
                | Inr bpfmanDS \<Rightarrow>
                    assureResource env config (configureBpfmanDs env bpfmanDS config) dsNeedsUpdate w) }"

definition reconcileMetricsProxyDS :: "'w CEnv \<Rightarrow> ConfigReconciler \<Rightarrow> Config \<Rightarrow> 'w step" where
  "reconcileMetricsProxyDS env r config w =
     (if \<not> HasMonitoring r then Some (Inr (), w)
      else do { loaded \<leftarrow> loadManifest env KDaemonSet (BpfmanMetricsProxyDS r) BpfmanMetricsProxyDsName;
                Some (case loaded of
                        Inl err \<Rightarrow> (Inl err, w)
                      | Inr metricsProxyDS \<Rightarrow>
                          assureResource env config
                            (configureMetricsProxyDs env metricsProxyDS config (IsOpenshift r)) dsNeedsUpdate w) })"

definition metricsPort :: ServicePort where
  "metricsPort = \<lparr>sp_Name = ''https-metrics'', sp_Port = 8443, sp_Protocol = ''TCP'',
     sp_TargetPort = ''https-metrics'', sp_rest = ''''\<rparr>"

definition agentSvc :: "Config \<Rightarrow> Obj" where
  "agentSvc config =
     mkObj BpfmanAgentMetricsServiceName (cs_Namespace (cfg_Spec config))
       [(''app.kubernetes.io/name'', ''agent-metrics-service''),
        (''app.kubernetes.io/instance'', ''agent-metrics-service''),
        (''app.kubernetes.io/component'', ''metrics''),
        (''app.kubernetes.io/created-by'', ''bpfman-operator''),
        (''app.kubernetes.io/part-of'', ''bpfman-operator''),
        (''app.kubernetes.io/managed-by'', ''bpfman-operator'')]
       (Service \<lparr>svc_ClusterIP = ''None'', svc_ClusterIPs = [], svc_Ports = [metricsPort],
                 svc_Selector = [(''name'', ''bpfman-metrics-proxy'')], svc_rest = ''''\<rparr>)"

definition controllerSvc :: "Config \<Rightarrow> Obj" where
  "controllerSvc config =
     mkObj BpfmanControllerMetricsServiceName (cs_Namespace (cfg_Spec config))
       [(''control-plane'', ''controller-manager''),
        (''app.kubernetes.io/name'', ''service''),
        (''app.kubernetes.io/instance'', ''controller-manager-metrics-service''),
        (''app.kubernetes.io/component'', ''metrics''),
        (''app.kubernetes.io/created-by'', ''bpfman-operator''),
        (''app.kubernetes.io/part-of'', ''bpfman-operator''),
        (''app.kubernetes.io/managed-by'', ''bpfman-operator'')]
       (Service \<lparr>svc_ClusterIP = '''', svc_ClusterIPs = [], svc_Ports = [metricsPort],
                 svc_Selector = [(''control-plane'', ''controller-manager'')], svc_rest = ''''\<rparr>)"

definition reconcileMetricsServices :: "'w CEnv \<Rightarrow> ConfigReconciler \<Rightarrow> Config \<Rightarrow> 'w step" where
  "reconcileMetricsServices env r config =
     (if \<not> HasMonitoring r then (\<lambda>w. Some (Inr (), w))
      else andThen (\<lambda>w. Some (assureResource env config (agentSvc config) svcNeedsUpdate w))
                   (\<lambda>w. Some (assureResource env config (controllerSvc config) svcNeedsUpdate w)))"

definition serviceMonitorTLSConfig :: "bool \<Rightarrow> string \<Rightarrow> string \<Rightarrow> TLSConfig" where
  "serviceMonitorTLSConfig isOpenshift serviceName namespace =
     (if isOpenshift
      then \<lparr>tls_CAFile = ''/etc/prometheus/configmaps/serving-certs-ca-bundle/service-ca.crt'',
            tls_ServerName = Some (serviceName @ ''.'' @ namespace @ ''.svc''),
            tls_InsecureSkipVerify = Some False\<rparr>
      else \<lparr>tls_CAFile = '''', tls_ServerName = None, tls_InsecureSkipVerify = Some True\<rparr>)"

definition metricsEndpoint :: "string \<Rightarrow> TLSConfig \<Rightarrow> Endpoint" where
  "metricsEndpoint path tls =
     \<lparr>ep_Path = path, ep_Port = ''https-metrics'', ep_Scheme = Some ''https'',
      ep_BearerTokenFile = ''/var/run/secrets/kubernetes.io/serviceaccount/token'',
      ep_TLSConfig = Some tls, ep_rest = ''''\<rparr>"

definition agentSM :: "bool \<Rightarrow> Config \<Rightarrow> Obj" where
  "agentSM isOpenshift config =
     mkObj BpfmanAgentServiceMonitorName (cs_Namespace (cfg_Spec config))
       [(''app.kubernetes.io/component'', ''metrics''),
        (''app.kubernetes.io/created-by'', ''bpfman-operator''),
        (''app.kubernetes.io/instance'', ''agent-metrics-monitor''),
        (''app.kubernetes.io/managed-by'', ''bpfman-operator''),
        (''app.kubernetes.io/name'', ''agent-metrics-monitor''),
        (''app.kubernetes.io/part-of'', ''bpfman-operator'')]
       (ServiceMonitor
          \<lparr>sm_Endpoints = [metricsEndpoint ''/agent-metrics''
             (serviceMonitorTLSConfig isOpenshift ''bpfman-agent-metrics-service'' (cs_Namespace (cfg_Spec config)))],
           sm_Selector = \<lparr>MatchLabels = [(''app.kubernetes.io/component'', ''metrics''),
                                         (''app.kubernetes.io/instance'', ''agent-metrics-service''),
                                         (''app.kubernetes.io/name'', ''agent-metrics-service'')],
                          MatchExpressions = []\<rparr>,
           sm_rest = ''''\<rparr>)"

definition controllerSM :: "Config \<Rightarrow> Obj" where
  "controllerSM config =
     mkObj BpfmanControllerServiceMonitorName (cs_Namespace (cfg_Spec config))
       [(''app.kubernetes.io/component'', ''metrics''),
        (''app.kubernetes.io/created-by'', ''bpfman-operator''),
        (''app.kubernetes.io/instance'', ''controller-manager-metrics-monitor''),
        (''app.kubernetes.io/managed-by'', ''bpfman-operator''),
        (''app.kubernetes.io/name'', ''servicemonitor''),
        (''app.kubernetes.io/part-of'', ''bpfman-operator''),
        (''control-plane'', ''controller-manager'')]
       (ServiceMonitor
          \<lparr>sm_Endpoints = [metricsEndpoint ''/metrics''
             \<lparr>tls_CAFile = '''', tls_ServerName = None, tls_InsecureSkipVerify = Some True\<rparr>],
           sm_Selector = \<lparr>MatchLabels = [(''control-plane'', ''controller-manager'')], MatchExpressions = []\<rparr>,
           sm_rest = ''''\<rparr>)"

definition reconcileServiceMonitors :: "'w CEnv \<Rightarrow> ConfigReconciler \<Rightarrow> Config \<Rightarrow> 'w step" where
  "reconcileServiceMonitors env r config =
     (if \<not> HasMonitoring r then (\<lambda>w. Some (Inr (), w))
      else andThen (\<lambda>w. Some (assureResource env config (agentSM (IsOpenshift r) config) smNeedsUpdate w))
                   (\<lambda>w. Some (assureResource env config (controllerSM config) smNeedsUpdate w)))"

definition getErrorText :: "GetError \<Rightarrow> goerror" where
  "getErrorText e = (case e of NotFound \<Rightarrow> ''not found'' | OtherError err \<Rightarrow> err)"

definition reconcileAgentMetricsServiceAnnotation :: "'w CEnv \<Rightarrow> ConfigReconciler \<Rightarrow> Config \<Rightarrow> 'w step" where
  "reconcileAgentMetricsServiceAnnotation env r config w =
     Some (if \<not> IsOpenshift r then (Inr (), w)
       else
         (let svc = mkObj BpfmanAgentMetricsServiceName (cs_Namespace (cfg_Spec config)) []
                (Service \<lparr>svc_ClusterIP = '''', svc_ClusterIPs = [], svc_Ports = [], svc_Selector = [], svc_rest = ''''\<rparr>) in
          if isOverridden env svc (cs_Overrides (cfg_Spec config)) then (Inr (), w)
          else
            (case ce_Get env (keyOf svc) w of
               (Inl NotFound, w) \<Rightarrow> (Inr (), w)
             | (Inl (OtherError err), w) \<Rightarrow> (Inl (''get agent metrics service: '' @ err), w)
             | (Inr svc, w) \<Rightarrow>
                 if mapGet (om_Annotations (obj_Meta svc)) servingCertKey \<noteq> ''agent-metrics-tls''
                 then (case ce_Update env (svc\<lparr>obj_Meta := (obj_Meta svc)\<lparr>om_Annotations :=
                              AList.update servingCertKey ''agent-metrics-tls'' (om_Annotations (obj_Meta svc))\<rparr>\<rparr>) w of
                         (Inl err, w) \<Rightarrow> (Inl (''annotate agent metrics service: '' @ err), w)
                       | (Inr _, w) \<Rightarrow> (Inr (), w))
                 else (Inr (), w))))"

definition rbacGroup :: string where
  "rbacGroup = ''rbac.authorization.k8s.io''"

definition privilegedCRB :: "Config \<Rightarrow> Obj" where
  "privilegedCRB config =
     mkObj BpfmanPrivilegedSccClusterRoleBindingName '''' []
       (ClusterRoleBinding
          \<lparr>rr_APIGroup = rbacGroup, rr_Kind = ''ClusterRole'', rr_Name = ''system:openshift:scc:privileged''\<rparr>
          [\<lparr>sj_Kind = ''ServiceAccount'', sj_Name = ''bpfman-daemon'',
            sj_Namespace = cs_Namespace (cfg_Spec config)\<rparr>])"

definition userCR :: Obj where
  "userCR =
     mkObj BpfmanUserClusterRoleName '''' []
       (ClusterRole [\<lparr>pr_APIGroups = [''security.openshift.io''], pr_ResourceNames = [''bpfman-restricted''],
                      pr_Resources = [''securitycontextconstraints''], pr_Verbs = [''use'']\<rparr>])"

definition reconcileOpenShiftRBAC :: "'w CEnv \<Rightarrow> ConfigReconciler \<Rightarrow> Config \<Rightarrow> 'w step" where
  "reconcileOpenShiftRBAC env r config =
     (if \<not> IsOpenshift r then (\<lambda>w. Some (Inr (), w))
      else andThen (\<lambda>w. Some (assureResource env config (privilegedCRB config) bindingNeedsUpdate w))
                   (\<lambda>w. Some (assureResource env config userCR roleNeedsUpdate w)))"

definition promRole :: "Config \<Rightarrow> Obj" where
  "promRole config =
     mkObj BpfmanPrometheusRoleName (cs_Namespace (cfg_Spec config)) []
       (Role [\<lparr>pr_APIGroups = [''''], pr_ResourceNames = [],
               pr_Resources = [''pods'', ''services'', ''endpoints'', ''configmaps'', ''secrets''],
               pr_Verbs = [''get'', ''list'', ''watch'']\<rparr>])"

definition prometheusSubject :: Subject where
  "prometheusSubject = \<lparr>sj_Kind = ''ServiceAccount'', sj_Name = ''prometheus-k8s'', sj_Namespace = ''openshift-monitoring''\<rparr>"

definition promRB :: "Config \<Rightarrow> Obj" where
  "promRB config =
     mkObj BpfmanPrometheusRoleBindingName (cs_Namespace (cfg_Spec config)) []
       (RoleBinding \<lparr>rr_APIGroup = rbacGroup, rr_Kind = ''Role'', rr_Name = BpfmanPrometheusRoleName\<rparr>
          [prometheusSubject])"

definition metricsReaderCRB :: Obj where
  "metricsReaderCRB =
     mkObj BpfmanPrometheusClusterRoleBindingName ''''
       [(''app.kubernetes.io/component'', ''metrics''),
        (''app.kubernetes.io/created-by'', ''bpfman-operator''),
        (''app.kubernetes.io/instance'', ''prometheus-metrics-reader''),
        (''app.kubernetes.io/managed-by'', ''bpfman-operator''),
        (''app.kubernetes.io/name'', ''clusterrolebinding''),
        (''app.kubernetes.io/part-of'', ''bpfman-operator'')]
       (ClusterRoleBinding \<lparr>rr_APIGroup = rbacGroup, rr_Kind = ''ClusterRole'', rr_Name = ''bpfman-metrics-reader''\<rparr>
          [prometheusSubject])"

definition reconcilePrometheusRBAC :: "'w CEnv \<Rightarrow> ConfigReconciler \<Rightarrow> Config \<Rightarrow> 'w step" where
  "reconcilePrometheusRBAC env r config =
     (if \<not> IsOpenshift r \<or> \<not> HasMonitoring r then (\<lambda>w. Some (Inr (), w))
      else andThen (\<lambda>w. Some (assureResource env config (promRole config) roleNeedsUpdate w))
          (andThen (\<lambda>w. Some (assureResource env config (promRB config) bindingNeedsUpdate w))
                   (\<lambda>w. Some (assureResource env config metricsReaderCRB bindingNeedsUpdate w))))"

text \<open>
  \<^verbatim>\<open>for k, v := range want { if m[k] != v { m[k] = v; changed = true } }\<close>: the keys differ, so the order of the
  iteration, which Go leaves open, does not matter.
\<close>

fun setEntries :: "strmap \<Rightarrow> bool \<times> strmap \<Rightarrow> bool \<times> strmap" where
  "setEntries [] (changed, m) = (changed, m)"
| "setEntries ((k, v) # want) (changed, m) =
     (if mapGet m k \<noteq> v then setEntries want (True, AList.update k v m) else setEntries want (changed, m))"

definition psaLabels :: strmap where
  "psaLabels =
     [(''pod-security.kubernetes.io/enforce'', ''privileged''),
      (''pod-security.kubernetes.io/audit'', ''privileged''),
      (''pod-security.kubernetes.io/warn'', ''privileged'')]"

definition osAnnotations :: strmap where
  "osAnnotations =
     [(''openshift.io/node-selector'', ''''),
      (''openshift.io/description'', ''Openshift bpfman components''),
      (''workload.openshift.io/allowed'', ''management'')]"

definition namespaceLabels :: "ConfigReconciler \<Rightarrow> strmap" where
  "namespaceLabels r =
     psaLabels @ (if IsOpenshift r \<and> HasMonitoring r then [(''openshift.io/cluster-monitoring'', ''true'')] else [])"

definition reconcileNamespace :: "'w CEnv \<Rightarrow> ConfigReconciler \<Rightarrow> Config \<Rightarrow> 'w step" where
  "reconcileNamespace env r config w =
     (let ns = cs_Namespace (cfg_Spec config) in
      Some (case ce_Get env (KNamespace, '''', ns) w of
              (Inl err, w) \<Rightarrow> (Inl (''get namespace '' @ ns @ '': '' @ getErrorText err), w)
            | (Inr namespace, w) \<Rightarrow>
                (case setEntries (namespaceLabels r) (False, om_Labels (obj_Meta namespace)) of
                   (changed, labels) \<Rightarrow>
                     (case (if IsOpenshift r then setEntries osAnnotations (changed, om_Annotations (obj_Meta namespace))
                            else (changed, om_Annotations (obj_Meta namespace))) of
                        (changed, annotations) \<Rightarrow>
                          if changed
                          then (case ce_Update env (namespace\<lparr>obj_Meta := (obj_Meta namespace)
                                       \<lparr>om_Labels := labels, om_Annotations := annotations\<rparr>\<rparr>) w of
                                  (Inl err, w) \<Rightarrow> (Inl (''update namespace '' @ ns @ '': '' @ err), w)
                                | (Inr _, w) \<Rightarrow> (Inr (), w))
                          else (Inr (), w)))))"

section \<open>Reconcile\<close>

definition handleDeletion :: "'w CEnv \<Rightarrow> Config \<Rightarrow> 'w \<Rightarrow> unit result \<times> 'w" where
  "handleDeletion env config w =
     ce_UpdateConfig env (config\<lparr>cfg_Meta := (cfg_Meta config)
       \<lparr>om_Finalizers := removeAll BpfmanConfigFinalizer (om_Finalizers (cfg_Meta config))\<rparr>\<rparr>) w"

text \<open>The eleven steps of a normal reconcile, each run only when the ones before it succeeded.\<close>

definition reconcileResources :: "'w CEnv \<Rightarrow> ConfigReconciler \<Rightarrow> Config \<Rightarrow> 'w step" where
  "reconcileResources env r config =
     andThen (reconcileCM env config)
    (andThen (reconcileCSIDriver env r config)
    (andThen (reconcileSCC env r config)
    (andThen (reconcileStandardDS env r config)
    (andThen (reconcileMetricsProxyDS env r config)
    (andThen (reconcileMetricsServices env r config)
    (andThen (reconcileServiceMonitors env r config)
    (andThen (reconcileAgentMetricsServiceAnnotation env r config)
    (andThen (reconcileOpenShiftRBAC env r config)
    (andThen (reconcilePrometheusRBAC env r config)
             (reconcileNamespace env r config))))))))))"

definition Config_Reconcile :: "'w CEnv \<Rightarrow> ConfigReconciler \<Rightarrow> string \<Rightarrow> 'w step" where
  "Config_Reconcile env r name w =
     (case ce_GetConfig env name w of
        (Inl NotFound, w) \<Rightarrow> Some (Inr (), w)
      | (Inl (OtherError err), w) \<Rightarrow> Some (Inl err, w)
      | (Inr config, w) \<Rightarrow>
          if om_DeletionTimestamp (cfg_Meta config) \<noteq> None then Some (handleDeletion env config w)
          else if \<not> ContainsFinalizer (cfg_Meta config) BpfmanConfigFinalizer
          then Some (ce_UpdateConfig env (config\<lparr>cfg_Meta := (cfg_Meta config)
                 \<lparr>om_Finalizers := om_Finalizers (cfg_Meta config) @ [BpfmanConfigFinalizer]\<rparr>\<rparr>) w)
          else reconcileResources env r config w)"

section \<open>Watches\<close>

text \<open>All four event handlers of \<^verbatim>\<open>resourcePredicate\<close> compare the name, the one of the new object for an update.\<close>

definition resourcePredicate :: "string \<Rightarrow> EventKind \<Rightarrow> string \<Rightarrow> bool" where
  "resourcePredicate resourceName kind objectName \<longleftrightarrow> objectName = resourceName"

definition BpfmanNamespace :: string where "BpfmanNamespace = ''bpfman''"
definition BpfmanConfigName :: string where "BpfmanConfigName = ''bpfman-config''"

text \<open>The requests an event of the operator's namespace enqueues.\<close>

definition namespaceRequests :: "string \<Rightarrow> string list" where
  "namespaceRequests objectName = (if objectName \<noteq> BpfmanNamespace then [] else [BpfmanConfigName])"

text \<open>The objects \<^verbatim>\<open>SetupWithManager\<close> watches as owned by the \<^verbatim>\<open>Config\<close>, by kind and name.\<close>

definition ownedWatches :: "ConfigReconciler \<Rightarrow> (Kind \<times> string) list" where
  "ownedWatches r =
     [(KConfigMap, BpfmanCmName), (KDaemonSet, BpfmanDsName), (KCSIDriver, BpfmanCsiDriverName)] @
     (if IsOpenshift r
      then [(KSCC, BpfmanRestrictedSccName), (KClusterRoleBinding, BpfmanPrivilegedSccClusterRoleBindingName),
            (KClusterRole, BpfmanUserClusterRoleName), (KClusterRoleBinding, BpfmanPrometheusClusterRoleBindingName),
            (KRole, BpfmanPrometheusRoleName), (KRoleBinding, BpfmanPrometheusRoleBindingName)]
      else []) @
     (if HasMonitoring r
      then [(KDaemonSet, BpfmanMetricsProxyDsName), (KService, BpfmanAgentMetricsServiceName),
            (KService, BpfmanControllerMetricsServiceName), (KServiceMonitor, BpfmanAgentServiceMonitorName),
            (KServiceMonitor, BpfmanControllerServiceMonitorName)]
      else [])"

text \<open>
  The requests an event about an object enqueues: for an owned object its controlling \<^verbatim>\<open>Config\<close>, and for the operator's namespace,
  which is watched on OpenShift with monitoring only, the \<^verbatim>\<open>Config\<close> of the fixed name.
\<close>

definition eventRequests :: "ConfigReconciler \<Rightarrow> EventKind \<Rightarrow> Obj \<Rightarrow> string list" where
  "eventRequests r kind x =
     (if list_ex (\<lambda>(k, name). kindOf (obj_Body x) = k \<and> resourcePredicate name kind (om_Name (obj_Meta x))) (ownedWatches r)
      then map or_Name (filter (\<lambda>ref. or_Kind ref = ''Config'' \<and> or_Controller ref) (om_OwnerReferences (obj_Meta x)))
      else []) @
     (if IsOpenshift r \<and> HasMonitoring r \<and> kindOf (obj_Body x) = KNamespace \<and>
         resourcePredicate BpfmanNamespace kind (om_Name (obj_Meta x))
      then namespaceRequests (om_Name (obj_Meta x)) else [])"

end
