(* ===== verification/Config_Contract.thy ===== *)
theory Config_Contract
  imports Config_Reconcile
begin

text \<open>
  What the configuration controller relies on and what its steps guarantee.

  \<^item> \<open>storedAs\<close>: what an API server may store for an object it is sent: it can choose the cluster addresses of a
    service and fill in image pull policies that are empty.
  \<^item> \<open>update_test\<close>: the contract of a \<^verbatim>\<open>needsUpdate\<close> closure. It leaves the metadata alone, and it is satisfied
    with an object the server stored for the desired one. Interpreted for the seven closures that meet it; the
    one of the security context constraints does not.
  \<^item> \<open>api_server\<close>: reads return what is stored, writes change one object. Under it \<^verbatim>\<open>assureResource\<close> brings a resource
    in sync, keeps the others as they are, and writes nothing when the resource is in sync already.
  \<^item> \<open>after\<close> and \<open>quiet\<close>: assertions before and after a step, and steps that make no other write than the allowed ones.
\<close>

section \<open>What the server stores\<close>

definition filledPolicy :: "Container \<Rightarrow> Container \<Rightarrow> bool" where
  "filledPolicy c c' \<longleftrightarrow> c' = c \<or> ctr_ImagePullPolicy c = '''' \<and> c'\<lparr>ctr_ImagePullPolicy := ''''\<rparr> = c"

fun bodyStoredAs :: "Body \<Rightarrow> Body \<Rightarrow> bool" where
  "bodyStoredAs (DaemonSet a) (DaemonSet b) \<longleftrightarrow>
     list_all2 filledPolicy (ds_InitContainers a) (ds_InitContainers b) \<and>
     list_all2 filledPolicy (ds_Containers a) (ds_Containers b) \<and>
     b\<lparr>ds_InitContainers := ds_InitContainers a, ds_Containers := ds_Containers a\<rparr> = a"
| "bodyStoredAs (Service a) (Service b) \<longleftrightarrow> svc_Ports b = svc_Ports a \<and> svc_Selector b = svc_Selector a"
| "bodyStoredAs a b \<longleftrightarrow> b = a"

definition storedAs :: "Obj \<Rightarrow> Obj \<Rightarrow> bool" where
  "storedAs x y \<longleftrightarrow>
     om_Name (obj_Meta y) = om_Name (obj_Meta x) \<and> om_Namespace (obj_Meta y) = om_Namespace (obj_Meta x) \<and>
     om_Labels (obj_Meta y) = om_Labels (obj_Meta x) \<and> om_Annotations (obj_Meta y) = om_Annotations (obj_Meta x) \<and>
     om_OwnerReferences (obj_Meta y) = om_OwnerReferences (obj_Meta x) \<and>
     bodyStoredAs (obj_Body x) (obj_Body y)"

lemma bodyStoredAs_kind: "bodyStoredAs a b \<Longrightarrow> kindOf b = kindOf a"
  by (induction a b rule: bodyStoredAs.induct) auto

lemma storedAs_key: "storedAs x y \<Longrightarrow> keyOf y = keyOf x"
  by (auto simp: storedAs_def keyOf_def dest: bodyStoredAs_kind)

abbreviation withVersion :: "string \<Rightarrow> Obj \<Rightarrow> Obj" where
  "withVersion v x \<equiv> x\<lparr>obj_Meta := (obj_Meta x)\<lparr>om_ResourceVersion := v\<rparr>\<rparr>"

lemma storedAs_withVersion [simp]: "storedAs (withVersion v x) y = storedAs x y"
  by (simp add: storedAs_def)

lemma keyOf_updates [simp]:
  "keyOf (withVersion v x) = keyOf x" "keyOf (x\<lparr>obj_TypeMeta := t\<rparr>) = keyOf x"
  by (simp_all add: keyOf_def)

lemma list_all2_filled_refl: "list_all2 filledPolicy cs cs"
  by (simp add: list_all2_refl filledPolicy_def)

lemma bodyStoredAs_refl [simp]: "bodyStoredAs a a"
  by (cases a) (simp_all add: list_all2_filled_refl)

lemma storedAs_refl: "storedAs x x"
  by (simp add: storedAs_def)

section \<open>Contract of an update test\<close>

locale update_test =
  fixes nu :: "Obj \<Rightarrow> Obj \<Rightarrow> bool \<times> Obj" and covers :: "Kind \<Rightarrow> bool"
  assumes keeps_meta: "obj_Meta (snd (nu e x)) = obj_Meta x"
    and keeps_kind: "kindOf (obj_Body (snd (nu e x))) = kindOf (obj_Body x)"
    and settles: "covers (kindOf (obj_Body x)) \<Longrightarrow> storedAs x y \<Longrightarrow> \<not> fst (nu (y\<lparr>obj_TypeMeta := t\<rparr>) x)"
    and settles_update: "covers (kindOf (obj_Body x)) \<Longrightarrow> kindOf (obj_Body e) = kindOf (obj_Body x) \<Longrightarrow>
          storedAs (snd (nu e x)) y \<Longrightarrow> \<not> fst (nu (y\<lparr>obj_TypeMeta := t\<rparr>) x)"
    and meta_blind: "om_Labels (obj_Meta y') = om_Labels (obj_Meta y) \<Longrightarrow> obj_Body y' = obj_Body y \<Longrightarrow>
          covers (kindOf (obj_Body x)) \<Longrightarrow> fst (nu y' x) = fst (nu y x)"

lemma kindOf_eqD:
  "kindOf b = KConfigMap \<Longrightarrow> \<exists>a. b = ConfigMap a" "kindOf b = KCSIDriver \<Longrightarrow> \<exists>a. b = CSIDriver a"
  "kindOf b = KSCC \<Longrightarrow> \<exists>a. b = SCC a" "kindOf b = KDaemonSet \<Longrightarrow> \<exists>a. b = DaemonSet a"
  "kindOf b = KService \<Longrightarrow> \<exists>a. b = Service a" "kindOf b = KServiceMonitor \<Longrightarrow> \<exists>a. b = ServiceMonitor a"
  "kindOf b = KClusterRole \<Longrightarrow> \<exists>a. b = ClusterRole a" "kindOf b = KRole \<Longrightarrow> \<exists>a. b = Role a"
  "kindOf b = KClusterRoleBinding \<Longrightarrow> \<exists>a c. b = ClusterRoleBinding a c"
  "kindOf b = KRoleBinding \<Longrightarrow> \<exists>a c. b = RoleBinding a c"
  by (cases b; simp)+

lemma copyPolicies_length [simp]: "length (copyPolicies src dst) = length dst"
  by (induction src dst rule: copyPolicies.induct) auto

lemma copyPolicies_filled: "list_all2 filledPolicy dst src \<Longrightarrow> copyPolicies src dst = src"
  by (induction src dst rule: copyPolicies.induct) (auto simp: filledPolicy_def)

lemma filledPolicy_trans: "filledPolicy a b \<Longrightarrow> filledPolicy b c \<Longrightarrow> filledPolicy a c"
  by (auto simp: filledPolicy_def)

lemma copyPolicies_fills: "list_all2 filledPolicy dst (copyPolicies src dst)"
proof (induction src dst rule: copyPolicies.induct)
  case (2 c cs)
  show ?case using list_all2_filled_refl [of "c # cs"] by simp
qed (auto simp: filledPolicy_def)

lemma copyImagePullPolicy_stored:
  "bodyStoredAs (DaemonSet a) (DaemonSet b) \<Longrightarrow> dsSpecEqual b (copyImagePullPolicy b a)"
  by (cases a; cases b) (auto simp: dsSpecEqual_def copyImagePullPolicy_def copyPolicies_filled)

lemma bodyStoredAs_copyImagePullPolicy:
  assumes "bodyStoredAs (DaemonSet (copyImagePullPolicy e a)) (DaemonSet b)"
  shows "bodyStoredAs (DaemonSet a) (DaemonSet b)"
proof -
  have tr: "list_all2 filledPolicy dst cs" if "list_all2 filledPolicy (copyPolicies src dst) cs" for src dst cs
    using list_all2_trans [of filledPolicy filledPolicy filledPolicy, OF _ copyPolicies_fills that]
      filledPolicy_trans by blast
  from assms show ?thesis
    by (cases a; cases b) (auto simp: copyImagePullPolicy_def intro: tr)
qed

lemmas test_defs = cmNeedsUpdate_def csiNeedsUpdate_def dsNeedsUpdate_def svcNeedsUpdate_def smNeedsUpdate_def
  bindingNeedsUpdate_def roleNeedsUpdate_def

interpretation cmTest: update_test cmNeedsUpdate "\<lambda>k. k = KConfigMap"
  by unfold_locales (auto simp: cmNeedsUpdate_def storedAs_def split: Body.splits dest!: kindOf_eqD)

interpretation csiTest: update_test csiNeedsUpdate "\<lambda>k. k = KCSIDriver"
  by unfold_locales (auto simp: csiNeedsUpdate_def storedAs_def split: Body.splits dest!: kindOf_eqD)

interpretation smTest: update_test smNeedsUpdate "\<lambda>k. k = KServiceMonitor"
  by unfold_locales (auto simp: smNeedsUpdate_def selectorEqual_def storedAs_def split: Body.splits dest!: kindOf_eqD)

interpretation svcTest: update_test svcNeedsUpdate "\<lambda>k. k = KService"
  by unfold_locales (auto simp: svcNeedsUpdate_def Let_def storedAs_def split: Body.splits dest!: kindOf_eqD)

lemma bindingNeedsUpdate_snd [simp]: "snd (bindingNeedsUpdate e x) = x"
  by (simp add: bindingNeedsUpdate_def split: Body.split)

lemma roleNeedsUpdate_snd [simp]: "snd (roleNeedsUpdate e x) = x"
  by (simp add: roleNeedsUpdate_def split: Body.split)

lemma bodyStoredAs_eq:
  "bodyStoredAs a b \<Longrightarrow> kindOf a \<noteq> KDaemonSet \<Longrightarrow> kindOf a \<noteq> KService \<Longrightarrow> b = a"
  by (induction a b rule: bodyStoredAs.induct) auto

interpretation bindingTest: update_test bindingNeedsUpdate "\<lambda>k. k = KClusterRoleBinding \<or> k = KRoleBinding"
proof unfold_locales
  fix x y :: Obj and t
  assume k: "kindOf (obj_Body x) = KClusterRoleBinding \<or> kindOf (obj_Body x) = KRoleBinding"
  show stored: "\<not> fst (bindingNeedsUpdate (y\<lparr>obj_TypeMeta := t\<rparr>) x)" if "storedAs x y"
  proof -
    from that k have "obj_Body y = obj_Body x" by (auto simp: storedAs_def dest: bodyStoredAs_eq)
    with k show ?thesis by (auto simp: bindingNeedsUpdate_def dest!: kindOf_eqD)
  qed
  show "\<not> fst (bindingNeedsUpdate (y\<lparr>obj_TypeMeta := t\<rparr>) x)" if "storedAs (snd (bindingNeedsUpdate e x)) y" for e
    using that stored by simp
qed (simp, simp, simp add: bindingNeedsUpdate_def)

interpretation roleTest: update_test roleNeedsUpdate "\<lambda>k. k = KClusterRole \<or> k = KRole"
proof unfold_locales
  fix x y :: Obj and t
  assume k: "kindOf (obj_Body x) = KClusterRole \<or> kindOf (obj_Body x) = KRole"
  show stored: "\<not> fst (roleNeedsUpdate (y\<lparr>obj_TypeMeta := t\<rparr>) x)" if "storedAs x y"
  proof -
    from that k have "obj_Body y = obj_Body x" by (auto simp: storedAs_def dest: bodyStoredAs_eq)
    with k show ?thesis by (auto simp: roleNeedsUpdate_def dest!: kindOf_eqD)
  qed
  show "\<not> fst (roleNeedsUpdate (y\<lparr>obj_TypeMeta := t\<rparr>) x)" if "storedAs (snd (roleNeedsUpdate e x)) y" for e
    using that stored by simp
qed (simp, simp, simp add: roleNeedsUpdate_def)

interpretation dsTest: update_test dsNeedsUpdate "\<lambda>k. k = KDaemonSet"
proof unfold_locales
  fix e x y :: Obj and t
  assume k: "kindOf (obj_Body x) = KDaemonSet"
  then obtain a where a: "obj_Body x = DaemonSet a" by (blast dest: kindOf_eqD)
  show stored: "\<not> fst (dsNeedsUpdate (y\<lparr>obj_TypeMeta := t\<rparr>) x)" if "storedAs x y"
  proof -
    from that k have "kindOf (obj_Body y) = KDaemonSet" using storedAs_key by (simp add: keyOf_def)
    then obtain b where b: "obj_Body y = DaemonSet b" by (blast dest: kindOf_eqD)
    with that a have "bodyStoredAs (DaemonSet a) (DaemonSet b)" by (simp add: storedAs_def)
    with a b show ?thesis by (simp add: dsNeedsUpdate_def Let_def copyImagePullPolicy_stored del: bodyStoredAs.simps)
  qed
  assume ke: "kindOf (obj_Body e) = kindOf (obj_Body x)" and s: "storedAs (snd (dsNeedsUpdate e x)) y"
  from k ke obtain c where c: "obj_Body e = DaemonSet c" by (force dest: kindOf_eqD)
  from a c have n: "snd (dsNeedsUpdate e x) = x\<lparr>obj_Body := DaemonSet (copyImagePullPolicy c a)\<rparr>"
    by (simp add: dsNeedsUpdate_def Let_def)
  have "kindOf (obj_Body y) = KDaemonSet" using storedAs_key [OF s] n by (simp add: keyOf_def)
  then obtain b where b: "obj_Body y = DaemonSet b" by (blast dest: kindOf_eqD)
  from s b n have "bodyStoredAs (DaemonSet (copyImagePullPolicy c a)) (DaemonSet b)"
    by (simp add: storedAs_def del: bodyStoredAs.simps)
  then have "bodyStoredAs (DaemonSet a) (DaemonSet b)" by (rule bodyStoredAs_copyImagePullPolicy)
  with s a b n have "storedAs x y" by (simp add: storedAs_def del: bodyStoredAs.simps)
  then show "\<not> fst (dsNeedsUpdate (y\<lparr>obj_TypeMeta := t\<rparr>) x)" by (rule stored)
qed (simp_all add: dsNeedsUpdate_def Let_def split: Body.split)

end
