(* ===== verification/Config_Steps.thy ===== *)
theory Config_Steps
  imports Config_Contract
begin

text \<open>
  The steps of the configuration controller under the contract of an API server: what holds of the cluster after each of
  them, and which writes they make. A run is observed through \<open>logged\<close>, the same environment with a list of the
  writes beside the world; \<open>erases\<close> says that observing changes nothing.
\<close>

section \<open>Observing the writes\<close>

datatype Write = WriteConfig Config | WriteCreate Obj | WriteUpdate Obj

definition passing :: "('w \<Rightarrow> 'a \<times> 'w) \<Rightarrow> 'w \<times> Write list \<Rightarrow> 'a \<times> ('w \<times> Write list)" where
  "passing f wl = (case f (fst wl) of (x, w) \<Rightarrow> (x, (w, snd wl)))"

definition logging :: "Write \<Rightarrow> ('w \<Rightarrow> 'a \<times> 'w) \<Rightarrow> 'w \<times> Write list \<Rightarrow> 'a \<times> ('w \<times> Write list)" where
  "logging a f wl = (case f (fst wl) of (x, w) \<Rightarrow> (x, (w, snd wl @ [a])))"

definition logged :: "'w CEnv \<Rightarrow> ('w \<times> Write list) CEnv" where
  "logged env =
     \<lparr>ce_GetConfig = (\<lambda>name. passing (ce_GetConfig env name)),
      ce_UpdateConfig = (\<lambda>c. logging (WriteConfig c) (ce_UpdateConfig env c)),
      ce_Get = (\<lambda>k. passing (ce_Get env k)),
      ce_Create = (\<lambda>x. logging (WriteCreate x) (ce_Create env x)),
      ce_Update = (\<lambda>x. logging (WriteUpdate x) (ce_Update env x)),
      ce_ObjectKinds = ce_ObjectKinds env,
      ce_SetControllerReference = ce_SetControllerReference env,
      ce_ReadFile = ce_ReadFile env,
      ce_Decode = ce_Decode env,
      ce_Getenv = ce_Getenv env\<rparr>"

lemma logged_sel [simp]:
  "ce_GetConfig (logged env) name wl = passing (ce_GetConfig env name) wl"
  "ce_UpdateConfig (logged env) c wl = logging (WriteConfig c) (ce_UpdateConfig env c) wl"
  "ce_Get (logged env) k wl = passing (ce_Get env k) wl"
  "ce_Create (logged env) x wl = logging (WriteCreate x) (ce_Create env x) wl"
  "ce_Update (logged env) x wl = logging (WriteUpdate x) (ce_Update env x) wl"
  "ce_ObjectKinds (logged env) = ce_ObjectKinds env"
  "ce_SetControllerReference (logged env) = ce_SetControllerReference env"
  "ce_ReadFile (logged env) = ce_ReadFile env"
  "ce_Decode (logged env) = ce_Decode env"
  "ce_Getenv (logged env) = ce_Getenv env"
  by (simp_all add: logged_def)

lemma isOverridden_logged [simp]: "isOverridden (logged env) = isOverridden env"
  by (intro ext) (simp add: isOverridden_def split: sum.split)

lemma load_logged [simp]: "loadManifest (logged env) = loadManifest env"
  by (intro ext) (simp add: loadManifest_def Let_def split: sum.split)

lemma configureBpfmanDs_logged [simp]: "configureBpfmanDs (logged env) = configureBpfmanDs env"
  by (intro ext) (simp add: configureBpfmanDs_def configureBpfmanDsSpec_def Let_def split: Body.split)

lemma configureMetricsProxyDs_logged [simp]: "configureMetricsProxyDs (logged env) = configureMetricsProxyDs env"
  by (intro ext) (simp add: configureMetricsProxyDs_def configureMetricsProxyDsSpec_def Let_def split: Body.split)

lemma passing_sel [simp]:
  "fst (passing f wl) = fst (f (fst wl))" "fst (snd (passing f wl)) = snd (f (fst wl))"
  "snd (snd (passing f wl)) = snd wl"
  by (simp_all add: passing_def split: prod.split)

lemma logging_sel [simp]:
  "fst (logging a f wl) = fst (f (fst wl))" "fst (snd (logging a f wl)) = snd (f (fst wl))"
  "snd (snd (logging a f wl)) = snd wl @ [a]"
  by (simp_all add: logging_def split: prod.split)

text \<open>The key of what a write touches; the \<^verbatim>\<open>Config\<close> itself has none.\<close>

fun writeKey :: "Write \<Rightarrow> (Kind \<times> string \<times> string) option" where
  "writeKey (WriteConfig c) = None"
| "writeKey (WriteCreate x) = Some (keyOf x)"
| "writeKey (WriteUpdate x) = Some (keyOf x)"

section \<open>Assertions\<close>

type_synonym store = "Kind \<times> string \<times> string \<Rightarrow> Obj option"

definition stable :: "Kind \<times> string \<times> string \<Rightarrow> (store \<Rightarrow> bool) \<Rightarrow> bool" where
  "stable k P \<longleftrightarrow> (\<forall>\<sigma> \<sigma>'. (\<forall>k'. k' \<noteq> k \<longrightarrow> \<sigma>' k' = \<sigma> k') \<longrightarrow> P \<sigma> \<longrightarrow> P \<sigma>')"

definition after :: "('w \<Rightarrow> store) \<Rightarrow> (store \<Rightarrow> bool) \<Rightarrow> 'w step \<Rightarrow> (store \<Rightarrow> bool) \<Rightarrow> bool" where
  "after store P f Q \<longleftrightarrow> (\<forall>w w'. P (store w) \<longrightarrow> f w = Some (Inr (), w') \<longrightarrow> Q (store w'))"

definition quiet ::
    "('w \<Rightarrow> store) \<Rightarrow> (Write \<Rightarrow> bool) \<Rightarrow> (store \<Rightarrow> bool) \<Rightarrow> ('w \<times> Write list) step \<Rightarrow> bool" where
  "quiet store allowed P f \<longleftrightarrow>
     (\<forall>w l r w' l'. P (store w) \<longrightarrow> f (w, l) = Some (r, (w', l')) \<longrightarrow>
        P (store w') \<and> (\<exists>e. l' = l @ e \<and> list_all allowed e))"

definition erases :: "('w \<times> Write list) step \<Rightarrow> 'w step \<Rightarrow> bool" where
  "erases f g \<longleftrightarrow> (\<forall>w l. map_option (map_prod id fst) (f (w, l)) = g w)"

abbreviation (input) skip :: "'w step" where
  "skip \<equiv> \<lambda>w. Some (Inr (), w)"

lemma stableD: "stable k P \<Longrightarrow> P \<sigma> \<Longrightarrow> (\<And>k'. k' \<noteq> k \<Longrightarrow> \<sigma>' k' = \<sigma> k') \<Longrightarrow> P \<sigma>'"
  unfolding stable_def by blast

lemma stable_True [simp]: "stable k (\<lambda>\<sigma>. True)"
  by (simp add: stable_def)

lemma stable_conj: "stable k P \<Longrightarrow> stable k Q \<Longrightarrow> stable k (\<lambda>\<sigma>. P \<sigma> \<and> Q \<sigma>)"
  unfolding stable_def by meson

lemma after_skip: "after store P skip P"
  by (simp add: after_def)

lemma after_andThen: "after store P f Q \<Longrightarrow> after store Q g R \<Longrightarrow> after store P (andThen f g) R"
  unfolding after_def
proof (intro allI impI)
  fix w w'
  assume f: "\<forall>w w'. P (store w) \<longrightarrow> f w = Some (Inr (), w') \<longrightarrow> Q (store w')"
    and g: "\<forall>w w'. Q (store w) \<longrightarrow> g w = Some (Inr (), w') \<longrightarrow> R (store w')"
    and P: "P (store w)" and run: "andThen f g w = Some (Inr (), w')"
  from run obtain r1 w1 where 1: "f w = Some (r1, w1)"
    and 2: "(case r1 of Inl err \<Rightarrow> Some (Inl err, w1) | Inr _ \<Rightarrow> g w1) = Some (Inr (), w')"
    by (auto simp: andThen_def bind_eq_Some_conv)
  from 2 have "r1 = Inr ()" "g w1 = Some (Inr (), w')" by (cases r1; simp)+
  with 1 f g P show "R (store w')" by blast
qed

lemma after_weaken: "after store P f Q \<Longrightarrow> (\<And>\<sigma>. Q \<sigma> \<Longrightarrow> R \<sigma>) \<Longrightarrow> after store P f R"
  by (auto simp: after_def)

lemma quiet_skip: "quiet store allowed P skip"
  by (simp add: quiet_def)

lemma quiet_andThen: "quiet store allowed P f \<Longrightarrow> quiet store allowed P g \<Longrightarrow> quiet store allowed P (andThen f g)"
  unfolding quiet_def
proof (intro allI impI)
  fix w l r w' l'
  assume f: "\<forall>w l r w' l'. P (store w) \<longrightarrow> f (w, l) = Some (r, w', l') \<longrightarrow> P (store w') \<and> (\<exists>e. l' = l @ e \<and> list_all allowed e)"
    and g: "\<forall>w l r w' l'. P (store w) \<longrightarrow> g (w, l) = Some (r, w', l') \<longrightarrow> P (store w') \<and> (\<exists>e. l' = l @ e \<and> list_all allowed e)"
    and P: "P (store w)" and run: "andThen f g (w, l) = Some (r, w', l')"
  from run obtain r1 w1 l1 where f1: "f (w, l) = Some (r1, w1, l1)"
    and rest: "(case r1 of Inl err \<Rightarrow> Some (Inl err, (w1, l1)) | Inr _ \<Rightarrow> g (w1, l1)) = Some (r, w', l')"
    by (auto simp: andThen_def bind_eq_Some_conv)
  from f P f1 obtain e1 where 1: "P (store w1)" "l1 = l @ e1" "list_all allowed e1" by blast
  show "P (store w') \<and> (\<exists>e. l' = l @ e \<and> list_all allowed e)"
  proof (cases r1)
    case (Inl err)
    with rest 1 show ?thesis by auto
  next
    case (Inr u)
    with rest have "g (w1, l1) = Some (r, w', l')" by simp
    with g 1(1) obtain e2 where "P (store w')" "l' = l1 @ e2" "list_all allowed e2" by blast
    with 1 have "l' = l @ (e1 @ e2) \<and> list_all allowed (e1 @ e2)" by simp
    with \<open>P (store w')\<close> show ?thesis by blast
  qed
qed

lemma erases_skip: "erases skip skip"
  by (simp add: erases_def)

lemma erases_Some: "(\<And>w l. map_prod id fst (f (w, l)) = g w) \<Longrightarrow> erases (\<lambda>w. Some (f w)) (\<lambda>w. Some (g w))"
  by (simp add: erases_def)

lemma erases_andThen: "erases f f' \<Longrightarrow> erases g g' \<Longrightarrow> erases (andThen f g) (andThen f' g')"
  unfolding erases_def
proof (intro allI)
  fix w l
  assume f: "\<forall>w l. map_option (map_prod id fst) (f (w, l)) = f' w"
    and g: "\<forall>w l. map_option (map_prod id fst) (g (w, l)) = g' w"
  show "map_option (map_prod id fst) (andThen f g (w, l)) = andThen f' g' w"
  proof (cases "f (w, l)")
    case None
    with f have "f' w = None" by (metis option.map_disc_iff)
    with None show ?thesis by (simp add: andThen_def)
  next
    case (Some p)
    obtain r w' l' where p: "p = (r, w', l')" by (metis prod.collapse)
    with f Some have "f' w = Some (r, w')" by (metis (no_types, lifting) fst_conv id_apply map_prod_simp option.map(2))
    with Some p g show ?thesis by (simp add: andThen_def split: sum.split)
  qed
qed

lemmas step_rules = quiet_skip quiet_andThen
lemmas erase_rules = erases_skip erases_andThen

section \<open>One resource\<close>

text \<open>A resource is in sync when it is unmanaged, or stored with the owner and content the controller wants.\<close>

definition sync :: "'w CEnv \<Rightarrow> Config \<Rightarrow> store \<Rightarrow> Obj \<times> (Obj \<Rightarrow> Obj \<Rightarrow> bool \<times> Obj) \<Rightarrow> bool" where
  "sync env config \<sigma> xn \<longleftrightarrow>
     isOverridden env (fst xn) (cs_Overrides (cfg_Spec config)) \<or>
     (\<exists>m y. ce_SetControllerReference env config (obj_Meta (fst xn)) = Inr m \<and> \<sigma> (keyOf (fst xn)) = Some y \<and>
        om_OwnerReferences (obj_Meta y) = om_OwnerReferences m \<and>
        (\<forall>t. \<not> fst (snd xn (y\<lparr>obj_TypeMeta := t\<rparr>) ((fst xn)\<lparr>obj_Meta := m\<rparr>))))"

lemma stable_sync: "k \<noteq> keyOf (fst xn) \<Longrightarrow> stable k (\<lambda>\<sigma>. sync env config \<sigma> xn)"
  unfolding stable_def sync_def by metis

lemma assureResource_erases:
  "erases (\<lambda>w. Some (assureResource (logged env) config x nu w)) (\<lambda>w. Some (assureResource env config x nu w))"
  by (rule erases_Some)
    (auto simp: assureResource_def passing_def logging_def Let_def split: sum.split prod.split GetError.split)

text \<open>An update test adjusts the body of the desired object at most.\<close>

definition keeps_identity :: "(Obj \<Rightarrow> Obj \<Rightarrow> bool \<times> Obj) \<Rightarrow> bool" where
  "keeps_identity nu \<longleftrightarrow> (\<forall>e x. keyOf (snd (nu e x)) = keyOf x \<and> obj_Meta (snd (nu e x)) = obj_Meta x)"

lemma update_test_identity: "update_test nu covers \<Longrightarrow> keeps_identity nu"
  by (simp add: keeps_identity_def keyOf_def update_test.keeps_meta update_test.keeps_kind)

lemma sccNeedsUpdate_snd [simp]: "snd (sccNeedsUpdate e x) = x"
  by (simp add: sccNeedsUpdate_def split: Body.split)

text \<open>The owner reference is all \<^verbatim>\<open>SetControllerReference\<close> changes.\<close>

definition owner_law :: "'w CEnv \<Rightarrow> bool" where
  "owner_law env \<longleftrightarrow>
     (\<forall>c m m'. ce_SetControllerReference env c m = Inr m' \<longrightarrow> (\<exists>refs. m' = m\<lparr>om_OwnerReferences := refs\<rparr>))"

lemma owner_law_key:
  "owner_law env \<Longrightarrow> ce_SetControllerReference env c (obj_Meta x) = Inr m \<Longrightarrow> keyOf (x\<lparr>obj_Meta := m\<rparr>) = keyOf x"
  unfolding owner_law_def by (force simp: keyOf_def)

text \<open>Whatever the server answers, the only writes are to the resource itself, and none when it is unmanaged.\<close>

lemma assure_writes:
  assumes "owner_law env" and keeps: "keeps_identity nu"
    and run: "assureResource (logged env) config x nu (w, l) = (r, (w', l'))"
  shows "\<exists>e. l' = l @ e \<and>
    list_all (\<lambda>a. \<not> isOverridden env x (cs_Overrides (cfg_Spec config)) \<and> writeKey a = Some (keyOf x)) e"
proof (cases "isOverridden env x (cs_Overrides (cfg_Spec config))")
  case True
  with run show ?thesis by (simp add: assureResource_def)
next
  case False
  show ?thesis
  proof (cases "ce_SetControllerReference env config (obj_Meta x)")
    case (Inl err)
    with False run show ?thesis by (simp add: assureResource_def)
  next
    case (Inr m)
    let ?x = "x\<lparr>obj_Meta := m\<rparr>"
    have k: "keyOf ?x = keyOf x" by (rule owner_law_key [OF assms(1) Inr])
    obtain g w1 where g: "ce_Get env (keyOf ?x) w = (g, w1)" by fastforce
    show ?thesis
    proof (cases g)
      case (Inl err)
      with False \<open>ce_SetControllerReference env config (obj_Meta x) = Inr m\<close> g k run show ?thesis
        by (cases err) (auto simp: assureResource_def passing_def logging_def Let_def split: prod.splits)
    next
      case (Inr e)
      obtain d y where n: "nu e ?x = (d, y)" by fastforce
      with keeps k have "keyOf y = keyOf x" by (metis keeps_identity_def snd_conv)
      with False \<open>ce_SetControllerReference env config (obj_Meta x) = Inr m\<close> g Inr n run show ?thesis
        by (auto simp: assureResource_def passing_def logging_def Let_def split: prod.splits if_splits)
    qed
  qed
qed

section \<open>Contract of the API server\<close>

locale api_server =
  fixes env :: "'w CEnv" and store :: "'w \<Rightarrow> store"
  assumes get_keeps: "store (snd (ce_Get env k w)) = store w"
    and get_found: "fst (ce_Get env k w) = Inr x \<Longrightarrow> \<exists>y t. store w k = Some y \<and> x = y\<lparr>obj_TypeMeta := t\<rparr>"
    and get_missing: "fst (ce_Get env k w) = Inl NotFound \<Longrightarrow> store w k = None"
    and create_one: "k \<noteq> keyOf x \<Longrightarrow> store (snd (ce_Create env x w)) k = store w k"
    and create_ok: "fst (ce_Create env x w) = Inr u \<Longrightarrow>
          \<exists>y. store (snd (ce_Create env x w)) (keyOf x) = Some y \<and> storedAs x y"
    and update_one: "k \<noteq> keyOf x \<Longrightarrow> store (snd (ce_Update env x w)) k = store w k"
    and update_ok: "fst (ce_Update env x w) = Inr u \<Longrightarrow>
          \<exists>y. store (snd (ce_Update env x w)) (keyOf x) = Some y \<and> storedAs x y"
    and stored_key: "store w k = Some y \<Longrightarrow> keyOf y = k"
    and owner: "owner_law env"
    and config_keeps: "store (snd (ce_GetConfig env name w)) = store w"
begin

lemma get_cases:
  assumes "ce_Get env k w = (g, w1)"
  obtains (missing) "g = Inl NotFound" "store w1 = store w" "store w k = None"
  | (failed) err where "g = Inl (OtherError err)" "store w1 = store w"
  | (found) y t where "g = Inr (y\<lparr>obj_TypeMeta := t\<rparr>)" "store w1 = store w" "store w k = Some y" "keyOf y = k"
  using get_keeps [of k w] get_found [of k w] get_missing [of k w] stored_key [of w k] assms
  by (cases g rule: sum.exhaust; cases "projl g") (fastforce+)

lemma create_cases:
  assumes "ce_Create env x w = (r, w')"
  shows "\<And>k. k \<noteq> keyOf x \<Longrightarrow> store w' k = store w k"
    and "r = Inr u \<Longrightarrow> \<exists>y. store w' (keyOf x) = Some y \<and> storedAs x y"
  using create_one [of _ x w] create_ok [of x w] assms by auto

lemma update_cases:
  assumes "ce_Update env x w = (r, w')"
  shows "\<And>k. k \<noteq> keyOf x \<Longrightarrow> store w' k = store w k"
    and "r = Inr u \<Longrightarrow> \<exists>y. store w' (keyOf x) = Some y \<and> storedAs x y"
  using update_one [of _ x w] update_ok [of x w] assms by auto

text \<open>The ways a call of \<^verbatim>\<open>assureResource\<close> can go.\<close>

lemma assure_cases:
  assumes run: "assureResource env config x nu w = (r, w')"
    and t: "keeps_identity nu"
  obtains (unmanaged) "isOverridden env x (cs_Overrides (cfg_Spec config))" "r = Inr ()" "w' = w"
  | (failed) err where "r = Inl err" "store w' = store w" "w' = w \<or> w' = snd (ce_Get env (keyOf x) w)"
  | (created) m w1 where "\<not> isOverridden env x (cs_Overrides (cfg_Spec config))"
      "ce_SetControllerReference env config (obj_Meta x) = Inr m" "keyOf (x\<lparr>obj_Meta := m\<rparr>) = keyOf x"
      "store w1 = store w" "store w (keyOf x) = None" "ce_Create env (x\<lparr>obj_Meta := m\<rparr>) w1 = (r, w')"
      "w1 = snd (ce_Get env (keyOf x) w)"
  | (existing) m w1 y s d x2 where "\<not> isOverridden env x (cs_Overrides (cfg_Spec config))"
      "ce_SetControllerReference env config (obj_Meta x) = Inr m" "keyOf (x\<lparr>obj_Meta := m\<rparr>) = keyOf x"
      "store w1 = store w" "store w (keyOf x) = Some y" "keyOf y = keyOf x"
      "nu (y\<lparr>obj_TypeMeta := s\<rparr>) (x\<lparr>obj_Meta := m\<rparr>) = (d, x2)" "keyOf x2 = keyOf x" "obj_Meta x2 = m"
      "(r, w') = (if d \<or> om_OwnerReferences (obj_Meta y) \<noteq> om_OwnerReferences m
         then ce_Update env (withVersion (om_ResourceVersion (obj_Meta y)) x2) w1 else (Inr (), w1))"
      "w1 = snd (ce_Get env (keyOf x) w)"
proof (cases "isOverridden env x (cs_Overrides (cfg_Spec config))")
  case True
  with run show thesis by (intro unmanaged) (simp_all add: assureResource_def)
next
  case no: False
  show thesis
  proof (cases "ce_SetControllerReference env config (obj_Meta x)")
    case (Inl err)
    with no run show thesis by (intro failed [of err]) (auto simp: assureResource_def)
  next
    case m: (Inr m)
    let ?x = "x\<lparr>obj_Meta := m\<rparr>"
    have k: "keyOf ?x = keyOf x" by (rule owner_law_key [OF owner m])
    obtain g w1 where g: "ce_Get env (keyOf ?x) w = (g, w1)" by fastforce
    from g show thesis
    proof (cases rule: get_cases)
      case missing
      with no m g run k show thesis by (intro created [of m w1]) (simp_all add: assureResource_def)
    next
      case (failed err)
      with no m g run k show thesis by (intro that(2) [of err]) (auto simp: assureResource_def)
    next
      case (found y s)
      obtain d x2 where n: "nu (y\<lparr>obj_TypeMeta := s\<rparr>) ?x = (d, x2)" by fastforce
      with t k have "keyOf x2 = keyOf x" "obj_Meta x2 = m"
        unfolding keeps_identity_def by (metis snd_conv, metis Obj.select_convs(2) Obj.surjective Obj.update_convs(2) snd_conv)
      with no m g run k found n show thesis
        by (intro existing [of m w1 y s d x2]) (auto simp: assureResource_def split: if_splits)
    qed
  qed
qed

lemma settled_by_update:
  assumes t: "update_test nu covers" and c: "covers (kindOf (obj_Body x))"
    and "keyOf y = keyOf x" "keyOf (x\<lparr>obj_Meta := m\<rparr>) = keyOf x"
    and "nu (y\<lparr>obj_TypeMeta := s\<rparr>) (x\<lparr>obj_Meta := m\<rparr>) = (d, x2)" and "storedAs x2 z"
  shows "\<not> fst (nu (z\<lparr>obj_TypeMeta := t'\<rparr>) (x\<lparr>obj_Meta := m\<rparr>))"
  using assms(3-6) update_test.settles_update [OF t, of "x\<lparr>obj_Meta := m\<rparr>" "y\<lparr>obj_TypeMeta := s\<rparr>" z t'] c
  by (simp add: keyOf_def)

lemma assure_after:
  assumes t: "update_test nu covers" and c: "covers (kindOf (obj_Body x))" and st: "stable (keyOf x) P"
  shows "after store P (\<lambda>w. Some (assureResource env config x nu w)) (\<lambda>\<sigma>. P \<sigma> \<and> sync env config \<sigma> (x, nu))"
  unfolding after_def
proof (intro allI impI)
  fix w w'
  assume P: "P (store w)" and "Some (assureResource env config x nu w) = Some (Inr (), w')"
  then have run: "assureResource env config x nu w = (Inr (), w')" by simp
  from run update_test_identity [OF t] show "P (store w') \<and> sync env config (store w') (x, nu)"
  proof (cases rule: assure_cases)
    case (created m w1)
    from create_cases(2) [OF created(6)] created(3)
    obtain y where y: "store w' (keyOf x) = Some y" "storedAs (x\<lparr>obj_Meta := m\<rparr>) y" by auto
    have "P (store w')" by (rule stableD [OF st P]) (use create_cases(1) [OF created(6)] created in auto)
    with created y c update_test.settles [OF t _ y(2)] show ?thesis by (auto simp: sync_def storedAs_def)
  next
    case (existing m w1 y s d x2)
    show ?thesis
    proof (cases "d \<or> om_OwnerReferences (obj_Meta y) \<noteq> om_OwnerReferences m")
      case True
      with existing(10) have up: "ce_Update env (withVersion (om_ResourceVersion (obj_Meta y)) x2) w1 = (Inr (), w')"
        by simp
      from update_cases(2) [OF up] existing(8) obtain z where z: "store w' (keyOf x) = Some z" "storedAs x2 z" by auto
      have "P (store w')" by (rule stableD [OF st P]) (use update_cases(1) [OF up] existing(4,8) in auto)
      with existing(2,9) z settled_by_update [OF t c existing(6,3,7) z(2)] show ?thesis
        by (auto simp: sync_def storedAs_def)
    next
      case False
      with existing(7) have "\<not> fst (nu (y\<lparr>obj_TypeMeta := s\<rparr>) (x\<lparr>obj_Meta := m\<rparr>))" by simp
      then have "\<not> fst (nu (y\<lparr>obj_TypeMeta := t'\<rparr>) (x\<lparr>obj_Meta := m\<rparr>))" for t'
        using update_test.meta_blind [OF t, of "y\<lparr>obj_TypeMeta := t'\<rparr>" "y\<lparr>obj_TypeMeta := s\<rparr>" "x\<lparr>obj_Meta := m\<rparr>"] c
        by simp
      with False existing P show ?thesis by (auto simp: sync_def)
    qed
  qed (use P in \<open>auto simp: sync_def\<close>)
qed

text \<open>Observing a server does not change what it promises.\<close>

lemma logged_server: "api_server (logged env) (store \<circ> fst)"
proof
  show "owner_law (logged env)" using owner by (simp add: owner_law_def)
  show "\<exists>y t. (store \<circ> fst) w k = Some y \<and> x = y\<lparr>obj_TypeMeta := t\<rparr>" if "fst (ce_Get (logged env) k w) = Inr x" for k w x
    using that get_found [of k "fst w" x] by auto
qed (simp_all add: get_keeps get_missing create_one create_ok update_one update_ok stored_key config_keeps)

text \<open>A resource that is in sync is not written.\<close>

lemma assure_quiet:
  assumes t: "update_test nu covers" and s: "\<And>\<sigma>. P \<sigma> \<Longrightarrow> sync env config \<sigma> (x, nu)"
  shows "quiet store allowed P (\<lambda>w. Some (assureResource (logged env) config x nu w))"
  unfolding quiet_def
proof (intro allI impI)
  fix w l r w' l'
  assume P: "P (store w)" and "Some (assureResource (logged env) config x nu (w, l)) = Some (r, w', l')"
  then have run: "assureResource (logged env) config x nu (w, l) = (r, (w', l'))" by simp
  from s [OF P] have s: "sync env config (store w) (x, nu)" .
  from run update_test_identity [OF t]
  show "P (store w') \<and> (\<exists>e. l' = l @ e \<and> list_all allowed e)"
  proof (cases rule: api_server.assure_cases [OF logged_server, consumes 2, case_names unmanaged failed created existing])
    case (created m w1)
    with s show ?thesis by (simp add: sync_def)
  next
    case (existing m w1 y q d x2)
    from s existing(1,2,5) have "\<not> fst (nu (y\<lparr>obj_TypeMeta := q\<rparr>) (x\<lparr>obj_Meta := m\<rparr>))"
      and "om_OwnerReferences (obj_Meta y) = om_OwnerReferences m" by (simp_all add: sync_def)
    with existing(7,10) have "(w', l') = w1" by simp
    with existing(4,11) P show ?thesis by (metis (no_types) append_Nil2 comp_apply fst_conv list.pred_inject(1) logged_sel(3) passing_sel(3) snd_conv)
  next
    case (failed err)
    then have "l' = l" by (metis logged_sel(3) passing_sel(3) snd_conv)
    with failed P show ?thesis by auto
  qed (use P in auto)
qed

text \<open>A write to one resource changes nothing else.\<close>

lemma assure_frame:
  assumes "assureResource env config x nu w = (r, w')" and "keeps_identity nu" and "k \<noteq> keyOf x"
  shows "store w' k = store w k"
  using assms(1,2)
proof (cases rule: assure_cases)
  case (created m w1)
  with create_cases(1) [OF created(6), of k] assms(3) show ?thesis by simp
next
  case (existing m w1 y s d x2)
  then show ?thesis using update_one [of k "withVersion (om_ResourceVersion (obj_Meta y)) x2" w1] assms(3)
    by (auto split: if_splits dest: sym [of "(r, w')"])
qed auto

lemma assure_allowed:
  assumes "keeps_identity nu" and st: "stable (keyOf x) P" and "\<And>a. writeKey a = Some (keyOf x) \<Longrightarrow> allowed a"
  shows "quiet store allowed P (\<lambda>w. Some (assureResource (logged env) config x nu w))"
  unfolding quiet_def
proof (intro allI impI)
  fix w l r w' l'
  assume P: "P (store w)" and "Some (assureResource (logged env) config x nu (w, l)) = Some (r, w', l')"
  then have run: "assureResource (logged env) config x nu (w, l) = (r, (w', l'))" by simp
  have "P (store w')"
    by (rule stableD [OF st P]) (use api_server.assure_frame [OF logged_server run assms(1)] in auto)
  moreover have "\<exists>e. l' = l @ e \<and> list_all allowed e"
    using assure_writes [OF owner assms(1) run] assms(3) by (auto simp: list_all_iff)
  ultimately show "P (store w') \<and> (\<exists>e. l' = l @ e \<and> list_all allowed e)" by simp
qed

end

end
