(* ===== verification/Config_Cluster.thy ===== *)
theory Config_Cluster
  imports Config_Steps
begin

text \<open>
  The deployment as a whole: \<open>managed\<close> lists the objects the configuration controller keeps in the cluster, with the test
  it compares each of them by, and \<open>ready\<close> says that all of them are in sync, the agent's metrics service is annotated
  and the namespace is labelled. Under the contract of the API server a successful pass makes the deployment ready,
  and a pass over a ready deployment writes nothing but the security context constraints.
\<close>

section \<open>The deployment\<close>

type_synonym managedObj = "Obj \<times> (Obj \<Rightarrow> Obj \<Rightarrow> bool \<times> Obj)"

definition loadedObjs :: "'w CEnv \<Rightarrow> Kind \<Rightarrow> string \<Rightarrow> string \<Rightarrow> Obj list" where
  "loadedObjs env kind path name = (case loadManifest env kind path name of Some (Inr x) \<Rightarrow> [x] | _ \<Rightarrow> [])"

definition cmObjs :: "Config \<Rightarrow> managedObj list" where
  "cmObjs config = [(desiredCM config, cmNeedsUpdate)]"

definition csiObjs :: "'w CEnv \<Rightarrow> ConfigReconciler \<Rightarrow> managedObj list" where
  "csiObjs env r = map (\<lambda>x. (x, csiNeedsUpdate)) (loadedObjs env KCSIDriver (CsiDriverDS r) BpfmanCsiDriverName)"

definition dsObjs :: "'w CEnv \<Rightarrow> ConfigReconciler \<Rightarrow> Config \<Rightarrow> managedObj list" where
  "dsObjs env r config =
     map (\<lambda>x. (configureBpfmanDs env x config, dsNeedsUpdate))
       (loadedObjs env KDaemonSet (BpfmanStandardDS r) BpfmanDsName)"

definition proxyObjs :: "'w CEnv \<Rightarrow> ConfigReconciler \<Rightarrow> Config \<Rightarrow> managedObj list" where
  "proxyObjs env r config =
     (if HasMonitoring r
      then map (\<lambda>x. (configureMetricsProxyDs env x config (IsOpenshift r), dsNeedsUpdate))
             (loadedObjs env KDaemonSet (BpfmanMetricsProxyDS r) BpfmanMetricsProxyDsName)
      else [])"

definition svcObjs :: "ConfigReconciler \<Rightarrow> Config \<Rightarrow> managedObj list" where
  "svcObjs r config =
     (if HasMonitoring r then [(agentSvc config, svcNeedsUpdate), (controllerSvc config, svcNeedsUpdate)] else [])"

definition smObjs :: "ConfigReconciler \<Rightarrow> Config \<Rightarrow> managedObj list" where
  "smObjs r config =
     (if HasMonitoring r
      then [(agentSM (IsOpenshift r) config, smNeedsUpdate), (controllerSM config, smNeedsUpdate)] else [])"

definition rbacObjs :: "ConfigReconciler \<Rightarrow> Config \<Rightarrow> managedObj list" where
  "rbacObjs r config =
     (if IsOpenshift r then [(privilegedCRB config, bindingNeedsUpdate), (userCR, roleNeedsUpdate)] else [])"

definition promObjs :: "ConfigReconciler \<Rightarrow> Config \<Rightarrow> managedObj list" where
  "promObjs r config =
     (if IsOpenshift r \<and> HasMonitoring r
      then [(promRole config, roleNeedsUpdate), (promRB config, bindingNeedsUpdate),
            (metricsReaderCRB, bindingNeedsUpdate)]
      else [])"

definition managed :: "'w CEnv \<Rightarrow> ConfigReconciler \<Rightarrow> Config \<Rightarrow> managedObj list" where
  "managed env r config =
     cmObjs config @ csiObjs env r @ dsObjs env r config @ proxyObjs env r config @ svcObjs r config @
     smObjs r config @ rbacObjs r config @ promObjs r config"

definition syncs :: "'w CEnv \<Rightarrow> Config \<Rightarrow> managedObj list \<Rightarrow> store \<Rightarrow> bool" where
  "syncs env config xs \<sigma> \<longleftrightarrow> (\<forall>xn\<in>set xs. sync env config \<sigma> xn)"

definition agentSvcKey :: "Config \<Rightarrow> Kind \<times> string \<times> string" where
  "agentSvcKey config = (KService, cs_Namespace (cfg_Spec config), BpfmanAgentMetricsServiceName)"

definition annotated :: "'w CEnv \<Rightarrow> ConfigReconciler \<Rightarrow> Config \<Rightarrow> store \<Rightarrow> bool" where
  "annotated env r config \<sigma> \<longleftrightarrow>
     IsOpenshift r \<longrightarrow> isOverridden env (agentSvc config) (cs_Overrides (cfg_Spec config)) \<or>
     (case \<sigma> (agentSvcKey config) of
        None \<Rightarrow> True
      | Some svc \<Rightarrow> mapGet (om_Annotations (obj_Meta svc)) servingCertKey = ''agent-metrics-tls'')"

definition hasEntries :: "strmap \<Rightarrow> strmap \<Rightarrow> bool" where
  "hasEntries want m \<longleftrightarrow> list_all (\<lambda>(k, v). mapGet m k = v) want"

definition isLabelled :: "ConfigReconciler \<Rightarrow> Obj \<Rightarrow> bool" where
  "isLabelled r ns \<longleftrightarrow>
     hasEntries (namespaceLabels r) (om_Labels (obj_Meta ns)) \<and>
     (IsOpenshift r \<longrightarrow> hasEntries osAnnotations (om_Annotations (obj_Meta ns)))"

definition namespaceReady :: "ConfigReconciler \<Rightarrow> Config \<Rightarrow> store \<Rightarrow> bool" where
  "namespaceReady r config \<sigma> \<longleftrightarrow>
     (case \<sigma> (KNamespace, '''', cs_Namespace (cfg_Spec config)) of
        None \<Rightarrow> False
      | Some ns \<Rightarrow> isLabelled r ns)"

definition ready :: "'w CEnv \<Rightarrow> ConfigReconciler \<Rightarrow> Config \<Rightarrow> store \<Rightarrow> bool" where
  "ready env r config \<sigma> \<longleftrightarrow>
     syncs env config (managed env r config) \<sigma> \<and> annotated env r config \<sigma> \<and> namespaceReady r config \<sigma>"

text \<open>
  The security context constraints are no part of \<open>managed\<close>, since the controller's own test is never satisfied by them.
  They are in place when owner and content are right.
\<close>

definition sccContentTest :: "Obj \<Rightarrow> Obj \<Rightarrow> bool \<times> Obj" where
  "sccContentTest existing desired = (obj_Body existing \<noteq> obj_Body desired, desired)"

definition sccReady :: "'w CEnv \<Rightarrow> ConfigReconciler \<Rightarrow> Config \<Rightarrow> store \<Rightarrow> bool" where
  "sccReady env r config \<sigma> \<longleftrightarrow> (IsOpenshift r \<longrightarrow> sync env config \<sigma> (bpfmanRestrictedSCC, sccContentTest))"

section \<open>Maps and keys\<close>

lemma mapGet_update: "mapGet (AList.update k v m) k' = (if k' = k then v else mapGet m k')"
  by (simp add: mapGet_def map_of_update)

lemma setEntries_result:
  assumes "setEntries want (changed, m) = (changed', m')" and "distinct (map fst want)"
  shows "hasEntries want m'" and "changed' \<longleftrightarrow> changed \<or> \<not> hasEntries want m"
    and "k \<notin> fst ` set want \<Longrightarrow> map_of m' k = map_of m k"
proof -
  have "hasEntries want m' \<and> (changed' \<longleftrightarrow> changed \<or> \<not> hasEntries want m) \<and>
      (\<forall>k. k \<notin> fst ` set want \<longrightarrow> map_of m' k = map_of m k)"
    using assms
  proof (induction want arbitrary: changed m)
    case (Cons kv want)
    obtain k v where kv: "kv = (k, v)" by fastforce
    with Cons.prems(2) have k: "k \<notin> fst ` set want" by simp
    show ?case
    proof (cases "mapGet m k = v")
      case True
      with Cons kv have "setEntries want (changed, m) = (changed', m')" by simp
      from Cons.IH [OF this] Cons.prems(2)
      have ih: "hasEntries want m' \<and> (changed' \<longleftrightarrow> changed \<or> \<not> hasEntries want m) \<and>
          (\<forall>j. j \<notin> fst ` set want \<longrightarrow> map_of m' j = map_of m j)" by simp
      moreover from ih k have "mapGet m' k = mapGet m k" by (simp add: mapGet_def)
      ultimately show ?thesis using True kv by (auto simp: hasEntries_def)
    next
      case False
      let ?m = "AList.update k v m"
      from False Cons kv have "setEntries want (True, ?m) = (changed', m')" by simp
      from Cons.IH [OF this] Cons.prems(2) have ih: "hasEntries want m' \<and> changed' \<and>
          (\<forall>j. j \<notin> fst ` set want \<longrightarrow> map_of m' j = map_of ?m j)" by simp
      moreover from ih k have "mapGet m' k = v" by (simp add: mapGet_def map_of_update)
      ultimately show ?thesis using False kv by (auto simp: hasEntries_def map_of_update)
    qed
  qed (simp add: hasEntries_def)
  then show "hasEntries want m'" "changed' \<longleftrightarrow> changed \<or> \<not> hasEntries want m"
    "k \<notin> fst ` set want \<Longrightarrow> map_of m' k = map_of m k" by blast+
qed

lemma namespaceLabels_distinct: "distinct (map fst (namespaceLabels r))"
  by (auto simp: namespaceLabels_def psaLabels_def)

lemma osAnnotations_distinct: "distinct (map fst osAnnotations)"
  by (simp add: osAnnotations_def)

lemma load_Some: "loadManifest env kind path name = Some (Inr x) \<Longrightarrow> kindOf (obj_Body x) = kind \<and> om_Name (obj_Meta x) = name"
  by (auto simp: loadManifest_def Let_def split: sum.splits if_splits)

lemma configureBpfmanDs_key:
  "keyOf (configureBpfmanDs env x config) = (kindOf (obj_Body x), cs_Namespace (cfg_Spec config), BpfmanDsName)"
  by (simp add: configureBpfmanDs_def placeObj_def keyOf_def Let_def split: Body.split)

lemma configureMetricsProxyDs_key:
  "keyOf (configureMetricsProxyDs env x config os) =
     (kindOf (obj_Body x), cs_Namespace (cfg_Spec config), BpfmanMetricsProxyDsName)"
  by (simp add: configureMetricsProxyDs_def placeObj_def keyOf_def Let_def split: Body.split)

lemma loadedObjs_kind: "x \<in> set (loadedObjs env kind path name) \<Longrightarrow> kindOf (obj_Body x) = kind"
  by (auto simp: loadedObjs_def dest: load_Some [OF sym] load_Some split: option.splits sum.splits)

lemma object_keys [simp]:
  "keyOf (desiredCM config) = (KConfigMap, cs_Namespace (cfg_Spec config), BpfmanCmName)"
  "keyOf (agentSvc config) = agentSvcKey config"
  "keyOf (controllerSvc config) = (KService, cs_Namespace (cfg_Spec config), BpfmanControllerMetricsServiceName)"
  "keyOf (agentSM os config) = (KServiceMonitor, cs_Namespace (cfg_Spec config), BpfmanAgentServiceMonitorName)"
  "keyOf (controllerSM config) = (KServiceMonitor, cs_Namespace (cfg_Spec config), BpfmanControllerServiceMonitorName)"
  "keyOf (privilegedCRB config) = (KClusterRoleBinding, '''', BpfmanPrivilegedSccClusterRoleBindingName)"
  "keyOf userCR = (KClusterRole, '''', BpfmanUserClusterRoleName)"
  "keyOf (promRole config) = (KRole, cs_Namespace (cfg_Spec config), BpfmanPrometheusRoleName)"
  "keyOf (promRB config) = (KRoleBinding, cs_Namespace (cfg_Spec config), BpfmanPrometheusRoleBindingName)"
  "keyOf metricsReaderCRB = (KClusterRoleBinding, '''', BpfmanPrometheusClusterRoleBindingName)"
  "keyOf bpfmanRestrictedSCC = (KSCC, '''', BpfmanRestrictedSccName)"
  by (simp_all add: desiredCM_def agentSvc_def agentSvcKey_def controllerSvc_def agentSM_def controllerSM_def
      privilegedCRB_def userCR_def promRole_def promRB_def metricsReaderCRB_def bpfmanRestrictedSCC_def)

lemma object_kinds [simp]:
  "kindOf (obj_Body (desiredCM config)) = KConfigMap"
  "kindOf (obj_Body (agentSvc config)) = KService" "kindOf (obj_Body (controllerSvc config)) = KService"
  "kindOf (obj_Body (agentSM os config)) = KServiceMonitor" "kindOf (obj_Body (controllerSM config)) = KServiceMonitor"
  "kindOf (obj_Body (privilegedCRB config)) = KClusterRoleBinding" "kindOf (obj_Body userCR) = KClusterRole"
  "kindOf (obj_Body (promRole config)) = KRole" "kindOf (obj_Body (promRB config)) = KRoleBinding"
  "kindOf (obj_Body metricsReaderCRB) = KClusterRoleBinding"
  by (simp_all add: desiredCM_def agentSvc_def controllerSvc_def agentSM_def controllerSM_def
      privilegedCRB_def userCR_def promRole_def promRB_def metricsReaderCRB_def)

section \<open>Assertions about parts of the deployment\<close>

definition absorbs :: "Kind \<times> string \<times> string \<Rightarrow> (store \<Rightarrow> bool) \<Rightarrow> bool" where
  "absorbs k P \<longleftrightarrow>
     (\<forall>\<sigma> \<sigma>' y y'. (\<forall>k'. k' \<noteq> k \<longrightarrow> \<sigma>' k' = \<sigma> k') \<longrightarrow> \<sigma> k = Some y \<longrightarrow> \<sigma>' k = Some y' \<longrightarrow>
        om_Labels (obj_Meta y') = om_Labels (obj_Meta y) \<longrightarrow>
        om_OwnerReferences (obj_Meta y') = om_OwnerReferences (obj_Meta y) \<longrightarrow>
        bodyStoredAs (obj_Body y) (obj_Body y') \<longrightarrow> P \<sigma> \<longrightarrow> P \<sigma>')"

lemma absorbsD:
  "absorbs k P \<Longrightarrow> P \<sigma> \<Longrightarrow> \<sigma> k = Some y \<Longrightarrow> \<sigma>' k = Some y' \<Longrightarrow> (\<And>k'. k' \<noteq> k \<Longrightarrow> \<sigma>' k' = \<sigma> k') \<Longrightarrow>
     om_Labels (obj_Meta y') = om_Labels (obj_Meta y) \<Longrightarrow>
     om_OwnerReferences (obj_Meta y') = om_OwnerReferences (obj_Meta y) \<Longrightarrow>
     bodyStoredAs (obj_Body y) (obj_Body y') \<Longrightarrow> P \<sigma>'"
  unfolding absorbs_def by blast

lemma absorbs_stable: "stable k P \<Longrightarrow> absorbs k P"
  unfolding absorbs_def stable_def by blast

lemma absorbs_conj: "absorbs k P \<Longrightarrow> absorbs k Q \<Longrightarrow> absorbs k (\<lambda>\<sigma>. P \<sigma> \<and> Q \<sigma>)"
  unfolding absorbs_def by meson

text \<open>A service stays in sync when only its annotations and the fields the server owns change.\<close>

lemma svcNeedsUpdate_stored:
  assumes "obj_Body x = Service a" and "obj_Body y = Service b" and "bodyStoredAs (obj_Body y) (obj_Body y')"
    and "om_Labels (obj_Meta y') = om_Labels (obj_Meta y)"
  shows "fst (svcNeedsUpdate y' x) = fst (svcNeedsUpdate y x)"
  using assms by (cases "obj_Body y'") (simp_all add: svcNeedsUpdate_def Let_def)

lemma svcNeedsUpdate_same_kind: "\<not> fst (svcNeedsUpdate y x) \<Longrightarrow> \<exists>a b. obj_Body y = Service b \<and> obj_Body x = Service a"
  by (cases "obj_Body y"; cases "obj_Body x") (simp_all add: svcNeedsUpdate_def)

lemma absorbs_sync_svc: "absorbs (keyOf x) (\<lambda>\<sigma>. sync env config \<sigma> (x, svcNeedsUpdate))"
  unfolding absorbs_def
proof (intro allI impI)
  fix \<sigma> \<sigma>' :: store and y y'
  assume y: "\<sigma> (keyOf x) = Some y" and y': "\<sigma>' (keyOf x) = Some y'"
    and l: "om_Labels (obj_Meta y') = om_Labels (obj_Meta y)"
    and own: "om_OwnerReferences (obj_Meta y') = om_OwnerReferences (obj_Meta y)"
    and b: "bodyStoredAs (obj_Body y) (obj_Body y')" and s: "sync env config \<sigma> (x, svcNeedsUpdate)"
  show "sync env config \<sigma>' (x, svcNeedsUpdate)"
  proof (cases "isOverridden env x (cs_Overrides (cfg_Spec config))")
    case False
    with s y obtain m where m: "ce_SetControllerReference env config (obj_Meta x) = Inr m"
        "om_OwnerReferences (obj_Meta y) = om_OwnerReferences m"
        and n: "\<And>t. \<not> fst (svcNeedsUpdate (y\<lparr>obj_TypeMeta := t\<rparr>) (x\<lparr>obj_Meta := m\<rparr>))"
      by (auto simp: sync_def)
    have "\<not> fst (svcNeedsUpdate (y'\<lparr>obj_TypeMeta := t\<rparr>) (x\<lparr>obj_Meta := m\<rparr>))" for t
    proof -
      from svcNeedsUpdate_same_kind [OF n, of t] obtain c d
        where "obj_Body y = Service c" "obj_Body x = Service d" by auto
      with svcNeedsUpdate_stored [of "x\<lparr>obj_Meta := m\<rparr>" d "y\<lparr>obj_TypeMeta := t\<rparr>" c "y'\<lparr>obj_TypeMeta := t\<rparr>"] b l n
      show ?thesis by simp
    qed
    with m y' own show ?thesis by (auto simp: sync_def)
  qed (simp add: sync_def)
qed

lemma stable_syncs: "(\<And>xn. xn \<in> set xs \<Longrightarrow> keyOf (fst xn) \<noteq> k) \<Longrightarrow> stable k (syncs env config xs)"
  unfolding syncs_def [abs_def] using stable_sync unfolding stable_def by metis

lemma syncs_simps [simp]:
  "syncs env config [] \<sigma>"
  "syncs env config (x # xs) \<sigma> \<longleftrightarrow> sync env config \<sigma> x \<and> syncs env config xs \<sigma>"
  "syncs env config (xs @ ys) \<sigma> \<longleftrightarrow> syncs env config xs \<sigma> \<and> syncs env config ys \<sigma>"
  by (auto simp: syncs_def)

lemma isOverridden_key: "keyOf x = keyOf y \<Longrightarrow> isOverridden e x overrides = isOverridden e y overrides"
proof -
  assume k: "keyOf x = keyOf y"
  then have "overrideLoop g x os = overrideLoop g y os" for g os
    by (induction os) (auto simp: keyOf_def split: sum.split)
  with k show ?thesis by (simp add: isOverridden_def keyOf_def split: sum.split list.split)
qed

definition annotate :: "Obj \<Rightarrow> Obj" where
  "annotate y = y\<lparr>obj_Meta := (obj_Meta y)\<lparr>om_Annotations :=
     AList.update servingCertKey ''agent-metrics-tls'' (om_Annotations (obj_Meta y))\<rparr>\<rparr>"

abbreviation isAnnotated :: "Obj \<Rightarrow> bool" where
  "isAnnotated y \<equiv> mapGet (om_Annotations (obj_Meta y)) servingCertKey = ''agent-metrics-tls''"

lemma annotate_simps [simp]:
  "keyOf (annotate y) = keyOf y" "om_Labels (obj_Meta (annotate y)) = om_Labels (obj_Meta y)"
  "om_OwnerReferences (obj_Meta (annotate y)) = om_OwnerReferences (obj_Meta y)"
  "obj_Body (annotate y) = obj_Body y" "isAnnotated (annotate y)"
  by (simp_all add: annotate_def keyOf_def mapGet_update)

lemma annotation_run:
  assumes "reconcileAgentMetricsServiceAnnotation env r config w = Some (res, w')"
  obtains (off) "\<not> IsOpenshift r \<or> isOverridden env (agentSvc config) (cs_Overrides (cfg_Spec config))"
      "res = Inr ()" "w' = w"
  | (on) g w1 where "IsOpenshift r" "\<not> isOverridden env (agentSvc config) (cs_Overrides (cfg_Spec config))"
      "ce_Get env (agentSvcKey config) w = (g, w1)"
      "case g of Inl err \<Rightarrow> w' = w1 \<and> (res = Inr () \<longrightarrow> err = NotFound)
       | Inr y \<Rightarrow> if isAnnotated y then w' = w1 \<and> res = Inr ()
                 else w' = snd (ce_Update env (annotate y) w1) \<and> (res = Inr () \<longrightarrow> fst (ce_Update env (annotate y) w1) = Inr ())"
proof -
  let ?svc = "mkObj BpfmanAgentMetricsServiceName (cs_Namespace (cfg_Spec config)) []
    (Service \<lparr>svc_ClusterIP = '''', svc_ClusterIPs = [], svc_Ports = [], svc_Selector = [], svc_rest = ''''\<rparr>)"
  have k: "keyOf ?svc = agentSvcKey config" by (simp add: agentSvcKey_def)
  have ov: "isOverridden env ?svc os = isOverridden env (agentSvc config) os" for os
    by (rule isOverridden_key) (simp add: agentSvcKey_def)
  show thesis
  proof (cases "\<not> IsOpenshift r \<or> isOverridden env (agentSvc config) (cs_Overrides (cfg_Spec config))")
    case True
    with assms ov show thesis
      by (intro off) (auto simp: reconcileAgentMetricsServiceAnnotation_def split: if_splits)
  next
    case False
    obtain g w1 where g: "ce_Get env (agentSvcKey config) w = (g, w1)" by fastforce
    from False g assms ov k show thesis
      by (intro on [of g w1])
        (auto simp: reconcileAgentMetricsServiceAnnotation_def annotate_def split: sum.splits GetError.splits prod.splits if_splits)
  qed
qed

text \<open>The namespace with the entries it lacks.\<close>

definition labelNamespace :: "ConfigReconciler \<Rightarrow> Obj \<Rightarrow> Obj" where
  "labelNamespace r ns = ns\<lparr>obj_Meta := (obj_Meta ns)
     \<lparr>om_Labels := snd (setEntries (namespaceLabels r) (False, om_Labels (obj_Meta ns))),
      om_Annotations := (if IsOpenshift r then snd (setEntries osAnnotations (False, om_Annotations (obj_Meta ns)))
                         else om_Annotations (obj_Meta ns))\<rparr>\<rparr>"

lemma setEntries_snd: "snd (setEntries want (c, m)) = snd (setEntries want (c', m))"
  by (induction want arbitrary: c c' m) auto

lemma labelNamespace_labelled: "isLabelled r (labelNamespace r ns)"
  using setEntries_result(1) [OF prod.collapse [symmetric] namespaceLabels_distinct]
    setEntries_result(1) [OF prod.collapse [symmetric] osAnnotations_distinct]
  by (simp add: isLabelled_def labelNamespace_def)

lemma labelNamespace_key [simp]: "keyOf (labelNamespace r ns) = keyOf ns"
  by (simp add: labelNamespace_def keyOf_def)

lemma namespace_run:
  assumes "reconcileNamespace env r config w = Some (res, w')"
    and "ce_Get env (KNamespace, '''', cs_Namespace (cfg_Spec config)) w = (g, w1)"
  shows "case g of Inl err \<Rightarrow> w' = w1 \<and> res \<noteq> Inr ()
       | Inr y \<Rightarrow> if isLabelled r y then w' = w1 \<and> res = Inr ()
                 else w' = snd (ce_Update env (labelNamespace r y) w1) \<and>
                   (res = Inr () \<longrightarrow> fst (ce_Update env (labelNamespace r y) w1) = Inr ())"
proof (cases g)
  case (Inr y)
  obtain c labels where l: "setEntries (namespaceLabels r) (False, om_Labels (obj_Meta y)) = (c, labels)" by fastforce
  obtain d annotations where a: "(if IsOpenshift r then setEntries osAnnotations (c, om_Annotations (obj_Meta y))
      else (c, om_Annotations (obj_Meta y))) = (d, annotations)" by fastforce
  have d: "d \<longleftrightarrow> \<not> isLabelled r y"
    using setEntries_result(2) [OF l namespaceLabels_distinct] a
      setEntries_result(2) [of osAnnotations c "om_Annotations (obj_Meta y)" d annotations, OF _ osAnnotations_distinct]
    by (auto simp: isLabelled_def split: if_splits)
  have y: "y\<lparr>obj_Meta := (obj_Meta y)\<lparr>om_Labels := labels, om_Annotations := annotations\<rparr>\<rparr> = labelNamespace r y"
    using l a setEntries_snd [of osAnnotations c "om_Annotations (obj_Meta y)" False]
    by (auto simp: labelNamespace_def split: if_splits)
  from assms Inr l a d y show ?thesis
    by (auto simp: reconcileNamespace_def split: prod.splits sum.splits if_splits)
qed (use assms in \<open>auto simp: reconcileNamespace_def\<close>)

context api_server
begin

lemma assure_keeps:
  assumes "keeps_identity nu" and st: "stable (keyOf x) P"
  shows "after store P (\<lambda>w. Some (assureResource env config x nu w)) P"
  unfolding after_def
proof (intro allI impI)
  fix w w'
  assume P: "P (store w)" and "Some (assureResource env config x nu w) = Some (Inr (), w')"
  then have run: "assureResource env config x nu w = (Inr (), w')" by simp
  show "P (store w')" by (rule stableD [OF st P]) (use assure_frame [OF run assms(1)] in auto)
qed

text \<open>Two resources one after the other.\<close>

lemma assure_two_after:
  assumes "update_test nu covers" "covers (kindOf (obj_Body x))" "stable (keyOf x) P"
    and "update_test nu' covers'" "covers' (kindOf (obj_Body y))" "stable (keyOf y) P" and "keyOf x \<noteq> keyOf y"
  shows "after store P (andThen (\<lambda>w. Some (assureResource env config x nu w))
                                (\<lambda>w. Some (assureResource env config y nu' w)))
           (\<lambda>\<sigma>. P \<sigma> \<and> syncs env config [(x, nu), (y, nu')] \<sigma>)"
proof (rule after_andThen)
  show "after store P (\<lambda>w. Some (assureResource env config x nu w)) (\<lambda>\<sigma>. P \<sigma> \<and> sync env config \<sigma> (x, nu))"
    using assms(1-3) by (rule assure_after)
  have "stable (keyOf y) (\<lambda>\<sigma>. P \<sigma> \<and> sync env config \<sigma> (x, nu))"
    using assms(6,7) by (intro stable_conj stable_sync) auto
  from assure_after [OF assms(4,5) this]
  show "after store (\<lambda>\<sigma>. P \<sigma> \<and> sync env config \<sigma> (x, nu)) (\<lambda>w. Some (assureResource env config y nu' w))
      (\<lambda>\<sigma>. P \<sigma> \<and> syncs env config [(x, nu), (y, nu')] \<sigma>)"
    by (rule after_weaken) simp
qed

lemma assure_two_quiet:
  assumes "update_test nu covers" "update_test nu' covers'"
    and "\<And>\<sigma>. P \<sigma> \<Longrightarrow> syncs env config [(x, nu), (y, nu')] \<sigma>"
  shows "quiet store allowed P (andThen (\<lambda>w. Some (assureResource (logged env) config x nu w))
                                (\<lambda>w. Some (assureResource (logged env) config y nu' w)))"
  by (rule quiet_andThen; rule assure_quiet) (use assms in auto)

text \<open>A resource that is loaded from a manifest first.\<close>

lemma loaded_after:
  assumes "update_test nu covers"
    and "\<And>x. x \<in> set (loadedObjs env kind path name) \<Longrightarrow> covers (kindOf (obj_Body (f x))) \<and> stable (keyOf (f x)) P"
  shows "after store P
     (\<lambda>w. do { loaded \<leftarrow> loadManifest env kind path name;
               Some (case loaded of Inl err \<Rightarrow> (Inl err, w)
                     | Inr x \<Rightarrow> assureResource env config (f x) nu w) })
     (\<lambda>\<sigma>. P \<sigma> \<and> syncs env config (map (\<lambda>x. (f x, nu)) (loadedObjs env kind path name)) \<sigma>)"
proof (cases "loadManifest env kind path name")
  case (Some res)
  show ?thesis
  proof (cases res)
    case (Inr x)
    with Some have l: "loadedObjs env kind path name = [x]" by (simp add: loadedObjs_def)
    with assms(2) have "covers (kindOf (obj_Body (f x)))" "stable (keyOf (f x)) P" by auto
    from assure_after [OF assms(1) this] show ?thesis using Some Inr l by simp
  qed (use Some in \<open>simp add: after_def\<close>)
qed (simp add: after_def)

lemma loaded_quiet:
  assumes "update_test nu covers"
    and "\<And>\<sigma>. P \<sigma> \<Longrightarrow> syncs env config (map (\<lambda>x. (f x, nu)) (loadedObjs env kind path name)) \<sigma>"
  shows "quiet store allowed P
     (\<lambda>w. do { loaded \<leftarrow> loadManifest env kind path name;
               Some (case loaded of Inl err \<Rightarrow> (Inl err, w)
                     | Inr x \<Rightarrow> assureResource (logged env) config (f x) nu w) })"
proof (cases "loadManifest env kind path name")
  case (Some res)
  show ?thesis
  proof (cases res)
    case (Inr x)
    with Some assms(2) have "\<And>\<sigma>. P \<sigma> \<Longrightarrow> sync env config \<sigma> (f x, nu)" by (simp add: loadedObjs_def)
    from assure_quiet [OF assms(1) this] show ?thesis using Some Inr by simp
  qed (use Some in \<open>simp add: quiet_def\<close>)
qed (simp add: quiet_def)

text \<open>The annotation of the agent's metrics service.\<close>

lemma annotation_after:
  assumes P: "absorbs (agentSvcKey config) P"
  shows "after store P (reconcileAgentMetricsServiceAnnotation env r config)
           (\<lambda>\<sigma>. P \<sigma> \<and> annotated env r config \<sigma>)"
  unfolding after_def
proof (intro allI impI)
  fix w w'
  assume Pw: "P (store w)" and run: "reconcileAgentMetricsServiceAnnotation env r config w = Some (Inr (), w')"
  from run show "P (store w') \<and> annotated env r config (store w')"
  proof (cases rule: annotation_run)
    case off
    with Pw show ?thesis by (auto simp: annotated_def)
  next
    case (on g w1)
    from on(3) show ?thesis
    proof (cases rule: get_cases)
      case (found y s)
      let ?y = "y\<lparr>obj_TypeMeta := s\<rparr>"
      show ?thesis
      proof (cases "isAnnotated y")
        case False
        with on(4) found(1) have "ce_Update env (annotate ?y) w1 = (Inr (), w')" by (simp add: prod_eq_iff)
        note up = update_cases [OF this]
        from up(2) found(4) obtain z where z: "store w' (agentSvcKey config) = Some z" "storedAs (annotate ?y) z" by auto
        have "P (store w')"
          by (rule absorbsD [where \<sigma> = "store w" and \<sigma>' = "store w'", OF P Pw found(3) z(1)])
            (use up(1) found(2,4) z(2) in \<open>auto simp: storedAs_def\<close>)
        moreover have "isAnnotated z" using z(2) annotate_simps(5) [of ?y] by (simp add: storedAs_def)
        ultimately show ?thesis using z(1) by (simp add: annotated_def)
      qed (use on(4) found Pw in \<open>simp add: annotated_def\<close>)
    qed (use on(4) Pw in \<open>auto simp: annotated_def\<close>)
  qed
qed

lemma annotation_quiet:
  assumes P: "\<And>\<sigma>. P \<sigma> \<Longrightarrow> annotated env r config \<sigma>"
  shows "quiet store allowed P (reconcileAgentMetricsServiceAnnotation (logged env) r config)"
  unfolding quiet_def
proof (intro allI impI)
  fix w l res w' l'
  assume Pw: "P (store w)"
    and run: "reconcileAgentMetricsServiceAnnotation (logged env) r config (w, l) = Some (res, (w', l'))"
  from run show "P (store w') \<and> (\<exists>e. l' = l @ e \<and> list_all allowed e)"
  proof (cases rule: annotation_run)
    case off
    with Pw show ?thesis by auto
  next
    case (on g w1)
    then obtain v where v: "ce_Get env (agentSvcKey config) w = (g, v)" and w1: "w1 = (v, l)"
      by (auto simp: passing_def split: prod.splits)
    from v show ?thesis
    proof (cases rule: get_cases)
      case (found y s)
      with P [OF Pw] on(1,2) have "isAnnotated y" by (simp add: annotated_def)
      with on(4) found w1 Pw show ?thesis by simp
    qed (use on(4) w1 Pw in auto)
  qed
qed

text \<open>The namespace.\<close>

lemma namespace_after:
  assumes P: "stable (KNamespace, '''', cs_Namespace (cfg_Spec config)) P"
  shows "after store P (reconcileNamespace env r config) (\<lambda>\<sigma>. P \<sigma> \<and> namespaceReady r config \<sigma>)"
  unfolding after_def
proof (intro allI impI)
  fix w w'
  assume Pw: "P (store w)" and run: "reconcileNamespace env r config w = Some (Inr (), w')"
  obtain g w1 where g: "ce_Get env (KNamespace, '''', cs_Namespace (cfg_Spec config)) w = (g, w1)" by fastforce
  note run = namespace_run [OF run g]
  from g show "P (store w') \<and> namespaceReady r config (store w')"
  proof (cases rule: get_cases)
    case (found y s)
    let ?y = "y\<lparr>obj_TypeMeta := s\<rparr>"
    show ?thesis
    proof (cases "isLabelled r y")
      case True
      with run found Pw show ?thesis by (simp add: namespaceReady_def isLabelled_def)
    next
      case False
      with run found(1) have "ce_Update env (labelNamespace r ?y) w1 = (Inr (), w')"
        by (simp add: prod_eq_iff isLabelled_def)
      note up = update_cases [OF this]
      from up(2) found(4) obtain z where z: "store w' (KNamespace, '''', cs_Namespace (cfg_Spec config)) = Some z"
        "storedAs (labelNamespace r ?y) z" by auto
      have "P (store w')" by (rule stableD [OF P Pw]) (use up(1) found(2,4) in auto)
      moreover have "isLabelled r z" using z(2) labelNamespace_labelled [of r ?y] by (simp add: storedAs_def isLabelled_def)
      ultimately show ?thesis using z(1) by (simp add: namespaceReady_def)
    qed
  qed (use run in auto)
qed

lemma namespace_quiet:
  assumes P: "\<And>\<sigma>. P \<sigma> \<Longrightarrow> namespaceReady r config \<sigma>"
  shows "quiet store allowed P (reconcileNamespace (logged env) r config)"
  unfolding quiet_def
proof (intro allI impI)
  fix w l res w' l'
  assume Pw: "P (store w)" and run: "reconcileNamespace (logged env) r config (w, l) = Some (res, (w', l'))"
  obtain g v where v: "ce_Get env (KNamespace, '''', cs_Namespace (cfg_Spec config)) w = (g, v)" by fastforce
  then have "ce_Get (logged env) (KNamespace, '''', cs_Namespace (cfg_Spec config)) (w, l) = (g, (v, l))"
    by (simp add: passing_def)
  note run = namespace_run [OF run this]
  from v show "P (store w') \<and> (\<exists>e. l' = l @ e \<and> list_all allowed e)"
  proof (cases rule: get_cases)
    case (found y s)
    with P [OF Pw] have "isLabelled r y" by (simp add: namespaceReady_def)
    with run found Pw show ?thesis by (simp add: isLabelled_def)
  qed (use run Pw in auto)
qed

end

end
