(* ===== verification/Config_Reconcile_Contract.thy ===== *)
theory Config_Reconcile_Contract
  imports Config_Cluster
begin

text \<open>
  The pass over all resources, step by step: after each step the objects it manages are in sync and those of the
  steps before it still are; on a ready deployment each step is quiet.
\<close>

abbreviation untouched :: "managedObj list \<Rightarrow> (store \<Rightarrow> bool) \<Rightarrow> bool" where
  "untouched xs P \<equiv> list_all (\<lambda>xn. stable (keyOf (fst xn)) P) xs"

lemma configure_kinds [simp]:
  "kindOf (obj_Body (configureBpfmanDs env x config)) = kindOf (obj_Body x)"
  "kindOf (obj_Body (configureMetricsProxyDs env x config os)) = kindOf (obj_Body x)"
  using configureBpfmanDs_key [of env x config] configureMetricsProxyDs_key [of env x config os]
  by (simp_all add: keyOf_def)

lemma untouched_True: "untouched xs (\<lambda>\<sigma>. True)"
  by (simp add: list_all_iff)

lemma untouched_conj: "untouched xs P \<Longrightarrow> untouched xs Q \<Longrightarrow> untouched xs (\<lambda>\<sigma>. P \<sigma> \<and> Q \<sigma>)"
  by (auto simp: list_all_iff intro: stable_conj)

lemma untouched_syncs:
  "(\<And>a b. a \<in> set xs \<Longrightarrow> b \<in> set ys \<Longrightarrow> keyOf (fst a) \<noteq> keyOf (fst b)) \<Longrightarrow> untouched xs (syncs env config ys)"
  by (auto simp: list_all_iff intro!: stable_syncs dest: sym)

lemma stable_annotated: "k \<noteq> agentSvcKey config \<Longrightarrow> stable k (annotated env r config)"
  unfolding stable_def annotated_def by (metis (no_types, lifting))

lemma untouched_annotated:
  "(\<And>a. a \<in> set xs \<Longrightarrow> keyOf (fst a) \<noteq> agentSvcKey config) \<Longrightarrow> untouched xs (annotated env r config)"
  by (auto simp: list_all_iff intro!: stable_annotated)

lemma stable_sccReady: "k \<noteq> keyOf bpfmanRestrictedSCC \<Longrightarrow> stable k (sccReady env r config)"
  using stable_sync [of k "(bpfmanRestrictedSCC, sccContentTest)" env config]
  by (cases "IsOpenshift r") (simp_all add: sccReady_def [abs_def])

lemma untouched_sccReady:
  "(\<And>a. a \<in> set xs \<Longrightarrow> fst (keyOf (fst a)) \<noteq> KSCC) \<Longrightarrow> untouched xs (sccReady env r config)"
  by (fastforce simp: list_all_iff bpfmanRestrictedSCC_def intro!: stable_sccReady)

lemma absorbs_svcObjs: "absorbs (agentSvcKey config) (syncs env config (svcObjs r config))"
proof (cases "HasMonitoring r")
  case True
  have "absorbs (agentSvcKey config) (\<lambda>\<sigma>. sync env config \<sigma> (agentSvc config, svcNeedsUpdate))"
    using absorbs_sync_svc [of "agentSvc config"] by simp
  moreover have "absorbs (agentSvcKey config) (\<lambda>\<sigma>. sync env config \<sigma> (controllerSvc config, svcNeedsUpdate))"
    by (intro absorbs_stable stable_sync) (simp add: agentSvcKey_def config_names)
  ultimately show ?thesis using True absorbs_conj by (fastforce simp: svcObjs_def [abs_def] syncs_def [abs_def])
qed (simp add: svcObjs_def syncs_def [abs_def] absorbs_stable)

text \<open>Where the managed objects live.\<close>

lemma fst_keyOf: "fst (keyOf x) = kindOf (obj_Body x)"
  by (simp add: keyOf_def)

lemma managed_keys:
  "xn \<in> set (cmObjs config) \<Longrightarrow> fst (keyOf (fst xn)) = KConfigMap"
  "xn \<in> set (csiObjs env r) \<Longrightarrow> fst (keyOf (fst xn)) = KCSIDriver"
  "xn \<in> set (dsObjs env r config) \<Longrightarrow> fst (keyOf (fst xn)) = KDaemonSet \<and> snd (snd (keyOf (fst xn))) = BpfmanDsName"
  "xn \<in> set (proxyObjs env r config) \<Longrightarrow>
     fst (keyOf (fst xn)) = KDaemonSet \<and> snd (snd (keyOf (fst xn))) = BpfmanMetricsProxyDsName"
  "xn \<in> set (svcObjs r config) \<Longrightarrow> fst (keyOf (fst xn)) = KService"
  "xn \<in> set (smObjs r config) \<Longrightarrow> fst (keyOf (fst xn)) = KServiceMonitor"
  "xn \<in> set (rbacObjs r config) \<Longrightarrow>
     fst (keyOf (fst xn)) = KClusterRoleBinding \<and>
       snd (snd (keyOf (fst xn))) = BpfmanPrivilegedSccClusterRoleBindingName \<or>
     fst (keyOf (fst xn)) = KClusterRole"
  "xn \<in> set (promObjs r config) \<Longrightarrow>
     fst (keyOf (fst xn)) = KClusterRoleBinding \<and>
       snd (snd (keyOf (fst xn))) = BpfmanPrometheusClusterRoleBindingName \<or>
     fst (keyOf (fst xn)) = KRole \<or> fst (keyOf (fst xn)) = KRoleBinding"
  by (auto simp: cmObjs_def csiObjs_def dsObjs_def proxyObjs_def svcObjs_def smObjs_def rbacObjs_def promObjs_def
      agentSvcKey_def configureBpfmanDs_key configureMetricsProxyDs_key fst_keyOf split: if_splits
      dest: loadedObjs_kind)

text \<open>The one resource whose test is never satisfied.\<close>

definition sccWrite :: "ConfigReconciler \<Rightarrow> Write \<Rightarrow> bool" where
  "sccWrite r a \<longleftrightarrow> IsOpenshift r \<and> writeKey a = Some (keyOf bpfmanRestrictedSCC)"

lemma stable_ready_scc: "stable (keyOf bpfmanRestrictedSCC) (ready env r config)"
proof -
  have "stable (KSCC, '''', BpfmanRestrictedSccName) (namespaceReady r config)"
    unfolding stable_def namespaceReady_def by (metis (no_types, lifting) Kind.distinct prod.inject)
  moreover have "stable (KSCC, '''', BpfmanRestrictedSccName) (syncs env config (managed env r config))"
    by (rule stable_syncs) (auto simp: managed_def dest!: managed_keys)
  ultimately show ?thesis
    unfolding ready_def [abs_def] by (intro stable_conj) (auto simp: agentSvcKey_def intro: stable_annotated)
qed

lemma ready_parts:
  assumes "ready env r config \<sigma>"
  shows "syncs env config (cmObjs config) \<sigma>" "syncs env config (csiObjs env r) \<sigma>" "syncs env config (dsObjs env r config) \<sigma>"
    "syncs env config (proxyObjs env r config) \<sigma>" "syncs env config (svcObjs r config) \<sigma>"
    "syncs env config (smObjs r config) \<sigma>" "syncs env config (rbacObjs r config) \<sigma>"
    "syncs env config (promObjs r config) \<sigma>" "annotated env r config \<sigma>" "namespaceReady r config \<sigma>"
  using assms by (simp_all add: ready_def managed_def)

context api_server
begin

lemma cm_after:
  "stable (keyOf (desiredCM config)) P \<Longrightarrow>
     after store P (reconcileCM env config) (\<lambda>\<sigma>. P \<sigma> \<and> syncs env config (cmObjs config) \<sigma>)"
  using assure_after [OF cmTest.update_test_axioms, of "desiredCM config" P config]
  by (simp add: reconcileCM_def [abs_def] cmObjs_def)

lemma csi_after:
  assumes "untouched (csiObjs env r) P"
  shows "after store P (reconcileCSIDriver env r config) (\<lambda>\<sigma>. P \<sigma> \<and> syncs env config (csiObjs env r) \<sigma>)"
  unfolding reconcileCSIDriver_def [abs_def] csiObjs_def
  by (rule loaded_after [OF csiTest.update_test_axioms, where f = "\<lambda>x. x", simplified])
    (use assms in \<open>auto simp: csiObjs_def list_all_iff dest: loadedObjs_kind\<close>)

lemma ds_after:
  assumes "untouched (dsObjs env r config) P"
  shows "after store P (reconcileStandardDS env r config) (\<lambda>\<sigma>. P \<sigma> \<and> syncs env config (dsObjs env r config) \<sigma>)"
  unfolding reconcileStandardDS_def [abs_def] dsObjs_def
proof (rule loaded_after [OF dsTest.update_test_axioms])
  fix x assume "x \<in> set (loadedObjs env KDaemonSet (BpfmanStandardDS r) BpfmanDsName)"
  with assms show "kindOf (obj_Body (configureBpfmanDs env x config)) = KDaemonSet \<and>
      stable (keyOf (configureBpfmanDs env x config)) P"
    by (auto simp: dsObjs_def list_all_iff dest: loadedObjs_kind)
qed

lemma proxy_after:
  assumes "untouched (proxyObjs env r config) P"
  shows "after store P (reconcileMetricsProxyDS env r config) (\<lambda>\<sigma>. P \<sigma> \<and> syncs env config (proxyObjs env r config) \<sigma>)"
proof (cases "HasMonitoring r")
  case True
  have "after store P (\<lambda>w. do { loaded \<leftarrow> loadManifest env KDaemonSet (BpfmanMetricsProxyDS r) BpfmanMetricsProxyDsName;
      Some (case loaded of Inl err \<Rightarrow> (Inl err, w)
            | Inr x \<Rightarrow> assureResource env config (configureMetricsProxyDs env x config (IsOpenshift r)) dsNeedsUpdate w) })
      (\<lambda>\<sigma>. P \<sigma> \<and> syncs env config (map (\<lambda>x. (configureMetricsProxyDs env x config (IsOpenshift r), dsNeedsUpdate))
        (loadedObjs env KDaemonSet (BpfmanMetricsProxyDS r) BpfmanMetricsProxyDsName)) \<sigma>)"
  proof (rule loaded_after [OF dsTest.update_test_axioms])
    fix x assume "x \<in> set (loadedObjs env KDaemonSet (BpfmanMetricsProxyDS r) BpfmanMetricsProxyDsName)"
    with assms True show "kindOf (obj_Body (configureMetricsProxyDs env x config (IsOpenshift r))) = KDaemonSet \<and>
        stable (keyOf (configureMetricsProxyDs env x config (IsOpenshift r))) P"
      by (auto simp: proxyObjs_def list_all_iff dest: loadedObjs_kind)
  qed
  with True show ?thesis by (simp add: reconcileMetricsProxyDS_def [abs_def] proxyObjs_def)
qed (simp add: reconcileMetricsProxyDS_def [abs_def] proxyObjs_def after_skip)

lemma svc_after:
  assumes "untouched (svcObjs r config) P"
  shows "after store P (reconcileMetricsServices env r config) (\<lambda>\<sigma>. P \<sigma> \<and> syncs env config (svcObjs r config) \<sigma>)"
proof (cases "HasMonitoring r")
  case True
  with assms assure_two_after [OF svcTest.update_test_axioms _ _ svcTest.update_test_axioms, of "agentSvc config" P
      "controllerSvc config" config]
  show ?thesis by (simp add: reconcileMetricsServices_def svcObjs_def agentSvcKey_def config_names)
qed (simp add: reconcileMetricsServices_def svcObjs_def after_skip)

lemma sm_after:
  assumes "untouched (smObjs r config) P"
  shows "after store P (reconcileServiceMonitors env r config) (\<lambda>\<sigma>. P \<sigma> \<and> syncs env config (smObjs r config) \<sigma>)"
proof (cases "HasMonitoring r")
  case True
  with assms assure_two_after [OF smTest.update_test_axioms _ _ smTest.update_test_axioms,
      of "agentSM (IsOpenshift r) config" P "controllerSM config" config]
  show ?thesis by (simp add: reconcileServiceMonitors_def smObjs_def config_names)
qed (simp add: reconcileServiceMonitors_def smObjs_def after_skip)

lemma rbac_after:
  assumes "untouched (rbacObjs r config) P"
  shows "after store P (reconcileOpenShiftRBAC env r config) (\<lambda>\<sigma>. P \<sigma> \<and> syncs env config (rbacObjs r config) \<sigma>)"
proof (cases "IsOpenshift r")
  case True
  with assms assure_two_after [OF bindingTest.update_test_axioms _ _ roleTest.update_test_axioms,
      of "privilegedCRB config" P userCR config]
  show ?thesis by (simp add: reconcileOpenShiftRBAC_def rbacObjs_def)
qed (simp add: reconcileOpenShiftRBAC_def rbacObjs_def after_skip)

lemma prom_after:
  assumes "untouched (promObjs r config) P"
  shows "after store P (reconcilePrometheusRBAC env r config) (\<lambda>\<sigma>. P \<sigma> \<and> syncs env config (promObjs r config) \<sigma>)"
proof (cases "IsOpenshift r \<and> HasMonitoring r")
  case True
  with assms have s: "stable (keyOf (promRole config)) P" "stable (keyOf (promRB config)) P"
      "stable (keyOf metricsReaderCRB) P" by (auto simp: promObjs_def)
  let ?Q = "\<lambda>\<sigma>. P \<sigma> \<and> sync env config \<sigma> (promRole config, roleNeedsUpdate)"
  have "after store P (\<lambda>w. Some (assureResource env config (promRole config) roleNeedsUpdate w)) ?Q"
    using assure_after [OF roleTest.update_test_axioms _ s(1)] by simp
  moreover have "stable (keyOf (promRB config)) ?Q" "stable (keyOf metricsReaderCRB) ?Q"
    using s by (auto intro!: stable_conj stable_sync)
  from assure_two_after [OF bindingTest.update_test_axioms _ this(1) bindingTest.update_test_axioms _ this(2), of config]
  have "after store ?Q (andThen (\<lambda>w. Some (assureResource env config (promRB config) bindingNeedsUpdate w))
      (\<lambda>w. Some (assureResource env config metricsReaderCRB bindingNeedsUpdate w)))
      (\<lambda>\<sigma>. ?Q \<sigma> \<and> syncs env config [(promRB config, bindingNeedsUpdate), (metricsReaderCRB, bindingNeedsUpdate)] \<sigma>)"
    by simp
  ultimately have "after store P (andThen (\<lambda>w. Some (assureResource env config (promRole config) roleNeedsUpdate w))
      (andThen (\<lambda>w. Some (assureResource env config (promRB config) bindingNeedsUpdate w))
        (\<lambda>w. Some (assureResource env config metricsReaderCRB bindingNeedsUpdate w))))
      (\<lambda>\<sigma>. ?Q \<sigma> \<and> syncs env config [(promRB config, bindingNeedsUpdate), (metricsReaderCRB, bindingNeedsUpdate)] \<sigma>)"
    by (rule after_andThen)
  then show ?thesis using True
    by (simp add: reconcilePrometheusRBAC_def promObjs_def conj_assoc)
qed (auto simp: reconcilePrometheusRBAC_def promObjs_def after_skip)

lemma scc_after:
  assumes "stable (keyOf bpfmanRestrictedSCC) P"
  shows "after store P (reconcileSCC env r config) (\<lambda>\<sigma>. P \<sigma> \<and> sccReady env r config \<sigma>)"
proof (cases "IsOpenshift r")
  case True
  have k: "keeps_identity sccNeedsUpdate" by (simp add: keeps_identity_def)
  have "after store P (\<lambda>w. Some (assureResource env config bpfmanRestrictedSCC sccNeedsUpdate w))
      (\<lambda>\<sigma>. P \<sigma> \<and> sync env config \<sigma> (bpfmanRestrictedSCC, sccContentTest))"
    unfolding after_def
  proof (intro allI impI)
    fix w w'
    assume P: "P (store w)" and "Some (assureResource env config bpfmanRestrictedSCC sccNeedsUpdate w) = Some (Inr (), w')"
    then have run: "assureResource env config bpfmanRestrictedSCC sccNeedsUpdate w = (Inr (), w')" by simp
    with P assure_keeps [OF k assms, of config] have "P (store w')" by (simp add: after_def)
    moreover from run k have "sync env config (store w') (bpfmanRestrictedSCC, sccContentTest)"
    proof (cases rule: assure_cases)
      case (created m w1)
      with create_cases(2) [OF created(6)] obtain y where "store w' (keyOf bpfmanRestrictedSCC) = Some y"
        "storedAs (bpfmanRestrictedSCC\<lparr>obj_Meta := m\<rparr>) y" by auto
      with created(2) show ?thesis by (auto simp: sync_def storedAs_def sccContentTest_def bpfmanRestrictedSCC_def)
    next
      case (existing m w1 y s d x2)
      then have x2: "x2 = bpfmanRestrictedSCC\<lparr>obj_Meta := m\<rparr>" and d: "\<not> d \<Longrightarrow> obj_Body y = obj_Body bpfmanRestrictedSCC"
        by (auto simp: sccNeedsUpdate_def bpfmanRestrictedSCC_def split: Body.splits)
      show ?thesis
      proof (cases "d \<or> om_OwnerReferences (obj_Meta y) \<noteq> om_OwnerReferences m")
        case True
        with existing(10) have "ce_Update env (withVersion (om_ResourceVersion (obj_Meta y)) x2) w1 = (Inr (), w')" by simp
        from update_cases(2) [OF this] existing(8) obtain z where "store w' (keyOf bpfmanRestrictedSCC) = Some z" "storedAs x2 z"
          by auto
        with existing(2) x2 show ?thesis by (auto simp: sync_def storedAs_def sccContentTest_def bpfmanRestrictedSCC_def)
      next
        case False
        with existing d show ?thesis by (auto simp: sync_def sccContentTest_def)
      qed
    qed (auto simp: sync_def)
    ultimately show "P (store w') \<and> sync env config (store w') (bpfmanRestrictedSCC, sccContentTest)" ..
  qed
  with True show ?thesis by (simp add: reconcileSCC_def [abs_def] sccReady_def)
qed (simp add: reconcileSCC_def [abs_def] sccReady_def after_skip)

lemma reconcileResources_after:
  "after store (\<lambda>\<sigma>. True) (reconcileResources env r config) (\<lambda>\<sigma>. ready env r config \<sigma> \<and> sccReady env r config \<sigma>)"
proof -
  let ?cm = "syncs env config (cmObjs config)" and ?csi = "syncs env config (csiObjs env r)"
    and ?ds = "syncs env config (dsObjs env r config)" and ?proxy = "syncs env config (proxyObjs env r config)"
    and ?svc = "syncs env config (svcObjs r config)" and ?sm = "syncs env config (smObjs r config)"
    and ?rbac = "syncs env config (rbacObjs r config)" and ?prom = "syncs env config (promObjs r config)"
  let ?P2 = "\<lambda>\<sigma>. ?cm \<sigma> \<and> ?csi \<sigma>"
  let ?P3 = "\<lambda>\<sigma>. ?P2 \<sigma> \<and> sccReady env r config \<sigma>"
  let ?P5 = "\<lambda>\<sigma>. ((?P3 \<sigma> \<and> ?ds \<sigma>) \<and> ?proxy \<sigma>) \<and> ?svc \<sigma>"
  let ?P7 = "\<lambda>\<sigma>. (?P5 \<sigma> \<and> ?sm \<sigma>) \<and> annotated env r config \<sigma>"
  let ?P9 = "\<lambda>\<sigma>. (?P7 \<sigma> \<and> ?rbac \<sigma>) \<and> ?prom \<sigma>"
  have ready: "?P9 \<sigma> \<and> namespaceReady r config \<sigma> \<Longrightarrow> ready env r config \<sigma> \<and> sccReady env r config \<sigma>" for \<sigma>
    by (simp add: ready_def managed_def)
  note disjoint = untouched_True untouched_conj untouched_syncs untouched_annotated untouched_sccReady
  have cm: "after store (\<lambda>\<sigma>. True) (reconcileCM env config) ?cm"
    by (rule after_weaken [OF cm_after]) simp_all
  have csi: "after store ?cm (reconcileCSIDriver env r config) ?P2"
    by (rule csi_after, intro disjoint) (auto dest!: managed_keys)
  have scc: "after store ?P2 (reconcileSCC env r config) ?P3"
    by (rule scc_after, intro stable_conj stable_syncs) (auto dest!: managed_keys)
  have ds: "after store ?P3 (reconcileStandardDS env r config) (\<lambda>\<sigma>. ?P3 \<sigma> \<and> ?ds \<sigma>)"
    by (rule ds_after, intro disjoint) (auto dest!: managed_keys)
  have proxy: "after store (\<lambda>\<sigma>. ?P3 \<sigma> \<and> ?ds \<sigma>) (reconcileMetricsProxyDS env r config) (\<lambda>\<sigma>. (?P3 \<sigma> \<and> ?ds \<sigma>) \<and> ?proxy \<sigma>)"
    by (rule proxy_after, intro disjoint) (auto dest!: managed_keys simp: config_names)
  have svc: "after store (\<lambda>\<sigma>. (?P3 \<sigma> \<and> ?ds \<sigma>) \<and> ?proxy \<sigma>) (reconcileMetricsServices env r config) ?P5"
    by (rule svc_after, intro disjoint) (auto dest!: managed_keys)
  have sm: "after store ?P5 (reconcileServiceMonitors env r config) (\<lambda>\<sigma>. ?P5 \<sigma> \<and> ?sm \<sigma>)"
    by (rule sm_after, intro disjoint) (auto dest!: managed_keys)
  have abs: "absorbs (agentSvcKey config) (\<lambda>\<sigma>. ?P5 \<sigma> \<and> ?sm \<sigma>)"
    by (intro absorbs_conj absorbs_svcObjs; intro absorbs_stable stable_syncs stable_sccReady)
      (auto simp: agentSvcKey_def bpfmanRestrictedSCC_def dest!: managed_keys)
  note an = annotation_after [OF abs, of r]
  have rbac: "after store ?P7 (reconcileOpenShiftRBAC env r config) (\<lambda>\<sigma>. ?P7 \<sigma> \<and> ?rbac \<sigma>)"
    by (rule rbac_after, intro disjoint) (auto simp: agentSvcKey_def dest!: managed_keys)
  have prom: "after store (\<lambda>\<sigma>. ?P7 \<sigma> \<and> ?rbac \<sigma>) (reconcilePrometheusRBAC env r config) ?P9"
    by (rule prom_after, intro disjoint) (auto simp: agentSvcKey_def config_names dest!: managed_keys)
  have "stable (KNamespace, '''', cs_Namespace (cfg_Spec config)) ?P9"
    by (intro stable_conj stable_syncs stable_annotated stable_sccReady) (auto simp: agentSvcKey_def bpfmanRestrictedSCC_def dest!: managed_keys)
  note ns = after_weaken [OF namespace_after [OF this, of r] ready]
  show ?thesis unfolding reconcileResources_def
    by (intro after_andThen [OF cm] after_andThen [OF csi] after_andThen [OF scc] after_andThen [OF ds]
        after_andThen [OF proxy] after_andThen [OF svc] after_andThen [OF sm] after_andThen [OF an]
        after_andThen [OF rbac] after_andThen [OF prom] ns)
qed

text \<open>A pass over a ready deployment.\<close>

lemma load_steps_quiet:
  "quiet store allowed (ready env r config) (reconcileCSIDriver (logged env) r config)"
  "quiet store allowed (ready env r config) (reconcileStandardDS (logged env) r config)"
  "quiet store allowed (ready env r config) (reconcileMetricsProxyDS (logged env) r config)"
proof -
  show "quiet store allowed (ready env r config) (reconcileCSIDriver (logged env) r config)"
    unfolding reconcileCSIDriver_def [abs_def] load_logged
    by (rule loaded_quiet [OF csiTest.update_test_axioms, where f = "\<lambda>x. x"])
      (drule ready_parts(2), simp add: csiObjs_def)
  show "quiet store allowed (ready env r config) (reconcileStandardDS (logged env) r config)"
    unfolding reconcileStandardDS_def [abs_def] load_logged configureBpfmanDs_logged
    by (rule loaded_quiet [OF dsTest.update_test_axioms]) (drule ready_parts(3), simp add: dsObjs_def)
  show "quiet store allowed (ready env r config) (reconcileMetricsProxyDS (logged env) r config)"
  proof (cases "HasMonitoring r")
    case True
    with loaded_quiet [OF dsTest.update_test_axioms, where P = "ready env r config" and config = config
        and f = "\<lambda>x. configureMetricsProxyDs env x config (IsOpenshift r)" and kind = KDaemonSet
        and path = "BpfmanMetricsProxyDS r" and name = BpfmanMetricsProxyDsName and allowed = allowed]
      ready_parts(4) [of env r config]
    show ?thesis unfolding reconcileMetricsProxyDS_def [abs_def] load_logged configureMetricsProxyDs_logged
      by (simp add: proxyObjs_def)
  qed (simp add: reconcileMetricsProxyDS_def [abs_def] quiet_skip)
qed

lemma pair_steps_quiet:
  "quiet store allowed (ready env r config) (reconcileMetricsServices (logged env) r config)"
  "quiet store allowed (ready env r config) (reconcileServiceMonitors (logged env) r config)"
  "quiet store allowed (ready env r config) (reconcileOpenShiftRBAC (logged env) r config)"
  using assure_two_quiet [OF svcTest.update_test_axioms svcTest.update_test_axioms, of "ready env r config" config
      "agentSvc config" "controllerSvc config" allowed] ready_parts(5) [of env r config]
    assure_two_quiet [OF smTest.update_test_axioms smTest.update_test_axioms, of "ready env r config" config
      "agentSM (IsOpenshift r) config" "controllerSM config" allowed] ready_parts(6) [of env r config]
    assure_two_quiet [OF bindingTest.update_test_axioms roleTest.update_test_axioms, of "ready env r config" config
      "privilegedCRB config" userCR allowed] ready_parts(7) [of env r config]
    quiet_skip [of store allowed "ready env r config"]
  by (cases "HasMonitoring r"; cases "IsOpenshift r"; simp add: reconcileMetricsServices_def svcObjs_def
      reconcileServiceMonitors_def smObjs_def reconcileOpenShiftRBAC_def rbacObjs_def)+

lemma prom_quiet: "quiet store allowed (ready env r config) (reconcilePrometheusRBAC (logged env) r config)"
proof (cases "IsOpenshift r \<and> HasMonitoring r")
  case True
  have s: "ready env r config \<sigma> \<Longrightarrow> syncs env config [(promRole config, roleNeedsUpdate), (promRB config, bindingNeedsUpdate),
      (metricsReaderCRB, bindingNeedsUpdate)] \<sigma>" for \<sigma> using ready_parts(8) True by (fastforce simp: promObjs_def)
  have "quiet store allowed (ready env r config) (\<lambda>w. Some (assureResource (logged env) config (promRole config) roleNeedsUpdate w))"
    by (rule assure_quiet [OF roleTest.update_test_axioms]) (use s in auto)
  moreover have "quiet store allowed (ready env r config) (andThen
      (\<lambda>w. Some (assureResource (logged env) config (promRB config) bindingNeedsUpdate w))
      (\<lambda>w. Some (assureResource (logged env) config metricsReaderCRB bindingNeedsUpdate w)))"
    by (rule assure_two_quiet [OF bindingTest.update_test_axioms bindingTest.update_test_axioms]) (use s in auto)
  ultimately show ?thesis using True by (simp add: reconcilePrometheusRBAC_def quiet_andThen)
qed (auto simp: reconcilePrometheusRBAC_def quiet_skip)

lemma reconcileResources_quiet:
  "quiet store (sccWrite r) (ready env r config) (reconcileResources (logged env) r config)"
proof -
  have cm: "quiet store (sccWrite r) (ready env r config) (reconcileCM (logged env) config)"
    unfolding reconcileCM_def [abs_def]
    by (rule assure_quiet [OF cmTest.update_test_axioms]) (drule ready_parts(1), simp add: cmObjs_def)
  have scc: "quiet store (sccWrite r) (ready env r config) (reconcileSCC (logged env) r config)"
  proof (cases "IsOpenshift r")
    case True
    have "quiet store (sccWrite r) (ready env r config)
        (\<lambda>w. Some (assureResource (logged env) config bpfmanRestrictedSCC sccNeedsUpdate w))"
      by (rule assure_allowed [OF _ stable_ready_scc]) (auto simp: keeps_identity_def sccWrite_def True)
    with True show ?thesis by (simp add: reconcileSCC_def [abs_def])
  qed (simp add: reconcileSCC_def [abs_def] quiet_skip)
  show ?thesis unfolding reconcileResources_def
    by (intro quiet_andThen cm scc load_steps_quiet pair_steps_quiet prom_quiet annotation_quiet namespace_quiet ready_parts(9,10))
qed

end

section \<open>Observation is faithful\<close>

lemma loaded_erases:
  "erases (\<lambda>w. do { loaded \<leftarrow> loadManifest env kind path name;
                    Some (case loaded of Inl err \<Rightarrow> (Inl err, w) | Inr x \<Rightarrow> assureResource (logged env) config (f x) nu w) })
          (\<lambda>w. do { loaded \<leftarrow> loadManifest env kind path name;
                    Some (case loaded of Inl err \<Rightarrow> (Inl err, w) | Inr x \<Rightarrow> assureResource env config (f x) nu w) })"
  using assureResource_erases [of env config _ nu]
  by (auto simp: erases_def bind_eq_None_conv split: bind_split sum.split)

lemma annotation_erases:
  "erases (reconcileAgentMetricsServiceAnnotation (logged env) r config) (reconcileAgentMetricsServiceAnnotation env r config)"
  unfolding reconcileAgentMetricsServiceAnnotation_def [abs_def]
  by (rule erases_Some) (auto simp: passing_def logging_def Let_def split: sum.split prod.split GetError.split)

lemma namespace_erases: "erases (reconcileNamespace (logged env) r config) (reconcileNamespace env r config)"
  unfolding reconcileNamespace_def [abs_def] Let_def
  by (rule erases_Some) (auto simp: passing_def logging_def split: sum.split prod.split)

lemma reconcileResources_erases: "erases (reconcileResources (logged env) r config) (reconcileResources env r config)"
proof -
  note two = erases_andThen [OF assureResource_erases assureResource_erases]
  have "erases (reconcileMetricsServices (logged env) r config) (reconcileMetricsServices env r config)"
    and "erases (reconcileServiceMonitors (logged env) r config) (reconcileServiceMonitors env r config)"
    and "erases (reconcileOpenShiftRBAC (logged env) r config) (reconcileOpenShiftRBAC env r config)"
    and "erases (reconcilePrometheusRBAC (logged env) r config) (reconcilePrometheusRBAC env r config)"
    by (simp_all add: reconcileMetricsServices_def reconcileServiceMonitors_def reconcileOpenShiftRBAC_def
        reconcilePrometheusRBAC_def two erases_skip erases_andThen assureResource_erases)
  moreover have "erases (reconcileCM (logged env) config) (reconcileCM env config)"
    by (simp add: reconcileCM_def [abs_def] assureResource_erases)
  moreover have "erases (reconcileSCC (logged env) r config) (reconcileSCC env r config)"
    by (cases "IsOpenshift r") (simp_all add: reconcileSCC_def [abs_def] assureResource_erases erases_skip)
  moreover have "erases (reconcileCSIDriver (logged env) r config) (reconcileCSIDriver env r config)"
    unfolding reconcileCSIDriver_def [abs_def] load_logged by (rule loaded_erases)
  moreover have "erases (reconcileStandardDS (logged env) r config) (reconcileStandardDS env r config)"
    unfolding reconcileStandardDS_def [abs_def] load_logged configureBpfmanDs_logged by (rule loaded_erases)
  moreover have "erases (reconcileMetricsProxyDS (logged env) r config) (reconcileMetricsProxyDS env r config)"
    unfolding reconcileMetricsProxyDS_def [abs_def] load_logged configureMetricsProxyDs_logged
    by (cases "HasMonitoring r") (simp_all add: loaded_erases erases_skip)
  ultimately show ?thesis unfolding reconcileResources_def
    by (intro erases_andThen annotation_erases namespace_erases)
qed

lemma Config_Reconcile_erases: "erases (Config_Reconcile (logged env) r name) (Config_Reconcile env r name)"
  using reconcileResources_erases [of env r]
  by (auto simp: erases_def Config_Reconcile_def handleDeletion_def passing_def logging_def
      split: sum.split prod.split GetError.split)

section \<open>Writes without assumptions on the server\<close>

text \<open>
  A write to the namespace, or to an object that no override takes away. All that is assumed is that a read
  returns the object it was asked for.
\<close>

definition obeys :: "'w CEnv \<Rightarrow> Config \<Rightarrow> Write \<Rightarrow> bool" where
  "obeys env config a \<longleftrightarrow>
     (\<exists>k. writeKey a = Some k \<and>
        (k = (KNamespace, '''', cs_Namespace (cfg_Spec config)) \<or>
         (\<forall>x. keyOf x = k \<longrightarrow> \<not> isOverridden env x (cs_Overrides (cfg_Spec config)))))"

definition get_law :: "'w CEnv \<Rightarrow> bool" where
  "get_law env \<longleftrightarrow> (\<forall>k w x. fst (ce_Get env k w) = Inr x \<longrightarrow> keyOf x = k)"

abbreviation writes :: "(Write \<Rightarrow> bool) \<Rightarrow> ('w \<times> Write list) step \<Rightarrow> bool" where
  "writes allowed f \<equiv> quiet (\<lambda>_ _. None) allowed (\<lambda>_. True) f"

lemma assure_obeys:
  assumes "owner_law env" and "keeps_identity nu"
  shows "writes (obeys env config) (\<lambda>w. Some (assureResource (logged env) config x nu w))"
  unfolding quiet_def
proof (intro allI impI conjI TrueI)
  fix w l r w' l'
  assume "Some (assureResource (logged env) config x nu (w, l)) = Some (r, (w', l'))"
  then have "assureResource (logged env) config x nu (w, l) = (r, (w', l'))" by simp
  from assure_writes [OF assms this] obtain e where e: "l' = l @ e"
    "list_all (\<lambda>a. \<not> isOverridden env x (cs_Overrides (cfg_Spec config)) \<and> writeKey a = Some (keyOf x)) e" by blast
  moreover have "obeys env config a"
    if "\<not> isOverridden env x (cs_Overrides (cfg_Spec config))" "writeKey a = Some (keyOf x)" for a
    unfolding obeys_def using that isOverridden_key by (metis (no_types))
  ultimately have "list_all (obeys env config) e" by (auto elim!: list.pred_mono_strong)
  with e(1) show "\<exists>e. l' = l @ e \<and> list_all (obeys env config) e" by blast
qed

lemma loaded_obeys:
  assumes "owner_law env" and "keeps_identity nu"
  shows "writes (obeys env config) (\<lambda>w. do { loaded \<leftarrow> loadManifest env kind path name;
      Some (case loaded of Inl err \<Rightarrow> (Inl err, w) | Inr x \<Rightarrow> assureResource (logged env) config (f x) nu w) })"
  using assure_obeys [OF assms, of config "f (projr (the (loadManifest env kind path name)))"]
  by (cases "loadManifest env kind path name"; cases "the (loadManifest env kind path name)") (simp_all add: quiet_def)

lemma annotation_obeys:
  assumes "get_law env"
  shows "writes (obeys env config) (reconcileAgentMetricsServiceAnnotation (logged env) r config)"
  unfolding quiet_def
proof (intro allI impI conjI TrueI)
  fix w l res w' l'
  assume "reconcileAgentMetricsServiceAnnotation (logged env) r config (w, l) = Some (res, (w', l'))"
  then show "\<exists>e. l' = l @ e \<and> list_all (obeys env config) e"
  proof (cases rule: annotation_run)
    case (on g w1)
    then have w1: "snd w1 = l" and g: "fst (ce_Get env (agentSvcKey config) w) = g"
      by (auto simp: passing_def split: prod.splits)
    show ?thesis
    proof (cases g)
      case (Inl err)
      with on(4) w1 show ?thesis by auto
    next
      case (Inr y)
      with assms g have "keyOf y = agentSvcKey config" unfolding get_law_def by blast
      moreover from this on(2) have "keyOf x = keyOf y \<Longrightarrow> \<not> isOverridden env x (cs_Overrides (cfg_Spec config))" for x
        using isOverridden_key [of x "agentSvc config" env] by simp
      ultimately have "obeys env config (WriteUpdate (annotate y))" by (simp add: obeys_def)
      moreover have "l' = l \<or> l' = l @ [WriteUpdate (annotate y)]"
        using on(4) Inr w1 by (auto simp: prod_eq_iff split: if_splits)
      ultimately show ?thesis by auto
    qed
  qed auto
qed

lemma namespace_obeys:
  assumes "get_law env"
  shows "writes (obeys env config) (reconcileNamespace (logged env) r config)"
  unfolding quiet_def
proof (intro allI impI conjI TrueI)
  fix w l res w' l'
  let ?k = "(KNamespace, '''', cs_Namespace (cfg_Spec config))"
  assume run: "reconcileNamespace (logged env) r config (w, l) = Some (res, (w', l'))"
  obtain g v where g': "ce_Get env ?k w = (g, v)" by fastforce
  then have g: "ce_Get (logged env) ?k (w, l) = (g, (v, l))" by (simp add: passing_def)
  note run = namespace_run [OF run g]
  show "\<exists>e. l' = l @ e \<and> list_all (obeys env config) e"
  proof (cases g)
    case (Inl err)
    with run show ?thesis by auto
  next
    case (Inr y)
    with assms g' have "keyOf y = ?k" unfolding get_law_def by (metis fst_conv)
    then have "obeys env config (WriteUpdate (labelNamespace r y))" by (simp add: obeys_def)
    moreover have "l' = l \<or> l' = l @ [WriteUpdate (labelNamespace r y)]"
      using run Inr by (auto simp: prod_eq_iff split: if_splits)
    ultimately show ?thesis by auto
  qed
qed

lemmas test_identities = update_test_identity [OF cmTest.update_test_axioms] update_test_identity [OF csiTest.update_test_axioms]
  update_test_identity [OF dsTest.update_test_axioms] update_test_identity [OF svcTest.update_test_axioms]
  update_test_identity [OF smTest.update_test_axioms] update_test_identity [OF bindingTest.update_test_axioms]
  update_test_identity [OF roleTest.update_test_axioms]

lemma reconcileResources_obeys:
  assumes o: "owner_law env" and g: "get_law env"
  shows "writes (obeys env config) (reconcileResources (logged env) r config)"
proof -
  have scc: "keeps_identity sccNeedsUpdate" by (simp add: keeps_identity_def)
  note one = assure_obeys [OF o] loaded_obeys [OF o]
  have "writes (obeys env config) (reconcileCM (logged env) config)"
    "writes (obeys env config) (reconcileSCC (logged env) r config)"
    "writes (obeys env config) (reconcileMetricsServices (logged env) r config)"
    "writes (obeys env config) (reconcileServiceMonitors (logged env) r config)"
    "writes (obeys env config) (reconcileOpenShiftRBAC (logged env) r config)"
    "writes (obeys env config) (reconcilePrometheusRBAC (logged env) r config)"
    by (cases "IsOpenshift r"; simp add: reconcileCM_def [abs_def] reconcileSCC_def [abs_def] reconcileMetricsServices_def
        reconcileServiceMonitors_def reconcileOpenShiftRBAC_def reconcilePrometheusRBAC_def quiet_andThen quiet_skip
        one test_identities scc)+
  moreover have "writes (obeys env config) (reconcileCSIDriver (logged env) r config)"
    "writes (obeys env config) (reconcileStandardDS (logged env) r config)"
    unfolding reconcileCSIDriver_def [abs_def] reconcileStandardDS_def [abs_def] load_logged configureBpfmanDs_logged
    by (rule one test_identities)+
  moreover have "writes (obeys env config) (reconcileMetricsProxyDS (logged env) r config)"
    unfolding reconcileMetricsProxyDS_def [abs_def] load_logged configureMetricsProxyDs_logged
    by (cases "HasMonitoring r") (simp_all add: one test_identities quiet_skip)
  ultimately show ?thesis unfolding reconcileResources_def
    by (intro quiet_andThen annotation_obeys [OF g] namespace_obeys [OF g])
qed

end
