(* ===== verification/Operator_Main.thy ===== *)
theory Operator_Main
  imports Config_Reconcile_Contract
begin

text \<open>
  The start of the operator (\<^verbatim>\<open>cmd/bpfman-operator/main.go\<close>, \<^verbatim>\<open>internal/k8s.go\<close>): platform discovery, the default
  \<^verbatim>\<open>Config\<close> and the order of the set-up steps, each of which ends the process with status 1 when it fails. The libraries
  the steps call are the record \<open>StartEnv\<close>; the set of API groups is taken not to change during the start.

  The locale \<open>config_store\<close> extends the contract of the API server by the storage of the \<^verbatim>\<open>Config\<close> itself, so that the start
  composes with the configuration controller: from an empty cluster to a ready deployment.
\<close>

section \<open>The environment of the start\<close>

record 'w StartEnv =
  se_Args :: "string list"
  se_ShowVersion :: bool
  se_Getenv :: "string \<Rightarrow> string"
  se_YAML :: "Config \<Rightarrow> string result"
    \<comment> \<open>marshalling to JSON and converting to YAML\<close>
  se_CertWatcher :: "string \<Rightarrow> string \<Rightarrow> unit result"
  se_NewManager :: "unit result"
  se_AddCertWatcher :: "unit result"
  se_NewDiscovery :: "unit result"
  se_ServerVersion :: "unit result"
  se_ServerGroups :: "string list result"
  se_SetupWithManager :: "string \<Rightarrow> unit result"
  se_AddCheck :: "string \<Rightarrow> unit result"
  se_NewClient :: "unit result"
  se_GetConfig :: "string \<Rightarrow> 'w \<Rightarrow> (GetError + Config) \<times> 'w"
  se_CreateConfig :: "Config \<Rightarrow> 'w \<Rightarrow> unit result \<times> 'w"
  se_Start :: "ConfigReconciler \<Rightarrow> 'w \<Rightarrow> unit result \<times> 'w"

section \<open>Platform discovery\<close>

fun groupLoop :: "string \<Rightarrow> string list \<Rightarrow> bool" where
  "groupLoop g [] = False"
| "groupLoop g (v # vs) = (if v = g then True else groupLoop g vs)"

definition IsOpenShift :: "'w StartEnv \<Rightarrow> bool result" where
  "IsOpenShift env =
     (case se_ServerVersion env of
        Inl err \<Rightarrow> Inl err
      | Inr _ \<Rightarrow>
          (case se_ServerGroups env of
             Inl err \<Rightarrow> Inl err
           | Inr groups \<Rightarrow> Inr (groupLoop ''route.openshift.io'' groups)))"

definition HasMonitoringAPI :: "'w StartEnv \<Rightarrow> bool result" where
  "HasMonitoringAPI env =
     (case se_ServerGroups env of
        Inl err \<Rightarrow> Inl err
      | Inr groups \<Rightarrow> Inr (groupLoop ''monitoring.coreos.com'' groups))"

section \<open>The default configuration\<close>

definition DefaultConfiguration :: string where
  "DefaultConfiguration =
     concat (map (\<lambda>line. line @ [CHR 0x0A])
       [''[database]'', ''max_retries = 30'', ''millisec_delay = 10000'', ''[signing]'', ''allow_unsigned = true'', ''verify_enabled = true''])"

definition DefaultConfigNamespace :: string where "DefaultConfigNamespace = ''bpfman''"
definition DefaultLogLevel :: string where "DefaultLogLevel = ''info''"
definition DefaultHealthProbePort :: int where "DefaultHealthProbePort = 8175"

definition defaultConfig :: "string \<Rightarrow> string \<Rightarrow> Config" where
  "defaultConfig bpfmanImage bpfmanAgentImage =
     \<lparr>cfg_Meta = \<lparr>om_Name = BpfmanConfigName, om_Namespace = '''', om_UID = '''', om_Labels = [], om_Finalizers = [],
        om_DeletionTimestamp = None, om_OwnerReferences = []\<rparr>,
      cfg_Spec =
        \<lparr>cs_Agent = \<lparr>as_HealthProbePort = DefaultHealthProbePort, as_Image = bpfmanAgentImage, as_LogLevel = DefaultLogLevel\<rparr>,
         cs_Configuration = DefaultConfiguration,
         cs_Daemon = \<lparr>ds_CsiRegistrarImage = '''', ds_Image = bpfmanImage, ds_LogLevel = DefaultLogLevel\<rparr>,
         cs_Namespace = DefaultConfigNamespace, cs_Overrides = []\<rparr>\<rparr>"

text \<open>The exit status and what is printed on standard output.\<close>

definition printDefaultConfig :: "'w StartEnv \<Rightarrow> int \<times> string" where
  "printDefaultConfig env =
     (let bpfmanImage = se_Getenv env ''BPFMAN_IMG''; bpfmanAgentImage = se_Getenv env ''BPFMAN_AGENT_IMG'' in
      if bpfmanImage = '''' then (1, '''')
      else if bpfmanAgentImage = '''' then (1, '''')
      else (case se_YAML env (defaultConfig bpfmanImage bpfmanAgentImage) of
              Inl err \<Rightarrow> (1, '''')
            | Inr out \<Rightarrow> (0, out)))"

definition ensureDefaultConfig :: "'w StartEnv \<Rightarrow> string \<Rightarrow> string \<Rightarrow> 'w \<Rightarrow> unit result \<times> 'w" where
  "ensureDefaultConfig env bpfmanImage bpfmanAgentImage w =
     (case se_NewClient env of
        Inl err \<Rightarrow> (Inl err, w)
      | Inr _ \<Rightarrow>
          (case se_GetConfig env BpfmanConfigName w of
             (Inr existing, w) \<Rightarrow> (Inr (), w)
           | (Inl (OtherError err), w) \<Rightarrow> (Inl err, w)
           | (Inl NotFound, w) \<Rightarrow> se_CreateConfig env (defaultConfig bpfmanImage bpfmanAgentImage) w))"

section \<open>The set-up\<close>

text \<open>A failed step ends the process with status 1.\<close>

definition orExit :: "'a result \<Rightarrow> ('a \<Rightarrow> 'w \<Rightarrow> (int + 'b) \<times> 'w) \<Rightarrow> 'w \<Rightarrow> (int + 'b) \<times> 'w" where
  "orExit r k w = (case r of Inl err \<Rightarrow> (Inl 1, w) | Inr x \<Rightarrow> k x w)"

text \<open>The certificate watcher is optional: without it the set-up goes on.\<close>

definition setupCertWatcher :: "'w StartEnv \<Rightarrow> string \<Rightarrow> bool" where
  "setupCertWatcher env certDir =
     (case se_CertWatcher env (certDir @ ''/tls.crt'') (certDir @ ''/tls.key'') of Inl err \<Rightarrow> False | Inr _ \<Rightarrow> True)"

text \<open>Inl: the exit status of a process that ends before the manager is started. Inr: the controller it is started with.\<close>

definition operatorSetup :: "'w StartEnv \<Rightarrow> string \<Rightarrow> 'w \<Rightarrow> (int + ConfigReconciler) \<times> 'w" where
  "operatorSetup env certDir w =
     (if 1 < length (se_Args env) \<and> se_Args env ! 1 = ''default-config'' then (Inl (fst (printDefaultConfig env)), w)
      else if se_ShowVersion env then (Inl 0, w)
      else if se_Getenv env ''BPFMAN_IMG'' = '''' then (Inl 1, w)
      else if se_Getenv env ''BPFMAN_AGENT_IMG'' = '''' then (Inl 1, w)
      else
        let certWatcher = setupCertWatcher env certDir in
        orExit (se_NewManager env) (\<lambda>_.
        orExit (if certWatcher then se_AddCertWatcher env else Inr ()) (\<lambda>_.
        orExit (se_NewDiscovery env) (\<lambda>_.
        orExit (IsOpenShift env) (\<lambda>isOpenshift.
        orExit (HasMonitoringAPI env) (\<lambda>hasMonitoring.
        orExit (se_SetupWithManager env ''BpfmanConfigReconciler'') (\<lambda>_.
        orExit (se_SetupWithManager env ''BpfApplicationReconciler'') (\<lambda>_.
        orExit (se_SetupWithManager env ''BpfNsApplicationReconciler'') (\<lambda>_.
        orExit (se_AddCheck env ''healthz'') (\<lambda>_.
        orExit (se_AddCheck env ''readyz'') (\<lambda>_ w.
          (case ensureDefaultConfig env (se_Getenv env ''BPFMAN_IMG'') (se_Getenv env ''BPFMAN_AGENT_IMG'') w of
             (Inl err, w) \<Rightarrow> (Inl 1, w)
           | (Inr _, w) \<Rightarrow>
               (Inr \<lparr>BpfmanStandardDS = ''./config/bpfman-deployment/daemonset.yaml'',
                     BpfmanMetricsProxyDS = ''./config/bpfman-deployment/metrics-proxy-daemonset.yaml'',
                     CsiDriverDS = ''./config/bpfman-deployment/csidriverinfo.yaml'',
                     IsOpenshift = isOpenshift, HasMonitoring = hasMonitoring\<rparr>, w)))))))))))) w)"

definition operatorMain :: "'w StartEnv \<Rightarrow> string \<Rightarrow> 'w \<Rightarrow> int \<times> 'w" where
  "operatorMain env certDir w =
     (case operatorSetup env certDir w of
        (Inl code, w) \<Rightarrow> (code, w)
      | (Inr r, w) \<Rightarrow>
          (case se_Start env r w of
             (Inl err, w) \<Rightarrow> (1, w)
           | (Inr _, w) \<Rightarrow> (0, w)))"

section \<open>Lemmas\<close>

lemma groupLoop_iff: "groupLoop g groups \<longleftrightarrow> g \<in> set groups"
  by (induction groups) auto

lemma orExit_Inr: "orExit r k w = (Inr y, w') \<longleftrightarrow> (\<exists>x. r = Inr x \<and> k x w = (Inr y, w'))"
  by (auto simp: orExit_def split: sum.split)

lemma operatorSetup_started:
  assumes "operatorSetup env certDir w = (Inr r, w')"
  shows "\<exists>groups. se_ServerGroups env = Inr groups \<and>
      IsOpenshift r = (''route.openshift.io'' \<in> set groups) \<and> HasMonitoring r = (''monitoring.coreos.com'' \<in> set groups)"
    and "se_Getenv env ''BPFMAN_IMG'' \<noteq> ''''" and "se_Getenv env ''BPFMAN_AGENT_IMG'' \<noteq> ''''"
    and "ensureDefaultConfig env (se_Getenv env ''BPFMAN_IMG'') (se_Getenv env ''BPFMAN_AGENT_IMG'') w = (Inr (), w')"
  using assms
  by (auto simp: operatorSetup_def Let_def orExit_Inr IsOpenShift_def HasMonitoringAPI_def groupLoop_iff
      split: if_splits sum.splits prod.splits)

section \<open>The stored Config\<close>

text \<open>What the API server may change in a stored \<^verbatim>\<open>Config\<close>: not its specification, its finalizers or its deletion.\<close>

definition configStoredAs :: "Config \<Rightarrow> Config \<Rightarrow> bool" where
  "configStoredAs c c' \<longleftrightarrow>
     cfg_Spec c' = cfg_Spec c \<and> om_Finalizers (cfg_Meta c') = om_Finalizers (cfg_Meta c) \<and>
     om_DeletionTimestamp (cfg_Meta c') = om_DeletionTimestamp (cfg_Meta c)"

locale config_store = api_server env store for env :: "'w CEnv" and store +
  fixes start :: "'w StartEnv" and stored :: "'w \<Rightarrow> Config option"
  assumes read_found: "fst (ce_GetConfig env BpfmanConfigName w) = Inr c \<Longrightarrow> stored w = Some c"
    and read_missing: "fst (ce_GetConfig env BpfmanConfigName w) = Inl NotFound \<Longrightarrow> stored w = None"
    and direct_found: "fst (se_GetConfig start BpfmanConfigName w) = Inr c \<Longrightarrow> stored w = Some c"
    and direct_missing: "fst (se_GetConfig start BpfmanConfigName w) = Inl NotFound \<Longrightarrow> stored w = None"
    and direct_keeps: "stored (snd (se_GetConfig start BpfmanConfigName w)) = stored w"
    and config_created: "fst (se_CreateConfig start c w) = Inr u \<Longrightarrow>
          \<exists>c'. stored (snd (se_CreateConfig start c w)) = Some c' \<and> configStoredAs c c'"
    and config_updated: "fst (ce_UpdateConfig env c w) = Inr u \<Longrightarrow>
          \<exists>c'. stored (snd (ce_UpdateConfig env c w)) = Some c' \<and> configStoredAs c c'"
begin

lemma ensureDefault_stored:
  assumes "ensureDefaultConfig start img agent w = (Inr (), w')"
  shows "case stored w of
           Some c \<Rightarrow> stored w' = Some c
         | None \<Rightarrow> \<exists>c'. stored w' = Some c' \<and> configStoredAs (defaultConfig img agent) c'"
proof -
  obtain g v where g: "se_GetConfig start BpfmanConfigName w = (g, v)" by fastforce
  note laws = direct_found [of w] direct_missing [of w] direct_keeps [of w] config_created [of "defaultConfig img agent" v]
  show ?thesis
  proof (cases g)
    case (Inr c)
    with assms g laws show ?thesis by (auto simp: ensureDefaultConfig_def split: sum.splits)
  next
    case (Inl e)
    with assms g laws show ?thesis by (cases e) (auto simp: ensureDefaultConfig_def split: sum.splits)
  qed
qed

text \<open>The first reconcile of a new \<^verbatim>\<open>Config\<close> adds the finalizer, the second deploys.\<close>

lemma two_reconciles:
  assumes "stored w = Some c" and "om_DeletionTimestamp (cfg_Meta c) = None" and "om_Finalizers (cfg_Meta c) = []"
    and "Config_Reconcile env r BpfmanConfigName w = Some (Inr (), w1)"
    and "Config_Reconcile env r BpfmanConfigName w1 = Some (Inr (), w2)"
    shows "\<exists>c'. cfg_Spec c' = cfg_Spec c \<and> om_DeletionTimestamp (cfg_Meta c') = None \<and>
    ContainsFinalizer (cfg_Meta c') BpfmanConfigFinalizer \<and> ready env r c' (store w2) \<and> sccReady env r c' (store w2)"
proof -
  let ?c = "c\<lparr>cfg_Meta := (cfg_Meta c)\<lparr>om_Finalizers := [BpfmanConfigFinalizer]\<rparr>\<rparr>"
  obtain g v where g: "ce_GetConfig env BpfmanConfigName w = (g, v)" by fastforce
  have g_c: "g = Inr c"
  proof (cases g)
    case (Inl e)
    with assms(1,4) g read_missing [of w] show ?thesis by (cases e) (auto simp: Config_Reconcile_def)
  qed (use assms(1) g read_found [of w] in auto)
  with assms(2-4) g have "ce_UpdateConfig env ?c v = (Inr (), w1)"
    by (simp add: Config_Reconcile_def ContainsFinalizer_def)
  with config_updated [of ?c v] obtain c' where c': "stored w1 = Some c'" "configStoredAs ?c c'" by auto
  obtain g' v' where g': "ce_GetConfig env BpfmanConfigName w1 = (g', v')" by fastforce
  have g'_c: "g' = Inr c'"
  proof (cases g')
    case (Inl e)
    with c'(1) assms(5) g' read_missing [of w1] show ?thesis by (cases e) (auto simp: Config_Reconcile_def)
  qed (use c'(1) g' read_found [of w1] in auto)
  from c'(2) assms(2) have a: "om_DeletionTimestamp (cfg_Meta c') = None" "ContainsFinalizer (cfg_Meta c') BpfmanConfigFinalizer"
    "cfg_Spec c' = cfg_Spec c" by (simp_all add: configStoredAs_def ContainsFinalizer_def)
  with assms(5) g' g'_c have "reconcileResources env r c' v' = Some (Inr (), w2)" by (simp add: Config_Reconcile_def)
  with reconcileResources_after [of r c'] have "ready env r c' (store w2) \<and> sccReady env r c' (store w2)" by (simp add: after_def)
  with a show ?thesis by blast
qed

end

end
