(* ===== verification/Config_Properties.thy ===== *)
theory Config_Properties
  imports Config_Reconcile_Contract
begin

text \<open>
  Properties of the operator's configuration controller, and a small concrete cluster that meets the contract
  of the API server, in which the witnesses run.
\<close>

section \<open>A concrete cluster\<close>

record cluster =
  cl_objs :: "Obj list"
  cl_config :: "Config option"

definition clusterStore :: "cluster \<Rightarrow> store" where
  "clusterStore w k = find (\<lambda>x. keyOf x = k) (cl_objs w)"

definition putObj :: "Obj \<Rightarrow> cluster \<Rightarrow> cluster" where
  "putObj x w = w\<lparr>cl_objs := x # filter (\<lambda>y. keyOf y \<noteq> keyOf x) (cl_objs w)\<rparr>"

definition fillPolicy :: "Container \<Rightarrow> Container" where
  "fillPolicy c = (if ctr_ImagePullPolicy c = '''' then c\<lparr>ctr_ImagePullPolicy := ''IfNotPresent''\<rparr> else c)"

fun defaultBody :: "Body \<Rightarrow> Body" where
  "defaultBody (DaemonSet ds) =
     DaemonSet (ds\<lparr>ds_InitContainers := map fillPolicy (ds_InitContainers ds),
                   ds_Containers := map fillPolicy (ds_Containers ds)\<rparr>)"
| "defaultBody (Service s) = Service (s\<lparr>svc_ClusterIPs := [svc_ClusterIP s]\<rparr>)"
| "defaultBody b = b"

definition defaultObj :: "Obj \<Rightarrow> Obj" where
  "defaultObj x = x\<lparr>obj_Body := defaultBody (obj_Body x)\<rparr>"

definition ownerOf :: "Config \<Rightarrow> OwnerReference" where
  "ownerOf c = \<lparr>or_Kind = ''Config'', or_Name = om_Name (cfg_Meta c), or_UID = om_UID (cfg_Meta c), or_Controller = True\<rparr>"

definition agentContainer :: Container where
  "agentContainer = \<lparr>ctr_Name = ''bpfman-agent'', ctr_Image = ''placeholder'',
     ctr_Args = [''--health-probe-bind-address=:8175'', ''--metrics''], ctr_ImagePullPolicy = '''',
     ctr_VolumeMounts = [], ctr_rest = ''''\<rparr>"

definition manifestDS :: DaemonSetSpec where
  "manifestDS = \<lparr>ds_Annotations = [], ds_AutomountToken = None, ds_InitContainers = [],
     ds_Containers = [agentContainer\<lparr>ctr_Name := ''bpfman'', ctr_Args := []\<rparr>, agentContainer],
     ds_Volumes = [], ds_rest = ''selector''\<rparr>"

definition fakeCluster :: "cluster CEnv" where
  "fakeCluster =
     \<lparr>ce_GetConfig = (\<lambda>name w. (case cl_config w of None \<Rightarrow> Inl NotFound | Some c \<Rightarrow> Inr c, w)),
      ce_UpdateConfig = (\<lambda>c w. (Inr (), w\<lparr>cl_config := Some c\<rparr>)),
      ce_Get = (\<lambda>k w. (case clusterStore w k of
         None \<Rightarrow> Inl NotFound
       | Some y \<Rightarrow> Inr (y\<lparr>obj_TypeMeta := \<lparr>tm_APIVersion = ''v1'', tm_Kind = ''Kind''\<rparr>\<rparr>), w)),
      ce_Create = (\<lambda>x w. (Inr (), putObj (defaultObj x) w)),
      ce_Update = (\<lambda>x w. (Inr (), putObj (defaultObj x) w)),
      ce_ObjectKinds = (\<lambda>k. Inr [\<lparr>gvk_Group = if k = KDaemonSet then ''apps'' else '''', gvk_Version = ''v1'',
         gvk_Kind = if k = KDaemonSet then ''DaemonSet'' else if k = KConfigMap then ''ConfigMap'' else ''Other''\<rparr>]),
      ce_SetControllerReference = (\<lambda>c m. Inr (m\<lparr>om_OwnerReferences := [ownerOf c]\<rparr>)),
      ce_ReadFile = Inr,
      ce_Decode = (\<lambda>b k. Inr (mkObj ''manifest'' '''' []
         (if k = KDaemonSet then DaemonSet manifestDS else CSIDriver ''spec''))),
      ce_Getenv = (\<lambda>_. '''')\<rparr>"

lemma keyOf_putObj: "clusterStore (putObj x w) k = (if k = keyOf x then Some x else clusterStore w k)"
proof -
  have "find (\<lambda>y. keyOf y = k) (filter (\<lambda>y. keyOf y \<noteq> keyOf x) ys) = find (\<lambda>y. keyOf y = k) ys"
    if "k \<noteq> keyOf x" for ys using that by (induction ys) auto
  then show ?thesis by (auto simp: clusterStore_def putObj_def)
qed

lemma defaultBody_stored: "bodyStoredAs b (defaultBody b)"
proof -
  have "list_all2 filledPolicy cs (map fillPolicy cs)" for cs
    by (simp add: list_all2_map2 list_all2_refl fillPolicy_def filledPolicy_def)
  then show ?thesis by (cases b) auto
qed

lemma defaultObj_stored: "storedAs x (defaultObj x)"
  by (simp add: storedAs_def defaultObj_def defaultBody_stored)

interpretation fakeServer: api_server fakeCluster clusterStore
proof
  show "keyOf y = k" if "clusterStore w k = Some y" for w k y
    using that by (auto simp: clusterStore_def find_Some_iff)
  show "owner_law fakeCluster" by (auto simp: owner_law_def fakeCluster_def)
qed (auto simp: fakeCluster_def keyOf_putObj defaultObj_stored storedAs_key [OF defaultObj_stored] split: option.splits)

definition plainConfig :: "ComponentOverride list \<Rightarrow> Config" where
  "plainConfig overrides =
     \<lparr>cfg_Meta = \<lparr>om_Name = ''bpfman-config'', om_Namespace = '''', om_UID = ''u1'', om_Labels = [],
        om_Finalizers = [''bpfman.io/config-finalizer''], om_DeletionTimestamp = None, om_OwnerReferences = []\<rparr>,
      cfg_Spec = \<lparr>cs_Agent = \<lparr>as_HealthProbePort = 8080, as_Image = ''agent:v1'', as_LogLevel = ''info''\<rparr>,
        cs_Configuration = ''[database]'', cs_Daemon = \<lparr>ds_CsiRegistrarImage = '''', ds_Image = ''bpfman:v1'', ds_LogLevel = ''info''\<rparr>,
        cs_Namespace = ''bpfman'', cs_Overrides = overrides\<rparr>\<rparr>"

definition plainReconciler :: ConfigReconciler where
  "plainReconciler = \<lparr>BpfmanStandardDS = ''ds.yaml'', BpfmanMetricsProxyDS = ''proxy.yaml'', CsiDriverDS = ''csi.yaml'',
     IsOpenshift = False, HasMonitoring = False\<rparr>"

definition emptyCluster :: "Config \<Rightarrow> cluster" where
  "emptyCluster c = \<lparr>cl_objs = [mkObj ''bpfman'' '''' [] (Namespace '''')], cl_config = Some c\<rparr>"

lemmas cluster_eval = Config_Reconcile_def reconcileResources_def andThen_def reconcileCM_def reconcileCSIDriver_def
  reconcileSCC_def reconcileStandardDS_def reconcileMetricsProxyDS_def reconcileMetricsServices_def
  reconcileServiceMonitors_def reconcileAgentMetricsServiceAnnotation_def reconcileOpenShiftRBAC_def
  reconcilePrometheusRBAC_def reconcileNamespace_def assureResource_def loadManifest_def isOverridden_def
  fakeCluster_def plainConfig_def plainReconciler_def emptyCluster_def clusterStore_def putObj_def ContainsFinalizer_def
  BpfmanConfigFinalizer_def keyOf_def mkObj_def mkMeta_def noTypeMeta_def desiredCM_def config_names
  configureBpfmanDs_def placeObj_def psaLabels_def namespaceLabels_def mapGet_def defaultObj_def

definition deployed :: "cluster" where
  "deployed = snd (the (Config_Reconcile fakeCluster plainReconciler ''bpfman-config'' (emptyCluster (plainConfig []))))"

lemma first_run:
  "Config_Reconcile fakeCluster plainReconciler ''bpfman-config'' (emptyCluster (plainConfig [])) = Some (Inr (), deployed)"
  unfolding deployed_def by (simp add: cluster_eval Let_def)

lemma deployed_config: "cl_config deployed = Some (plainConfig [])"
  unfolding deployed_def by (simp add: cluster_eval Let_def)

lemma fake_loads [simp]:
  "loadManifest fakeCluster KDaemonSet path name = Some (Inr (mkObj name '''' [] (DaemonSet manifestDS)))"
  "loadManifest fakeCluster KCSIDriver path name = Some (Inr (mkObj name '''' [] (CSIDriver ''spec'')))"
  by (simp_all add: loadManifest_def fakeCluster_def mkObj_def mkMeta_def)

lemma second_run_ends:
  "\<exists>res w. Config_Reconcile (logged fakeCluster) plainReconciler ''bpfman-config'' (deployed, []) = Some (res, w)"
proof -
  have "ce_GetConfig fakeCluster ''bpfman-config'' deployed = (Inr (plainConfig []), deployed)"
    by (simp add: fakeCluster_def deployed_config)
  moreover have "\<exists>y. reconcileResources (logged fakeCluster) plainReconciler (plainConfig []) wl = Some y" for wl
    unfolding reconcileResources_def andThen_def bind_eq_Some_conv
    by (auto simp: reconcileCM_def reconcileCSIDriver_def reconcileSCC_def reconcileStandardDS_def
        reconcileMetricsProxyDS_def reconcileMetricsServices_def reconcileServiceMonitors_def
        reconcileAgentMetricsServiceAnnotation_def reconcileOpenShiftRBAC_def reconcilePrometheusRBAC_def
        reconcileNamespace_def Let_def plainReconciler_def split: sum.split prod.split)
  ultimately show ?thesis
    by (auto simp: Config_Reconcile_def passing_def plainConfig_def ContainsFinalizer_def BpfmanConfigFinalizer_def)
qed

section \<open>Properties\<close>

definition watchKey :: "Obj \<Rightarrow> Kind \<times> string" where
  "watchKey x = (fst (keyOf x), snd (snd (keyOf x)))"

lemma ownedWatches_always:
  "(KConfigMap, BpfmanCmName) \<in> set (ownedWatches r)" "(KDaemonSet, BpfmanDsName) \<in> set (ownedWatches r)"
  "(KCSIDriver, BpfmanCsiDriverName) \<in> set (ownedWatches r)"
  by (simp_all add: ownedWatches_def)

lemma ownedWatches_OpenShift:
  assumes "IsOpenshift r"
  shows "(KSCC, BpfmanRestrictedSccName) \<in> set (ownedWatches r)"
    "(KClusterRoleBinding, BpfmanPrivilegedSccClusterRoleBindingName) \<in> set (ownedWatches r)"
    "(KClusterRole, BpfmanUserClusterRoleName) \<in> set (ownedWatches r)"
    "(KClusterRoleBinding, BpfmanPrometheusClusterRoleBindingName) \<in> set (ownedWatches r)"
    "(KRole, BpfmanPrometheusRoleName) \<in> set (ownedWatches r)" "(KRoleBinding, BpfmanPrometheusRoleBindingName) \<in> set (ownedWatches r)"
  using assms by (simp_all add: ownedWatches_def)

lemma ownedWatches_monitoring:
  assumes "HasMonitoring r"
  shows "(KDaemonSet, BpfmanMetricsProxyDsName) \<in> set (ownedWatches r)" "(KService, BpfmanAgentMetricsServiceName) \<in> set (ownedWatches r)"
    "(KService, BpfmanControllerMetricsServiceName) \<in> set (ownedWatches r)"
    "(KServiceMonitor, BpfmanAgentServiceMonitorName) \<in> set (ownedWatches r)"
    "(KServiceMonitor, BpfmanControllerServiceMonitorName) \<in> set (ownedWatches r)"
  using assms by (simp_all add: ownedWatches_def)

lemmas ownedWatches_mem = ownedWatches_always ownedWatches_OpenShift ownedWatches_monitoring

lemma loadedObjs_watch: "x \<in> set (loadedObjs env kind path name) \<Longrightarrow> watchKey x = (kind, name)"
  by (auto simp: loadedObjs_def watchKey_def keyOf_def dest: load_Some [OF sym] load_Some split: option.splits sum.splits)

lemma loaded_watched:
  "xn \<in> set (csiObjs env r) \<Longrightarrow> watchKey (fst xn) \<in> set (ownedWatches r)"
  "xn \<in> set (dsObjs env r config) \<Longrightarrow> watchKey (fst xn) \<in> set (ownedWatches r)"
  "xn \<in> set (proxyObjs env r config) \<Longrightarrow> watchKey (fst xn) \<in> set (ownedWatches r)"
proof -
  show "xn \<in> set (csiObjs env r) \<Longrightarrow> watchKey (fst xn) \<in> set (ownedWatches r)"
    by (auto simp: csiObjs_def loadedObjs_watch ownedWatches_mem)
  show "xn \<in> set (dsObjs env r config) \<Longrightarrow> watchKey (fst xn) \<in> set (ownedWatches r)"
    by (auto simp: dsObjs_def watchKey_def configureBpfmanDs_key ownedWatches_mem loadedObjs_kind)
  show "xn \<in> set (proxyObjs env r config) \<Longrightarrow> watchKey (fst xn) \<in> set (ownedWatches r)"
    by (auto simp: proxyObjs_def watchKey_def configureMetricsProxyDs_key ownedWatches_mem loadedObjs_kind split: if_splits)
qed

lemma built_watched:
  "xn \<in> set (cmObjs config) \<Longrightarrow> watchKey (fst xn) \<in> set (ownedWatches r)"
  "xn \<in> set (svcObjs r config) \<Longrightarrow> watchKey (fst xn) \<in> set (ownedWatches r)"
  "xn \<in> set (smObjs r config) \<Longrightarrow> watchKey (fst xn) \<in> set (ownedWatches r)"
  "xn \<in> set (rbacObjs r config) \<Longrightarrow> watchKey (fst xn) \<in> set (ownedWatches r)"
  "xn \<in> set (promObjs r config) \<Longrightarrow> watchKey (fst xn) \<in> set (ownedWatches r)"
  by (auto simp: cmObjs_def svcObjs_def smObjs_def rbacObjs_def promObjs_def watchKey_def agentSvcKey_def ownedWatches_mem
      split: if_splits)

lemma managed_watched: "xn \<in> set (managed env r config) \<Longrightarrow> watchKey (fst xn) \<in> set (ownedWatches r)"
  by (auto simp: managed_def intro: loaded_watched built_watched)

text \<open>The \<^verbatim>\<open>Config\<close> is read, is not being deleted and carries the finalizer: the pass over all resources runs.\<close>

definition active :: "Config \<Rightarrow> bool" where
  "active config \<longleftrightarrow>
     om_DeletionTimestamp (cfg_Meta config) = None \<and> ContainsFinalizer (cfg_Meta config) BpfmanConfigFinalizer"

lemma Config_Reconcile_active:
  "ce_GetConfig env name w = (Inr config, w0) \<Longrightarrow> active config \<Longrightarrow>
     Config_Reconcile env r name w = reconcileResources env r config w0"
  by (simp add: Config_Reconcile_def active_def)



text \<open>
  C12: after a reconcile without error the controller has nothing left to do: the next reconcile of the same
  \<^verbatim>\<open>Config\<close> writes no object, with one exception, the security context constraints on OpenShift.
\<close>

theorem Config_fixed_point:
  assumes "api_server env store"
    and "ce_GetConfig env name w = (Inr config, w0)" and "active config"
    and "Config_Reconcile env r name w = Some (Inr (), w1)"
    and "ce_GetConfig env name w1 = (Inr config, w2)"
    and "Config_Reconcile (logged env) r name (w1, []) = Some (res, (w3, log))"
  shows "list_all (\<lambda>a. IsOpenshift r \<and> writeKey a = Some (KSCC, '''', BpfmanRestrictedSccName)) log \<and>
         ready env r config (store w3)"
proof -
  have r: "ready env r config (store w1)"
    using assms(2,3,4) Config_Reconcile_active [OF assms(2,3), of r] api_server.reconcileResources_after [OF assms(1), of r config]
    by (simp add: after_def)
  moreover have "store w2 = store w1" using api_server.config_keeps [OF assms(1), of name w1] assms(5) by simp
  moreover have "reconcileResources (logged env) r config (w2, []) = Some (res, (w3, log))"
    using Config_Reconcile_active [of "logged env" name "(w1, [])" config "(w2, [])" r] assms(3,5,6) by (simp add: passing_def)
  ultimately have "ready env r config (store w3) \<and> (\<exists>e. log = [] @ e \<and> list_all (sccWrite r) e)"
    using api_server.reconcileResources_quiet [OF assms(1), of r config] unfolding quiet_def by metis
  then show ?thesis by (simp add: sccWrite_def [abs_def])
qed

lemma Config_fixed_point_witness:
  "\<exists>res w. Config_Reconcile (logged fakeCluster) plainReconciler ''bpfman-config'' (deployed, []) = Some (res, (w, []))"
proof -
  obtain res w log where run: "Config_Reconcile (logged fakeCluster) plainReconciler ''bpfman-config'' (deployed, []) = Some (res, (w, log))"
    using second_run_ends by auto
  have "ce_GetConfig fakeCluster ''bpfman-config'' (emptyCluster (plainConfig [])) =
      (Inr (plainConfig []), emptyCluster (plainConfig []))" by (simp add: fakeCluster_def emptyCluster_def)
  moreover have "ce_GetConfig fakeCluster ''bpfman-config'' deployed = (Inr (plainConfig []), deployed)"
    by (simp add: fakeCluster_def deployed_config)
  moreover have "active (plainConfig [])"
    by (simp add: active_def plainConfig_def ContainsFinalizer_def BpfmanConfigFinalizer_def)
  ultimately have "list_all (\<lambda>a. IsOpenshift plainReconciler \<and> writeKey a = Some (KSCC, '''', BpfmanRestrictedSccName)) log"
    using Config_fixed_point [OF fakeServer.api_server_axioms _ _ first_run _ run] by blast
  then have "log = []" by (cases log) (simp_all add: plainReconciler_def)
  with run show ?thesis by blast
qed

text \<open>
  C14: an unmanaged component is left alone, whatever the API server answers: every object a reconcile of an active
  \<^verbatim>\<open>Config\<close> creates or updates either has no override, or is the operator's namespace, which no override covers. The
  owner-reference helper is assumed to change owner references only, and reads to return the object asked for.
\<close>

theorem Config_overrides_respected:
  assumes "owner_law env" and "get_law env"
    and "ce_GetConfig env name w = (Inr config, w0)" and "active config"
    and "Config_Reconcile (logged env) r name (w, []) = Some (res, (w', log))"
  shows "list_all (\<lambda>a. \<exists>k. writeKey a = Some k \<and>
           (k = (KNamespace, '''', cs_Namespace (cfg_Spec config)) \<or>
            (\<forall>x. keyOf x = k \<longrightarrow> \<not> isOverridden env x (cs_Overrides (cfg_Spec config))))) log"
proof -
  have "reconcileResources (logged env) r config (w0, []) = Some (res, (w', log))"
    using Config_Reconcile_active [of "logged env" name "(w, [])" config "(w0, [])" r] assms(3-5) by (simp add: passing_def)
  with reconcileResources_obeys [OF assms(1,2), of config r] have "\<exists>e. log = [] @ e \<and> list_all (obeys env config) e"
    unfolding quiet_def by metis
  then show ?thesis by (simp add: obeys_def [abs_def])
qed

definition dsOverride :: ComponentOverride where
  "dsOverride = \<lparr>co_APIVersion = ''apps/v1'', co_Kind = ''DaemonSet'', co_Namespace = ''bpfman'', co_Name = ''bpfman-daemon'',
     co_Unmanaged = True\<rparr>"

lemma Config_overrides_respected_witness:
  "\<exists>res w log. Config_Reconcile (logged fakeCluster) plainReconciler ''bpfman-config'' (emptyCluster (plainConfig [dsOverride]), []) =
     Some (res, (w, log)) \<and> log \<noteq> [] \<and> list_all (\<lambda>a. writeKey a \<noteq> Some (KDaemonSet, ''bpfman'', ''bpfman-daemon'')) log"
proof -
  let ?c = "plainConfig [dsOverride]"
  have "\<exists>res w log. Config_Reconcile (logged fakeCluster) plainReconciler ''bpfman-config'' (emptyCluster ?c, []) =
      Some (res, (w, log)) \<and> log \<noteq> []"
    by (simp add: cluster_eval Let_def logged_def passing_def logging_def dsOverride_def ParseGroupVersion_def)
  then obtain res w log where run: "Config_Reconcile (logged fakeCluster) plainReconciler ''bpfman-config'' (emptyCluster ?c, []) =
      Some (res, (w, log))" and ne: "log \<noteq> []" by blast
  have g: "get_law fakeCluster"
    by (auto simp: get_law_def fakeCluster_def clusterStore_def find_Some_iff split: option.splits)
  have c: "ce_GetConfig fakeCluster ''bpfman-config'' (emptyCluster ?c) = (Inr ?c, emptyCluster ?c)" "active ?c"
    by (simp_all add: fakeCluster_def emptyCluster_def active_def plainConfig_def ContainsFinalizer_def BpfmanConfigFinalizer_def)
  have "isOverridden fakeCluster (mkObj ''bpfman-daemon'' ''bpfman'' [] (DaemonSet manifestDS)) (cs_Overrides (cfg_Spec ?c))"
    by (simp add: isOverridden_def fakeCluster_def dsOverride_def plainConfig_def ParseGroupVersion_def mkMeta_def)
  then have "list_all (\<lambda>a. writeKey a \<noteq> Some (KDaemonSet, ''bpfman'', ''bpfman-daemon'')) log"
    using Config_overrides_respected [OF fakeServer.owner g c run]
    by (fastforce simp: list_all_iff dest: spec [of _ "mkObj ''bpfman-daemon'' ''bpfman'' [] (DaemonSet manifestDS)"])
  with run ne show ?thesis by blast
qed

text \<open>
  C15: the life cycle of a \<^verbatim>\<open>Config\<close>: without it nothing is written; while it is being deleted its finalizer is removed and
  nothing else is written, so no object is created behind the back of garbage collection; without finalizer the
  finalizer is added first and nothing else is written; and only then, once it is active, are objects written, and the
  \<^verbatim>\<open>Config\<close> itself no more. The owner-reference helper is assumed to change owner references only, and reads to
  return the object asked for.
\<close>

theorem Config_lifecycle:
  assumes "owner_law env" and "get_law env"
    and "ce_GetConfig env name w = (g, w0)"
    and "Config_Reconcile (logged env) r name (w, []) = Some (res, (w', log))"
  shows "case g of
           Inl err \<Rightarrow> log = []
         | Inr config \<Rightarrow>
             if om_DeletionTimestamp (cfg_Meta config) \<noteq> None
             then \<exists>c. log = [WriteConfig c] \<and> \<not> ContainsFinalizer (cfg_Meta c) BpfmanConfigFinalizer \<and> cfg_Spec c = cfg_Spec config
             else if \<not> ContainsFinalizer (cfg_Meta config) BpfmanConfigFinalizer
             then \<exists>c. log = [WriteConfig c] \<and> active c \<and> cfg_Spec c = cfg_Spec config
             else list_all (\<lambda>a. writeKey a \<noteq> None) log"
proof (cases g)
  case (Inl err)
  with assms(3,4) show ?thesis by (cases err) (simp_all add: Config_Reconcile_def passing_def)
next
  case (Inr config)
  show ?thesis
  proof (cases "active config")
    case True
    with assms(3,4) Inr have "reconcileResources (logged env) r config (w0, []) = Some (res, (w', log))"
      using Config_Reconcile_active [of "logged env" name "(w, [])" config "(w0, [])" r] by (simp add: passing_def)
    with reconcileResources_obeys [OF assms(1,2), of config r] have "\<exists>e. log = [] @ e \<and> list_all (obeys env config) e"
      unfolding quiet_def by metis
    then have "list_all (\<lambda>a. writeKey a \<noteq> None) log" by (auto simp: obeys_def elim!: list.pred_mono_strong)
    with True Inr show ?thesis by (simp add: active_def)
  next
    case False
    with assms(3,4) Inr show ?thesis
      by (auto simp: Config_Reconcile_def active_def handleDeletion_def ContainsFinalizer_def passing_def logging_def
          split: prod.splits if_splits)
  qed
qed

lemma Config_lifecycle_witness:
  "\<exists>res w c. Config_Reconcile (logged fakeCluster) plainReconciler ''bpfman-config''
     (emptyCluster ((plainConfig [])\<lparr>cfg_Meta := (cfg_Meta (plainConfig []))\<lparr>om_Finalizers := []\<rparr>\<rparr>), []) =
     Some (res, (w, [WriteConfig c])) \<and> active c"
proof -
  let ?c = "(plainConfig [])\<lparr>cfg_Meta := (cfg_Meta (plainConfig []))\<lparr>om_Finalizers := []\<rparr>\<rparr>"
  have g: "get_law fakeCluster"
    by (auto simp: get_law_def fakeCluster_def clusterStore_def find_Some_iff split: option.splits)
  have c: "ce_GetConfig fakeCluster ''bpfman-config'' (emptyCluster ?c) = (Inr ?c, emptyCluster ?c)"
    by (simp add: fakeCluster_def emptyCluster_def)
  obtain res w log where run: "Config_Reconcile (logged fakeCluster) plainReconciler ''bpfman-config'' (emptyCluster ?c, []) =
      Some (res, (w, log))"
    by (auto simp: Config_Reconcile_def passing_def logging_def fakeCluster_def emptyCluster_def plainConfig_def ContainsFinalizer_def)
  from Config_lifecycle [OF fakeServer.owner g c run] run show ?thesis
    by (auto simp: plainConfig_def ContainsFinalizer_def)
qed

text \<open>
  On OpenShift the security context constraints are updated on every reconcile, even when the stored object equals the
  desired one in every field: the object read from the manager's cache carries its \<^verbatim>\<open>TypeMeta\<close>, the one built in
  code does not, and the comparison clears the metadata but not the type.
\<close>

theorem scc_updated_every_time:
  assumes "IsOpenshift r" and "\<not> isOverridden env bpfmanRestrictedSCC (cs_Overrides (cfg_Spec config))"
    and "ce_SetControllerReference env config (obj_Meta bpfmanRestrictedSCC) = Inr m"
    and "ce_Get env (keyOf (bpfmanRestrictedSCC\<lparr>obj_Meta := m\<rparr>)) w =
           (Inr (bpfmanRestrictedSCC\<lparr>obj_Meta := m, obj_TypeMeta := t\<rparr>), w0)"
    and "t \<noteq> noTypeMeta"
  shows "reconcileSCC env r config w =
           Some (ce_Update env (bpfmanRestrictedSCC\<lparr>obj_Meta := m\<rparr>) w0)"
  using assms by (simp add: reconcileSCC_def assureResource_def sccNeedsUpdate_def bpfmanRestrictedSCC_def mkObj_def)

lemma scc_updated_every_time_witness:
  "let m = (mkMeta ''bpfman-restricted'' '''' [])\<lparr>om_OwnerReferences := [ownerOf (plainConfig [])]\<rparr>;
       w = \<lparr>cl_objs = [bpfmanRestrictedSCC\<lparr>obj_Meta := m\<rparr>], cl_config = None\<rparr>
   in reconcileSCC fakeCluster (plainReconciler\<lparr>IsOpenshift := True\<rparr>) (plainConfig []) w =
        Some (ce_Update fakeCluster (bpfmanRestrictedSCC\<lparr>obj_Meta := m\<rparr>) w)"
proof -
  define m where "m = (mkMeta ''bpfman-restricted'' '''' [])\<lparr>om_OwnerReferences := [ownerOf (plainConfig [])]\<rparr>"
  define w where "w = \<lparr>cl_objs = [bpfmanRestrictedSCC\<lparr>obj_Meta := m\<rparr>], cl_config = None\<rparr>"
  have "reconcileSCC fakeCluster (plainReconciler\<lparr>IsOpenshift := True\<rparr>) (plainConfig []) w =
        Some (ce_Update fakeCluster (bpfmanRestrictedSCC\<lparr>obj_Meta := m\<rparr>) w)"
    by (rule scc_updated_every_time [where t = "\<lparr>tm_APIVersion = ''v1'', tm_Kind = ''Kind''\<rparr>"])
      (simp_all add: isOverridden_def plainConfig_def fakeCluster_def m_def w_def clusterStore_def bpfmanRestrictedSCC_def
        mkObj_def mkMeta_def config_names keyOf_def noTypeMeta_def)
  then show ?thesis by (simp add: m_def w_def Let_def)
qed

text \<open>
  The annotation \<^verbatim>\<open>openshift.io/node-selector\<close>, which should override the cluster's default node selector with an
  empty one, is never written: a missing key reads as the empty string, which is the wanted value, so a namespace
  without it is updated, if at all, without it.
\<close>

theorem node_selector_never_set:
  assumes "ce_Get env (KNamespace, '''', cs_Namespace (cfg_Spec config)) w = (Inr ns, w0)"
    and "map_of (om_Annotations (obj_Meta ns)) ''openshift.io/node-selector'' = None"
    and "reconcileNamespace (logged env) r config (w, []) = Some (res, (w', log))"
  shows "log = [] \<or> (\<exists>x. log = [WriteUpdate x] \<and> map_of (om_Annotations (obj_Meta x)) ''openshift.io/node-selector'' = None)"
proof -
  have "ce_Get (logged env) (KNamespace, '''', cs_Namespace (cfg_Spec config)) (w, []) = (Inr ns, (w0, []))"
    using assms(1) by (simp add: passing_def)
  note run = namespace_run [OF assms(3) this]
  have "setEntries osAnnotations (False, om_Annotations (obj_Meta ns)) =
      setEntries (tl osAnnotations) (False, om_Annotations (obj_Meta ns))"
    using assms(2) by (simp add: osAnnotations_def mapGet_def)
  moreover have "distinct (map fst (tl osAnnotations))" by (simp add: osAnnotations_def)
  ultimately have "map_of (snd (setEntries osAnnotations (False, om_Annotations (obj_Meta ns)))) ''openshift.io/node-selector'' = None"
    using setEntries_result(3) [of "tl osAnnotations" False "om_Annotations (obj_Meta ns)" _ _ "''openshift.io/node-selector''",
        OF prod.collapse [symmetric]] assms(2) by (simp add: osAnnotations_def)
  with assms(2) have "map_of (om_Annotations (obj_Meta (labelNamespace r ns))) ''openshift.io/node-selector'' = None"
    by (simp add: labelNamespace_def)
  moreover have "log = [] \<or> log = [WriteUpdate (labelNamespace r ns)]"
    using run by (auto simp: prod_eq_iff split: if_splits)
  ultimately show ?thesis by auto
qed

lemma node_selector_never_set_witness:
  "\<exists>res w x. reconcileNamespace (logged fakeCluster) (plainReconciler\<lparr>IsOpenshift := True\<rparr>) (plainConfig [])
     (emptyCluster (plainConfig []), []) = Some (res, (w, [WriteUpdate x])) \<and>
     map_of (om_Annotations (obj_Meta x)) ''openshift.io/node-selector'' = None"
proof -
  let ?r = "plainReconciler\<lparr>IsOpenshift := True\<rparr>" and ?w = "emptyCluster (plainConfig [])"
  have "\<exists>res w x. reconcileNamespace (logged fakeCluster) ?r (plainConfig []) (?w, []) = Some (res, (w, [WriteUpdate x]))"
    by (simp add: cluster_eval Let_def logged_def passing_def logging_def osAnnotations_def)
  then obtain res w x where run: "reconcileNamespace (logged fakeCluster) ?r (plainConfig []) (?w, []) =
      Some (res, (w, [WriteUpdate x]))" by blast
  define n where "n = (mkObj ''bpfman'' '''' [] (Namespace ''''))\<lparr>obj_TypeMeta := \<lparr>tm_APIVersion = ''v1'', tm_Kind = ''Kind''\<rparr>\<rparr>"
  have "ce_Get fakeCluster (KNamespace, '''', cs_Namespace (cfg_Spec (plainConfig []))) ?w = (Inr n, ?w)"
    by (simp add: n_def fakeCluster_def emptyCluster_def plainConfig_def clusterStore_def keyOf_def mkObj_def mkMeta_def)
  moreover have "map_of (om_Annotations (obj_Meta n)) ''openshift.io/node-selector'' = None"
    by (simp add: n_def mkObj_def mkMeta_def)
  ultimately show ?thesis using node_selector_never_set [OF _ _ run, of n ?w] run by auto
qed

text \<open>
  What the configuration does to the daemon set of the manifest: no container is added, removed or renamed; the
  daemon and the agent get their images and the agent's health-probe argument its address, other containers keep
  theirs; the three configuration values become annotations of the pods, and other annotations stay.
\<close>

theorem daemonset_configured:
  "let ds' = configureBpfmanDsSpec env spec ds in
     map ctr_Name (ds_Containers ds') = map ctr_Name (ds_Containers ds) \<and>
     map ctr_Name (ds_InitContainers ds') = map ctr_Name (ds_InitContainers ds) \<and>
     list_all2 (\<lambda>c c'. ctr_Image c' =
         (if ctr_Name c = BpfmanContainerName then ds_Image (cs_Daemon spec)
          else if ctr_Name c = BpfmanAgentContainerName then as_Image (cs_Agent spec)
          else if ctr_Name c = BpfmanCsiDriverRegistrarName \<and> ds_CsiRegistrarImage (cs_Daemon spec) \<noteq> ''''
          then ds_CsiRegistrarImage (cs_Daemon spec) else ctr_Image c) \<and>
         list_all2 (\<lambda>a a'. a' = a \<or> ctr_Name c = BpfmanAgentContainerName \<and> strings_Contains a ''health-probe-bind-address'' \<and>
            a' = ''--health-probe-bind-address='' @ healthProbeAddress (as_HealthProbePort (cs_Agent spec)))
           (ctr_Args c) (ctr_Args c') \<and>
         ctr_VolumeMounts c' = ctr_VolumeMounts c \<and> ctr_rest c' = ctr_rest c)
       (ds_Containers ds) (ds_Containers ds') \<and>
     map_of (ds_Annotations ds') = (map_of (ds_Annotations ds))
       (''bpfman.io.bpfman.log.level'' \<mapsto> ds_LogLevel (cs_Daemon spec),
        ''bpfman.io.bpfman.agent.log.level'' \<mapsto> as_LogLevel (cs_Agent spec),
        ''bpfman.io.bpfman.toml'' \<mapsto> cs_Configuration spec) \<and>
     ds_Volumes ds' = ds_Volumes ds \<and> ds_rest ds' = ds_rest ds"
proof -
  have names: "map ctr_Name (setPullPolicy p cs) = map ctr_Name cs" for p cs
    by (simp add: setPullPolicy_def)
  have cname: "ctr_Name (configureContainer spec c) = ctr_Name c" for c by (simp add: configureContainer_def)
  show ?thesis
    by (auto simp: configureBpfmanDsSpec_def Let_def names comp_def cname maps_Copy_def configAnnotations_def map_of_update
        APIPrefix_def BpfmanLogLevel_def BpfmanAgentLogLevel_def BpfmanTOML_def setPullPolicy_def list_all2_map2 list_all2_refl
        configureContainer_def probeArg_def config_names)
qed

text \<open>
  The agent is given a health-probe address exactly for a port between 1 and 65535, and distinct ports in that range
  give distinct addresses; every other port gives none and leaves the arguments of the manifest as they are.
\<close>

theorem health_probe_bounds:
  "(healthProbeAddress p \<noteq> '''' \<longleftrightarrow> 1 \<le> p \<and> p \<le> 65535) \<and>
   (healthProbeAddress p = healthProbeAddress q \<longleftrightarrow> p = q \<or> (p < 1 \<or> 65535 < p) \<and> (q < 1 \<or> 65535 < q)) \<and>
   (probeArg (healthProbeAddress p) ''--health-probe-bind-address=:8175'' = ''--health-probe-bind-address=:8175'' \<longleftrightarrow>
      p = 8175 \<or> p < 1 \<or> 65535 < p)"
proof -
  have inj: "show_int p = show_int q \<longleftrightarrow> p = q" for p q by (auto dest: show_int_inj)
  have 8175: "show_int 8175 = ''8175''" by (simp add: show_int_def show_nat_def digits_of.simps digit_char_def char_of_def bit_0)
  have "strings_Contains ''--health-probe-bind-address=:8175'' ''health-probe-bind-address''"
    by (simp add: strings_Contains_def strings_Index_def strings_HasPrefix_def)
  then have arg: "probeArg a ''--health-probe-bind-address=:8175'' = ''--health-probe-bind-address=:8175'' \<longleftrightarrow> a = '''' \<or> a = '':8175''" for a
    by (auto simp: probeArg_def)
  show ?thesis using inj [of p 8175] 8175 by (auto simp: arg healthProbeAddress_def inj)
qed

text \<open>
  C26: Drift is noticed: any event about a managed object, or about the security context constraints on OpenShift, that still names
  a \<^verbatim>\<open>Config\<close> as its controller enqueues a reconcile of that \<^verbatim>\<open>Config\<close>, on every platform; no watch is missing for anything
  the controller writes but the namespace, which is watched on OpenShift with monitoring only, under its fixed name.
\<close>

theorem drift_is_noticed:
  assumes "x \<in> fst ` set (managed env r config) \<or> IsOpenshift r \<and> x = bpfmanRestrictedSCC"
    and "keyOf y = keyOf x" and "ref \<in> set (om_OwnerReferences (obj_Meta y))" and "or_Kind ref = ''Config''" and "or_Controller ref"
  shows "or_Name ref \<in> set (eventRequests r ev y) \<and>
    (kindOf (obj_Body ns) = KNamespace \<and> om_OwnerReferences (obj_Meta ns) = [] \<longrightarrow>
       (eventRequests r ev ns \<noteq> [] \<longleftrightarrow> IsOpenshift r \<and> HasMonitoring r \<and> om_Name (obj_Meta ns) = BpfmanNamespace))"
proof -
  from assms(1) have "watchKey x \<in> set (ownedWatches r)"
    by (auto intro: managed_watched) (simp add: watchKey_def ownedWatches_mem)
  with assms(2) have "(kindOf (obj_Body y), om_Name (obj_Meta y)) \<in> set (ownedWatches r)"
    unfolding watchKey_def by (simp flip: assms(2) add: keyOf_def [of y])
  then have "list_ex (\<lambda>(k, name). kindOf (obj_Body y) = k \<and> resourcePredicate name ev (om_Name (obj_Meta y))) (ownedWatches r)"
    by (force simp: list_ex_iff resourcePredicate_def)
  with assms(3-5) show ?thesis by (auto simp: eventRequests_def resourcePredicate_def namespaceRequests_def)
qed

lemma drift_is_noticed_witness:
  "''bpfman-config'' \<in> set (eventRequests plainReconciler DeleteEvent
     ((desiredCM (plainConfig []))\<lparr>obj_Meta := (obj_Meta (desiredCM (plainConfig [])))\<lparr>om_OwnerReferences := [ownerOf (plainConfig [])]\<rparr>\<rparr>))"
proof -
  let ?x = "desiredCM (plainConfig [])"
  let ?y = "?x\<lparr>obj_Meta := (obj_Meta ?x)\<lparr>om_OwnerReferences := [ownerOf (plainConfig [])]\<rparr>\<rparr>"
  have "?x \<in> fst ` set (managed fakeCluster plainReconciler (plainConfig []))" by (simp add: managed_def cmObjs_def)
  moreover have "keyOf ?y = keyOf ?x" by (simp add: keyOf_def)
  ultimately show ?thesis
    using drift_is_noticed [of ?x fakeCluster plainReconciler "plainConfig []" ?y "ownerOf (plainConfig [])" DeleteEvent]
    by (simp add: ownerOf_def plainConfig_def)
qed

end
