(* ===== verification/Startup_Properties.thy ===== *)
theory Startup_Properties
  imports Operator_Main Config_Properties
begin

text \<open>
  Properties of the operator's start, and its composition with the configuration controller.
\<close>

section \<open>A start on the concrete cluster\<close>

definition fakeStart :: "cluster StartEnv" where
  "fakeStart =
     \<lparr>se_Args = [''bpfman-operator''], se_ShowVersion = False,
      se_Getenv = (\<lambda>v. if v = ''BPFMAN_IMG'' then ''bpfman:v1'' else ''agent:v1''),
      se_YAML = (\<lambda>_. Inr ''kind: Config''), se_CertWatcher = (\<lambda>_ _. Inl ''no certificate''), se_NewManager = Inr (),
      se_AddCertWatcher = Inr (), se_NewDiscovery = Inr (), se_ServerVersion = Inr (), se_ServerGroups = Inr [''apps''],
      se_SetupWithManager = (\<lambda>_. Inr ()), se_AddCheck = (\<lambda>_. Inr ()), se_NewClient = Inr (),
      se_GetConfig = (\<lambda>name w. (case cl_config w of None \<Rightarrow> Inl NotFound | Some c \<Rightarrow> Inr c, w)),
      se_CreateConfig = (\<lambda>c w. (Inr (), w\<lparr>cl_config := Some c\<rparr>)),
      se_Start = (\<lambda>_ w. (Inr (), w))\<rparr>"

interpretation fakeConfigs: config_store fakeCluster clusterStore fakeStart cl_config
  by unfold_locales (auto simp: fakeCluster_def fakeStart_def configStoredAs_def split: option.splits)

definition bareCluster :: cluster where
  "bareCluster = \<lparr>cl_objs = [mkObj ''bpfman'' '''' [] (Namespace '''')], cl_config = None\<rparr>"

definition bareReconciler :: ConfigReconciler where
  "bareReconciler =
     \<lparr>BpfmanStandardDS = ''./config/bpfman-deployment/daemonset.yaml'',
      BpfmanMetricsProxyDS = ''./config/bpfman-deployment/metrics-proxy-daemonset.yaml'',
      CsiDriverDS = ''./config/bpfman-deployment/csidriverinfo.yaml'', IsOpenshift = False, HasMonitoring = False\<rparr>"

definition startedCluster :: cluster where
  "startedCluster = bareCluster\<lparr>cl_config := Some (defaultConfig ''bpfman:v1'' ''agent:v1'')\<rparr>"

lemma fake_setup: "operatorSetup fakeStart ''/certs'' bareCluster = (Inr bareReconciler, startedCluster)"
  by (simp add: operatorSetup_def orExit_def fakeStart_def setupCertWatcher_def IsOpenShift_def HasMonitoringAPI_def
      ensureDefaultConfig_def bareCluster_def startedCluster_def bareReconciler_def)

section \<open>Properties\<close>


definition finalizedCluster :: cluster where
  "finalizedCluster = snd (the (Config_Reconcile fakeCluster bareReconciler BpfmanConfigName startedCluster))"

definition bootedCluster :: cluster where
  "bootedCluster = snd (the (Config_Reconcile fakeCluster bareReconciler BpfmanConfigName finalizedCluster))"

lemmas start_eval = startedCluster_def bareCluster_def bareReconciler_def defaultConfig_def BpfmanConfigName_def
  DefaultConfigNamespace_def

lemma boot_finalizes:
  "Config_Reconcile fakeCluster bareReconciler BpfmanConfigName startedCluster = Some (Inr (), finalizedCluster)"
  unfolding finalizedCluster_def by (simp add: cluster_eval start_eval)

lemma boot_deploys:
  "Config_Reconcile fakeCluster bareReconciler BpfmanConfigName finalizedCluster = Some (Inr (), bootedCluster)"
  unfolding bootedCluster_def finalizedCluster_def by (simp add: cluster_eval start_eval Let_def)


text \<open>
  The manager is never started without a \<^verbatim>\<open>Config\<close>: outside the two printing modes the operator exits with status 1, or it
  has started the manager, which returned without error, with both images known and a \<^verbatim>\<open>Config\<close> in the cluster: the one that was
  there, untouched, or else the default one.
\<close>

theorem operator_start_safe:
  assumes "config_store env store start stored" and "operatorMain start certDir w = (code, w')"
    and "\<not> se_ShowVersion start" and "se_Args start = [prog]"
  shows "code = 1 \<or> code = 0 \<and>
    (\<exists>r w0. se_Start start r w0 = (Inr (), w') \<and> se_Getenv start ''BPFMAN_IMG'' \<noteq> '''' \<and> se_Getenv start ''BPFMAN_AGENT_IMG'' \<noteq> '''' \<and>
       (case stored w of
          Some c \<Rightarrow> stored w0 = Some c
        | None \<Rightarrow> \<exists>c. stored w0 = Some c \<and>
            configStoredAs (defaultConfig (se_Getenv start ''BPFMAN_IMG'') (se_Getenv start ''BPFMAN_AGENT_IMG'')) c))"
proof -
  obtain q w0 where q: "operatorSetup start certDir w = (q, w0)" by fastforce
  show ?thesis
  proof (cases q)
    case (Inl c)
    with q assms(3,4) have "c = 1"
      by (auto simp: operatorSetup_def orExit_def Let_def split: sum.splits prod.splits if_splits)
    with Inl q assms(2) show ?thesis by (simp add: operatorMain_def)
  next
    case (Inr r)
    with q have s: "operatorSetup start certDir w = (Inr r, w0)" by simp
    note facts = operatorSetup_started(2,3) [OF s] config_store.ensureDefault_stored [OF assms(1) operatorSetup_started(4) [OF s]]
    from s assms(2) have "code = 1 \<or> code = 0 \<and> se_Start start r w0 = (Inr (), w')"
      by (auto simp: operatorMain_def split: prod.splits sum.splits)
    with facts show ?thesis by blast
  qed
qed

lemma operator_start_safe_witness: "operatorMain fakeStart ''/certs'' bareCluster = (0, startedCluster) \<and> cl_config startedCluster \<noteq> None"
proof -
  have run: "operatorMain fakeStart ''/certs'' bareCluster = (0, startedCluster)"
    by (simp add: operatorMain_def fake_setup) (simp add: fakeStart_def)
  have "cl_config startedCluster \<noteq> None"
    using operator_start_safe [OF fakeConfigs.config_store_axioms run, of "''bpfman-operator''"]
    by (auto simp: fakeStart_def bareCluster_def)
  with run show ?thesis by blast
qed

end
