(* ===== verification/Containers.thy ===== *)
theory Containers
  imports Selectors Go_Strings "HOL-Library.AList"
begin

text \<open>
  Finding the containers to attach to: the CRI client of \<^verbatim>\<open>pkg/crictl\<close> (\<^verbatim>\<open>types.go\<close>, \<^verbatim>\<open>container.go\<close>, \<^verbatim>\<open>client.go\<close>,
  \<^verbatim>\<open>discovery.go\<close>, \<^verbatim>\<open>api.go\<close>), the container getter of the agent (\<^verbatim>\<open>controllers/bpfman-agent/containers.go\<close>) and the
  argument loops of the command \<^verbatim>\<open>bpfman-crictl\<close>.

  The container runtime, the API server, the JSON decoder and the environment are the fields of \<open>CriEnv\<close>. A value of
  Go's type \<^verbatim>\<open>any\<close> is an \<open>AnyVal\<close>; a finite \<^verbatim>\<open>float64\<close> is its integral part, all that a conversion to an
  integer keeps. Converting a float that does not fit is left open by Go, so it is a field of the environment
  too. Dereferencing a metadata pointer that the runtime left nil is a panic.
\<close>

section \<open>Types\<close>

datatype AnyVal =
    AnyInt64 int64 | AnyFloat64 int | AnyInt int64 | AnyInt32 int32
  | AnyString string | AnyMap "(string \<times> AnyVal) list" | AnyOther string

type_synonym anymap = "(string \<times> AnyVal) list"

record ContainerPIDInfo =
  cpi_PodName :: string
  cpi_ContainerName :: string
  cpi_ContainerID :: string
  cpi_PID :: int32
  cpi_Namespace :: string

record PodMetadata =
  pm_Name :: string
  pm_UID :: string
  pm_Namespace :: string
  pm_Attempt :: uint32

record PodInfo =
  pod_ID :: string
  pod_Metadata :: PodMetadata
  pod_State :: string
  pod_CreatedAt :: int64
  pod_InfoLabels :: "(string \<times> string) list"

record ContainerMetadata =
  cm_Name :: string
  cm_Attempt :: uint32

record CriContainerInfo =
  cc_ID :: string
  cc_PodID :: string
  cc_Metadata :: ContainerMetadata
  cc_Image :: string
  cc_ImageRef :: string
  cc_State :: string
  cc_CreatedAt :: int64
  cc_Labels :: "(string \<times> string) list"

record ContainerMount =
  mt_ContainerPath :: string
  mt_HostPath :: string
  mt_Readonly :: bool

record ContainerStatus =
  st_ID :: string
  st_Metadata :: ContainerMetadata
  st_State :: string
  st_CreatedAt :: int64
  st_StartedAt :: int64
  st_FinishedAt :: int64
  st_ExitCode :: int32
  st_Image :: string
  st_ImageRef :: string
  st_Reason :: string
  st_Message :: string
  st_StatusLabels :: "(string \<times> string) list"
  st_Annotations :: "(string \<times> string) list"
  st_Mounts :: "ContainerMount list"
  st_LogPath :: string

record InspectResponse =
  ir_Status :: ContainerStatus
  ir_Info :: "anymap option"

text \<open>The messages of the runtime: pointers to messages may be nil.\<close>

record PodSandbox =
  sb_Id :: string
  sb_Metadata :: "PodMetadata option"
  sb_State :: string
  sb_CreatedAt :: int64
  sb_Labels :: "(string \<times> string) list"

record CriContainer =
  ct_Id :: string
  ct_PodSandboxId :: string
  ct_Metadata :: "ContainerMetadata option"
  ct_Image :: "string option"
  ct_ImageRef :: string
  ct_State :: string
  ct_CreatedAt :: int64
  ct_Labels :: "(string \<times> string) list"

record StatusMessage =
  sm_Status :: "ContainerStatus option"
    \<comment> \<open>None: a nil status, metadata or image\<close>
  sm_Info :: "(string \<times> string) list"

record PodItem =
  pit_Name :: string
  pit_Namespace :: string

record 'w CriEnv =
  cri_ListPodSandbox :: "'w \<Rightarrow> PodSandbox list result \<times> 'w"
  cri_ListContainers :: "string \<Rightarrow> 'w \<Rightarrow> CriContainer list result \<times> 'w"
  cri_ContainerStatus :: "string \<Rightarrow> 'w \<Rightarrow> StatusMessage result \<times> 'w"
  cri_Dial :: "string \<Rightarrow> 'w \<Rightarrow> unit result \<times> 'w"
  cri_Version :: "string \<Rightarrow> 'w \<Rightarrow> unit result \<times> 'w"
  cri_IsSocket :: "string \<Rightarrow> 'w \<Rightarrow> bool result"
  cri_Getenv :: "string \<Rightarrow> string"
  cri_Unmarshal :: "string \<Rightarrow> anymap result"
  cri_FloatToInt32 :: "int \<Rightarrow> int32"
  cri_FormatLabelSelector :: "LabelSelector \<Rightarrow> string"
  cri_ListPods :: "string \<Rightarrow> string \<Rightarrow> string option \<Rightarrow> 'w \<Rightarrow> PodItem list result \<times> 'w"

section \<open>Container data\<close>

definition trimQuotes :: "string \<Rightarrow> string" where
  "trimQuotes = trim_char (CHR 0x22)"

definition processInfoValue :: "'w CriEnv \<Rightarrow> AnyVal \<Rightarrow> AnyVal" where
  "processInfoValue env v =
     (case v of
        AnyString s \<Rightarrow>
          if strings_HasPrefix s ''{''
          then (case cri_Unmarshal env s of Inr m \<Rightarrow> AnyMap m | Inl _ \<Rightarrow> AnyString (trimQuotes s))
          else AnyString (trimQuotes s)
      | _ \<Rightarrow> v)"

definition processInfoField :: "'w CriEnv \<Rightarrow> anymap option \<Rightarrow> anymap option" where
  "processInfoField env info =
     (case info of
        None \<Rightarrow> None
      | Some info \<Rightarrow>
          (let processed = Some (map (\<lambda>(k, v). (k, processInfoValue env v)) info) in
           case map_of info ''info'' of
             Some (AnyString s) \<Rightarrow>
               if strings_HasPrefix s ''{''
               then (case cri_Unmarshal env s of Inr m \<Rightarrow> Some m | Inl _ \<Rightarrow> processed)
               else processed
           | _ \<Rightarrow> processed))"

fun findPodByNameWithNamespace :: "PodInfo list \<Rightarrow> string \<Rightarrow> PodInfo option" where
  "findPodByNameWithNamespace [] podName = None"
| "findPodByNameWithNamespace (pod # pods) podName =
     (if pm_Name (pod_Metadata pod) = podName then Some pod else findPodByNameWithNamespace pods podName)"

definition filterContainersByNames :: "CriContainerInfo list \<Rightarrow> string list \<Rightarrow> CriContainerInfo list" where
  "filterContainersByNames containers containerNames =
     (if containerNames = [] then containers
      else filter (\<lambda>c. list_ex (\<lambda>name. name = cm_Name (cc_Metadata c)) containerNames) containers)"

definition convertPIDValue :: "'w CriEnv \<Rightarrow> AnyVal \<Rightarrow> int32 result" where
  "convertPIDValue env pidValue =
     (case pidValue of
        AnyInt64 v \<Rightarrow> Inr (ucast v)
      | AnyFloat64 v \<Rightarrow> Inr (cri_FloatToInt32 env v)
      | AnyInt v \<Rightarrow> Inr (ucast v)
      | AnyInt32 v \<Rightarrow> Inr v
      | _ \<Rightarrow> Inl ''unexpected PID type'')"

definition extractPIDFromInspectInfo :: "'w CriEnv \<Rightarrow> anymap option \<Rightarrow> int32 result" where
  "extractPIDFromInspectInfo env info =
     (case map_of (case info of None \<Rightarrow> [] | Some m \<Rightarrow> m) ''pid'' of
        Some pidValue \<Rightarrow> convertPIDValue env pidValue
      | None \<Rightarrow> Inl ''PID not found in inspect info'')"

definition buildContainerPIDInfo :: "string \<Rightarrow> string \<Rightarrow> CriContainerInfo \<Rightarrow> int32 \<Rightarrow> ContainerPIDInfo" where
  "buildContainerPIDInfo podName namespace container pid =
     \<lparr>cpi_PodName = podName, cpi_ContainerName = cm_Name (cc_Metadata container), cpi_ContainerID = cc_ID container,
      cpi_PID = pid, cpi_Namespace = namespace\<rparr>"

type_synonym inspected = "(string \<times> anymap option) list"

fun pidLoop :: "'w CriEnv \<Rightarrow> string \<Rightarrow> string \<Rightarrow> inspected \<Rightarrow> CriContainerInfo list \<Rightarrow> ContainerPIDInfo list result" where
  "pidLoop env podName namespace inspectResults [] = Inr []"
| "pidLoop env podName namespace inspectResults (container # containers) =
     (case map_of inspectResults (cc_ID container) of
        None \<Rightarrow> Inl (''inspect info not found for container '' @ cc_ID container)
      | Some inspectInfo \<Rightarrow>
          (case extractPIDFromInspectInfo env inspectInfo of
             Inl err \<Rightarrow> Inl (''container '' @ cc_ID container @ '': '' @ err)
           | Inr pid \<Rightarrow>
               (case pidLoop env podName namespace inspectResults containers of
                  Inl err \<Rightarrow> Inl err
                | Inr rest \<Rightarrow> Inr (buildContainerPIDInfo podName namespace container pid # rest))))"

definition processContainerInfoFromPod ::
    "'w CriEnv \<Rightarrow> string \<Rightarrow> string list \<Rightarrow> PodInfo list \<Rightarrow> CriContainerInfo list \<Rightarrow> inspected \<Rightarrow>
     ContainerPIDInfo list result" where
  "processContainerInfoFromPod env podName containerNames pods containers inspectResults =
     (case findPodByNameWithNamespace pods podName of
        None \<Rightarrow> Inl (''pod '' @ podName @ '' not found'')
      | Some pod \<Rightarrow>
          pidLoop env podName (pm_Namespace (pod_Metadata pod)) inspectResults
            (filterContainersByNames (filter (\<lambda>c. cc_PodID c = pod_ID pod) containers) containerNames))"

section \<open>The client\<close>

fun podLoop :: "string \<Rightarrow> PodSandbox list \<Rightarrow> PodInfo list go" where
  "podLoop nameFilter [] = Some []"
| "podLoop nameFilter (pod # pods) =
     do { m \<leftarrow> sb_Metadata pod;
          if nameFilter \<noteq> '''' \<and> pm_Name m \<noteq> nameFilter then podLoop nameFilter pods
          else do { rest \<leftarrow> podLoop nameFilter pods;
                    Some (\<lparr>pod_ID = sb_Id pod, pod_Metadata = m, pod_State = sb_State pod,
                           pod_CreatedAt = sb_CreatedAt pod, pod_InfoLabels = sb_Labels pod\<rparr> # rest) } }"

definition listPods :: "'w CriEnv \<Rightarrow> string \<Rightarrow> 'w \<Rightarrow> (PodInfo list result \<times> 'w) go" where
  "listPods env nameFilter w =
     (case cri_ListPodSandbox env w of
        (Inl err, w) \<Rightarrow> Some (Inl (''listing pod sandboxes: '' @ err), w)
      | (Inr items, w) \<Rightarrow> do { pods \<leftarrow> podLoop nameFilter items; Some (Inr pods, w) })"

fun containerLoop :: "CriContainer list \<Rightarrow> CriContainerInfo list go" where
  "containerLoop [] = Some []"
| "containerLoop (c # cs) =
     do { m \<leftarrow> ct_Metadata c;
          image \<leftarrow> ct_Image c;
          rest \<leftarrow> containerLoop cs;
          Some (\<lparr>cc_ID = ct_Id c, cc_PodID = ct_PodSandboxId c, cc_Metadata = m, cc_Image = image,
                 cc_ImageRef = ct_ImageRef c, cc_State = ct_State c, cc_CreatedAt = ct_CreatedAt c,
                 cc_Labels = ct_Labels c\<rparr> # rest) }"

definition listContainers :: "'w CriEnv \<Rightarrow> string \<Rightarrow> 'w \<Rightarrow> (CriContainerInfo list result \<times> 'w) go" where
  "listContainers env podID w =
     (case cri_ListContainers env podID w of
        (Inl err, w) \<Rightarrow> Some (Inl (''listing containers: '' @ err), w)
      | (Inr items, w) \<Rightarrow> do { containers \<leftarrow> containerLoop items; Some (Inr containers, w) })"

definition inspectContainer :: "'w CriEnv \<Rightarrow> string \<Rightarrow> 'w \<Rightarrow> (InspectResponse result \<times> 'w) go" where
  "inspectContainer env containerID w =
     (case cri_ContainerStatus env containerID w of
        (Inl err, w) \<Rightarrow> Some (Inl (''getting container status for '' @ containerID @ '': '' @ err), w)
      | (Inr resp, w) \<Rightarrow>
          do { status \<leftarrow> sm_Status resp;
               Some (Inr \<lparr>ir_Status = status,
                          ir_Info = processInfoField env (Some (map (\<lambda>(k, v). (k, AnyString v)) (sm_Info resp)))\<rparr>, w) })"

fun inspectLoop ::
    "'w CriEnv \<Rightarrow> CriContainerInfo list \<Rightarrow> inspected \<Rightarrow> 'w \<Rightarrow> (inspected result \<times> 'w) go" where
  "inspectLoop env [] acc w = Some (Inr acc, w)"
| "inspectLoop env (container # containers) acc w =
     do { (r, w) \<leftarrow> inspectContainer env (cc_ID container) w;
          case r of
            Inl err \<Rightarrow> Some (Inl (''inspecting container '' @ cc_ID container @ '': '' @ err), w)
          | Inr inspectResp \<Rightarrow>
              inspectLoop env containers (AList.update (cc_ID container) (ir_Info inspectResp) acc) w }"

definition GetContainerInfoFromPod ::
    "'w CriEnv \<Rightarrow> string \<Rightarrow> string list \<Rightarrow> 'w \<Rightarrow> (ContainerPIDInfo list result \<times> 'w) go" where
  "GetContainerInfoFromPod env podName containerNames w =
     do { (r, w) \<leftarrow> listPods env podName w;
          case r of
            Inl err \<Rightarrow> Some (Inl (''listing pods: '' @ err), w)
          | Inr pods \<Rightarrow>
              do { (r, w) \<leftarrow> listContainers env '''' w;
                   case r of
                     Inl err \<Rightarrow> Some (Inl (''listing containers: '' @ err), w)
                   | Inr containers \<Rightarrow>
                       do { (r, w) \<leftarrow> inspectLoop env containers [] w;
                            case r of
                              Inl err \<Rightarrow> Some (Inl err, w)
                            | Inr inspectResults \<Rightarrow>
                                Some (processContainerInfoFromPod env podName containerNames pods containers
                                        inspectResults, w) } } }"

section \<open>Finding the runtime\<close>

definition criEndpoints :: "string list" where
  "criEndpoints =
     [''unix:///run/containerd/containerd.sock'', ''unix:///run/crio/crio.sock'', ''unix:///var/run/cri-dockerd.sock'',
      ''unix:///var/run/containerd/containerd.sock'', ''unix:///var/run/crio/crio.sock'', ''unix:///var/run/dockershim.sock'']"

definition testConnection :: "'w CriEnv \<Rightarrow> string \<Rightarrow> 'w \<Rightarrow> bool \<times> 'w" where
  "testConnection env endpoint w =
     (let socketPath = (if strings_HasPrefix endpoint ''unix://'' then drop 7 endpoint else endpoint) in
      case cri_IsSocket env socketPath w of
        Inl _ \<Rightarrow> (False, w)
      | Inr False \<Rightarrow> (False, w)
      | Inr True \<Rightarrow>
          (case cri_Dial env endpoint w of
             (Inl _, w) \<Rightarrow> (False, w)
           | (Inr _, w) \<Rightarrow> (case cri_Version env endpoint w of (r, w) \<Rightarrow> (isOk r, w))))"

fun endpointLoop :: "'w CriEnv \<Rightarrow> string list \<Rightarrow> 'w \<Rightarrow> string result \<times> 'w" where
  "endpointLoop env [] w = (Inl ''no CRI socket found at any of the expected locations'', w)"
| "endpointLoop env (endpoint # endpoints) w =
     (case testConnection env endpoint w of
        (True, w) \<Rightarrow> (Inr endpoint, w)
      | (False, w) \<Rightarrow> endpointLoop env endpoints w)"

definition findCRISocket :: "'w CriEnv \<Rightarrow> 'w \<Rightarrow> string result \<times> 'w" where
  "findCRISocket env w =
     (let endpoint = cri_Getenv env ''CONTAINER_RUNTIME_ENDPOINT'' in
      if endpoint \<noteq> '''' then (Inr endpoint, w) else endpointLoop env criEndpoints w)"

definition NewClient :: "'w CriEnv \<Rightarrow> 'w \<Rightarrow> unit result \<times> 'w" where
  "NewClient env w =
     (case findCRISocket env w of
        (Inl err, w) \<Rightarrow> (Inl (''finding CRI socket: '' @ err), w)
      | (Inr socket, w) \<Rightarrow>
          (case cri_Dial env socket w of
             (Inl err, w) \<Rightarrow> (Inl (''connecting to CRI runtime at '' @ socket @ '': '' @ err), w)
           | (Inr _, w) \<Rightarrow>
               (case cri_Version env socket w of
                  (Inl err, w) \<Rightarrow> (Inl (''testing connection to CRI runtime at '' @ socket @ '': '' @ err), w)
                | (Inr _, w) \<Rightarrow> (Inr (), w))))"

definition GetContainerPIDsFromPod ::
    "'w CriEnv \<Rightarrow> string \<Rightarrow> string list \<Rightarrow> 'w \<Rightarrow> (ContainerPIDInfo list result \<times> 'w) go" where
  "GetContainerPIDsFromPod env podName containerNames w =
     (case NewClient env w of
        (Inl err, w) \<Rightarrow> Some (Inl err, w)
      | (Inr _, w) \<Rightarrow> GetContainerInfoFromPod env podName containerNames w)"

section \<open>The container getter of the agent\<close>

definition getPodsForNode ::
    "'w CriEnv \<Rightarrow> string \<Rightarrow> string \<Rightarrow> LabelSelector \<Rightarrow> 'w \<Rightarrow> PodItem list result \<times> 'w" where
  "getPodsForNode env nodeName selectorNamespace selectorPods w =
     (let selectorString = cri_FormatLabelSelector env selectorPods in
      if selectorString = ''<error>'' then (Inl (''error parsing selector: '' @ selectorString), w)
      else
        (case cri_ListPods env selectorNamespace (''spec.nodeName='' @ nodeName)
                (if selectorString \<noteq> ''<none>'' then Some selectorString else None) w of
           (Inl err, w) \<Rightarrow> (Inl (''error getting pod list: '' @ err), w)
         | (Inr pods, w) \<Rightarrow> (Inr pods, w)))"

definition toContainerInfo :: "ContainerPIDInfo \<Rightarrow> ContainerInfo" where
  "toContainerInfo info =
     \<lparr>ci_podName = cpi_PodName info, ci_containerName = cpi_ContainerName info, ci_pid = cpi_PID info\<rparr>"

definition getContainerInfoFromPod ::
    "'w CriEnv \<Rightarrow> string \<Rightarrow> string list option \<Rightarrow> 'w \<Rightarrow> (ContainerInfo list result \<times> 'w) go" where
  "getContainerInfoFromPod env podName containerNames w =
     do { (r, w) \<leftarrow> GetContainerPIDsFromPod env podName (case containerNames of None \<Rightarrow> [] | Some ns \<Rightarrow> ns) w;
          Some (map_sum id (map toContainerInfo) r, w) }"

fun getContainerInfo ::
    "'w CriEnv \<Rightarrow> PodItem list \<Rightarrow> string list option \<Rightarrow> 'w \<Rightarrow> (ContainerInfo list result \<times> 'w) go" where
  "getContainerInfo env [] containerNames w = Some (Inr [], w)"
| "getContainerInfo env (pod # pods) containerNames w =
     do { (r, w) \<leftarrow> getContainerInfoFromPod env (pit_Name pod) containerNames w;
          case r of
            Inl err \<Rightarrow> Some (Inl (''failed to get container info for pod '' @ pit_Name pod @ '': '' @ err), w)
          | Inr containerInfos \<Rightarrow>
              do { (r, w) \<leftarrow> getContainerInfo env pods containerNames w;
                   Some (map_sum id (append containerInfos) r, w) } }"

definition Real_GetContainers ::
    "'w CriEnv \<Rightarrow> string \<Rightarrow> string \<Rightarrow> LabelSelector \<Rightarrow> string list option \<Rightarrow> 'w \<Rightarrow>
     (ContainerInfo list result \<times> 'w) go" where
  "Real_GetContainers env nodeName selectorNamespace selectorPods selectorContainerNames w =
     (case getPodsForNode env nodeName selectorNamespace selectorPods w of
        (Inl err, w) \<Rightarrow> Some (Inl (''failed to get pod list: '' @ err), w)
      | (Inr podList, w) \<Rightarrow>
          do { (r, w) \<leftarrow> getContainerInfo env podList selectorContainerNames w;
               Some (map_sum (\<lambda>err. ''failed to get container info: '' @ err) id r, w) })"

section \<open>The command bpfman-crictl\<close>

text \<open>The argument loops: an option takes the next argument, when there is one; unknown arguments are skipped.\<close>

fun optionLoop :: "string \<Rightarrow> string list \<Rightarrow> string \<times> bool \<Rightarrow> string \<times> bool" where
  "optionLoop flag [] (value, outputJSON) = (value, outputJSON)"
| "optionLoop flag [arg] (value, outputJSON) = (value, outputJSON)"
| "optionLoop flag (arg # next # args) (value, outputJSON) =
     (if arg = flag then optionLoop flag args (next, outputJSON)
      else if arg = ''-o'' \<and> next = ''json'' then optionLoop flag args (value, True)
      else optionLoop flag (next # args) (value, outputJSON))"

text \<open>\<^verbatim>\<open>inspect\<close> looks at the first byte of an argument: an empty argument is a panic.\<close>

fun inspectArgs :: "string list \<Rightarrow> string \<times> bool \<Rightarrow> (string \<times> bool) go" where
  "inspectArgs [] (containerID, outputJSON) = Some (containerID, outputJSON)"
| "inspectArgs (arg # args) (containerID, outputJSON) =
     (if arg = ''-o'' then
        (case args of
           next # args' \<Rightarrow> if next = ''json'' then inspectArgs args' (containerID, True)
                          else inspectArgs args (containerID, outputJSON)
         | [] \<Rightarrow> Some (containerID, outputJSON))
      else
        (case arg of
           [] \<Rightarrow> panic
         | c # _ \<Rightarrow> if c \<noteq> CHR ''-'' then inspectArgs args (arg, outputJSON)
                    else inspectArgs args (containerID, outputJSON)))"

definition jsonOutput :: "('a \<Rightarrow> string result) \<Rightarrow> string \<Rightarrow> 'a result \<Rightarrow> string result" where
  "jsonOutput marshal what r =
     (case r of
        Inl err \<Rightarrow> Inl (what @ '': '' @ err)
      | Inr resp \<Rightarrow> (case marshal resp of Inl err \<Rightarrow> Inl (''marshaling JSON: '' @ err) | Inr s \<Rightarrow> Inr s))"

definition handlePodsCommand ::
    "'w CriEnv \<Rightarrow> (PodInfo list \<Rightarrow> string result) \<Rightarrow> string list \<Rightarrow> 'w \<Rightarrow> (string result \<times> 'w) go" where
  "handlePodsCommand env marshal args w =
     (case optionLoop ''--name'' args ('''', False) of
        (nameFilter, outputJSON) \<Rightarrow>
          if \<not> outputJSON then Some (Inl ''only JSON output is supported'', w)
          else do { (r, w) \<leftarrow> listPods env nameFilter w;
                    Some (jsonOutput marshal ''listing pods'' r, w) })"

definition handlePsCommand ::
    "'w CriEnv \<Rightarrow> (CriContainerInfo list \<Rightarrow> string result) \<Rightarrow> string list \<Rightarrow> 'w \<Rightarrow> (string result \<times> 'w) go" where
  "handlePsCommand env marshal args w =
     (case optionLoop ''--pod'' args ('''', False) of
        (podID, outputJSON) \<Rightarrow>
          if \<not> outputJSON then Some (Inl ''only JSON output is supported'', w)
          else do { (r, w) \<leftarrow> listContainers env podID w;
                    Some (jsonOutput marshal ''listing containers'' r, w) })"

definition handleInspectCommand ::
    "'w CriEnv \<Rightarrow> (InspectResponse \<Rightarrow> string result) \<Rightarrow> string list \<Rightarrow> 'w \<Rightarrow> (string result \<times> 'w) go" where
  "handleInspectCommand env marshal args w =
     do { (containerID, outputJSON) \<leftarrow> inspectArgs args ('''', False);
          if \<not> outputJSON then Some (Inl ''only JSON output is supported'', w)
          else if containerID = '''' then Some (Inl ''container ID is required'', w)
          else do { (r, w) \<leftarrow> inspectContainer env containerID w;
                    Some (jsonOutput marshal ''inspecting container'' r, w) } }"

section \<open>Lemmas\<close>

lemma findPod_find: "findPodByNameWithNamespace pods name = find (\<lambda>p. pm_Name (pod_Metadata p) = name) pods"
  by (induction pods) auto

text \<open>What \<^verbatim>\<open>pidLoop\<close> returns when it returns: one entry per container, with the pid of its inspection.\<close>

definition inspectedAs :: "'w CriEnv \<Rightarrow> string \<Rightarrow> string \<Rightarrow> inspected \<Rightarrow> CriContainerInfo \<Rightarrow> ContainerPIDInfo \<Rightarrow> bool" where
  "inspectedAs env podName ns inspected c info \<longleftrightarrow>
     (\<exists>i pid. map_of inspected (cc_ID c) = Some i \<and> extractPIDFromInspectInfo env i = Inr pid \<and>
        info = buildContainerPIDInfo podName ns c pid)"

lemma pidLoop_Inr:
  "pidLoop env podName ns inspected cs = Inr out \<longleftrightarrow> list_all2 (inspectedAs env podName ns inspected) cs out"
proof (induction cs arbitrary: out)
  case (Cons c cs)
  have one: "inspectedAs env podName ns inspected c info \<longleftrightarrow> (case map_of inspected (cc_ID c) of None \<Rightarrow> False
      | Some i \<Rightarrow> (case extractPIDFromInspectInfo env i of Inl _ \<Rightarrow> False
        | Inr pid \<Rightarrow> info = buildContainerPIDInfo podName ns c pid))" for info
    by (auto simp: inspectedAs_def split: option.splits sum.splits)
  show ?case
    by (cases out; cases "pidLoop env podName ns inspected cs")
      (auto simp: one Cons.IH [symmetric] split: option.splits sum.splits)
qed auto

lemma inspectLoop_Inr:
  assumes "inspectLoop env cs acc w = Some (Inr inspected, w')"
  shows "\<forall>c\<in>set cs. map_of inspected (cc_ID c) \<noteq> None"
    and "\<And>k. k \<notin> cc_ID ` set cs \<Longrightarrow> map_of inspected k = map_of acc k"
proof -
  have "(\<forall>c\<in>set cs. map_of inspected (cc_ID c) \<noteq> None) \<and>
      (\<forall>k. k \<notin> cc_ID ` set cs \<longrightarrow> map_of inspected k = map_of acc k) \<and>
      (\<forall>k. map_of acc k \<noteq> None \<longrightarrow> map_of inspected k \<noteq> None)"
    using assms
  proof (induction cs arbitrary: acc w)
    case (Cons c cs)
    from Cons.prems obtain r w1 where "inspectContainer env (cc_ID c) w = Some (r, w1)"
      and rest: "(case r of Inl err \<Rightarrow> Some (Inl (''inspecting container '' @ cc_ID c @ '': '' @ err), w1)
        | Inr resp \<Rightarrow> inspectLoop env cs (AList.update (cc_ID c) (ir_Info resp) acc) w1) = Some (Inr inspected, w')"
      by (auto simp: bind_eq_Some_conv)
    then obtain resp :: InspectResponse where "inspectLoop env cs (AList.update (cc_ID c) (ir_Info resp) acc) w1 = Some (Inr inspected, w')"
    proof (cases r)
      case (Inr resp)
      with rest show thesis by (intro that [of resp]) simp
    qed simp
    from Cons.IH [OF this] show ?case by (auto simp: update_conv' split: if_splits)
  qed simp
  then show "\<forall>c\<in>set cs. map_of inspected (cc_ID c) \<noteq> None"
    "\<And>k. k \<notin> cc_ID ` set cs \<Longrightarrow> map_of inspected k = map_of acc k" by blast+
qed

end
