(* ===== verification/Container_Properties.thy ===== *)
theory Container_Properties
  imports Containers
begin

text \<open>
  Properties of container discovery, for a container runtime at rest: its lists and status answers are fixed
  (\<open>answer\<close> per container id, an error or a message) and its messages are complete. The locale is interpreted
  on a concrete runtime, in which the witnesses run.
\<close>

section \<open>A runtime at rest\<close>

definition podName :: "PodSandbox \<Rightarrow> string" where
  "podName sb = (case sb_Metadata sb of None \<Rightarrow> '''' | Some m \<Rightarrow> pm_Name m)"

definition podNamespace :: "PodSandbox \<Rightarrow> string" where
  "podNamespace sb = (case sb_Metadata sb of None \<Rightarrow> '''' | Some m \<Rightarrow> pm_Namespace m)"

definition containerName :: "CriContainer \<Rightarrow> string" where
  "containerName c = (case ct_Metadata c of None \<Rightarrow> '''' | Some m \<Rightarrow> cm_Name m)"

definition statusInfo :: "'w CriEnv \<Rightarrow> StatusMessage \<Rightarrow> anymap option" where
  "statusInfo env msg = processInfoField env (Some (map (\<lambda>(k, v). (k, AnyString v)) (sm_Info msg)))"

definition selectedContainers :: "CriContainer list \<Rightarrow> PodSandbox \<Rightarrow> string list \<Rightarrow> CriContainer list" where
  "selectedContainers items sb names =
     filter (\<lambda>c. ct_PodSandboxId c = sb_Id sb \<and> (names = [] \<or> containerName c \<in> set names)) items"

text \<open>The entry for a container: its id, its name and the pid its status message gives.\<close>

definition entryFor ::
    "'w CriEnv \<Rightarrow> (string \<Rightarrow> StatusMessage result) \<Rightarrow> string \<Rightarrow> PodSandbox \<Rightarrow> CriContainer \<Rightarrow> ContainerPIDInfo \<Rightarrow> bool" where
  "entryFor env answer name sb c info \<longleftrightarrow>
     (\<exists>msg pid. answer (ct_Id c) = Inr msg \<and> extractPIDFromInspectInfo env (statusInfo env msg) = Inr pid \<and>
        info = \<lparr>cpi_PodName = name, cpi_ContainerName = containerName c, cpi_ContainerID = ct_Id c, cpi_PID = pid,
                cpi_Namespace = podNamespace sb\<rparr>)"

definition toPod :: "PodSandbox \<Rightarrow> PodInfo" where
  "toPod sb = \<lparr>pod_ID = sb_Id sb, pod_Metadata = the (sb_Metadata sb), pod_State = sb_State sb,
     pod_CreatedAt = sb_CreatedAt sb, pod_InfoLabels = sb_Labels sb\<rparr>"

definition toCri :: "CriContainer \<Rightarrow> CriContainerInfo" where
  "toCri c = \<lparr>cc_ID = ct_Id c, cc_PodID = ct_PodSandboxId c, cc_Metadata = the (ct_Metadata c),
     cc_Image = the (ct_Image c), cc_ImageRef = ct_ImageRef c, cc_State = ct_State c, cc_CreatedAt = ct_CreatedAt c,
     cc_Labels = ct_Labels c\<rparr>"

locale cri_at_rest =
  fixes env :: "'w CriEnv" and sandboxes :: "PodSandbox list" and items :: "CriContainer list"
    and answer :: "string \<Rightarrow> StatusMessage result"
  assumes pods: "cri_ListPodSandbox env w = (Inr sandboxes, w)"
    and containers: "cri_ListContainers env '''' w = (Inr items, w)"
    and statuses: "cri_ContainerStatus env i w = (answer i, w)"
    and connected: "NewClient env w = (Inr (), w)"
    and sandbox_complete: "sb \<in> set sandboxes \<Longrightarrow> sb_Metadata sb \<noteq> None"
    and container_complete: "c \<in> set items \<Longrightarrow> ct_Metadata c \<noteq> None \<and> ct_Image c \<noteq> None"
    and status_complete: "answer i = Inr msg \<Longrightarrow> sm_Status msg \<noteq> None"
begin

lemma podLoop_rest:
  "list_all (\<lambda>sb. sb_Metadata sb \<noteq> None) sbs \<Longrightarrow>
     podLoop name sbs = Some (map toPod (filter (\<lambda>sb. name = '''' \<or> podName sb = name) sbs))"
  by (induction sbs) (auto simp: podName_def toPod_def)

lemma containerLoop_rest:
  "list_all (\<lambda>c. ct_Metadata c \<noteq> None \<and> ct_Image c \<noteq> None) cs \<Longrightarrow> containerLoop cs = Some (map toCri cs)"
  by (induction cs) (auto simp: toCri_def)

lemma inspect_rest:
  "inspectContainer env i w =
     Some (case answer i of
             Inl err \<Rightarrow> Inl (''getting container status for '' @ i @ '': '' @ err)
           | Inr msg \<Rightarrow> Inr \<lparr>ir_Status = the (sm_Status msg), ir_Info = statusInfo env msg\<rparr>, w)"
  using status_complete [of i] by (auto simp: inspectContainer_def statuses statusInfo_def split: sum.split)

lemma inspectLoop_ok:
  "list_all (\<lambda>c. isOk (answer (cc_ID c))) cs \<Longrightarrow>
     \<exists>inspected. inspectLoop env cs acc w = Some (Inr inspected, w) \<and>
       map_of inspected = (\<lambda>i. if i \<in> cc_ID ` set cs then Some (statusInfo env (projr (answer i))) else map_of acc i)"
proof (induction cs arbitrary: acc)
  case (Cons c cs)
  then obtain msg where m: "answer (cc_ID c) = Inr msg" by (auto simp: isOk_conv)
  from Cons obtain inspected where i: "inspectLoop env cs (AList.update (cc_ID c) (statusInfo env msg) acc) w = Some (Inr inspected, w)"
    "map_of inspected = (\<lambda>i. if i \<in> cc_ID ` set cs then Some (statusInfo env (projr (answer i)))
       else map_of (AList.update (cc_ID c) (statusInfo env msg) acc) i)" by fastforce
  have "map_of inspected = (\<lambda>i. if i \<in> cc_ID ` set (c # cs) then Some (statusInfo env (projr (answer i))) else map_of acc i)"
    using i(2) m by (auto simp: update_conv' fun_eq_iff)
  with i(1) m show ?case by (simp add: inspect_rest)
qed (simp add: fun_eq_iff)

lemma inspectLoop_fails:
  "list_ex (\<lambda>c. \<not> isOk (answer (cc_ID c))) cs \<Longrightarrow> \<exists>err. inspectLoop env cs acc w = Some (Inl err, w)"
proof (induction cs arbitrary: acc)
  case (Cons c cs)
  show ?case
  proof (cases "answer (cc_ID c)")
    case (Inl err)
    then show ?thesis by (simp add: inspect_rest)
  next
    case (Inr msg)
    with Cons show ?thesis by (simp add: inspect_rest)
  qed
qed simp

lemma run_rest:
  "GetContainerInfoFromPod env name names w =
     do { (r, w) \<leftarrow> inspectLoop env (map toCri items) [] w;
          case r of
            Inl err \<Rightarrow> Some (Inl err, w)
          | Inr inspected \<Rightarrow>
              Some (processContainerInfoFromPod env name names
                      (map toPod (filter (\<lambda>sb. name = '''' \<or> podName sb = name) sandboxes)) (map toCri items) inspected, w) }"
proof -
  have p: "listPods env name w = Some (Inr (map toPod (filter (\<lambda>sb. name = '''' \<or> podName sb = name) sandboxes)), w)"
    using sandbox_complete by (simp add: listPods_def pods podLoop_rest list_all_iff)
  have c: "listContainers env '''' w = Some (Inr (map toCri items), w)"
    using container_complete by (simp add: listContainers_def containers containerLoop_rest list_all_iff)
  show ?thesis by (simp add: GetContainerInfoFromPod_def p c)
qed

lemma find_rest:
  "findPodByNameWithNamespace (map toPod (filter (\<lambda>sb. name = '''' \<or> podName sb = name) sbs)) name =
     map_option toPod (find (\<lambda>sb. podName sb = name) sbs)"
  if "list_all (\<lambda>sb. sb_Metadata sb \<noteq> None) sbs"
  using that by (induction sbs) (auto simp: podName_def toPod_def)

lemma filter_rest:
  assumes "list_all (\<lambda>c. ct_Metadata c \<noteq> None) cs"
  shows "filterContainersByNames (filter (\<lambda>c. cc_PodID c = sb_Id sb) (map toCri cs)) names =
     map toCri (selectedContainers cs sb names)"
proof -
  have n: "cm_Name (cc_Metadata (toCri c)) = containerName c" if "c \<in> set cs" for c
    using assms that by (auto simp: list_all_iff toCri_def containerName_def)
  have p: "cc_PodID (toCri c) = ct_PodSandboxId c" for c by (simp add: toCri_def)
  show ?thesis
    by (auto simp: filterContainersByNames_def selectedContainers_def filter_map comp_def p n list_ex_iff
        intro!: arg_cong [where f = "map toCri"] filter_cong)
qed

lemma result_rest:
  "GetContainerInfoFromPod env name names w = Some (Inr out, w') \<longleftrightarrow>
     w' = w \<and> list_all (\<lambda>c. isOk (answer (ct_Id c))) items \<and>
     (\<exists>sb. find (\<lambda>sb. podName sb = name) sandboxes = Some sb \<and>
        list_all2 (entryFor env answer name sb) (selectedContainers items sb names) out)"
proof (cases "list_all (\<lambda>c. isOk (answer (ct_Id c))) items")
  case True
  then have "list_all (\<lambda>c. isOk (answer (cc_ID c))) (map toCri items)" by (simp add: list_all_iff toCri_def)
  from inspectLoop_ok [OF this, of "[]" w] obtain inspected
    where i: "inspectLoop env (map toCri items) [] w = Some (Inr inspected, w)"
      and m: "map_of inspected = (\<lambda>i. if i \<in> cc_ID ` set (map toCri items) then Some (statusInfo env (projr (answer i))) else map_of [] i)"
    by blast
  have entry: "inspectedAs env name (podNamespace sb) inspected (toCri c) info \<longleftrightarrow> entryFor env answer name sb c info"
    if "c \<in> set items" for sb c info
  proof -
    from that True obtain msg where a: "answer (ct_Id c) = Inr msg" by (auto simp: list_all_iff isOk_conv)
    moreover have "map_of inspected (ct_Id c) = Some (statusInfo env msg)" using that a m by (auto simp: toCri_def image_iff)
    ultimately show ?thesis using container_complete [OF that]
      by (auto simp: inspectedAs_def entryFor_def buildContainerPIDInfo_def toCri_def containerName_def)
  qed
  have pod: "pm_Namespace (pod_Metadata (toPod sb)) = podNamespace sb \<and> pod_ID (toPod sb) = sb_Id sb"
    if "sb \<in> set sandboxes" for sb using sandbox_complete [OF that] by (auto simp: toPod_def podNamespace_def)
  have cs: "list_all2 (inspectedAs env name (podNamespace sb) inspected) (map toCri (selectedContainers items sb names)) out \<longleftrightarrow>
      list_all2 (entryFor env answer name sb) (selectedContainers items sb names) out" for sb
    unfolding list_all2_map1 by (rule list.rel_cong) (auto simp: selectedContainers_def entry)
  have f: "list_all (\<lambda>c. ct_Metadata c \<noteq> None) items" "list_all (\<lambda>sb. sb_Metadata sb \<noteq> None) sandboxes"
    using container_complete sandbox_complete by (auto simp: list_all_iff)
  show ?thesis
  proof (cases "find (\<lambda>sb. podName sb = name) sandboxes")
    case None
    with i show ?thesis by (simp add: run_rest processContainerInfoFromPod_def find_rest [OF f(2)])
  next
    case (Some sb)
    then have "sb \<in> set sandboxes" by (auto simp: find_Some_iff)
    with Some i True cs show ?thesis
      by (auto simp: run_rest processContainerInfoFromPod_def find_rest [OF f(2)] pod filter_rest [OF f(1)] pidLoop_Inr)
  qed
next
  case False
  then have "list_ex (\<lambda>c. \<not> isOk (answer (cc_ID c))) (map toCri items)" by (auto simp: list_all_iff list_ex_iff toCri_def)
  from inspectLoop_fails [OF this, of "[]" w] False show ?thesis by (auto simp: run_rest)
qed

text \<open>The agent's view of one pod, and of two pods with one name.\<close>

lemma one_pod:
  "getContainerInfoFromPod env name names w =
     do { (r, w) \<leftarrow> GetContainerInfoFromPod env name (case names of None \<Rightarrow> [] | Some ns \<Rightarrow> ns) w;
          Some (map_sum id (map toContainerInfo) r, w) }"
  by (simp add: getContainerInfoFromPod_def GetContainerPIDsFromPod_def connected)

lemma one_pod_world: "getContainerInfoFromPod env name names w = Some (r, w') \<Longrightarrow> w' = w"
proof -
  assume h: "getContainerInfoFromPod env name names w = Some (r, w')"
  then obtain r0 where g: "GetContainerInfoFromPod env name (case names of None \<Rightarrow> [] | Some ns \<Rightarrow> ns) w = Some (r0, w')"
    by (auto simp: one_pod bind_eq_Some_conv)
  show "w' = w"
  proof (cases "list_all (\<lambda>c. isOk (answer (cc_ID c))) (map toCri items)")
    case True
    from inspectLoop_ok [OF this, of "[]" w] g show ?thesis by (auto simp: run_rest)
  next
    case False
    then have "list_ex (\<lambda>c. \<not> isOk (answer (cc_ID c))) (map toCri items)" by (auto simp: list_all_iff list_ex_iff)
    from inspectLoop_fails [OF this, of "[]" w] g show ?thesis by (auto simp: run_rest)
  qed
qed

lemma two_pods:
  assumes "getContainerInfo env [p, q] names w = Some (Inr cs, w')" and "pit_Name q = pit_Name p"
  shows "\<exists>xs. getContainerInfoFromPod env (pit_Name p) names w = Some (Inr xs, w) \<and> cs = xs @ xs"
proof -
  from assms(1) obtain r w1 where g: "getContainerInfoFromPod env (pit_Name p) names w = Some (r, w1)"
    by (auto simp: bind_eq_Some_conv)
  with one_pod_world have w1: "w1 = w" by blast
  with assms g show ?thesis by (cases r) auto
qed

lemma oneContainer_same_pod:
  "list_all (\<lambda>c. ci_podName c = name) cs \<Longrightarrow> GetOneContainerPerPod cs = (if cs = [] then [] else [hd cs])"
proof -
  assume h: "list_all (\<lambda>c. ci_podName c = name) cs"
  have seen: "list_all (\<lambda>c. ci_podName c = name) xs \<Longrightarrow> name \<in> set seen \<Longrightarrow> oneContainerLoop seen xs = []" for seen xs
    by (induction xs) auto
  from h show ?thesis by (cases cs) (auto simp: GetOneContainerPerPod_def seen)
qed

end

section \<open>A concrete runtime\<close>

definition sandboxOf :: "string \<Rightarrow> string \<Rightarrow> PodSandbox" where
  "sandboxOf i ns = \<lparr>sb_Id = i, sb_Metadata = Some \<lparr>pm_Name = ''web'', pm_UID = i, pm_Namespace = ns, pm_Attempt = 0\<rparr>,
     sb_State = ''SANDBOX_READY'', sb_CreatedAt = 0, sb_Labels = []\<rparr>"

definition containerOf :: "string \<Rightarrow> string \<Rightarrow> CriContainer" where
  "containerOf i sb = \<lparr>ct_Id = i, ct_PodSandboxId = sb, ct_Metadata = Some \<lparr>cm_Name = ''app'', cm_Attempt = 0\<rparr>, ct_Image = Some ''img'',
     ct_ImageRef = '''', ct_State = ''CONTAINER_RUNNING'', ct_CreatedAt = 0, ct_Labels = []\<rparr>"

definition okStatus :: ContainerStatus where
  "okStatus = \<lparr>st_ID = '''', st_Metadata = \<lparr>cm_Name = ''app'', cm_Attempt = 0\<rparr>, st_State = '''', st_CreatedAt = 0, st_StartedAt = 0,
     st_FinishedAt = 0, st_ExitCode = 0, st_Image = '''', st_ImageRef = '''', st_Reason = '''', st_Message = '''',
     st_StatusLabels = [], st_Annotations = [], st_Mounts = [], st_LogPath = ''''\<rparr>"

definition twoSandboxes :: "PodSandbox list" where
  "twoSandboxes = [sandboxOf ''s1'' ''blue'', sandboxOf ''s2'' ''green'']"

definition twoContainers :: "CriContainer list" where
  "twoContainers = [containerOf ''c1'' ''s1'', containerOf ''c2'' ''s2'']"

definition answerOf :: "string list \<Rightarrow> string \<Rightarrow> StatusMessage result" where
  "answerOf gone i = (if i \<in> set gone then Inl ''not found'' else Inr \<lparr>sm_Status = Some okStatus, sm_Info = [(''info'', ''{'' @ i)]\<rparr>)"

definition fakeCri :: "string list \<Rightarrow> nat CriEnv" where
  "fakeCri gone =
     \<lparr>cri_ListPodSandbox = (\<lambda>w. (Inr twoSandboxes, w)),
      cri_ListContainers = (\<lambda>_ w. (Inr twoContainers, w)),
      cri_ContainerStatus = (\<lambda>i w. (answerOf gone i, w)),
      cri_Dial = (\<lambda>_ w. (Inr (), w)),
      cri_Version = (\<lambda>_ w. (Inr (), w)),
      cri_IsSocket = (\<lambda>_ _. Inr True),
      cri_Getenv = (\<lambda>_. ''unix:///run/crio/crio.sock''),
      cri_Unmarshal = (\<lambda>s. Inr [(''pid'', AnyFloat64 (if s = ''{c1'' then 101 else 202))]),
      cri_FloatToInt32 = word_of_int,
      cri_FormatLabelSelector = (\<lambda>_. ''<none>''),
      cri_ListPods = (\<lambda>_ _ _ w. (Inr [], w))\<rparr>"

interpretation restingCri: cri_at_rest "fakeCri gone" twoSandboxes twoContainers "answerOf gone" for gone
  by unfold_locales
    (auto simp: fakeCri_def NewClient_def findCRISocket_def twoSandboxes_def sandboxOf_def twoContainers_def containerOf_def
      answerOf_def split: if_splits)

lemmas fake_eval = twoSandboxes_def twoContainers_def sandboxOf_def containerOf_def answerOf_def podName_def selectedContainers_def
  entryFor_def containerName_def podNamespace_def statusInfo_def processInfoField_def extractPIDFromInspectInfo_def
  convertPIDValue_def fakeCri_def strings_HasPrefix_def

lemma fake_discovery:
  "GetContainerInfoFromPod (fakeCri []) ''web'' [] 0 =
     Some (Inr [\<lparr>cpi_PodName = ''web'', cpi_ContainerName = ''app'', cpi_ContainerID = ''c1'', cpi_PID = 101, cpi_Namespace = ''blue''\<rparr>], 0)"
  unfolding restingCri.result_rest by (simp add: fake_eval)

section \<open>Properties\<close>

text \<open>
  C20: which containers a pod's discovery returns, for a runtime at rest: it succeeds with a list exactly when every
  container of the node can be inspected and the list holds, in the runtime's order, one entry for each selected
  container of the first sandbox of that name, with its id, its name and the pid of its status. No names select all.
\<close>

theorem containers_exact:
  assumes "cri_at_rest env sandboxes items answer"
  shows "GetContainerInfoFromPod env name names w = Some (Inr out, w') \<longleftrightarrow>
     w' = w \<and> list_all (\<lambda>c. isOk (answer (ct_Id c))) items \<and>
     (\<exists>sb. find (\<lambda>sb. podName sb = name) sandboxes = Some sb \<and>
        list_all2 (entryFor env answer name sb) (selectedContainers items sb names) out)"
  by (rule cri_at_rest.result_rest [OF assms])

lemma containers_exact_witness:
  "GetContainerInfoFromPod (fakeCri []) ''web'' [] 0 =
     Some (Inr [\<lparr>cpi_PodName = ''web'', cpi_ContainerName = ''app'', cpi_ContainerID = ''c1'', cpi_PID = 101, cpi_Namespace = ''blue''\<rparr>], 0)"
  unfolding containers_exact [OF restingCri.cri_at_rest_axioms] by (simp add: fake_eval)

text \<open>
  One container that cannot be inspected, of whatever pod, makes the discovery of every pod of the node fail.
\<close>

theorem inspect_failure_is_fatal:
  assumes "cri_at_rest env sandboxes items answer" and "list_ex (\<lambda>c. answer (ct_Id c) = Inl err) items"
  shows "\<exists>e. GetContainerInfoFromPod env name names w = Some (Inl e, w)"
proof -
  from assms(2) obtain c where "c \<in> set items" "answer (cc_ID (toCri c)) = Inl err" by (auto simp: list_ex_iff toCri_def)
  then have "list_ex (\<lambda>c. \<not> isOk (answer (cc_ID c))) (map toCri items)" by (force simp: list_ex_iff)
  from cri_at_rest.inspectLoop_fails [OF assms(1) this, of "[]" w] show ?thesis
    by (auto simp: cri_at_rest.run_rest [OF assms(1)])
qed

lemma inspect_failure_is_fatal_witness:
  "\<exists>e. GetContainerInfoFromPod (fakeCri [''c2'']) ''web'' [] 0 = Some (Inl e, 0)"
  by (rule inspect_failure_is_fatal [OF restingCri.cri_at_rest_axioms, where err = "''not found''"])
    (simp add: twoContainers_def containerOf_def answerOf_def)

text \<open>
  C40: the agent looks a pod up by its name alone. For two pods of one name in different namespaces of the node, both get
  the containers of the first sandbox of that name, and one attach point is left of the two pods: the second pod is
  never attached to.
\<close>

theorem same_name_pods_confused:
  assumes "cri_at_rest env sandboxes items answer"
    and "pit_Name q = pit_Name p" and "pit_Namespace q \<noteq> pit_Namespace p"
    and "getContainerInfo env [p, q] names w = Some (Inr cs, w')"
  shows "\<exists>sb xs. find (\<lambda>sb. podName sb = pit_Name p) sandboxes = Some sb \<and> cs = xs @ xs \<and>
     map ci_containerName xs = map containerName (selectedContainers items sb (case names of None \<Rightarrow> [] | Some ns \<Rightarrow> ns)) \<and>
     length (GetOneContainerPerPod cs) \<le> 1"
proof -
  let ?names = "case names of None \<Rightarrow> [] | Some ns \<Rightarrow> ns"
  from cri_at_rest.two_pods [OF assms(1,4,2)] obtain xs
    where xs: "getContainerInfoFromPod env (pit_Name p) names w = Some (Inr xs, w)" "cs = xs @ xs" by blast
  then obtain r where r: "GetContainerInfoFromPod env (pit_Name p) ?names w = Some (r, w)"
    and "map_sum id (map toContainerInfo) r = Inr xs"
    by (auto simp: cri_at_rest.one_pod [OF assms(1)] bind_eq_Some_conv)
  then obtain out where out: "GetContainerInfoFromPod env (pit_Name p) ?names w = Some (Inr out, w)"
    and x: "xs = map toContainerInfo out" by (cases r) auto
  from cri_at_rest.result_rest [OF assms(1)] out obtain sb
    where sb: "find (\<lambda>sb. podName sb = pit_Name p) sandboxes = Some sb"
      and es: "list_all2 (entryFor env answer (pit_Name p) sb) (selectedContainers items sb ?names) out" by blast
  from es have "map ci_containerName xs = map containerName (selectedContainers items sb ?names) \<and>
      list_all (\<lambda>c. ci_podName c = pit_Name p) xs"
    unfolding x by (induction rule: list_all2_induct) (auto simp: entryFor_def toContainerInfo_def)
  moreover from this have "length (GetOneContainerPerPod cs) \<le> 1"
    using cri_at_rest.oneContainer_same_pod [OF assms(1), of "pit_Name p" cs] xs(2) by simp
  ultimately show ?thesis using sb xs(2) by blast
qed

lemma same_name_pods_confused_witness:
  "\<exists>cs. getContainerInfo (fakeCri []) [\<lparr>pit_Name = ''web'', pit_Namespace = ''blue''\<rparr>, \<lparr>pit_Name = ''web'', pit_Namespace = ''green''\<rparr>]
     None 0 = Some (Inr cs, 0) \<and> map ci_pid cs = [101, 101] \<and> length (GetOneContainerPerPod cs) \<le> 1"
proof -
  let ?p = "\<lparr>pit_Name = ''web'', pit_Namespace = ''blue''\<rparr>" and ?q = "\<lparr>pit_Name = ''web'', pit_Namespace = ''green''\<rparr>"
  define cs where "cs = replicate 2 \<lparr>ci_podName = ''web'', ci_containerName = ''app'', ci_pid = 101\<rparr>"
  have run: "getContainerInfo (fakeCri []) [?p, ?q] None 0 = Some (Inr cs, 0)"
    by (simp add: cs_def numeral_2_eq_2 restingCri.one_pod fake_discovery toContainerInfo_def)
  with same_name_pods_confused [OF restingCri.cri_at_rest_axioms _ _ run] show ?thesis
    by (auto simp: cs_def numeral_2_eq_2)
qed


end
