(* ===== verification/Agent_Runtime.thy ===== *)
theory Agent_Runtime
  imports Selectors "HOL-Library.AList" "HOL-Library.Multiset"
begin

text \<open>
  The agent process after its set-up (\<^verbatim>\<open>cmd/bpfman-agent/main.go\<close>): interface discovery, the metrics server on its
  Unix socket and the supervision of the two and of the controller manager by an errgroup.

  Three goroutines and the signal handler interleave, so the process is a labelled step relation \<open>agent_step\<close> on
  \<open>AgentState\<close>. The body of each goroutine is a function of what its \<^verbatim>\<open>select\<close> chose; the relation says when a choice is
  possible. The manager of controller-runtime is a parameter: \<open>mgrStart c r\<close> says that \<^verbatim>\<open>mgr.Start\<close> may return \<open>r\<close> while the context
  is cancelled (\<open>c\<close>) or not.
\<close>

section \<open>Interface events\<close>

record Interface = DiscoveredIface +
  if_Index :: int
  if_MAC :: "8 word list"
  if_NetNS :: int

datatype EventType = EventAdded | EventDeleted | EventUnknown int

record Event =
  ev_Type :: EventType
  ev_Interface :: Interface

type_synonym InterfaceMap = "(Interface \<times> bool) list"

definition handleEvent :: "Event \<Rightarrow> InterfaceMap \<Rightarrow> InterfaceMap" where
  "handleEvent event interfaces =
     (case ev_Type event of
        EventAdded \<Rightarrow> AList.update (ev_Interface event) True interfaces
      | EventDeleted \<Rightarrow> AList.delete (ev_Interface event) interfaces
      | EventUnknown _ \<Rightarrow> interfaces)"

text \<open>What the \<^verbatim>\<open>select\<close> of the discovery loop chose.\<close>

datatype DiscoverySelect = DiscoveryDone | DiscoveryEvent Event | DiscoveryClosed

text \<open>The loop, over the choices made so far: None while it is blocked, else the returned error.\<close>

fun interfaceDiscovery_run :: "DiscoverySelect list \<Rightarrow> InterfaceMap \<Rightarrow> goerror option option \<times> InterfaceMap" where
  "interfaceDiscovery_run [] interfaces = (None, interfaces)"
| "interfaceDiscovery_run (DiscoveryDone # _) interfaces = (Some None, interfaces)"
| "interfaceDiscovery_run (DiscoveryClosed # _) interfaces =
     (Some (Some ''interface events channel closed unexpectedly''), interfaces)"
| "interfaceDiscovery_run (DiscoveryEvent event # choices) interfaces =
     interfaceDiscovery_run choices (handleEvent event interfaces)"

section \<open>The metrics server\<close>

record 'w SocketEnv =
  sock_Remove :: "string \<Rightarrow> 'w \<Rightarrow> goerror option \<times> 'w"
    \<comment> \<open>an absent file is no error\<close>
  sock_Listen :: "string \<Rightarrow> 'w \<Rightarrow> unit result \<times> 'w"
  sock_Chmod :: "string \<Rightarrow> 'w \<Rightarrow> unit result \<times> 'w"
  sock_Close :: "string \<Rightarrow> 'w \<Rightarrow> 'w"

definition newAgentMetricsServer :: "'w SocketEnv \<Rightarrow> string \<Rightarrow> 'w \<Rightarrow> string result \<times> 'w" where
  "newAgentMetricsServer env socketPath w =
     (case sock_Remove env socketPath w of
        (Some err, w) \<Rightarrow> (Inl (''removing existing metrics socket: '' @ err), w)
      | (None, w) \<Rightarrow>
          (case sock_Listen env socketPath w of
             (Inl err, w) \<Rightarrow> (Inl (''listening on Unix socket: '' @ err), w)
           | (Inr _, w) \<Rightarrow>
               (case sock_Chmod env socketPath w of
                  (Inl err, w) \<Rightarrow> (Inl (''setting permissions on socket: '' @ err), sock_Close env socketPath w)
                | (Inr _, w) \<Rightarrow> (Inr socketPath, w))))"

text \<open>The handler answers one path.\<close>

definition metricsHandler :: "(unit \<Rightarrow> 'r) \<Rightarrow> 'r \<Rightarrow> string \<Rightarrow> 'r" where
  "metricsHandler promHandler notFound path = (if path = ''/metrics'' then promHandler () else notFound)"

text \<open>
  What the \<^verbatim>\<open>select\<close> of the server chose: cancellation, with the outcome of the shutdown, or the error the serving goroutine sent. A
  server that was closed sends nothing.
\<close>

datatype MetricsSelect = MetricsDone "goerror option" | MetricsErr goerror

definition metricsServer_run :: "MetricsSelect \<Rightarrow> goerror option" where
  "metricsServer_run choice =
     (case choice of
        MetricsDone shutdown \<Rightarrow> map_option ((@) ''shutdown on socket: '') shutdown
      | MetricsErr err \<Rightarrow> Some (''serve on socket: '' @ err))"

section \<open>Supervision\<close>

datatype Component = IfaceDiscovery | MetricsServer | Manager

record AgentState =
  ag_interfaces :: InterfaceMap
  ag_running :: "Component list"
  ag_err :: "goerror option"
  ag_cancelled :: bool
  ag_socket :: bool
    \<comment> \<open>whether the deferred removal of the metrics socket is still to come; a removal that fails is only logged\<close>
  ag_finished :: "(Component \<times> goerror option) list"
    \<comment> \<open>the components that have returned, in order\<close>
  ag_result :: "goerror option option"

text \<open>The body of a function passed to \<^verbatim>\<open>Go\<close>: the error is wrapped with the component's name.\<close>

fun componentName :: "Component \<Rightarrow> string" where
  "componentName IfaceDiscovery = ''interface discovery: ''"
| "componentName MetricsServer = ''metrics server: ''"
| "componentName Manager = ''manager: ''"

definition wrapErr :: "Component \<Rightarrow> goerror option \<Rightarrow> goerror option" where
  "wrapErr c r = map_option ((@) (componentName c)) r"

text \<open>\<^verbatim>\<open>errgroup.Group.Go\<close>: the first error is kept and cancels the context.\<close>

definition goReturn :: "Component \<Rightarrow> goerror option \<Rightarrow> AgentState \<Rightarrow> AgentState" where
  "goReturn c r s =
     s\<lparr>ag_running := remove1 c (ag_running s),
       ag_finished := ag_finished s @ [(c, r)],
       ag_err := (if ag_err s = None then r else ag_err s),
       ag_cancelled := (ag_cancelled s \<or> (r \<noteq> None \<and> ag_err s = None))\<rparr>"

definition startAgent :: "bool \<Rightarrow> InterfaceMap \<Rightarrow> AgentState" where
  "startAgent discovery interfaces =
     \<lparr>ag_interfaces = interfaces,
      ag_running = (if discovery then [IfaceDiscovery] else []) @ [MetricsServer, Manager],
      ag_err = None, ag_cancelled = False, ag_socket = True, ag_finished = [], ag_result = None\<rparr>"

datatype AgentLabel =
    Signal
  | DiscoveryChose DiscoverySelect
  | MetricsChose MetricsSelect
  | ManagerReturned "goerror option"
  | WaitReturned

inductive agent_step :: "(bool \<Rightarrow> goerror option \<Rightarrow> bool) \<Rightarrow> AgentState \<Rightarrow> AgentLabel \<Rightarrow> AgentState \<Rightarrow> bool"
  for mgrStart :: "bool \<Rightarrow> goerror option \<Rightarrow> bool" where
  signal: "\<not> ag_cancelled s \<Longrightarrow> ag_result s = None \<Longrightarrow>
     agent_step mgrStart s Signal (s\<lparr>ag_cancelled := True\<rparr>)"
| discovery_event: "IfaceDiscovery \<in> set (ag_running s) \<Longrightarrow>
     interfaceDiscovery_run [DiscoveryEvent ev] (ag_interfaces s) = (None, interfaces) \<Longrightarrow>
     agent_step mgrStart s (DiscoveryChose (DiscoveryEvent ev)) (s\<lparr>ag_interfaces := interfaces\<rparr>)"
| discovery_return: "IfaceDiscovery \<in> set (ag_running s) \<Longrightarrow> (choice = DiscoveryDone \<longrightarrow> ag_cancelled s) \<Longrightarrow>
     interfaceDiscovery_run [choice] (ag_interfaces s) = (Some r, interfaces) \<Longrightarrow>
     agent_step mgrStart s (DiscoveryChose choice) (goReturn IfaceDiscovery (wrapErr IfaceDiscovery r) s)"
| metrics_return: "MetricsServer \<in> set (ag_running s) \<Longrightarrow>
     (\<exists>shutdown. choice = MetricsDone shutdown) \<longrightarrow> ag_cancelled s \<Longrightarrow>
     agent_step mgrStart s (MetricsChose choice)
       ((goReturn MetricsServer (wrapErr MetricsServer (metricsServer_run choice)) s)\<lparr>ag_socket := False\<rparr>)"
| manager_return: "Manager \<in> set (ag_running s) \<Longrightarrow> mgrStart (ag_cancelled s) r \<Longrightarrow>
     agent_step mgrStart s (ManagerReturned r) (goReturn Manager (wrapErr Manager r) s)"
| wait_return: "ag_running s = [] \<Longrightarrow> ag_result s = None \<Longrightarrow>
     agent_step mgrStart s WaitReturned (s\<lparr>ag_cancelled := True, ag_result := Some (ag_err s)\<rparr>)"

inductive agent_trace :: "(bool \<Rightarrow> goerror option \<Rightarrow> bool) \<Rightarrow> AgentState \<Rightarrow> AgentLabel list \<Rightarrow> AgentState \<Rightarrow> bool"
  for mgrStart :: "bool \<Rightarrow> goerror option \<Rightarrow> bool" and s0 :: AgentState where
  start: "agent_trace mgrStart s0 [] s0"
| step: "agent_trace mgrStart s0 ls s \<Longrightarrow> agent_step mgrStart s l s' \<Longrightarrow> agent_trace mgrStart s0 (ls @ [l]) s'"

text \<open>The end of \<^verbatim>\<open>main\<close>: the exit status of the process.\<close>

definition agentExit :: "goerror option \<Rightarrow> int" where
  "agentExit r = (if r \<noteq> None then 1 else 0)"

inductive_cases agent_stepE: "agent_step mgrStart s l s'"

section \<open>The interface map\<close>

text \<open>The latest addition or removal of an interface in a sequence of events.\<close>

definition lastChange :: "Interface \<Rightarrow> Event list \<Rightarrow> EventType option" where
  "lastChange i evs =
     (case filter (\<lambda>e. ev_Interface e = i \<and> (ev_Type e = EventAdded \<or> ev_Type e = EventDeleted)) evs of
        [] \<Rightarrow> None
      | es \<Rightarrow> Some (ev_Type (last es)))"

lemma lastChange_Nil [simp]: "lastChange i [] = None"
  by (simp add: lastChange_def)

lemma lastChange_snoc:
  "lastChange i (evs @ [e]) =
     (if ev_Interface e = i \<and> (ev_Type e = EventAdded \<or> ev_Type e = EventDeleted) then Some (ev_Type e) else lastChange i evs)"
  by (auto simp: lastChange_def split: list.split)

definition mapTracks :: "Event list \<Rightarrow> InterfaceMap \<Rightarrow> bool" where
  "mapTracks evs interfaces \<longleftrightarrow>
     distinct (map fst interfaces) \<and>
     (\<forall>i. map_of interfaces i = (if lastChange i evs = Some EventAdded then Some True else None))"

lemma mapTracks_Nil: "mapTracks [] []"
  by (simp add: mapTracks_def)

lemma mapTracks_mem: "mapTracks evs interfaces \<Longrightarrow> (i, up) \<in> set interfaces \<longleftrightarrow> up \<and> lastChange i evs = Some EventAdded"
  by (auto simp: mapTracks_def simp flip: map_of_eq_Some_iff split: if_splits)

lemma mapTracks_snoc:
  assumes "mapTracks evs interfaces"
  shows "mapTracks (evs @ [e]) (handleEvent e interfaces)"
  using assms by (cases "ev_Type e")
    (simp_all add: mapTracks_def handleEvent_def distinct_update distinct_delete update_conv' delete_conv' lastChange_snoc)

section \<open>Invariants of the process\<close>

fun firstErr :: "(Component \<times> goerror option) list \<Rightarrow> goerror option" where
  "firstErr [] = None"
| "firstErr ((_, r) # rest) = (if r = None then firstErr rest else r)"

lemma firstErr_snoc [simp]: "firstErr (xs @ [(c, r)]) = (if firstErr xs = None then r else firstErr xs)"
  by (induction xs) auto

lemma firstErr_None: "firstErr xs = None \<longleftrightarrow> list_all (\<lambda>(c, r). r = None) xs"
  by (induction xs) (auto split: if_splits)

lemma wrapErr_None [simp]: "wrapErr c r = None \<longleftrightarrow> r = None"
  by (simp add: wrapErr_def)

definition groupInv :: "Component list \<Rightarrow> AgentState \<Rightarrow> bool" where
  "groupInv started s \<longleftrightarrow>
     mset (ag_running s) + mset (map fst (ag_finished s)) = mset started \<and>
     ag_err s = firstErr (ag_finished s) \<and>
     (ag_err s \<noteq> None \<longrightarrow> ag_cancelled s) \<and>
     (ag_socket s \<longleftrightarrow> MetricsServer \<in> set (ag_running s)) \<and>
     (\<forall>r. ag_result s = Some r \<longrightarrow> ag_running s = [] \<and> r = ag_err s \<and> ag_cancelled s)"

lemma groupInv_start: "groupInv (ag_running (startAgent discovery interfaces)) (startAgent discovery interfaces)"
  by (simp add: groupInv_def startAgent_def)

lemma groupInv_goReturn:
  assumes "groupInv started s" and "c \<in> set (ag_running s)" and "distinct started"
  shows "groupInv started ((goReturn c r s)\<lparr>ag_socket := (ag_socket s \<and> c \<noteq> MetricsServer)\<rparr>)"
proof -
  have "distinct (ag_running s)"
    using assms(1,3) by (metis groupInv_def mset_eq_imp_distinct_iff mset_append distinct_append)
  moreover have "add_mset c (mset (remove1 c (ag_running s)) + mset (map fst (ag_finished s))) = mset started"
  proof -
    have "add_mset c (mset (remove1 c (ag_running s))) = mset (ag_running s)" using assms(2) by simp
    then show ?thesis using assms(1) unfolding groupInv_def by (metis union_mset_add_mset_left)
  qed
  ultimately show ?thesis using assms(1,2) by (auto simp: groupInv_def goReturn_def simp del: mset_remove1 split: if_splits)
qed

lemma goReturn_socket [simp]: "(goReturn c r s)\<lparr>ag_socket := ag_socket s\<rparr> = goReturn c r s"
  by (simp add: goReturn_def)

lemma groupInv_step:
  assumes "agent_step mgrStart s l s'" and "groupInv started s" and "distinct started"
  shows "groupInv started s'"
  using assms
proof (cases rule: agent_step.cases)
  case (discovery_return choice r interfaces)
  then show ?thesis using groupInv_goReturn [OF assms(2) _ assms(3), of IfaceDiscovery] by simp
next
  case (metrics_return choice)
  then show ?thesis using groupInv_goReturn [OF assms(2) _ assms(3), of MetricsServer] by simp
next
  case (manager_return r)
  then show ?thesis using groupInv_goReturn [OF assms(2) _ assms(3), of Manager] by simp
qed (auto simp: groupInv_def)

lemma groupInv_trace:
  "agent_trace mgrStart (startAgent discovery interfaces) ls s \<Longrightarrow>
     groupInv (ag_running (startAgent discovery interfaces)) s"
proof (induction rule: agent_trace.induct)
  case start
  show ?case by (rule groupInv_start)
next
  case (step ls s l s')
  have "distinct (ag_running (startAgent discovery interfaces))" by (simp add: startAgent_def)
  with step show ?case by (blast intro: groupInv_step)
qed

subsection \<open>Progress\<close>

definition isEvent :: "AgentLabel \<Rightarrow> bool" where
  "isEvent l \<longleftrightarrow> (case l of DiscoveryChose (DiscoveryEvent _) \<Rightarrow> True | _ \<Rightarrow> False)"

definition agentWork :: "AgentState \<Rightarrow> nat" where
  "agentWork s = length (ag_running s) + of_bool (ag_result s = None) + of_bool (\<not> ag_cancelled s)"

lemma goReturn_work: "c \<in> set (ag_running s) \<Longrightarrow> agentWork (goReturn c r s) < agentWork s"
  using length_pos_if_in_set [of c "ag_running s"] by (auto simp: agentWork_def goReturn_def length_remove1)

lemma agentWork_socket [simp]: "agentWork (s\<lparr>ag_socket := b\<rparr>) = agentWork s"
  by (simp add: agentWork_def)

lemma le_of_bool_less: "m < n \<Longrightarrow> m + of_bool b \<le> (n :: nat)"
  by (cases b) auto

lemma agent_step_work:
  assumes "agent_step mgrStart s l s'"
  shows "agentWork s' + of_bool (\<not> isEvent l) \<le> agentWork s"
  using assms
proof (cases rule: agent_step.cases)
  case (discovery_return choice r interfaces)
  then show ?thesis using goReturn_work [of IfaceDiscovery s] by (simp add: le_of_bool_less)
next
  case (metrics_return choice)
  then show ?thesis using goReturn_work [of MetricsServer s] by (simp add: le_of_bool_less)
next
  case (manager_return r)
  then show ?thesis using goReturn_work [of Manager s] by (simp add: le_of_bool_less)
qed (auto simp: agentWork_def isEvent_def)

lemma agent_trace_work:
  "agent_trace mgrStart s0 ls s \<Longrightarrow> length (filter (Not \<circ> isEvent) ls) + agentWork s \<le> agentWork s0"
proof (induction rule: agent_trace.induct)
  case (step ls s l s')
  then show ?case using agent_step_work [OF step(2)] by (auto split: if_splits)
qed simp

lemma agent_step_enabled:
  assumes "ag_cancelled s" and "ag_result s = None" and "mgrStart True r"
  shows "\<exists>l s'. agent_step mgrStart s l s' \<and> \<not> isEvent l"
proof (cases "ag_running s")
  case Nil
  then show ?thesis using wait_return [OF Nil assms(2)] by (force simp: isEvent_def)
next
  case (Cons c cs)
  show ?thesis
  proof (cases c)
    case IfaceDiscovery
    with Cons assms(1) have "agent_step mgrStart s (DiscoveryChose DiscoveryDone)
        (goReturn IfaceDiscovery (wrapErr IfaceDiscovery None) s)"
      by (intro discovery_return) auto
    then show ?thesis by (force simp: isEvent_def)
  next
    case MetricsServer
    with Cons assms(1) metrics_return [of s "MetricsDone None" mgrStart] show ?thesis by (force simp: isEvent_def)
  next
    case Manager
    with Cons assms manager_return [of s mgrStart r] show ?thesis by (force simp: isEvent_def)
  qed
qed

subsection \<open>Delivered events\<close>

fun delivered :: "AgentLabel list \<Rightarrow> Event list" where
  "delivered [] = []"
| "delivered (DiscoveryChose (DiscoveryEvent ev) # ls) = ev # delivered ls"
| "delivered (_ # ls) = delivered ls"

lemma delivered_append [simp]: "delivered (ls @ ls') = delivered ls @ delivered ls'"
  by (induction ls rule: delivered.induct) auto

lemma delivered_other [simp]: "\<not> isEvent l \<Longrightarrow> delivered [l] = []"
  by (auto simp: isEvent_def split: AgentLabel.splits DiscoverySelect.splits)

lemma mapTracks_trace:
  "agent_trace mgrStart s0 ls s \<Longrightarrow> ag_interfaces s0 = [] \<Longrightarrow> mapTracks (delivered ls) (ag_interfaces s)"
proof (induction rule: agent_trace.induct)
  case start
  then show ?case by (simp add: mapTracks_Nil)
next
  case (step ls s l s')
  then have m: "mapTracks (delivered ls) (ag_interfaces s)" by simp
  from step(2) show ?case
  proof (cases rule: agent_step.cases)
    case (discovery_event ev interfaces)
    with m show ?thesis by (auto intro: mapTracks_snoc)
  next
    case (discovery_return choice r interfaces)
    with m show ?thesis by (cases choice) (auto simp: goReturn_def)
  qed (use m in \<open>auto simp: goReturn_def isEvent_def\<close>)
qed

end
