(* ===== verification/Runtime_Properties.thy ===== *)
theory Runtime_Properties
  imports Agent_Runtime Selector_Properties
begin

text \<open>
  What the supervision of the agent's components guarantees, and that the interfaces the selectors see are those of the
  events the process received.
\<close>

section \<open>An execution\<close>

definition demoMgr :: "bool \<Rightarrow> goerror option \<Rightarrow> bool" where
  "demoMgr cancelled r \<longleftrightarrow> (r = None \<longrightarrow> cancelled)"

definition demoIface :: "string \<Rightarrow> Interface" where
  "demoIface n = \<lparr>if_Name = n, if_NSName = '''', if_Index = 2, if_MAC = [2, 0, 0, 0, 0, 1], if_NetNS = -1\<rparr>"

definition demoEvents :: "AgentLabel list" where
  "demoEvents =
     [DiscoveryChose (DiscoveryEvent \<lparr>ev_Type = EventAdded, ev_Interface = demoIface ''eth0''\<rparr>),
      DiscoveryChose (DiscoveryEvent \<lparr>ev_Type = EventAdded, ev_Interface = demoIface ''eth1''\<rparr>),
      DiscoveryChose (DiscoveryEvent \<lparr>ev_Type = EventDeleted, ev_Interface = demoIface ''eth1''\<rparr>)]"

definition demoUp :: AgentState where
  "demoUp = (startAgent True [])\<lparr>ag_interfaces := [(demoIface ''eth0'', True)]\<rparr>"

definition demoFailed :: AgentState where
  "demoFailed =
     demoUp\<lparr>ag_running := [IfaceDiscovery, Manager], ag_err := Some ''metrics server: serve on socket: EOF'', ag_cancelled := True,
       ag_socket := False, ag_finished := [(MetricsServer, Some ''metrics server: serve on socket: EOF'')]\<rparr>"

definition demoDown :: AgentState where
  "demoDown =
     demoFailed\<lparr>ag_running := [],
       ag_finished := [(MetricsServer, Some ''metrics server: serve on socket: EOF''), (Manager, None), (IfaceDiscovery, None)],
       ag_result := Some (Some ''metrics server: serve on socket: EOF'')\<rparr>"

lemma event_trace:
  assumes "agent_trace mgrStart s0 ls s" and "IfaceDiscovery \<in> set (ag_running s)"
  shows "agent_trace mgrStart s0 (ls @ [DiscoveryChose (DiscoveryEvent ev)]) (s\<lparr>ag_interfaces := handleEvent ev (ag_interfaces s)\<rparr>)"
  by (rule agent_trace.step [OF assms(1) discovery_event [OF assms(2)]]) simp

lemma demo_up: "agent_trace demoMgr (startAgent True []) demoEvents demoUp"
proof -
  let ?s = "startAgent True []" let ?es = "delivered demoEvents"
  have r: "IfaceDiscovery \<in> set (ag_running ?s)" by (simp add: startAgent_def)
  have "agent_trace demoMgr ?s (map (DiscoveryChose \<circ> DiscoveryEvent) ?es)
      (?s\<lparr>ag_interfaces := handleEvent (?es ! 2) (handleEvent (?es ! 1) (handleEvent (?es ! 0) []))\<rparr>)"
    using event_trace [OF event_trace [OF event_trace [OF agent_trace.start [of demoMgr ?s], of "?es ! 0"], of "?es ! 1"], of "?es ! 2"] r
    by (simp add: demoEvents_def startAgent_def)
  then show ?thesis by (simp add: demoEvents_def demoUp_def handleEvent_def demoIface_def)
qed

lemma demo_failed: "agent_trace demoMgr (startAgent True []) (demoEvents @ [MetricsChose (MetricsErr ''EOF'')]) demoFailed"
proof -
  have "agent_step demoMgr demoUp (MetricsChose (MetricsErr ''EOF'')) demoFailed"
    using metrics_return [of demoUp "MetricsErr ''EOF''" demoMgr]
    by (simp add: demoUp_def demoFailed_def startAgent_def goReturn_def wrapErr_def metricsServer_run_def)
  with demo_up show ?thesis by (rule agent_trace.step)
qed

lemma demo_down:
  "agent_trace demoMgr (startAgent True [])
     (demoEvents @ [MetricsChose (MetricsErr ''EOF''), ManagerReturned None, DiscoveryChose DiscoveryDone, WaitReturned]) demoDown"
proof -
  let ?m = "goReturn Manager None demoFailed" let ?d = "goReturn IfaceDiscovery None ?m"
  have "agent_step demoMgr demoFailed (ManagerReturned None) ?m"
    using manager_return [of demoFailed demoMgr None] by (simp add: demoFailed_def demoMgr_def wrapErr_def)
  moreover have "agent_step demoMgr ?m (DiscoveryChose DiscoveryDone) ?d"
    using discovery_return [of ?m DiscoveryDone None "ag_interfaces ?m" demoMgr]
    by (simp add: demoFailed_def goReturn_def wrapErr_def)
  moreover have "agent_step demoMgr ?d WaitReturned demoDown"
    using wait_return [of ?d demoMgr] by (simp add: demoFailed_def demoDown_def demoUp_def startAgent_def goReturn_def)
  ultimately show ?thesis using agent_trace.step [OF agent_trace.step [OF agent_trace.step [OF demo_failed]]] by force
qed

section \<open>Properties\<close>

text \<open>
  The supervision is coordinated: whenever \<open>runAgent\<close> returns, every component that was started has returned, the deferred
  removal of the metrics socket has run (its failure would only be logged) and the context is cancelled; the result is the first error any component returned, and the process
  exits with status 0 exactly when none returned an error.
\<close>

theorem runAgent_coordinated:
  assumes "agent_trace mgrStart (startAgent discovery interfaces) ls s" and "ag_result s = Some r"
  shows "ag_running s = [] \<and> \<not> ag_socket s \<and> ag_cancelled s \<and>
    mset (map fst (ag_finished s)) = mset (ag_running (startAgent discovery interfaces)) \<and>
    r = firstErr (ag_finished s) \<and> (agentExit r = 0 \<longleftrightarrow> list_all (\<lambda>(c, e). e = None) (ag_finished s))"
  using groupInv_trace [OF assms(1)] assms(2) firstErr_None [of "ag_finished s"]
  by (auto simp: groupInv_def agentExit_def simp del: mset_map)

theorem runAgent_coordinated_witness:
  "agentExit (Some ''metrics server: serve on socket: EOF'') = 1 \<and> \<not> ag_socket demoDown \<and>
   mset (map fst (ag_finished demoDown)) = {#IfaceDiscovery, MetricsServer, Manager#}"
  using runAgent_coordinated [OF demo_down, of "Some ''metrics server: serve on socket: EOF''"]
  by (simp add: demoDown_def agentExit_def startAgent_def)

text \<open>
  C23: Shutdown terminates: in every execution of the agent at most five steps are not the handling of an interface event, and once
  the context is cancelled (by a signal or by a failed component) one of them is possible until \<open>runAgent\<close> has returned, as long as
  the manager can return from a cancelled context.
\<close>

theorem runAgent_shutdown:
  assumes "agent_trace mgrStart (startAgent discovery interfaces) ls s"
  shows "length (filter (Not \<circ> isEvent) ls) \<le> 5 \<and>
    (ag_cancelled s \<and> ag_result s = None \<and> mgrStart True r \<longrightarrow> (\<exists>l s'. agent_step mgrStart s l s' \<and> \<not> isEvent l))"
proof
  have "agentWork (startAgent discovery interfaces) \<le> 5" by (simp add: agentWork_def startAgent_def)
  with agent_trace_work [OF assms] show "length (filter (Not \<circ> isEvent) ls) \<le> 5" by linarith
qed (use agent_step_enabled in blast)

theorem runAgent_shutdown_witness:
  "ag_cancelled demoFailed \<and> ag_result demoFailed = None \<and> (\<exists>l s'. agent_step demoMgr demoFailed l s' \<and> \<not> isEvent l)"
proof -
  have "ag_cancelled demoFailed \<and> ag_result demoFailed = None \<and> demoMgr True None"
    by (simp add: demoFailed_def demoUp_def startAgent_def demoMgr_def)
  with runAgent_shutdown [OF demo_failed, of None] show ?thesis by blast
qed

text \<open>
  C21: Discovery follows the events: whatever the interleaving of the agent's goroutines, the interfaces a discovery selector
  returns are those, not excluded and allowed, whose latest event is an addition. Removed interfaces are never returned, and an
  interface of another name, namespace, index or address is never confused with them.
\<close>

theorem discovery_follows_events:
  assumes "agent_trace mgrStart (startAgent discovery []) ls s"
    and "Interfaces_Range env w = map (\<lambda>(i, up). (DiscoveredIface.truncate i, up)) (ag_interfaces s)"
  shows "set (getDiscoveredInterfaces env cfg w) =
    {discovered (DiscoveredIface.truncate i) |i. lastChange i (delivered ls) = Some EventAdded \<and>
       if_Name i \<notin> set (ExcludeInterfaces cfg) \<and>
       interfaceInAllowedList (if_Name i) (fst (setupAllowedInterfacesLists env cfg)) (snd (setupAllowedInterfacesLists env cfg))}"
proof -
  have "mapTracks (delivered ls) (ag_interfaces s)" using mapTracks_trace [OF assms(1)] by (simp add: startAgent_def)
  note mem = mapTracks_mem [OF this]
  have range: "(j, True) \<in> set (Interfaces_Range env w) \<longleftrightarrow>
      (\<exists>i. j = DiscoveredIface.truncate i \<and> lastChange i (delivered ls) = Some EventAdded)" for j
    unfolding assms(2) using mem by force
  have name: "if_Name (DiscoveredIface.truncate i) = if_Name i" for i :: Interface
    by (simp add: DiscoveredIface.defs)
  show ?thesis unfolding discovery_exact [THEN conjunct2] range by (auto simp: name)
qed

definition demoEnv :: "((unit, unit) fw, unit, unit) KEnv" where
  "demoEnv = fakeEnv\<lparr>Interfaces_Range := (\<lambda>_. [(\<lparr>if_Name = ''eth0'', if_NSName = ''''\<rparr>, True)])\<rparr>"

definition demoCfg :: InterfaceDiscovery where
  "demoCfg = \<lparr>InterfaceAutoDiscovery = Some True, ExcludeInterfaces = [''lo''], AllowedInterfaces = []\<rparr>"

lemma demo_added: "lastChange i (delivered demoEvents) = Some EventAdded \<longleftrightarrow> i = demoIface ''eth0''"
  by (auto simp: lastChange_def demoEvents_def demoIface_def)

theorem discovery_follows_events_witness:
  "\<lparr>interfaceName = ''eth0'', netNSPath = ''''\<rparr> \<in> set (getDiscoveredInterfaces demoEnv demoCfg blankWorld) \<and>
   \<lparr>interfaceName = ''eth1'', netNSPath = ''''\<rparr> \<notin> set (getDiscoveredInterfaces demoEnv demoCfg blankWorld)"
proof -
  have "Interfaces_Range demoEnv blankWorld = map (\<lambda>(i, up). (DiscoveredIface.truncate i, up)) (ag_interfaces demoUp)"
    by (simp add: demoEnv_def demoUp_def demoIface_def DiscoveredIface.defs)
  from discovery_follows_events [OF demo_up this, of demoCfg]
  have "set (getDiscoveredInterfaces demoEnv demoCfg blankWorld) = {discovered (DiscoveredIface.truncate (demoIface ''eth0''))}"
    by (auto simp: demo_added demoCfg_def setupAllowedInterfacesLists_def interfaceInAllowedList_def demoIface_def)
  then show ?thesis by (simp add: discovered_def demoIface_def DiscoveredIface.defs)
qed

end
