(* ===== verification/Registry_Auth.thy ===== *)
theory Registry_Auth
  imports Agent_Env Go_Strings "HOL-Library.AList"
begin

text \<open>
  Registry credentials (\<^verbatim>\<open>controllers/bpfman-agent/internal/auth.go\<close>): decoding of the \<^verbatim>\<open>auth\<close> field of a registry
  entry and of the map of entries. The two base64 decoders of the Go library are written out, the padded and the unpadded
  one; errors carry their text without the position in the input. Splitting the JSON document into the fields of its
  entries is the library's, so a document is given here by its raw entries.
\<close>

section \<open>Base64\<close>

definition b64alphabet :: string where
  "b64alphabet = ''ABCDEFGHIJKLMNOPQRSTUVWXYZabcdefghijklmnopqrstuvwxyz0123456789+/''"

definition b64val :: "char \<Rightarrow> nat option" where
  "b64val c = (let i = length (takeWhile ((\<noteq>) c) b64alphabet) in if i < 64 then Some i else None)"

definition b64pad :: char where
  "b64pad = CHR ''=''"

definition quantum3 :: "nat \<Rightarrow> nat \<Rightarrow> nat \<Rightarrow> nat \<Rightarrow> string" where
  "quantum3 a b c d =
     [char_of (a * 4 + b div 16), char_of (b mod 16 * 16 + c div 4), char_of (c mod 4 * 64 + d)]"

definition quantum2 :: "nat \<Rightarrow> nat \<Rightarrow> nat \<Rightarrow> string" where
  "quantum2 a b c = [char_of (a * 4 + b div 16), char_of (b mod 16 * 16 + c div 4)]"

definition quantum1 :: "nat \<Rightarrow> nat \<Rightarrow> string" where
  "quantum1 a b = [char_of (a * 4 + b div 16)]"

text \<open>The quanta of an input without line breaks; \<open>padded\<close> chooses the decoder.\<close>

fun decodeQuanta :: "bool \<Rightarrow> string \<Rightarrow> string option" where
  "decodeQuanta padded [] = Some []"
| "decodeQuanta padded [a] = None"
| "decodeQuanta padded [a, b] =
     (if padded then None
      else do { a \<leftarrow> b64val a; b \<leftarrow> b64val b; Some (quantum1 a b) })"
| "decodeQuanta padded [a, b, c] =
     (if padded then None
      else do { a \<leftarrow> b64val a; b \<leftarrow> b64val b; c \<leftarrow> b64val c; Some (quantum2 a b c) })"
| "decodeQuanta padded (a # b # c # d # rest) =
     do { a \<leftarrow> b64val a;
          b \<leftarrow> b64val b;
          if padded \<and> c = b64pad then (if d = b64pad \<and> rest = [] then Some (quantum1 a b) else None)
          else do { c \<leftarrow> b64val c;
                    if padded \<and> d = b64pad then (if rest = [] then Some (quantum2 a b c) else None)
                    else do { d \<leftarrow> b64val d;
                              out \<leftarrow> decodeQuanta padded rest;
                              Some (quantum3 a b c d @ out) } } }"

definition base64_DecodeString :: "bool \<Rightarrow> string \<Rightarrow> string result" where
  "base64_DecodeString padded s =
     (case decodeQuanta padded (filter (\<lambda>c. c \<noteq> CHR 0x0A \<and> c \<noteq> CHR 0x0D) s) of
        None \<Rightarrow> Inl ''illegal base64 data''
      | Some out \<Rightarrow> Inr out)"

section \<open>The auth field\<close>

definition strings_TrimSpace :: "string \<Rightarrow> string" where
  "strings_TrimSpace s = rev (dropWhile isSpace (rev (dropWhile isSpace s)))"

definition strings_HasSuffixChar :: "string \<Rightarrow> char \<Rightarrow> bool" where
  "strings_HasSuffixChar s c \<longleftrightarrow> s \<noteq> [] \<and> last s = c"

record ContainerConfigEntryWithAuth =
  wa_Username :: string
  wa_Password :: string
  wa_Email :: string
  wa_Auth :: string

definition decodeContainerConfigFieldAuth :: "string \<Rightarrow> (string \<times> string) result" where
  "decodeContainerConfigFieldAuth field =
     (case base64_DecodeString (strings_HasSuffixChar (strings_TrimSpace field) b64pad) field of
        Inl err \<Rightarrow> Inl err
      | Inr decoded \<Rightarrow>
          (case strings_SplitN2 decoded (CHR '':'') of
             [username, password] \<Rightarrow> Inr (username, password)
           | _ \<Rightarrow> Inl ''unable to parse auth field, must be formatted as base64(username:password)''))"

definition ContainerConfigEntry_UnmarshalJSON ::
    "ContainerConfigEntryWithAuth result \<Rightarrow> ContainerConfigEntry result" where
  "ContainerConfigEntry_UnmarshalJSON data =
     (case data of
        Inl err \<Rightarrow> Inl err
      | Inr tmp \<Rightarrow>
          if wa_Auth tmp = [] then Inr \<lparr>Username = '''', Password = '''', Email = ''''\<rparr>
          else (case decodeContainerConfigFieldAuth (wa_Auth tmp) of
                  Inl err \<Rightarrow> Inl err
                | Inr (username, password) \<Rightarrow> Inr \<lparr>Username = username, Password = password, Email = ''''\<rparr>))"

text \<open>The map of entries is decoded in the order of the document, and the first error ends it.\<close>

fun decodeEntries ::
    "ContainerConfig \<Rightarrow> (string \<times> ContainerConfigEntryWithAuth result) list \<Rightarrow> ContainerConfig result" where
  "decodeEntries creds [] = Inr creds"
| "decodeEntries creds ((k, e) # rest) =
     (case ContainerConfigEntry_UnmarshalJSON e of
        Inl err \<Rightarrow> Inl err
      | Inr c \<Rightarrow> decodeEntries (AList.update k c creds) rest)"

section \<open>The encoder\<close>

definition b64digit :: "nat \<Rightarrow> char" where
  "b64digit k = b64alphabet ! k"

fun base64_EncodeToString :: "bool \<Rightarrow> string \<Rightarrow> string" where
  "base64_EncodeToString padded [] = []"
| "base64_EncodeToString padded [x] =
     (let x = of_char x in [b64digit (x div 4), b64digit (x mod 4 * 16)] @ (if padded then [b64pad, b64pad] else []))"
| "base64_EncodeToString padded [x, y] =
     (let x = of_char x; y = of_char y in
      [b64digit (x div 4), b64digit (x mod 4 * 16 + y div 16), b64digit (y mod 16 * 4)] @ (if padded then [b64pad] else []))"
| "base64_EncodeToString padded (x # y # z # rest) =
     (let x = of_char x; y = of_char y; z = of_char z in
      [b64digit (x div 4), b64digit (x mod 4 * 16 + y div 16), b64digit (y mod 16 * 4 + z div 64), b64digit (z mod 64)] @
      base64_EncodeToString padded rest)"

lemma b64alphabet_facts [simp]: "length b64alphabet = 64" "distinct b64alphabet" "b64pad \<notin> set b64alphabet"
  "CHR 0x0A \<notin> set b64alphabet" "CHR 0x0D \<notin> set b64alphabet"
  by (simp_all add: b64alphabet_def b64pad_def)

lemma b64alphabet_no_space: "c \<in> set b64alphabet \<Longrightarrow> \<not> isSpace c"
  by (auto simp: b64alphabet_def isSpace_def)

lemma takeWhile_nth: "distinct xs \<Longrightarrow> k < length xs \<Longrightarrow> takeWhile ((\<noteq>) (xs ! k)) xs = take k xs"
proof (induction xs arbitrary: k)
  case (Cons x xs)
  then show ?case by (cases k) (auto simp: nth_mem)
qed simp

lemma b64val_digit [simp]: "k < 64 \<Longrightarrow> b64val (b64digit k) = Some k"
  by (simp add: b64val_def b64digit_def takeWhile_nth)

lemma b64digit_mem [simp]: "k < 64 \<Longrightarrow> b64digit k \<in> set b64alphabet"
  by (simp add: b64digit_def nth_mem)

lemma b64digit_not_pad [simp]: "k < 64 \<Longrightarrow> b64digit k \<noteq> b64pad"
  using b64digit_mem b64alphabet_facts(3) by metis

lemma split_digits: "b < k \<Longrightarrow> (a * k + b) div k = a" "b < k \<Longrightarrow> (a * k + b) mod k = b" for k :: nat
  by simp_all

lemma byte_digit_bounds [simp]:
  "of_char x div 4 < (64 :: nat)" "of_char x div 16 < (16 :: nat)" "of_char x div 64 < (4 :: nat)"
  "of_char x mod 4 * 16 < (64 :: nat)" "of_char x mod 4 * 16 + of_char y div 16 < (64 :: nat)"
  "of_char y mod 16 * 4 < (64 :: nat)" "of_char y mod 16 * 4 + of_char z div 64 < (64 :: nat)"
proof -
  have d: "of_char x div 16 < (16 :: nat)" "of_char x div 64 < (4 :: nat)" for x
    using nat_of_char_less_256 [of x] by (simp_all add: div_less_iff_less_mult)
  then show "of_char x div 16 < (16 :: nat)" "of_char x div 64 < (4 :: nat)" by blast+
  show "of_char x div 4 < (64 :: nat)" using nat_of_char_less_256 [of x] by (simp add: div_less_iff_less_mult)
  have m: "of_char x mod 4 < (4 :: nat)" "of_char y mod 16 < (16 :: nat)" by simp_all
  then show "of_char x mod 4 * 16 < (64 :: nat)" "of_char y mod 16 * 4 < (64 :: nat)" by linarith+
  from m(1) d(1) [of y] show "of_char x mod 4 * 16 + of_char y div 16 < (64 :: nat)" by linarith
  from m(2) d(2) [of z] show "of_char y mod 16 * 4 + of_char z div 64 < (64 :: nat)" by linarith
qed

lemma encode_chars: "set (base64_EncodeToString padded s) \<subseteq> insert b64pad (set b64alphabet)"
  by (induction padded s rule: base64_EncodeToString.induct) (auto simp: Let_def)

lemma join_digits: "b < 4 \<Longrightarrow> (a mod 16 * 4 + b) div 4 = a mod 16" "b < 16 \<Longrightarrow> (c * 16 + b) div 16 = c"
  "b < 16 \<Longrightarrow> (c * 16 + b) mod 16 = b" "b < 4 \<Longrightarrow> (c * 4 + b) mod 4 = b" for a b c :: nat
  using split_digits [of b 4] split_digits [of b 16] by simp_all

lemma quantum3_digits:
  "quantum3 (of_char x div 4) (of_char x mod 4 * 16 + of_char y div 16) (of_char y mod 16 * 4 + of_char z div 64) (of_char z mod 64) =
     [x, y, z]"
  unfolding quantum3_def by (simp only: join_digits byte_digit_bounds div_mult_mod_eq char_of_char)

lemma quantum2_digits:
  "quantum2 (of_char x div 4) (of_char x mod 4 * 16 + of_char y div 16) (of_char y mod 16 * 4) = [x, y]"
  unfolding quantum2_def using join_digits(1) [of 0 "of_char y"]
  by (simp only: join_digits byte_digit_bounds div_mult_mod_eq char_of_char add_0_right zero_less_numeral)

lemma quantum1_digits: "quantum1 (of_char x div 4) (of_char x mod 4 * 16) = [x]"
  by (simp add: quantum1_def)

lemmas quantum_digits = quantum1_digits quantum2_digits quantum3_digits

lemma decode_encode: "decodeQuanta padded (base64_EncodeToString padded s) = Some s"
  by (induction padded s rule: base64_EncodeToString.induct) (simp_all add: Let_def quantum_digits)

section \<open>Decoding what was encoded\<close>

text \<open>The padded encoder pads unless the length is a multiple of three, and the unpadded never does.\<close>

lemma encode_unpadded: "b64pad \<notin> set (base64_EncodeToString False s)"
proof -
  have "set (base64_EncodeToString False s) \<subseteq> set b64alphabet"
    by (induction False s rule: base64_EncodeToString.induct) (auto simp: Let_def)
  then show ?thesis using b64alphabet_facts(3) by blast
qed

lemma encode_Nil [simp]: "base64_EncodeToString padded s = [] \<longleftrightarrow> s = []"
  by (cases "(padded, s)" rule: base64_EncodeToString.cases) (auto simp: Let_def)

lemma encode_last:
  "s \<noteq> [] \<Longrightarrow> last (base64_EncodeToString True s) = b64pad \<or> base64_EncodeToString True s = base64_EncodeToString False s"
proof (induction True s rule: base64_EncodeToString.induct)
  case (4 x y z rest)
  then show ?case by (cases "rest = []") (auto simp: Let_def)
qed (auto simp: Let_def)

lemma encode_trim: "strings_TrimSpace (base64_EncodeToString padded s) = base64_EncodeToString padded s"
proof -
  have "\<not> isSpace c" if "c \<in> set (base64_EncodeToString padded s)" for c
    using that encode_chars [of padded s] b64alphabet_no_space by (auto simp: b64pad_def isSpace_def)
  then have "dropWhile isSpace (base64_EncodeToString padded s) = base64_EncodeToString padded s"
    "dropWhile isSpace (rev (base64_EncodeToString padded s)) = rev (base64_EncodeToString padded s)"
    by (auto simp: dropWhile_eq_self_iff hd_rev)
  then show ?thesis by (simp add: strings_TrimSpace_def)
qed

lemma encode_filter:
  "filter (\<lambda>c. c \<noteq> CHR 0x0A \<and> c \<noteq> CHR 0x0D) (base64_EncodeToString padded s) = base64_EncodeToString padded s"
proof -
  have "CHR 0x0A \<notin> set (base64_EncodeToString padded s)" "CHR 0x0D \<notin> set (base64_EncodeToString padded s)"
    using encode_chars [of padded s] b64alphabet_facts by (auto simp: b64pad_def)
  then show ?thesis by (auto intro: filter_True)
qed

lemma DecodeString_encode: "base64_DecodeString padded (base64_EncodeToString padded s) = Inr s"
  by (simp add: base64_DecodeString_def encode_filter decode_encode)

lemma encode_suffix:
  assumes "s \<noteq> []"
  shows "base64_DecodeString (strings_HasSuffixChar (strings_TrimSpace (base64_EncodeToString padded s)) b64pad)
    (base64_EncodeToString padded s) = Inr s"
proof (cases "padded \<and> last (base64_EncodeToString True s) = b64pad")
  case True
  with assms show ?thesis by (simp add: encode_trim strings_HasSuffixChar_def DecodeString_encode)
next
  case False
  with encode_last [OF assms] have "base64_EncodeToString padded s = base64_EncodeToString False s" by (cases padded) auto
  moreover from assms have "last (base64_EncodeToString False s) \<noteq> b64pad"
    by (metis encode_Nil encode_unpadded last_in_set)
  ultimately show ?thesis by (simp add: encode_trim strings_HasSuffixChar_def DecodeString_encode)
qed

lemma decodeAuth_encode:
  "CHR '':'' \<notin> set user \<Longrightarrow>
   decodeContainerConfigFieldAuth (base64_EncodeToString padded (user @ CHR '':'' # pass)) = Inr (user, pass)"
  by (simp add: decodeContainerConfigFieldAuth_def encode_suffix strings_SplitN2_append)

lemma decodeEntries_map_of:
  "decodeEntries creds raw = Inr out \<Longrightarrow>
   map_of out k =
     (case map_of (rev raw) k of
        None \<Rightarrow> map_of creds k
      | Some e \<Rightarrow> (case ContainerConfigEntry_UnmarshalJSON e of Inl _ \<Rightarrow> None | Inr c \<Rightarrow> Some c))"
proof (induction creds raw rule: decodeEntries.induct)
  case (2 creds j e rest)
  then show ?case
    by (auto simp: update_conv' map_add_def split: sum.splits option.splits)
qed simp

lemma decodeEntries_ok:
  "list_all (\<lambda>(k, e). \<exists>c. ContainerConfigEntry_UnmarshalJSON e = Inr c) raw \<Longrightarrow> \<exists>out. decodeEntries creds raw = Inr out"
  by (induction creds raw rule: decodeEntries.induct) auto

end
