(* ===== verification/Registry_Properties.thy ===== *)
theory Registry_Properties
  imports Registry_Auth Selector_Properties
begin

text \<open>
  Registry credentials from the pull secret to the load request: the decoder of \<open>Registry_Auth\<close> composed with the bytecode
  selection of \<open>Agent_Env\<close>.
\<close>

definition pullsWith ::
    "('w, 'z) Env_scheme \<Rightarrow> ByteCodeImage \<Rightarrow> 'w rst \<Rightarrow> string \<Rightarrow> (string \<times> ContainerConfigEntryWithAuth result) list \<Rightarrow> 'w rst \<Rightarrow> bool" where
  "pullsWith env img s ref raw s' \<longleftrightarrow>
     reference_ParseNamed env (bi_Url img) = Inr ref \<and>
     (\<exists>sec obj data. bi_ImagePullSecret img = Some sec \<and>
        lift_world (k8s_GetSecret env (ips_Namespace sec) (ips_Name sec)) s = (Inr obj, s') \<and>
        sec_Type obj = ''kubernetes.io/dockerconfigjson'' \<and> map_of (sec_Data obj) ''.dockerconfigjson'' = Some data \<and> data \<noteq> [] \<and>
        json_DockerConfigJson env data = decodeEntries [] raw)"

lemma GetBytecode_credentials:
  assumes "bc_Image b = Some img" and "pullsWith env img s ref raw s'"
    and "list_all (\<lambda>(k, e). \<exists>c. ContainerConfigEntry_UnmarshalJSON e = Inr c) raw"
    and "map_of (rev raw) (credentialDomain (reference_Domain env ref)) = Some e"
    and "ContainerConfigEntry_UnmarshalJSON e = Inr c"
  shows "GetBytecode env b s =
    Some (Inr (BytecodeLocation_Image (bi_Url img) (imagePullPolicyConversion (bi_ImagePullPolicy img))
      (Some (Username c)) (Some (Password c))), s')"
proof -
  from decodeEntries_ok [OF assms(3), of "[]"] obtain out where out: "decodeEntries [] raw = Inr out" by blast
  with decodeEntries_map_of [OF out] assms(4,5)
  have "lookupCredential out (credentialDomain (reference_Domain env ref)) = c" by (simp add: lookupCredential_def)
  with assms(1,2) out show ?thesis by (auto simp: pullsWith_def GetBytecode_def ParseAuth_def Let_def)
qed

text \<open>
  C25: Credentials survive the way to the daemon: when the pull secret's document has, for the registry of the image, an entry whose
  \<^verbatim>\<open>auth\<close> field is the padded or unpadded base64 of \<^verbatim>\<open>user:password\<close> (the user name without a colon, the password arbitrary) and its
  other entries decode, the load request names the image with exactly that user name and password.
\<close>

theorem registry_credentials_roundtrip:
  assumes "bc_Image b = Some img" and "pullsWith env img s ref raw s'"
    and "list_all (\<lambda>(k, e). \<exists>c. ContainerConfigEntry_UnmarshalJSON e = Inr c) raw"
    and "map_of (rev raw) (credentialDomain (reference_Domain env ref)) = Some (Inr e)"
    and "wa_Auth e = base64_EncodeToString padded (user @ '':'' @ pass)" and "CHR '':'' \<notin> set user"
  shows "GetBytecode env b s =
    Some (Inr (BytecodeLocation_Image (bi_Url img) (imagePullPolicyConversion (bi_ImagePullPolicy img)) (Some user) (Some pass)), s')"
proof -
  have "ContainerConfigEntry_UnmarshalJSON (Inr e) = Inr \<lparr>Username = user, Password = pass, Email = ''''\<rparr>"
    using assms(5,6) decodeAuth_encode [of user padded pass] by (simp add: ContainerConfigEntry_UnmarshalJSON_def)
  with GetBytecode_credentials [OF assms(1-4)] show ?thesis by simp
qed

text \<open>
  Plain credentials are ignored: when the entry of the registry gives \<^verbatim>\<open>username\<close> and \<^verbatim>\<open>password\<close> but no \<^verbatim>\<open>auth\<close> field, the image
  is requested with an empty user name and an empty password, whatever the entry says.
\<close>

theorem plain_credentials_ignored:
  assumes "bc_Image b = Some img" and "pullsWith env img s ref raw s'"
    and "list_all (\<lambda>(k, e). \<exists>c. ContainerConfigEntry_UnmarshalJSON e = Inr c) raw"
    and "map_of (rev raw) (credentialDomain (reference_Domain env ref)) = Some (Inr e)" and "wa_Auth e = ''''"
  shows "GetBytecode env b s =
    Some (Inr (BytecodeLocation_Image (bi_Url img) (imagePullPolicyConversion (bi_ImagePullPolicy img)) (Some '''') (Some '''')), s')"
proof -
  have "ContainerConfigEntry_UnmarshalJSON (Inr e) = Inr \<lparr>Username = '''', Password = '''', Email = ''''\<rparr>"
    using assms(5) by (simp add: ContainerConfigEntry_UnmarshalJSON_def)
  with GetBytecode_credentials [OF assms(1-4)] show ?thesis by simp
qed

section \<open>A pull secret\<close>

definition dockerRaw :: "string \<Rightarrow> (string \<times> ContainerConfigEntryWithAuth result) list" where
  "dockerRaw auth =
     [(''https://index.docker.io/v1/'', Inr \<lparr>wa_Username = ''bob'', wa_Password = ''pw'', wa_Email = '''', wa_Auth = auth\<rparr>)]"

definition pullImage :: ByteCodeImage where
  "pullImage = \<lparr>bi_Url = ''docker.io/acme/xdp'', bi_ImagePullPolicy = ''Always'',
     bi_ImagePullSecret = Some \<lparr>ips_Name = ''regcred'', ips_Namespace = ''apps''\<rparr>\<rparr>"

definition secretEnv :: "string \<Rightarrow> ((unit, unit) fw, unit, unit) KEnv" where
  "secretEnv auth =
     fakeEnv\<lparr>k8s_GetSecret := (\<lambda>_ _ w. (Inr \<lparr>sec_Type = ''kubernetes.io/dockerconfigjson'', sec_Data = [(''.dockerconfigjson'', [123, 125])]\<rparr>, w)),
       json_DockerConfigJson := (\<lambda>_. decodeEntries [] (dockerRaw auth))\<rparr>"

lemma secretEnv_pulls:
  "pullsWith (secretEnv auth) pullImage \<lparr>world = blankWorld, netns_cache = []\<rparr> ''docker.io/acme/xdp'' (dockerRaw auth)
     \<lparr>world = blankWorld, netns_cache = []\<rparr>"
  by (simp add: pullsWith_def secretEnv_def fakeEnv_def pullImage_def lift_world_def)

lemma secretEnv_domain: "credentialDomain (reference_Domain (secretEnv auth) ref) = ''https://index.docker.io/v1/''"
  by (simp add: secretEnv_def fakeEnv_def credentialDomain_def)

lemma registry_credentials_roundtrip_witness:
  "GetBytecode (secretEnv ''Ym9iOnA6dw=='') \<lparr>bc_Image = Some pullImage, bc_Path = None\<rparr> \<lparr>world = blankWorld, netns_cache = []\<rparr> =
     Some (Inr (BytecodeLocation_Image ''docker.io/acme/xdp'' 0 (Some ''bob'') (Some ''p:w'')), \<lparr>world = blankWorld, netns_cache = []\<rparr>)"
proof -
  have enc: "base64_EncodeToString True (''bob'' @ '':'' @ ''p:w'') = ''Ym9iOnA6dw==''"
    by (simp add: Let_def b64digit_def b64alphabet_def b64pad_def of_char_def)
  then have "ContainerConfigEntry_UnmarshalJSON (Inr \<lparr>wa_Username = ''bob'', wa_Password = ''pw'', wa_Email = '''', wa_Auth = ''Ym9iOnA6dw==''\<rparr>) =
      Inr \<lparr>Username = ''bob'', Password = ''p:w'', Email = ''''\<rparr>"
    using decodeAuth_encode [of "''bob''" True "''p:w''"] by (simp add: ContainerConfigEntry_UnmarshalJSON_def)
  then have "list_all (\<lambda>(k, e). \<exists>c. ContainerConfigEntry_UnmarshalJSON e = Inr c) (dockerRaw ''Ym9iOnA6dw=='')"
    by (simp add: dockerRaw_def)
  from registry_credentials_roundtrip [OF _ secretEnv_pulls this, of _ _ True "''bob''" "''p:w''"] enc
  show ?thesis by (simp add: secretEnv_domain dockerRaw_def pullImage_def imagePullPolicyConversion_def)
qed

lemma plain_credentials_ignored_witness:
  "GetBytecode (secretEnv '''') \<lparr>bc_Image = Some pullImage, bc_Path = None\<rparr> \<lparr>world = blankWorld, netns_cache = []\<rparr> =
     Some (Inr (BytecodeLocation_Image ''docker.io/acme/xdp'' 0 (Some '''') (Some '''')), \<lparr>world = blankWorld, netns_cache = []\<rparr>)"
proof -
  have "list_all (\<lambda>(k, e). \<exists>c. ContainerConfigEntry_UnmarshalJSON e = Inr c) (dockerRaw '''')"
    by (simp add: dockerRaw_def ContainerConfigEntry_UnmarshalJSON_def)
  from plain_credentials_ignored [OF _ secretEnv_pulls this]
  show ?thesis by (simp add: secretEnv_domain dockerRaw_def pullImage_def imagePullPolicyConversion_def)
qed

end
