(* ===== verification/Daemon_Listing.thy ===== *)
theory Daemon_Listing
  imports Link_Contract Go_Strings "HOL-Library.AList"
begin

text \<open>
  Program types and the listing calls of the daemon: the enumeration of \<^verbatim>\<open>internal/constants.go\<close>, its copy in
  \<^verbatim>\<open>pkg/helpers/helpers.go\<close>, and the functions of \<^verbatim>\<open>controllers/bpfman-agent/internal/bpfman_core.go\<close> that list
  programs and render the kernel's information about them.

  A program type of Go is any 32-bit integer, so it is a word here, and the constants are its named values.
\<close>

named_theorems prog_types

section \<open>Program types\<close>

type_synonym ProgramType = "32 word"

definition PT_Unspec :: ProgramType where [prog_types]: "PT_Unspec = 0"
definition PT_SocketFilter :: ProgramType where [prog_types]: "PT_SocketFilter = 1"
definition PT_Kprobe :: ProgramType where [prog_types]: "PT_Kprobe = 2"
definition PT_Tc :: ProgramType where [prog_types]: "PT_Tc = 3"
definition PT_SchedAct :: ProgramType where [prog_types]: "PT_SchedAct = 4"
definition PT_Tracepoint :: ProgramType where [prog_types]: "PT_Tracepoint = 5"
definition PT_Xdp :: ProgramType where [prog_types]: "PT_Xdp = 6"
definition PT_PerfEvent :: ProgramType where [prog_types]: "PT_PerfEvent = 7"
definition PT_CgroupSkb :: ProgramType where [prog_types]: "PT_CgroupSkb = 8"
definition PT_CgroupSock :: ProgramType where [prog_types]: "PT_CgroupSock = 9"
definition PT_LwtIn :: ProgramType where [prog_types]: "PT_LwtIn = 10"
definition PT_LwtOut :: ProgramType where [prog_types]: "PT_LwtOut = 11"
definition PT_LwtXmit :: ProgramType where [prog_types]: "PT_LwtXmit = 12"
definition PT_SockOps :: ProgramType where [prog_types]: "PT_SockOps = 13"
definition PT_SkSkb :: ProgramType where [prog_types]: "PT_SkSkb = 14"
definition PT_CgroupDevice :: ProgramType where [prog_types]: "PT_CgroupDevice = 15"
definition PT_SkMsg :: ProgramType where [prog_types]: "PT_SkMsg = 16"
definition PT_RawTracepoint :: ProgramType where [prog_types]: "PT_RawTracepoint = 17"
definition PT_CgroupSockAddr :: ProgramType where [prog_types]: "PT_CgroupSockAddr = 18"
definition PT_LwtSeg6Local :: ProgramType where [prog_types]: "PT_LwtSeg6Local = 19"
definition PT_LircMode2 :: ProgramType where [prog_types]: "PT_LircMode2 = 20"
definition PT_SkReuseport :: ProgramType where [prog_types]: "PT_SkReuseport = 21"
definition PT_FlowDissector :: ProgramType where [prog_types]: "PT_FlowDissector = 22"
definition PT_CgroupSysctl :: ProgramType where [prog_types]: "PT_CgroupSysctl = 23"
definition PT_RawTracepointWritable :: ProgramType where [prog_types]: "PT_RawTracepointWritable = 24"
definition PT_CgroupSockopt :: ProgramType where [prog_types]: "PT_CgroupSockopt = 25"
definition PT_Tracing :: ProgramType where [prog_types]: "PT_Tracing = 26"
definition PT_StructOps :: ProgramType where [prog_types]: "PT_StructOps = 27"
definition PT_Ext :: ProgramType where [prog_types]: "PT_Ext = 28"
definition PT_Lsm :: ProgramType where [prog_types]: "PT_Lsm = 29"
definition PT_SkLookup :: ProgramType where [prog_types]: "PT_SkLookup = 30"
definition PT_Syscall :: ProgramType where [prog_types]: "PT_Syscall = 31"
definition AllPrograms :: ProgramType where [prog_types]: "AllPrograms = 32"

definition ProgramType_String :: "ProgramType \<Rightarrow> string" where
  "ProgramType_String p =
     (if p = PT_Unspec then ''unspec''
      else if p = PT_SocketFilter then ''socket_filter''
      else if p = PT_Kprobe then ''kprobe''
      else if p = PT_Tc then ''tc''
      else if p = PT_SchedAct then ''sched_act''
      else if p = PT_Tracepoint then ''tracepoint''
      else if p = PT_Xdp then ''xdp''
      else if p = PT_PerfEvent then ''perf_event''
      else if p = PT_CgroupSkb then ''cgroup_skb''
      else if p = PT_CgroupSock then ''cgroup_sock''
      else if p = PT_LwtIn then ''lwt_in''
      else if p = PT_LwtOut then ''lwt_out''
      else if p = PT_LwtXmit then ''lwt_xmit''
      else if p = PT_SockOps then ''sock_ops''
      else if p = PT_SkSkb then ''sk_skb''
      else if p = PT_CgroupDevice then ''cgroup_device''
      else if p = PT_SkMsg then ''sk_msg''
      else if p = PT_RawTracepoint then ''raw_tracepoint''
      else if p = PT_CgroupSockAddr then ''cgroup_sock_addr''
      else if p = PT_LwtSeg6Local then ''lwt_seg6local''
      else if p = PT_LircMode2 then ''lirc_mode2''
      else if p = PT_SkReuseport then ''sk_reuseport''
      else if p = PT_FlowDissector then ''flow_dissector''
      else if p = PT_CgroupSysctl then ''cgroup_sysctl''
      else if p = PT_RawTracepointWritable then ''raw_tracepoint_writable''
      else if p = PT_CgroupSockopt then ''cgroup_sockopt''
      else if p = PT_Tracing then ''tracing''
      else if p = PT_StructOps then ''struct_ops''
      else if p = PT_Ext then ''ext''
      else if p = PT_Lsm then ''lsm''
      else if p = PT_SkLookup then ''sk_lookup''
      else if p = PT_Syscall then ''syscall''
      else ''INVALID_PROG_TYPE'')"

definition FromString :: "string \<Rightarrow> ProgramType result" where
  "FromString p =
     (if p = ''tc'' then Inr PT_Tc
      else if p = ''xdp'' then Inr PT_Xdp
      else if p = ''tracepoint'' then Inr PT_Tracepoint
      else if p = ''kprobe'' then Inr PT_Kprobe
      else if p = ''uprobe'' then Inr PT_Kprobe
      else if p = ''fentry'' then Inr PT_Tracing
      else if p = ''fexit'' then Inr PT_Tracing
      else Inl (''unknown program type: '' @ p))"

subsection \<open>The copy of package helpers\<close>

definition helpers_Kprobe :: ProgramType where [prog_types]: "helpers_Kprobe = 2"
definition helpers_Tc :: ProgramType where [prog_types]: "helpers_Tc = 3"
definition helpers_Tracepoint :: ProgramType where [prog_types]: "helpers_Tracepoint = 5"
definition helpers_Xdp :: ProgramType where [prog_types]: "helpers_Xdp = 6"
definition helpers_Tracing :: ProgramType where [prog_types]: "helpers_Tracing = 26"

definition helpers_FromString :: "string \<Rightarrow> ProgramType result" where
  "helpers_FromString p =
     (if p = ''kprobe'' then Inr helpers_Kprobe
      else if p = ''tc'' then Inr helpers_Tc
      else if p = ''xdp'' then Inr helpers_Xdp
      else if p = ''tracepoint'' then Inr helpers_Tracepoint
      else if p = ''tracing'' then Inr helpers_Tracing
      else Inl (''unknown program type: '' @ p))"

definition helpers_String :: "ProgramType \<Rightarrow> string" where
  "helpers_String p =
     (if p = helpers_Kprobe then ''kprobe''
      else if p = helpers_Tc then ''tc''
      else if p = helpers_Xdp then ''xdp''
      else if p = helpers_Tracepoint then ''tracepoint''
      else if p = helpers_Tracing then ''tracing''
      else '''')"

definition TcProgramDirection_String :: "32 word \<Rightarrow> string" where
  "TcProgramDirection_String t = (if t = 1 then ''ingress'' else if t = 2 then ''egress'' else '''')"

section \<open>Reconcile results\<close>

definition ReconcileResult_String :: "8 word \<Rightarrow> string" where
  "ReconcileResult_String r =
     (if r = 0 then ''Unchanged''
      else if r = 1 then ''Updated''
      else if r = 2 then ''Requeue''
      else ''INVALID RECONCILE RESULT ('' @ show_nat (unat r) @ '')'')"

section \<open>Listing programs\<close>

record KernelInfo =
  ki_Id :: uint32
  ki_Name :: string
  ki_ProgramType :: uint32
  ki_LoadedAt :: string
  ki_Tag :: string
  ki_GplCompatible :: bool
  ki_MapIds :: "uint32 list"
  ki_BtfId :: uint32
  ki_BytesXlated :: uint32
  ki_Jited :: bool
  ki_BytesJited :: uint32
  ki_BytesMemlock :: uint32
  ki_VerifiedInsns :: uint32

record ListResult =
  lres_Metadata :: "(string \<times> string) list option"
    \<comment> \<open>None when the result has no info\<close>
  lres_KernelInfo :: "KernelInfo option"

record ListRequest =
  lq_ProgramType :: "uint32 option"
  lq_BpfmanProgramsOnly :: "bool option"
  lq_MatchMetadata :: "(string \<times> string) list"

fun uuidLoop :: "ListResult list \<Rightarrow> (string \<times> ListResult) list \<Rightarrow> (string \<times> ListResult) list result" where
  "uuidLoop [] out = Inr out"
| "uuidLoop (result # results) out =
     (case lres_Metadata result of
        None \<Rightarrow> uuidLoop results out
      | Some metadata \<Rightarrow>
          (case map_of metadata UuidMetadataKey of
             Some uuid \<Rightarrow> uuidLoop results (AList.update uuid result out)
           | None \<Rightarrow> Inl ''unable to get uuid from program metadata''))"

definition ListBpfmanPrograms ::
    "(ListRequest \<Rightarrow> 'w \<Rightarrow> ListResult list result \<times> 'w) \<Rightarrow> ProgramType \<Rightarrow> 'w \<Rightarrow> (string \<times> ListResult) list result \<times> 'w" where
  "ListBpfmanPrograms list programType w =
     (let listReq = \<lparr>lq_ProgramType = None, lq_BpfmanProgramsOnly = Some True, lq_MatchMetadata = []\<rparr>;
          listReq = (if programType \<noteq> AllPrograms then listReq\<lparr>lq_ProgramType := Some programType\<rparr> else listReq) in
      case list listReq w of
        (Inl err, w) \<Rightarrow> (Inl err, w)
      | (Inr results, w) \<Rightarrow> (uuidLoop results [], w))"

definition ListBpfmanAttachments ::
    "(ListRequest \<Rightarrow> 'w \<Rightarrow> ListResult list result \<times> 'w) \<Rightarrow> ProgramType \<Rightarrow> 'w \<Rightarrow> (string \<times> ListResult) list result \<times> 'w" where
  "ListBpfmanAttachments list programType w =
     (let listReq = \<lparr>lq_ProgramType = None, lq_BpfmanProgramsOnly = Some True, lq_MatchMetadata = []\<rparr>;
          listReq = (if programType \<noteq> AllPrograms then listReq\<lparr>lq_ProgramType := Some programType\<rparr> else listReq) in
      case list listReq w of
        (Inl err, w) \<Rightarrow> (Inl err, w)
      | (Inr results, w) \<Rightarrow> (uuidLoop results [], w))"

definition GetBpfmanProgram ::
    "(ListRequest \<Rightarrow> 'w \<Rightarrow> ListResult list result \<times> 'w) \<Rightarrow> string \<Rightarrow> 'w \<Rightarrow> ListResult result \<times> 'w" where
  "GetBpfmanProgram list uuid w =
     (case list \<lparr>lq_ProgramType = None, lq_BpfmanProgramsOnly = None, lq_MatchMetadata = [(UuidMetadataKey, uuid)]\<rparr> w of
        (Inl err, w) \<Rightarrow> (Inl err, w)
      | (Inr results, w) \<Rightarrow>
          ((case results of
              [] \<Rightarrow> Inl (''unable to find program for uuid: '' @ uuid)
            | [result] \<Rightarrow> Inr result
            | _ \<Rightarrow> Inl (''multiple programs found for uuid: '' @ uuid)), w))"

definition ListAllPrograms ::
    "(ListRequest \<Rightarrow> 'w \<Rightarrow> ListResult list result \<times> 'w) \<Rightarrow> 'w \<Rightarrow> ListResult list result \<times> 'w" where
  "ListAllPrograms list w = list \<lparr>lq_ProgramType = None, lq_BpfmanProgramsOnly = None, lq_MatchMetadata = []\<rparr> w"

definition show_bool :: "bool \<Rightarrow> string" where
  "show_bool b = (if b then ''true'' else ''false'')"

fun show_ids :: "uint32 list \<Rightarrow> string" where
  "show_ids [] = ''''"
| "show_ids [i] = show_nat (unat i)"
| "show_ids (i # is) = show_nat (unat i) @ '' '' @ show_ids is"

definition Build_kernel_info_annotations :: "ListResult \<Rightarrow> (string \<times> string) list option" where
  "Build_kernel_info_annotations p =
     map_option (\<lambda>k.
       [(''Kernel-ID'', show_nat (unat (ki_Id k))),
        (''Name'', ki_Name k),
        (''Type'', ProgramType_String (ki_ProgramType k)),
        (''Loaded-At'', ki_LoadedAt k),
        (''Tag'', ki_Tag k),
        (''GPL-Compatible'', show_bool (ki_GplCompatible k)),
        (''Map-IDs'', ''['' @ show_ids (ki_MapIds k) @ '']''),
        (''BTF-ID'', show_nat (unat (ki_BtfId k))),
        (''Size-Translated-Bytes'', show_nat (unat (ki_BytesXlated k))),
        (''JITed'', show_bool (ki_Jited k)),
        (''Size-JITed-Bytes'', show_nat (unat (ki_BytesJited k))),
        (''Kernel-Allocated-Memory-Bytes'', show_nat (unat (ki_BytesMemlock k))),
        (''Verified-Instruction-Count'', show_nat (unat (ki_VerifiedInsns k)))])
       (lres_KernelInfo p)"

section \<open>Lemmas\<close>

definition uuidOf :: "ListResult \<Rightarrow> string option" where
  "uuidOf result = Option.bind (lres_Metadata result) (\<lambda>m. map_of m UuidMetadataKey)"

definition anonymous :: "ListResult \<Rightarrow> bool" where
  "anonymous result \<longleftrightarrow> lres_Metadata result \<noteq> None \<and> uuidOf result = None"

lemma uuidLoop_spec:
  "uuidLoop results out =
     (if list_ex anonymous results then Inl ''unable to get uuid from program metadata''
      else Inr (fold (\<lambda>r. case uuidOf r of None \<Rightarrow> id | Some uuid \<Rightarrow> AList.update uuid r) results out))"
  by (induction results out rule: uuidLoop.induct) (auto simp: anonymous_def uuidOf_def split: option.split)

lemma fold_uuid:
  "map_of (fold (\<lambda>r. case uuidOf r of None \<Rightarrow> id | Some uuid \<Rightarrow> AList.update uuid r) results out) uuid =
     (case find (\<lambda>r. uuidOf r = Some uuid) (rev results) of None \<Rightarrow> map_of out uuid | Some r \<Rightarrow> Some r)"
proof (induction results rule: rev_induct)
  case (snoc r results)
  then show ?case by (auto simp: update_conv' split: option.splits)
qed simp

lemma ListBpfmanAttachments_eq: "ListBpfmanAttachments = ListBpfmanPrograms"
  by (simp add: fun_eq_iff ListBpfmanAttachments_def ListBpfmanPrograms_def)

end
