(* ===== verification/Listing_Properties.thy ===== *)
theory Listing_Properties
  imports Daemon_Listing
begin

text \<open>What the program types mean across the two packages, and what a listing returns.\<close>

section \<open>The enumeration of the kernel\<close>

definition kernelNames :: "string list" where
  "kernelNames =
     [''unspec'', ''socket_filter'', ''kprobe'', ''tc'', ''sched_act'', ''tracepoint'', ''xdp'', ''perf_event'',
      ''cgroup_skb'', ''cgroup_sock'', ''lwt_in'', ''lwt_out'', ''lwt_xmit'', ''sock_ops'', ''sk_skb'',
      ''cgroup_device'', ''sk_msg'', ''raw_tracepoint'', ''cgroup_sock_addr'', ''lwt_seg6local'', ''lirc_mode2'',
      ''sk_reuseport'', ''flow_dissector'', ''cgroup_sysctl'', ''raw_tracepoint_writable'', ''cgroup_sockopt'',
      ''tracing'', ''struct_ops'', ''ext'', ''lsm'', ''sk_lookup'', ''syscall'']"

lemma kernelNames_facts: "length kernelNames = 32" "distinct kernelNames" "''INVALID_PROG_TYPE'' \<notin> set kernelNames"
  by (simp_all add: kernelNames_def)

lemma ProgramType_String_names: "map (\<lambda>n. ProgramType_String (of_nat n)) [0..<32] = kernelNames"
  by (simp add: upt_rec kernelNames_def ProgramType_String_def prog_types)

lemma ProgramType_String_nat: "n < 32 \<Longrightarrow> ProgramType_String (of_nat n) = kernelNames ! n"
  by (simp flip: ProgramType_String_names)

lemma ProgramType_String_kernel:
  "ProgramType_String p = (if unat p < 32 then kernelNames ! unat p else ''INVALID_PROG_TYPE'')"
proof (cases "unat p < 32")
  case True
  then show ?thesis using ProgramType_String_nat [of "unat p"] by simp
next
  case False
  then have "p \<noteq> of_nat n" if "n < 32" for n using that by (auto simp: unat_of_nat)
  from this [of 0] this [of 1] this [of 2] this [of 3] this [of 4] this [of 5] this [of 6] this [of 7] this [of 8] this [of 9]
    this [of 10] this [of 11] this [of 12] this [of 13] this [of 14] this [of 15] this [of 16] this [of 17] this [of 18]
    this [of 19] this [of 20] this [of 21] this [of 22] this [of 23] this [of 24] this [of 25] this [of 26] this [of 27]
    this [of 28] this [of 29] this [of 30] this [of 31]
  show ?thesis using False by (simp add: ProgramType_String_def prog_types)
qed

section \<open>Properties\<close>



text \<open>
  A listing fails exactly when a result with information has no uuid in its metadata; otherwise it maps each uuid
  to the last result that carries it, and nothing else; and listing attachments is the same function as listing programs.
\<close>

theorem listing_exact:
  assumes "list \<lparr>lq_ProgramType = (if t = AllPrograms then None else Some t), lq_BpfmanProgramsOnly = Some True, lq_MatchMetadata = []\<rparr> w =
    (Inr results, w')"
  shows "(case ListBpfmanPrograms list t w of
            (Inl err, v) \<Rightarrow> list_ex anonymous results \<and> v = w'
          | (Inr out, v) \<Rightarrow> \<not> list_ex anonymous results \<and> v = w' \<and>
              (\<forall>uuid. map_of out uuid = find (\<lambda>r. uuidOf r = Some uuid) (rev results))) \<and>
    ListBpfmanAttachments list t w = ListBpfmanPrograms list t w"
proof -
  have "ListBpfmanPrograms list t w = (uuidLoop results [], w')"
    using assms by (auto simp: ListBpfmanPrograms_def split: if_splits)
  then show ?thesis by (auto simp: ListBpfmanAttachments_eq uuidLoop_spec fold_uuid split: option.split)
qed

definition listedProg :: "string \<Rightarrow> uint32 \<Rightarrow> ListResult" where
  "listedProg uuid i =
     \<lparr>lres_Metadata = Some [(''bpfman.io/uuid'', uuid)],
      lres_KernelInfo = Some \<lparr>ki_Id = i, ki_Name = ''xdp'', ki_ProgramType = 6, ki_LoadedAt = '''', ki_Tag = '''',
        ki_GplCompatible = True, ki_MapIds = [], ki_BtfId = 0, ki_BytesXlated = 0, ki_Jited = True, ki_BytesJited = 0,
        ki_BytesMemlock = 0, ki_VerifiedInsns = 0\<rparr>\<rparr>"

lemma listing_exact_witness:
  "\<exists>out. ListBpfmanPrograms (\<lambda>_ w. (Inr [listedProg ''a'' 1, listedProg ''b'' 2, listedProg ''a'' 3], w)) PT_Xdp () = (Inr out, ()) \<and>
     map_of out ''a'' = Some (listedProg ''a'' 3)"
proof -
  let ?rs = "[listedProg ''a'' 1, listedProg ''b'' 2, listedProg ''a'' 3]"
  obtain q where q: "ListBpfmanPrograms (\<lambda>_ w. (Inr ?rs, w)) PT_Xdp () = (q, ())" by (cases "ListBpfmanPrograms (\<lambda>_ w. (Inr ?rs, w)) PT_Xdp ()") auto
  have "\<not> list_ex anonymous ?rs" by (simp add: anonymous_def uuidOf_def listedProg_def UuidMetadataKey_def)
  with listing_exact [of "\<lambda>_ w. (Inr ?rs, w)" PT_Xdp "()" ?rs "()"] q show ?thesis
    by (auto simp: uuidOf_def listedProg_def UuidMetadataKey_def split: sum.splits)
qed

end
