(* ===== verification/Bpffs.thy ===== *)
theory Bpffs
  imports Go_Strings
begin

text \<open>
  The BPF file system mount: \<^verbatim>\<open>internal/bpffs/bpffs.go\<close> and the init-container mode of the agent
  (\<^verbatim>\<open>handleMountBPFFS\<close> in \<^verbatim>\<open>cmd/bpfman-agent/main.go\<close>).

  The operating system is the record \<open>OsEnv\<close>. Reading the mountinfo file yields the lines the scanner delivers and, when
  it stops early, its error. The locale \<open>mount_os\<close> says what the code needs from the system: the file
  describes the mounts, and the system calls do what they are named for. It is interpreted on a system that
  prints its mount table in the format of \<^verbatim>\<open>proc(5)\<close>, so that the interpretation rests on the parser.
\<close>

section \<open>The operating system\<close>

datatype StatError = StatNotExist | StatOther goerror

record 'w OsEnv =
  os_ReadMountInfo :: "string \<Rightarrow> 'w \<Rightarrow> (string list \<times> goerror option) result \<times> 'w"
  os_StatDir :: "string \<Rightarrow> 'w \<Rightarrow> (StatError + bool) \<times> 'w"
  os_MkdirAll :: "string \<Rightarrow> 'w \<Rightarrow> unit result \<times> 'w"
  sys_Mount :: "string \<Rightarrow> 'w \<Rightarrow> unit result \<times> 'w"
  sys_Unmount :: "string \<Rightarrow> 'w \<Rightarrow> unit result \<times> 'w"

section \<open>Package bpffs\<close>

definition lineMatches :: "string \<Rightarrow> string \<Rightarrow> bool" where
  "lineMatches mountPoint line =
     (case strings_Index line '' - '' of
        None \<Rightarrow> False
      | Some sepIdx \<Rightarrow>
          (let fields = strings_Fields (take sepIdx line); suffixFields = strings_Fields (drop (sepIdx + 3) line) in
           5 \<le> length fields \<and> suffixFields \<noteq> [] \<and> fields ! 4 = mountPoint \<and> hd suffixFields = ''bpf''))"

fun scanLoop :: "string \<Rightarrow> string list \<Rightarrow> bool" where
  "scanLoop mountPoint [] = False"
| "scanLoop mountPoint (line # lines) = (if lineMatches mountPoint line then True else scanLoop mountPoint lines)"

definition IsMounted :: "'w OsEnv \<Rightarrow> string \<Rightarrow> string \<Rightarrow> 'w \<Rightarrow> bool result \<times> 'w" where
  "IsMounted env mountInfoPath mountPoint w =
     (case os_ReadMountInfo env mountInfoPath w of
        (Inl err, w) \<Rightarrow> (Inl (''opening mountinfo: '' @ err), w)
      | (Inr (lines, scanErr), w) \<Rightarrow>
          if scanLoop mountPoint lines then (Inr True, w)
          else (case scanErr of
                  Some err \<Rightarrow> (Inl (''reading mountinfo: '' @ err), w)
                | None \<Rightarrow> (Inr False, w)))"

definition mountSyscall :: "'w OsEnv \<Rightarrow> string \<Rightarrow> 'w \<Rightarrow> unit result \<times> 'w" where
  "mountSyscall env mountPoint w =
     (case sys_Mount env mountPoint w of
        (Inl err, w) \<Rightarrow> (Inl (''mount syscall: '' @ err), w)
      | (Inr _, w) \<Rightarrow> (Inr (), w))"

definition Mount :: "'w OsEnv \<Rightarrow> string \<Rightarrow> 'w \<Rightarrow> unit result \<times> 'w" where
  "Mount env mountPoint w =
     (case os_StatDir env mountPoint w of
        (Inr False, w) \<Rightarrow> (Inl ''mount point exists but is not a directory'', w)
      | (Inr True, w) \<Rightarrow> mountSyscall env mountPoint w
      | (Inl StatNotExist, w) \<Rightarrow>
          (case os_MkdirAll env mountPoint w of
             (Inl err, w) \<Rightarrow> (Inl (''creating mount point directory: '' @ err), w)
           | (Inr _, w) \<Rightarrow> mountSyscall env mountPoint w)
      | (Inl (StatOther err), w) \<Rightarrow> (Inl (''stat mount point: '' @ err), w))"

definition Unmount :: "'w OsEnv \<Rightarrow> string \<Rightarrow> 'w \<Rightarrow> unit result \<times> 'w" where
  "Unmount env mountPoint w =
     (case sys_Unmount env mountPoint w of
        (Inl err, w) \<Rightarrow> (Inl (''unmount syscall: '' @ err), w)
      | (Inr _, w) \<Rightarrow> (Inr (), w))"

definition EnsureMounted :: "'w OsEnv \<Rightarrow> string \<Rightarrow> string \<Rightarrow> 'w \<Rightarrow> unit result \<times> 'w" where
  "EnsureMounted env mountInfoPath mountPoint w =
     (case IsMounted env mountInfoPath mountPoint w of
        (Inl err, w) \<Rightarrow> (Inl err, w)
      | (Inr True, w) \<Rightarrow> (Inr (), w)
      | (Inr False, w) \<Rightarrow> Mount env mountPoint w)"

section \<open>The init container\<close>

text \<open>The exit code, the message and the error.\<close>

type_synonym mountOutcome = "int \<times> string \<times> goerror option"

definition mountOrRace ::
    "'w OsEnv \<Rightarrow> string \<Rightarrow> string \<Rightarrow> string \<Rightarrow> 'w \<Rightarrow> mountOutcome \<times> 'w" where
  "mountOrRace env mountInfoPath mountPoint msg w =
     (case Mount env mountPoint w of
        (Inr _, w) \<Rightarrow> ((0, msg @ ''bpffs mounted at '' @ mountPoint @ [CHR 0x0A], None), w)
      | (Inl err, w) \<Rightarrow>
          (case IsMounted env mountInfoPath mountPoint w of
             (Inr True, w) \<Rightarrow> ((0, msg @ ''bpffs already mounted at '' @ mountPoint @ [CHR 0x0A], None), w)
           | (_, w) \<Rightarrow> ((1, '''', Some (''failed to mount bpffs at '' @ mountPoint @ '': '' @ err)), w)))"

definition handleMountBPFFS :: "'w OsEnv \<Rightarrow> string \<Rightarrow> string \<Rightarrow> bool \<Rightarrow> 'w \<Rightarrow> mountOutcome \<times> 'w" where
  "handleMountBPFFS env mountInfoPath mountPoint remount w =
     (case IsMounted env mountInfoPath mountPoint w of
        (Inl err, w) \<Rightarrow> ((1, '''', Some (''failed to check mount status at '' @ mountPoint @ '': '' @ err)), w)
      | (Inr mounted, w) \<Rightarrow>
          if \<not> remount then
            if mounted then ((0, ''bpffs already mounted at '' @ mountPoint @ [CHR 0x0A], None), w)
            else mountOrRace env mountInfoPath mountPoint '''' w
          else if mounted then
            (case Unmount env mountPoint w of
               (Inl err, w) \<Rightarrow> ((1, '''', Some (''failed to unmount bpffs at '' @ mountPoint @ '': '' @ err)), w)
             | (Inr _, w) \<Rightarrow>
                 mountOrRace env mountInfoPath mountPoint (''bpffs unmounted at '' @ mountPoint @ [CHR 0x0A]) w)
          else mountOrRace env mountInfoPath mountPoint '''' w)"

section \<open>The mountinfo format\<close>

record MountEntry =
  me_ids :: "string list"
    \<comment> \<open>mount id, parent id, major:minor and root\<close>
  me_mountPoint :: string
  me_options :: "string list"
    \<comment> \<open>mount options and optional fields\<close>
  me_fstype :: string
  me_source :: "string list"
    \<comment> \<open>source and super options\<close>

text \<open>Blanks inside fields are escaped by the kernel, and no field before the separator is a single dash.\<close>

definition wfEntry :: "MountEntry \<Rightarrow> bool" where
  "wfEntry e \<longleftrightarrow>
     length (me_ids e) = 4 \<and>
     list_all (\<lambda>f. isWord f \<and> f \<noteq> ''-'') (me_ids e @ me_mountPoint e # me_options e) \<and>
     isWord (me_fstype e) \<and> list_all isWord (me_source e)"

fun joinFields :: "string list \<Rightarrow> string" where
  "joinFields [] = ''''"
| "joinFields [f] = f"
| "joinFields (f # fs) = f @ '' '' @ joinFields fs"

definition printEntry :: "MountEntry \<Rightarrow> string" where
  "printEntry e =
     joinFields (me_ids e @ me_mountPoint e # me_options e) @ '' - '' @ joinFields (me_fstype e # me_source e)"

lemma strings_Fields_join: "list_all isWord fs \<Longrightarrow> strings_Fields (joinFields fs) = fs"
proof (induction fs rule: joinFields.induct)
  case (2 f)
  then show ?case by (simp add: strings_Fields_word)
next
  case (3 f g fs)
  then show ?case by (simp add: strings_Fields_Cons)
qed (simp add: strings_Fields_def)

lemma isWord_no_blank: "isWord f \<Longrightarrow> CHR '' '' \<notin> set f"
  by (auto simp: isWord_def list_all_iff isSpace_def)

text \<open>The first blank after a word, and a dash between two blanks, which is a field of its own.\<close>

lemma first_blank:
  "b \<notin> set f \<Longrightarrow> f @ b # x = u @ b # y \<Longrightarrow> u = f \<and> x = y \<or> (\<exists>u'. u = f @ b # u' \<and> x = u' @ b # y)"
proof (induction f arbitrary: u)
  case Nil
  then show ?case by (cases u) auto
next
  case (Cons c f)
  then show ?case by (cases u) auto
qed

lemma join_head: "\<exists>z. joinFields (g # fs) @ b # t = g @ (if fs = [] then b else CHR '' '') # z"
  by (cases fs) auto

lemma separator_not_inside:
  "list_all (\<lambda>f. isWord f \<and> f \<noteq> ''-'') fs \<Longrightarrow> fs \<noteq> [] \<Longrightarrow> joinFields fs @ '' - '' @ s = u @ '' - '' @ v \<Longrightarrow>
     length (joinFields fs) \<le> length u"
proof (induction fs arbitrary: u rule: joinFields.induct)
  case (2 f)
  then have "CHR '' '' \<notin> set f" by (simp add: isWord_no_blank)
  from first_blank [OF this, of "''- '' @ s" u "''- '' @ v"] 2 show ?case by auto
next
  case (3 f g fs)
  let ?rest = "joinFields (g # fs) @ '' - '' @ s"
  from 3 have f: "CHR '' '' \<notin> set f" and g: "CHR '' '' \<notin> set g" "g \<noteq> ''-''" "g \<noteq> []"
    using isWord_no_blank by (auto simp: isWord_def [of g])
  from 3 first_blank [OF f, of ?rest u "''- '' @ v"]
  consider "u = f" "?rest = ''-'' @ CHR '' '' # v" | u' where "u = f @ CHR '' '' # u'" "?rest = u' @ '' - '' @ v" by auto
  then show ?case
  proof cases
    case 1
    obtain z where "?rest = g @ CHR '' '' # z" using join_head [of g fs "CHR '' ''" "''- '' @ s"] by (auto split: if_splits)
    with 1(2) first_blank [OF g(1), of z "''-''" v] g show ?thesis by (auto simp: Cons_eq_append_conv)
  next
    case 2
    with 3 have "length (joinFields (g # fs)) \<le> length u'" by simp
    with 2 show ?thesis by simp
  qed
qed simp

lemma lineMatches_print:
  assumes "wfEntry e"
  shows "lineMatches mountPoint (printEntry e) \<longleftrightarrow> me_mountPoint e = mountPoint \<and> me_fstype e = ''bpf''"
proof -
  let ?fs = "me_ids e @ me_mountPoint e # me_options e" and ?gs = "me_fstype e # me_source e"
  from assms have words: "list_all (\<lambda>f. isWord f \<and> f \<noteq> ''-'') ?fs" and len: "length (me_ids e) = 4"
    and gs: "list_all isWord ?gs" by (simp_all add: wfEntry_def)
  from words have fs: "list_all isWord ?fs" by (auto simp: list_all_iff)
  have "strings_Index (printEntry e) '' - '' = Some (length (joinFields ?fs))"
    unfolding strings_Index_def printEntry_def
    using strings_IndexFrom_first [of "'' - ''" "joinFields ?fs @ '' - '' @ joinFields ?gs" "joinFields ?fs" "joinFields ?gs" 0]
      separator_not_inside [OF words] by simp
  moreover have "take (length (joinFields ?fs)) (printEntry e) = joinFields ?fs"
    "drop (length (joinFields ?fs) + 3) (printEntry e) = joinFields ?gs" by (simp_all add: printEntry_def)
  ultimately show ?thesis using len
    by (simp add: lineMatches_def strings_Fields_join [OF fs] strings_Fields_join [OF gs] nth_append)
qed

lemma scanLoop_iff: "scanLoop mountPoint lines \<longleftrightarrow> list_ex (lineMatches mountPoint) lines"
  by (induction lines) auto

section \<open>Contract of the operating system\<close>

locale mount_os =
  fixes env :: "'w OsEnv" and path :: string and mounted :: "'w \<Rightarrow> string \<Rightarrow> bool"
  assumes read_keeps: "mounted (snd (os_ReadMountInfo env path w)) = mounted w"
    and read_true: "fst (os_ReadMountInfo env path w) = Inr (lines, scanErr) \<Longrightarrow> scanLoop mp lines \<Longrightarrow> mounted w mp"
    and read_all: "fst (os_ReadMountInfo env path w) = Inr (lines, None) \<Longrightarrow> mounted w mp \<Longrightarrow> scanLoop mp lines"
    and mount_ok: "fst (sys_Mount env mp w) = Inr u \<Longrightarrow> mounted (snd (sys_Mount env mp w)) mp"
begin

lemma IsMounted_sound: "IsMounted env path mp w = (Inr b, w') \<Longrightarrow> mounted w' = mounted w \<and> (b \<longleftrightarrow> mounted w mp)"
  using read_keeps [of w] read_true [of w _ _ mp] read_all [of w _ mp]
  by (auto simp: IsMounted_def split: prod.splits sum.splits if_splits option.splits)

lemma Mount_ok: "Mount env mp w = (Inr u, w') \<Longrightarrow> mounted w' mp"
proof -
  have m: "mountSyscall env mp v = (Inr u, w') \<Longrightarrow> mounted w' mp" for v
    using mount_ok [of mp v] by (auto simp: mountSyscall_def split: prod.splits sum.splits)
  assume "Mount env mp w = (Inr u, w')"
  then show "mounted w' mp"
    by (auto simp: Mount_def intro: m split: prod.splits sum.splits bool.splits StatError.splits)
qed

lemma EnsureMounted_ok: "EnsureMounted env path mp w = (Inr u, w') \<Longrightarrow> mounted w' mp"
  by (auto simp: EnsureMounted_def dest: IsMounted_sound Mount_ok split: prod.splits sum.splits bool.splits)

lemma mountOrRace_ok: "mountOrRace env path mp msg w = ((0, out, err), w') \<Longrightarrow> mounted w' mp \<and> err = None"
  by (auto simp: mountOrRace_def dest: IsMounted_sound Mount_ok split: prod.splits sum.splits bool.splits)

lemma handleMount_ok: "handleMountBPFFS env path mp remount w = ((0, out, err), w') \<Longrightarrow> mounted w' mp \<and> err = None"
  by (auto simp: handleMountBPFFS_def dest: IsMounted_sound mountOrRace_ok split: prod.splits sum.splits if_splits)

end

end
