(* ===== verification/Bpffs_Properties.thy ===== *)
theory Bpffs_Properties
  imports Bpffs
begin

text \<open>
  What the mount helper promises, over any operating system that meets \<open>mount_os\<close>, and a mount table printed in the
  format of \<^verbatim>\<open>proc(5)\<close> that does.
\<close>

section \<open>A mount table\<close>

definition bpfEntry :: "string \<Rightarrow> MountEntry" where
  "bpfEntry mp =
     \<lparr>me_ids = [''30'', ''22'', ''0:27'', ''/''], me_mountPoint = mp, me_options = [''rw,nosuid'', ''shared:9''],
      me_fstype = ''bpf'', me_source = [''bpffs'', ''rw,mode=700'']\<rparr>"

definition rootEntry :: MountEntry where
  "rootEntry =
     \<lparr>me_ids = [''22'', ''1'', ''8:1'', ''/''], me_mountPoint = ''/'', me_options = [''rw''],
      me_fstype = ''ext4'', me_source = [''/dev/sda1'', ''rw'']\<rparr>"

definition bpfAt :: "string \<Rightarrow> MountEntry \<Rightarrow> bool" where
  "bpfAt mp e \<longleftrightarrow> me_mountPoint e = mp \<and> me_fstype e = ''bpf''"

definition tableMounted :: "MountEntry list \<Rightarrow> string \<Rightarrow> bool" where
  "tableMounted es mp \<longleftrightarrow> list_ex (\<lambda>e. wfEntry e \<and> bpfAt mp e) es"

fun popMount :: "string \<Rightarrow> MountEntry list \<Rightarrow> MountEntry list option" where
  "popMount mp [] = None"
| "popMount mp (e # es) = (if me_mountPoint e = mp then Some es else map_option ((#) e) (popMount mp es))"

definition tableOs :: "MountEntry list OsEnv" where
  "tableOs =
     \<lparr>os_ReadMountInfo = (\<lambda>path es.
        (if path = ''/proc/self/mountinfo'' then Inr (map printEntry (filter wfEntry es), None) else Inl ''no such file'', es)),
      os_StatDir = (\<lambda>mp es. (if list_ex (\<lambda>e. me_mountPoint e = mp) es then Inr True else Inl StatNotExist, es)),
      os_MkdirAll = (\<lambda>mp es. (Inr (), es)),
      sys_Mount = (\<lambda>mp es. if wfEntry (bpfEntry mp) then (Inr (), bpfEntry mp # es) else (Inl ''EINVAL'', es)),
      sys_Unmount = (\<lambda>mp es. case popMount mp es of None \<Rightarrow> (Inl ''EINVAL'', es) | Some es' \<Rightarrow> (Inr (), es'))\<rparr>"

lemma scanLoop_print:
  "list_all wfEntry es \<Longrightarrow> scanLoop mp (map printEntry es) \<longleftrightarrow> list_ex (bpfAt mp) es"
  by (induction es) (auto simp: lineMatches_print bpfAt_def)

lemma scanLoop_table: "scanLoop mp (map printEntry (filter wfEntry es)) \<longleftrightarrow> tableMounted es mp"
  by (simp add: scanLoop_print list_all_iff) (auto simp: tableMounted_def list_ex_iff)

interpretation tableOs: mount_os tableOs "''/proc/self/mountinfo''" tableMounted
  by unfold_locales
    (auto simp: tableOs_def scanLoop_table tableMounted_def bpfAt_def bpfEntry_def split: if_splits option.splits)

section \<open>Properties\<close>

text \<open>
  C33: The mountinfo parser inverts the printer: on a file whose lines are well-formed entries in the format of
  \<^verbatim>\<open>proc(5)\<close>, with any number of optional fields, \<open>IsMounted\<close> answers True exactly when one of the entries mounts a file
  system of type bpf at the path asked for; when none does, it answers False, or the scanner's error when the scan
  stopped early.
\<close>

theorem mountinfo_roundtrip:
  assumes "list_all wfEntry es" and "os_ReadMountInfo env path w = (Inr (map printEntry es, scanErr), w')"
  shows "IsMounted env path mp w =
    (if list_ex (bpfAt mp) es then Inr True
     else case scanErr of None \<Rightarrow> Inr False | Some err \<Rightarrow> Inl (''reading mountinfo: '' @ err), w')"
  using assms by (auto simp: IsMounted_def scanLoop_print split: option.split)

theorem mountinfo_roundtrip_witness:
  "list_all wfEntry [rootEntry, bpfEntry ''/sys/fs/bpf''] \<and>
   IsMounted tableOs ''/proc/self/mountinfo'' ''/sys/fs/bpf'' [rootEntry, bpfEntry ''/sys/fs/bpf''] =
     (Inr True, [rootEntry, bpfEntry ''/sys/fs/bpf'']) \<and>
   IsMounted tableOs ''/proc/self/mountinfo'' ''/'' [rootEntry, bpfEntry ''/sys/fs/bpf''] =
     (Inr False, [rootEntry, bpfEntry ''/sys/fs/bpf''])"
proof -
  have wf: "list_all wfEntry [rootEntry, bpfEntry ''/sys/fs/bpf'']"
    by (simp add: wfEntry_def rootEntry_def bpfEntry_def isWord_def isSpace_def)
  then have r: "os_ReadMountInfo tableOs ''/proc/self/mountinfo'' [rootEntry, bpfEntry ''/sys/fs/bpf''] =
      (Inr (map printEntry [rootEntry, bpfEntry ''/sys/fs/bpf''], None), [rootEntry, bpfEntry ''/sys/fs/bpf''])"
    by (simp add: tableOs_def)
  show ?thesis
    using wf mountinfo_roundtrip [OF wf r, of "''/sys/fs/bpf''"] mountinfo_roundtrip [OF wf r, of "''/''"]
    by (simp add: bpfAt_def rootEntry_def bpfEntry_def)
qed

text \<open>
  C32: The exit code of the init container is truthful: on an operating system whose mountinfo file describes its mounts
  and whose mount call mounts, \<open>handleMountBPFFS\<close> ends either with code 0, no error and a BPF file system mounted at
  the mount point, or with code 1, an error and no message; with or without remounting, and also when another process
  wins the race to mount.
\<close>

theorem mount_exit_code_truthful:
  assumes "mount_os env path mounted" and "handleMountBPFFS env path mp remount w = ((code, out, err), w')"
  shows "code = 0 \<and> err = None \<and> mounted w' mp \<or> code = 1 \<and> err \<noteq> None \<and> out = ''''"
proof (cases "code = 0")
  case True
  with assms mount_os.handleMount_ok [OF assms(1)] show ?thesis by blast
next
  case False
  with assms(2) show ?thesis
    by (auto simp: handleMountBPFFS_def mountOrRace_def split: prod.splits sum.splits if_splits bool.splits)
qed

lemma handleMount_example:
  "handleMountBPFFS tableOs ''/proc/self/mountinfo'' ''/sys/fs/bpf'' True [rootEntry, bpfEntry ''/sys/fs/bpf''] =
     ((0, ''bpffs unmounted at /sys/fs/bpf'' @ [CHR 0x0A] @ ''bpffs mounted at /sys/fs/bpf'' @ [CHR 0x0A], None),
      [bpfEntry ''/sys/fs/bpf'', rootEntry])"
proof -
  have wf: "wfEntry rootEntry" "wfEntry (bpfEntry ''/sys/fs/bpf'')"
    by (simp_all add: wfEntry_def rootEntry_def bpfEntry_def isWord_def isSpace_def)
  then have "scanLoop ''/sys/fs/bpf'' (map printEntry [rootEntry, bpfEntry ''/sys/fs/bpf''])"
    by (simp add: scanLoop_print bpfAt_def bpfEntry_def del: map_eq_conv list.map)
  then have "IsMounted tableOs ''/proc/self/mountinfo'' ''/sys/fs/bpf'' [rootEntry, bpfEntry ''/sys/fs/bpf''] =
      (Inr True, [rootEntry, bpfEntry ''/sys/fs/bpf''])" using wf by (simp add: IsMounted_def tableOs_def)
  moreover have "Unmount tableOs ''/sys/fs/bpf'' [rootEntry, bpfEntry ''/sys/fs/bpf''] = (Inr (), [rootEntry])"
    by (simp add: Unmount_def tableOs_def rootEntry_def bpfEntry_def)
  moreover have "Mount tableOs ''/sys/fs/bpf'' [rootEntry] = (Inr (), [bpfEntry ''/sys/fs/bpf'', rootEntry])"
    using wf(2) by (simp add: Mount_def mountSyscall_def tableOs_def rootEntry_def)
  ultimately show ?thesis by (simp add: handleMountBPFFS_def mountOrRace_def)
qed

theorem mount_exit_code_truthful_witness:
  "tableMounted [bpfEntry ''/sys/fs/bpf'', rootEntry] ''/sys/fs/bpf''"
  using mount_exit_code_truthful [OF tableOs.mount_os_axioms handleMount_example] by simp

end
