(* ===== verification/Agent_Frame.thy ===== *)
theory Agent_Frame
  imports Cl_Contract
begin

text \<open>
  What reconciling the programs of an application leaves alone. The reconcilers of the program types
  reach the world through a handful of calls: they attach, detach and query at the daemon, draw
  UUIDs and list containers. An observation of the world that none of these calls changes is therefore
  unchanged by the reconcile of a program of any type, which is what the theories about a whole fleet
  need of the program types: the program ids of the daemon and the objects of the API server are such
  observations.
\<close>

section \<open>Observations the program types keep\<close>

definition keepsView :: "('w, 'z) Env_scheme \<Rightarrow> ('w \<Rightarrow> 'v) \<Rightarrow> bool" where
  "keepsView env view \<longleftrightarrow>
     (\<forall>w. view (snd (uuid_New env w)) = view w) \<and>
     (\<forall>ns sel names w. view (snd (Containers_GetContainers env ns sel names w)) = view w) \<and>
     (\<forall>req w. view (snd (bpfman_Attach env req w)) = view w) \<and>
     (\<forall>i w. view (snd (bpfman_Detach env i w)) = view w) \<and>
     (\<forall>i w. view (snd (bpfman_Get env i w)) = view w) \<and>
     (\<forall>ns name w. view (snd (k8s_GetSecret env ns name w)) = view w)"

lemma lift_world_view:
  "lift_world f s = (r, s') \<Longrightarrow> (\<And>w. view (snd (f w)) = view w) \<Longrightarrow> view (world s') = view (world s)"
  by (auto simp: lift_world_def split: prod.splits) (metis snd_conv)

lemma GetBpfmanProgramById_view:
  "keepsView env view \<Longrightarrow> GetBpfmanProgramById env i s = (r, s') \<Longrightarrow> view (world s') = view (world s)"
  unfolding GetBpfmanProgramById_def keepsView_def by (erule lift_world_view) blast

lemma AttachBpfmanProgram_view:
  "keepsView env view \<Longrightarrow> AttachBpfmanProgram env req s = (r, s') \<Longrightarrow> view (world s') = view (world s)"
  unfolding AttachBpfmanProgram_def keepsView_def
  by (auto split: prod.splits sum.splits dest!: lift_world_view [where view = view])

lemma DetachBpfmanProgram_view:
  "keepsView env view \<Longrightarrow> DetachBpfmanProgram env i s = (r, s') \<Longrightarrow> view (world s') = view (world s)"
  unfolding DetachBpfmanProgram_def keepsView_def
  by (auto split: prod.splits sum.splits dest!: lift_world_view [where view = view])

lemma GetBytecode_view:
  "keepsView env view \<Longrightarrow> GetBytecode env b s = Some (r, s') \<Longrightarrow> view (world s') = view (world s)"
  unfolding GetBytecode_def ParseAuth_def keepsView_def Let_def
  by (auto split: option.splits prod.splits sum.splits if_splits simp: bind_eq_Some_conv
      dest!: lift_world_view [where view = view])

lemma isAttached_view:
  "keepsView env view \<Longrightarrow> isAttached env p l s = Some (b, s') \<Longrightarrow> view (world s') = view (world s)"
  by (auto simp: isAttached_def doesLinkExist_def bind_eq_Some_conv split: option.splits prod.splits sum.splits
      dest: GetBpfmanProgramById_view)

lemma reconcileBpfLink_view:
  assumes "keepsView env view" and "reconcileBpfLink env mkReq p l s = Some (x, s')"
  shows "view (world s') = view (world s)"
proof -
  obtain l' rm where "x = (l', rm)" by fastforce
  with assms(2) have "reconcileBpfLink env mkReq p l s = Some ((l', rm), s')" by simp
  then show ?thesis
    by (cases rule: reconcileBpfLink_cases)
      (auto dest!: isAttached_view [OF assms(1)] AttachBpfmanProgram_view [OF assms(1)] DetachBpfmanProgram_view [OF assms(1)])
qed

lemma reconcileEach_view:
  assumes "keepsView env view"
  shows "reconcileEach env mkReq p ls s = Some (x, s') \<Longrightarrow> view (world s') = view (world s)"
proof (induction ls arbitrary: s x)
  case (Cons l ls)
  then show ?case by (auto simp: bind_eq_Some_conv dest!: reconcileBpfLink_view [OF assms] Cons.IH)
qed simp

lemma progProcessLinks_view:
  "keepsView env view \<Longrightarrow> progProcessLinks env getLinks setLinks req ps s = Some (x, s') \<Longrightarrow>
   view (world s') = view (world s)"
  by (auto simp: progProcessLinks_def processLinks_def bind_eq_Some_conv Let_def dest: reconcileEach_view)

lemma getLoadRequest_view:
  assumes "keepsView env view" and "getLoadRequest env ops a st s = Some (r, s')"
  shows "view (world s') = view (world s)"
proof -
  from assms(2) obtain b t where b: "GetBytecode env (ByteCode (app_Spec a)) s = Some (b, t)"
    by (auto simp: getLoadRequest_def bind_eq_Some_conv)
  have "s' = t"
  proof (cases b)
    case (Inr bc)
    with assms(2) b obtain q where "loadInfos ops (statePrograms st) (SpecPrograms (app_Spec a)) = Some q"
      by (auto simp: getLoadRequest_def bind_eq_Some_conv)
    with assms(2) b Inr show ?thesis by (cases q) (auto simp: getLoadRequest_def)
  qed (use assms(2) b in \<open>simp add: getLoadRequest_def\<close>)
  with GetBytecode_view [OF assms(1) b] show ?thesis by simp
qed

lemma programs_view:
  assumes "\<And>q p s x s'. op_reconcileProgram ops q b p s = Some (x, s') \<Longrightarrow> view (world s') = view (world s)"
  shows "reconcilePrograms ops b qs c ps s = Some (x, s') \<Longrightarrow> view (world s') = view (world s)"
proof (induction qs arbitrary: c ps s)
  case (Cons q qs)
  from Cons.prems obtain r where r: "op_getProgState ops q ps = Some r" by (auto simp: bind_eq_Some_conv)
  show ?case
  proof (cases r)
    case (Inl e)
    with Cons r show ?thesis by simp
  next
    case (Inr i)
    with Cons.prems r obtain y t where y: "op_reconcileProgram ops q b (ps ! i) s = Some (y, t)"
      by (auto simp: bind_eq_Some_conv)
    from Cons.prems r Inr y Cons.IH [of _ _ t] assms [OF y] show ?thesis
      by (auto split: sum.splits prod.splits)
  qed
qed simp

text \<open>
  The contract of a program type speaks of the daemon's links only; any observation can be cast as one
  of those, by comparing it with the value it had.
\<close>

context program_type
begin

lemma expected_view:
  assumes "keepsView env view" and "getExpectedLinks a s = (r, s')"
  shows "view (world s') = view (world s)"
proof -
  let ?same = "\<lambda>w. {_ :: uint32. view w = view (world s)}"
  have "daemon_quiet env (\<lambda>_ _. {}) ?same"
    using assms(1) unfolding daemon_quiet_def keepsView_def by (metis snd_conv)
  from expected_quiet [OF this assms(2)] show ?thesis by (simp add: unchanged_def split: if_splits)
qed

lemma addExpected_view: "addExpectedLinks findLink es ls s = (x, s') \<Longrightarrow> world s' = world s"
proof (induction es arbitrary: ls s)
  case (Cons e es)
  obtain r t where f: "findLink e ls s = (r, t)" by fastforce
  then have t: "world t = world s" by (metis find_world snd_conv)
  show ?case using Cons.prems f t Cons.IH by (auto split: sum.splits option.splits)
qed simp

lemma addAll_view:
  assumes "keepsView env view"
  shows "addAttachInfos getExpectedLinks findLink as ls s = (x, s') \<Longrightarrow> view (world s') = view (world s)"
proof (induction as arbitrary: ls s)
  case (Cons a as)
  obtain r t where e: "getExpectedLinks a s = (r, t)" by fastforce
  note t = expected_view [OF assms e]
  show ?case
  proof (cases r)
    case (Inl err)
    with Cons.prems e t show ?thesis by simp
  next
    case (Inr es)
    obtain ls' u where u: "addExpectedLinks findLink es ls t = (ls', u)" by fastforce
    with Cons.prems e Inr have "addAttachInfos getExpectedLinks findLink as ls' u = (x, s')" by simp
    from Cons.IH [OF this] addExpected_view [OF u] t show ?thesis by simp
  qed
qed simp

lemma reconcile_view:
  assumes "keepsView env view" and "reconcile specs b ps s = Some (x, s')"
  shows "view (world s') = view (world s)"
proof -
  from assms(2) obtain y t where u: "progUpdateLinks getLinks setLinks getExpectedLinks findLink specs b ps s = Some (y, t)"
    by (auto simp: reconcileProgram_def bind_eq_Some_conv)
  then have t: "view (world t) = view (world s)"
    by (auto simp: progUpdateLinks_def updateLinks_def bind_eq_Some_conv Let_def split: if_splits prod.splits
        dest!: addAll_view [OF assms(1)])
  obtain q ps' where "y = (q, ps')" by fastforce
  with assms(2) u t show ?thesis
    by (cases q) (auto simp: reconcileProgram_def bind_eq_Some_conv dest: progProcessLinks_view [OF assms(1)])
qed

end

section \<open>The program types of a cluster application\<close>

lemmas Cl_reconcile_views = clFentry.reconcile_view clFexit.reconcile_view clKprobe.reconcile_view
  clKretprobe.reconcile_view clTracepoint.reconcile_view clUprobe.reconcile_view clTc.reconcile_view
  clTcx.reconcile_view clXdp.reconcile_view

lemma Cl_reconcileProgram_view:
  assumes "keepsView env view" and "op_reconcileProgram (Cl_ops env node) q b p s = Some (x, s')"
  shows "view (world s') = view (world s)"
  using assms(2) unfolding Cl_ops_def recReconcileProgram_def Cl_getProgramReconciler_def Cl_method_defs
  by (cases "cp_Type q") (auto simp: bind_eq_Some_conv dest: Cl_reconcile_views [OF assms(1)])

lemma Cl_loadInfo_name:
  "op_getProgramLoadInfo (Cl_ops env node) q = Some (Inr info) \<Longrightarrow> li_Name info = cp_Name q"
  unfolding Cl_ops_def recLoadInfo_def Cl_getProgramReconciler_def
  by (cases "cp_Type q") (auto simp: bind_eq_Some_conv ClFentry_getProgramLoadInfo_def
      ClFexit_getProgramLoadInfo_def ClKprobe_getProgramLoadInfo_def ClKretprobe_getProgramLoadInfo_def
      ClTracepoint_getProgramLoadInfo_def ClUprobe_getProgramLoadInfo_def ClTc_getProgramLoadInfo_def
      ClTcx_getProgramLoadInfo_def ClXdp_getProgramLoadInfo_def mkLoadInfo_def)

end
