(* ===== verification/Fleet_Protocol.thy ===== *)
theory Fleet_Protocol
  imports Agent_Frame Fake_Env
begin

text \<open>
  The protocol between the agents, the operator and the daemons of a cluster, abstracted from the
  reconcilers: what the API server stores (the applications and their state objects) and which
  programs the daemon of each node has loaded. Programs carry the name of their application in their
  metadata, as the agent's load request sets it.

  A reconcile of one application by the agent of one node is one of six abstract steps: nothing, the
  creation of a state object, a status update that keeps the program ids, one together with a load or
  an unload, or the removal of the agents' finalizer. The invariant \<open>fleetInv\<close> is shown to be kept by
  every step of the protocol; \<^verbatim>\<open>Fleet\<close> shows that the reconcilers implement the steps.
\<close>

section \<open>What is observed of the cluster\<close>

record ('q, 'p) Fleet =
  fl_apps :: "'q App list"
  fl_states :: "'p AppState list"
  fl_nodes :: "NodeObject list"
  fl_loaded :: "string \<Rightarrow> uint32 \<rightharpoonup> metadata"

abbreviation stName :: "'p AppState \<Rightarrow> string" where
  "stName st \<equiv> om_Name (st_Meta st)"

abbreviation appName :: "'q App \<Rightarrow> string" where
  "appName a \<equiv> om_Name (app_Meta a)"

text \<open>The state object of an application on a node, by its labels.\<close>

definition isStateOf :: "string \<Rightarrow> string \<Rightarrow> 'p AppState \<Rightarrow> bool" where
  "isStateOf name n st \<longleftrightarrow> hasLabels [(BpfAppStateOwner, name), (K8sHostLabel, n)] st"

definition progIds :: "'p BpfProgramStateCommon_scheme AppState \<Rightarrow> uint32 set" where
  "progIds st = {i. \<exists>p\<in>set (statePrograms st). ProgramId p = Some i}"

definition noneLoaded :: "'p BpfProgramStateCommon_scheme AppState \<Rightarrow> bool" where
  "noneLoaded st \<longleftrightarrow> (\<forall>p\<in>set (statePrograms st). ProgramId p = None)"

definition loadedFor :: "string \<Rightarrow> metadata option \<Rightarrow> bool" where
  "loadedFor name x \<longleftrightarrow> (\<exists>m. x = Some m \<and> map_of m ProgramNameKey = Some name)"

definition allLoaded :: "(uint32 \<rightharpoonup> metadata) \<Rightarrow> string \<Rightarrow> 'p BpfProgramStateCommon_scheme AppState \<Rightarrow> bool" where
  "allLoaded L name st \<longleftrightarrow>
     (\<forall>p\<in>set (statePrograms st). \<exists>i. ProgramId p = Some i \<and> loadedFor name (L i))"

definition namedLive :: "'q App list \<Rightarrow> string \<Rightarrow> bool" where
  "namedLive as name \<longleftrightarrow> (\<exists>a\<in>set as. appName a = name \<and> \<not> isBeingDeleted a)"

text \<open>A state object the operator counts neither as failed nor as pending.\<close>

definition settled :: "'p AppState \<Rightarrow> bool" where
  "settled st \<longleftrightarrow> \<not> IsBpfAppStateConditionFailure (Conditions (st_Status st)) \<and>
     \<not> IsBpfAppStateConditionPending (Conditions (st_Status st))"

abbreviation loadStatus :: "'p AppState \<Rightarrow> AppLoadStatus" where
  "loadStatus st \<equiv> AppLoadStatus (st_Status st)"

definition settledStatus :: "'p AppState \<Rightarrow> bool" where
  "settledStatus st \<longleftrightarrow> (settled st \<longrightarrow> loadStatus st \<in> {AppLoadSuccess, NotSelected, AppUnLoadSuccess})"

section \<open>The invariant\<close>

definition stateInv ::
    "string \<Rightarrow> ('q, 'p BpfProgramStateCommon_scheme) Fleet \<Rightarrow> string \<Rightarrow> string \<Rightarrow>
     'p BpfProgramStateCommon_scheme AppState \<Rightarrow> bool" where
  "stateInv fin fl name n st \<longleftrightarrow>
     (noneLoaded st \<or> allLoaded (fl_loaded fl n) name st) \<and>
     (fin \<notin> set (om_Finalizers (st_Meta st)) \<longrightarrow> noneLoaded st \<and> \<not> namedLive (fl_apps fl) name) \<and>
     (loadStatus st = AppUnLoadSuccess \<longrightarrow> \<not> namedLive (fl_apps fl) name) \<and>
     (loadStatus st = AppLoadSuccess \<longrightarrow> allLoaded (fl_loaded fl n) name st) \<and>
     settledStatus st"

definition recordedIn :: "'p BpfProgramStateCommon_scheme AppState list \<Rightarrow> (string \<Rightarrow> uint32 \<rightharpoonup> metadata) \<Rightarrow> bool" where
  "recordedIn sts L \<longleftrightarrow>
     (\<forall>n i m. L n i = Some m \<longrightarrow>
        (\<exists>name. map_of m ProgramNameKey = Some name \<and> (\<exists>st\<in>set sts. isStateOf name n st \<and> i \<in> progIds st)))"

definition fleetInv :: "string \<Rightarrow> ('q, 'p BpfProgramStateCommon_scheme) Fleet \<Rightarrow> bool" where
  "fleetInv fin fl \<longleftrightarrow>
     distinct (map appName (fl_apps fl)) \<and>
     distinct (map stName (fl_states fl)) \<and>
     (\<forall>name n st st'. st \<in> set (fl_states fl) \<and> st' \<in> set (fl_states fl) \<and> isStateOf name n st \<and> isStateOf name n st' \<longrightarrow>
        st' = st) \<and>
     (\<forall>st\<in>set (fl_states fl). (\<exists>name n. isStateOf name n st) \<and> (\<forall>name n. isStateOf name n st \<longrightarrow> stateInv fin fl name n st)) \<and>
     recordedIn (fl_states fl) (fl_loaded fl)"

section \<open>The steps\<close>

definition updState ::
    "string \<Rightarrow> ('p AppState \<Rightarrow> 'p AppState) \<Rightarrow> 'p AppState list \<Rightarrow> 'p AppState list" where
  "updState nm f sts = map (\<lambda>x. if stName x = nm then f x else x) sts"

text \<open>What a status update may write, beside the ids.\<close>

definition statusAllowed :: "'q App \<Rightarrow> 'p AppState \<Rightarrow> bool" where
  "statusAllowed a st \<longleftrightarrow> settledStatus st \<and> (loadStatus st = AppUnLoadSuccess \<longrightarrow> isBeingDeleted a)"

text \<open>One reconcile of the application \<open>a\<close> by the agent of node \<open>n\<close>.\<close>

inductive agentStep ::
    "string \<Rightarrow> string \<Rightarrow> 'q App \<Rightarrow> ('q, 'p BpfProgramStateCommon_scheme) Fleet \<Rightarrow>
     ('q, 'p BpfProgramStateCommon_scheme) Fleet \<Rightarrow> bool"
  for fin n a fl where
  idle: "agentStep fin n a fl fl"
| create: "\<not> isBeingDeleted a \<Longrightarrow> \<forall>x\<in>set (fl_states fl). \<not> isStateOf (appName a) n x \<Longrightarrow>
     isStateOf (appName a) n st \<Longrightarrow> stName st \<notin> stName ` set (fl_states fl) \<Longrightarrow>
     fin \<in> set (om_Finalizers (st_Meta st)) \<Longrightarrow> noneLoaded st \<Longrightarrow> settledStatus st \<Longrightarrow>
     loadStatus st \<notin> {AppLoadSuccess, AppUnLoadSuccess} \<Longrightarrow>
     agentStep fin n a fl (fl\<lparr>fl_states := fl_states fl @ [st]\<rparr>)"
| keep: "st \<in> set (fl_states fl) \<Longrightarrow> isStateOf (appName a) n st \<Longrightarrow>
     st' = st\<lparr>st_Status := x\<rparr> \<Longrightarrow> map ProgramId (statePrograms st') = map ProgramId (statePrograms st) \<Longrightarrow>
     statusAllowed a st' \<Longrightarrow> (loadStatus st' = AppLoadSuccess \<longrightarrow> allLoaded (fl_loaded fl n) (appName a) st') \<Longrightarrow>
     agentStep fin n a fl (fl\<lparr>fl_states := updState (stName st) (\<lambda>_. st') (fl_states fl)\<rparr>)"
| load: "st \<in> set (fl_states fl) \<Longrightarrow> isStateOf (appName a) n st \<Longrightarrow> \<not> isBeingDeleted a \<Longrightarrow>
     noneLoaded st \<Longrightarrow> st' = st\<lparr>st_Status := x\<rparr> \<Longrightarrow> statusAllowed a st' \<Longrightarrow>
     \<forall>i\<in>progIds st'. fl_loaded fl n i = None \<Longrightarrow> map_of m ProgramNameKey = Some (appName a) \<Longrightarrow>
     L = (\<lambda>i. if i \<in> progIds st' then Some m else fl_loaded fl n i) \<Longrightarrow> allLoaded L (appName a) st' \<Longrightarrow>
     agentStep fin n a fl (fl\<lparr>fl_states := updState (stName st) (\<lambda>_. st') (fl_states fl), fl_loaded := (fl_loaded fl)(n := L)\<rparr>)"
| unload: "st \<in> set (fl_states fl) \<Longrightarrow> isStateOf (appName a) n st \<Longrightarrow>
     st' = st\<lparr>st_Status := x\<rparr> \<Longrightarrow> noneLoaded st' \<Longrightarrow> statusAllowed a st' \<Longrightarrow> loadStatus st' \<noteq> AppLoadSuccess \<Longrightarrow>
     L = (\<lambda>i. if i \<in> progIds st then None else fl_loaded fl n i) \<Longrightarrow>
     agentStep fin n a fl (fl\<lparr>fl_states := updState (stName st) (\<lambda>_. st') (fl_states fl), fl_loaded := (fl_loaded fl)(n := L)\<rparr>)"
| release: "st \<in> set (fl_states fl) \<Longrightarrow> isStateOf (appName a) n st \<Longrightarrow> isBeingDeleted a \<Longrightarrow> noneLoaded st \<Longrightarrow>
     agentStep fin n a fl (fl\<lparr>fl_states := updState (stName st)
       (\<lambda>x. x\<lparr>st_Meta := (st_Meta x)\<lparr>om_Finalizers := removeAll fin (om_Finalizers (st_Meta x))\<rparr>\<rparr>) (fl_states fl)\<rparr>)"

text \<open>A step of the agent of node \<open>n\<close> is one for some application of the cluster.\<close>

definition agentMove ::
    "string \<Rightarrow> string \<Rightarrow> ('q, 'p BpfProgramStateCommon_scheme) Fleet \<Rightarrow> ('q, 'p BpfProgramStateCommon_scheme) Fleet \<Rightarrow> bool" where
  "agentMove fin n fl fl' \<longleftrightarrow> (\<exists>a\<in>set (fl_apps fl). agentStep fin n a fl fl')"

text \<open>
  What happens to the applications: users change and delete them, the operator adds and removes its
  finalizer and writes conditions, the API server removes deleted ones. No step revives a deleted one.
\<close>

definition appsChanged :: "'q App list \<Rightarrow> 'q App list \<Rightarrow> bool" where
  "appsChanged as bs \<longleftrightarrow> distinct (map appName bs) \<and>
     (\<forall>b\<in>set bs. \<exists>a\<in>set as. appName a = appName b \<and> (isBeingDeleted a \<longrightarrow> isBeingDeleted b))"

inductive outsideStep ::
    "string \<Rightarrow> ('q, 'p BpfProgramStateCommon_scheme) Fleet \<Rightarrow> ('q, 'p BpfProgramStateCommon_scheme) Fleet \<Rightarrow> bool"
  for fin fl where
  change: "appsChanged (fl_apps fl) bs \<Longrightarrow> outsideStep fin fl (fl\<lparr>fl_apps := bs\<rparr>)"
| new: "appName a \<notin> appName ` set (fl_apps fl) \<Longrightarrow> \<forall>st\<in>set (fl_states fl). \<forall>n. \<not> isStateOf (appName a) n st \<Longrightarrow>
     outsideStep fin fl (fl\<lparr>fl_apps := fl_apps fl @ [a]\<rparr>)"
| collect: "\<forall>st\<in>set (fl_states fl). \<not> P st \<longrightarrow> fin \<notin> set (om_Finalizers (st_Meta st)) \<Longrightarrow>
     outsideStep fin fl (fl\<lparr>fl_states := filter P (fl_states fl)\<rparr>)"
| nodes: "outsideStep fin fl (fl\<lparr>fl_nodes := ns\<rparr>)"

section \<open>The invariant is kept\<close>

lemma fleetInv_facts:
  assumes "fleetInv fin fl"
  shows inv_apps: "distinct (map appName (fl_apps fl))"
    and inv_names: "distinct (map stName (fl_states fl))"
    and inv_unique: "\<And>name n st st'. st \<in> set (fl_states fl) \<Longrightarrow> st' \<in> set (fl_states fl) \<Longrightarrow>
       isStateOf name n st \<Longrightarrow> isStateOf name n st' \<Longrightarrow> st' = st"
    and inv_labelled: "\<And>st. st \<in> set (fl_states fl) \<Longrightarrow> \<exists>name n. isStateOf name n st"
    and inv_state: "\<And>st name n. st \<in> set (fl_states fl) \<Longrightarrow> isStateOf name n st \<Longrightarrow> stateInv fin fl name n st"
    and inv_recorded: "recordedIn (fl_states fl) (fl_loaded fl)"
  using assms unfolding fleetInv_def by blast+

lemma fleetInvI:
  assumes "distinct (map appName (fl_apps fl))" and "distinct (map stName (fl_states fl))"
    and "\<And>name n st st'. st \<in> set (fl_states fl) \<Longrightarrow> st' \<in> set (fl_states fl) \<Longrightarrow>
       isStateOf name n st \<Longrightarrow> isStateOf name n st' \<Longrightarrow> st' = st"
    and "\<And>st. st \<in> set (fl_states fl) \<Longrightarrow> \<exists>name n. isStateOf name n st"
    and "\<And>st name n. st \<in> set (fl_states fl) \<Longrightarrow> isStateOf name n st \<Longrightarrow> stateInv fin fl name n st"
    and "recordedIn (fl_states fl) (fl_loaded fl)"
  shows "fleetInv fin fl"
  using assms unfolding fleetInv_def by blast

lemma isStateOf_unique: "isStateOf name n st \<Longrightarrow> isStateOf name' n' st \<Longrightarrow> name' = name \<and> n' = n"
  by (auto simp: isStateOf_def hasLabels_def)

lemma isStateOf_meta: "om_Labels (st_Meta st') = om_Labels (st_Meta st) \<Longrightarrow> isStateOf name n st' = isStateOf name n st"
  by (simp add: isStateOf_def hasLabels_def)

lemma namedLive_deleted:
  "distinct (map appName as) \<Longrightarrow> a \<in> set as \<Longrightarrow> namedLive as (appName a) \<longleftrightarrow> \<not> isBeingDeleted a"
  by (auto simp: namedLive_def distinct_map inj_on_def)

lemma progIds_none: "noneLoaded st \<Longrightarrow> progIds st = {}"
  by (auto simp: noneLoaded_def progIds_def)

lemma allLoaded_ids: "allLoaded L name st \<Longrightarrow> i \<in> progIds st \<Longrightarrow> loadedFor name (L i)"
  by (auto simp: allLoaded_def progIds_def)

lemma stateInv_ids: "stateInv fin fl name n st \<Longrightarrow> i \<in> progIds st \<Longrightarrow> loadedFor name (fl_loaded fl n i)"
  by (auto simp: stateInv_def progIds_none allLoaded_ids)

lemma same_ids:
  fixes st st' :: "'p BpfProgramStateCommon_scheme AppState"
  assumes "map ProgramId (statePrograms st') = map ProgramId (statePrograms st)"
  shows "noneLoaded st' = noneLoaded st" "allLoaded L name st' = allLoaded L name st" "progIds st' = progIds st"
proof -
  have ids: "ProgramId ` set (statePrograms st') = ProgramId ` set (statePrograms st)" using assms by (metis list.set_map)
  have "noneLoaded st = (ProgramId ` set (statePrograms st) \<subseteq> {None})" for st :: "'p BpfProgramStateCommon_scheme AppState"
    by (auto simp: noneLoaded_def)
  then show "noneLoaded st' = noneLoaded st" using ids by metis
  have "allLoaded L name st = (\<forall>x\<in>ProgramId ` set (statePrograms st). \<exists>i. x = Some i \<and> loadedFor name (L i))"
    for st :: "'p BpfProgramStateCommon_scheme AppState" by (simp add: allLoaded_def)
  then show "allLoaded L name st' = allLoaded L name st" using ids by metis
  have "progIds st = {i. Some i \<in> ProgramId ` set (statePrograms st)}"
    for st :: "'p BpfProgramStateCommon_scheme AppState" by (force simp: progIds_def)
  then show "progIds st' = progIds st" using ids by metis
qed

text \<open>Replacing one state object, and the programs of its application on its node.\<close>

lemma updState_set:
  "distinct (map stName sts) \<Longrightarrow> st \<in> set sts \<Longrightarrow> set (updState (stName st) (\<lambda>_. st') sts) = insert st' (set sts - {st})"
  by (force simp: updState_def distinct_map inj_on_def)

lemma updState_names: "stName st' = nm \<Longrightarrow> map stName (updState nm (\<lambda>_. st') sts) = map stName sts"
  by (simp add: updState_def)

lemma updState_const:
  "distinct (map stName sts) \<Longrightarrow> st \<in> set sts \<Longrightarrow> updState (stName st) f sts = updState (stName st) (\<lambda>_. f st) sts"
  by (auto simp: updState_def distinct_map inj_on_def)

lemma fleetInv_replace:
  assumes inv: "fleetInv fin fl" and st: "st \<in> set (fl_states fl)" "isStateOf name n st"
    and st': "stName st' = stName st" "om_Labels (st_Meta st') = om_Labels (st_Meta st)"
    and ok: "stateInv fin (fl\<lparr>fl_loaded := (fl_loaded fl)(n := L)\<rparr>) name n st'"
    and others: "\<And>i other. other \<noteq> name \<Longrightarrow> loadedFor other (fl_loaded fl n i) \<Longrightarrow> loadedFor other (L i)"
    and recorded: "\<And>i m. L i = Some m \<Longrightarrow> fl_loaded fl n i = Some m \<and> i \<notin> progIds st \<or>
                     map_of m ProgramNameKey = Some name \<and> i \<in> progIds st'"
  shows "fleetInv fin (fl\<lparr>fl_states := updState (stName st) (\<lambda>_. st') (fl_states fl), fl_loaded := (fl_loaded fl)(n := L)\<rparr>)"
    (is "fleetInv fin ?fl")
proof (rule fleetInvI)
  note s = updState_set [OF inv_names [OF inv] st(1), of st']
  have is': "isStateOf x k st' = isStateOf x k st" for x k by (rule isStateOf_meta [OF st'(2)])
  show "distinct (map appName (fl_apps ?fl))" using inv_apps [OF inv] by simp
  show "distinct (map stName (fl_states ?fl))" using inv_names [OF inv] updState_names [OF st'(1)] by simp
  show "y' = y" if "y \<in> set (fl_states ?fl)" "y' \<in> set (fl_states ?fl)" "isStateOf x k y" "isStateOf x k y'" for x k y y'
    using that inv_unique [OF inv] st(1) by (auto simp: s is')
  show "\<exists>x k. isStateOf x k y" if "y \<in> set (fl_states ?fl)" for y
    using that inv_labelled [OF inv] st(1) by (auto simp: s is')
  show "stateInv fin ?fl x k y" if y: "y \<in> set (fl_states ?fl)" "isStateOf x k y" for x k y
  proof (cases "y = st'")
    case True
    with y is' isStateOf_unique [OF st(2)] have "x = name" "k = n" by auto
    with ok True show ?thesis by (simp add: stateInv_def)
  next
    case False
    with y s have y': "y \<in> set (fl_states fl)" "y \<noteq> st" by auto
    have "x \<noteq> name" if "k = n" using inv_unique [OF inv st(1) y'(1)] st(2) y(2) y'(2) that by auto
    then have "allLoaded (fl_loaded fl k) x y \<Longrightarrow> allLoaded (((fl_loaded fl)(n := L)) k) x y"
      using others by (fastforce simp: allLoaded_def)
    with inv_state [OF inv y'(1) y(2)] show ?thesis by (auto simp: stateInv_def)
  qed
  show "recordedIn (fl_states ?fl) (fl_loaded ?fl)" unfolding recordedIn_def
  proof (intro allI impI)
    fix k i m assume k: "fl_loaded ?fl k i = Some m"
    show "\<exists>x. map_of m ProgramNameKey = Some x \<and> (\<exists>y\<in>set (fl_states ?fl). isStateOf x k y \<and> i \<in> progIds y)"
    proof (cases "k = n \<and> map_of m ProgramNameKey = Some name \<and> i \<in> progIds st'")
      case True
      with s is' st show ?thesis by auto
    next
      case False
      with k recorded [of i m] have m: "fl_loaded fl k i = Some m" "k = n \<Longrightarrow> i \<notin> progIds st" by (auto split: if_splits)
      from inv_recorded [OF inv] m(1) obtain x y
        where y: "map_of m ProgramNameKey = Some x" "y \<in> set (fl_states fl)" "isStateOf x k y" "i \<in> progIds y"
        unfolding recordedIn_def by blast
      with m(2) isStateOf_unique [OF st(2)] have "y \<noteq> st" by blast
      with y s show ?thesis by auto
    qed
  qed
qed

lemma loadedFor_inj: "loadedFor x y \<Longrightarrow> loadedFor x' y \<Longrightarrow> x' = x"
  by (auto simp: loadedFor_def)

text \<open>The special case of an update that loads and unloads nothing.\<close>

lemma fleetInv_keep:
  assumes inv: "fleetInv fin fl" and st: "st \<in> set (fl_states fl)" "isStateOf name n st"
    and st': "stName st' = stName st" "om_Labels (st_Meta st') = om_Labels (st_Meta st)"
    and ids: "map ProgramId (statePrograms st') = map ProgramId (statePrograms st)"
    and ok: "stateInv fin fl name n st'"
  shows "fleetInv fin (fl\<lparr>fl_states := updState (stName st) (\<lambda>_. st') (fl_states fl)\<rparr>)"
proof -
  have "map_of m ProgramNameKey = Some name" if "fl_loaded fl n i = Some m" "i \<in> progIds st" for i m
    using stateInv_ids [OF inv_state [OF inv st] that(2)] that(1) by (auto simp: loadedFor_def)
  with fleetInv_replace [OF inv st st', of "fl_loaded fl n"] ok same_ids(3) [OF ids] show ?thesis by auto
qed

lemma agentStep_create_inv:
  assumes inv: "fleetInv fin fl" and "\<forall>x\<in>set (fl_states fl). \<not> isStateOf name n x" and st: "isStateOf name n st"
    and "stName st \<notin> stName ` set (fl_states fl)" and ok: "stateInv fin fl name n st"
  shows "fleetInv fin (fl\<lparr>fl_states := fl_states fl @ [st]\<rparr>)"
proof (rule fleetInvI)
  let ?fl = "fl\<lparr>fl_states := fl_states fl @ [st]\<rparr>"
  have same: "stateInv fin ?fl = stateInv fin fl" by (simp add: stateInv_def fun_eq_iff)
  show "stateInv fin ?fl x k y" if "y \<in> set (fl_states ?fl)" "isStateOf x k y" for x k y
    unfolding same using that inv_state [OF inv] ok isStateOf_unique [OF st] by auto
  show "recordedIn (fl_states ?fl) (fl_loaded ?fl)" using inv_recorded [OF inv] by (fastforce simp: recordedIn_def)
  show "y' = y" if "y \<in> set (fl_states ?fl)" "y' \<in> set (fl_states ?fl)" "isStateOf x k y" "isStateOf x k y'" for x k y y'
    using that assms(2) inv_unique [OF inv] isStateOf_unique [OF st] by auto
  show "\<exists>x k. isStateOf x k y" if "y \<in> set (fl_states ?fl)" for y
    using that st inv_labelled [OF inv] by auto
  show "distinct (map stName (fl_states ?fl))" using inv_names [OF inv] assms(4) by simp
qed (use inv_apps [OF inv] in simp)

text \<open>Every reconcile of an application keeps the invariant.\<close>

lemma agentStep_inv:
  assumes "agentStep fin n a fl fl'" and inv: "fleetInv fin fl" and a: "a \<in> set (fl_apps fl)"
  shows "fleetInv fin fl'"
  using assms(1)
proof cases
  case idle
  with inv show ?thesis by simp
next
  case (create st)
  with agentStep_create_inv [OF inv create(3,4,5)] show ?thesis by (simp add: stateInv_def)
next
  case (keep st st' x)
  note i = inv_state [OF inv keep(2,3)]
  have m: "st_Meta st' = st_Meta st" by (simp add: keep(4))
  have "stateInv fin fl (appName a) n st'"
    using i m keep(6,7) namedLive_deleted [OF inv_apps [OF inv] a]
    unfolding stateInv_def same_ids [OF keep(5)] statusAllowed_def by auto
  from fleetInv_keep [OF inv keep(2,3) _ _ keep(5) this] m show ?thesis unfolding keep(1) by simp
next
  case (load st st' x meta L)
  have m: "st_Meta st' = st_Meta st" by (simp add: load(6))
  have ok: "stateInv fin (fl\<lparr>fl_loaded := (fl_loaded fl)(n := L)\<rparr>) (appName a) n st'"
    using inv_state [OF inv load(2,3)] load(5,7,11) namedLive_deleted [OF inv_apps [OF inv] a] m
    unfolding stateInv_def statusAllowed_def by (auto simp: load(4))
  show ?thesis unfolding load(1)
  proof (rule fleetInv_replace [OF inv load(2,3) _ _ ok])
    show "loadedFor other (L i)" if "loadedFor other (fl_loaded fl n i)" for i other
      using that load(8,10) by (auto simp: loadedFor_def)
    show "fl_loaded fl n i = Some m' \<and> i \<notin> progIds st \<or> map_of m' ProgramNameKey = Some (appName a) \<and> i \<in> progIds st'"
      if "L i = Some m'" for i m'
      using that load(9,10) progIds_none [OF load(5)] by (auto split: if_splits)
  qed (simp_all add: m)
next
  case (unload st st' x L)
  have m: "st_Meta st' = st_Meta st" by (simp add: unload(4))
  note i = inv_state [OF inv unload(2,3)]
  have ok: "stateInv fin (fl\<lparr>fl_loaded := (fl_loaded fl)(n := L)\<rparr>) (appName a) n st'"
    using i unload(5-7) namedLive_deleted [OF inv_apps [OF inv] a] m
    unfolding stateInv_def statusAllowed_def by auto
  show ?thesis unfolding unload(1)
  proof (rule fleetInv_replace [OF inv unload(2,3) _ _ ok])
    show "loadedFor other (L k)" if "other \<noteq> appName a" "loadedFor other (fl_loaded fl n k)" for k other
      using that unload(8) stateInv_ids [OF i, of k] loadedFor_inj by auto
    show "fl_loaded fl n k = Some m' \<and> k \<notin> progIds st \<or> map_of m' ProgramNameKey = Some (appName a) \<and> k \<in> progIds st'"
      if "L k = Some m'" for k m'
      using that unload(8) by (auto split: if_splits)
  qed (simp_all add: m)
next
  case (release st)
  let ?st' = "st\<lparr>st_Meta := (st_Meta st)\<lparr>om_Finalizers := removeAll fin (om_Finalizers (st_Meta st))\<rparr>\<rparr>"
  have "stateInv fin fl (appName a) n ?st'"
    using inv_state [OF inv release(2,3)] release(4,5) namedLive_deleted [OF inv_apps [OF inv] a]
    by (auto simp: stateInv_def noneLoaded_def allLoaded_def statePrograms_def settledStatus_def settled_def)
  then have "fleetInv fin (fl\<lparr>fl_states := updState (stName st) (\<lambda>_. ?st') (fl_states fl)\<rparr>)"
    by (rule fleetInv_keep [OF inv release(2,3), rotated 3]) (simp_all add: statePrograms_def)
  then show ?thesis unfolding release(1) by (subst updState_const [OF inv_names [OF inv] release(2)])
qed

lemma agentStep_apps: "agentStep fin n a fl fl' \<Longrightarrow> fl_apps fl' = fl_apps fl"
  by (erule agentStep.cases) simp_all

lemma agentMoves:
  assumes "(agentMove fin n)\<^sup>*\<^sup>* fl fl'" and "fleetInv fin fl"
  shows "fleetInv fin fl' \<and> fl_apps fl' = fl_apps fl"
  using assms
proof (induction rule: rtranclp_induct)
  case (step y z)
  then show ?case by (auto simp: agentMove_def dest: agentStep_inv agentStep_apps)
qed simp

lemma agentSteps_moves:
  assumes "(agentStep fin n a)\<^sup>*\<^sup>* fl fl'" and "a \<in> set (fl_apps fl)"
  shows "(agentMove fin n)\<^sup>*\<^sup>* fl fl' \<and> fl_apps fl' = fl_apps fl"
  using assms
proof (induction rule: rtranclp_induct)
  case (step y z)
  then have "agentMove fin n y z" by (auto simp: agentMove_def)
  with step agentStep_apps [OF step(2)] show ?case by (auto intro: rtranclp.rtrancl_into_rtrancl)
qed simp

lemma outsideStep_inv:
  assumes "outsideStep fin fl fl'" and inv: "fleetInv fin fl"
  shows "fleetInv fin fl'"
  using assms(1)
proof cases
  case (change bs)
  then have "namedLive (fl_apps fl) x" if "namedLive bs x" for x
    using that by (fastforce simp: namedLive_def appsChanged_def)
  then have "stateInv fin fl' x k y" if "stateInv fin fl x k y" for x k y
    using that change(1) by (auto simp: stateInv_def)
  then show ?thesis using change by (intro fleetInvI)
      (auto simp: appsChanged_def intro: inv_names [OF inv] inv_unique [OF inv] inv_labelled [OF inv] inv_state [OF inv] inv_recorded [OF inv])
next
  case (new a)
  have "stateInv fin fl' x k y" if y: "y \<in> set (fl_states fl)" "isStateOf x k y" for x k y
  proof -
    from new(3) y have "x \<noteq> appName a" by auto
    then have "namedLive (fl_apps fl @ [a]) x = namedLive (fl_apps fl) x" by (auto simp: namedLive_def)
    with inv_state [OF inv y] new(1) show ?thesis by (simp add: stateInv_def)
  qed
  then show ?thesis using new inv_apps [OF inv] by (intro fleetInvI)
      (auto intro: inv_names [OF inv] inv_unique [OF inv] inv_labelled [OF inv] inv_recorded [OF inv])
next
  case (collect P)
  have "P y" if y: "y \<in> set (fl_states fl)" "i \<in> progIds y" for y i
    using inv_labelled [OF inv y(1)] inv_state [OF inv y(1)] collect(2) y by (auto simp: stateInv_def progIds_none)
  then have "recordedIn (fl_states fl') (fl_loaded fl')"
    using inv_recorded [OF inv] collect(1) by (fastforce simp: recordedIn_def)
  moreover have "stateInv fin fl' = stateInv fin fl" using collect(1) by (simp add: stateInv_def fun_eq_iff)
  moreover have "distinct (map stName (filter P (fl_states fl)))" using inv_names [OF inv] by (simp add: distinct_map_filter)
  ultimately show ?thesis using collect(1) by (intro fleetInvI)
      (auto intro: inv_apps [OF inv] inv_unique [OF inv] inv_labelled [OF inv] inv_state [OF inv])
next
  case (nodes ns)
  then have "fleetInv fin fl' = fleetInv fin fl" unfolding fleetInv_def stateInv_def by simp
  with inv show ?thesis by simp
qed

section \<open>A status update and what went before it\<close>

text \<open>The change of the ids and of the daemon's programs that goes with a new status.\<close>

definition idChange ::
    "'q App \<Rightarrow> (uint32 \<rightharpoonup> metadata) \<Rightarrow> 'p BpfProgramStateCommon_scheme AppState \<Rightarrow> (uint32 \<rightharpoonup> metadata) \<Rightarrow>
     'p BpfProgramStateCommon_scheme AppState \<Rightarrow> bool" where
  "idChange a L st L' st' \<longleftrightarrow>
     L' = L \<and> map ProgramId (statePrograms st') = map ProgramId (statePrograms st) \<and>
       (loadStatus st' = AppLoadSuccess \<longrightarrow> allLoaded L (appName a) st') \<or>
     \<not> isBeingDeleted a \<and> noneLoaded st \<and> allLoaded L' (appName a) st' \<and> (\<forall>i\<in>progIds st'. L i = None) \<and>
       (\<exists>m. map_of m ProgramNameKey = Some (appName a) \<and> L' = (\<lambda>i. if i \<in> progIds st' then Some m else L i)) \<or>
     noneLoaded st' \<and> loadStatus st' \<noteq> AppLoadSuccess \<and> L' = (\<lambda>i. if i \<in> progIds st then None else L i)"

lemma idChange_status:
  assumes "idChange a L st L' st'" and "loadStatus st'' = loadStatus st'"
    and ids: "map ProgramId (statePrograms st'') = map ProgramId (statePrograms st')"
  shows "idChange a L st L' st''"
  using assms(1,2) unfolding idChange_def same_ids [OF ids] ids by simp

lemma idChange_step:
  assumes "st \<in> set (fl_states fl)" and "isStateOf (appName a) n st" and "st' = st\<lparr>st_Status := x\<rparr>"
    and "idChange a (fl_loaded fl n) st L st'" and "statusAllowed a st'"
  shows "agentStep fin n a fl
    (fl\<lparr>fl_states := updState (stName st) (\<lambda>_. st') (fl_states fl), fl_loaded := (fl_loaded fl)(n := L)\<rparr>)"
  using assms(4) unfolding idChange_def
proof (elim disjE conjE exE)
  assume "L = fl_loaded fl n" "map ProgramId (statePrograms st') = map ProgramId (statePrograms st)"
    "loadStatus st' = AppLoadSuccess \<longrightarrow> allLoaded (fl_loaded fl n) (appName a) st'"
  with agentStep.keep [OF assms(1,2,3), of fin] assms(5) show ?thesis by simp
next
  fix m
  assume m: "\<not> isBeingDeleted a" "noneLoaded st" "\<forall>i\<in>progIds st'. fl_loaded fl n i = None"
    "map_of m ProgramNameKey = Some (appName a)" "L = (\<lambda>i. if i \<in> progIds st' then Some m else fl_loaded fl n i)"
    and "allLoaded L (appName a) st'"
  from agentStep.load [OF assms(1,2) m(1,2) assms(3,5) m(3,4,5)] this show ?thesis by simp
next
  assume "noneLoaded st'" "loadStatus st' \<noteq> AppLoadSuccess" "L = (\<lambda>i. if i \<in> progIds st then None else fl_loaded fl n i)"
  from agentStep.unload [OF assms(1,2,3) this(1) assms(5) this(2,3)] show ?thesis .
qed

text \<open>If the status is the same, nothing was loaded or unloaded.\<close>

lemma idChange_same:
  assumes "idChange a L st L' st'" and "st_Status st' = st_Status st"
  shows "L' = L"
proof -
  have ids: "map ProgramId (statePrograms st') = map ProgramId (statePrograms st)" using assms(2) by (simp add: statePrograms_def)
  have none: "progIds st = {}" if "noneLoaded st \<or> noneLoaded st'"
    using that progIds_none same_ids(1) [OF ids] by blast
  from assms(1) show ?thesis unfolding idChange_def same_ids(3) [OF ids]
    by (elim disjE conjE exE) (simp_all add: none)
qed

text \<open>A load: every program of the new status has an id, and the ids are new ones, loaded for the application.\<close>

definition loadedNow :: "string \<Rightarrow> string \<Rightarrow> ('x, 'y BpfProgramStateCommon_scheme) Fleet \<Rightarrow> 'y BpfProgramStateCommon_scheme AppState \<Rightarrow>
    ('x, 'y BpfProgramStateCommon_scheme) Fleet \<Rightarrow> bool" where
  "loadedNow name n fl st' fl' \<longleftrightarrow> (\<forall>i\<in>progIds st'. fl_loaded fl n i = None) \<and> (\<forall>p\<in>set (statePrograms st'). ProgramId p \<noteq> None) \<and>
     (\<exists>m. map_of m ProgramNameKey = Some name \<and>
        fl' = fl\<lparr>fl_loaded := (fl_loaded fl)(n := (\<lambda>i. if i \<in> progIds st' then Some m else fl_loaded fl n i))\<rparr>)"

text \<open>What \<^verbatim>\<open>reconcileLoad\<close> may do: at most one change of ids, recorded in the load status.\<close>

definition loadOutcome :: "'q App \<Rightarrow> string \<Rightarrow> ('q, 'p BpfProgramStateCommon_scheme) Fleet \<Rightarrow> 'p BpfProgramStateCommon_scheme AppState \<Rightarrow>
    unit result \<Rightarrow> 'p BpfProgramStateCommon_scheme AppState \<Rightarrow> ('q, 'p BpfProgramStateCommon_scheme) Fleet \<Rightarrow> bool" where
  "loadOutcome a n fl st r st' fl' \<longleftrightarrow> st_Meta st' = st_Meta st \<and>
    (\<exists>L. fl' = fl\<lparr>fl_loaded := (fl_loaded fl)(n := L)\<rparr> \<and> idChange a (fl_loaded fl n) st L st') \<and>
    (r = Inr () \<longrightarrow> loadStatus st' \<in> {AppLoadSuccess, NotSelected, AppUnLoadSuccess} \<and> (isBeingDeleted a \<longrightarrow> noneLoaded st')) \<and>
    (loadStatus st' = AppUnLoadSuccess \<longrightarrow> isBeingDeleted a \<or> loadStatus st = AppUnLoadSuccess)"

lemma setAppLoadStatus_fields:
  "st_Meta (setAppLoadStatus x st) = st_Meta st" "loadStatus (setAppLoadStatus x st) = x"
  "statePrograms (setAppLoadStatus x st) = statePrograms st" "progIds (setAppLoadStatus x st) = progIds st"
  "noneLoaded (setAppLoadStatus x st) = noneLoaded st" "allLoaded L name (setAppLoadStatus x st) = allLoaded L name st"
  by (simp_all add: setAppLoadStatus_def updStatus_def statePrograms_def progIds_def noneLoaded_def allLoaded_def)

lemma loadOutcome_same:
  assumes "idChange a (fl_loaded fl n) st (fl_loaded fl n) st'" "st_Meta st' = st_Meta st"
    "r = Inr () \<Longrightarrow> loadStatus st' = AppLoadSuccess \<and> \<not> isBeingDeleted a"
    "loadStatus st' = AppUnLoadSuccess \<Longrightarrow> loadStatus st = AppUnLoadSuccess"
  shows "loadOutcome a n fl st r st' fl"
proof -
  have "fl = fl\<lparr>fl_loaded := (fl_loaded fl)(n := fl_loaded fl n)\<rparr>" by simp
  with assms show ?thesis unfolding loadOutcome_def by blast
qed

lemma loadOutcome_error:
  "stateInv fin fl (appName a) n st \<Longrightarrow> r \<noteq> Inr () \<Longrightarrow> loadOutcome a n fl st r st fl"
  by (rule loadOutcome_same) (simp_all add: idChange_def stateInv_def)

lemma loadOutcome_status:
  "x \<noteq> AppLoadSuccess \<Longrightarrow> x \<noteq> AppUnLoadSuccess \<Longrightarrow> loadOutcome a n fl st (Inl e) (setAppLoadStatus x st) fl"
  by (rule loadOutcome_same) (simp_all add: idChange_def setAppLoadStatus_fields)

lemma loadOutcome_loaded:
  "allLoaded (fl_loaded fl n) (appName a) st \<Longrightarrow> \<not> isBeingDeleted a \<Longrightarrow>
   loadOutcome a n fl st (Inr ()) (setAppLoadStatus AppLoadSuccess st) fl"
  by (rule loadOutcome_same) (simp_all add: idChange_def setAppLoadStatus_fields)

lemma loadOutcome_unload:
  assumes "noneLoaded st1" "st_Meta st1 = st_Meta st" "\<not> sel \<or> isBeingDeleted a"
    "fl' = fl\<lparr>fl_loaded := (fl_loaded fl)(n := (\<lambda>i. if i \<in> progIds st then None else fl_loaded fl n i))\<rparr>"
  shows "loadOutcome a n fl st (Inr ()) (setAppLoadStatus (if sel then AppUnLoadSuccess else NotSelected) st1) fl'"
proof -
  let ?L = "\<lambda>i. if i \<in> progIds st then None else fl_loaded fl n i"
  have "idChange a (fl_loaded fl n) st ?L (setAppLoadStatus (if sel then AppUnLoadSuccess else NotSelected) st1)"
    using assms(1) by (simp add: idChange_def setAppLoadStatus_fields)
  with assms show ?thesis unfolding loadOutcome_def by (auto simp: setAppLoadStatus_fields)
qed

lemma loadOutcome_load:
  assumes "loadedNow (appName a) n fl st1 fl'" "st_Meta st1 = st_Meta st" "noneLoaded st" "\<not> isBeingDeleted a"
  shows "loadOutcome a n fl st (Inr ()) (setAppLoadStatus AppLoadSuccess st1) fl'"
proof -
  from assms(1) obtain m where m: "map_of m ProgramNameKey = Some (appName a)"
    "fl' = fl\<lparr>fl_loaded := (fl_loaded fl)(n := (\<lambda>i. if i \<in> progIds st1 then Some m else fl_loaded fl n i))\<rparr>"
    by (auto simp: loadedNow_def)
  let ?L = "\<lambda>i. if i \<in> progIds st1 then Some m else fl_loaded fl n i"
  have "allLoaded ?L (appName a) st1" unfolding allLoaded_def
  proof
    fix p assume p: "p \<in> set (statePrograms st1)"
    with assms(1) obtain i where i: "ProgramId p = Some i" by (auto simp: loadedNow_def)
    with p have "i \<in> progIds st1" by (auto simp: progIds_def)
    with i m(1) show "\<exists>i. ProgramId p = Some i \<and> loadedFor (appName a) (?L i)" by (auto simp: loadedFor_def)
  qed
  with assms m(1) have "idChange a (fl_loaded fl n) st ?L (setAppLoadStatus AppLoadSuccess st1)"
    by (auto simp: idChange_def setAppLoadStatus_fields loadedNow_def)
  with assms(2,4) m(2) show ?thesis unfolding loadOutcome_def by (auto simp: setAppLoadStatus_fields)
qed

section \<open>What the invariant says\<close>

text \<open>Once no state object of an application has the agents' finalizer, no daemon has a program of it.\<close>

lemma fleetInv_released:
  assumes "fleetInv fin fl"
    and "\<forall>st\<in>set (fl_states fl). hasLabels [(BpfAppStateOwner, name)] st \<longrightarrow> fin \<notin> set (om_Finalizers (st_Meta st))"
  shows "\<not> loadedFor name (fl_loaded fl n i)"
proof
  assume "loadedFor name (fl_loaded fl n i)"
  then obtain m where "fl_loaded fl n i = Some m" "map_of m ProgramNameKey = Some name" by (auto simp: loadedFor_def)
  with inv_recorded [OF assms(1)] obtain st where st: "st \<in> set (fl_states fl)" "isStateOf name n st" "i \<in> progIds st"
    unfolding recordedIn_def by (metis option.inject)
  with assms(2) have "fin \<notin> set (om_Finalizers (st_Meta st))" by (auto simp: isStateOf_def hasLabels_def)
  with inv_state [OF assms(1) st(1,2)] st(3) show False by (simp add: stateInv_def progIds_none)
qed

text \<open>A settled state object of a live application is of a node that is not selected, or of one where everything is loaded.\<close>

lemma fleetInv_settled:
  assumes "fleetInv fin fl" and "st \<in> set (fl_states fl)" and "isStateOf name n st" and "settled st"
    and "namedLive (fl_apps fl) name"
  shows "loadStatus st = NotSelected \<or> allLoaded (fl_loaded fl n) name st"
  using inv_state [OF assms(1-3)] assms(4,5) by (auto simp: stateInv_def settledStatus_def)

end
