(* ===== verification/Fleet_Agent.thy ===== *)
theory Fleet_Agent
  imports Fleet_Protocol App_Properties
begin

text \<open>
  The agent implements the protocol: one turn of the loop of \<^verbatim>\<open>Reconcile\<close> over an application is a
  sequence of the abstract steps of \<^verbatim>\<open>Fleet_Protocol\<close>. The locale \<open>fleet_server\<close> collects what the agent of
  a node relies on from the API server and from its daemon: reads return what is stored, a status
  update of an object as it is stored succeeds, a load gives fresh ids, an unload unloads, and a
  query answers exactly for the programs that are loaded. The calls that may fail here without harm
  are all others: creating objects, loading, reading, removing the finalizer.
\<close>

section \<open>What the agent relies on\<close>

locale fleet_server =
  fixes env :: "('w, 'q, 'p BpfProgramStateCommon_scheme, 'z) KEnv_scheme"
    and view :: "'w \<Rightarrow> ('q, 'p BpfProgramStateCommon_scheme) Fleet"
  assumes quiet: "keepsView env view"
    and get_truth: "(\<exists>g. fst (bpfman_Get env i w) = Inr g) \<longleftrightarrow> fl_loaded (view w) (NodeName env) i \<noteq> None"
    and load_fails: "bpfman_Load env req w = (Inl e, w') \<Longrightarrow> view w' = view w"
    and load_works: "bpfman_Load env req w = (Inr resp, w') \<Longrightarrow>
      \<exists>ids. length ids = length (lr_Info req) \<and> (\<forall>i\<in>set ids. fl_loaded (view w) (NodeName env) i = None) \<and>
        list_all2 (\<lambda>r (info, i). map_option pi_Name (lri_Info r) = Some (li_Name info) \<and> lri_KernelId r = Some i)
          resp (zip (lr_Info req) ids) \<and>
        view w' = (view w)\<lparr>fl_loaded := (fl_loaded (view w))(NodeName env :=
          (\<lambda>i. if i \<in> set ids then Some (lr_Metadata req) else fl_loaded (view w) (NodeName env) i))\<rparr>"
    and unload_works: "view (snd (bpfman_Unload env i w)) =
      (view w)\<lparr>fl_loaded := (fl_loaded (view w))(NodeName env := (fl_loaded (view w) (NodeName env))(i := None))\<rparr>"
    and get_node: "view (snd (k8s_GetNode env nm w)) = view w"
    and list_apps: "view (snd (k8s_ListApps env w)) = view w"
      "fst (k8s_ListApps env w) = Inr as \<Longrightarrow> set as = set (fl_apps (view w))"
    and list_states: "view (snd (k8s_ListStates env ns labels w)) = view w"
      "fst (k8s_ListStates env None labels w) = Inr xs \<Longrightarrow> xs = filter (hasLabels labels) (fl_states (view w))"
    and create_fails: "k8s_Create env st w = (Inl e, w') \<Longrightarrow> view w' = view w"
    and create_works: "k8s_Create env st w = (Inr st', w') \<Longrightarrow>
      stName st' = stName st \<and> om_Labels (st_Meta st') = om_Labels (st_Meta st) \<and>
      om_Finalizers (st_Meta st') = om_Finalizers (st_Meta st) \<and> st_Status st' = emptyStatus \<and>
      stName st \<notin> stName ` set (fl_states (view w)) \<and>
      view w' = (view w)\<lparr>fl_states := fl_states (view w) @ [st']\<rparr>"
    and status_works: "x \<in> set (fl_states (view w)) \<Longrightarrow> st_Meta x = st_Meta st \<Longrightarrow>
      \<exists>st' w'. k8s_StatusUpdate env st w = (Inr st', w') \<and>
        view w' = (view w)\<lparr>fl_states := updState (stName st) (\<lambda>y. y\<lparr>st_Status := st_Status st\<rparr>) (fl_states (view w))\<rparr>"
    and update_fails: "k8s_Update env st w = (Inl e, w') \<Longrightarrow> view w' = view w"
    and update_works: "k8s_Update env st w = (Inr r, w') \<Longrightarrow>
      view w' = (view w)\<lparr>fl_states := updState (stName st)
        (\<lambda>y. y\<lparr>st_Meta := (st_Meta y)\<lparr>om_Finalizers := om_Finalizers (st_Meta st)\<rparr>\<rparr>) (fl_states (view w))\<rparr>"
    and owner_works: "SetControllerReference env m m' = Inr m'' \<Longrightarrow>
      om_Name m'' = om_Name m' \<and> om_Labels m'' = om_Labels m' \<and> om_Finalizers m'' = om_Finalizers m'"

text \<open>And from the operations of its program types, beside the contract of an application.\<close>

locale fleet_agent = fleet_server env view + app_ops ops wf no_links
  for env :: "('w, 'q, 'p BpfProgramStateCommon_scheme, 'z) KEnv_scheme"
    and view :: "'w \<Rightarrow> ('q, 'p BpfProgramStateCommon_scheme) Fleet"
    and ops :: "('q, 'p BpfProgramStateCommon_scheme, 'w) AppOps"
    and wf :: "'p BpfProgramStateCommon_scheme \<Rightarrow> bool"
    and no_links :: "'p BpfProgramStateCommon_scheme \<Rightarrow> bool" +
  assumes cluster_scoped: "\<not> op_Namespaced ops"
    and program_view: "op_reconcileProgram ops q b p s = Some (x, s') \<Longrightarrow> view (world s') = view (world s)"
    and info_name: "op_getProgramLoadInfo ops q = Some (Inr info) \<Longrightarrow> li_Name info = op_Name ops q"
    and delete_keeps_id: "op_deleteLinks ops p = Some p' \<Longrightarrow> ProgramId p' = ProgramId p"
begin

abbreviation node :: string where "node \<equiv> NodeName env"
abbreviation fin :: string where "fin \<equiv> op_finalizer ops"
abbreviation see :: "'w rst \<Rightarrow> ('q, 'p BpfProgramStateCommon_scheme) Fleet" where "see s \<equiv> view (world s)"
abbreviation here :: "'w rst \<Rightarrow> uint32 \<rightharpoonup> metadata" where "here s \<equiv> fl_loaded (see s) node"

section \<open>Reading the state object\<close>

lemma getState:
  assumes "getBpfAppState env ops a s = (r, s')"
  shows "see s' = see s"
    and "r = Inr None \<Longrightarrow> \<forall>x\<in>set (fl_states (see s)). \<not> isStateOf (appName a) node x"
    and "r = Inr (Some st) \<Longrightarrow> st \<in> set (fl_states (see s)) \<and> isStateOf (appName a) node st"
proof -
  let ?labels = "[(BpfAppStateOwner, appName a), (K8sHostLabel, node)]"
  obtain q w where l: "k8s_ListStates env None ?labels (world s) = (q, w)" by fastforce
  then have v: "view w = see s" "\<And>xs. q = Inr xs \<Longrightarrow> xs = filter (isStateOf (appName a) node) (fl_states (see s))"
    using list_states(1) [of None ?labels "world s"] list_states(2) [of ?labels "world s"]
    by (auto simp: isStateOf_def [abs_def])
  have g: "getBpfAppState env ops a s =
      (case q of Inl e \<Rightarrow> Inl e | Inr [] \<Rightarrow> Inr None | Inr [x] \<Rightarrow> Inr (Some x)
       | Inr xs \<Rightarrow> Inl (''more than one BpfApplicationState found ('' @ show_nat (length xs) @ '')''), s\<lparr>world := w\<rparr>)"
    using l cluster_scoped by (simp add: getBpfAppState_def lift_world_def split: sum.split list.split)
  with assms v show "see s' = see s" by auto
  show "r = Inr None \<Longrightarrow> \<forall>x\<in>set (fl_states (see s)). \<not> isStateOf (appName a) node x"
    using assms g v(2) by (auto simp: filter_empty_conv split: sum.splits list.splits)
  assume "r = Inr (Some st)"
  with assms g v(2) have "filter (isStateOf (appName a) node) (fl_states (see s)) = [st]"
    by (auto split: sum.splits list.splits)
  then show "st \<in> set (fl_states (see s)) \<and> isStateOf (appName a) node st"
    by (metis (mono_tags, lifting) filter_eq_ConsD in_set_conv_decomp)
qed

lemma waitForSpec_result:
  "waitForSpec env ops a i k st s = ((r, st'), s') \<Longrightarrow>
   see s' = see s \<and> (r = Inr () \<longrightarrow> st' \<in> set (fl_states (see s)) \<and> isStateOf (appName a) node st')"
proof (induction k arbitrary: i s)
  case (Suc k)
  obtain q t where g: "getBpfAppState env ops a s = (q, t)" by fastforce
  note q = getState [OF g]
  show ?case
  proof (cases "\<exists>x. q = Inr (Some x)")
    case True
    with Suc.prems g q show ?thesis by auto
  next
    case False
    with Suc.prems g have "waitForSpec env ops a (Suc i) k st t = ((r, st'), s')" by (auto split: sum.splits option.splits)
    from Suc.IH [OF this] q(1) show ?thesis by simp
  qed
qed auto

lemma waitForStatus_view: "waitForStatus env ops a i k st s = (x, s') \<Longrightarrow> see s' = see s"
proof (induction k arbitrary: i s)
  case (Suc k)
  obtain q t where g: "getBpfAppState env ops a s = (q, t)" by fastforce
  with Suc getState(1) [OF g] show ?case by (auto split: sum.splits option.splits if_splits)
qed simp

section \<open>Writing the status\<close>

lemma updateStatus:
  assumes "updateBpfAppStateStatus env ops a orig st s = ((b, r, st'), s')"
    and "x \<in> set (fl_states (see s))" and "st_Meta x = st_Meta st"
  obtains (same) "orig \<noteq> None" "st_Status (the orig) = st_Status st" "\<not> b" "s' = s" "st' = st"
  | (written) y where "b" "Conditions y = Conditions (st_Status st)" "AppLoadStatus y = loadStatus st"
      "Programs y = statePrograms st"
      "see s' = (see s)\<lparr>fl_states := updState (stName st) (\<lambda>z. z\<lparr>st_Status := y\<rparr>) (fl_states (see s))\<rparr>"
proof (cases "orig = None \<or> st_Status (the orig) \<noteq> st_Status st")
  case False
  with assms(1) have "\<not> b" "s' = s" "st' = st" by (simp_all add: updateBpfAppStateStatus_def)
  then show thesis using same False by simp
next
  case True
  let ?st = "updStatus (\<lambda>x. x\<lparr>UpdateCount := UpdateCount x + 1\<rparr>) st"
  have m: "st_Meta x = st_Meta ?st" using assms(3) by (simp add: updStatus_def)
  from status_works [OF assms(2) m] obtain st1 w where w: "k8s_StatusUpdate env ?st (world s) = (Inr st1, w)"
    "view w = (see s)\<lparr>fl_states := updState (stName ?st) (\<lambda>y. y\<lparr>st_Status := st_Status ?st\<rparr>) (fl_states (see s))\<rparr>" by blast
  obtain q t where q: "waitForStatus env ops a 0 (pollAttempts env) st1 (s\<lparr>world := w\<rparr>) = (q, t)" by fastforce
  from True w(1) q assms(1) have "b" "s' = t"
    by (auto simp: updateBpfAppStateStatus_def lift_world_def Let_def waitForBpfAppStateStatusUpdate_def split: prod.splits)
  moreover from waitForStatus_view [OF q] w(2) have "see t = (see s)\<lparr>fl_states :=
      updState (stName st) (\<lambda>z. z\<lparr>st_Status := st_Status ?st\<rparr>) (fl_states (see s))\<rparr>" by (simp add: updStatus_def)
  ultimately show thesis using written [of "st_Status ?st"] by (simp add: updStatus_def statePrograms_def)
qed

section \<open>Loading and unloading\<close>

lemma isLoadedLoop_result:
  "isLoadedLoop env ps b s = (b', s') \<Longrightarrow>
   see s' = see s \<and> (b' \<longleftrightarrow> b \<and> (\<forall>p\<in>set ps. \<exists>i. ProgramId p = Some i \<and> here s i \<noteq> None))"
proof (induction ps arbitrary: b s)
  case (Cons p ps)
  show ?case
  proof (cases "ProgramId p")
    case None
    with Cons.prems have "isLoadedLoop env ps False s = (b', s')" by simp
    from Cons.IH [OF this] None show ?thesis by simp
  next
    case (Some i)
    obtain r t where g: "GetBpfmanProgramById env i s = (r, t)" by fastforce
    note t = GetBpfmanProgramById_view [OF quiet g]
    have r: "(\<exists>x. r = Inr x) \<longleftrightarrow> here s i \<noteq> None"
      using get_truth [of i "world s"] g by (auto simp: GetBpfmanProgramById_def lift_world_def split: prod.splits)
    with Cons.prems Some g have "isLoadedLoop env ps (b \<and> here s i \<noteq> None) t = (b', s')" by (cases r) auto
    from Cons.IH [OF this] t Some show ?thesis by auto
  qed
qed simp

lemma isLoaded_result:
  assumes "isLoaded env st s = (b, s')" and "noneLoaded st \<or> allLoaded (here s) name st"
  shows "see s' = see s" and "b \<Longrightarrow> allLoaded (here s) name st" and "\<not> b \<Longrightarrow> noneLoaded st"
proof -
  have "see s' = see s \<and> (b \<longleftrightarrow> (\<forall>p\<in>set (statePrograms st). \<exists>i. ProgramId p = Some i \<and> here s i \<noteq> None))"
    using isLoadedLoop_result assms(1) unfolding isLoaded_def by blast
  then show "see s' = see s" and "b \<Longrightarrow> allLoaded (here s) name st" and "\<not> b \<Longrightarrow> noneLoaded st"
    using assms(2) by (fastforce simp: noneLoaded_def allLoaded_def loadedFor_def)+
qed

lemma unloadLoop_result:
  "unloadLoop env ops ps s = Some (ps', s') \<Longrightarrow>
   (\<forall>p\<in>set ps'. ProgramId p = None) \<and>
   see s' = (see s)\<lparr>fl_loaded := (fl_loaded (see s))(node :=
     (\<lambda>i. if i \<in> {i. \<exists>p\<in>set ps. ProgramId p = Some i} then None else here s i))\<rparr>"
proof (induction ps arbitrary: s ps')
  case Nil
  then show ?case by (simp add: fun_upd_idem)
next
  case (Cons p ps)
  show ?case
  proof (cases "ProgramId p")
    case None
    with Cons.prems obtain qs where "unloadLoop env ops ps s = Some (qs, s')"
      "ps' = p\<lparr>ProgramLinkStatus := ProgAttachSuccess\<rparr> # qs" by (auto simp: bind_eq_Some_conv)
    with Cons.IH [of s qs] None show ?thesis by simp
  next
    case (Some i)
    obtain r t where u: "UnloadBpfmanProgram env i s = (r, t)" by fastforce
    then have t: "see t = (see s)\<lparr>fl_loaded := (fl_loaded (see s))(node := (here s)(i := None))\<rparr>"
      using unload_works [of i "world s"] by (auto simp: UnloadBpfmanProgram_def lift_world_def split: prod.splits sum.splits)
    from Some u Cons.prems obtain p' qs where p': "op_deleteLinks ops (p\<lparr>ProgramId := None\<rparr>) = Some p'"
      "unloadLoop env ops ps t = Some (qs, s')" "ps' = p'\<lparr>ProgramLinkStatus := ProgAttachSuccess\<rparr> # qs"
      by (auto simp: bind_eq_Some_conv)
    from delete_keeps_id [OF p'(1)] Cons.IH [OF p'(2)] t Some p'(3) show ?thesis
      by (auto simp: fun_eq_iff intro!: Fleet.equality)
  qed
qed

lemma unload_result:
  assumes "unload env ops st s = Some (st', s')"
  shows "noneLoaded st'" and "st_Meta st' = st_Meta st"
    and "see s' = (see s)\<lparr>fl_loaded := (fl_loaded (see s))(node := (\<lambda>i. if i \<in> progIds st then None else here s i))\<rparr>"
  using assms unloadLoop_result [of "statePrograms st" s]
  by (auto simp: unload_def bind_eq_Some_conv noneLoaded_def progIds_def setPrograms_def updStatus_def statePrograms_def)

text \<open>The load infos of a request name the programs of the application.\<close>

lemma loadInfos_names:
  "loadInfos ops sts qs = Some (Inr infos) \<Longrightarrow> map li_Name infos = map (op_Name ops) qs"
proof (induction qs arbitrary: infos)
  case (Cons q qs)
  from Cons.prems obtain r where r: "op_getProgState ops q sts = Some r" by (auto simp: bind_eq_Some_conv)
  with Cons.prems obtain j where j: "r = Inr j" by (cases r) auto
  with Cons.prems r obtain r' where r': "op_getProgramLoadInfo ops q = Some r'" by (auto simp: bind_eq_Some_conv)
  with Cons.prems r j obtain info where info: "r' = Inr info" by (cases r') auto
  with Cons.prems r j r' obtain rest where rest: "loadInfos ops sts qs = Some rest" by (auto simp: bind_eq_Some_conv)
  with Cons.prems r j r' info obtain infos' where "rest = Inr infos'" "infos = info # infos'" by (cases rest) auto
  with Cons.IH rest info_name r' info show ?case by simp
qed simp

lemma getLoadRequest_result:
  assumes "getLoadRequest env ops a st s = Some (r, s')"
  shows "see s' = see s"
    and "r = Inr req \<Longrightarrow> map li_Name (lr_Info req) = map (op_Name ops) (SpecPrograms (app_Spec a)) \<and>
       map_of (lr_Metadata req) ProgramNameKey = Some (appName a)"
proof -
  show "see s' = see s" by (rule getLoadRequest_view [OF quiet assms])
  from assms obtain b t where b: "GetBytecode env (ByteCode (app_Spec a)) s = Some (b, t)"
    by (auto simp: getLoadRequest_def bind_eq_Some_conv)
  assume "r = Inr req"
  with assms b obtain bc where bc: "b = Inr bc" by (cases b) (simp_all add: getLoadRequest_def)
  with assms b obtain q where "loadInfos ops (statePrograms st) (SpecPrograms (app_Spec a)) = Some q"
    by (auto simp: getLoadRequest_def bind_eq_Some_conv)
  with assms b bc \<open>r = Inr req\<close> obtain infos where "loadInfos ops (statePrograms st) (SpecPrograms (app_Spec a)) = Some (Inr infos)"
    "lr_Info req = infos" "lr_Metadata req = [(UuidMetadataKey, om_UID (st_Meta st)), (ProgramNameKey, appName a)]"
    by (cases q) (auto simp: getLoadRequest_def)
  with loadInfos_names show "map li_Name (lr_Info req) = map (op_Name ops) (SpecPrograms (app_Spec a)) \<and>
       map_of (lr_Metadata req) ProgramNameKey = Some (appName a)"
    by (auto simp: UuidMetadataKey_def ProgramNameKey_def)
qed

lemma GetBpfProgramId_zip:
  "list_all2 (\<lambda>r (info, i). map_option pi_Name (lri_Info r) = Some (li_Name info) \<and> lri_KernelId r = Some i) resp (zip infos ids) \<Longrightarrow>
   length ids = length infos \<Longrightarrow>
   GetBpfProgramId name resp =
     Some (case map_of (zip (map li_Name infos) ids) name of
             None \<Rightarrow> Inl (''program with name '' @ name @ '' not found'') | Some i \<Rightarrow> Inr i)"
proof (induction infos arbitrary: ids resp)
  case (Cons info infos)
  then obtain i ids' where ids: "ids = i # ids'" by (cases ids) auto
  with Cons.prems obtain x resp' where resp: "resp = x # resp'" "map_option pi_Name (lri_Info x) = Some (li_Name info)"
    "lri_KernelId x = Some i" by (cases resp) auto
  with Cons.prems ids Cons.IH [of resp' ids'] show ?case by auto
qed simp

lemma assignIds_map:
  "\<forall>p\<in>set ps. \<exists>i. f (Name p) = Some i \<and> GetBpfProgramId (Name p) resp = Some (Inr i) \<Longrightarrow>
   assignIds resp ps = Some (Inr (), map (\<lambda>p. p\<lparr>ProgramId := f (Name p)\<rparr>) ps)"
  for ps :: "'p BpfProgramStateCommon_scheme list"
  by (induction ps) auto

text \<open>
  After a load without error every program has the id of a program that was just loaded for the
  application, and the ids of the loaded programs are all recorded.
\<close>

text \<open>The programs of a validated list get exactly the ids of the response.\<close>

lemma assignIds_zip:
  fixes ps :: "'p BpfProgramStateCommon_scheme list"
  assumes len: "length ids = length infos"
    and resp: "list_all2 (\<lambda>r (info, i). map_option pi_Name (lri_Info r) = Some (li_Name info) \<and> lri_KernelId r = Some i) resp (zip infos ids)"
    and names: "distinct (map li_Name infos)" "set (map li_Name infos) = Name ` set ps"
  shows "\<exists>ps'. assignIds resp ps = Some (Inr (), ps') \<and> (\<forall>p\<in>set ps'. ProgramId p \<noteq> None) \<and>
    {i. \<exists>p\<in>set ps'. ProgramId p = Some i} = set ids"
proof -
  let ?names = "map li_Name infos"
  let ?id = "map_of (zip ?names ids)" and ?ps = "map (\<lambda>p. p\<lparr>ProgramId := map_of (zip (map li_Name infos) ids) (Name p)\<rparr>) ps"
  have found: "?id (Name p) \<noteq> None" if "p \<in> set ps" for p
    using that names(2) len by (simp add: map_of_zip_is_None)
  then have "\<forall>p\<in>set ps. \<exists>i. ?id (Name p) = Some i" by blast
  then have "assignIds resp ps = Some (Inr (), ?ps)"
    by (intro assignIds_map) (force simp: GetBpfProgramId_zip [OF resp len])
  moreover have "\<forall>p\<in>set ?ps. ProgramId p \<noteq> None" using found by auto
  moreover have "{i. \<exists>p\<in>set ?ps. ProgramId p = Some i} = {i. \<exists>name\<in>set ?names. ?id name = Some i}"
    unfolding names(2) by auto
  moreover have "\<dots> = set ids"
  proof (intro equalityI subsetI CollectI)
    fix i assume "i \<in> {i. \<exists>name\<in>set ?names. ?id name = Some i}"
    then show "i \<in> set ids" by (auto dest!: map_of_SomeD set_zip_rightD)
  next
    fix i assume "i \<in> set ids"
    then obtain k where "k < length ids" "i = ids ! k" by (metis in_set_conv_nth)
    with len names(1) have "?id (?names ! k) = Some i" "?names ! k \<in> set ?names"
      by (metis length_map map_of_zip_nth, metis length_map nth_mem)
    then show "\<exists>name\<in>set ?names. ?id name = Some i" by blast
  qed
  ultimately show ?thesis by blast
qed

lemma load_result:
  assumes l: "load env ops a st s = Some ((r, st'), s')" and v: "validateProgramList ops a st = Inr ()"
  shows "st_Meta st' = st_Meta st \<and> (if r = Inr () then loadedNow (appName a) node (see s) st' (see s') else st' = st \<and> see s' = see s)"
proof -
  from l obtain q t where q: "getLoadRequest env ops a st s = Some (q, t)" by (auto simp: load_def bind_eq_Some_conv)
  note t = getLoadRequest_result [OF q]
  show ?thesis
  proof (cases q)
    case (Inl e)
    with l q t(1) show ?thesis by (auto simp: load_def)
  next
    case (Inr req)
    obtain x w where x: "bpfman_Load env req (world t) = (x, w)" by fastforce
    show ?thesis
    proof (cases x)
      case (Inl e)
      with l q \<open>q = Inr req\<close> x t(1) load_fails [of req "world t"] show ?thesis by (auto simp: load_def lift_world_def)
    next
      case resp: (Inr resp)
      with load_works [of req "world t" resp w] x obtain ids where ids: "length ids = length (lr_Info req)"
        "\<forall>i\<in>set ids. here t i = None"
        "list_all2 (\<lambda>r (info, i). map_option pi_Name (lri_Info r) = Some (li_Name info) \<and> lri_KernelId r = Some i)
          resp (zip (lr_Info req) ids)"
        "view w = (see t)\<lparr>fl_loaded := (fl_loaded (see t))(node := (\<lambda>i. if i \<in> set ids then Some (lr_Metadata req) else here t i))\<rparr>"
        by blast
      have names: "distinct (map li_Name (lr_Info req))" "set (map li_Name (lr_Info req)) = Name ` set (statePrograms st)"
        unfolding t(2) [OF Inr, THEN conjunct1] using v by (simp_all add: validateProgramList_iff)
      from assignIds_zip [OF ids(1,3) names] obtain ps where ps: "assignIds resp (statePrograms st) = Some (Inr (), ps)"
        "\<forall>p\<in>set ps. ProgramId p \<noteq> None" "{i. \<exists>p\<in>set ps. ProgramId p = Some i} = set ids" by blast
      then have l': "r = Inr ()" "st' = setPrograms ps st" "world s' = w"
        using l q Inr x resp by (auto simp: load_def lift_world_def)
      have pids: "progIds st' = set ids" using ps(3) by (simp add: progIds_def l'(2))
      have "loadedNow (appName a) node (see s) st' (view w)"
        unfolding loadedNow_def pids using ids(2,4) ps(2) t(2) [OF Inr] unfolding t(1) by (auto simp: l'(2))
      then show ?thesis using l' by (simp add: setPrograms_def updStatus_def)
    qed
  qed
qed

section \<open>What reconcileLoad does to the fleet\<close>

lemma loadOutcomeD:
  assumes "loadOutcome a n fl st r st' fl'"
  shows "st_Meta st' = st_Meta st"
    and "\<exists>L. fl' = fl\<lparr>fl_loaded := (fl_loaded fl)(n := L)\<rparr> \<and> idChange a (fl_loaded fl n) st L st'"
    and "r = Inr () \<Longrightarrow> loadStatus st' \<in> {AppLoadSuccess, NotSelected, AppUnLoadSuccess} \<and> (isBeingDeleted a \<longrightarrow> noneLoaded st')"
    and "loadStatus st' = AppUnLoadSuccess \<Longrightarrow> isBeingDeleted a \<or> loadStatus st = AppUnLoadSuccess"
  using assms unfolding loadOutcome_def by blast+

lemma reconcileLoad_result:
  assumes r: "reconcileLoad env ops ourNode a st s = Some ((r, st'), s')"
    and inv: "stateInv fin (see s) (appName a) node st"
  shows "loadOutcome a node (see s) st r st' (see s')"
proof (cases "isNodeSelected env (NodeSelector (app_Spec a)) (nd_Labels ourNode)")
  case (Inl e)
  with r have "r \<noteq> Inr ()" "st' = st" "s' = s" by (auto simp: reconcileLoad_def)
  with inv show ?thesis by (simp add: loadOutcome_error)
next
  case sel: (Inr sel)
  show ?thesis
  proof (cases "\<not> sel \<or> isBeingDeleted a")
    case True
    with r sel obtain st1 where u: "unload env ops st s = Some (st1, s')" and r': "r = Inr ()"
      "st' = setAppLoadStatus (if sel then AppUnLoadSuccess else NotSelected) st1"
      by (auto simp: reconcileLoad_def bind_eq_Some_conv split: if_splits)
    with True unload_result [OF u] show ?thesis by (simp add: loadOutcome_unload)
  next
    case False
    from inv have pat: "noneLoaded st \<or> allLoaded (here s) (appName a) st" by (simp add: stateInv_def)
    obtain b t where b: "isLoaded env st s = (b, t)" by fastforce
    note bt = isLoaded_result [OF b pat]
    consider e where "validateProgramList ops a st = Inl e" | "validateProgramList ops a st = Inr ()" "b" | "validateProgramList ops a st = Inr ()" "\<not> b"
      by (cases "validateProgramList ops a st") auto
    then show ?thesis
    proof cases
      case 1
      with r sel False have "r = Inl e" "st' = setAppLoadStatus ProgListChangedError st" "s' = s" by (auto simp: reconcileLoad_def)
      with loadOutcome_status [of ProgListChangedError] show ?thesis by simp
    next
      case 2
      with r sel False b have "r = Inr ()" "st' = setAppLoadStatus AppLoadSuccess st" "s' = t" by (auto simp: reconcileLoad_def)
      with bt 2 False loadOutcome_loaded [of "see s" node a st] show ?thesis by simp
    next
      case 3
      with r sel False b obtain z where z: "load env ops a st t = Some z"
        by (cases "load env ops a st t") (auto simp: reconcileLoad_def)
      obtain q st1 t' where q: "z = ((q, st1), t')" by (metis prod.collapse)
      with z r sel False 3 b have "t' = s'" by (cases q) (auto simp: reconcileLoad_def)
      with z q have l: "load env ops a st t = Some ((q, st1), s')" by simp
      note l' = load_result [OF l 3(1), unfolded bt(1)]
      show ?thesis
      proof (cases q)
        case (Inl e)
        with r sel False 3 b l have "r = Inl (''failed to load program: '' @ e)" "st' = setAppLoadStatus AppLoadError st1"
          by (auto simp: reconcileLoad_def)
        with l' Inl loadOutcome_status [of AppLoadError] show ?thesis by simp
      next
        case (Inr y)
        with r sel False 3 b l have r': "r = Inr ()" "st' = setAppLoadStatus AppLoadSuccess st1" by (auto simp: reconcileLoad_def)
        with loadOutcome_load [of a node "see s" st1 "see s'" st] l' Inr bt(3) 3 False show ?thesis by simp
      qed
    qed
  qed
qed

section \<open>One turn of the loop over the applications\<close>

text \<open>A status update of the stored object, together with what reconcileLoad did before it, is one step.\<close>

lemma written_step:
  assumes inv: "fleetInv fin fl" and st: "st \<in> set (fl_states fl)" "isStateOf (appName a) node st"
    and st2: "idChange a (fl_loaded fl node) st L st2" "st_Meta st2 = st_Meta st" "statusAllowed a st2"
    and y: "Conditions y = Conditions (st_Status st2)" "AppLoadStatus y = loadStatus st2" "Programs y = statePrograms st2"
  shows "agentStep fin node a fl (fl\<lparr>fl_states := updState (stName st2) (\<lambda>z. z\<lparr>st_Status := y\<rparr>) (fl_states fl),
    fl_loaded := (fl_loaded fl)(node := L)\<rparr>)"
proof -
  let ?st = "st\<lparr>st_Status := y\<rparr>"
  have "idChange a (fl_loaded fl node) st L ?st"
    using idChange_status [OF st2(1), of ?st] y by (simp add: statePrograms_def)
  moreover have "statusAllowed a ?st" using st2(3) y by (simp add: statusAllowed_def settledStatus_def settled_def)
  ultimately have "agentStep fin node a fl (fl\<lparr>fl_states := updState (stName st) (\<lambda>_. ?st) (fl_states fl),
    fl_loaded := (fl_loaded fl)(node := L)\<rparr>)" by (rule idChange_step [OF st refl])
  then show ?thesis unfolding st2(2) updState_const [OF inv_names [OF inv] st(1), symmetric] .
qed

lemma reconcilePrograms_view:
  "reconcilePrograms ops b qs c ps s = Some (x, s') \<Longrightarrow> see s' = see s"
  by (rule programs_view) (rule program_view)

lemma reconcileAppPrograms_result:
  assumes "reconcileAppPrograms env ops a st s = Some (st', s')"
  shows "see s' = see s" and "st_Meta st' = st_Meta st" and "loadStatus st' = loadStatus st"
    and "map ProgramId (statePrograms st') = map ProgramId (statePrograms st)"
proof -
  from assms obtain c ps where q: "(if \<not> isBeingDeleted a then reconcilePrograms ops (isBeingDeleted a)
      (SpecPrograms (app_Spec a)) BpfAppStateCondSuccess (statePrograms st) s
      else Some ((BpfAppStateCondSuccess, statePrograms st), s)) = Some ((c, ps), s')"
    and "\<exists>now c. st' = snd (updateBpfAppStateCondition now c (setPrograms ps st))"
    by (auto simp: reconcileAppPrograms_def bind_eq_Some_conv Let_def simp del: split_paired_Ex)
  then obtain now c' where st': "st' = snd (updateBpfAppStateCondition now c' (setPrograms ps st))" by blast
  have "see s' = see s \<and> map ProgramId ps = map ProgramId (statePrograms st)"
    using q by (cases "isBeingDeleted a") (auto dest: reconcilePrograms_view reconcilePrograms_frame)
  then show "see s' = see s" and "map ProgramId (statePrograms st') = map ProgramId (statePrograms st)"
    by (simp_all add: st')
  show "st_Meta st' = st_Meta st" and "loadStatus st' = loadStatus st"
    unfolding st' by (subst updateBpfAppStateCondition_frame, simp add: setPrograms_def updStatus_def)+
qed

text \<open>The condition an error leaves is never one the operator takes for settled.\<close>

lemma error_not_settled: "\<not> settled (snd (updateBpfAppStateCondition now BpfAppStateCondError st))"
  using updateBpfAppStateCondition_type [of now BpfAppStateCondError st]
  by (auto simp: settled_def IsBpfAppStateConditionFailure_def)

lemma pending_not_settled: "\<not> settled (snd (updateBpfAppStateCondition now BpfAppStateCondPending st))"
  using updateBpfAppStateCondition_type [of now BpfAppStateCondPending st]
  by (auto simp: settled_def IsBpfAppStateConditionPending_def)

lemma condition_frame:
  "st_Meta (snd (updateBpfAppStateCondition now c st)) = st_Meta st"
  "loadStatus (snd (updateBpfAppStateCondition now c st)) = loadStatus st"
  by (subst updateBpfAppStateCondition_frame, simp)+

text \<open>Removing the finalizer of an unloaded state object releases it, or fails and changes nothing.\<close>

lemma removeFinalizer_step:
  assumes "removeFinalizer env fin st' s = (b, s')" and "st_Meta st' = st_Meta st"
    and "st \<in> set (fl_states (see s))" "isStateOf (appName a) node st" "isBeingDeleted a" "noneLoaded st"
    and inv: "fleetInv fin (see s)"
  shows "agentStep fin node a (see s) (see s')"
proof (cases "fin \<in> set (om_Finalizers (st_Meta st))")
  case False
  with assms(1,2) show ?thesis by (simp add: removeFinalizer_def agentStep.idle)
next
  case True
  let ?st = "st'\<lparr>st_Meta := (st_Meta st')\<lparr>om_Finalizers := removeAll fin (om_Finalizers (st_Meta st'))\<rparr>\<rparr>"
  obtain r w where u: "k8s_Update env ?st (world s) = (r, w)" by fastforce
  with assms(1,2) True have s': "see s' = view w" by (auto simp: removeFinalizer_def lift_world_def)
  show ?thesis
  proof (cases r)
    case (Inl e)
    with update_fails u s' show ?thesis by (auto simp: agentStep.idle)
  next
    case (Inr x)
    let ?f = "\<lambda>y. y\<lparr>st_Meta := (st_Meta y)\<lparr>om_Finalizers := om_Finalizers (st_Meta ?st)\<rparr>\<rparr>"
    let ?g = "\<lambda>y. y\<lparr>st_Meta := (st_Meta y)\<lparr>om_Finalizers := removeAll fin (om_Finalizers (st_Meta y))\<rparr>\<rparr>"
    have "see s' = (see s)\<lparr>fl_states := updState (stName st) ?f (fl_states (see s))\<rparr>"
      using update_works [of ?st "world s" x w] u s' Inr assms(2) by simp
    also have "\<dots> = (see s)\<lparr>fl_states := updState (stName st) ?g (fl_states (see s))\<rparr>"
      using updState_const [OF inv_names [OF inv] assms(3), of ?f] updState_const [OF inv_names [OF inv] assms(3), of ?g]
        assms(2) by simp
    finally show ?thesis using agentStep.release [OF assms(3-6)] by simp
  qed
qed

lemma afterLoad_step:
  assumes l: "reconcileLoad env ops ourNode a st s = Some ((Inr (), st1), s1)" and r: "afterLoad env ops a st st1 s1 = Some (r, s')"
    and st: "st \<in> set (fl_states (see s))" "isStateOf (appName a) node st"
    and inv: "fleetInv fin (see s)" and a: "a \<in> set (fl_apps (see s))"
  shows "agentStep fin node a (see s) (see s')"
proof -
  note i = inv_state [OF inv st]
  note l' = loadOutcomeD [OF reconcileLoad_result [OF l i]]
  from l'(2) obtain L where L: "see s1 = (see s)\<lparr>fl_loaded := (fl_loaded (see s))(node := L)\<rparr>" "idChange a (here s) st L st1" by blast
  from r obtain st2 s2 where p: "reconcileAppPrograms env ops a st1 s1 = Some (st2, s2)"
    by (auto simp: afterLoad_def bind_eq_Some_conv)
  note p' = reconcileAppPrograms_result [OF p]
  have c: "idChange a (here s) st L st2" "st_Meta st2 = st_Meta st" using idChange_status [OF L(2) p'(3,4)] p'(2) l'(1) by simp_all
  have "loadStatus st2 = AppUnLoadSuccess \<Longrightarrow> isBeingDeleted a"
    using p'(3) l'(4) i namedLive_deleted [OF inv_apps [OF inv] a] by (auto simp: stateInv_def)
  then have ok: "statusAllowed a st2" using p'(3) l'(3) by (simp add: statusAllowed_def settledStatus_def)
  have s2: "st \<in> set (fl_states (see s2))" "see s2 = (see s)\<lparr>fl_loaded := (fl_loaded (see s))(node := L)\<rparr>"
    using st(1) p'(1) L(1) by simp_all
  obtain b q st3 s3 where u: "updateBpfAppStateStatus env ops a (Some st) st2 s2 = ((b, q, st3), s3)" by (metis prod.collapse)
  from u s2(1) c(2) [symmetric] show ?thesis
  proof (cases rule: updateStatus)
    case (written y)
    then have "see s' = see s3" using r p u by (cases q) (auto simp: afterLoad_def)
    moreover have "see s3 = (see s)\<lparr>fl_states := updState (stName st2) (\<lambda>z. z\<lparr>st_Status := y\<rparr>) (fl_states (see s)),
        fl_loaded := (fl_loaded (see s))(node := L)\<rparr>" using written(5) s2(2) by simp
    ultimately show ?thesis using written_step [OF inv st c ok written(2-4)] by simp
  next
    case same
    then have "q = Inr ()" using u by (simp add: updateBpfAppStateStatus_def split: if_splits)
    from same(2) have "L = here s" using idChange_same [OF c(1)] by simp
    with s2(2) have see2: "see s2 = see s" by simp
    show ?thesis
    proof (cases "isBeingDeleted a \<and> \<not> IsBpfAppStateConditionFailure (Conditions (st_Status st2))")
      case False
      with r p u same \<open>q = Inr ()\<close> see2 show ?thesis by (auto simp: afterLoad_def agentStep.idle)
    next
      case True
      obtain d s4 where f: "removeFinalizer env fin st2 s2 = (d, s4)" by fastforce
      with True r p u same \<open>q = Inr ()\<close> have "s' = s4" by (auto simp: afterLoad_def split: bool.splits)
      moreover have "noneLoaded st1" using True l'(3) by simp
      then have "noneLoaded st" using same_ids(1) [OF p'(4)] same(2) by (simp add: noneLoaded_def statePrograms_def)
      ultimately show ?thesis using removeFinalizer_step [OF f c(2)] st True inv see2 by simp
    qed
  qed
qed

text \<open>A fresh status: nothing loaded, and pending.\<close>

lemma initStatus_result:
  assumes "initBpfAppStateStatus env ops a now st = Some (Inr x, st')"
  shows "st_Meta st' = st_Meta st" and "noneLoaded st'" and "loadStatus st' = AppLoadNotLoaded" and "\<not> settled st'"
proof -
  let ?st = "st\<lparr>st_Status := \<lparr>UpdateCount = 0, Node = NodeName env, AppLoadStatus = AppLoadNotLoaded, Programs = [], Conditions = []\<rparr>\<rparr>"
  from assms obtain y st1 where i: "initializeNodeProgramList ops a ?st = Some (y, st1)"
    by (auto simp: initBpfAppStateStatus_def Let_def bind_eq_Some_conv)
  with assms have y: "y = Inr ()" and st': "st' = snd (updateBpfAppStateCondition now BpfAppStateCondPending st1)"
    by (cases y, simp_all add: initBpfAppStateStatus_def)+
  with i obtain ps where "initLoop ops (SpecPrograms (app_Spec a)) [] = Some (Inr (), ps)" and st1: "st1 = setPrograms ps ?st"
    by (auto simp: initializeNodeProgramList_def statePrograms_def bind_eq_Some_conv)
  then have "\<forall>p\<in>set ps. ProgramId p = None" using initLoop_states by (fastforce simp: list_all2_conv_all_nth in_set_conv_nth)
  then show "noneLoaded st'" by (simp add: noneLoaded_def st' st1)
  show "st_Meta st' = st_Meta st" and "loadStatus st' = AppLoadNotLoaded" and "\<not> settled st'"
    unfolding st' by (simp_all add: pending_not_settled condition_frame) (simp_all add: st1 setPrograms_def updStatus_def)
qed

lemma initBpfAppState_result:
  assumes "initBpfAppState env ops a s = (q, t)"
  shows "see t = see s" and "q = Inr st \<Longrightarrow> isStateOf (appName a) node st \<and> om_Finalizers (st_Meta st) = [fin]"
proof -
  show "see t = see s"
    using assms quiet by (auto simp: initBpfAppState_def generateUniqueName_def lift_world_def keepsView_def Let_def
        split: prod.splits sum.splits) (metis snd_conv)+
  show "q = Inr st \<Longrightarrow> isStateOf (appName a) node st \<and> om_Finalizers (st_Meta st) = [fin]"
    using assms by (auto simp: initBpfAppState_def Let_def isStateOf_def hasLabels_def BpfAppStateOwner_def K8sHostLabel_def
        split: prod.splits sum.splits dest!: owner_works)
qed

text \<open>Creating the state object is a step; the object that is read back is the one that was created.\<close>

lemma createInitial_result:
  assumes r: "createInitialBpfAppState env ops a st0 t = ((y, st), v)" and live: "\<not> isBeingDeleted a"
    and st0: "isStateOf (appName a) node st0" "om_Finalizers (st_Meta st0) = [fin]"
    and absent: "\<forall>x\<in>set (fl_states (see t)). \<not> isStateOf (appName a) node x"
    and inv: "fleetInv fin (see t)" and a: "a \<in> set (fl_apps (see t))"
  shows "agentStep fin node a (see t) (see v)"
    and "y = Inr () \<Longrightarrow> st \<in> set (fl_states (see v)) \<and> isStateOf (appName a) node st \<and> st_Status st = emptyStatus"
proof -
  obtain x w where x: "k8s_Create env st0 (world t) = (x, w)" by fastforce
  have "agentStep fin node a (see t) (see v) \<and>
    (y = Inr () \<longrightarrow> st \<in> set (fl_states (see v)) \<and> isStateOf (appName a) node st \<and> st_Status st = emptyStatus)"
  proof (cases x)
    case (Inl e)
    with x r create_fails [of st0 "world t"] show ?thesis
      by (auto simp: createInitialBpfAppState_def lift_world_def agentStep.idle)
  next
    case new: (Inr st1)
    with x create_works [of st0 "world t" st1 w] have st1: "stName st1 = stName st0" "om_Labels (st_Meta st1) = om_Labels (st_Meta st0)"
      "om_Finalizers (st_Meta st1) = om_Finalizers (st_Meta st0)" "st_Status st1 = emptyStatus"
      "stName st0 \<notin> stName ` set (fl_states (see t))" "view w = (see t)\<lparr>fl_states := fl_states (see t) @ [st1]\<rparr>" by auto
    have is1: "isStateOf (appName a) node st1" using st0(1) isStateOf_meta [OF st1(2)] by simp
    have step: "agentStep fin node a (see t) (view w)" unfolding st1(6)
      by (rule agentStep.create [OF live absent is1])
        (use st1 st0 in \<open>simp_all add: noneLoaded_def statePrograms_def emptyStatus_def settledStatus_def settled_def IsBpfAppStateConditionFailure_def\<close>)
    have mem: "st1 \<in> set (fl_states (view w))" unfolding st1(6) by simp
    have y: "waitForSpec env ops a 0 (pollAttempts env) st1 (t\<lparr>world := w\<rparr>) = ((y, st), v)"
      using r x new by (simp add: createInitialBpfAppState_def waitForBpfAppStateSpecUpdate_def lift_world_def)
    note read = waitForSpec_result [OF y]
    have "st = st1" if "y = Inr ()"
      using read that inv_unique [OF agentStep_inv [OF step inv a] mem _ is1] by simp
    with read step is1 st1(4) mem show ?thesis by auto
  qed
  then show "agentStep fin node a (see t) (see v)"
    and "y = Inr () \<Longrightarrow> st \<in> set (fl_states (see v)) \<and> isStateOf (appName a) node st \<and> st_Status st = emptyStatus" by blast+
qed

text \<open>Writing the status of a stored object, whatever went before, is a step or changes nothing.\<close>

lemma updateStatus_step:
  assumes u: "updateBpfAppStateStatus env ops a None st2 s2 = ((b, q, st3), s3)" and inv: "fleetInv fin fl"
    and st: "st \<in> set (fl_states fl)" "isStateOf (appName a) node st"
    and s2: "see s2 = fl\<lparr>fl_loaded := (fl_loaded fl)(node := L)\<rparr>"
    and c: "idChange a (fl_loaded fl node) st L st2" "st_Meta st2 = st_Meta st" and ok: "statusAllowed a st2"
  shows "agentStep fin node a fl (see s3)"
proof -
  have mem: "st \<in> set (fl_states (see s2))" using st(1) s2 by simp
  from u mem c(2) [symmetric] show ?thesis
  proof (cases rule: updateStatus)
    case (written y)
    then have "see s3 = fl\<lparr>fl_states := updState (stName st2) (\<lambda>z. z\<lparr>st_Status := y\<rparr>) (fl_states fl),
        fl_loaded := (fl_loaded fl)(node := L)\<rparr>" using s2 by simp
    with written_step [OF inv st c ok written(2-4)] show ?thesis by simp
  qed simp
qed

lemma createBpfAppState_steps:
  assumes r: "createBpfAppState env ops a s = Some (r, s')" and live: "\<not> isBeingDeleted a"
    and absent: "\<forall>x\<in>set (fl_states (see s)). \<not> isStateOf (appName a) node x"
    and inv: "fleetInv fin (see s)" and a: "a \<in> set (fl_apps (see s))"
  shows "(agentStep fin node a)\<^sup>*\<^sup>* (see s) (see s')"
proof -
  obtain q t where q: "initBpfAppState env ops a s = (q, t)" by fastforce
  note t = initBpfAppState_result [OF q]
  show ?thesis
  proof (cases q)
    case (Inl e)
    with q r t(1) show ?thesis by (simp add: createBpfAppState_def)
  next
    case (Inr st0)
    obtain y st v where y: "createInitialBpfAppState env ops a st0 t = ((y, st), v)" by (metis prod.collapse)
    note v = createInitial_result [OF y live t(2) [OF Inr, THEN conjunct1] t(2) [OF Inr, THEN conjunct2], unfolded t(1), OF absent inv a]
    show ?thesis
    proof (cases y)
      case (Inl e)
      with q Inr y r v(1) show ?thesis by (auto simp: createBpfAppState_def)
    next
      case (Inr z)
      with v(2) have st: "st \<in> set (fl_states (see v))" "isStateOf (appName a) node st" "st_Status st = emptyStatus" by simp_all
      from r q \<open>q = Inr st0\<close> y Inr obtain k st1 where k: "initBpfAppStateStatus env ops a (time_Now env (world v)) st = Some (k, st1)"
        by (auto simp: createBpfAppState_def bind_eq_Some_conv)
      show ?thesis
      proof (cases k)
        case (Inl e)
        with r q \<open>q = Inr st0\<close> y \<open>y = Inr z\<close> k v(1) show ?thesis by (auto simp: createBpfAppState_def)
      next
        case (Inr z')
        note st1 = initStatus_result [OF k [unfolded Inr]]
        obtain b q' st2 s2 where u: "updateBpfAppStateStatus env ops a None st1 v = ((b, q', st2), s2)" by (metis prod.collapse)
        have "progIds st = {}" using st(3) by (simp add: progIds_def statePrograms_def emptyStatus_def)
        then have "idChange a (here v) st (here v) st1" using st1(2,3) by (simp add: idChange_def)
        moreover have "statusAllowed a st1" using st1(3,4) by (simp add: statusAllowed_def settledStatus_def)
        ultimately have "agentStep fin node a (see v) (see s2)"
          using updateStatus_step [OF u agentStep_inv [OF v(1) inv a] st(1,2), of "here v"] st1(1) by simp
        moreover have "s' = s2" using r q \<open>q = Inr st0\<close> y \<open>y = Inr z\<close> k Inr u by (cases q') (auto simp: createBpfAppState_def)
        ultimately show ?thesis using v(1) by (metis (no_types) rtranclp.simps)
      qed
    qed
  qed
qed

text \<open>An error of \<^verbatim>\<open>reconcileLoad\<close> is recorded, together with what it did.\<close>

lemma loadError_step:
  assumes l: "reconcileLoad env ops ourNode a st s = Some ((Inl e, st1), s1)"
    and u: "updateBpfAppStateStatus env ops a None (snd (updateBpfAppStateCondition now BpfAppStateCondError st1)) s1 = ((b, q, st3), s3)"
    and st: "st \<in> set (fl_states (see s))" "isStateOf (appName a) node st"
    and inv: "fleetInv fin (see s)" and a: "a \<in> set (fl_apps (see s))"
  shows "agentStep fin node a (see s) (see s3)"
proof -
  note i = inv_state [OF inv st]
  note l' = loadOutcomeD [OF reconcileLoad_result [OF l i]]
  from l'(2) obtain L where L: "see s1 = (see s)\<lparr>fl_loaded := (fl_loaded (see s))(node := L)\<rparr>" "idChange a (here s) st L st1" by blast
  let ?st = "snd (updateBpfAppStateCondition now BpfAppStateCondError st1)"
  have c: "idChange a (here s) st L ?st" "st_Meta ?st = st_Meta st"
    using idChange_status [OF L(2), of ?st] l'(1) by (simp_all add: condition_frame)
  have "loadStatus ?st = AppUnLoadSuccess \<Longrightarrow> isBeingDeleted a"
    using l'(4) i namedLive_deleted [OF inv_apps [OF inv] a] by (auto simp: stateInv_def condition_frame)
  then have "statusAllowed a ?st" by (simp add: statusAllowed_def settledStatus_def error_not_settled)
  with updateStatus_step [OF u inv st L(1) c] show ?thesis by simp
qed

lemma reconcileApp_steps:
  assumes r: "reconcileApp env ops ourNode a s = Some (r, s')"
    and inv: "fleetInv fin (see s)" and a: "a \<in> set (fl_apps (see s))"
  shows "(agentStep fin node a)\<^sup>*\<^sup>* (see s) (see s')"
proof -
  obtain q t where g: "getBpfAppState env ops a s = (q, t)" by fastforce
  note q = getState [OF g]
  consider e where "q = Inl e" | "q = Inr None" "isBeingDeleted a" | "q = Inr None" "\<not> isBeingDeleted a" | st where "q = Inr (Some st)"
    by (metis sum.exhaust option.exhaust)
  then show ?thesis
  proof cases
    case 3
    with r g obtain x where "createBpfAppState env ops a t = Some (x, s')" by (auto simp: reconcileApp_def bind_eq_Some_conv)
    from createBpfAppState_steps [OF this 3(2)] q(1) q(2) [OF 3(1)] inv a show ?thesis by simp
  next
    case 4
    from q(3) [OF 4] q(1) have st: "st \<in> set (fl_states (see t))" "isStateOf (appName a) node st" by simp_all
    have inv': "fleetInv fin (see t)" "a \<in> set (fl_apps (see t))" using inv a q(1) by simp_all
    from r g 4 obtain x where "reconcileLoad env ops ourNode a st t = Some x" by (auto simp: reconcileApp_def bind_eq_Some_conv)
    then obtain k st1 s1 where l: "reconcileLoad env ops ourNode a st t = Some ((k, st1), s1)" by (metis prod.collapse)
    show ?thesis
    proof (cases k)
      case (Inr u)
      with l have l: "reconcileLoad env ops ourNode a st t = Some ((Inr (), st1), s1)" by simp
      with r g 4 have "afterLoad env ops a st st1 s1 = Some (r, s')" by (simp add: reconcileApp_def)
      from afterLoad_step [OF l this st inv'] q(1) show ?thesis by simp
    next
      case (Inl e)
      let ?st = "snd (updateBpfAppStateCondition (time_Now env (world s1)) BpfAppStateCondError st1)"
      obtain b q' st3 s3 where u: "updateBpfAppStateStatus env ops a None ?st s1 = ((b, q', st3), s3)" by (metis prod.collapse)
      have "s' = s3" using r g 4 l Inl u by (cases q'; cases b) (auto simp: reconcileApp_def)
      with loadError_step [OF l [unfolded Inl] u st inv'] q(1) show ?thesis by auto
    qed
  qed (use r g q(1) in \<open>simp_all add: reconcileApp_def\<close>)
qed

text \<open>The loop over the applications, on the list the API server returned.\<close>

lemma reconcileApps_moves:
  "reconcileApps env ops ourNode as s = Some (r, s') \<Longrightarrow> fleetInv fin (see s) \<Longrightarrow> set as \<subseteq> set (fl_apps (see s)) \<Longrightarrow>
   (agentMove fin node)\<^sup>*\<^sup>* (see s) (see s')"
proof (induction as arbitrary: s)
  case (Cons a as)
  from Cons.prems(1) obtain x t where x: "reconcileApp env ops ourNode a s = Some (x, t)" by (auto simp: bind_eq_Some_conv)
  from reconcileApp_steps [OF x] Cons.prems(2,3) have "(agentStep fin node a)\<^sup>*\<^sup>* (see s) (see t)" by simp
  from agentSteps_moves [OF this] Cons.prems(3)
  have m: "(agentMove fin node)\<^sup>*\<^sup>* (see s) (see t)" "fl_apps (see t) = fl_apps (see s)" by simp_all
  show ?case
  proof (cases x)
    case (Some result)
    with Cons.prems(1) x m(1) show ?thesis by simp
  next
    case None
    with Cons.prems(1) x have "reconcileApps env ops ourNode as t = Some (r, s')" by simp
    from Cons.IH [OF this] agentMoves [OF m(1) Cons.prems(2)] Cons.prems(3) m show ?thesis by (simp add: rtranclp_trans)
  qed
qed simp

end

end
