(* ===== verification/Fleet.thy ===== *)
theory Fleet
  imports Fleet_Agent Operator_Properties
begin

text \<open>
  The whole cluster: the agents of all nodes, the operator, the daemons and the API server. The agents
  run \<^verbatim>\<open>Reconcile\<close> of \<^verbatim>\<open>cl_application_program.go\<close>, the operator \<^verbatim>\<open>Reconcile\<close> of
  \<^verbatim>\<open>cl_application_programs.go\<close>, in any order, and users change, delete and create applications between
  the reconciles; a reconcile is one atomic step. The locale \<open>fleet\<close> collects what the reconcilers rely on
  from the API server and the daemons. Each step implements the protocol of \<^verbatim>\<open>Fleet_Protocol\<close>, so its
  invariant holds in every reachable state; the properties of the composition follow from it: the
  operator lets an application go only when no daemon holds a program of it, and it reports \<^verbatim>\<open>Success\<close> only
  when the programs are loaded on every node that is selected.
\<close>

section \<open>What the operator relies on\<close>

text \<open>
  Storing an application: a deleted one whose last finalizer is gone is removed by the API server.
\<close>

definition putApp :: "'q App \<Rightarrow> 'q App list \<Rightarrow> 'q App list" where
  "putApp a as =
     (if isBeingDeleted a \<and> om_Finalizers (app_Meta a) = [] then filter (\<lambda>x. appName x \<noteq> appName a) as
      else map (\<lambda>x. if appName x = appName a then a else x) as)"

definition putConditions :: "string \<Rightarrow> Condition list \<Rightarrow> 'q App list \<Rightarrow> 'q App list" where
  "putConditions name cs as = map (\<lambda>x. if appName x = name then x\<lparr>app_Conditions := cs\<rparr> else x) as"

locale fleet =
  fixes env :: "string \<Rightarrow> ('w, ClBpfApplicationProgram, ClBpfApplicationProgramState) KEnv"
    and oenv :: "('w, ClBpfApplicationProgram, ClBpfApplicationProgramState) OEnv"
    and view :: "'w \<Rightarrow> (ClBpfApplicationProgram, ClBpfApplicationProgramState) Fleet"
  assumes node_name: "NodeName (env n) = n"
    and server: "fleet_server (env n) view"
    and oper_get: "view (snd (oe_GetApp oenv ns name w)) = view w"
      "fst (oe_GetApp oenv ns name w) = Inr a \<Longrightarrow> a \<in> set (fl_apps (view w)) \<and> appName a = name"
    and oper_state: "view (snd (oe_GetState oenv ns name w)) = view w"
    and oper_list: "view (snd (oe_ListStates oenv None labels w)) = view w"
      "fst (oe_ListStates oenv None labels w) = Inr xs \<Longrightarrow> xs = filter (hasLabels labels) (fl_states (view w))"
    and oper_nodes: "view (snd (oe_ListNodes oenv w)) = view w"
      "fst (oe_ListNodes oenv w) = Inr nds \<Longrightarrow> nds = fl_nodes (view w)"
    and oper_update_fails: "oe_Update oenv b w = (Inl e, w') \<Longrightarrow> view w' = view w"
    and oper_update_works: "a \<in> set (fl_apps (view w)) \<Longrightarrow> b = a\<lparr>app_Meta := (app_Meta a)\<lparr>om_Finalizers := fs\<rparr>\<rparr> \<Longrightarrow>
      oe_Update oenv b w = (Inr u, w') \<Longrightarrow> view w' = (view w)\<lparr>fl_apps := putApp b (fl_apps (view w))\<rparr>"
    and oper_status_fails: "oe_StatusUpdate oenv b w = (Inl e, w') \<Longrightarrow> view w' = view w"
    and oper_status_works: "a \<in> set (fl_apps (view w)) \<Longrightarrow> b = a\<lparr>app_Conditions := cs\<rparr> \<Longrightarrow>
      oe_StatusUpdate oenv b w = (Inr u, w') \<Longrightarrow> view w' = (view w)\<lparr>fl_apps := putConditions (appName a) cs (fl_apps (view w))\<rparr>"

lemma Cl_deleteLinks_id: "Cl_deleteLinks p = Some p' \<Longrightarrow> ProgramId p' = ProgramId p"
  by (cases "cs_Type p") (auto simp: Cl_deleteLinks_def bind_eq_Some_conv split: option.splits)

sublocale fleet \<subseteq> agent: fleet_agent "env n" view "Cl_ops (env n) nd" Cl_wf Cl_no_links for n nd
proof (intro fleet_agent.intro server clApp.app_ops_axioms fleet_agent_axioms.intro)
  show "view (world s') = view (world s)"
    if "op_reconcileProgram (Cl_ops (env n) nd) q b p s = Some (x, s')" for q b p s x s'
    using Cl_reconcileProgram_view [OF fleet_server.quiet [OF server] that] .
  show "li_Name info = op_Name (Cl_ops (env n) nd) q"
    if "op_getProgramLoadInfo (Cl_ops (env n) nd) q = Some (Inr info)" for q info
    using Cl_loadInfo_name [OF that] by (simp add: Cl_ops_def)
qed (simp_all add: Cl_deleteLinks_id Cl_ops_def)

context fleet
begin

section \<open>The agents\<close>

lemma agent_moves:
  assumes r: "Cl_Reconcile (env n) req s = Some (r, s')" and inv: "fleetInv ClBpfApplicationControllerFinalizer (view (world s))"
  shows "(agentMove ClBpfApplicationControllerFinalizer n)\<^sup>*\<^sup>* (view (world s)) (view (world s'))"
proof -
  let ?s = "NetNsCache_Reset s"
  obtain q w where q: "k8s_GetNode (env n) n (world s) = (q, w)" by fastforce
  have w: "view w = view (world s)" using fleet_server.get_node [OF server, of n n "world s"] q by simp
  obtain a w' where a: "k8s_ListApps (env n) w = (a, w')" by fastforce
  have w': "view w' = view (world s)" "\<And>as. a = Inr as \<Longrightarrow> set as = set (fl_apps (view (world s)))"
    using fleet_server.list_apps [OF server, of n w] a w by auto
  show ?thesis
  proof (cases "\<exists>nd as. q = Inr nd \<and> a = Inr as \<and> as \<noteq> []")
    case True
    then obtain nd as where nd: "q = Inr nd" "a = Inr as" "as \<noteq> []" by blast
    let ?t = "?s\<lparr>world := w'\<rparr>"
    have "reconcileApps (env n) (Cl_ops (env n) nd) nd as ?t = Some (r, s')"
      using r q a nd by (auto simp: Cl_Reconcile_def Reconcile_def NetNsCache_Reset_def lift_world_def node_name Let_def)
    from agent.reconcileApps_moves [OF this] w' nd(2) inv show ?thesis
      by (simp add: node_name Cl_ops_def)
  next
    case False
    with r q a w w'(1) show ?thesis
      by (auto simp: Cl_Reconcile_def Reconcile_def NetNsCache_Reset_def lift_world_def node_name Let_def split: sum.splits if_splits)
  qed
qed

section \<open>The operator\<close>

lemma operator_lists:
  assumes "oe_ListStates oenv None labels w = (Inr states, w1)" and "oe_ListNodes oenv w1 = (Inr nodes, w2)"
  shows "states = filter (hasLabels labels) (fl_states (view w))" and "nodes = fl_nodes (view w)" and "view w2 = view w"
  using assms oper_list(1) [of labels w] oper_list(2) [of labels w] oper_nodes(1) [of w1] oper_nodes(2) [of w1] by auto

text \<open>A write succeeds or changes nothing.\<close>

lemma operator_update:
  assumes "oe_Update oenv (a\<lparr>app_Meta := (app_Meta a)\<lparr>om_Finalizers := fs\<rparr>\<rparr>) w = (u, w')" and "a \<in> set (fl_apps (view w))"
  shows "view w' = view w \<or>
    view w' = (view w)\<lparr>fl_apps := putApp (a\<lparr>app_Meta := (app_Meta a)\<lparr>om_Finalizers := fs\<rparr>\<rparr>) (fl_apps (view w))\<rparr>"
  using assms oper_update_fails oper_update_works [OF assms(2) refl] by (cases u) blast+

lemma operator_status:
  assumes "oe_StatusUpdate oenv (a\<lparr>app_Conditions := cs\<rparr>) w = (u, w')" and "a \<in> set (fl_apps (view w))"
  shows "view w' = view w \<or> view w' = (view w)\<lparr>fl_apps := putConditions (appName a) cs (fl_apps (view w))\<rparr>"
  using assms oper_status_fails oper_status_works [OF assms(2) refl] by (cases u) blast+

lemma operator_reports:
  assumes "oper_updateStatus oenv '''' name c m w = (r, w')"
  shows "view w' = view w \<or> (\<exists>now. view w' = (view w)\<lparr>fl_apps :=
    putConditions name (SetStatusCondition now [] (BpfAppCond_Condition c m)) (fl_apps (view w))\<rparr>)"
proof -
  obtain g w1 where g: "oe_GetApp oenv '''' name w = (g, w1)" by fastforce
  have w1: "view w1 = view w" using oper_get(1) [of "''''" name w] g by simp
  show ?thesis
  proof (cases g)
    case (Inl e)
    with assms g w1 show ?thesis by (simp add: oper_updateStatus_def)
  next
    case (Inr b)
    with oper_get(2) [of "''''" name w b] g have b: "b \<in> set (fl_apps (view w1))" "appName b = name" by (simp_all add: w1)
    let ?cs = "SetStatusCondition (oe_Now oenv w1) [] (BpfAppCond_Condition c m)"
    obtain u w2 where u: "oe_StatusUpdate oenv (b\<lparr>app_Conditions := ?cs\<rparr>) w1 = (u, w2)" by fastforce
    with assms g Inr have "w' = w1 \<or> w' = w2"
      by (auto simp: oper_updateStatus_def updateCondition_def split: sum.splits if_splits)
    with operator_status [OF u b(1)] w1 b(2) show ?thesis by auto
  qed
qed

lemma operator_adds:
  assumes r: "reconcileBpfApplication oenv (Cluster_OperRec oenv) a w = (r, w')" and a: "a \<in> set (fl_apps (view w))"
    and "\<not> ContainsFinalizer (app_Meta a) BpfmanOperatorFinalizer"
  shows "view w' = view w \<or> view w' = (view w)\<lparr>fl_apps := putApp (a\<lparr>app_Meta := (app_Meta a)\<lparr>om_Finalizers :=
    om_Finalizers (app_Meta a) @ [BpfmanOperatorFinalizer]\<rparr>\<rparr>) (fl_apps (view w))\<rparr>"
proof -
  let ?b = "a\<lparr>app_Meta := (app_Meta a)\<lparr>om_Finalizers := om_Finalizers (app_Meta a) @ [BpfmanOperatorFinalizer]\<rparr>\<rparr>"
  obtain u w1 where u: "oe_Update oenv ?b w = (u, w1)" by fastforce
  with r assms(3) have "w' = w1"
    by (auto simp: reconcileBpfApplication_def addFinalizer_def ContainsFinalizer_def Let_def split: sum.splits)
  with operator_update [OF u a] show ?thesis by simp
qed

text \<open>What a reconcile of the operator does to the applications.\<close>

lemma operator_result:
  assumes r: "reconcileBpfApplication oenv (Cluster_OperRec oenv) a w = (r, w')" and a: "a \<in> set (fl_apps (view w))"
  obtains (unchanged) "view w' = view w"
  | (held) fs where "BpfmanOperatorFinalizer \<in> set fs"
      "view w' = (view w)\<lparr>fl_apps := putApp (a\<lparr>app_Meta := (app_Meta a)\<lparr>om_Finalizers := fs\<rparr>\<rparr>) (fl_apps (view w))\<rparr>"
  | (pruned) fs where "verdict ClBpfApplicationControllerFinalizer (appDeleted a)
        (filter (hasLabels [(OwnerLabel, appName a)]) (fl_states (view w))) (fl_nodes (view w)) = Prune"
      "view w' = (view w)\<lparr>fl_apps := putApp (a\<lparr>app_Meta := (app_Meta a)\<lparr>om_Finalizers := fs\<rparr>\<rparr>) (fl_apps (view w))\<rparr>"
  | (reported) c m now where "verdict ClBpfApplicationControllerFinalizer (appDeleted a)
        (filter (hasLabels [(OwnerLabel, appName a)]) (fl_states (view w))) (fl_nodes (view w)) = Report c m"
      "view w' = (view w)\<lparr>fl_apps := putConditions (appName a)
         (SetStatusCondition now [] (BpfAppCond_Condition c m)) (fl_apps (view w))\<rparr>"
proof (cases "ContainsFinalizer (app_Meta a) BpfmanOperatorFinalizer")
  case False
  have added: "BpfmanOperatorFinalizer \<in> set (om_Finalizers (app_Meta a) @ [BpfmanOperatorFinalizer])" by simp
  from operator_adds [OF r a False] show thesis using held [OF added] unchanged by blast
next
  case True
  let ?rec = "Cluster_OperRec oenv"
  obtain q w1 where q: "oe_ListStates oenv None [(OwnerLabel, appName a)] w = (q, w1)" by fastforce
  obtain d w2 where d: "oe_ListNodes oenv w1 = (d, w2)" by fastforce
  show thesis
  proof (cases "\<exists>states nodes. q = Inr states \<and> d = Inr nodes")
    case False
    then have "view w' = view w"
      using r True q d oper_list(1) [of "[(OwnerLabel, appName a)]" w] oper_nodes(1) [of w1]
      by (auto simp: reconcileBpfApplication_def Cluster_OperRec_def Let_def split: sum.splits)
    then show thesis by (rule unchanged)
  next
    case True
    then obtain states nodes where n: "oe_ListStates oenv None [(OwnerLabel, appName a)] w = (Inr states, w1)"
      "oe_ListNodes oenv w1 = (Inr nodes, w2)" using q d by blast
    note l = operator_lists [OF n]
    note run = clOper.reconcile_verdict [OF \<open>ContainsFinalizer _ _\<close> n] r
    have fin: "orc_getFinalizer ?rec = ClBpfApplicationControllerFinalizer"
      by (simp add: Cluster_OperRec_def ClBpfApplicationControllerFinalizer_def)
    show thesis
    proof (cases "verdict ClBpfApplicationControllerFinalizer (appDeleted a) states nodes")
      case Prune
      let ?fs = "removeAll BpfmanOperatorFinalizer (om_Finalizers (app_Meta a))"
      let ?b = "a\<lparr>app_Meta := (app_Meta a)\<lparr>om_Finalizers := ?fs\<rparr>\<rparr>"
      obtain u w3 where u: "oe_Update oenv ?b w2 = (u, w3)" by fastforce
      with run Prune fin \<open>ContainsFinalizer _ _\<close> have "w' = w3"
        by (auto simp: oper_removeFinalizer_def ContainsFinalizer_def split: sum.splits)
      have a2: "a \<in> set (fl_apps (view w2))" using a l(3) by simp
      from operator_update [OF u a2] show thesis
        using \<open>w' = w3\<close> pruned [of ?fs, OF Prune [unfolded l(1,2)]] unchanged unfolding l(3) by blast
    next
      case (Report c m)
      then have "oper_updateStatus oenv '''' (appName a) c m w2 = (r, w')" using run fin by simp
      from operator_reports [OF this] show thesis unfolding l(3)
      proof (elim disjE exE)
        fix now assume "view w' = (view w)\<lparr>fl_apps := putConditions (appName a) (SetStatusCondition now [] (BpfAppCond_Condition c m)) (fl_apps (view w))\<rparr>"
        with Report show thesis unfolding l(1,2) by (rule reported)
      qed (rule unchanged)
    qed
  qed
qed

lemma operator_reconcile:
  assumes "Cluster_Reconcile oenv ns name w = (r, w')"
  shows "view w' = view w \<or> (\<exists>a\<in>set (fl_apps (view w)). \<exists>w1. view w1 = view w \<and>
    reconcileBpfApplication oenv (Cluster_OperRec oenv) a w1 = (r, w'))"
proof -
  obtain g w1 where g: "oe_GetApp oenv ns name w = (g, w1)" by fastforce
  have w1: "view w1 = view w" using oper_get(1) [of ns name w] g by simp
  show ?thesis
  proof (cases g)
    case (Inr a)
    with g oper_get(2) [of ns name w a] assms have "a \<in> set (fl_apps (view w))"
      "reconcileBpfApplication oenv (Cluster_OperRec oenv) a w1 = (r, w')"
      by (simp_all add: Cluster_Reconcile_def oper_Reconcile_def)
    with w1 show ?thesis by blast
  next
    case (Inl e)
    obtain x w2 where x: "oe_GetState oenv ns name w1 = (x, w2)" by fastforce
    have w2: "view w2 = view w" using oper_state [of ns name w1] x w1 by simp
    show ?thesis
    proof (cases "\<exists>st ref. e = NotFound \<and> x = Inr st \<and> GetControllerOf (st_Meta st) = Some ref")
      case False
      with assms g Inl x w1 w2 show ?thesis
        by (cases e) (auto simp: Cluster_Reconcile_def oper_Reconcile_def split: sum.splits option.splits)
    next
      case True
      then obtain st ref where o: "e = NotFound" "x = Inr st" "GetControllerOf (st_Meta st) = Some ref" by blast
      obtain h w3 where h: "oe_GetApp oenv '''' (or_Name ref) w2 = (h, w3)" by fastforce
      have w3: "view w3 = view w" using oper_get(1) [of "''''" "or_Name ref" w2] h w2 by simp
      show ?thesis
      proof (cases h)
        case (Inl e')
        with assms g \<open>g = Inl e\<close> x o h w3 show ?thesis by (auto simp: Cluster_Reconcile_def oper_Reconcile_def)
      next
        case (Inr a)
        with h oper_get(2) [of "''''" "or_Name ref" w2 a] w2 have "a \<in> set (fl_apps (view w))" by simp
        moreover have "reconcileBpfApplication oenv (Cluster_OperRec oenv) a w3 = (r, w')"
          using assms g \<open>g = Inl e\<close> x o h Inr by (simp add: Cluster_Reconcile_def oper_Reconcile_def)
        ultimately show ?thesis using w3 by blast
      qed
    qed
  qed
qed

end

text \<open>Every write of the operator is a change of the applications the protocol allows.\<close>

lemma putApp_changed:
  assumes "distinct (map appName as)" and "a \<in> set as"
  shows "appsChanged as (putApp (a\<lparr>app_Meta := (app_Meta a)\<lparr>om_Finalizers := fs\<rparr>\<rparr>) as)" (is "appsChanged as (putApp ?b as)")
proof -
  have b: "appName ?b = appName a" "isBeingDeleted ?b = isBeingDeleted a" by (simp_all add: isBeingDeleted_def)
  have names: "map appName (map (\<lambda>x. if appName x = appName a then ?b else x) as) = map appName as" using b(1) by simp
  show ?thesis
  proof (cases "isBeingDeleted ?b \<and> om_Finalizers (app_Meta ?b) = []")
    case True
    with assms show ?thesis by (auto simp: appsChanged_def putApp_def distinct_map_filter)
  next
    case False
    then have p: "putApp ?b as = map (\<lambda>x. if appName x = appName a then ?b else x) as" unfolding putApp_def b(1) by (rule if_not_P)
    have "\<exists>x\<in>set as. appName x = appName y \<and> (isBeingDeleted x \<longrightarrow> isBeingDeleted y)" if y: "y \<in> set (putApp ?b as)" for y
    proof (cases "y = ?b")
      case True
      with b assms(2) show ?thesis by metis
    next
      case False
      with y show ?thesis by (auto simp: p split: if_splits)
    qed
    moreover have "distinct (map appName (putApp ?b as))" unfolding p names by (rule assms(1))
    ultimately show ?thesis unfolding appsChanged_def by blast
  qed
qed

lemma putConditions_changed: "distinct (map appName as) \<Longrightarrow> appsChanged as (putConditions name cs as)"
proof -
  assume "distinct (map appName as)"
  moreover have "map appName (putConditions name cs as) = map appName as" by (simp add: putConditions_def)
  moreover have "\<exists>x\<in>set as. appName x = appName y \<and> (isBeingDeleted x \<longrightarrow> isBeingDeleted y)" if "y \<in> set (putConditions name cs as)" for y
    using that by (fastforce simp: putConditions_def isBeingDeleted_def split: if_splits)
  ultimately show ?thesis by (simp add: appsChanged_def)
qed

lemma putConditions_meta: "x \<in> set as \<Longrightarrow> \<exists>y\<in>set (putConditions name cs as). app_Meta y = app_Meta x"
  by (rule bexI [of _ "if appName x = name then x\<lparr>app_Conditions := cs\<rparr> else x"]) (auto simp: putConditions_def)

lemma putApp_other: "x \<in> set as \<Longrightarrow> appName x \<noteq> appName b \<Longrightarrow> x \<in> set (putApp b as)"
  by (auto simp: putApp_def)

lemma putApp_self: "x \<in> set as \<Longrightarrow> appName x = appName b \<Longrightarrow> om_Finalizers (app_Meta b) \<noteq> [] \<Longrightarrow> b \<in> set (putApp b as)"
  by (force simp: putApp_def)

section \<open>The cluster as a transition system\<close>

text \<open>
  An agent of some node, or the operator, reconciles; or something outside of them happens: a user, the
  garbage collector or the node controller changes what is stored. An agent whose reconcile panics
  makes no step.
\<close>

inductive fleetStep ::
    "(string \<Rightarrow> ('w, ClBpfApplicationProgram, ClBpfApplicationProgramState) KEnv) \<Rightarrow>
     ('w, ClBpfApplicationProgram, ClBpfApplicationProgramState) OEnv \<Rightarrow>
     ('w \<Rightarrow> (ClBpfApplicationProgram, ClBpfApplicationProgramState) Fleet) \<Rightarrow> 'w \<Rightarrow> 'w \<Rightarrow> bool"
  for env oenv view where
  agent: "Cl_Reconcile (env n) req \<lparr>world = w, netns_cache = c\<rparr> = Some (r, s') \<Longrightarrow> fleetStep env oenv view w (world s')"
| operator: "Cluster_Reconcile oenv ns name w = (r, w') \<Longrightarrow> fleetStep env oenv view w w'"
| outside: "outsideStep ClBpfApplicationControllerFinalizer (view w) (view w') \<Longrightarrow> fleetStep env oenv view w w'"

text \<open>A fleet before the first agent runs: no state objects and nothing loaded.\<close>

definition freshFleet :: "('q, 'p BpfProgramStateCommon_scheme) Fleet \<Rightarrow> bool" where
  "freshFleet fl \<longleftrightarrow> distinct (map appName (fl_apps fl)) \<and> fl_states fl = [] \<and> (\<forall>n i. fl_loaded fl n i = None)"

lemma freshFleet_inv: "freshFleet fl \<Longrightarrow> fleetInv fin fl"
  by (simp add: freshFleet_def fleetInv_def recordedIn_def)

text \<open>A step of the protocol: moves of one agent, or something that happens outside of the agents.\<close>

definition protocolStep ::
    "string \<Rightarrow> ('q, 'p BpfProgramStateCommon_scheme) Fleet \<Rightarrow> ('q, 'p BpfProgramStateCommon_scheme) Fleet \<Rightarrow> bool" where
  "protocolStep fin fl fl' \<longleftrightarrow> (\<exists>n. (agentMove fin n)\<^sup>*\<^sup>* fl fl') \<or> outsideStep fin fl fl'"

lemma protocolStep_inv: "protocolStep fin fl fl' \<Longrightarrow> fleetInv fin fl \<Longrightarrow> fleetInv fin fl'"
  using agentMoves outsideStep_inv by (auto simp: protocolStep_def)

context fleet
begin

abbreviation clFin :: string where "clFin \<equiv> ClBpfApplicationControllerFinalizer"

lemma operator_protocol:
  assumes r: "reconcileBpfApplication oenv (Cluster_OperRec oenv) a w = (r, w')" and a: "a \<in> set (fl_apps (view w))"
    and inv: "fleetInv clFin (view w)"
  shows "protocolStep clFin (view w) (view w')"
  using r a
proof (cases rule: operator_result)
  case unchanged
  then show ?thesis by (auto simp: protocolStep_def)
qed (auto simp: protocolStep_def intro!: outsideStep.change putApp_changed putConditions_changed inv_apps [OF inv] a)

lemma step_protocol:
  assumes "fleetStep env oenv view w w'" and inv: "fleetInv clFin (view w)"
  shows "protocolStep clFin (view w) (view w')"
  using assms(1)
proof cases
  case (agent n req c r s')
  with agent_moves [OF agent(2)] inv show ?thesis by (auto simp: protocolStep_def)
next
  case (operator ns name r)
  from operator_reconcile [OF operator] show ?thesis
  proof (elim disjE bexE exE conjE)
    assume "view w' = view w"
    then show ?thesis by (auto simp: protocolStep_def)
  next
    fix a w1 assume "a \<in> set (fl_apps (view w))" "view w1 = view w" "reconcileBpfApplication oenv (Cluster_OperRec oenv) a w1 = (r, w')"
    with operator_protocol [of a w1 r w'] inv show ?thesis by simp
  qed
next
  case outside
  then show ?thesis by (simp add: protocolStep_def)
qed

lemma reachable_inv:
  assumes "(fleetStep env oenv view)\<^sup>*\<^sup>* w0 w" and "freshFleet (view w0)"
  shows "fleetInv clFin (view w)"
  using assms
proof (induction rule: rtranclp_induct)
  case base
  then show ?case by (rule freshFleet_inv)
next
  case (step w w')
  then show ?case using protocolStep_inv [OF step_protocol] by blast
qed

section \<open>What holds in every reachable state\<close>

lemma release_safe:
  assumes inv: "fleetInv clFin (view w)" and r: "Cluster_Reconcile oenv ns name w = (r, w')" and a: "a \<in> set (fl_apps (view w))"
    and before: "BpfmanOperatorFinalizer \<in> set (om_Finalizers (app_Meta a))"
    and after: "\<And>b. b \<in> set (fl_apps (view w')) \<Longrightarrow> appName b = appName a \<Longrightarrow> BpfmanOperatorFinalizer \<notin> set (om_Finalizers (app_Meta b))"
  shows "\<not> loadedFor (appName a) (fl_loaded (view w') n i)"
proof -
  have gone: "a \<notin> set (fl_apps (view w'))" using after before by blast
  with operator_reconcile [OF r] a obtain a' w1 where w1: "a' \<in> set (fl_apps (view w1))" "view w1 = view w"
    "reconcileBpfApplication oenv (Cluster_OperRec oenv) a' w1 = (r, w')" by force
  from w1(3,1) show ?thesis
  proof (cases rule: operator_result)
    case unchanged
    with gone a w1(2) show ?thesis by simp
  next
    case (held fs)
    let ?b = "a'\<lparr>app_Meta := (app_Meta a')\<lparr>om_Finalizers := fs\<rparr>\<rparr>"
    have "appName a' = appName a" using putApp_other [OF a, of ?b] gone held(2) w1(2) by (cases "appName a = appName a'") simp_all
    moreover have "fs \<noteq> []" using held(1) by auto
    then have "?b \<in> set (fl_apps (view w'))" using held(2) w1(2) putApp_self [OF w1(1), of ?b] by auto
    ultimately show ?thesis using after [of ?b] held(1) by simp
  next
    case (pruned fs)
    let ?b = "a'\<lparr>app_Meta := (app_Meta a')\<lparr>om_Finalizers := fs\<rparr>\<rparr>"
    have "appName a' = appName a" using putApp_other [OF a, of ?b] gone pruned(2) w1(2) by (cases "appName a = appName a'") simp_all
    with pruned(1) w1(2) fleetInv_released [OF inv, of "appName a"] pruned(2) show ?thesis
      by (auto simp: verdict_prune ContainsFinalizer_def OwnerLabel_def BpfAppStateOwner_def)
  next
    case (reported c m now)
    then have "\<exists>b\<in>set (fl_apps (view w')). app_Meta b = app_Meta a" using putConditions_meta [OF a] w1(2) by simp
    with after before show ?thesis by force
  qed
qed

lemma success_truthful:
  assumes inv: "fleetInv clFin (view w)" and r: "Cluster_Reconcile oenv ns name w = (r, w')" and a: "a \<in> set (fl_apps (view w))"
    and b: "b \<in> set (fl_apps (view w'))" "appName b = appName a" "app_Conditions b \<noteq> app_Conditions a"
    and c: "app_Conditions b = [c]" "cond_Type c = ''Success''" and nd: "nd \<in> set (fl_nodes (view w))"
  shows "\<exists>st\<in>set (fl_states (view w)). isStateOf (appName a) (nd_Name nd) st \<and>
    (loadStatus st = NotSelected \<or> allLoaded (fl_loaded (view w) (nd_Name nd)) (appName a) st)"
proof -
  have same: "x = a" if "x \<in> set (fl_apps (view w))" "appName x = appName a" for x
    using inv_apps [OF inv] a that by (auto simp: distinct_map inj_on_def)
  then have gone: "b \<notin> set (fl_apps (view w))" using b by blast
  with operator_reconcile [OF r] b(1) obtain a' w1 where w1: "a' \<in> set (fl_apps (view w1))" "view w1 = view w"
    "reconcileBpfApplication oenv (Cluster_OperRec oenv) a' w1 = (r, w')" by force
  have kept: False if "b \<in> set (putApp (a'\<lparr>app_Meta := (app_Meta a')\<lparr>om_Finalizers := fs\<rparr>\<rparr>) (fl_apps (view w)))" for fs
  proof -
    from that gone have b': "b = a'\<lparr>app_Meta := (app_Meta a')\<lparr>om_Finalizers := fs\<rparr>\<rparr>" by (auto simp: putApp_def split: if_splits)
    with same [of a'] w1(1,2) b(2) have "a' = a" by simp
    with b' b(3) show False by simp
  qed
  from w1(3,1) show ?thesis
  proof (cases rule: operator_result)
    case (reported k m now)
    let ?cs = "SetStatusCondition now [] (BpfAppCond_Condition k m)"
    from reported(2) b(1) gone w1(2) obtain x where x: "x \<in> set (fl_apps (view w))" "appName x = appName a'" "b = x\<lparr>app_Conditions := ?cs\<rparr>"
      by (auto simp: putConditions_def split: if_splits)
    with same [of x] same [of a'] b(2) w1(1,2) have a': "a' = a" by simp
    have "k = BpfAppCondSuccess" using c x(3) by (cases k) (auto simp: SetStatusCondition_fresh mkCondition_def)
    with reported(1) w1(2) a' have v: "\<not> isBeingDeleted a"
      "nd_Name ` set (fl_nodes (view w)) \<subseteq> hostOf ` set (filter (hasLabels [(OwnerLabel, appName a)]) (fl_states (view w)))"
      "\<forall>st\<in>set (filter (hasLabels [(OwnerLabel, appName a)]) (fl_states (view w))). \<not> stateFailed st \<and> \<not> statePending st"
      by (simp_all add: verdict_success appDeleted_def isBeingDeleted_def)
    from v(2) nd obtain st where st: "st \<in> set (fl_states (view w))" "hasLabels [(OwnerLabel, appName a)] st" "hostOf st = nd_Name nd" by force
    from inv_labelled [OF inv st(1)] st(2,3) have own: "isStateOf (appName a) (nd_Name nd) st"
      by (auto simp: isStateOf_def hasLabels_def hostOf_def OwnerLabel_def BpfAppStateOwner_def HostLabel_def K8sHostLabel_def)
    have "settled st" using v(3) st(1,2) by (auto simp: settled_def stateFailed_def statePending_def)
    moreover have "namedLive (fl_apps (view w)) (appName a)" using a v(1) by (auto simp: namedLive_def)
    ultimately show ?thesis using fleetInv_settled [OF inv st(1) own] st(1) own by blast
  qed (use kept gone b(1) w1(2) in auto)
qed

end

end
