(* ===== verification/Fake_Fleet.thy ===== *)
theory Fake_Fleet
  imports Fleet
begin

text \<open>
  A concrete cluster that meets the contract of \<open>fleet\<close>: an API server that keeps what is observed, and
  daemons that load programs under the next free ids. The run of the witnesses goes through the life of an
  application on a cluster of one node: the operator adds its finalizer, the agent creates the state object and
  loads the program, the operator reports success, a user deletes the application, the agent unloads the
  program and releases the state object, and the operator lets the application go.
\<close>

record flw =
  flw_view :: "(ClBpfApplicationProgram, ClBpfApplicationProgramState) Fleet"
  flw_uuid :: nat
  flw_next :: nat

definition flLoad :: "string \<Rightarrow> LoadRequest \<Rightarrow> flw \<Rightarrow> LoadResponseInfo list result \<times> flw" where
  "flLoad n req w =
     (let ids = map of_nat [flw_next w..<flw_next w + length (lr_Info req)] in
      if \<exists>i\<in>set ids. fl_loaded (flw_view w) n i \<noteq> None then (Inl ''no ids left'', w)
      else (Inr (map (\<lambda>(info, i). \<lparr>lri_Info = Some \<lparr>pi_Name = li_Name info, pi_Links = []\<rparr>, lri_KernelId = Some i\<rparr>)
                   (zip (lr_Info req) ids)),
            w\<lparr>flw_view := (flw_view w)\<lparr>fl_loaded := (fl_loaded (flw_view w))(n :=
                 (\<lambda>i. if i \<in> set ids then Some (lr_Metadata req) else fl_loaded (flw_view w) n i))\<rparr>,
              flw_next := flw_next w + length (lr_Info req)\<rparr>))"

definition flUnload :: "string \<Rightarrow> uint32 \<Rightarrow> flw \<Rightarrow> unit result \<times> flw" where
  "flUnload n i w = (Inr (), w\<lparr>flw_view := (flw_view w)\<lparr>fl_loaded := (fl_loaded (flw_view w))(n := (fl_loaded (flw_view w) n)(i := None))\<rparr>\<rparr>)"

definition flGet :: "string \<Rightarrow> uint32 \<Rightarrow> flw \<Rightarrow> GetResponse result \<times> flw" where
  "flGet n i w =
     (case fl_loaded (flw_view w) n i of
        None \<Rightarrow> (Inl ''not found'', w)
      | Some _ \<Rightarrow> (Inr \<lparr>gr_Info = Some \<lparr>pi_Name = '''', pi_Links = []\<rparr>, gr_KernelId = Some i\<rparr>, w))"

definition flStates :: "(ClusterBpfApplicationState list \<Rightarrow> ClusterBpfApplicationState list) \<Rightarrow> flw \<Rightarrow> flw" where
  "flStates f w = w\<lparr>flw_view := (flw_view w)\<lparr>fl_states := f (fl_states (flw_view w))\<rparr>\<rparr>"

definition flApps :: "(ClusterBpfApplication list \<Rightarrow> ClusterBpfApplication list) \<Rightarrow> flw \<Rightarrow> flw" where
  "flApps f w = w\<lparr>flw_view := (flw_view w)\<lparr>fl_apps := f (fl_apps (flw_view w))\<rparr>\<rparr>"

definition flCreate :: "ClusterBpfApplicationState \<Rightarrow> flw \<Rightarrow> ClusterBpfApplicationState result \<times> flw" where
  "flCreate st w =
     (if stName st \<in> stName ` set (fl_states (flw_view w)) then (Inl ''already exists'', w)
      else (let st = st\<lparr>st_Status := emptyStatus\<rparr> in (Inr st, flStates (\<lambda>xs. xs @ [st]) w)))"

definition fleetEnv :: "string \<Rightarrow> (flw, ClBpfApplicationProgram, ClBpfApplicationProgramState) KEnv" where
  "fleetEnv n =
     \<lparr>bpfman_Load = flLoad n, bpfman_Unload = flUnload n, bpfman_Attach = (\<lambda>_ w. (Inl ''not supported'', w)),
      bpfman_Detach = (\<lambda>_ w. (Inr (), w)), bpfman_Get = flGet n,
      uuid_New = (\<lambda>w. (show_nat (flw_uuid w), w\<lparr>flw_uuid := Suc (flw_uuid w)\<rparr>)),
      os_Stat = (\<lambda>_ _. Inr None), time_Now = (\<lambda>_. 5),
      Interfaces_Range = (\<lambda>_. []), regexp_Compile = (\<lambda>_. Inl ''no regexps''),
      net_Interfaces = (\<lambda>_. Inr []), net_ParseIP = (\<lambda>_. []),
      Containers_GetContainers = (\<lambda>_ _ _ w. (Inr None, w)),
      LabelSelectorAsSelector =
        (\<lambda>sel. Inr (\<lambda>labels. list_all (\<lambda>(k, v). map_of labels k = Some v) (MatchLabels sel))),
      ConvertLabels = (\<lambda>labels. Inr labels), reference_ParseNamed = (\<lambda>u. Inr u),
      reference_Domain = (\<lambda>_. ''docker.io''), k8s_GetSecret = (\<lambda>_ _ w. (Inl ''no secret'', w)),
      json_DockerConfigJson = (\<lambda>_. Inr []), json_DockerConfig = (\<lambda>_. Inr []),
      k8s_GetNode = (\<lambda>nm w. (Inr \<lparr>nd_Name = nm, nd_Labels = [], nd_Addresses = []\<rparr>, w)),
      k8s_ListApps = (\<lambda>w. (Inr (fl_apps (flw_view w)), w)),
      k8s_ListStates = (\<lambda>_ labels w. (Inr (filter (hasLabels labels) (fl_states (flw_view w))), w)),
      k8s_Create = flCreate,
      k8s_StatusUpdate = (\<lambda>st w. (Inr st, flStates (updState (stName st) (\<lambda>y. y\<lparr>st_Status := st_Status st\<rparr>)) w)),
      k8s_Update = (\<lambda>st w. (Inr (), flStates (updState (stName st)
        (\<lambda>y. y\<lparr>st_Meta := (st_Meta y)\<lparr>om_Finalizers := om_Finalizers (st_Meta st)\<rparr>\<rparr>)) w)),
      SetControllerReference = (\<lambda>_ m. Inr m), pollAttempts = 3, NodeName = n\<rparr>"

definition fleetOper :: "(flw, ClBpfApplicationProgram, ClBpfApplicationProgramState) OEnv" where
  "fleetOper =
     \<lparr>oe_GetApp = (\<lambda>_ name w. (case find (\<lambda>a. appName a = name) (fl_apps (flw_view w)) of None \<Rightarrow> Inl NotFound | Some a \<Rightarrow> Inr a, w)),
      oe_GetState = (\<lambda>_ name w. (case find (\<lambda>st. stName st = name) (fl_states (flw_view w)) of None \<Rightarrow> Inl NotFound | Some st \<Rightarrow> Inr st, w)),
      oe_ListStates = (\<lambda>_ labels w. (Inr (filter (hasLabels labels) (fl_states (flw_view w))), w)),
      oe_ListNodes = (\<lambda>w. (Inr (fl_nodes (flw_view w)), w)),
      oe_Update = (\<lambda>a w. (Inr (), flApps (putApp a) w)),
      oe_StatusUpdate = (\<lambda>a w. (Inr (), flApps (putConditions (appName a) (app_Conditions a)) w)),
      oe_Now = (\<lambda>_. 7)\<rparr>"

section \<open>The contract\<close>

interpretation fakeNodeServer: fleet_server "fleetEnv n" flw_view for n
proof (unfold_locales, goal_cases)
  case (1)
  show ?case by (simp add: keepsView_def fleetEnv_def flGet_def split: option.split)
next
  case (2 i w)
  show ?case by (simp add: fleetEnv_def flGet_def split: option.split)
next
  case (4 req w resp w')
  let ?ids = "map of_nat [flw_next w..<flw_next w + length (lr_Info req)] :: uint32 list"
  from 4 have "\<forall>i\<in>set ?ids. fl_loaded (flw_view w) n i = None"
    and r: "resp = map (\<lambda>(info, i). \<lparr>lri_Info = Some \<lparr>pi_Name = li_Name info, pi_Links = []\<rparr>, lri_KernelId = Some i\<rparr>) (zip (lr_Info req) ?ids)"
    and "flw_view w' = (flw_view w)\<lparr>fl_loaded := (fl_loaded (flw_view w))(n :=
           (\<lambda>i. if i \<in> set ?ids then Some (lr_Metadata req) else fl_loaded (flw_view w) n i))\<rparr>"
    by (auto simp: fleetEnv_def flLoad_def Let_def split: if_splits)
  moreover have "list_all2 (\<lambda>r (info, i). map_option pi_Name (lri_Info r) = Some (li_Name info) \<and> lri_KernelId r = Some i)
      resp (zip (lr_Info req) ?ids)" unfolding r by (auto simp: list_all2_conv_all_nth)
  moreover have n: "NodeName (fleetEnv n) = n" by (simp add: fleetEnv_def)
  ultimately show ?case unfolding n by (intro exI [of _ ?ids]) simp
qed (auto simp: fleetEnv_def flLoad_def flUnload_def flCreate_def flStates_def Let_def split: if_splits)

interpretation fakeFleet: fleet fleetEnv fleetOper flw_view
proof (unfold_locales, goal_cases)
  case (3 ns name w a)
  then show ?case by (auto simp: fleetOper_def find_Some_iff split: option.splits)
qed (auto simp: fleetEnv_def fleetOper_def flApps_def intro: fakeNodeServer.fleet_server_axioms)

section \<open>A run\<close>

definition idleProg :: ClBpfApplicationProgram where
  "idleProg = (blankProg ''tc_pass'' ProgTypeTC)\<lparr>cp_TC := Some \<lparr>Links = []\<rparr>\<rparr>"

definition flApp :: ClusterBpfApplication where
  "flApp = mkApp ''app'' None [] [idleProg]"

definition flStart :: flw where
  "flStart = \<lparr>flw_view = \<lparr>fl_apps = [flApp], fl_states = [],
       fl_nodes = [\<lparr>nd_Name = ''n1'', nd_Labels = [], nd_Addresses = []\<rparr>], fl_loaded = (\<lambda>_ _. None)\<rparr>,
     flw_uuid = 0, flw_next = 1\<rparr>"

text \<open>A play is a list of actions; it fails where an agent panics.\<close>

datatype Action = AgentRuns string | OperatorRuns | UserDeletes

fun act :: "Action \<Rightarrow> flw \<Rightarrow> flw option" where
  "act (AgentRuns n) w = map_option (world \<circ> snd) (Cl_Reconcile (fleetEnv n) '''' \<lparr>world = w, netns_cache = []\<rparr>)"
| "act OperatorRuns w = Some (snd (Cluster_Reconcile fleetOper '''' ''app'' w))"
| "act UserDeletes w = Some (flApps (map (\<lambda>a. a\<lparr>app_Meta := (app_Meta a)\<lparr>om_DeletionTimestamp := Some 9\<rparr>\<rparr>)) w)"

fun play :: "Action list \<Rightarrow> flw \<Rightarrow> flw option" where
  "play [] w = Some w"
| "play (a # as) w = (case act a w of None \<Rightarrow> None | Some w \<Rightarrow> play as w)"

definition toLoaded :: "Action list" where
  "toLoaded = [OperatorRuns, AgentRuns ''n1'', AgentRuns ''n1'']"

definition toReleased :: "Action list" where
  "toReleased = toLoaded @ [OperatorRuns, UserDeletes, AgentRuns ''n1'', AgentRuns ''n1'']"

lemma act_step:
  assumes "act a w = Some w'" and "fleetInv ClBpfApplicationControllerFinalizer (flw_view w)"
  shows "fleetStep fleetEnv fleetOper flw_view w w'"
proof (cases a)
  case (AgentRuns n)
  with assms(1) show ?thesis by (auto intro: fleetStep.agent)
next
  case OperatorRuns
  with assms(1) show ?thesis by (auto intro: fleetStep.operator [OF prod.collapse [symmetric]])
next
  case UserDeletes
  let ?del = "\<lambda>a. a\<lparr>app_Meta := (app_Meta a)\<lparr>om_DeletionTimestamp := Some 9\<rparr>\<rparr>"
  have names: "map appName (map ?del as) = map appName as" for as by simp
  have "appsChanged (fl_apps (flw_view w)) (map ?del (fl_apps (flw_view w)))"
    unfolding appsChanged_def names using inv_apps [OF assms(2)] by (auto simp: isBeingDeleted_def)
  with UserDeletes assms(1) show ?thesis by (intro fleetStep.outside) (auto simp: flApps_def intro: outsideStep.change)
qed

lemma play_reaches:
  "play as w = Some w' \<Longrightarrow> fleetInv ClBpfApplicationControllerFinalizer (flw_view w) \<Longrightarrow>
   (fleetStep fleetEnv fleetOper flw_view)\<^sup>*\<^sup>* w w'"
proof (induction as arbitrary: w)
  case (Cons a as)
  from Cons.prems(1) obtain u where u: "act a w = Some u" "play as u = Some w'" by (auto split: option.splits)
  note s = act_step [OF u(1) Cons.prems(2)]
  from fakeFleet.step_protocol [OF s Cons.prems(2)] Cons.prems(2)
  have "fleetInv ClBpfApplicationControllerFinalizer (flw_view u)" by (rule protocolStep_inv)
  from Cons.IH [OF u(2) this] s show ?case by simp
qed simp

lemma flStart_fresh: "freshFleet (flw_view flStart)"
  by (simp add: freshFleet_def flStart_def)

lemmas flStart_reaches = play_reaches [OF _ freshFleet_inv [OF flStart_fresh]]

end
