(* ===== verification/Fleet_Shape.thy ===== *)
theory Fleet_Shape
  imports Fleet
begin

text \<open>
  Every program a reachable state object lists carries the data of its type, so that no reconcile that unloads it can
  run into a nil pointer: the agents write nothing else, and nobody else writes state objects.
\<close>

definition wellFormed :: "('p \<Rightarrow> bool) \<Rightarrow> 'p AppState list \<Rightarrow> bool" where
  "wellFormed ok sts \<longleftrightarrow> (\<forall>st\<in>set sts. \<forall>p\<in>set (statePrograms st). ok p)"

lemma wellFormed_updState:
  "wellFormed ok sts \<Longrightarrow> (\<And>x. x \<in> set sts \<Longrightarrow> stName x = nm \<Longrightarrow> \<forall>p\<in>set (statePrograms (f x)). ok p) \<Longrightarrow>
   wellFormed ok (updState nm f sts)"
  by (auto simp: wellFormed_def updState_def)

section \<open>The agent keeps it\<close>

context fleet_agent
begin

abbreviation good :: "'w rst \<Rightarrow> bool" where "good s \<equiv> wellFormed wf (fl_states (see s))"
abbreviation goodState :: "'p BpfProgramStateCommon_scheme AppState \<Rightarrow> bool" where
  "goodState st \<equiv> (\<forall>p\<in>set (statePrograms st). wf p)"

lemma assignIds_good: "assignIds resp ps = Some (r, ps') \<Longrightarrow> \<forall>p\<in>set ps. wf p \<Longrightarrow> \<forall>p\<in>set ps'. wf p"
proof (induction ps arbitrary: r ps')
  case (Cons p ps)
  from Cons.prems obtain q where q: "GetBpfProgramId (Name p) resp = Some q" by (auto simp: bind_eq_Some_conv)
  show ?case
  proof (cases q)
    case (Inl e)
    with Cons.prems q show ?thesis by simp
  next
    case (Inr i)
    with Cons.prems q obtain r0 ps0 where "assignIds resp ps = Some (r0, ps0)" "ps' = p\<lparr>ProgramId := Some i\<rparr> # ps0"
      by (auto simp: bind_eq_Some_conv)
    with Cons.IH Cons.prems(2) show ?thesis by (simp add: wf_upd)
  qed
qed simp

lemma load_good:
  assumes l: "load env ops a st s = Some ((r, st'), s')" and st: "goodState st"
  shows "goodState st'"
proof -
  from l obtain q t where q: "getLoadRequest env ops a st s = Some (q, t)" by (auto simp: load_def bind_eq_Some_conv)
  show ?thesis
  proof (cases q)
    case (Inl e)
    with l q st show ?thesis by (simp add: load_def)
  next
    case (Inr req)
    obtain x u where x: "lift_world (bpfman_Load env req) t = (x, u)" by fastforce
    show ?thesis
    proof (cases x)
      case (Inl e)
      with l q Inr x st show ?thesis by (simp add: load_def)
    next
      case resp: (Inr resp)
      with l q Inr x obtain ps where "assignIds resp (statePrograms st) = Some (r, ps)" "st' = setPrograms ps st"
        by (auto simp: load_def bind_eq_Some_conv)
      with assignIds_good st show ?thesis by simp
    qed
  qed
qed

lemma reconcileLoad_good:
  assumes r: "reconcileLoad env ops ourNode a st s = Some ((r, st'), s')" and st: "goodState st"
  shows "goodState st'"
proof (cases "isNodeSelected env (NodeSelector (app_Spec a)) (nd_Labels ourNode)")
  case (Inl e)
  with r st show ?thesis by (simp add: reconcileLoad_def)
next
  case sel: (Inr sel)
  obtain b t where b: "isLoaded env st s = (b, t)" by fastforce
  from unload_all [OF st, of env s] obtain su su' where u: "unload env ops st s = Some (su, su')" "goodState su" by blast
  consider "\<not> sel \<or> isBeingDeleted a" | e where "sel" "\<not> isBeingDeleted a" "validateProgramList ops a st = Inl e"
    | "sel" "\<not> isBeingDeleted a" "validateProgramList ops a st = Inr ()" "b"
    | "sel" "\<not> isBeingDeleted a" "validateProgramList ops a st = Inr ()" "\<not> b"
    by (cases "validateProgramList ops a st") auto
  then show ?thesis
  proof cases
    case 1
    with r sel u show ?thesis by (auto simp: reconcileLoad_def split: if_splits)
  next
    case 4
    with r sel b obtain q sl t' where l: "load env ops a st t = Some ((q, sl), t')" by (auto simp: reconcileLoad_def bind_eq_Some_conv)
    with r sel b 4 have "\<exists>x. st' = setAppLoadStatus x sl" by (cases q) (auto simp: reconcileLoad_def)
    with load_good [OF l st] show ?thesis by auto
  qed (use r sel b st in \<open>auto simp: reconcileLoad_def\<close>)
qed

lemma programs_good:
  assumes p: "reconcileAppPrograms env ops a st s = Some (st', s')" and st: "goodState st"
  shows "goodState st'"
proof -
  from p obtain c ps where q: "(if \<not> isBeingDeleted a then reconcilePrograms ops (isBeingDeleted a)
      (SpecPrograms (app_Spec a)) BpfAppStateCondSuccess (statePrograms st) s
      else Some ((BpfAppStateCondSuccess, statePrograms st), s)) = Some ((c, ps), s')"
    and "\<exists>now c. st' = snd (updateBpfAppStateCondition now c (setPrograms ps st))"
    by (auto simp: reconcileAppPrograms_def bind_eq_Some_conv Let_def simp del: split_paired_Ex)
  then have st': "statePrograms st' = ps" by auto
  have "map wf ps = map wf (statePrograms st)"
    using q by (cases "isBeingDeleted a") (auto dest: reconcilePrograms_frame)
  then have "wf ` set ps = wf ` set (statePrograms st)" by (metis list.set_map)
  with st show ?thesis unfolding st' by (metis (mono_tags) imageE imageI)
qed

lemma updateStatus_good:
  assumes u: "updateBpfAppStateStatus env ops a orig st s = ((b, q, st'), s')" and x: "x \<in> set (fl_states (see s))" "st_Meta x = st_Meta st"
    and "good s" "goodState st"
  shows "good s'"
  using u x
proof (cases rule: updateStatus)
  case same
  with assms(4) show ?thesis by simp
next
  case (written y)
  then show ?thesis using assms(4,5) by (auto simp: statePrograms_def intro!: wellFormed_updState)
qed

lemma removeFinalizer_good: "removeFinalizer env f st s = (b, s') \<Longrightarrow> good s \<Longrightarrow> good s'"
proof -
  assume r: "removeFinalizer env f st s = (b, s')" and g: "good s"
  let ?st = "st\<lparr>st_Meta := (st_Meta st)\<lparr>om_Finalizers := removeAll f (om_Finalizers (st_Meta st))\<rparr>\<rparr>"
  obtain q w where q: "k8s_Update env ?st (world s) = (q, w)" by fastforce
  have "wellFormed wf (fl_states (view w))"
  proof (cases q)
    case (Inl e)
    with update_fails q g show ?thesis by auto
  next
    case (Inr x)
    have "wellFormed wf (updState (stName ?st)
        (\<lambda>y. y\<lparr>st_Meta := (st_Meta y)\<lparr>om_Finalizers := om_Finalizers (st_Meta ?st)\<rparr>\<rparr>) (fl_states (see s)))"
      using g by (intro wellFormed_updState) (auto simp: wellFormed_def statePrograms_def)
    with update_works [of ?st "world s" x w] q Inr show ?thesis by simp
  qed
  with r q g show ?thesis by (auto simp: removeFinalizer_def lift_world_def split: if_splits)
qed

lemma initStatus_good:
  assumes "initBpfAppStateStatus env ops a now st = Some (Inr x, st')"
  shows "goodState st'"
proof -
  let ?st = "st\<lparr>st_Status := \<lparr>UpdateCount = 0, Node = NodeName env, AppLoadStatus = AppLoadNotLoaded, Programs = [], Conditions = []\<rparr>\<rparr>"
  from assms obtain y st1 where i: "initializeNodeProgramList ops a ?st = Some (y, st1)"
    by (auto simp: initBpfAppStateStatus_def Let_def bind_eq_Some_conv)
  with assms have y: "y = Inr ()" and st': "st' = snd (updateBpfAppStateCondition now BpfAppStateCondPending st1)"
    by (cases y, simp_all add: initBpfAppStateStatus_def)+
  with i obtain ps where "initLoop ops (SpecPrograms (app_Spec a)) [] = Some (Inr (), ps)" and st1: "st1 = setPrograms ps ?st"
    by (auto simp: initializeNodeProgramList_def statePrograms_def bind_eq_Some_conv)
  then have "\<forall>p\<in>set ps. wf p" using initLoop_states by (fastforce simp: list_all2_conv_all_nth in_set_conv_nth)
  then show ?thesis by (simp add: st' st1)
qed

lemma createInitial_good:
  assumes r: "createInitialBpfAppState env ops a st0 s = ((y, st), s')" and g: "good s"
  shows "good s' \<and> (y = Inr () \<longrightarrow> st \<in> set (fl_states (see s')))"
proof -
  obtain x w where x: "k8s_Create env st0 (world s) = (x, w)" by fastforce
  show ?thesis
  proof (cases x)
    case (Inl e)
    with r x g create_fails [of st0 "world s"] show ?thesis by (auto simp: createInitialBpfAppState_def lift_world_def)
  next
    case (Inr st1)
    with x create_works [of st0 "world s" st1 w] have st1: "st_Status st1 = emptyStatus"
      "view w = (see s)\<lparr>fl_states := fl_states (see s) @ [st1]\<rparr>" by auto
    then have w: "wellFormed wf (fl_states (view w))" using g by (auto simp: wellFormed_def statePrograms_def emptyStatus_def)
    have "waitForSpec env ops a 0 (pollAttempts env) st1 (s\<lparr>world := w\<rparr>) = ((y, st), s')"
      using r x Inr by (simp add: createInitialBpfAppState_def waitForBpfAppStateSpecUpdate_def lift_world_def)
    from waitForSpec_result [OF this] w show ?thesis by auto
  qed
qed

lemma create_good:
  assumes r: "createBpfAppState env ops a s = Some (r, s')" and g: "good s"
  shows "good s'"
proof -
  obtain q t where q: "initBpfAppState env ops a s = (q, t)" by fastforce
  have t: "good t" using initBpfAppState_result(1) [OF q] g by simp
  show ?thesis
  proof (cases q)
    case (Inl e)
    with q r t show ?thesis by (simp add: createBpfAppState_def)
  next
    case (Inr st0)
    obtain y st v where y: "createInitialBpfAppState env ops a st0 t = ((y, st), v)" by (metis prod.collapse)
    note v = createInitial_good [OF y t]
    show ?thesis
    proof (cases y)
      case (Inl e)
      with q Inr y r v show ?thesis by (auto simp: createBpfAppState_def)
    next
      case y': (Inr z)
      with r q Inr y obtain k st1 where k: "initBpfAppStateStatus env ops a (time_Now env (world v)) st = Some (k, st1)"
        by (auto simp: createBpfAppState_def bind_eq_Some_conv)
      show ?thesis
      proof (cases k)
        case (Inl e)
        with r q \<open>q = Inr st0\<close> y y' k v show ?thesis by (auto simp: createBpfAppState_def)
      next
        case k': (Inr z')
        obtain b q' st2 s2 where u: "updateBpfAppStateStatus env ops a None st1 v = ((b, q', st2), s2)" by (metis prod.collapse)
        have "s' = s2" using r q Inr y y' k k' u by (cases q') (auto simp: createBpfAppState_def)
        with updateStatus_good [OF u, of st] initStatus_result(1) [OF k [unfolded k']] initStatus_good [OF k [unfolded k']] v y'
        show ?thesis by simp
      qed
    qed
  qed
qed

lemma afterLoad_good:
  assumes r: "afterLoad env ops a orig st1 s1 = Some (r, s')" and g: "good s1" and st1: "goodState st1"
    and st: "st \<in> set (fl_states (see s1))" "st_Meta st = st_Meta st1"
  shows "good s'"
proof -
  from r obtain st2 s2 where p: "reconcileAppPrograms env ops a st1 s1 = Some (st2, s2)"
    by (auto simp: afterLoad_def bind_eq_Some_conv)
  note p' = reconcileAppPrograms_result [OF p]
  obtain b q st3 s3 where u: "updateBpfAppStateStatus env ops a (Some orig) st2 s2 = ((b, q, st3), s3)" by (metis prod.collapse)
  have s3: "good s3" using updateStatus_good [OF u, of st] st p'(1,2) g programs_good [OF p st1] by simp
  obtain d s4 where f: "removeFinalizer env fin st3 s3 = (d, s4)" by fastforce
  from removeFinalizer_good [OF f s3] r p u s3 f show ?thesis
    by (cases q; cases b; cases d) (auto simp: afterLoad_def split: if_splits)
qed

lemma reconcileApp_good:
  assumes r: "reconcileApp env ops ourNode a s = Some (r, s')" and g: "good s" and inv: "fleetInv fin (see s)"
  shows "good s'"
proof -
  obtain q t where q: "getBpfAppState env ops a s = (q, t)" by fastforce
  note q' = getState [OF q]
  consider e where "q = Inl e" | "q = Inr None" | st where "q = Inr (Some st)" by (metis sum.exhaust option.exhaust)
  then show ?thesis
  proof cases
    case 2
    with r q q'(1) g show ?thesis
      by (auto simp: reconcileApp_def bind_eq_Some_conv split: if_splits dest!: create_good)
  next
    case 3
    have t: "good t" "st \<in> set (fl_states (see t))" "isStateOf (appName a) node st" using q'(1) q'(3) [OF 3] g by simp_all
    then have st: "goodState st" by (simp add: wellFormed_def)
    from r q 3 obtain x where "reconcileLoad env ops ourNode a st t = Some x" by (auto simp: reconcileApp_def bind_eq_Some_conv)
    then obtain k st1 s1 where l: "reconcileLoad env ops ourNode a st t = Some ((k, st1), s1)" by (metis prod.collapse)
    note l' = loadOutcomeD [OF reconcileLoad_result [OF l inv_state [OF inv [folded q'(1)] t(2,3)]]]
    have s1: "fl_states (see s1) = fl_states (see t)" using l'(2) by auto
    note st1 = reconcileLoad_good [OF l st]
    show ?thesis
    proof (cases k)
      case (Inr z)
      with r q 3 l have "afterLoad env ops a st st1 s1 = Some (r, s')" by (simp add: reconcileApp_def)
      from afterLoad_good [OF this _ st1, of st] s1 t l'(1) show ?thesis by simp
    next
      case (Inl e)
      let ?st = "snd (updateBpfAppStateCondition (time_Now env (world s1)) BpfAppStateCondError st1)"
      obtain b q2 st3 s3 where u: "updateBpfAppStateStatus env ops a None ?st s1 = ((b, q2, st3), s3)" by (metis prod.collapse)
      have "s' = s3" using r q 3 l Inl u by (cases q2; cases b) (auto simp: reconcileApp_def)
      with updateStatus_good [OF u, of st] s1 t l'(1) st1 show ?thesis by (simp add: condition_frame)
    qed
  qed (use r q q'(1) g in \<open>simp add: reconcileApp_def\<close>)
qed

lemma reconcileApps_good:
  "reconcileApps env ops ourNode as s = Some (r, s') \<Longrightarrow> good s \<Longrightarrow> fleetInv fin (see s) \<Longrightarrow> set as \<subseteq> set (fl_apps (see s)) \<Longrightarrow> good s'"
proof (induction as arbitrary: s)
  case (Cons a as)
  from Cons.prems(1) obtain x t where x: "reconcileApp env ops ourNode a s = Some (x, t)" by (auto simp: bind_eq_Some_conv)
  have t: "good t" by (rule reconcileApp_good [OF x Cons.prems(2,3)])
  have a: "a \<in> set (fl_apps (see s))" using Cons.prems(4) by simp
  from agentSteps_moves [OF reconcileApp_steps [OF x Cons.prems(3) a] a]
  have m: "(agentMove fin node)\<^sup>*\<^sup>* (see s) (see t)" "fl_apps (see t) = fl_apps (see s)" by simp_all
  show ?case
  proof (cases x)
    case (Some result)
    with Cons.prems(1) x t show ?thesis by simp
  next
    case None
    with Cons.prems(1) x have "reconcileApps env ops ourNode as t = Some (r, s')" by simp
    from Cons.IH [OF this t] agentMoves [OF m(1) Cons.prems(3)] Cons.prems(4) m(2) show ?thesis by simp
  qed
qed simp

end

section \<open>The cluster keeps it\<close>

lemma outsideStep_states: "outsideStep fin fl fl' \<Longrightarrow> set (fl_states fl') \<subseteq> set (fl_states fl)"
  by (erule outsideStep.cases) auto

context fleet
begin

lemma agent_good:
  assumes r: "Cl_Reconcile (env n) req s = Some (r, s')" and inv: "fleetInv clFin (view (world s))"
    and g: "wellFormed Cl_wf (fl_states (view (world s)))"
  shows "wellFormed Cl_wf (fl_states (view (world s')))"
proof -
  obtain q w where q: "k8s_GetNode (env n) n (world s) = (q, w)" by fastforce
  have w: "view w = view (world s)" using fleet_server.get_node [OF server, of n n "world s"] q by simp
  obtain a w' where a: "k8s_ListApps (env n) w = (a, w')" by fastforce
  have w': "view w' = view (world s)" "\<And>as. a = Inr as \<Longrightarrow> set as = set (fl_apps (view (world s)))"
    using fleet_server.list_apps [OF server, of n w] a w by auto
  show ?thesis
  proof (cases "\<exists>nd as. q = Inr nd \<and> a = Inr as \<and> as \<noteq> []")
    case True
    then obtain nd as where nd: "q = Inr nd" "a = Inr as" "as \<noteq> []" by blast
    have "reconcileApps (env n) (Cl_ops (env n) nd) nd as (NetNsCache_Reset s\<lparr>world := w'\<rparr>) = Some (r, s')"
      using r q a nd by (auto simp: Cl_Reconcile_def Reconcile_def NetNsCache_Reset_def lift_world_def node_name Let_def)
    from agent.reconcileApps_good [OF this] w' nd(2) inv g show ?thesis by (simp add: Cl_ops_def)
  next
    case False
    with r q a w w'(1) g show ?thesis
      by (auto simp: Cl_Reconcile_def Reconcile_def NetNsCache_Reset_def lift_world_def node_name Let_def split: sum.splits if_splits)
  qed
qed

lemma operator_states:
  assumes "Cluster_Reconcile oenv ns name w = (r, w')"
  shows "fl_states (view w') = fl_states (view w)"
  using operator_reconcile [OF assms]
proof (elim disjE bexE exE conjE)
  fix a w1 assume w1: "a \<in> set (fl_apps (view w))" "view w1 = view w" "reconcileBpfApplication oenv (Cluster_OperRec oenv) a w1 = (r, w')"
  then have "a \<in> set (fl_apps (view w1))" by simp
  from w1(3) this show ?thesis by (cases rule: operator_result) (simp_all add: w1(2))
qed simp

lemma reachable_good:
  assumes "(fleetStep env oenv view)\<^sup>*\<^sup>* w0 w" and "freshFleet (view w0)"
  shows "wellFormed Cl_wf (fl_states (view w))"
  using assms
proof (induction rule: rtranclp_induct)
  case base
  then show ?case by (simp add: freshFleet_def wellFormed_def)
next
  case (step w w')
  note inv = reachable_inv [OF step(1,4)] and g = step(3) [OF step(4)]
  from step(2) show ?case
  proof cases
    case (agent n req c r s')
    from agent_good [OF agent(2)] inv g agent(1) show ?thesis by simp
  next
    case (operator ns name r)
    with operator_states g show ?thesis by simp
  next
    case outside
    from outsideStep_states [OF outside] g show ?thesis by (auto simp: wellFormed_def)
  qed
qed

end

end
