(* ===== verification/Fleet_Teardown.thy ===== *)
theory Fleet_Teardown
  imports Fleet_Shape
begin

text \<open>
  Deletion comes to an end. When every application of the cluster is being deleted and the calls of the API server succeed,
  each reconcile of an agent with something left to do either brings one state object into its final status or releases one
  that is in it, so that a bounded number of reconciles of every agent, in any order, releases all of them; then the
  operator lets the applications go.

  The state objects of an application on a node count what is left to do (\<open>leftToDo\<close>); the locale \<open>fleet_up\<close> extends the
  contract of the cluster by the success of the calls deletion depends on. The status updates may still fail to be read back.
\<close>

section \<open>What is left to do\<close>

text \<open>The final status of a state object of a deleted application, on a node that is selected or not.\<close>

definition tornDown :: "bool \<Rightarrow> 'p BpfProgramStateCommon_scheme AppState \<Rightarrow> bool" where
  "tornDown sel st \<longleftrightarrow>
     loadStatus st = (if sel then AppUnLoadSuccess else NotSelected) \<and>
     (\<forall>p\<in>set (statePrograms st). ProgramId p = None \<and> ProgramLinkStatus p = ProgAttachSuccess) \<and>
     (\<exists>c. Conditions (st_Status st) = [c] \<and>
        cond_Type c = BpfAppStateCond_string (if sel then BpfAppStateCondUnloaded else BpfAppStateCondSuccess))"

definition stepsLeft :: "string \<Rightarrow> bool \<Rightarrow> 'p BpfProgramStateCommon_scheme AppState \<Rightarrow> nat" where
  "stepsLeft fin sel st =
     (if tornDown sel st then 0 else 1) + (if fin \<in> set (om_Finalizers (st_Meta st)) then 1 else 0)"

definition leftToDo ::
    "string \<Rightarrow> ('q, 'p BpfProgramStateCommon_scheme) Fleet \<Rightarrow> string \<Rightarrow> bool \<Rightarrow> string \<Rightarrow> nat" where
  "leftToDo fin fl n sel name =
     (case find (isStateOf name n) (fl_states fl) of None \<Rightarrow> 0 | Some st \<Rightarrow> stepsLeft fin sel st)"

lemma leftToDo_bound: "leftToDo fin fl n sel name \<le> 2"
  by (simp add: leftToDo_def stepsLeft_def split: option.split)

text \<open>The only element of a list with a property.\<close>

lemma find_unique:
  assumes "x \<in> set xs" and "P x" and "\<forall>y\<in>set xs. P y \<longrightarrow> y = x"
  shows "find P xs = Some x"
proof (cases "find P xs")
  case None
  with assms(1,2) show ?thesis by (auto simp: find_None_iff)
next
  case (Some y)
  then have "y \<in> set xs" "P y" by (auto simp: find_Some_iff)
  with assms(3) Some show ?thesis by blast
qed

lemma findSomeD: "find P xs = Some x \<Longrightarrow> P x"
  by (auto simp: find_Some_iff)

lemma filter_unique:
  assumes "x \<in> set xs" and "P x" and "\<forall>y\<in>set xs. P y \<longrightarrow> y = x" and "distinct xs"
  shows "filter P xs = [x]"
proof -
  have x: "set (filter P xs) = {x}" unfolding set_filter using assms(1-3) by blast
  have "length (filter P xs) = card (set (filter P xs))" by (rule distinct_card [symmetric]) (rule distinct_filter [OF assms(4)])
  then have "length (filter P xs) = Suc 0" unfolding x by simp
  then obtain y where "filter P xs = [y]" by (auto simp: length_Suc_conv)
  with x show ?thesis by simp
qed

lemma find_state:
  assumes "fleetInv fin fl" and "st \<in> set (fl_states fl)" and "isStateOf name n st"
  shows "find (isStateOf name n) (fl_states fl) = Some st"
proof (rule find_unique [where P = "isStateOf name n", OF assms(2,3)], intro ballI impI)
  show "y = st" if "y \<in> set (fl_states fl)" "isStateOf name n y" for y
    by (rule inv_unique [OF assms(1,2) that(1) assms(3) that(2)])
qed

text \<open>Replacing a state object, with the same labels, changes what is left to do for its application on its node only.\<close>

lemma find_replaced:
  "P st' = P st \<Longrightarrow> (\<And>x. x \<in> set sts \<Longrightarrow> stName x = stName st \<Longrightarrow> x = st) \<Longrightarrow>
   find P (updState (stName st) (\<lambda>_. st') sts) = map_option (\<lambda>x. if x = st then st' else x) (find P sts)"
  by (induction sts) (auto simp: updState_def)

lemma leftToDo_replaced:
  assumes inv: "fleetInv fin fl" and st: "st \<in> set (fl_states fl)" "isStateOf name n st"
    and st': "om_Labels (st_Meta st') = om_Labels (st_Meta st)"
    and fl': "fl_states fl' = updState (stName st) (\<lambda>_. st') (fl_states fl)"
  shows "leftToDo fin fl' n sel name = stepsLeft fin sel st'"
    and "(m, other) \<noteq> (n, name) \<Longrightarrow> leftToDo fin fl' m sel other = leftToDo fin fl m sel other"
proof -
  have uniq: "x = st" if "x \<in> set (fl_states fl)" "stName x = stName st" for x
    using inv_names [OF inv] st(1) that by (auto simp: distinct_map inj_on_def)
  have f: "find (isStateOf other m) (fl_states fl') = map_option (\<lambda>x. if x = st then st' else x) (find (isStateOf other m) (fl_states fl))"
    for other m unfolding fl' by (rule find_replaced) (simp_all add: isStateOf_meta [OF st'] uniq)
  show "leftToDo fin fl' n sel name = stepsLeft fin sel st'"
    by (simp add: leftToDo_def f find_state [OF inv st])
  assume "(m, other) \<noteq> (n, name)"
  then have "\<not> isStateOf other m st" using isStateOf_unique [OF st(2)] by blast
  then show "leftToDo fin fl' m sel other = leftToDo fin fl m sel other"
    by (auto simp: leftToDo_def f split: option.split dest: findSomeD)
qed

section \<open>One turn\<close>

lemma updState_subset: "set (updState nm (\<lambda>_. st') sts) \<subseteq> insert st' (set sts)"
  by (auto simp: updState_def)

lemma wellFormed_replaced:
  "wellFormed ok sts \<Longrightarrow> \<forall>p\<in>set (statePrograms st'). ok p \<Longrightarrow> wellFormed ok (updState nm (\<lambda>_. st') sts)"
  using updState_subset [of nm st' sts] by (auto simp: wellFormed_def)

text \<open>A turn for a deleted application: nothing is left and nothing is done, or there is one step less and the reconcile ends.\<close>

definition turnDone ::
    "string \<Rightarrow> string \<Rightarrow> ('q App \<Rightarrow> bool) \<Rightarrow> 'q App \<Rightarrow> ReconcileResult option \<Rightarrow> ('q, 'p BpfProgramStateCommon_scheme) Fleet \<Rightarrow>
     ('q, 'p BpfProgramStateCommon_scheme) Fleet \<Rightarrow> bool" where
  "turnDone fin n sel a r fl fl' \<longleftrightarrow>
     (if leftToDo fin fl n (sel a) (appName a) = 0 then r = None \<and> fl' = fl
      else r \<noteq> None \<and> leftToDo fin fl n (sel a) (appName a) = Suc (leftToDo fin fl' n (sel a) (appName a)) \<and>
        (\<forall>m other b. (m, other) \<noteq> (n, appName a) \<longrightarrow> leftToDo fin fl' m b other = leftToDo fin fl m b other))"

context fleet_agent
begin

lemma getState_found:
  assumes inv: "fleetInv fin (see s)" and ok: "\<And>labels w. \<exists>xs. fst (k8s_ListStates env None labels w) = Inr xs"
  obtains s' where "see s' = see s"
    "getBpfAppState env ops a s = (Inr (find (isStateOf (appName a) node) (fl_states (see s))), s')"
proof -
  let ?labels = "[(BpfAppStateOwner, appName a), (K8sHostLabel, node)]" and ?P = "isStateOf (appName a) node"
  obtain xs w where l: "k8s_ListStates env None ?labels (world s) = (Inr xs, w)" using ok [of ?labels "world s"] by (metis prod.collapse)
  then have v: "view w = see s" "xs = filter ?P (fl_states (see s))"
    using list_states(1) [of None ?labels "world s"] list_states(2) [of ?labels "world s"]
    by (auto simp: isStateOf_def [abs_def])
  have d: "distinct (fl_states (see s))" using inv_names [OF inv] by (simp add: distinct_map)
  have "getBpfAppState env ops a s = (Inr (find ?P (fl_states (see s))), s\<lparr>world := w\<rparr>)"
  proof (cases "\<exists>st\<in>set (fl_states (see s)). ?P st")
    case True
    then obtain st where st: "st \<in> set (fl_states (see s))" "?P st" by blast
    have "xs = [st]" unfolding v(2) by (rule filter_unique) (use st d inv_unique [OF inv] in blast)+
    with l cluster_scoped find_state [OF inv st] show ?thesis by (simp add: getBpfAppState_def lift_world_def)
  next
    case False
    then have "xs = []" "find ?P (fl_states (see s)) = None" unfolding v(2) by (auto simp: filter_empty_conv find_None_iff)
    with l cluster_scoped show ?thesis by (simp add: getBpfAppState_def lift_world_def)
  qed
  with v(1) show thesis using that [of "s\<lparr>world := w\<rparr>"] by simp
qed

lemma tornDown_turn:
  assumes g: "getBpfAppState env ops a s = (Inr (Some st), t)" and d: "isBeingDeleted a"
    and sel: "isNodeSelected env (NodeSelector (app_Spec a)) (nd_Labels ourNode) = Inr sel" and torn: "tornDown sel st"
  shows "reconcileApp env ops ourNode a s =
    (case removeFinalizer env fin st t of (b, s') \<Rightarrow> Some (if b then Some Done else None, s'))"
proof -
  let ?x = "if sel then AppUnLoadSuccess else NotSelected"
  let ?k = "if sel then BpfAppStateCondUnloaded else BpfAppStateCondSuccess"
  from torn obtain c where c: "loadStatus st = ?x" "\<forall>p\<in>set (statePrograms st). ProgramId p = None \<and> ProgramLinkStatus p = ProgAttachSuccess"
    "Conditions (st_Status st) = [c]" "cond_Type c = BpfAppStateCond_string ?k" unfolding tornDown_def by blast
  have [simp]: "setAppLoadStatus ?x st = st" "setPrograms (statePrograms st) st = st"
    using c(1) by (simp_all add: setAppLoadStatus_def setPrograms_def statePrograms_def updStatus_def)
  have load: "reconcileLoad env ops ourNode a st t = Some ((Inr (), st), t)"
    using d sel unloadLoop_done [OF c(2), of env ops t] \<open>setAppLoadStatus ?x st = st\<close> by (cases sel) (simp_all add: reconcileLoad_def unload_def)
  have "checkProgramStatus st = ?k" using c(1,2) by (auto simp: checkProgramStatus_def)
  then have "reconcileAppPrograms env ops a st t = Some (st, t)"
    using d c by (auto simp: reconcileAppPrograms_def updateBpfAppStateCondition_def Let_def)
  moreover have "\<not> IsBpfAppStateConditionFailure (Conditions (st_Status st))"
    using c(3,4) by (auto simp: IsBpfAppStateConditionFailure_def split: if_splits)
  ultimately have "afterLoad env ops a st st t = (case removeFinalizer env fin st t of (b, s') \<Rightarrow> Some (if b then Some Done else None, s'))"
    using d by (simp add: afterLoad_def updateBpfAppStateStatus_def split: prod.split bool.split)
  with g load show ?thesis by (simp add: reconcileApp_def)
qed

lemma unload_turn:
  assumes g: "getBpfAppState env ops a s = (Inr (Some st), t)" and d: "isBeingDeleted a"
    and sel: "isNodeSelected env (NodeSelector (app_Spec a)) (nd_Labels ourNode) = Inr sel" and torn: "\<not> tornDown sel st"
    and wf: "\<forall>p\<in>set (statePrograms st). wf p" and st: "st \<in> set (fl_states (see t))"
  obtains r s' y where "reconcileApp env ops ourNode a s = Some (Some r, s')" "tornDown sel (st\<lparr>st_Status := y\<rparr>)"
    "\<forall>p\<in>set (Programs y). wf p" "fl_states (see s') = updState (stName st) (\<lambda>z. z\<lparr>st_Status := y\<rparr>) (fl_states (see t))"
proof -
  let ?x = "if sel then AppUnLoadSuccess else NotSelected"
  let ?k = "if sel then BpfAppStateCondUnloaded else BpfAppStateCondSuccess"
  from unload_all [OF wf, of env t] obtain st0 u where u: "unload env ops st t = Some (st0, u)"
    and p0: "\<forall>p\<in>set (statePrograms st0). ProgramId p = None \<and> ProgramLinkStatus p = ProgAttachSuccess \<and> wf p" by blast
  note u' = unload_result [OF u]
  let ?st1 = "setAppLoadStatus ?x st0"
  have load: "reconcileLoad env ops ourNode a st t = Some ((Inr (), ?st1), u)"
    using d sel u by (cases sel) (simp_all add: reconcileLoad_def)
  have same: "setPrograms (statePrograms st0) (setAppLoadStatus x st0) = setAppLoadStatus x st0" for x
    by (simp add: setAppLoadStatus_def setPrograms_def statePrograms_def updStatus_def)
  define st2 where "st2 = snd (updateBpfAppStateCondition (time_Now env (world u)) ?k ?st1)"
  have "checkProgramStatus ?st1 = ?k" using p0 by (auto simp: checkProgramStatus_def)
  then have progs: "reconcileAppPrograms env ops a ?st1 u = Some (st2, u)"
    using d by (auto simp: reconcileAppPrograms_def Let_def same st2_def)
  have f2: "st_Meta st2 = st_Meta st" "loadStatus st2 = ?x" "statePrograms st2 = statePrograms st0"
    using u'(2) by (simp_all add: st2_def condition_frame setAppLoadStatus_fields)
  have torn2: "tornDown sel st2"
    using p0 f2(2,3) updateBpfAppStateCondition_type [of "time_Now env (world u)" ?k ?st1]
    unfolding tornDown_def st2_def by auto
  obtain b q st3 v where w: "updateBpfAppStateStatus env ops a (Some st) st2 u = ((b, q, st3), v)" by (metis prod.collapse)
  have "see u = (see t)\<lparr>fl_loaded := fl_loaded (see u)\<rparr>" using u'(3) by simp
  then have states: "fl_states (see u) = fl_states (see t)" by (metis Fleet.select_convs(2) Fleet.surjective Fleet.update_convs(4))
  with st have "st \<in> set (fl_states (see u))" by simp
  from w this f2(1) [symmetric] show thesis
  proof (cases rule: updateStatus)
    case same
    then have "tornDown sel st" using torn2 by (simp add: tornDown_def statePrograms_def)
    with torn show thesis by simp
  next
    case (written y)
    have "tornDown sel (st\<lparr>st_Status := y\<rparr>)" using torn2 written(2-4) by (simp add: tornDown_def statePrograms_def)
    moreover have "\<forall>p\<in>set (Programs y). wf p" using written(4) f2(3) p0 by simp
    moreover have "fl_states (see v) = updState (stName st) (\<lambda>z. z\<lparr>st_Status := y\<rparr>) (fl_states (see t))"
      using written(5) states f2(1) by simp
    moreover have "\<exists>r. reconcileApp env ops ourNode a s = Some (Some r, v)"
      using g load progs w written(1) by (cases q) (auto simp: reconcileApp_def afterLoad_def)
    ultimately show thesis using that by blast
  qed
qed

lemma release_turn:
  assumes r: "removeFinalizer env fin st s = (b, s')" and ok: "\<And>x w. fst (k8s_Update env x w) = Inr ()"
    and inv: "fleetInv fin (see s)" and st: "st \<in> set (fl_states (see s))"
  shows "if fin \<in> set (om_Finalizers (st_Meta st))
    then b \<and> fl_states (see s') = updState (stName st)
      (\<lambda>_. st\<lparr>st_Meta := (st_Meta st)\<lparr>om_Finalizers := removeAll fin (om_Finalizers (st_Meta st))\<rparr>\<rparr>) (fl_states (see s))
    else \<not> b \<and> s' = s"
proof (cases "fin \<in> set (om_Finalizers (st_Meta st))")
  case True
  let ?st = "st\<lparr>st_Meta := (st_Meta st)\<lparr>om_Finalizers := removeAll fin (om_Finalizers (st_Meta st))\<rparr>\<rparr>"
  obtain w where w: "k8s_Update env ?st (world s) = (Inr (), w)" using ok by (metis prod.collapse)
  with r True have "b" "see s' = view w" by (auto simp: removeFinalizer_def lift_world_def)
  with update_works [OF w] updState_const [OF inv_names [OF inv] st,
      of "\<lambda>y. y\<lparr>st_Meta := (st_Meta y)\<lparr>om_Finalizers := om_Finalizers (st_Meta ?st)\<rparr>\<rparr>"] True
  show ?thesis by simp
qed (use r in \<open>simp add: removeFinalizer_def\<close>)

text \<open>The two kinds of step, as turns: a state object that is not in its final status gets there, and one that is gets released.\<close>

lemma unload_done:
  assumes inv: "fleetInv fin (see s)" and st: "st \<in> set (fl_states (see s))" "isStateOf (appName a) node st"
    and t: "getBpfAppState env ops a s = (Inr (Some st), t)" "see t = see s" and d: "isBeingDeleted a"
    and sel: "isNodeSelected env (NodeSelector (app_Spec a)) (nd_Labels ourNode) = Inr (sel a)"
    and good: "good s" and torn: "\<not> tornDown (sel a) st"
  shows "\<exists>r s'. reconcileApp env ops ourNode a s = Some (r, s') \<and> turnDone fin node sel a r (see s) (see s') \<and> good s'"
proof -
  have wf: "goodState st" using good st(1) by (simp add: wellFormed_def)
  have stt: "st \<in> set (fl_states (see t))" using st(1) t(2) by simp
  from unload_turn [OF t(1) d sel torn wf stt] obtain r s' y where y: "reconcileApp env ops ourNode a s = Some (Some r, s')"
    "tornDown (sel a) (st\<lparr>st_Status := y\<rparr>)" "\<forall>p\<in>set (Programs y). wf p"
    "fl_states (see s') = updState (stName st) (\<lambda>z. z\<lparr>st_Status := y\<rparr>) (fl_states (see t))" by metis
  let ?st' = "st\<lparr>st_Status := y\<rparr>"
  have fl': "fl_states (see s') = updState (stName st) (\<lambda>_. ?st') (fl_states (see s))"
    unfolding y(4) t(2) by (rule updState_const [OF inv_names [OF inv] st(1)])
  have "leftToDo fin (see s) node (sel a) (appName a) = stepsLeft fin (sel a) st" using find_state [OF inv st] by (simp add: leftToDo_def)
  then have "turnDone fin node sel a (Some r) (see s) (see s')"
    using leftToDo_replaced [OF inv st _ fl'] torn y(2) by (auto simp: turnDone_def stepsLeft_def)
  moreover have "good s'" unfolding fl' by (rule wellFormed_replaced [OF good]) (simp add: y(3) statePrograms_def)
  ultimately show ?thesis using y(1) by blast
qed

lemma release_done:
  assumes inv: "fleetInv fin (see s)" and st: "st \<in> set (fl_states (see s))" "isStateOf (appName a) node st"
    and t: "getBpfAppState env ops a s = (Inr (Some st), t)" "see t = see s" and d: "isBeingDeleted a"
    and sel: "isNodeSelected env (NodeSelector (app_Spec a)) (nd_Labels ourNode) = Inr (sel a)"
    and updates: "\<And>x w. fst (k8s_Update env x w) = Inr ()" and good: "good s" and torn: "tornDown (sel a) st"
  shows "\<exists>r s'. reconcileApp env ops ourNode a s = Some (r, s') \<and> turnDone fin node sel a r (see s) (see s') \<and> good s'"
proof -
  obtain b s' where b: "removeFinalizer env fin st t = (b, s')" by fastforce
  have run: "reconcileApp env ops ourNode a s = Some (if b then Some Done else None, s')"
    using tornDown_turn [OF t(1) d sel torn] b by simp
  have left: "leftToDo fin (see s) node (sel a) (appName a) = stepsLeft fin (sel a) st" using find_state [OF inv st] by (simp add: leftToDo_def)
  note rel = release_turn [OF b updates, unfolded t(2), OF inv st(1)]
  show ?thesis
  proof (cases "fin \<in> set (om_Finalizers (st_Meta st))")
    case False
    with rel t(2) have "\<not> b" "see s' = see s" by simp_all
    moreover have "turnDone fin node sel a None (see s) (see s)" using left torn False by (simp add: turnDone_def stepsLeft_def)
    ultimately show ?thesis using run good by simp
  next
    case True
    let ?st' = "st\<lparr>st_Meta := (st_Meta st)\<lparr>om_Finalizers := removeAll fin (om_Finalizers (st_Meta st))\<rparr>\<rparr>"
    from rel True have "b" and fl': "fl_states (see s') = updState (stName st) (\<lambda>_. ?st') (fl_states (see s))" by simp_all
    have "tornDown (sel a) ?st'" using torn by (simp add: tornDown_def statePrograms_def)
    then have "turnDone fin node sel a (Some Done) (see s) (see s')"
      using leftToDo_replaced [OF inv st _ fl'] left torn True by (auto simp: turnDone_def stepsLeft_def)
    moreover have "good s'"
      unfolding fl' by (rule wellFormed_replaced [OF good]) (use good st(1) in \<open>simp add: wellFormed_def statePrograms_def\<close>)
    ultimately show ?thesis using run \<open>b\<close> by simp
  qed
qed

text \<open>A turn for a deleted application returns, and does the next of the steps that are left.\<close>

lemma deleted_turn:
  assumes inv: "fleetInv fin (see s)" and d: "isBeingDeleted a"
    and sel: "isNodeSelected env (NodeSelector (app_Spec a)) (nd_Labels ourNode) = Inr (sel a)" and good: "good s"
    and lists: "\<And>labels w. \<exists>xs. fst (k8s_ListStates env None labels w) = Inr xs"
    and updates: "\<And>x w. fst (k8s_Update env x w) = Inr ()"
  shows "\<exists>r s'. reconcileApp env ops ourNode a s = Some (r, s') \<and> turnDone fin node sel a r (see s) (see s') \<and> good s'"
proof -
  obtain t where t: "see t = see s" "getBpfAppState env ops a s = (Inr (find (isStateOf (appName a) node) (fl_states (see s))), t)"
    using getState_found [OF inv lists] by metis
  show ?thesis
  proof (cases "find (isStateOf (appName a) node) (fl_states (see s))")
    case None
    with t d have "reconcileApp env ops ourNode a s = Some (None, t)" by (simp add: reconcileApp_def)
    with None t(1) good show ?thesis by (simp add: turnDone_def leftToDo_def)
  next
    case (Some st)
    then have st: "st \<in> set (fl_states (see s))" "isStateOf (appName a) node st" by (auto simp: find_Some_iff)
    have g: "getBpfAppState env ops a s = (Inr (Some st), t)" using t(2) Some by simp
    show ?thesis
      using unload_done [where sel = sel, OF inv st g t(1) d sel good] release_done [where sel = sel, OF inv st g t(1) d sel updates good]
      by (cases "tornDown (sel a) st") blast+
  qed
qed

text \<open>The loop over the applications: one step is done, for the first application that has one left.\<close>

lemma deleted_turns:
  assumes sel: "\<And>a. isNodeSelected env (NodeSelector (app_Spec a)) (nd_Labels ourNode) = Inr (sel a)"
    and lists: "\<And>labels w. \<exists>xs. fst (k8s_ListStates env None labels w) = Inr xs"
    and updates: "\<And>x w. fst (k8s_Update env x w) = Inr ()"
  shows "fleetInv fin (see s) \<Longrightarrow> wellFormed wf (fl_states (see s)) \<Longrightarrow> \<forall>a\<in>set as. isBeingDeleted a \<Longrightarrow>
    distinct (map appName as) \<Longrightarrow>
    \<exists>r s'. reconcileApps env ops ourNode as s = Some (r, s') \<and> wellFormed wf (fl_states (see s')) \<and>
      (\<Sum>a\<leftarrow>as. leftToDo fin (see s') node (sel a) (appName a)) = (\<Sum>a\<leftarrow>as. leftToDo fin (see s) node (sel a) (appName a)) - 1 \<and>
      (\<forall>m b other. m \<noteq> node \<or> other \<notin> appName ` set as \<longrightarrow>
         leftToDo fin (see s') m b other = leftToDo fin (see s) m b other)"
proof (induction as arbitrary: s)
  case (Cons a as)
  have d: "isBeingDeleted a" using Cons.prems(3) by simp
  from deleted_turn [of s a ourNode sel, OF Cons.prems(1) d sel Cons.prems(2) lists updates] obtain x t where
    t: "reconcileApp env ops ourNode a s = Some (x, t)" "turnDone fin node sel a x (see s) (see t)" "wellFormed wf (fl_states (see t))" by metis
  show ?case
  proof (cases "leftToDo fin (see s) node (sel a) (appName a) = 0")
    case True
    with t(2) have x: "x = None" "see t = see s" by (simp_all add: turnDone_def)
    from Cons.IH [of t] Cons.prems x(2) obtain r s' where IH: "reconcileApps env ops ourNode as t = Some (r, s')"
      "wellFormed wf (fl_states (see s'))"
      "(\<Sum>a\<leftarrow>as. leftToDo fin (see s') node (sel a) (appName a)) = (\<Sum>a\<leftarrow>as. leftToDo fin (see s) node (sel a) (appName a)) - 1"
      "\<And>m b other. m \<noteq> node \<or> other \<notin> appName ` set as \<Longrightarrow> leftToDo fin (see s') m b other = leftToDo fin (see s) m b other"
      by auto
    have "appName a \<notin> appName ` set as" using Cons.prems(4) by simp
    with IH(4) True have "leftToDo fin (see s') node (sel a) (appName a) = 0" by simp
    with IH True t(1) x(1) show ?thesis by (intro exI [of _ r] exI [of _ s']) auto
  next
    case False
    with t(2) obtain res where x: "x = Some res"
      "leftToDo fin (see s) node (sel a) (appName a) = Suc (leftToDo fin (see t) node (sel a) (appName a))"
      "\<And>m other b. (m, other) \<noteq> (node, appName a) \<Longrightarrow> leftToDo fin (see t) m b other = leftToDo fin (see s) m b other"
      by (auto simp: turnDone_def)
    have ne: "appName y \<noteq> appName a" if "y \<in> set as" for y using Cons.prems(4) that by (auto simp: image_iff)
    have "map (\<lambda>a. leftToDo fin (see t) node (sel a) (appName a)) as = map (\<lambda>a. leftToDo fin (see s) node (sel a) (appName a)) as"
      by (intro map_cong refl x(3)) (simp add: ne)
    then have "(\<Sum>a\<leftarrow>as. leftToDo fin (see t) node (sel a) (appName a)) = (\<Sum>a\<leftarrow>as. leftToDo fin (see s) node (sel a) (appName a))"
      by (rule arg_cong)
    with x t show ?thesis by (intro exI [of _ res] exI [of _ t]) auto
  qed
qed (auto intro!: exI)

end

section \<open>The cluster\<close>

text \<open>The agents reconcile in the order of a schedule, a list of node names; a panic ends the run.\<close>

fun agentRuns ::
    "(string \<Rightarrow> ('w, ClBpfApplicationProgram, ClBpfApplicationProgramState) KEnv) \<Rightarrow> string list \<Rightarrow> 'w \<Rightarrow> 'w option" where
  "agentRuns env [] w = Some w"
| "agentRuns env (n # ns) w =
     (case Cl_Reconcile (env n) '''' \<lparr>world = w, netns_cache = []\<rparr> of
        None \<Rightarrow> None
      | Some (r, s) \<Rightarrow> agentRuns env ns (world s))"

text \<open>The contract of the cluster, and that the calls deletion depends on succeed.\<close>

locale fleet_up = fleet env oenv view
  for env :: "string \<Rightarrow> ('w, ClBpfApplicationProgram, ClBpfApplicationProgramState) KEnv"
    and oenv :: "('w, ClBpfApplicationProgram, ClBpfApplicationProgramState) OEnv"
    and view :: "'w \<Rightarrow> (ClBpfApplicationProgram, ClBpfApplicationProgramState) Fleet" +
  fixes nd :: "string \<Rightarrow> NodeObject" and sel :: "string \<Rightarrow> ClusterBpfApplication \<Rightarrow> bool"
  assumes node_up: "fst (k8s_GetNode (env n) n w) = Inr (nd n)"
    and apps_up: "fst (k8s_ListApps (env n) w) = Inr (fl_apps (view w))"
    and states_up: "\<exists>xs. fst (k8s_ListStates (env n) None labels w) = Inr xs"
    and update_up: "fst (k8s_Update (env n) st w) = Inr ()"
    and selected: "isNodeSelected (env n) (NodeSelector (app_Spec a)) (nd_Labels (nd n)) = Inr (sel n a)"
    and oper_get_up: "a \<in> set (fl_apps (view w)) \<Longrightarrow> \<exists>b. fst (oe_GetApp oenv '''' (appName a) w) = Inr b"
    and oper_list_up: "\<exists>xs. fst (oe_ListStates oenv None labels w) = Inr xs"
    and oper_nodes_up: "\<exists>nds. fst (oe_ListNodes oenv w) = Inr nds"
    and oper_update_up: "fst (oe_Update oenv b w) = Inr ()"
begin

definition nodeLeft :: "('p, ClBpfApplicationProgramState) Fleet \<Rightarrow> ClusterBpfApplication list \<Rightarrow> string \<Rightarrow> nat" where
  "nodeLeft fl as n = (\<Sum>a\<leftarrow>as. leftToDo clFin fl n (sel n a) (appName a))"

lemma nodeLeft_bound: "nodeLeft fl as n \<le> 2 * length as"
proof (induction as)
  case (Cons a as)
  then show ?case using leftToDo_bound [of clFin fl n "sel n a" "appName a"] by (simp add: nodeLeft_def)
qed (simp add: nodeLeft_def)

text \<open>A reconcile of an agent returns, does one of the steps its node has left, and leaves other nodes alone.\<close>

lemma agent_progress:
  assumes inv: "fleetInv clFin (view w)" and wf: "wellFormed Cl_wf (fl_states (view w))"
    and d: "\<forall>a\<in>set (fl_apps (view w)). isBeingDeleted a"
  obtains r s where "Cl_Reconcile (env n) '''' \<lparr>world = w, netns_cache = c\<rparr> = Some (r, s)" "fleetInv clFin (view (world s))"
    "wellFormed Cl_wf (fl_states (view (world s)))" "fl_apps (view (world s)) = fl_apps (view w)"
    "\<And>m. nodeLeft (view (world s)) (fl_apps (view w)) m = nodeLeft (view w) (fl_apps (view w)) m - (if m = n then 1 else 0)"
proof -
  let ?as = "fl_apps (view w)" and ?ops = "Cl_ops (env n) (nd n)"
  obtain w1 where w1: "k8s_GetNode (env n) n w = (Inr (nd n), w1)" "view w1 = view w"
    using node_up [of n w] fleet_server.get_node [OF server, of n n w] by (metis prod.collapse snd_conv)
  obtain w2 where w2: "k8s_ListApps (env n) w1 = (Inr ?as, w2)" "view w2 = view w"
    using apps_up [of n w1] fleet_server.list_apps(1) [OF server, of n w1] w1(2) by (metis prod.collapse snd_conv)
  let ?t = "\<lparr>world = w2, netns_cache = []\<rparr>"
  have run: "Cl_Reconcile (env n) '''' \<lparr>world = w, netns_cache = c\<rparr> =
      (if ?as = [] then Some (Done, ?t) else reconcileApps (env n) ?ops (nd n) ?as ?t)"
    using w1(1) w2(1) by (simp add: Cl_Reconcile_def Reconcile_def NetNsCache_Reset_def lift_world_def node_name)
  have "\<exists>r s. reconcileApps (env n) ?ops (nd n) ?as ?t = Some (r, s) \<and> wellFormed Cl_wf (fl_states (view (world s))) \<and>
      (\<Sum>a\<leftarrow>?as. leftToDo clFin (view (world s)) n (sel n a) (appName a)) =
        (\<Sum>a\<leftarrow>?as. leftToDo clFin (view w) n (sel n a) (appName a)) - 1 \<and>
      (\<forall>m b other. m \<noteq> n \<or> other \<notin> appName ` set ?as \<longrightarrow>
         leftToDo clFin (view (world s)) m b other = leftToDo clFin (view w) m b other)"
    using agent.deleted_turns [where n = n and nd = "nd n" and ourNode = "nd n" and sel = "sel n" and s = ?t and as = ?as, OF selected states_up update_up] inv wf d inv_apps [OF inv] w2(2)
    by (simp add: node_name Cl_ops_def)
  then obtain r s where s: "reconcileApps (env n) ?ops (nd n) ?as ?t = Some (r, s)" "wellFormed Cl_wf (fl_states (view (world s)))"
    "nodeLeft (view (world s)) ?as n = nodeLeft (view w) ?as n - 1"
    "\<And>m b other. m \<noteq> n \<Longrightarrow> leftToDo clFin (view (world s)) m b other = leftToDo clFin (view w) m b other"
    unfolding nodeLeft_def by blast
  have left: "nodeLeft (view (world s)) ?as m = nodeLeft (view w) ?as m - (if m = n then 1 else 0)" for m
    using s(3,4) by (simp add: nodeLeft_def)
  have "(agentMove clFin n)\<^sup>*\<^sup>* (view w2) (view (world s))"
    using agent.reconcileApps_moves [OF s(1)] inv w2(2) by (simp add: node_name Cl_ops_def)
  from agentMoves [OF this] inv w2(2) have m: "fleetInv clFin (view (world s))" "fl_apps (view (world s)) = ?as" by simp_all
  have "?as = [] \<Longrightarrow> s = ?t" using s(1) by simp
  then have "Cl_Reconcile (env n) '''' \<lparr>world = w, netns_cache = c\<rparr> = Some (r, s) \<or>
      Cl_Reconcile (env n) '''' \<lparr>world = w, netns_cache = c\<rparr> = Some (Done, s)" using run s(1) by auto
  then show thesis using that m s(2) left by blast
qed

lemma agents_progress:
  "fleetInv clFin (view w) \<Longrightarrow> wellFormed Cl_wf (fl_states (view w)) \<Longrightarrow> \<forall>a\<in>set (fl_apps (view w)). isBeingDeleted a \<Longrightarrow>
   \<exists>w'. agentRuns env ns w = Some w' \<and> fleetInv clFin (view w') \<and> fl_apps (view w') = fl_apps (view w) \<and>
     (\<forall>m. nodeLeft (view w') (fl_apps (view w)) m = nodeLeft (view w) (fl_apps (view w)) m - count_list ns m)"
proof (induction ns arbitrary: w)
  case (Cons n ns)
  from agent_progress [OF Cons.prems, of n "[]"] obtain r s where s: "Cl_Reconcile (env n) '''' \<lparr>world = w, netns_cache = []\<rparr> = Some (r, s)"
    "fleetInv clFin (view (world s))" "wellFormed Cl_wf (fl_states (view (world s)))" "fl_apps (view (world s)) = fl_apps (view w)"
    "\<And>m. nodeLeft (view (world s)) (fl_apps (view w)) m = nodeLeft (view w) (fl_apps (view w)) m - (if m = n then 1 else 0)" by metis
  from Cons.IH [OF s(2,3)] Cons.prems(3) s(4) obtain w' where "agentRuns env ns (world s) = Some w'" "fleetInv clFin (view w')"
    "fl_apps (view w') = fl_apps (view w)"
    "\<forall>m. nodeLeft (view w') (fl_apps (view w)) m = nodeLeft (view (world s)) (fl_apps (view w)) m - count_list ns m" by auto
  with s(1,5) show ?case by auto
qed simp

text \<open>Nothing left on a node means that the state objects of the applications on it are released.\<close>

lemma nothing_left:
  assumes inv: "fleetInv clFin fl" and st: "st \<in> set (fl_states fl)" "isStateOf (appName a) n st" "a \<in> set as" and "nodeLeft fl as n = 0"
  shows "clFin \<notin> set (om_Finalizers (st_Meta st))"
proof -
  from assms(4,5) have "leftToDo clFin fl n (sel n a) (appName a) = 0" by (auto simp: nodeLeft_def)
  then show ?thesis using find_state [OF inv st(1,2)] by (auto simp: leftToDo_def stepsLeft_def split: if_splits)
qed

lemma operator_lets_go:
  assumes inv: "fleetInv clFin (view w)" and a: "a \<in> set (fl_apps (view w))" and d: "isBeingDeleted a"
    and fin: "om_Finalizers (app_Meta a) = [BpfmanOperatorFinalizer]"
    and states: "\<forall>st\<in>set (fl_states (view w)). hasLabels [(OwnerLabel, appName a)] st \<longrightarrow> clFin \<notin> set (om_Finalizers (st_Meta st))"
  shows "view (snd (Cluster_Reconcile oenv '''' (appName a) w)) =
    (view w)\<lparr>fl_apps := filter (\<lambda>b. appName b \<noteq> appName a) (fl_apps (view w))\<rparr>"
proof -
  obtain b w0 where g: "oe_GetApp oenv '''' (appName a) w = (Inr b, w0)" using oper_get_up [OF a] by (metis prod.collapse)
  with oper_get(1) [of "''''" "appName a" w] oper_get(2) [of "''''" "appName a" w b] have w0: "view w0 = view w" "b \<in> set (fl_apps (view w))" "appName b = appName a" by simp_all
  have "inj_on appName (set (fl_apps (view w)))" using inv_apps [OF inv] by (simp add: distinct_map)
  from inj_onD [OF this w0(3,2) a] have "b = a" .
  obtain xs w1 where l: "oe_ListStates oenv None [(OwnerLabel, appName a)] w0 = (Inr xs, w1)" using oper_list_up by (metis prod.collapse)
  obtain nds w2 where n: "oe_ListNodes oenv w1 = (Inr nds, w2)" using oper_nodes_up by (metis prod.collapse)
  note lists = operator_lists [OF l n]
  have "verdict clFin (appDeleted a) xs nds = Prune"
    using d states lists(1) w0(1) by (auto simp: verdict_prune appDeleted_def isBeingDeleted_def ContainsFinalizer_def)
  moreover have "ContainsFinalizer (app_Meta a) BpfmanOperatorFinalizer" using fin by (simp add: ContainsFinalizer_def)
  from clOper.reconcile_verdict [OF this l n] have "reconcileBpfApplication oenv (Cluster_OperRec oenv) a w0 =
      (case verdict clFin (appDeleted a) xs nds of Prune \<Rightarrow> oper_removeFinalizer oenv a BpfmanOperatorFinalizer w2
       | Report c m \<Rightarrow> oper_updateStatus oenv '''' (appName a) c m w2)"
    by (simp add: Cluster_OperRec_def ClBpfApplicationControllerFinalizer_def)
  ultimately have r: "Cluster_Reconcile oenv '''' (appName a) w = oper_removeFinalizer oenv a BpfmanOperatorFinalizer w2"
    using g \<open>b = a\<close> by (simp add: Cluster_Reconcile_def oper_Reconcile_def)
  let ?b = "a\<lparr>app_Meta := (app_Meta a)\<lparr>om_Finalizers := []\<rparr>\<rparr>"
  obtain w3 where u: "oe_Update oenv ?b w2 = (Inr (), w3)" using oper_update_up by (metis prod.collapse)
  have "a \<in> set (fl_apps (view w2))" using a lists(3) w0(1) by simp
  from oper_update_works [OF this refl u] have "view w3 = (view w)\<lparr>fl_apps := putApp ?b (fl_apps (view w))\<rparr>" using lists(3) w0(1) by simp
  moreover have "putApp ?b (fl_apps (view w)) = filter (\<lambda>b. appName b \<noteq> appName a) (fl_apps (view w))"
    using d by (simp add: putApp_def isBeingDeleted_def)
  ultimately show ?thesis using r u fin by (simp add: oper_removeFinalizer_def)
qed

text \<open>
  Once every agent with a state object has run often enough, no daemon holds a program of the applications, and the
  operator lets each of them go that has no other finalizer.
\<close>

lemma deletion_completes:
  assumes reach: "(fleetStep env oenv view)\<^sup>*\<^sup>* w0 w" "freshFleet (view w0)" and d: "\<forall>a\<in>set (fl_apps (view w)). isBeingDeleted a"
    and often: "\<And>n st a. st \<in> set (fl_states (view w)) \<Longrightarrow> a \<in> set (fl_apps (view w)) \<Longrightarrow> isStateOf (appName a) n st \<Longrightarrow>
      2 * length (fl_apps (view w)) \<le> count_list ns n"
    and a: "a \<in> set (fl_apps (view w))" "om_Finalizers (app_Meta a) = [BpfmanOperatorFinalizer]"
  shows "\<exists>w1. agentRuns env ns w = Some w1 \<and> (\<forall>n i. \<not> loadedFor (appName a) (fl_loaded (view w1) n i)) \<and>
    fl_apps (view (snd (Cluster_Reconcile oenv '''' (appName a) w1))) = filter (\<lambda>b. appName b \<noteq> appName a) (fl_apps (view w))"
proof -
  let ?as = "fl_apps (view w)"
  from agents_progress [OF reachable_inv [OF reach] reachable_good [OF reach] d, of ns] obtain w1 where
    w1: "agentRuns env ns w = Some w1" "fleetInv clFin (view w1)" "fl_apps (view w1) = ?as"
      "\<And>n. nodeLeft (view w1) ?as n = nodeLeft (view w) ?as n - count_list ns n" by blast
  have none: "nodeLeft (view w1) ?as n = 0" for n
  proof (cases "\<exists>st\<in>set (fl_states (view w)). \<exists>a\<in>set ?as. isStateOf (appName a) n st")
    case True
    with often have "2 * length ?as \<le> count_list ns n" by blast
    with w1(4) nodeLeft_bound [of "view w" ?as n] show ?thesis by (simp add: le_trans)
  next
    case False
    then have "find (isStateOf (appName b) n) (fl_states (view w)) = None" if "b \<in> set ?as" for b
      using that by (auto simp: find_None_iff)
    then have "nodeLeft (view w) ?as n = 0" by (auto simp: nodeLeft_def leftToDo_def)
    with w1(4) show ?thesis by simp
  qed
  have released: "clFin \<notin> set (om_Finalizers (st_Meta st))"
    if st: "st \<in> set (fl_states (view w1))" "hasLabels [(OwnerLabel, appName a)] st" for st
  proof -
    from inv_labelled [OF w1(2) st(1)] st(2) obtain n where "isStateOf (appName a) n st"
      by (auto simp: isStateOf_def hasLabels_def OwnerLabel_def BpfAppStateOwner_def)
    from nothing_left [OF w1(2) st(1) this a(1) none] show ?thesis .
  qed
  have "\<not> loadedFor (appName a) (fl_loaded (view w1) n i)" for n i
    using fleetInv_released [OF w1(2)] released by (auto simp: OwnerLabel_def BpfAppStateOwner_def)
  moreover have "view (snd (Cluster_Reconcile oenv '''' (appName a) w1)) =
      (view w1)\<lparr>fl_apps := filter (\<lambda>b. appName b \<noteq> appName a) (fl_apps (view w1))\<rparr>"
    by (rule operator_lets_go [OF w1(2)]) (use a d w1(3) released in auto)
  ultimately show ?thesis using w1(1,3) by auto
qed

end

end
