(* ===== verification/Fleet_Properties.thy ===== *)
theory Fleet_Properties
  imports Fake_Fleet Fleet_Teardown
begin

text \<open>
  The properties of the composition of agents, operator, daemons and API server, with a run of the concrete
  cluster of \<^verbatim>\<open>Fake_Fleet\<close> for each.
\<close>


lemma loaded_run:
  "case play toLoaded flStart of None \<Rightarrow> False
   | Some w \<Rightarrow> fl_loaded (flw_view w) ''n1'' 1 \<noteq> None \<and> map app_Conditions (fl_apps (flw_view w)) = [[]] \<and>
       map appName (fl_apps (flw_view w)) = [''app''] \<and> map nd_Name (fl_nodes (flw_view w)) = [''n1''] \<and>
       map (\<lambda>a. (appName a, map cond_Type (app_Conditions a))) (fl_apps (flw_view (snd (Cluster_Reconcile fleetOper '''' ''app'' w)))) =
         [(''app'', [''Success''])]"
  by code_simp

lemma released_run:
  "case play toReleased flStart of None \<Rightarrow> False
   | Some w \<Rightarrow> map (om_Finalizers \<circ> st_Meta) (fl_states (flw_view w)) = [[]] \<and>
       map (\<lambda>a. (appName a, om_Finalizers (app_Meta a))) (fl_apps (flw_view w)) = [(''app'', [BpfmanOperatorFinalizer])] \<and>
       fl_apps (flw_view (snd (Cluster_Reconcile fleetOper '''' ''app'' w))) = []"
  by code_simp






section \<open>Deletion\<close>

definition flNode :: "string \<Rightarrow> NodeObject" where
  "flNode n = \<lparr>nd_Name = n, nd_Labels = [], nd_Addresses = []\<rparr>"

definition flSelected :: "string \<Rightarrow> ClusterBpfApplication \<Rightarrow> bool" where
  "flSelected n a = (MatchLabels (NodeSelector (app_Spec a)) = [])"

interpretation fakeFleetUp: fleet_up fleetEnv fleetOper flw_view flNode flSelected
proof (intro fleet_up.intro fakeFleet.fleet_axioms fleet_up_axioms.intro, goal_cases)
  case (5 n a)
  show ?case by (cases "MatchLabels (NodeSelector (app_Spec a))") (auto simp: fleetEnv_def isNodeSelected_def flNode_def flSelected_def)
next
  case (6 a w)
  then show ?case by (auto simp: fleetOper_def find_None_iff split: option.split)
qed (simp_all add: fleetEnv_def fleetOper_def flNode_def)


lemma deleted_run:
  "case play (toLoaded @ [UserDeletes]) flStart of None \<Rightarrow> False
   | Some w \<Rightarrow> map (\<lambda>a. (appName a, om_Finalizers (app_Meta a), om_DeletionTimestamp (app_Meta a))) (fl_apps (flw_view w)) =
         [(''app'', [BpfmanOperatorFinalizer], Some 9)] \<and>
       map (\<lambda>st. map_of (om_Labels (st_Meta st)) K8sHostLabel) (fl_states (flw_view w)) = [Some ''n1''] \<and>
       fl_loaded (flw_view w) ''n1'' 1 \<noteq> None"
  by code_simp


end
