(* ===== verification/Agent_Main.thy ===== *)
theory Agent_Main
  imports Metrics_Proxy Bpffs
begin

text \<open>
  The start of the agent: \<^verbatim>\<open>main\<close> of \<^verbatim>\<open>cmd/bpfman-agent/main.go\<close> with the constructors it calls
  (\<^verbatim>\<open>CreateConnection\<close>, \<^verbatim>\<open>NewRealContainerGetter\<close>, \<^verbatim>\<open>newInterfaceDiscovery\<close>, \<^verbatim>\<open>newAgentMetricsServer\<close>). Parsed flags and the
  libraries are arguments. The result is either the exit status with what was printed, or the process that \<^verbatim>\<open>runAgent\<close>
  supervises (\<^verbatim>\<open>Agent_Runtime\<close>).

  Also the helpers programs outside of the operator use to find a cluster (\<^verbatim>\<open>pkg/helpers/helpers.go\<close>).
\<close>

section \<open>The environment\<close>

record 'w AgentEnv =
  ae_Os :: "'w OsEnv"
  ae_Socket :: "'w SocketEnv"
  ae_Getenv :: "string \<Rightarrow> string"
  ae_NewManager :: "unit result"
  grpc_NewClient :: "string \<Rightarrow> unit result"
  ae_getClientset :: "unit result"
  ae_SetupWithManager :: "string \<Rightarrow> unit result"
  ae_AddCheck :: "string \<Rightarrow> unit result"
  ifaces_NewRegisterer :: "unit result"
  ifaces_Subscribe :: "unit result"

record AgentFlags =
  afl_ShowVersion :: bool
  afl_MountBPFFS :: bool
  afl_MountBPFFSPath :: string
  afl_RemountBPFFS :: bool
  afl_EnableInterfacesDiscovery :: bool

definition DefaultMountPoint :: string where "DefaultMountPoint = ''/sys/fs/bpf''"
definition DefaultMountInfoPath :: string where "DefaultMountInfoPath = ''/proc/self/mountinfo''"
definition DefaultPath :: string where "DefaultPath = ''/run/bpfman-sock/bpfman.sock''"
definition internalMetricsSocketPath :: string where
  "internalMetricsSocketPath = ''/var/run/bpfman-agent/metrics.sock''"

definition defaultAgentFlags :: AgentFlags where
  "defaultAgentFlags = \<lparr>afl_ShowVersion = False, afl_MountBPFFS = False, afl_MountBPFFSPath = DefaultMountPoint,
     afl_RemountBPFFS = False, afl_EnableInterfacesDiscovery = True\<rparr>"

section \<open>Constructors\<close>

text \<open>The address the client is made for.\<close>

definition CreateConnection :: "'w AgentEnv \<Rightarrow> string result" where
  "CreateConnection env =
     (let addr = ''unix://'' @ DefaultPath in
      case grpc_NewClient env addr of
        Inl err \<Rightarrow> Inl (''unable to establish connection to '' @ addr @ '': '' @ err)
      | Inr _ \<Rightarrow> Inr addr)"

record RealContainerGetter =
  rcg_nodeName :: string

definition NewRealContainerGetter :: "'w AgentEnv \<Rightarrow> string \<Rightarrow> RealContainerGetter result" where
  "NewRealContainerGetter env nodeName =
     (case ae_getClientset env of
        Inl err \<Rightarrow> Inl (''failed to get clientset: '' @ err)
      | Inr _ \<Rightarrow> Inr \<lparr>rcg_nodeName = nodeName\<rparr>)"

text \<open>The discovery fills the map it is given.\<close>

definition newInterfaceDiscovery :: "'w AgentEnv \<Rightarrow> InterfaceMap \<Rightarrow> InterfaceMap result" where
  "newInterfaceDiscovery env interfaces =
     (case ifaces_NewRegisterer env of
        Inl err \<Rightarrow> Inl (''creating interface registerer: '' @ err)
      | Inr _ \<Rightarrow>
          (case ifaces_Subscribe env of
             Inl err \<Rightarrow> Inl (''subscribing to interface events: '' @ err)
           | Inr _ \<Rightarrow> Inr interfaces))"

section \<open>The set-up\<close>

text \<open>What the reconcilers share, without the handles of the libraries.\<close>

record ReconcilerCommon =
  rc_GrpcConn :: string
  rc_NodeName :: string
  rc_Containers :: RealContainerGetter
  rc_Interfaces :: InterfaceMap

record AgentProcess =
  ap_Common :: ReconcilerCommon
  ap_Socket :: string
  ap_State :: AgentState

text \<open>A failed step ends the process with status 1, with nothing on standard output.\<close>

definition orAbort ::
    "'a result \<Rightarrow> ('a \<Rightarrow> 'w \<Rightarrow> ((int \<times> string) + 'b) \<times> 'w) \<Rightarrow> 'w \<Rightarrow> ((int \<times> string) + 'b) \<times> 'w" where
  "orAbort r k w = (case r of Inl err \<Rightarrow> (Inl (1, ''''), w) | Inr x \<Rightarrow> k x w)"

definition agentSetup ::
    "'w AgentEnv \<Rightarrow> Build \<Rightarrow> AgentFlags \<Rightarrow> 'w \<Rightarrow> ((int \<times> string) + AgentProcess) \<times> 'w" where
  "agentSetup env build flags w =
     (if afl_ShowVersion flags then (Inl (0, version_String build @ [CHR 0x0A]), w)
      else if afl_MountBPFFS flags then
        (case handleMountBPFFS (ae_Os env) DefaultMountInfoPath (afl_MountBPFFSPath flags) (afl_RemountBPFFS flags) w of
           ((code, out, err), w) \<Rightarrow> (Inl (code, out), w))
      else
        orAbort (ae_NewManager env) (\<lambda>_.
        orAbort (CreateConnection env) (\<lambda>conn.
        let nodeName = ae_Getenv env ''KUBE_NODE_NAME'' in
        if nodeName = '''' then (\<lambda>w. (Inl (1, ''''), w))
        else
        orAbort (NewRealContainerGetter env nodeName) (\<lambda>containerGetter.
        let commonApp = \<lparr>rc_GrpcConn = conn, rc_NodeName = nodeName, rc_Containers = containerGetter, rc_Interfaces = []\<rparr> in
        orAbort (ae_SetupWithManager env ''ClBpfApplicationReconciler'') (\<lambda>_.
        orAbort (ae_SetupWithManager env ''NsBpfApplicationReconciler'') (\<lambda>_.
        orAbort (ae_AddCheck env ''healthz'') (\<lambda>_.
        orAbort (ae_AddCheck env ''readyz'') (\<lambda>_ w.
          (case newAgentMetricsServer (ae_Socket env) internalMetricsSocketPath w of
             (Inl err, w) \<Rightarrow> (Inl (1, ''''), w)
           | (Inr socketPath, w) \<Rightarrow>
               orAbort (if afl_EnableInterfacesDiscovery flags then newInterfaceDiscovery env (rc_Interfaces commonApp)
                        else Inr (rc_Interfaces commonApp)) (\<lambda>interfaces w.
                 (Inr \<lparr>ap_Common = commonApp, ap_Socket = socketPath,
                       ap_State = startAgent (afl_EnableInterfacesDiscovery flags) interfaces\<rparr>, w)) w)))))))) w)"

section \<open>Finding a cluster\<close>

record HelperEnv =
  he_InClusterConfig :: "string result"
  he_DefaultFilename :: string
  he_BuildConfigFromFlags :: "string \<Rightarrow> string result"
  he_KUBECONFIG :: string
  he_NewDiscoveryClient :: "string \<Rightarrow> unit result"
  he_ServerGroups :: "string list result"

text \<open>A configuration, or a panic (\<open>None\<close>).\<close>

definition GetK8sConfigOrDie :: "HelperEnv \<Rightarrow> string go" where
  "GetK8sConfigOrDie env =
     (case he_InClusterConfig env of
        Inl _ \<Rightarrow>
          (case he_BuildConfigFromFlags env (he_DefaultFilename env) of Inl _ \<Rightarrow> None | Inr config \<Rightarrow> Some config)
      | Inr config \<Rightarrow>
          if he_KUBECONFIG env \<noteq> ''''
          then (case he_BuildConfigFromFlags env (he_KUBECONFIG env) of Inl _ \<Rightarrow> None | Inr config \<Rightarrow> Some config)
          else Some config)"

definition IsBpfmanDeployed :: "HelperEnv \<Rightarrow> bool go" where
  "IsBpfmanDeployed env =
     do { config \<leftarrow> GetK8sConfigOrDie env;
          case he_NewDiscoveryClient env config of
            Inl _ \<Rightarrow> None
          | Inr _ \<Rightarrow>
              (case he_ServerGroups env of
                 Inl _ \<Rightarrow> None
               | Inr groups \<Rightarrow> Some (groupLoop ''bpfman.io'' groups)) }"

section \<open>Lemmas\<close>

lemma orAbort_Inr: "orAbort r k w = (Inr y, w') \<longleftrightarrow> (\<exists>x. r = Inr x \<and> k x w = (Inr y, w'))"
  by (auto simp: orAbort_def split: sum.split)

lemma agentSetup_process:
  assumes "agentSetup env build flags w = (Inr p, w')"
  shows "\<not> afl_MountBPFFS flags"
    and "rc_NodeName (ap_Common p) = ae_Getenv env ''KUBE_NODE_NAME''" and "rc_NodeName (ap_Common p) \<noteq> ''''"
    and "rcg_nodeName (rc_Containers (ap_Common p)) = rc_NodeName (ap_Common p)"
    and "newAgentMetricsServer (ae_Socket env) internalMetricsSocketPath w = (Inr (ap_Socket p), w')"
    and "ap_State p = startAgent (afl_EnableInterfacesDiscovery flags) []"
proof -
  obtain q v where m: "newAgentMetricsServer (ae_Socket env) internalMetricsSocketPath w = (q, v)" by fastforce
  have f: "\<not> afl_ShowVersion flags" "\<not> afl_MountBPFFS flags"
    using assms by (auto simp: agentSetup_def split: if_splits prod.splits)
  have g: "NewRealContainerGetter env n = Inr x \<Longrightarrow> x = \<lparr>rcg_nodeName = n\<rparr>" for n x
    by (auto simp: NewRealContainerGetter_def split: sum.splits)
  have i: "newInterfaceDiscovery env xs = Inr ys \<Longrightarrow> ys = xs" for xs ys
    by (auto simp: newInterfaceDiscovery_def split: sum.splits)
  from assms f m show "\<not> afl_MountBPFFS flags"
    and "rc_NodeName (ap_Common p) = ae_Getenv env ''KUBE_NODE_NAME''" and "rc_NodeName (ap_Common p) \<noteq> ''''"
    and "rcg_nodeName (rc_Containers (ap_Common p)) = rc_NodeName (ap_Common p)"
    and "newAgentMetricsServer (ae_Socket env) internalMetricsSocketPath w = (Inr (ap_Socket p), w')"
    and "ap_State p = startAgent (afl_EnableInterfacesDiscovery flags) []"
    by (cases q; auto simp: agentSetup_def orAbort_Inr Let_def dest!: g i split: if_splits)+
qed

lemma newAgentMetricsServer_path: "newAgentMetricsServer env path w = (Inr path', w') \<Longrightarrow> path' = path"
  by (auto simp: newAgentMetricsServer_def split: sum.splits prod.splits option.splits)

end
