(* ===== verification/Controller_Watches.thy ===== *)
theory Controller_Watches
  imports Operator
begin

text \<open>
  What wakes the application controllers: the \<^verbatim>\<open>SetupWithManager\<close> methods of the agent's and the operator's controllers and
  the predicates they are built with (\<^verbatim>\<open>internal/k8s.go\<close>, the ones of \<^verbatim>\<open>common.go\<close> in \<open>Selectors\<close>, the
  status predicates of the operator in \<open>Operator\<close>, and those of the controller library).

  Every reconcile of an agent looks at all applications, so which request an event enqueues does not matter to it; the
  operator's reconcile is of one application. The theorem about the operator says that what its predicate filters out
  can not change its verdict.
\<close>

section \<open>Predicates\<close>

text \<open>The library's change predicates look at updates only; every other event passes.\<close>

definition ChangedPredicate :: "('o \<Rightarrow> 'f) \<Rightarrow> EventKind \<Rightarrow> 'o \<Rightarrow> 'o \<Rightarrow> bool" where
  "ChangedPredicate field kind oldObject newObject \<longleftrightarrow> (kind = UpdateEvent \<longrightarrow> field newObject \<noteq> field oldObject)"

definition BpfNodePredicate :: "string \<Rightarrow> EventKind \<Rightarrow> (string \<times> string) list \<Rightarrow> bool" where
  "BpfNodePredicate nodeName kind labels =
     ((case map_of labels HostLabel of None \<Rightarrow> [] | Some v \<Rightarrow> v) = nodeName)"

definition DiscoveredLabel :: string where "DiscoveredLabel = ''bpfman.io/discoveredProgram''"

definition DiscoveredBpfProgramPredicate :: "EventKind \<Rightarrow> (string \<times> string) list \<Rightarrow> bool" where
  "DiscoveredBpfProgramPredicate kind labels \<longleftrightarrow> map_of labels DiscoveredLabel \<noteq> None"

section \<open>The agent's controllers\<close>

record WatchedApp =
  wa_Generation :: int
  wa_ResourceVersion :: string

text \<open>An event: its kind, the old and the new object; for other events than updates the two are the same.\<close>

datatype AgentEvent =
    AppEvent EventKind WatchedApp WatchedApp
  | OwnedStateEvent EventKind "(string \<times> string) list" "(string \<times> string) list"
  | NodeEvent EventKind "(string \<times> string) list" "(string \<times> string) list"
  | PodEvent EventKind "PodObject option" "PodObject option"

text \<open>Both controllers, of cluster and of namespaced applications, are built with the same predicates.\<close>

fun agentWoken :: "string \<Rightarrow> AgentEvent \<Rightarrow> bool" where
  "agentWoken nodeName (AppEvent kind oldApp newApp) \<longleftrightarrow>
     ChangedPredicate wa_Generation kind oldApp newApp \<and> ChangedPredicate wa_ResourceVersion kind oldApp newApp"
| "agentWoken nodeName (OwnedStateEvent kind oldLabels newLabels) \<longleftrightarrow> BpfNodePredicate nodeName kind newLabels"
| "agentWoken nodeName (NodeEvent kind oldLabels newLabels) \<longleftrightarrow>
     ChangedPredicate id kind oldLabels newLabels \<and> nodePredicate nodeName kind newLabels"
| "agentWoken nodeName (PodEvent kind oldPod newPod) \<longleftrightarrow> podOnNodePredicate nodeName kind newPod"

section \<open>The operator's controllers\<close>

text \<open>The cluster and the namespace predicate differ in the finalizer they look at.\<close>

definition statusChangedPredicateCluster :: "EventKind \<Rightarrow> 'p AppState \<Rightarrow> 'p AppState \<Rightarrow> bool" where
  "statusChangedPredicateCluster = statusChangedPredicate ''bpfman.io.clbpfapplicationcontroller/finalizer''"

definition statusChangedPredicateNamespace :: "EventKind \<Rightarrow> 'p AppState \<Rightarrow> 'p AppState \<Rightarrow> bool" where
  "statusChangedPredicateNamespace = statusChangedPredicate ''bpfman.io.nsbpfapplicationcontroller/finalizer''"

datatype 'p OperEvent =
    OperAppEvent EventKind string
  | OperStateEvent EventKind "'p AppState" "'p AppState"

text \<open>The names of the requests an event enqueues: the application, or the state object itself.\<close>

fun operatorRequests :: "(EventKind \<Rightarrow> 'p AppState \<Rightarrow> 'p AppState \<Rightarrow> bool) \<Rightarrow> 'p OperEvent \<Rightarrow> string list" where
  "operatorRequests statusChanged (OperAppEvent kind name) = [name]"
| "operatorRequests statusChanged (OperStateEvent kind oldObject newObject) =
     (if statusChanged kind oldObject newObject then [om_Name (st_Meta newObject)] else [])"

section \<open>Lemmas\<close>

text \<open>The verdict depends on the names of the failed, the pending and the finalized objects, and on the hosts.\<close>

lemma verdict_lists:
  "verdict fin deleted states nodes =
     (let applied = namesOf (\<lambda>st. ContainsFinalizer (st_Meta st) fin) states;
          failed = namesOf stateFailed states; pending = namesOf statePending states in
      if deleted then if applied = [] then Prune else Report BpfAppCondDeleteError (msgDelete applied)
      else if \<not> nd_Name ` set nodes \<subseteq> hostOf ` set states then Report BpfAppCondPending ''''
      else if failed \<noteq> [] then Report BpfAppCondError (msgFailed failed)
      else if pending \<noteq> [] then Report BpfAppCondPending (msgPending pending)
      else Report BpfAppCondSuccess '''')"
  by (auto simp: verdict_def namesOf_empty Let_def)

definition readsSame :: "string \<Rightarrow> 'p AppState \<Rightarrow> 'p AppState \<Rightarrow> bool" where
  "readsSame fin st st' \<longleftrightarrow>
     om_Name (st_Meta st') = om_Name (st_Meta st) \<and> om_Labels (st_Meta st') = om_Labels (st_Meta st) \<and>
     Conditions (st_Status st') = Conditions (st_Status st) \<and>
     ContainsFinalizer (st_Meta st') fin = ContainsFinalizer (st_Meta st) fin"

lemma namesOf_same:
  assumes "list_all2 (readsSame fin) states states'" and "\<And>st st'. readsSame fin st st' \<Longrightarrow> P st' = P st"
  shows "namesOf P states' = namesOf P states"
  using assms(1)
proof (induction rule: list_all2_induct)
  case (Cons x xs y ys)
  from Cons(1) assms(2) [OF Cons(1)] Cons(3) show ?case by (simp add: namesOf_def readsSame_def)
qed (simp add: namesOf_def)

lemma verdict_same:
  assumes "list_all2 (readsSame fin) states states'"
  shows "verdict fin deleted states' nodes = verdict fin deleted states nodes"
proof -
  have "hostOf ` set states' = hostOf ` set states"
    using assms by (induction rule: list_all2_induct) (auto simp: readsSame_def hostOf_def)
  moreover have "namesOf stateFailed states' = namesOf stateFailed states"
    "namesOf statePending states' = namesOf statePending states"
    "namesOf (\<lambda>st. ContainsFinalizer (st_Meta st) fin) states' = namesOf (\<lambda>st. ContainsFinalizer (st_Meta st) fin) states"
    by (rule namesOf_same [OF assms]; simp add: readsSame_def stateFailed_def statePending_def)+
  ultimately show ?thesis unfolding verdict_lists by (simp add: Let_def)
qed

end
