(* ===== verification/Wiring_Properties.thy ===== *)
theory Wiring_Properties
  imports Agent_Main Controller_Watches Runtime_Properties
begin

text \<open>
  Properties of how the programs are wired together: what wakes the operator, how a scrape reaches the agent through
  the metrics proxy, and what a started agent process is.
\<close>

section \<open>Waking the operator\<close>

text \<open>An update of a state object, as an agent makes them, that enqueues no request of the operator.\<close>

definition unnoticed :: "'p AppState \<Rightarrow> 'p AppState \<Rightarrow> bool" where
  "unnoticed st st' \<longleftrightarrow>
     om_Name (st_Meta st') = om_Name (st_Meta st) \<and> om_Labels (st_Meta st') = om_Labels (st_Meta st) \<and>
     operatorRequests statusChangedPredicateCluster (OperStateEvent UpdateEvent st st') = []"

lemma unnoticed_same:
  assumes "unnoticed\<^sup>*\<^sup>* st st'"
  shows "readsSame ''bpfman.io.clbpfapplicationcontroller/finalizer'' st st'"
  using assms
proof (induction rule: rtranclp_induct)
  case (step y z)
  then show ?case
    by (auto simp: readsSame_def unnoticed_def statusChangedPredicateCluster_def statusChangedPredicate_def split: if_splits)
qed (simp add: readsSame_def)

text \<open>
  C19: the operator misses nothing: whatever updates agents make to the state objects of a cluster application, as long as they keep
  names and labels and none of them enqueues a reconcile of the operator, the verdict of the operator is the one it had
  before. A change of any node's state that matters to the verdict wakes the operator.
\<close>

theorem operator_wakeup_complete:
  assumes "list_all2 unnoticed\<^sup>*\<^sup>* states states'"
  shows "verdict (orc_getFinalizer (Cluster_OperRec env)) deleted states' nodes =
         verdict (orc_getFinalizer (Cluster_OperRec env)) deleted states nodes"
proof -
  have "list_all2 (readsSame ''bpfman.io.clbpfapplicationcontroller/finalizer'') states states'"
    using assms by (rule list_all2_mono) (rule unnoticed_same)
  from verdict_same [OF this] show ?thesis by (simp add: Cluster_OperRec_def)
qed

definition wakeState :: "AppLoadStatus \<Rightarrow> unit AppState" where
  "wakeState x =
     \<lparr>st_Meta = \<lparr>om_Name = ''app-0'', om_Namespace = '''', om_UID = '''', om_Labels = [(HostLabel, ''n1'')], om_Finalizers = [],
        om_DeletionTimestamp = None, om_OwnerReferences = []\<rparr>,
      st_Status = \<lparr>UpdateCount = 1, Node = ''n1'', AppLoadStatus = x, Programs = [],
        Conditions = [BpfAppStateCond_Condition BpfAppStateCondError]\<rparr>\<rparr>"

lemma wakeState_unnoticed: "unnoticed (wakeState AppLoadNotLoaded) (wakeState AppLoadError)"
  by (simp add: unnoticed_def wakeState_def statusChangedPredicateCluster_def statusChangedPredicate_def)

lemma operator_wakeup_complete_witness:
  "verdict ''bpfman.io.clbpfapplicationcontroller/finalizer'' False [wakeState AppLoadError] [] =
     Report BpfAppCondError (msgFailed [''app-0''])"
proof -
  have "verdict ''bpfman.io.clbpfapplicationcontroller/finalizer'' False [wakeState AppLoadNotLoaded] [] =
      Report BpfAppCondError (msgFailed [''app-0''])"
    by (simp add: verdict_def wakeState_def stateFailed_def namesOf_def IsBpfAppStateConditionFailure_def mkCondition_def)
  with operator_wakeup_complete [of "[wakeState AppLoadNotLoaded]" "[wakeState AppLoadError]" _ False "[]"] r_into_rtranclp [of unnoticed, OF wakeState_unnoticed]
  show ?thesis by (simp add: Cluster_OperRec_def)
qed

section \<open>Reaching the metrics\<close>

definition monitorSpec :: "Obj \<Rightarrow> ServiceMonitorSpec option" where
  "monitorSpec x = (case obj_Body x of ServiceMonitor spec \<Rightarrow> Some spec | _ \<Rightarrow> None)"

text \<open>What the agent's server answers on the socket of a started agent, the Prometheus handler being \<open>prom\<close>.\<close>

definition agentServes :: "'w ProxyEnv \<Rightarrow> AgentProcess \<Rightarrow> ('w \<Rightarrow> Response) \<Rightarrow> bool" where
  "agentServes penv p prom \<longleftrightarrow>
     (\<forall>r u. px_RoundTrip penv (ap_Socket p) r u = (Inr (metricsHandler (\<lambda>_. prom u) http_NotFound (rq_Path r)), u))"


definition okAgent :: "unit AgentEnv" where
  "okAgent = \<lparr>ae_Os = \<lparr>os_ReadMountInfo = (\<lambda>_ w. (Inr ([], None), w)), os_StatDir = (\<lambda>_ w. (Inr True, w)),
       os_MkdirAll = (\<lambda>_ w. (Inr (), w)), sys_Mount = (\<lambda>_ w. (Inr (), w)), sys_Unmount = (\<lambda>_ w. (Inr (), w))\<rparr>,
     ae_Socket = \<lparr>sock_Remove = (\<lambda>_ w. (None, w)), sock_Listen = (\<lambda>_ w. (Inr (), w)), sock_Chmod = (\<lambda>_ w. (Inr (), w)),
       sock_Close = (\<lambda>_ w. w)\<rparr>,
     ae_Getenv = (\<lambda>v. if v = ''KUBE_NODE_NAME'' then ''n1'' else ''''), ae_NewManager = Inr (), grpc_NewClient = (\<lambda>_. Inr ()),
     ae_getClientset = Inr (), ae_SetupWithManager = (\<lambda>_. Inr ()), ae_AddCheck = (\<lambda>_. Inr ()),
     ifaces_NewRegisterer = Inr (), ifaces_Subscribe = Inr ()\<rparr>"

definition okBuild :: Build where
  "okBuild = \<lparr>buildVersion = '''', buildCommit = '''', buildDate = '''', runtime_Version = ''go1.24'', runtime_GOOS = ''linux'',
     runtime_GOARCH = ''amd64''\<rparr>"

definition okProcess :: AgentProcess where
  "okProcess = \<lparr>ap_Common = \<lparr>rc_GrpcConn = ''unix:///run/bpfman-sock/bpfman.sock'', rc_NodeName = ''n1'',
       rc_Containers = \<lparr>rcg_nodeName = ''n1''\<rparr>, rc_Interfaces = []\<rparr>,
     ap_Socket = ''/var/run/bpfman-agent/metrics.sock'', ap_State = startAgent True []\<rparr>"

definition promUp :: Response where
  "promUp = \<lparr>rs_Status = 200, rs_Body = ''go_goroutines 12''\<rparr>"

definition okProxy :: "unit ProxyEnv" where
  "okProxy = \<lparr>px_RoundTrip = (\<lambda>s r w. if s = ''/var/run/bpfman-agent/metrics.sock''
       then (Inr (metricsHandler (\<lambda>_. promUp) http_NotFound (rq_Path r)), w) else (Inl ''no such file'', w)),
     px_NewManager = Inr (), px_NewServer = Inr (), px_Add = Inr (), px_AddReadyzCheck = Inr (), px_AddHealthzCheck = Inr ()\<rparr>"

lemma okAgent_setup: "agentSetup okAgent okBuild defaultAgentFlags () = (Inr okProcess, ())"
  by (simp add: agentSetup_def okAgent_def okProcess_def defaultAgentFlags_def orAbort_def CreateConnection_def DefaultPath_def
      NewRealContainerGetter_def newInterfaceDiscovery_def newAgentMetricsServer_def internalMetricsSocketPath_def Let_def)

lemma okProxy_setup: "\<exists>srv. proxySetup okProxy [''h2''] defaultProxyFlags () = (Inr srv, ())"
  by (simp add: proxySetup_def okProxy_def defaultProxyFlags_def orExit_def url_Parse_upstream Let_def)


section \<open>A started agent\<close>

text \<open>
  C22: an agent process that gets through its set-up acts for the node \<^verbatim>\<open>KUBE_NODE_NAME\<close> names, which is not empty, in its reconcilers
  and in its container discovery alike, and was not asked to mount the BPF file system; whenever it later leaves \<^verbatim>\<open>runAgent\<close>, all
  of its components (the interface discovery exactly when it is enabled) have returned and the context is cancelled, the deferred
  removal of the metrics socket, at the path the proxy dials, has run (its failure would only be logged), the result is the first error any of them returned, and the
  exit status is 0 exactly when none did.
\<close>

theorem agent_process_lifecycle:
  assumes "agentSetup env build flags w = (Inr p, w')" and "agent_trace mgrStart (ap_State p) ls s" and "ag_result s = Some r"
  shows "rc_NodeName (ap_Common p) = ae_Getenv env ''KUBE_NODE_NAME'' \<and> rc_NodeName (ap_Common p) \<noteq> '''' \<and>
    rcg_nodeName (rc_Containers (ap_Common p)) = rc_NodeName (ap_Common p) \<and> \<not> afl_MountBPFFS flags \<and>
    ap_Socket p = pf_Socket defaultProxyFlags \<and> ag_running s = [] \<and> \<not> ag_socket s \<and> ag_cancelled s \<and>
    mset (map fst (ag_finished s)) = {#MetricsServer, Manager#} + (if afl_EnableInterfacesDiscovery flags then {#IfaceDiscovery#} else {#}) \<and>
    r = firstErr (ag_finished s) \<and> (agentExit r = 0 \<longleftrightarrow> list_all (\<lambda>(c, e). e = None) (ag_finished s))"
proof -
  note p = agentSetup_process [OF assms(1)]
  have "ap_Socket p = pf_Socket defaultProxyFlags"
    using newAgentMetricsServer_path [OF p(5)] by (simp add: internalMetricsSocketPath_def defaultProxyFlags_def)
  moreover have "groupInv (ag_running (startAgent (afl_EnableInterfacesDiscovery flags) [])) s"
    using groupInv_trace assms(2) unfolding p(6) by blast
  ultimately show ?thesis using p(1-4) assms(3) firstErr_None [of "ag_finished s"]
    by (auto simp: groupInv_def agentExit_def startAgent_def simp del: mset_map)
qed

lemma agent_process_lifecycle_witness:
  "rc_NodeName (ap_Common okProcess) = ''n1'' \<and> \<not> ag_socket demoDown \<and> agentExit (Some ''metrics server: serve on socket: EOF'') \<noteq> 0"
proof -
  have p: "ap_State okProcess = startAgent True []" by (simp add: okProcess_def)
  have "ag_result demoDown = Some (Some ''metrics server: serve on socket: EOF'')" by (simp add: demoDown_def)
  from agent_process_lifecycle [OF okAgent_setup, unfolded p, OF demo_down this] show ?thesis
    by (simp add: okAgent_def demoDown_def agentExit_def)
qed

end
