(* ===== verification/Ns_Isolation.thy ===== *)
theory Ns_Isolation
  imports Agent_Frame App_Properties
begin

text \<open>
  The methods of the namespaced application reconciler (\<^verbatim>\<open>ns_application_program.go\<close>), which are those of
  \<^verbatim>\<open>App_Reconcile\<close> with the operations of the namespaced program types, and what sets the namespaced reconciler apart: the
  state objects it reads and writes for an application live in the namespace of that application.

  The locale \<open>namespace_server\<close> fixes a namespace and an observation of the world that writes to objects of
  this namespace, and the calls of the daemon, do not change; for instance everything that is stored in other namespaces.
  In it the reconcile of an application of the namespace is shown to leave the observation alone.
\<close>

section \<open>The methods\<close>

definition Ns_getBpfAppState ::
    "('w, BpfApplicationProgram, BpfApplicationProgramState, 'z) KEnv_scheme \<Rightarrow> NodeObject \<Rightarrow> BpfApplication \<Rightarrow> 'w rst \<Rightarrow>
     BpfApplicationState option result \<times> 'w rst" where
  "Ns_getBpfAppState env ourNode = getBpfAppState env (Ns_ops env ourNode)"

definition Ns_waitForBpfAppStateSpecUpdate ::
    "('w, BpfApplicationProgram, BpfApplicationProgramState, 'z) KEnv_scheme \<Rightarrow> NodeObject \<Rightarrow> BpfApplication \<Rightarrow>
     BpfApplicationState \<Rightarrow> 'w rst \<Rightarrow> (unit result \<times> BpfApplicationState) \<times> 'w rst" where
  "Ns_waitForBpfAppStateSpecUpdate env ourNode = waitForBpfAppStateSpecUpdate env (Ns_ops env ourNode)"

definition Ns_waitForBpfAppStateStatusUpdate ::
    "('w, BpfApplicationProgram, BpfApplicationProgramState, 'z) KEnv_scheme \<Rightarrow> NodeObject \<Rightarrow> BpfApplication \<Rightarrow>
     BpfApplicationState \<Rightarrow> 'w rst \<Rightarrow> (unit result \<times> BpfApplicationState) \<times> 'w rst" where
  "Ns_waitForBpfAppStateStatusUpdate env ourNode = waitForBpfAppStateStatusUpdate env (Ns_ops env ourNode)"

definition Ns_updateBpfAppStateStatus ::
    "('w, BpfApplicationProgram, BpfApplicationProgramState, 'z) KEnv_scheme \<Rightarrow> NodeObject \<Rightarrow> BpfApplication \<Rightarrow>
     BpfApplicationState option \<Rightarrow> BpfApplicationState \<Rightarrow> 'w rst \<Rightarrow> (bool \<times> unit result \<times> BpfApplicationState) \<times> 'w rst" where
  "Ns_updateBpfAppStateStatus env ourNode = updateBpfAppStateStatus env (Ns_ops env ourNode)"

definition Ns_initBpfAppState ::
    "('w, BpfApplicationProgram, BpfApplicationProgramState, 'z) KEnv_scheme \<Rightarrow> NodeObject \<Rightarrow> BpfApplication \<Rightarrow> 'w rst \<Rightarrow>
     BpfApplicationState result \<times> 'w rst" where
  "Ns_initBpfAppState env ourNode = initBpfAppState env (Ns_ops env ourNode)"

definition Ns_initBpfAppStateStatus ::
    "('w, BpfApplicationProgram, BpfApplicationProgramState, 'z) KEnv_scheme \<Rightarrow> NodeObject \<Rightarrow> BpfApplication \<Rightarrow> int \<Rightarrow>
     BpfApplicationState \<Rightarrow> (unit result \<times> BpfApplicationState) go" where
  "Ns_initBpfAppStateStatus env ourNode = initBpfAppStateStatus env (Ns_ops env ourNode)"

definition Ns_createInitialBpfAppState ::
    "('w, BpfApplicationProgram, BpfApplicationProgramState, 'z) KEnv_scheme \<Rightarrow> NodeObject \<Rightarrow> BpfApplication \<Rightarrow>
     BpfApplicationState \<Rightarrow> 'w rst \<Rightarrow> (unit result \<times> BpfApplicationState) \<times> 'w rst" where
  "Ns_createInitialBpfAppState env ourNode = createInitialBpfAppState env (Ns_ops env ourNode)"

definition Ns_createBpfAppState ::
    "('w, BpfApplicationProgram, BpfApplicationProgramState, 'z) KEnv_scheme \<Rightarrow> NodeObject \<Rightarrow> BpfApplication \<Rightarrow> 'w rst \<Rightarrow>
     (ReconcileResult \<times> 'w rst) go" where
  "Ns_createBpfAppState env ourNode = createBpfAppState env (Ns_ops env ourNode)"

definition Ns_getLoadRequest ::
    "('w, 'z) Env_scheme \<Rightarrow> NodeObject \<Rightarrow> BpfApplication \<Rightarrow> BpfApplicationState \<Rightarrow> 'w rst \<Rightarrow> (LoadRequest result \<times> 'w rst) go" where
  "Ns_getLoadRequest env ourNode = getLoadRequest env (Ns_ops env ourNode)"

definition Ns_load ::
    "('w, 'z) Env_scheme \<Rightarrow> NodeObject \<Rightarrow> BpfApplication \<Rightarrow> BpfApplicationState \<Rightarrow> 'w rst \<Rightarrow>
     ((unit result \<times> BpfApplicationState) \<times> 'w rst) go" where
  "Ns_load env ourNode = load env (Ns_ops env ourNode)"

definition Ns_unload ::
    "('w, 'z) Env_scheme \<Rightarrow> NodeObject \<Rightarrow> BpfApplicationState \<Rightarrow> 'w rst \<Rightarrow> (BpfApplicationState \<times> 'w rst) go" where
  "Ns_unload env ourNode = unload env (Ns_ops env ourNode)"

definition Ns_reconcileLoad ::
    "('w, 'z) Env_scheme \<Rightarrow> NodeObject \<Rightarrow> BpfApplication \<Rightarrow> BpfApplicationState \<Rightarrow> 'w rst \<Rightarrow>
     ((unit result \<times> BpfApplicationState) \<times> 'w rst) go" where
  "Ns_reconcileLoad env ourNode = reconcileLoad env (Ns_ops env ourNode) ourNode"

definition Ns_reconcileApp ::
    "('w, BpfApplicationProgram, BpfApplicationProgramState, 'z) KEnv_scheme \<Rightarrow> NodeObject \<Rightarrow> BpfApplication \<Rightarrow> 'w rst \<Rightarrow>
     (ReconcileResult option \<times> 'w rst) go" where
  "Ns_reconcileApp env ourNode = reconcileApp env (Ns_ops env ourNode) ourNode"

lemmas Ns_methods = Ns_getBpfAppState_def Ns_waitForBpfAppStateSpecUpdate_def Ns_waitForBpfAppStateStatusUpdate_def
  Ns_updateBpfAppStateStatus_def Ns_initBpfAppState_def Ns_initBpfAppStateStatus_def Ns_createInitialBpfAppState_def
  Ns_createBpfAppState_def Ns_getLoadRequest_def Ns_load_def Ns_unload_def Ns_reconcileLoad_def

section \<open>What the reconciler relies on\<close>

abbreviation stNs :: "'p AppState \<Rightarrow> string" where
  "stNs st \<equiv> om_Namespace (st_Meta st)"

lemmas Ns_reconcile_views = nsTc.reconcile_view nsTcx.reconcile_view nsXdp.reconcile_view nsUprobe.reconcile_view

lemma Ns_reconcileProgram_view:
  assumes "keepsView env view" and "op_reconcileProgram (Ns_ops env node) q b p s = Some (x, s')"
  shows "view (world s') = view (world s)"
  using assms(2) unfolding Ns_ops_def recReconcileProgram_def Ns_getProgramReconciler_def Ns_method_defs Let_def
  by (cases "np_Type q") (auto simp: bind_eq_Some_conv dest: Ns_reconcile_views [OF assms(1)])

lemma initStatus_meta:
  assumes "initBpfAppStateStatus env ops a now st = Some (r, st')"
  shows "st_Meta st' = st_Meta st"
proof -
  let ?st = "st\<lparr>st_Status := \<lparr>UpdateCount = 0, Node = NodeName env, AppLoadStatus = AppLoadNotLoaded, Programs = [], Conditions = []\<rparr>\<rparr>"
  from assms obtain y st1 where i: "initializeNodeProgramList ops a ?st = Some (y, st1)"
    by (auto simp: initBpfAppStateStatus_def Let_def bind_eq_Some_conv)
  then have "st_Meta st1 = st_Meta st"
    by (auto simp: initializeNodeProgramList_def statePrograms_def bind_eq_Some_conv setPrograms_def updStatus_def)
  with assms i updateBpfAppStateCondition_frame [of now BpfAppStateCondPending st1] show ?thesis
    by (cases y) (auto simp: initBpfAppStateStatus_def, metis AppState.select_convs(1) AppState.surjective AppState.update_convs(2))
qed

locale namespace_server =
  fixes env :: "('w, BpfApplicationProgram, BpfApplicationProgramState, 'z) KEnv_scheme" and view :: "'w \<Rightarrow> 'v" and ns :: string
  assumes quiet: "keepsView env view"
    and load_keeps: "view (snd (bpfman_Load env req w)) = view w"
    and unload_keeps: "view (snd (bpfman_Unload env i w)) = view w"
    and list_keeps: "view (snd (k8s_ListStates env (Some ns) labels w)) = view w"
    and list_in: "fst (k8s_ListStates env (Some ns) labels w) = Inr xs \<Longrightarrow> x \<in> set xs \<Longrightarrow> stNs x = ns"
    and create_keeps: "stNs st = ns \<Longrightarrow> view (snd (k8s_Create env st w)) = view w"
    and create_in: "fst (k8s_Create env st w) = Inr st' \<Longrightarrow> stNs st' = stNs st"
    and status_keeps: "stNs st = ns \<Longrightarrow> view (snd (k8s_StatusUpdate env st w)) = view w"
    and status_in: "fst (k8s_StatusUpdate env st w) = Inr st' \<Longrightarrow> stNs st' = stNs st"
    and update_keeps: "stNs st = ns \<Longrightarrow> view (snd (k8s_Update env st w)) = view w"
    and owner_in: "SetControllerReference env m m' = Inr m'' \<Longrightarrow> om_Namespace m'' = om_Namespace m'"
begin

abbreviation see :: "'w rst \<Rightarrow> 'v" where "see s \<equiv> view (world s)"

lemma lifted: "lift_world f s = (r, s') \<Longrightarrow> (\<And>w. view (snd (f w)) = view w) \<Longrightarrow> see s' = see s"
  by (rule lift_world_view)

lemma get_isolated:
  assumes "om_Namespace (app_Meta a) = ns" and "Ns_getBpfAppState env ourNode a s = (r, s')"
  shows "see s' = see s \<and> (\<forall>st. r = Inr (Some st) \<longrightarrow> stNs st = ns)"
proof -
  let ?labels = "[(BpfAppStateOwner, om_Name (app_Meta a)), (K8sHostLabel, NodeName env)]"
  obtain q w where q: "k8s_ListStates env (Some ns) ?labels (world s) = (q, w)" by fastforce
  with list_keeps [of ?labels "world s"] list_in [of ?labels "world s"] assms show ?thesis
    by (auto simp: Ns_getBpfAppState_def getBpfAppState_def lift_world_def Ns_ops_def split: sum.splits list.splits)
qed

lemma waitSpec_isolated:
  "om_Namespace (app_Meta a) = ns \<Longrightarrow> waitForSpec env (Ns_ops env ourNode) a i k st s = ((r, st'), s') \<Longrightarrow>
   see s' = see s \<and> (r = Inr () \<longrightarrow> stNs st' = ns)"
proof (induction k arbitrary: i s)
  case (Suc k)
  obtain q t where g: "getBpfAppState env (Ns_ops env ourNode) a s = (q, t)" by fastforce
  note t = get_isolated [OF Suc.prems(1) g [folded Ns_getBpfAppState_def]]
  show ?case
  proof (cases "\<exists>x. q = Inr (Some x)")
    case True
    with Suc.prems g t show ?thesis by auto
  next
    case False
    with Suc.prems g have "waitForSpec env (Ns_ops env ourNode) a (Suc i) k st t = ((r, st'), s')" by (auto split: sum.splits option.splits)
    from Suc.IH [OF Suc.prems(1) this] t show ?thesis by simp
  qed
qed auto

lemma waitStatus_isolated:
  "om_Namespace (app_Meta a) = ns \<Longrightarrow> waitForStatus env (Ns_ops env ourNode) a i k st s = ((r, st'), s') \<Longrightarrow>
   see s' = see s \<and> (r = Inr () \<longrightarrow> stNs st' = ns)"
proof (induction k arbitrary: i s)
  case (Suc k)
  obtain q t where g: "getBpfAppState env (Ns_ops env ourNode) a s = (q, t)" by fastforce
  note t = get_isolated [OF Suc.prems(1) g [folded Ns_getBpfAppState_def]]
  from Suc.prems g t Suc.IH [OF Suc.prems(1), of "Suc i" t] show ?case by (auto split: sum.splits option.splits if_splits)
qed auto

lemma updateStatus_isolated:
  assumes a: "om_Namespace (app_Meta a) = ns" and "stNs st = ns" and u: "Ns_updateBpfAppStateStatus env ourNode a orig st s = ((b, r, st'), s')"
  shows "see s' = see s \<and> (r = Inr () \<longrightarrow> stNs st' = ns)"
proof (cases "orig = None \<or> st_Status (the orig) \<noteq> st_Status st")
  case False
  with u assms(2) show ?thesis by (simp add: Ns_updateBpfAppStateStatus_def updateBpfAppStateStatus_def)
next
  case True
  let ?st = "updStatus (\<lambda>x. x\<lparr>UpdateCount := UpdateCount x + 1\<rparr>) st"
  obtain q w where q: "k8s_StatusUpdate env ?st (world s) = (q, w)" by fastforce
  have w: "view w = see s" using status_keeps [of ?st "world s"] q assms(2) by (simp add: updStatus_def)
  show ?thesis
  proof (cases q)
    case (Inl e)
    with True u q w show ?thesis by (auto simp: Ns_updateBpfAppStateStatus_def updateBpfAppStateStatus_def lift_world_def Let_def)
  next
    case (Inr st1)
    obtain r' st2 t where p: "waitForStatus env (Ns_ops env ourNode) a 0 (pollAttempts env) st1 (s\<lparr>world := w\<rparr>) = ((r', st2), t)"
      by (metis prod.collapse)
    with True u q Inr have "s' = t" "r = r'" "st' = st2"
      by (auto simp: Ns_updateBpfAppStateStatus_def updateBpfAppStateStatus_def lift_world_def Let_def waitForBpfAppStateStatusUpdate_def)
    with waitStatus_isolated [OF a p] w show ?thesis by simp
  qed
qed

lemma init_isolated:
  assumes a: "om_Namespace (app_Meta a) = ns" and i: "Ns_initBpfAppState env ourNode a s = (q, t)"
  shows "see t = see s \<and> (\<forall>st. q = Inr st \<longrightarrow> stNs st = ns)"
proof -
  obtain u w where u: "uuid_New env (world s) = (u, w)" by fastforce
  with quiet have "view w = see s" unfolding keepsView_def by (metis snd_conv)
  with i u a show ?thesis
    by (auto simp: Ns_initBpfAppState_def initBpfAppState_def generateUniqueName_def lift_world_def Let_def Ns_ops_def
        split: sum.splits dest: owner_in)
qed

lemma createInitial_isolated:
  assumes a: "om_Namespace (app_Meta a) = ns" and st: "stNs st = ns" and c: "Ns_createInitialBpfAppState env ourNode a st s = ((r, st'), s')"
  shows "see s' = see s \<and> (r = Inr () \<longrightarrow> stNs st' = ns)"
proof -
  obtain x w where x: "k8s_Create env st (world s) = (x, w)" by fastforce
  with create_keeps [OF st, of "world s"] have w: "view w = see s" by simp
  show ?thesis
  proof (cases x)
    case (Inl e)
    with c x w show ?thesis by (auto simp: Ns_createInitialBpfAppState_def createInitialBpfAppState_def lift_world_def)
  next
    case (Inr st1)
    with c x have "waitForSpec env (Ns_ops env ourNode) a 0 (pollAttempts env) st1 (s\<lparr>world := w\<rparr>) = ((r, st'), s')"
      by (simp add: Ns_createInitialBpfAppState_def createInitialBpfAppState_def lift_world_def waitForBpfAppStateSpecUpdate_def)
    from waitSpec_isolated [OF a this] w show ?thesis by simp
  qed
qed

lemma create_isolated:
  assumes a: "om_Namespace (app_Meta a) = ns" and r: "Ns_createBpfAppState env ourNode a s = Some (r, s')"
  shows "see s' = see s"
proof -
  obtain q t where q: "Ns_initBpfAppState env ourNode a s = (q, t)" by fastforce
  note t = init_isolated [OF a q]
  show ?thesis
  proof (cases q)
    case (Inl e)
    with q r t show ?thesis by (simp add: Ns_methods createBpfAppState_def)
  next
    case q': (Inr st0)
    obtain y st1 v where y: "Ns_createInitialBpfAppState env ourNode a st0 t = ((y, st1), v)" by (metis prod.collapse)
    from createInitial_isolated [OF a _ y] t q' have v: "see v = see s" "y = Inr () \<Longrightarrow> stNs st1 = ns" by auto
    show ?thesis
    proof (cases y)
      case (Inl e)
      with q q' y r v(1) show ?thesis by (simp add: Ns_methods createBpfAppState_def)
    next
      case y': (Inr z)
      with q q' y r obtain k st2 where k: "initBpfAppStateStatus env (Ns_ops env ourNode) a (time_Now env (world v)) st1 = Some (k, st2)"
        by (auto simp: Ns_methods createBpfAppState_def bind_eq_Some_conv)
      obtain b q2 st3 s3 where u: "Ns_updateBpfAppStateStatus env ourNode a None st2 v = ((b, q2, st3), s3)" by (metis prod.collapse)
      from updateStatus_isolated [OF a _ u] initStatus_meta [OF k] v y' have "see s3 = see s" by simp
      with q q' y y' k u r v(1) show ?thesis
        by (cases k; cases q2) (auto simp: Ns_methods createBpfAppState_def)
    qed
  qed
qed

lemma isLoaded_isolated: "isLoadedLoop env ps b s = (x, s') \<Longrightarrow> see s' = see s"
proof (induction ps arbitrary: b s)
  case (Cons p ps)
  then show ?case
    by (auto split: option.splits prod.splits sum.splits dest!: GetBpfmanProgramById_view [OF quiet] Cons.IH)
qed simp

lemma unload_isolated:
  assumes "Ns_unload env ourNode st s = Some (st', s')"
  shows "see s' = see s \<and> st_Meta st' = st_Meta st"
proof -
  have u: "see s' = see s" if "UnloadBpfmanProgram env i s = (r, s')" for i r s s'
    using that unload_keeps by (auto simp: UnloadBpfmanProgram_def split: prod.splits sum.splits dest!: lifted)
  have "see s' = see s" if "unloadLoop env (Ns_ops env ourNode) ps s = Some (x, s')" for ps s s' x
    using that
  proof (induction ps arbitrary: s x)
    case (Cons p ps)
    then show ?case by (auto simp: bind_eq_Some_conv split: option.splits prod.splits dest!: u Cons.IH)
  qed simp
  with assms show ?thesis by (auto simp: Ns_unload_def unload_def bind_eq_Some_conv setPrograms_def updStatus_def)
qed

lemma load_isolated:
  assumes "Ns_load env ourNode a st s = Some ((r, st'), s')"
  shows "see s' = see s \<and> st_Meta st' = st_Meta st"
proof -
  from assms obtain q t where q: "getLoadRequest env (Ns_ops env ourNode) a st s = Some (q, t)"
    by (auto simp: Ns_load_def load_def bind_eq_Some_conv)
  note t = getLoadRequest_view [OF quiet q]
  show ?thesis
  proof (cases q)
    case (Inl e)
    with assms q t show ?thesis by (simp add: Ns_load_def load_def)
  next
    case (Inr req)
    obtain x w where x: "bpfman_Load env req (world t) = (x, w)" by fastforce
    with load_keeps [of req "world t"] t have "view w = see s" by simp
    with assms q Inr x show ?thesis
      by (cases x) (auto simp: Ns_load_def load_def lift_world_def bind_eq_Some_conv setPrograms_def updStatus_def)
  qed
qed

lemma reconcileLoad_isolated:
  assumes r: "Ns_reconcileLoad env ourNode a st s = Some ((r, st'), s')"
  shows "see s' = see s \<and> st_Meta st' = st_Meta st"
proof -
  have m: "st_Meta (setAppLoadStatus x y) = st_Meta y" for x and y :: BpfApplicationState
    by (simp add: setAppLoadStatus_def updStatus_def)
  note un = unload_isolated [unfolded Ns_unload_def] and lo = load_isolated [unfolded Ns_load_def]
  obtain b t where b: "isLoaded env st s = (b, t)" by fastforce
  note t = isLoaded_isolated [OF b [unfolded isLoaded_def]]
  show ?thesis
  proof (cases "isNodeSelected env (NodeSelector (app_Spec a)) (nd_Labels ourNode)")
    case (Inl e)
    with r show ?thesis by (simp add: Ns_reconcileLoad_def reconcileLoad_def)
  next
    case sel: (Inr sel)
    consider "\<not> sel \<or> isBeingDeleted a" | e where "sel" "\<not> isBeingDeleted a" "validateProgramList (Ns_ops env ourNode) a st = Inl e"
      | "sel" "\<not> isBeingDeleted a" "validateProgramList (Ns_ops env ourNode) a st = Inr ()" "b"
      | "sel" "\<not> isBeingDeleted a" "validateProgramList (Ns_ops env ourNode) a st = Inr ()" "\<not> b"
      by (metis sum.exhaust old.unit.exhaust)
    then show ?thesis
    proof cases
      case 1
      with r sel show ?thesis
        by (auto simp: Ns_reconcileLoad_def reconcileLoad_def bind_eq_Some_conv m split: if_splits dest!: un)
    next
      case 4
      with r sel b obtain x st1 u where l: "load env (Ns_ops env ourNode) a st t = Some ((x, st1), u)"
        by (auto simp: Ns_reconcileLoad_def reconcileLoad_def bind_eq_Some_conv)
      with lo [OF l] t r sel b 4 show ?thesis
        by (cases x) (auto simp: Ns_reconcileLoad_def reconcileLoad_def m)
    qed (use r sel b t in \<open>auto simp: Ns_reconcileLoad_def reconcileLoad_def m\<close>)
  qed
qed

lemma programs_isolated:
  "reconcilePrograms (Ns_ops env ourNode) b qs c ps s = Some (x, s') \<Longrightarrow> see s' = see s"
  by (rule programs_view) (rule Ns_reconcileProgram_view [OF quiet])

lemma appPrograms_isolated:
  assumes "reconcileAppPrograms env (Ns_ops env ourNode) a st s = Some (st', s')"
  shows "see s' = see s \<and> st_Meta st' = st_Meta st"
  using assms updateBpfAppStateCondition_frame
  by (auto simp: reconcileAppPrograms_def bind_eq_Some_conv Let_def updateBpfAppStateCondition_def setAppStateConditions_def
      setPrograms_def updStatus_def split: if_splits list.splits dest!: programs_isolated)

lemma removeFinalizer_isolated:
  assumes "stNs st = ns" and "removeFinalizer env f st s = (b, s')"
  shows "see s' = see s"
proof -
  let ?st = "st\<lparr>st_Meta := (st_Meta st)\<lparr>om_Finalizers := removeAll f (om_Finalizers (st_Meta st))\<rparr>\<rparr>"
  obtain x w where "k8s_Update env ?st (world s) = (x, w)" by fastforce
  with update_keeps [of ?st "world s"] assms show ?thesis
    by (auto simp: removeFinalizer_def lift_world_def split: if_splits)
qed

lemma afterLoad_isolated:
  assumes a: "om_Namespace (app_Meta a) = ns" and st: "stNs st = ns"
    and r: "afterLoad env (Ns_ops env ourNode) a orig st s = Some (r, s')"
  shows "see s' = see s"
proof -
  from r obtain st1 t where t: "reconcileAppPrograms env (Ns_ops env ourNode) a st s = Some (st1, t)"
    by (auto simp: afterLoad_def bind_eq_Some_conv)
  note t' = appPrograms_isolated [OF t]
  obtain b q st2 u where u: "Ns_updateBpfAppStateStatus env ourNode a (Some orig) st1 t = ((b, q, st2), u)" by (metis prod.collapse)
  from updateStatus_isolated [OF a _ u] t' st have u': "see u = see s" "q = Inr () \<Longrightarrow> stNs st2 = ns" by auto
  obtain c v where v: "removeFinalizer env (op_finalizer (Ns_ops env ourNode)) st2 u = (c, v)" by fastforce
  with removeFinalizer_isolated u' have "q = Inr () \<Longrightarrow> see v = see s" by metis
  with r t u u'(1) v show ?thesis
    by (cases q; cases b; cases c) (auto simp: afterLoad_def Ns_updateBpfAppStateStatus_def split: if_splits)
qed

lemma reconcileApp_isolated:
  assumes a: "om_Namespace (app_Meta a) = ns" and r: "Ns_reconcileApp env ourNode a s = Some (r, s')"
  shows "see s' = see s"
proof -
  obtain q t where g: "Ns_getBpfAppState env ourNode a s = (q, t)" by fastforce
  note t = get_isolated [OF a g]
  consider e where "q = Inl e" | "q = Inr None" | st where "q = Inr (Some st)" by (metis sum.exhaust option.exhaust)
  then show ?thesis
  proof cases
    case 2
    with r g t show ?thesis
      by (auto simp: Ns_reconcileApp_def reconcileApp_def Ns_getBpfAppState_def bind_eq_Some_conv split: if_splits
          dest!: create_isolated [OF a, unfolded Ns_createBpfAppState_def])
  next
    case 3
    from r g 3 obtain k st1 u where l: "Ns_reconcileLoad env ourNode a st t = Some ((k, st1), u)"
      by (auto simp: Ns_reconcileApp_def reconcileApp_def Ns_methods bind_eq_Some_conv)
    from reconcileLoad_isolated [OF l] t 3 have u: "see u = see s" "stNs st1 = ns" by auto
    show ?thesis
    proof (cases k)
      case (Inr z)
      with r g 3 l have "afterLoad env (Ns_ops env ourNode) a st st1 u = Some (r, s')"
        by (simp add: Ns_reconcileApp_def reconcileApp_def Ns_methods)
      from afterLoad_isolated [OF a u(2) this] u(1) show ?thesis by simp
    next
      case (Inl e)
      let ?st = "snd (updateBpfAppStateCondition (time_Now env (world u)) BpfAppStateCondError st1)"
      obtain b p st2 v where v: "Ns_updateBpfAppStateStatus env ourNode a None ?st u = ((b, p, st2), v)" by (metis prod.collapse)
      have "stNs ?st = ns" using u(2)
        by (auto simp: updateBpfAppStateCondition_def setAppStateConditions_def updStatus_def split: list.split)
      from updateStatus_isolated [OF a this v] u(1) r g 3 l Inl v show ?thesis
        by (cases b; cases p) (auto simp: Ns_reconcileApp_def reconcileApp_def Ns_methods)
    qed
  qed (use r g t in \<open>simp add: Ns_reconcileApp_def reconcileApp_def Ns_getBpfAppState_def\<close>)
qed

end

section \<open>A server with two tenants\<close>

text \<open>
  The concrete environment with an API server that looks at namespaces: a list request returns the objects of the
  namespace it names, and an update replaces the object of the same name and namespace.
\<close>

type_synonym nsw = "(BpfApplicationProgram, BpfApplicationProgramState) fw"

definition nsPut :: "BpfApplicationState \<Rightarrow> nsw \<Rightarrow> nsw" where
  "nsPut st w = w\<lparr>fw_states :=
     map (\<lambda>x. if stNs x = stNs st \<and> om_Name (st_Meta x) = om_Name (st_Meta st) then st else x) (fw_states w)\<rparr>"

definition nsEnv :: "(nsw, BpfApplicationProgram, BpfApplicationProgramState) KEnv" where
  "nsEnv = fakeEnv\<lparr>
     k8s_ListStates := (\<lambda>ns labels w.
       (Inr (filter (\<lambda>st. (ns = None \<or> ns = Some (stNs st)) \<and> hasLabels labels st) (fw_states w)), w)),
     k8s_StatusUpdate := (\<lambda>st w. (Inr st, nsPut st w)),
     k8s_Update := (\<lambda>st w. (Inr (), nsPut st w))\<rparr>"

text \<open>What is seen of other namespaces: the state objects in them.\<close>

definition othersOf :: "string \<Rightarrow> nsw \<Rightarrow> BpfApplicationState list" where
  "othersOf ns w = filter (\<lambda>st. stNs st \<noteq> ns) (fw_states w)"

lemma nsPut_others: "stNs st = ns \<Longrightarrow> othersOf ns (nsPut st w) = othersOf ns w"
proof -
  assume "stNs st = ns"
  then have "filter (\<lambda>st. stNs st \<noteq> ns) (map (\<lambda>x. if stNs x = stNs st \<and> om_Name (st_Meta x) = om_Name (st_Meta st) then st else x) xs) =
      filter (\<lambda>st. stNs st \<noteq> ns) xs" for xs
    by (induction xs) auto
  then show ?thesis by (simp add: othersOf_def nsPut_def)
qed

lemmas nsEnv_eval = nsEnv_def fakeEnv_def fakeAttach_def fakeDetach_def fakeGet_def fakeUuid_def fakeLoad_def

interpretation twoTenants: namespace_server nsEnv "othersOf ns" ns
proof
  show "keepsView nsEnv (othersOf ns)"
    by (auto simp: keepsView_def nsEnv_eval othersOf_def)
qed (auto simp: nsEnv_eval nsPut_others [unfolded othersOf_def] othersOf_def)

definition tenantApp :: "string \<Rightarrow> BpfApplication" where
  "tenantApp ns = nsApp1\<lparr>app_Meta := (app_Meta nsApp1)\<lparr>om_Namespace := ns\<rparr>\<rparr>"

definition tenantStart :: "nsw rst" where
  "tenantStart = \<lparr>world = \<lparr>fw_links = [], fw_issued = 0, fw_uuid = 0, fw_containers = [], fw_apps = [], fw_states = []\<rparr>, netns_cache = []\<rparr>"

definition tenantTurn :: "string \<Rightarrow> nsw rst \<Rightarrow> nsw rst option" where
  "tenantTurn ns s = map_option snd (Ns_reconcileApp nsEnv fakeNode (tenantApp ns) s)"

section \<open>The property\<close>

text \<open>
  C18: tenants are isolated. Whatever is observed of the world, if neither the daemon nor a write to an object of one namespace
  changes it, then reconciling a namespaced application of that namespace does not change it either, on every path of the
  reconcile: creating the state object, loading, unloading, reconciling the programs, writing the status, releasing.
  So an application never reaches the state objects of another namespace, even of an application of the same name.
\<close>

theorem Ns_namespace_isolation:
  assumes "namespace_server env view ns" and "om_Namespace (app_Meta a) = ns"
    and "Ns_reconcileApp env ourNode a s = Some (r, s')"
  shows "view (world s') = view (world s)"
  using namespace_server.reconcileApp_isolated [OF assms] .

lemma tenant_run:
  "case Option.bind (tenantTurn ''red'' tenantStart) (tenantTurn ''blue'') of None \<Rightarrow> False
   | Some s \<Rightarrow> (case tenantTurn ''blue'' s of None \<Rightarrow> False
      | Some t \<Rightarrow> map (\<lambda>st. (stNs st, AppLoadStatus (st_Status st))) (fw_states (world s)) = [(''red'', AppLoadNotLoaded), (''blue'', AppLoadNotLoaded)] \<and>
          map (\<lambda>st. (stNs st, AppLoadStatus (st_Status st))) (fw_states (world t)) = [(''red'', AppLoadNotLoaded), (''blue'', AppLoadSuccess)])"
  by code_simp

lemma Ns_namespace_isolation_witness:
  "\<exists>s t. Option.bind (tenantTurn ''red'' tenantStart) (tenantTurn ''blue'') = Some s \<and> tenantTurn ''blue'' s = Some t \<and>
     fw_states (world t) \<noteq> fw_states (world s) \<and> othersOf ''blue'' (world t) = othersOf ''blue'' (world s) \<and>
     othersOf ''blue'' (world s) \<noteq> []"
proof -
  obtain s t where s: "Option.bind (tenantTurn ''red'' tenantStart) (tenantTurn ''blue'') = Some s" "tenantTurn ''blue'' s = Some t"
    and runs: "map (\<lambda>st. (stNs st, AppLoadStatus (st_Status st))) (fw_states (world s)) = [(''red'', AppLoadNotLoaded), (''blue'', AppLoadNotLoaded)]"
      "map (\<lambda>st. (stNs st, AppLoadStatus (st_Status st))) (fw_states (world t)) = [(''red'', AppLoadNotLoaded), (''blue'', AppLoadSuccess)]"
    using tenant_run by (auto split: option.splits)
  from s(2) obtain r where r: "Ns_reconcileApp nsEnv fakeNode (tenantApp ''blue'') s = Some (r, t)" by (auto simp: tenantTurn_def)
  have "om_Namespace (app_Meta (tenantApp ''blue'')) = ''blue''" by (simp add: tenantApp_def)
  from Ns_namespace_isolation [OF twoTenants.namespace_server_axioms this r]
  have "othersOf ''blue'' (world t) = othersOf ''blue'' (world s)" .
  moreover have "othersOf ''blue'' (world s) \<noteq> []"
  proof -
    have "(''red'', AppLoadNotLoaded) \<in> set (map (\<lambda>st. (stNs st, AppLoadStatus (st_Status st))) (fw_states (world s)))"
      unfolding runs(1) by simp
    then obtain st where "st \<in> set (fw_states (world s))" "stNs st = ''red''" by auto
    moreover have "(''red'' :: string) \<noteq> ''blue''" by simp
    ultimately show ?thesis unfolding othersOf_def filter_empty_conv by metis
  qed
  moreover have "fw_states (world t) \<noteq> fw_states (world s)"
  proof
    assume "fw_states (world t) = fw_states (world s)"
    with runs have "[(''red'', AppLoadNotLoaded), (''blue'', AppLoadSuccess)] = [(''red'', AppLoadNotLoaded), (''blue'', AppLoadNotLoaded)]" by simp
    then show False by simp
  qed
  ultimately show ?thesis using s by blast
qed

end
