(* ===== verification/Go_Memory.thy ===== *)
theory Go_Memory
  imports Prelude
begin

text \<open>
  Go values in memory, for the code whose point is aliasing: the deep copies of \<^verbatim>\<open>zz_generated.deepcopy.go\<close>. The other
  theories treat the objects of the API as values; that is right as long as a copy does not share memory with the
  object it was made from.

  A struct is a list of named fields. Pointers, slices and maps are references to a cell, or nil; the cell holds the value
  pointed to, the elements of the array, or the entries of the map. What a value of a given type denotes in a memory is computed by
  \<open>readVal\<close>, which fails on a dangling reference or a value of another type. The copying functions are built from one
  operation per statement the generator emits, and \<open>deep_copier\<close> is the contract each of them meets.
\<close>

section \<open>Values, types and memory\<close>

type_synonym addr = nat

datatype gval = Prim string | Struct "(string \<times> gval) list" | Elems "gval list" | Entries "(string \<times> gval) list" | Ref "addr option"

datatype gty = TPrim | TStruct "(string \<times> gty) list" | TPtr gty | TSlice gty | TMap gty

datatype gtree = LeafV string | StructV "(string \<times> gtree) list" | NilV | PtrV gtree | SliceV "gtree list" | MapV "(string \<times> gtree) list"

type_synonym cells = "addr \<rightharpoonup> gval"

record mem =
  mem_cells :: cells
  mem_next :: addr

text \<open>Addresses are given out in order.\<close>

definition wfMem :: "mem \<Rightarrow> bool" where
  "wfMem m \<longleftrightarrow> (\<forall>a. mem_next m \<le> a \<longrightarrow> mem_cells m a = None)"

definition extends :: "mem \<Rightarrow> mem \<Rightarrow> bool" where
  "extends m m' \<longleftrightarrow> mem_next m \<le> mem_next m' \<and> (\<forall>a < mem_next m. mem_cells m' a = mem_cells m a)"

text \<open>The value a Go value denotes, with all references followed.\<close>

fun readVal :: "cells \<Rightarrow> gty \<Rightarrow> gval \<Rightarrow> gtree option"
  and readFields :: "cells \<Rightarrow> (string \<times> gty) list \<Rightarrow> (string \<times> gval) list \<Rightarrow> (string \<times> gtree) list option" where
  "readVal h TPrim v = (case v of Prim s \<Rightarrow> Some (LeafV s) | _ \<Rightarrow> None)"
| "readVal h (TStruct fs) v = (case v of Struct vs \<Rightarrow> map_option StructV (readFields h fs vs) | _ \<Rightarrow> None)"
| "readVal h (TPtr t) v =
     (case v of
        Ref None \<Rightarrow> Some NilV
      | Ref (Some a) \<Rightarrow> (case h a of Some w \<Rightarrow> map_option PtrV (readVal h t w) | None \<Rightarrow> None)
      | _ \<Rightarrow> None)"
| "readVal h (TSlice t) v =
     (case v of
        Ref None \<Rightarrow> Some NilV
      | Ref (Some a) \<Rightarrow> (case h a of Some (Elems vs) \<Rightarrow> map_option SliceV (those (map (readVal h t) vs)) | _ \<Rightarrow> None)
      | _ \<Rightarrow> None)"
| "readVal h (TMap t) v =
     (case v of
        Ref None \<Rightarrow> Some NilV
      | Ref (Some a) \<Rightarrow>
          (case h a of
             Some (Entries es) \<Rightarrow> map_option (\<lambda>xs. MapV (zip (map fst es) xs)) (those (map (\<lambda>e. readVal h t (snd e)) es))
           | _ \<Rightarrow> None)
      | _ \<Rightarrow> None)"
| "readFields h [] vs = (case vs of [] \<Rightarrow> Some [] | _ \<Rightarrow> None)"
| "readFields h ((n, t) # fs) vs =
     (case vs of
        [] \<Rightarrow> None
      | (k, v) # vs \<Rightarrow>
          if k \<noteq> n then None
          else (case (readVal h t v, readFields h fs vs) of (Some x, Some xs) \<Rightarrow> Some ((n, x) # xs) | _ \<Rightarrow> None))"

text \<open>Types whose values hold no reference, so that an assignment copies all of them.\<close>

fun refFree :: "gty \<Rightarrow> bool" where
  "refFree TPrim = True"
| "refFree (TStruct fs) = list_all (\<lambda>f. refFree (snd f)) fs"
| "refFree _ = False"

section \<open>Copying\<close>

type_synonym copier = "gval \<Rightarrow> mem \<Rightarrow> gval \<times> mem"

text \<open>An assignment, and \<^verbatim>\<open>new\<close> or \<^verbatim>\<open>make\<close> with the content written into it.\<close>

definition shallow :: copier where
  "shallow v m = (v, m)"

definition newCell :: copier where
  "newCell v m = (Ref (Some (mem_next m)), m\<lparr>mem_cells := (mem_cells m)(mem_next m \<mapsto> v), mem_next := Suc (mem_next m)\<rparr>)"

text \<open>
  The four blocks of the generated code: the pointed-to value into a \<^verbatim>\<open>new\<close> one, the elements of a slice into a \<^verbatim>\<open>make\<close> of its length,
  the entries of a map into a new map, each guarded by a test for nil; and a struct, which is assigned as a whole before
  the fields with a statement of their own are copied.
\<close>

definition copyPtr :: "copier \<Rightarrow> copier" where
  "copyPtr f v m =
     (case v of
        Ref (Some a) \<Rightarrow> (case mem_cells m a of Some w \<Rightarrow> (case f w m of (w', m) \<Rightarrow> newCell w' m) | None \<Rightarrow> (v, m))
      | _ \<Rightarrow> (v, m))"

fun copyEach :: "copier \<Rightarrow> gval list \<Rightarrow> mem \<Rightarrow> gval list \<times> mem" where
  "copyEach f [] m = ([], m)"
| "copyEach f (v # vs) m = (case f v m of (v', m) \<Rightarrow> (case copyEach f vs m of (vs', m) \<Rightarrow> (v' # vs', m)))"

definition copySlice :: "copier \<Rightarrow> copier" where
  "copySlice f v m =
     (case v of
        Ref (Some a) \<Rightarrow>
          (case mem_cells m a of
             Some (Elems vs) \<Rightarrow> (case copyEach f vs m of (vs', m) \<Rightarrow> newCell (Elems vs') m)
           | _ \<Rightarrow> (v, m))
      | _ \<Rightarrow> (v, m))"

definition copyMap :: "copier \<Rightarrow> copier" where
  "copyMap f v m =
     (case v of
        Ref (Some a) \<Rightarrow>
          (case mem_cells m a of
             Some (Entries es) \<Rightarrow>
               (case copyEach f (map snd es) m of (vs', m) \<Rightarrow> newCell (Entries (zip (map fst es) vs')) m)
           | _ \<Rightarrow> (v, m))
      | _ \<Rightarrow> (v, m))"

fun copyFields :: "(string \<times> copier) list \<Rightarrow> (string \<times> gval) list \<Rightarrow> mem \<Rightarrow> (string \<times> gval) list \<times> mem" where
  "copyFields cs [] m = ([], m)"
| "copyFields cs ((n, v) # vs) m =
     (case (case map_of cs n of Some f \<Rightarrow> f v m | None \<Rightarrow> shallow v m) of
        (v', m) \<Rightarrow> (case copyFields cs vs m of (vs', m) \<Rightarrow> ((n, v') # vs', m)))"

definition copyStruct :: "(string \<times> copier) list \<Rightarrow> copier" where
  "copyStruct cs v m =
     (case v of Struct vs \<Rightarrow> (case copyFields cs vs m of (vs', m) \<Rightarrow> (Struct vs', m)) | _ \<Rightarrow> (v, m))"

section \<open>Reading\<close>

lemma those_mono:
  "those (map f vs) = Some xs \<Longrightarrow> (\<And>v x. v \<in> set vs \<Longrightarrow> f v = Some x \<Longrightarrow> g v = Some x) \<Longrightarrow> those (map g vs) = Some xs"
  by (induction vs arbitrary: xs) (auto split: option.splits)

lemma map_zip_snd: "length ys = length xs \<Longrightarrow> map (\<lambda>e. g (snd e)) (zip xs ys) = map g ys"
  by (induction ys xs rule: list_induct2) auto

lemma map_le_Some: "h \<subseteq>\<^sub>m h' \<Longrightarrow> h a = Some w \<Longrightarrow> h' a = Some w"
  by (metis domI map_le_def)

text \<open>More cells do not change what is read.\<close>

lemma read_mono:
  "readVal h t v = Some x \<Longrightarrow> h \<subseteq>\<^sub>m h' \<Longrightarrow> readVal h' t v = Some x"
  "readFields h fs vs = Some xs \<Longrightarrow> h \<subseteq>\<^sub>m h' \<Longrightarrow> readFields h' fs vs = Some xs"
proof (induction h t v and h fs vs arbitrary: x and xs rule: readVal_readFields.induct)
  case (3 h t v)
  then show ?case by (auto split: gval.splits option.splits simp: map_le_Some)
next
  case (4 h t v)
  then show ?case
    by (auto split: gval.splits option.splits simp: map_le_Some elim!: those_mono)
next
  case (5 h t v)
  show ?case
  proof (cases "\<exists>a es. v = Ref (Some a) \<and> h a = Some (Entries es)")
    case True
    then obtain a es where v: "v = Ref (Some a)" "h a = Some (Entries es)" by blast
    with "5.prems" obtain xs where xs: "those (map (\<lambda>e. readVal h t (snd e)) es) = Some xs" "x = MapV (zip (map fst es) xs)" by auto
    with "5.IH" [OF v(1) refl v(2) refl] "5.prems"(2) have "those (map (\<lambda>e. readVal h' t (snd e)) es) = Some xs"
      by (auto elim!: those_mono)
    with v xs(2) "5.prems"(2) show ?thesis by (simp add: map_le_Some)
  qed (use "5.prems" in \<open>auto split: gval.splits option.splits\<close>)
qed (auto split: gval.splits option.splits list.splits if_splits; blast)+

lemma refFree_read:
  "readVal h t v = Some x \<Longrightarrow> refFree t \<Longrightarrow> readVal h' t v = Some x"
  "readFields h fs vs = Some xs \<Longrightarrow> list_all (\<lambda>f. refFree (snd f)) fs \<Longrightarrow> readFields h' fs vs = Some xs"
  by (induction h t v and h fs vs arbitrary: x and xs rule: readVal_readFields.induct)
    (auto split: gval.splits option.splits list.splits if_splits; blast)+

section \<open>The contract of a copying function\<close>

text \<open>
  The cells allocated before are as they were, and the copy denotes the same value when only the cells allocated by
  the copying are looked at.
\<close>

definition freshCells :: "mem \<Rightarrow> mem \<Rightarrow> cells" where
  "freshCells m m' = mem_cells m' |` {mem_next m..}"

lemma extends_refl [simp]: "extends m m"
  by (simp add: extends_def)

lemma extends_trans: "extends m m' \<Longrightarrow> extends m' m'' \<Longrightarrow> extends m m''"
  by (simp add: extends_def)

lemma extends_map_le: "wfMem m \<Longrightarrow> extends m m' \<Longrightarrow> mem_cells m \<subseteq>\<^sub>m mem_cells m'"
  by (auto simp: wfMem_def extends_def map_le_def) (metis not_le option.discI)

lemma fresh_trans_left: "extends m m' \<Longrightarrow> freshCells m' m'' \<subseteq>\<^sub>m freshCells m m''"
  by (auto simp: freshCells_def extends_def map_le_def restrict_map_def split: if_splits)

lemma fresh_trans_right: "wfMem m' \<Longrightarrow> extends m' m'' \<Longrightarrow> freshCells m m' \<subseteq>\<^sub>m freshCells m m''"
  using extends_map_le [of m' m''] by (auto simp: freshCells_def map_le_def restrict_map_def split: if_splits)

lemma newCell_fresh:
  assumes "newCell v m' = (p, m'')" and "extends m m'" and "wfMem m'"
  obtains a where "p = Ref (Some a)" "freshCells m m'' a = Some v" "extends m m''" "wfMem m''" "freshCells m m' \<subseteq>\<^sub>m freshCells m m''"
proof
  from assms show "p = Ref (Some (mem_next m'))" "freshCells m m'' (mem_next m') = Some v" "extends m m''" "wfMem m''"
    by (auto simp: newCell_def freshCells_def extends_def wfMem_def)
  from assms have "extends m' m''" by (auto simp: newCell_def extends_def)
  then show "freshCells m m' \<subseteq>\<^sub>m freshCells m m''" by (rule fresh_trans_right [OF assms(3)])
qed

locale deep_copier =
  fixes t :: gty and f :: copier
  assumes deep: "wfMem m \<Longrightarrow> readVal (mem_cells m) t v = Some x \<Longrightarrow> f v m = (v', m') \<Longrightarrow>
    extends m m' \<and> wfMem m' \<and> readVal (freshCells m m') t v' = Some x"
begin

text \<open>
  What the reconcilers use a copy for: whatever is written afterwards, through the original or into new memory, the copy still
  denotes the value the original had.
\<close>

lemma snapshot:
  assumes "wfMem m" and "readVal (mem_cells m) t v = Some x" and "f v m = (v', m')"
    and "\<And>a. mem_next m \<le> a \<Longrightarrow> a < mem_next m' \<Longrightarrow> h a = mem_cells m' a"
  shows "readVal h t v' = Some x"
proof -
  from deep [OF assms(1-3)] have d: "wfMem m'" "readVal (freshCells m m') t v' = Some x" by simp_all
  have "freshCells m m' \<subseteq>\<^sub>m h"
    using d(1) assms(4) by (auto simp: freshCells_def map_le_def restrict_map_def wfMem_def split: if_splits)
      (metis not_le option.discI)
  with d(2) show ?thesis by (rule read_mono(1))
qed

lemma each:
  "wfMem m \<Longrightarrow> those (map (readVal (mem_cells m) t) vs) = Some xs \<Longrightarrow> copyEach f vs m = (vs', m') \<Longrightarrow>
   extends m m' \<and> wfMem m' \<and> length vs' = length vs \<and> those (map (readVal (freshCells m m') t) vs') = Some xs"
proof (induction vs arbitrary: m xs vs')
  case (Cons v vs)
  from Cons.prems(2) obtain y ys where y: "readVal (mem_cells m) t v = Some y" "those (map (readVal (mem_cells m) t) vs) = Some ys" "xs = y # ys"
    by (auto split: option.splits)
  obtain w n where w: "f v m = (w, n)" by fastforce
  note d = deep [OF Cons.prems(1) y(1) w]
  from Cons.prems(3) w obtain ws where ws: "copyEach f vs n = (ws, m')" "vs' = w # ws" by (auto split: prod.splits)
  have "those (map (readVal (mem_cells n) t) vs) = Some ys"
    using y(2) by (rule those_mono) (metis read_mono(1) extends_map_le Cons.prems(1) d)
  from Cons.IH [OF _ this ws(1)] d have e: "extends n m'" "wfMem m'" "length ws = length vs"
    "those (map (readVal (freshCells n m') t) ws) = Some ys" by simp_all
  have "readVal (freshCells m m') t w = Some y" using d e(1) by (metis read_mono(1) fresh_trans_right)
  moreover have "those (map (readVal (freshCells m m') t) ws) = Some ys"
    using e(4) by (rule those_mono) (metis read_mono(1) fresh_trans_left d)
  ultimately show ?case using d e ws(2) y(3) by (auto intro: extends_trans)
qed simp

end

section \<open>The operations meet it\<close>

text \<open>The rules, for the simplifier to apply along the type.\<close>

named_theorems deep_rules

lemma deep_shallow [deep_rules]: "refFree t \<Longrightarrow> deep_copier t shallow"
  by unfold_locales (auto simp: shallow_def intro: refFree_read(1))

lemma deep_copyPtr [deep_rules]:
  assumes "deep_copier t f"
  shows "deep_copier (TPtr t) (copyPtr f)"
proof
  fix m v x v' m'
  assume m: "wfMem m" and r: "readVal (mem_cells m) (TPtr t) v = Some x" and c: "copyPtr f v m = (v', m')"
  show "extends m m' \<and> wfMem m' \<and> readVal (freshCells m m') (TPtr t) v' = Some x"
  proof (cases "\<exists>a w. v = Ref (Some a) \<and> mem_cells m a = Some w")
    case True
    then obtain a w where v: "v = Ref (Some a)" "mem_cells m a = Some w" by blast
    obtain w' n where w: "f w m = (w', n)" by fastforce
    from v r obtain y where y: "readVal (mem_cells m) t w = Some y" "x = PtrV y" by auto
    note d = deep_copier.deep [OF assms m y(1) w]
    from v w c have "newCell w' n = (v', m')" by (simp add: copyPtr_def)
    then obtain b where b: "v' = Ref (Some b)" "freshCells m m' b = Some w'" "extends m m'" "wfMem m'" "freshCells m n \<subseteq>\<^sub>m freshCells m m'"
      using d by (metis newCell_fresh)
    with d y show ?thesis by (simp add: read_mono(1) [OF _ b(5)])
  qed (use m r c in \<open>auto simp: copyPtr_def split: gval.splits option.splits\<close>)
qed

lemma deep_copySlice [deep_rules]:
  assumes "deep_copier t f"
  shows "deep_copier (TSlice t) (copySlice f)"
proof
  fix m v x v' m'
  assume m: "wfMem m" and r: "readVal (mem_cells m) (TSlice t) v = Some x" and c: "copySlice f v m = (v', m')"
  show "extends m m' \<and> wfMem m' \<and> readVal (freshCells m m') (TSlice t) v' = Some x"
  proof (cases "\<exists>a vs. v = Ref (Some a) \<and> mem_cells m a = Some (Elems vs)")
    case True
    then obtain a vs where v: "v = Ref (Some a)" "mem_cells m a = Some (Elems vs)" by blast
    obtain vs' n where w: "copyEach f vs m = (vs', n)" by fastforce
    from v r obtain ys where y: "those (map (readVal (mem_cells m) t) vs) = Some ys" "x = SliceV ys" by auto
    note d = deep_copier.each [OF assms m y(1) w]
    from v w c have "newCell (Elems vs') n = (v', m')" by (simp add: copySlice_def)
    then obtain b where b: "v' = Ref (Some b)" "freshCells m m' b = Some (Elems vs')" "extends m m'" "wfMem m'" "freshCells m n \<subseteq>\<^sub>m freshCells m m'"
      using d by (metis newCell_fresh)
    with d y those_mono [of "readVal (freshCells m n) t" vs' ys "readVal (freshCells m m') t"] show ?thesis
      by (simp add: read_mono(1) [OF _ b(5)])
  qed (use m r c in \<open>auto simp: copySlice_def split: gval.splits option.splits\<close>)
qed

lemma deep_copyMap [deep_rules]:
  assumes "deep_copier t f"
  shows "deep_copier (TMap t) (copyMap f)"
proof
  fix m v x v' m'
  assume m: "wfMem m" and r: "readVal (mem_cells m) (TMap t) v = Some x" and c: "copyMap f v m = (v', m')"
  show "extends m m' \<and> wfMem m' \<and> readVal (freshCells m m') (TMap t) v' = Some x"
  proof (cases "\<exists>a es. v = Ref (Some a) \<and> mem_cells m a = Some (Entries es)")
    case True
    then obtain a es where v: "v = Ref (Some a)" "mem_cells m a = Some (Entries es)" by blast
    obtain vs' n where w: "copyEach f (map snd es) m = (vs', n)" by fastforce
    from v r obtain ys where y: "those (map (readVal (mem_cells m) t) (map snd es)) = Some ys" "x = MapV (zip (map fst es) ys)"
      by (auto simp: comp_def)
    note d = deep_copier.each [OF assms m y(1) w]
    from v w c have "newCell (Entries (zip (map fst es) vs')) n = (v', m')" by (simp add: copyMap_def)
    then obtain b where b: "v' = Ref (Some b)" "freshCells m m' b = Some (Entries (zip (map fst es) vs'))" "extends m m'" "wfMem m'"
      "freshCells m n \<subseteq>\<^sub>m freshCells m m'" using d by (metis newCell_fresh)
    have "those (map (readVal (freshCells m m') t) vs') = Some ys"
      using d by (auto elim!: those_mono intro: read_mono(1) [OF _ b(5)])
    moreover have "map (\<lambda>e. readVal (freshCells m m') t (snd e)) (zip (map fst es) vs') = map (readVal (freshCells m m') t) vs'"
      using d by (simp add: map_zip_snd)
    ultimately show ?thesis using b d y by simp
  qed (use m r c in \<open>auto simp: copyMap_def split: gval.splits option.splits\<close>)
qed

lemma copyFields_deep:
  assumes "\<And>n t. (n, t) \<in> set fs \<Longrightarrow> (case map_of cs n of Some f \<Rightarrow> deep_copier t f | None \<Rightarrow> refFree t)"
  shows "wfMem m \<Longrightarrow> readFields (mem_cells m) fs vs = Some xs \<Longrightarrow> copyFields cs vs m = (vs', m') \<Longrightarrow>
    extends m m' \<and> wfMem m' \<and> readFields (freshCells m m') fs vs' = Some xs"
  using assms
proof (induction fs arbitrary: m vs xs vs')
  case (Cons e fs)
  obtain n t where e: "e = (n, t)" by fastforce
  with Cons.prems(2) obtain v vs1 y ys where v: "vs = (n, v) # vs1" "readVal (mem_cells m) t v = Some y"
    "readFields (mem_cells m) fs vs1 = Some ys" "xs = (n, y) # ys"
    by (auto split: list.splits if_splits option.splits)
  define f where "f = (case map_of cs n of Some f \<Rightarrow> f | None \<Rightarrow> shallow)"
  have f: "deep_copier t f" using Cons.prems(4) [of n t] e by (auto simp: f_def deep_shallow split: option.splits)
  obtain w k where w: "f v m = (w, k)" by fastforce
  note d = deep_copier.deep [OF f Cons.prems(1) v(2) w]
  from Cons.prems(3) v(1) w obtain ws where ws: "copyFields cs vs1 k = (ws, m')" "vs' = (n, w) # ws"
    by (auto simp: f_def split: prod.splits option.splits)
  have "readFields (mem_cells k) fs vs1 = Some ys" using read_mono(2) [OF v(3)] extends_map_le Cons.prems(1) d by blast
  from Cons.IH [OF _ this ws(1)] d Cons.prems(4) have r: "extends k m'" "wfMem m'" "readFields (freshCells k m') fs ws = Some ys"
    by auto
  have "readVal (freshCells m m') t w = Some y" using d r(1) by (metis read_mono(1) fresh_trans_right)
  moreover have "readFields (freshCells m m') fs ws = Some ys" using read_mono(2) [OF r(3)] fresh_trans_left d by blast
  ultimately show ?case using d r e ws(2) v(4) by (auto intro: extends_trans)
qed (auto split: list.splits)

text \<open>A struct: the fields with a statement are copied by it, and the others hold no references.\<close>

lemma deep_copyStruct [deep_rules]:
  assumes "list_all (\<lambda>(n, t). case map_of cs n of Some f \<Rightarrow> deep_copier t f | None \<Rightarrow> refFree t) fs"
  shows "deep_copier (TStruct fs) (copyStruct cs)"
proof
  fix m v x v' m'
  assume m: "wfMem m" and r: "readVal (mem_cells m) (TStruct fs) v = Some x" and c: "copyStruct cs v m = (v', m')"
  from r obtain vs xs where v: "v = Struct vs" "readFields (mem_cells m) fs vs = Some xs" "x = StructV xs"
    by (auto split: gval.splits)
  from c v(1) obtain vs' where vs': "copyFields cs vs m = (vs', m')" "v' = Struct vs'" by (auto simp: copyStruct_def split: prod.splits)
  from assms have "(n, t) \<in> set fs \<Longrightarrow> (case map_of cs n of Some f \<Rightarrow> deep_copier t f | None \<Rightarrow> refFree t)" for n t
    by (auto simp: list_all_iff)
  from copyFields_deep [OF this m v(2) vs'(1)] v(3) vs'(2)
  show "extends m m' \<and> wfMem m' \<and> readVal (freshCells m m') (TStruct fs) v' = Some x" by simp
qed

end
