(* ===== verification/Api_DeepCopy.thy ===== *)
theory Api_DeepCopy
  imports Go_Memory
begin

text \<open>
  The struct types of \<^verbatim>\<open>src/apis/v1alpha1\<close> as they are laid out in memory, and the copying function
  \<^verbatim>\<open>zz_generated.deepcopy.go\<close> has for each. A type is its fields in order; named strings and numbers are primitive,
  an embedded struct is a field under the name of its type. A copying function is its statements after \<^verbatim>\<open>*out = *in\<close>,
  which the generator emits in the order of the fields.

  The types of \<^verbatim>\<open>k8s.io/apimachinery\<close> and their own copying functions are parameters (\<open>K8sMeta\<close>).
  The locale \<open>k8s_meta\<close> states that those functions copy deeply; in it every function of the file is shown to.
\<close>

record K8sMeta =
  k8_TypeMeta :: gty
  k8_ObjectMeta :: gty
  k8_ListMeta :: gty
  k8_LabelSelector :: gty
  k8_Condition :: gty
  dc_ObjectMeta :: copier
  dc_ListMeta :: copier
  dc_LabelSelector :: copier
  dc_Condition :: copier

text \<open>The definitions of the types and their copying functions.\<close>

named_theorems part_layout
named_theorems program_layout
named_theorems object_layout

section \<open>The types and their copying functions\<close>

text \<open>
  In an order in which every type comes after those of its fields, in three groups: the parts attach points and
  selectors consist of, the program types, and what an object of the API consists of.
\<close>

definition AgentSpec_type :: gty where
  [part_layout]: "AgentSpec_type = TStruct
     [(''HealthProbePort'', TPrim), (''Image'', TPrim), (''LogLevel'', TPrim)]"

definition AgentSpec_DeepCopyInto :: copier where
  [part_layout]: "AgentSpec_DeepCopyInto = copyStruct
     []"

definition AttachInfoStateCommon_type :: gty where
  [part_layout]: "AttachInfoStateCommon_type = TStruct
     [(''ShouldAttach'', TPrim), (''UUID'', TPrim), (''LinkId'', TPtr TPrim), (''LinkStatus'', TPrim)]"

definition AttachInfoStateCommon_DeepCopyInto :: copier where
  [part_layout]: "AttachInfoStateCommon_DeepCopyInto = copyStruct
     [(''LinkId'', copyPtr shallow)]"

definition BpfAppStatus_type :: "K8sMeta \<Rightarrow> gty" where
  [part_layout]: "BpfAppStatus_type k = TStruct
     [(''Conditions'', TSlice (k8_Condition k))]"

definition BpfAppStatus_DeepCopyInto :: "K8sMeta \<Rightarrow> copier" where
  [part_layout]: "BpfAppStatus_DeepCopyInto k = copyStruct
     [(''Conditions'', copySlice (dc_Condition k))]"

definition BpfProgramStateCommon_type :: gty where
  [part_layout]: "BpfProgramStateCommon_type = TStruct
     [(''Name'', TPrim), (''ProgramLinkStatus'', TPrim), (''ProgramId'', TPtr TPrim)]"

definition BpfProgramStateCommon_DeepCopyInto :: copier where
  [part_layout]: "BpfProgramStateCommon_DeepCopyInto = copyStruct
     [(''ProgramId'', copyPtr shallow)]"

definition ClContainerSelector_type :: "K8sMeta \<Rightarrow> gty" where
  [part_layout]: "ClContainerSelector_type k = TStruct
     [(''Namespace'', TPrim), (''Pods'', k8_LabelSelector k), (''ContainerNames'', TSlice TPrim)]"

definition ClContainerSelector_DeepCopyInto :: "K8sMeta \<Rightarrow> copier" where
  [part_layout]: "ClContainerSelector_DeepCopyInto k = copyStruct
     [(''Pods'', dc_LabelSelector k), (''ContainerNames'', copySlice shallow)]"

definition ClFentryAttachInfo_type :: gty where
  [part_layout]: "ClFentryAttachInfo_type = TStruct
     [(''Mode'', TPrim)]"

definition ClFentryAttachInfo_DeepCopyInto :: copier where
  [part_layout]: "ClFentryAttachInfo_DeepCopyInto = copyStruct
     []"

definition ClFentryLoadInfo_type :: gty where
  [part_layout]: "ClFentryLoadInfo_type = TStruct
     [(''Function'', TPrim)]"

definition ClFentryLoadInfo_DeepCopyInto :: copier where
  [part_layout]: "ClFentryLoadInfo_DeepCopyInto = copyStruct
     []"

definition ClFexitAttachInfo_type :: gty where
  [part_layout]: "ClFexitAttachInfo_type = TStruct
     [(''Mode'', TPrim)]"

definition ClFexitAttachInfo_DeepCopyInto :: copier where
  [part_layout]: "ClFexitAttachInfo_DeepCopyInto = copyStruct
     []"

definition ClFexitLoadInfo_type :: gty where
  [part_layout]: "ClFexitLoadInfo_type = TStruct
     [(''Function'', TPrim)]"

definition ClFexitLoadInfo_DeepCopyInto :: copier where
  [part_layout]: "ClFexitLoadInfo_DeepCopyInto = copyStruct
     []"

definition ClKprobeAttachInfo_type :: gty where
  [part_layout]: "ClKprobeAttachInfo_type = TStruct
     [(''Function'', TPrim), (''Offset'', TPrim)]"

definition ClKprobeAttachInfo_DeepCopyInto :: copier where
  [part_layout]: "ClKprobeAttachInfo_DeepCopyInto = copyStruct
     []"

definition ClKretprobeAttachInfo_type :: gty where
  [part_layout]: "ClKretprobeAttachInfo_type = TStruct
     [(''Function'', TPrim)]"

definition ClKretprobeAttachInfo_DeepCopyInto :: copier where
  [part_layout]: "ClKretprobeAttachInfo_DeepCopyInto = copyStruct
     []"

definition ClNetworkNamespaceSelector_type :: "K8sMeta \<Rightarrow> gty" where
  [part_layout]: "ClNetworkNamespaceSelector_type k = TStruct
     [(''Namespace'', TPrim), (''Pods'', k8_LabelSelector k)]"

definition ClNetworkNamespaceSelector_DeepCopyInto :: "K8sMeta \<Rightarrow> copier" where
  [part_layout]: "ClNetworkNamespaceSelector_DeepCopyInto k = copyStruct
     [(''Pods'', dc_LabelSelector k)]"

definition ClTracepointAttachInfo_type :: gty where
  [part_layout]: "ClTracepointAttachInfo_type = TStruct
     [(''Name'', TPrim)]"

definition ClTracepointAttachInfo_DeepCopyInto :: copier where
  [part_layout]: "ClTracepointAttachInfo_DeepCopyInto = copyStruct
     []"

definition ComponentOverride_type :: gty where
  [part_layout]: "ComponentOverride_type = TStruct
     [(''APIVersion'', TPrim), (''Kind'', TPrim), (''Namespace'', TPrim), (''Name'', TPrim), (''Unmanaged'', TPrim)]"

definition ComponentOverride_DeepCopyInto :: copier where
  [part_layout]: "ComponentOverride_DeepCopyInto = copyStruct
     []"

definition ConfigStatus_type :: "K8sMeta \<Rightarrow> gty" where
  [part_layout]: "ConfigStatus_type k = TStruct
     [(''Conditions'', TSlice (k8_Condition k))]"

definition ConfigStatus_DeepCopyInto :: "K8sMeta \<Rightarrow> copier" where
  [part_layout]: "ConfigStatus_DeepCopyInto k = copyStruct
     [(''Conditions'', copySlice (dc_Condition k))]"

definition ContainerSelector_type :: "K8sMeta \<Rightarrow> gty" where
  [part_layout]: "ContainerSelector_type k = TStruct
     [(''Pods'', k8_LabelSelector k), (''ContainerNames'', TSlice TPrim)]"

definition ContainerSelector_DeepCopyInto :: "K8sMeta \<Rightarrow> copier" where
  [part_layout]: "ContainerSelector_DeepCopyInto k = copyStruct
     [(''Pods'', dc_LabelSelector k), (''ContainerNames'', copySlice shallow)]"

definition DaemonSpec_type :: gty where
  [part_layout]: "DaemonSpec_type = TStruct
     [(''CsiRegistrarImage'', TPrim), (''Image'', TPrim), (''LogLevel'', TPrim)]"

definition DaemonSpec_DeepCopyInto :: copier where
  [part_layout]: "DaemonSpec_DeepCopyInto = copyStruct
     []"

definition ImagePullSecretSelector_type :: gty where
  [part_layout]: "ImagePullSecretSelector_type = TStruct
     [(''Name'', TPrim), (''Namespace'', TPrim)]"

definition ImagePullSecretSelector_DeepCopyInto :: copier where
  [part_layout]: "ImagePullSecretSelector_DeepCopyInto = copyStruct
     []"

definition InterfaceDiscovery_type :: gty where
  [part_layout]: "InterfaceDiscovery_type = TStruct
     [(''InterfaceAutoDiscovery'', TPtr TPrim), (''ExcludeInterfaces'', TSlice TPrim),
      (''AllowedInterfaces'', TSlice TPrim)]"

definition InterfaceDiscovery_DeepCopyInto :: copier where
  [part_layout]: "InterfaceDiscovery_DeepCopyInto = copyStruct
     [(''InterfaceAutoDiscovery'', copyPtr shallow), (''ExcludeInterfaces'', copySlice shallow),
      (''AllowedInterfaces'', copySlice shallow)]"

definition NetworkNamespaceSelector_type :: "K8sMeta \<Rightarrow> gty" where
  [part_layout]: "NetworkNamespaceSelector_type k = TStruct
     [(''Pods'', k8_LabelSelector k)]"

definition NetworkNamespaceSelector_DeepCopyInto :: "K8sMeta \<Rightarrow> copier" where
  [part_layout]: "NetworkNamespaceSelector_DeepCopyInto k = copyStruct
     [(''Pods'', dc_LabelSelector k)]"

definition ByteCodeImage_type :: gty where
  [part_layout]: "ByteCodeImage_type = TStruct
     [(''Url'', TPrim), (''ImagePullPolicy'', TPrim), (''ImagePullSecret'', TPtr ImagePullSecretSelector_type)]"

definition ByteCodeImage_DeepCopyInto :: copier where
  [part_layout]: "ByteCodeImage_DeepCopyInto = copyStruct
     [(''ImagePullSecret'', copyPtr shallow)]"

definition ClFentryAttachInfoState_type :: gty where
  [part_layout]: "ClFentryAttachInfoState_type = TStruct
     [(''AttachInfoStateCommon'', AttachInfoStateCommon_type)]"

definition ClFentryAttachInfoState_DeepCopyInto :: copier where
  [part_layout]: "ClFentryAttachInfoState_DeepCopyInto = copyStruct
     [(''AttachInfoStateCommon'', AttachInfoStateCommon_DeepCopyInto)]"

definition ClFentryProgramInfo_type :: gty where
  [part_layout]: "ClFentryProgramInfo_type = TStruct
     [(''ClFentryLoadInfo'', ClFentryLoadInfo_type), (''Links'', TSlice ClFentryAttachInfo_type)]"

definition ClFentryProgramInfo_DeepCopyInto :: copier where
  [part_layout]: "ClFentryProgramInfo_DeepCopyInto = copyStruct
     [(''ClFentryLoadInfo'', shallow), (''Links'', copySlice shallow)]"

definition ClFexitAttachInfoState_type :: gty where
  [part_layout]: "ClFexitAttachInfoState_type = TStruct
     [(''AttachInfoStateCommon'', AttachInfoStateCommon_type)]"

definition ClFexitAttachInfoState_DeepCopyInto :: copier where
  [part_layout]: "ClFexitAttachInfoState_DeepCopyInto = copyStruct
     [(''AttachInfoStateCommon'', AttachInfoStateCommon_DeepCopyInto)]"

definition ClFexitProgramInfo_type :: gty where
  [part_layout]: "ClFexitProgramInfo_type = TStruct
     [(''ClFexitLoadInfo'', ClFexitLoadInfo_type), (''Links'', TSlice ClFexitAttachInfo_type)]"

definition ClFexitProgramInfo_DeepCopyInto :: copier where
  [part_layout]: "ClFexitProgramInfo_DeepCopyInto = copyStruct
     [(''ClFexitLoadInfo'', shallow), (''Links'', copySlice shallow)]"

definition ClKprobeAttachInfoState_type :: gty where
  [part_layout]: "ClKprobeAttachInfoState_type = TStruct
     [(''AttachInfoStateCommon'', AttachInfoStateCommon_type), (''Function'', TPrim), (''Offset'', TPrim)]"

definition ClKprobeAttachInfoState_DeepCopyInto :: copier where
  [part_layout]: "ClKprobeAttachInfoState_DeepCopyInto = copyStruct
     [(''AttachInfoStateCommon'', AttachInfoStateCommon_DeepCopyInto)]"

definition ClKprobeProgramInfo_type :: gty where
  [part_layout]: "ClKprobeProgramInfo_type = TStruct
     [(''Links'', TSlice ClKprobeAttachInfo_type)]"

definition ClKprobeProgramInfo_DeepCopyInto :: copier where
  [part_layout]: "ClKprobeProgramInfo_DeepCopyInto = copyStruct
     [(''Links'', copySlice shallow)]"

definition ClKretprobeAttachInfoState_type :: gty where
  [part_layout]: "ClKretprobeAttachInfoState_type = TStruct
     [(''AttachInfoStateCommon'', AttachInfoStateCommon_type), (''Function'', TPrim)]"

definition ClKretprobeAttachInfoState_DeepCopyInto :: copier where
  [part_layout]: "ClKretprobeAttachInfoState_DeepCopyInto = copyStruct
     [(''AttachInfoStateCommon'', AttachInfoStateCommon_DeepCopyInto)]"

definition ClKretprobeProgramInfo_type :: gty where
  [part_layout]: "ClKretprobeProgramInfo_type = TStruct
     [(''Links'', TSlice ClKretprobeAttachInfo_type)]"

definition ClKretprobeProgramInfo_DeepCopyInto :: copier where
  [part_layout]: "ClKretprobeProgramInfo_DeepCopyInto = copyStruct
     [(''Links'', copySlice shallow)]"

definition ClTcAttachInfoState_type :: gty where
  [part_layout]: "ClTcAttachInfoState_type = TStruct
     [(''AttachInfoStateCommon'', AttachInfoStateCommon_type), (''InterfaceName'', TPrim), (''NetnsPath'', TPrim),
      (''Direction'', TPrim), (''Priority'', TPrim), (''ProceedOn'', TSlice TPrim)]"

definition ClTcAttachInfoState_DeepCopyInto :: copier where
  [part_layout]: "ClTcAttachInfoState_DeepCopyInto = copyStruct
     [(''AttachInfoStateCommon'', AttachInfoStateCommon_DeepCopyInto), (''ProceedOn'', copySlice shallow)]"

definition ClTcxAttachInfoState_type :: gty where
  [part_layout]: "ClTcxAttachInfoState_type = TStruct
     [(''AttachInfoStateCommon'', AttachInfoStateCommon_type), (''InterfaceName'', TPrim), (''NetnsPath'', TPrim),
      (''Direction'', TPrim), (''Priority'', TPrim)]"

definition ClTcxAttachInfoState_DeepCopyInto :: copier where
  [part_layout]: "ClTcxAttachInfoState_DeepCopyInto = copyStruct
     [(''AttachInfoStateCommon'', AttachInfoStateCommon_DeepCopyInto)]"

definition ClTracepointAttachInfoState_type :: gty where
  [part_layout]: "ClTracepointAttachInfoState_type = TStruct
     [(''AttachInfoStateCommon'', AttachInfoStateCommon_type), (''Name'', TPrim)]"

definition ClTracepointAttachInfoState_DeepCopyInto :: copier where
  [part_layout]: "ClTracepointAttachInfoState_DeepCopyInto = copyStruct
     [(''AttachInfoStateCommon'', AttachInfoStateCommon_DeepCopyInto)]"

definition ClTracepointProgramInfo_type :: gty where
  [part_layout]: "ClTracepointProgramInfo_type = TStruct
     [(''Links'', TSlice ClTracepointAttachInfo_type)]"

definition ClTracepointProgramInfo_DeepCopyInto :: copier where
  [part_layout]: "ClTracepointProgramInfo_DeepCopyInto = copyStruct
     [(''Links'', copySlice shallow)]"

definition ClUprobeAttachInfo_type :: "K8sMeta \<Rightarrow> gty" where
  [part_layout]: "ClUprobeAttachInfo_type k = TStruct
     [(''Function'', TPrim), (''Offset'', TPrim), (''Target'', TPrim), (''Pid'', TPtr TPrim),
      (''Containers'', TPtr (ClContainerSelector_type k))]"

definition ClUprobeAttachInfo_DeepCopyInto :: "K8sMeta \<Rightarrow> copier" where
  [part_layout]: "ClUprobeAttachInfo_DeepCopyInto k = copyStruct
     [(''Pid'', copyPtr shallow), (''Containers'', copyPtr (ClContainerSelector_DeepCopyInto k))]"

definition ClUprobeAttachInfoState_type :: gty where
  [part_layout]: "ClUprobeAttachInfoState_type = TStruct
     [(''AttachInfoStateCommon'', AttachInfoStateCommon_type), (''Function'', TPrim), (''Offset'', TPrim),
      (''Target'', TPrim), (''Pid'', TPtr TPrim), (''ContainerPid'', TPtr TPrim)]"

definition ClUprobeAttachInfoState_DeepCopyInto :: copier where
  [part_layout]: "ClUprobeAttachInfoState_DeepCopyInto = copyStruct
     [(''AttachInfoStateCommon'', AttachInfoStateCommon_DeepCopyInto), (''Pid'', copyPtr shallow),
      (''ContainerPid'', copyPtr shallow)]"

definition ClXdpAttachInfoState_type :: gty where
  [part_layout]: "ClXdpAttachInfoState_type = TStruct
     [(''AttachInfoStateCommon'', AttachInfoStateCommon_type), (''InterfaceName'', TPrim), (''NetnsPath'', TPrim),
      (''Priority'', TPrim), (''ProceedOn'', TSlice TPrim)]"

definition ClXdpAttachInfoState_DeepCopyInto :: copier where
  [part_layout]: "ClXdpAttachInfoState_DeepCopyInto = copyStruct
     [(''AttachInfoStateCommon'', AttachInfoStateCommon_DeepCopyInto), (''ProceedOn'', copySlice shallow)]"

definition ConfigSpec_type :: gty where
  [part_layout]: "ConfigSpec_type = TStruct
     [(''Agent'', AgentSpec_type), (''Configuration'', TPrim), (''Daemon'', DaemonSpec_type), (''Namespace'', TPrim),
      (''Overrides'', TSlice ComponentOverride_type)]"

definition ConfigSpec_DeepCopyInto :: copier where
  [part_layout]: "ConfigSpec_DeepCopyInto = copyStruct
     [(''Agent'', shallow), (''Daemon'', shallow), (''Overrides'', copySlice shallow)]"

definition InterfaceSelector_type :: gty where
  [part_layout]: "InterfaceSelector_type = TStruct
     [(''InterfacesDiscoveryConfig'', TPtr InterfaceDiscovery_type), (''Interfaces'', TSlice TPrim),
      (''PrimaryNodeInterface'', TPtr TPrim)]"

definition InterfaceSelector_DeepCopyInto :: copier where
  [part_layout]: "InterfaceSelector_DeepCopyInto = copyStruct
     [(''InterfacesDiscoveryConfig'', copyPtr InterfaceDiscovery_DeepCopyInto), (''Interfaces'', copySlice shallow),
      (''PrimaryNodeInterface'', copyPtr shallow)]"

definition TcAttachInfoState_type :: gty where
  [part_layout]: "TcAttachInfoState_type = TStruct
     [(''AttachInfoStateCommon'', AttachInfoStateCommon_type), (''InterfaceName'', TPrim), (''NetnsPath'', TPrim),
      (''Direction'', TPrim), (''Priority'', TPrim), (''ProceedOn'', TSlice TPrim)]"

definition TcAttachInfoState_DeepCopyInto :: copier where
  [part_layout]: "TcAttachInfoState_DeepCopyInto = copyStruct
     [(''AttachInfoStateCommon'', AttachInfoStateCommon_DeepCopyInto), (''ProceedOn'', copySlice shallow)]"

definition TcxAttachInfoState_type :: gty where
  [part_layout]: "TcxAttachInfoState_type = TStruct
     [(''AttachInfoStateCommon'', AttachInfoStateCommon_type), (''InterfaceName'', TPrim), (''NetnsPath'', TPrim),
      (''Direction'', TPrim), (''Priority'', TPrim)]"

definition TcxAttachInfoState_DeepCopyInto :: copier where
  [part_layout]: "TcxAttachInfoState_DeepCopyInto = copyStruct
     [(''AttachInfoStateCommon'', AttachInfoStateCommon_DeepCopyInto)]"

definition UprobeAttachInfo_type :: "K8sMeta \<Rightarrow> gty" where
  [part_layout]: "UprobeAttachInfo_type k = TStruct
     [(''Function'', TPrim), (''Offset'', TPrim), (''Target'', TPrim), (''Pid'', TPtr TPrim),
      (''Containers'', ContainerSelector_type k)]"

definition UprobeAttachInfo_DeepCopyInto :: "K8sMeta \<Rightarrow> copier" where
  [part_layout]: "UprobeAttachInfo_DeepCopyInto k = copyStruct
     [(''Pid'', copyPtr shallow), (''Containers'', ContainerSelector_DeepCopyInto k)]"

definition UprobeAttachInfoState_type :: gty where
  [part_layout]: "UprobeAttachInfoState_type = TStruct
     [(''AttachInfoStateCommon'', AttachInfoStateCommon_type), (''Function'', TPrim), (''Offset'', TPrim),
      (''Target'', TPrim), (''Pid'', TPtr TPrim), (''ContainerPid'', TPrim)]"

definition UprobeAttachInfoState_DeepCopyInto :: copier where
  [part_layout]: "UprobeAttachInfoState_DeepCopyInto = copyStruct
     [(''AttachInfoStateCommon'', AttachInfoStateCommon_DeepCopyInto), (''Pid'', copyPtr shallow)]"

definition XdpAttachInfoState_type :: gty where
  [part_layout]: "XdpAttachInfoState_type = TStruct
     [(''AttachInfoStateCommon'', AttachInfoStateCommon_type), (''InterfaceName'', TPrim), (''NetnsPath'', TPrim),
      (''Priority'', TPrim), (''ProceedOn'', TSlice TPrim)]"

definition XdpAttachInfoState_DeepCopyInto :: copier where
  [part_layout]: "XdpAttachInfoState_DeepCopyInto = copyStruct
     [(''AttachInfoStateCommon'', AttachInfoStateCommon_DeepCopyInto), (''ProceedOn'', copySlice shallow)]"

definition ByteCodeSelector_type :: gty where
  [program_layout]: "ByteCodeSelector_type = TStruct
     [(''Image'', TPtr ByteCodeImage_type), (''Path'', TPtr TPrim)]"

definition ByteCodeSelector_DeepCopyInto :: copier where
  [program_layout]: "ByteCodeSelector_DeepCopyInto = copyStruct
     [(''Image'', copyPtr ByteCodeImage_DeepCopyInto), (''Path'', copyPtr shallow)]"

definition ClFentryProgramInfoState_type :: gty where
  [program_layout]: "ClFentryProgramInfoState_type = TStruct
     [(''ClFentryLoadInfo'', ClFentryLoadInfo_type), (''Links'', TSlice ClFentryAttachInfoState_type)]"

definition ClFentryProgramInfoState_DeepCopyInto :: copier where
  [program_layout]: "ClFentryProgramInfoState_DeepCopyInto = copyStruct
     [(''ClFentryLoadInfo'', shallow), (''Links'', copySlice ClFentryAttachInfoState_DeepCopyInto)]"

definition ClFexitProgramInfoState_type :: gty where
  [program_layout]: "ClFexitProgramInfoState_type = TStruct
     [(''ClFexitLoadInfo'', ClFexitLoadInfo_type), (''Links'', TSlice ClFexitAttachInfoState_type)]"

definition ClFexitProgramInfoState_DeepCopyInto :: copier where
  [program_layout]: "ClFexitProgramInfoState_DeepCopyInto = copyStruct
     [(''ClFexitLoadInfo'', shallow), (''Links'', copySlice ClFexitAttachInfoState_DeepCopyInto)]"

definition ClKprobeProgramInfoState_type :: gty where
  [program_layout]: "ClKprobeProgramInfoState_type = TStruct
     [(''Links'', TSlice ClKprobeAttachInfoState_type)]"

definition ClKprobeProgramInfoState_DeepCopyInto :: copier where
  [program_layout]: "ClKprobeProgramInfoState_DeepCopyInto = copyStruct
     [(''Links'', copySlice ClKprobeAttachInfoState_DeepCopyInto)]"

definition ClKretprobeProgramInfoState_type :: gty where
  [program_layout]: "ClKretprobeProgramInfoState_type = TStruct
     [(''Links'', TSlice ClKretprobeAttachInfoState_type)]"

definition ClKretprobeProgramInfoState_DeepCopyInto :: copier where
  [program_layout]: "ClKretprobeProgramInfoState_DeepCopyInto = copyStruct
     [(''Links'', copySlice ClKretprobeAttachInfoState_DeepCopyInto)]"

definition ClTcAttachInfo_type :: "K8sMeta \<Rightarrow> gty" where
  [program_layout]: "ClTcAttachInfo_type k = TStruct
     [(''InterfaceSelector'', InterfaceSelector_type),
      (''NetworkNamespaces'', TPtr (ClNetworkNamespaceSelector_type k)), (''Direction'', TPrim),
      (''Priority'', TPtr TPrim), (''ProceedOn'', TSlice TPrim)]"

definition ClTcAttachInfo_DeepCopyInto :: "K8sMeta \<Rightarrow> copier" where
  [program_layout]: "ClTcAttachInfo_DeepCopyInto k = copyStruct
     [(''InterfaceSelector'', InterfaceSelector_DeepCopyInto),
      (''NetworkNamespaces'', copyPtr (ClNetworkNamespaceSelector_DeepCopyInto k)), (''Priority'', copyPtr shallow),
      (''ProceedOn'', copySlice shallow)]"

definition ClTcProgramInfoState_type :: gty where
  [program_layout]: "ClTcProgramInfoState_type = TStruct
     [(''Links'', TSlice ClTcAttachInfoState_type)]"

definition ClTcProgramInfoState_DeepCopyInto :: copier where
  [program_layout]: "ClTcProgramInfoState_DeepCopyInto = copyStruct
     [(''Links'', copySlice ClTcAttachInfoState_DeepCopyInto)]"

definition ClTcxAttachInfo_type :: "K8sMeta \<Rightarrow> gty" where
  [program_layout]: "ClTcxAttachInfo_type k = TStruct
     [(''InterfaceSelector'', InterfaceSelector_type),
      (''NetworkNamespaces'', TPtr (ClNetworkNamespaceSelector_type k)), (''Direction'', TPrim),
      (''Priority'', TPtr TPrim)]"

definition ClTcxAttachInfo_DeepCopyInto :: "K8sMeta \<Rightarrow> copier" where
  [program_layout]: "ClTcxAttachInfo_DeepCopyInto k = copyStruct
     [(''InterfaceSelector'', InterfaceSelector_DeepCopyInto),
      (''NetworkNamespaces'', copyPtr (ClNetworkNamespaceSelector_DeepCopyInto k)), (''Priority'', copyPtr shallow)]"

definition ClTcxProgramInfoState_type :: gty where
  [program_layout]: "ClTcxProgramInfoState_type = TStruct
     [(''Links'', TSlice ClTcxAttachInfoState_type)]"

definition ClTcxProgramInfoState_DeepCopyInto :: copier where
  [program_layout]: "ClTcxProgramInfoState_DeepCopyInto = copyStruct
     [(''Links'', copySlice ClTcxAttachInfoState_DeepCopyInto)]"

definition ClTracepointProgramInfoState_type :: gty where
  [program_layout]: "ClTracepointProgramInfoState_type = TStruct
     [(''Links'', TSlice ClTracepointAttachInfoState_type)]"

definition ClTracepointProgramInfoState_DeepCopyInto :: copier where
  [program_layout]: "ClTracepointProgramInfoState_DeepCopyInto = copyStruct
     [(''Links'', copySlice ClTracepointAttachInfoState_DeepCopyInto)]"

definition ClUprobeProgramInfo_type :: "K8sMeta \<Rightarrow> gty" where
  [program_layout]: "ClUprobeProgramInfo_type k = TStruct
     [(''Links'', TSlice (ClUprobeAttachInfo_type k))]"

definition ClUprobeProgramInfo_DeepCopyInto :: "K8sMeta \<Rightarrow> copier" where
  [program_layout]: "ClUprobeProgramInfo_DeepCopyInto k = copyStruct
     [(''Links'', copySlice (ClUprobeAttachInfo_DeepCopyInto k))]"

definition ClUprobeProgramInfoState_type :: gty where
  [program_layout]: "ClUprobeProgramInfoState_type = TStruct
     [(''Links'', TSlice ClUprobeAttachInfoState_type)]"

definition ClUprobeProgramInfoState_DeepCopyInto :: copier where
  [program_layout]: "ClUprobeProgramInfoState_DeepCopyInto = copyStruct
     [(''Links'', copySlice ClUprobeAttachInfoState_DeepCopyInto)]"

definition ClXdpAttachInfo_type :: "K8sMeta \<Rightarrow> gty" where
  [program_layout]: "ClXdpAttachInfo_type k = TStruct
     [(''InterfaceSelector'', InterfaceSelector_type),
      (''NetworkNamespaces'', TPtr (ClNetworkNamespaceSelector_type k)), (''Priority'', TPtr TPrim),
      (''ProceedOn'', TSlice TPrim)]"

definition ClXdpAttachInfo_DeepCopyInto :: "K8sMeta \<Rightarrow> copier" where
  [program_layout]: "ClXdpAttachInfo_DeepCopyInto k = copyStruct
     [(''InterfaceSelector'', InterfaceSelector_DeepCopyInto),
      (''NetworkNamespaces'', copyPtr (ClNetworkNamespaceSelector_DeepCopyInto k)), (''Priority'', copyPtr shallow),
      (''ProceedOn'', copySlice shallow)]"

definition ClXdpProgramInfoState_type :: gty where
  [program_layout]: "ClXdpProgramInfoState_type = TStruct
     [(''Links'', TSlice ClXdpAttachInfoState_type)]"

definition ClXdpProgramInfoState_DeepCopyInto :: copier where
  [program_layout]: "ClXdpProgramInfoState_DeepCopyInto = copyStruct
     [(''Links'', copySlice ClXdpAttachInfoState_DeepCopyInto)]"

definition Config_type :: "K8sMeta \<Rightarrow> gty" where
  [program_layout]: "Config_type k = TStruct
     [(''TypeMeta'', k8_TypeMeta k), (''ObjectMeta'', k8_ObjectMeta k), (''Spec'', ConfigSpec_type),
      (''Status'', ConfigStatus_type k)]"

definition Config_DeepCopyInto :: "K8sMeta \<Rightarrow> copier" where
  [program_layout]: "Config_DeepCopyInto k = copyStruct
     [(''TypeMeta'', shallow), (''ObjectMeta'', dc_ObjectMeta k), (''Spec'', ConfigSpec_DeepCopyInto),
      (''Status'', ConfigStatus_DeepCopyInto k)]"

definition TcAttachInfo_type :: "K8sMeta \<Rightarrow> gty" where
  [program_layout]: "TcAttachInfo_type k = TStruct
     [(''InterfaceSelector'', InterfaceSelector_type), (''NetworkNamespaces'', NetworkNamespaceSelector_type k),
      (''Direction'', TPrim), (''Priority'', TPtr TPrim), (''ProceedOn'', TSlice TPrim)]"

definition TcAttachInfo_DeepCopyInto :: "K8sMeta \<Rightarrow> copier" where
  [program_layout]: "TcAttachInfo_DeepCopyInto k = copyStruct
     [(''InterfaceSelector'', InterfaceSelector_DeepCopyInto),
      (''NetworkNamespaces'', NetworkNamespaceSelector_DeepCopyInto k), (''Priority'', copyPtr shallow),
      (''ProceedOn'', copySlice shallow)]"

definition TcProgramInfoState_type :: gty where
  [program_layout]: "TcProgramInfoState_type = TStruct
     [(''Links'', TSlice TcAttachInfoState_type)]"

definition TcProgramInfoState_DeepCopyInto :: copier where
  [program_layout]: "TcProgramInfoState_DeepCopyInto = copyStruct
     [(''Links'', copySlice TcAttachInfoState_DeepCopyInto)]"

definition TcxAttachInfo_type :: "K8sMeta \<Rightarrow> gty" where
  [program_layout]: "TcxAttachInfo_type k = TStruct
     [(''InterfaceSelector'', InterfaceSelector_type), (''NetworkNamespaces'', NetworkNamespaceSelector_type k),
      (''Direction'', TPrim), (''Priority'', TPtr TPrim)]"

definition TcxAttachInfo_DeepCopyInto :: "K8sMeta \<Rightarrow> copier" where
  [program_layout]: "TcxAttachInfo_DeepCopyInto k = copyStruct
     [(''InterfaceSelector'', InterfaceSelector_DeepCopyInto),
      (''NetworkNamespaces'', NetworkNamespaceSelector_DeepCopyInto k), (''Priority'', copyPtr shallow)]"

definition TcxProgramInfoState_type :: gty where
  [program_layout]: "TcxProgramInfoState_type = TStruct
     [(''Links'', TSlice TcxAttachInfoState_type)]"

definition TcxProgramInfoState_DeepCopyInto :: copier where
  [program_layout]: "TcxProgramInfoState_DeepCopyInto = copyStruct
     [(''Links'', copySlice TcxAttachInfoState_DeepCopyInto)]"

definition UprobeProgramInfo_type :: "K8sMeta \<Rightarrow> gty" where
  [program_layout]: "UprobeProgramInfo_type k = TStruct
     [(''Links'', TSlice (UprobeAttachInfo_type k))]"

definition UprobeProgramInfo_DeepCopyInto :: "K8sMeta \<Rightarrow> copier" where
  [program_layout]: "UprobeProgramInfo_DeepCopyInto k = copyStruct
     [(''Links'', copySlice (UprobeAttachInfo_DeepCopyInto k))]"

definition UprobeProgramInfoState_type :: gty where
  [program_layout]: "UprobeProgramInfoState_type = TStruct
     [(''Links'', TSlice UprobeAttachInfoState_type)]"

definition UprobeProgramInfoState_DeepCopyInto :: copier where
  [program_layout]: "UprobeProgramInfoState_DeepCopyInto = copyStruct
     [(''Links'', copySlice UprobeAttachInfoState_DeepCopyInto)]"

definition XdpAttachInfo_type :: "K8sMeta \<Rightarrow> gty" where
  [program_layout]: "XdpAttachInfo_type k = TStruct
     [(''InterfaceSelector'', InterfaceSelector_type), (''NetworkNamespaces'', NetworkNamespaceSelector_type k),
      (''Priority'', TPtr TPrim), (''ProceedOn'', TSlice TPrim)]"

definition XdpAttachInfo_DeepCopyInto :: "K8sMeta \<Rightarrow> copier" where
  [program_layout]: "XdpAttachInfo_DeepCopyInto k = copyStruct
     [(''InterfaceSelector'', InterfaceSelector_DeepCopyInto),
      (''NetworkNamespaces'', NetworkNamespaceSelector_DeepCopyInto k), (''Priority'', copyPtr shallow),
      (''ProceedOn'', copySlice shallow)]"

definition XdpProgramInfoState_type :: gty where
  [program_layout]: "XdpProgramInfoState_type = TStruct
     [(''Links'', TSlice XdpAttachInfoState_type)]"

definition XdpProgramInfoState_DeepCopyInto :: copier where
  [program_layout]: "XdpProgramInfoState_DeepCopyInto = copyStruct
     [(''Links'', copySlice XdpAttachInfoState_DeepCopyInto)]"

definition BpfAppCommon_type :: "K8sMeta \<Rightarrow> gty" where
  [program_layout]: "BpfAppCommon_type k = TStruct
     [(''NodeSelector'', k8_LabelSelector k), (''GlobalData'', TMap (TSlice TPrim)),
      (''ByteCode'', ByteCodeSelector_type), (''MapOwnerSelector'', TPtr (k8_LabelSelector k))]"

definition BpfAppCommon_DeepCopyInto :: "K8sMeta \<Rightarrow> copier" where
  [program_layout]: "BpfAppCommon_DeepCopyInto k = copyStruct
     [(''NodeSelector'', dc_LabelSelector k), (''GlobalData'', copyMap (copySlice shallow)),
      (''ByteCode'', ByteCodeSelector_DeepCopyInto), (''MapOwnerSelector'', copyPtr (dc_LabelSelector k))]"

definition BpfApplicationProgramState_type :: gty where
  [program_layout]: "BpfApplicationProgramState_type = TStruct
     [(''BpfProgramStateCommon'', BpfProgramStateCommon_type), (''Type'', TPrim),
      (''XDP'', TPtr XdpProgramInfoState_type), (''TC'', TPtr TcProgramInfoState_type),
      (''TCX'', TPtr TcxProgramInfoState_type), (''UProbe'', TPtr UprobeProgramInfoState_type),
      (''URetProbe'', TPtr UprobeProgramInfoState_type)]"

definition BpfApplicationProgramState_DeepCopyInto :: copier where
  [program_layout]: "BpfApplicationProgramState_DeepCopyInto = copyStruct
     [(''BpfProgramStateCommon'', BpfProgramStateCommon_DeepCopyInto),
      (''XDP'', copyPtr XdpProgramInfoState_DeepCopyInto), (''TC'', copyPtr TcProgramInfoState_DeepCopyInto),
      (''TCX'', copyPtr TcxProgramInfoState_DeepCopyInto), (''UProbe'', copyPtr UprobeProgramInfoState_DeepCopyInto),
      (''URetProbe'', copyPtr UprobeProgramInfoState_DeepCopyInto)]"

definition ClBpfApplicationProgramState_type :: gty where
  [program_layout]: "ClBpfApplicationProgramState_type = TStruct
     [(''BpfProgramStateCommon'', BpfProgramStateCommon_type), (''Type'', TPrim),
      (''XDP'', TPtr ClXdpProgramInfoState_type), (''TC'', TPtr ClTcProgramInfoState_type),
      (''TCX'', TPtr ClTcxProgramInfoState_type), (''FEntry'', TPtr ClFentryProgramInfoState_type),
      (''FExit'', TPtr ClFexitProgramInfoState_type), (''KProbe'', TPtr ClKprobeProgramInfoState_type),
      (''KRetProbe'', TPtr ClKretprobeProgramInfoState_type), (''UProbe'', TPtr ClUprobeProgramInfoState_type),
      (''URetProbe'', TPtr ClUprobeProgramInfoState_type), (''TracePoint'', TPtr ClTracepointProgramInfoState_type)]"

definition ClBpfApplicationProgramState_DeepCopyInto :: copier where
  [program_layout]: "ClBpfApplicationProgramState_DeepCopyInto = copyStruct
     [(''BpfProgramStateCommon'', BpfProgramStateCommon_DeepCopyInto),
      (''XDP'', copyPtr ClXdpProgramInfoState_DeepCopyInto), (''TC'', copyPtr ClTcProgramInfoState_DeepCopyInto),
      (''TCX'', copyPtr ClTcxProgramInfoState_DeepCopyInto),
      (''FEntry'', copyPtr ClFentryProgramInfoState_DeepCopyInto),
      (''FExit'', copyPtr ClFexitProgramInfoState_DeepCopyInto),
      (''KProbe'', copyPtr ClKprobeProgramInfoState_DeepCopyInto),
      (''KRetProbe'', copyPtr ClKretprobeProgramInfoState_DeepCopyInto),
      (''UProbe'', copyPtr ClUprobeProgramInfoState_DeepCopyInto),
      (''URetProbe'', copyPtr ClUprobeProgramInfoState_DeepCopyInto),
      (''TracePoint'', copyPtr ClTracepointProgramInfoState_DeepCopyInto)]"

definition ClTcProgramInfo_type :: "K8sMeta \<Rightarrow> gty" where
  [program_layout]: "ClTcProgramInfo_type k = TStruct
     [(''Links'', TSlice (ClTcAttachInfo_type k))]"

definition ClTcProgramInfo_DeepCopyInto :: "K8sMeta \<Rightarrow> copier" where
  [program_layout]: "ClTcProgramInfo_DeepCopyInto k = copyStruct
     [(''Links'', copySlice (ClTcAttachInfo_DeepCopyInto k))]"

definition ClTcxProgramInfo_type :: "K8sMeta \<Rightarrow> gty" where
  [program_layout]: "ClTcxProgramInfo_type k = TStruct
     [(''Links'', TSlice (ClTcxAttachInfo_type k))]"

definition ClTcxProgramInfo_DeepCopyInto :: "K8sMeta \<Rightarrow> copier" where
  [program_layout]: "ClTcxProgramInfo_DeepCopyInto k = copyStruct
     [(''Links'', copySlice (ClTcxAttachInfo_DeepCopyInto k))]"

definition ClXdpProgramInfo_type :: "K8sMeta \<Rightarrow> gty" where
  [program_layout]: "ClXdpProgramInfo_type k = TStruct
     [(''Links'', TSlice (ClXdpAttachInfo_type k))]"

definition ClXdpProgramInfo_DeepCopyInto :: "K8sMeta \<Rightarrow> copier" where
  [program_layout]: "ClXdpProgramInfo_DeepCopyInto k = copyStruct
     [(''Links'', copySlice (ClXdpAttachInfo_DeepCopyInto k))]"

definition ConfigList_type :: "K8sMeta \<Rightarrow> gty" where
  [program_layout]: "ConfigList_type k = TStruct
     [(''TypeMeta'', k8_TypeMeta k), (''ListMeta'', k8_ListMeta k), (''Items'', TSlice (Config_type k))]"

definition ConfigList_DeepCopyInto :: "K8sMeta \<Rightarrow> copier" where
  [program_layout]: "ConfigList_DeepCopyInto k = copyStruct
     [(''TypeMeta'', shallow), (''ListMeta'', dc_ListMeta k), (''Items'', copySlice (Config_DeepCopyInto k))]"

definition TcProgramInfo_type :: "K8sMeta \<Rightarrow> gty" where
  [program_layout]: "TcProgramInfo_type k = TStruct
     [(''Links'', TSlice (TcAttachInfo_type k))]"

definition TcProgramInfo_DeepCopyInto :: "K8sMeta \<Rightarrow> copier" where
  [program_layout]: "TcProgramInfo_DeepCopyInto k = copyStruct
     [(''Links'', copySlice (TcAttachInfo_DeepCopyInto k))]"

definition TcxProgramInfo_type :: "K8sMeta \<Rightarrow> gty" where
  [program_layout]: "TcxProgramInfo_type k = TStruct
     [(''Links'', TSlice (TcxAttachInfo_type k))]"

definition TcxProgramInfo_DeepCopyInto :: "K8sMeta \<Rightarrow> copier" where
  [program_layout]: "TcxProgramInfo_DeepCopyInto k = copyStruct
     [(''Links'', copySlice (TcxAttachInfo_DeepCopyInto k))]"

definition XdpProgramInfo_type :: "K8sMeta \<Rightarrow> gty" where
  [program_layout]: "XdpProgramInfo_type k = TStruct
     [(''Links'', TSlice (XdpAttachInfo_type k))]"

definition XdpProgramInfo_DeepCopyInto :: "K8sMeta \<Rightarrow> copier" where
  [program_layout]: "XdpProgramInfo_DeepCopyInto k = copyStruct
     [(''Links'', copySlice (XdpAttachInfo_DeepCopyInto k))]"

definition BpfApplicationProgram_type :: "K8sMeta \<Rightarrow> gty" where
  [object_layout]: "BpfApplicationProgram_type k = TStruct
     [(''Name'', TPrim), (''Type'', TPrim), (''XDP'', TPtr (XdpProgramInfo_type k)),
      (''TC'', TPtr (TcProgramInfo_type k)), (''TCX'', TPtr (TcxProgramInfo_type k)),
      (''UProbe'', TPtr (UprobeProgramInfo_type k)), (''URetProbe'', TPtr (UprobeProgramInfo_type k))]"

definition BpfApplicationProgram_DeepCopyInto :: "K8sMeta \<Rightarrow> copier" where
  [object_layout]: "BpfApplicationProgram_DeepCopyInto k = copyStruct
     [(''XDP'', copyPtr (XdpProgramInfo_DeepCopyInto k)), (''TC'', copyPtr (TcProgramInfo_DeepCopyInto k)),
      (''TCX'', copyPtr (TcxProgramInfo_DeepCopyInto k)), (''UProbe'', copyPtr (UprobeProgramInfo_DeepCopyInto k)),
      (''URetProbe'', copyPtr (UprobeProgramInfo_DeepCopyInto k))]"

definition BpfApplicationStateStatus_type :: "K8sMeta \<Rightarrow> gty" where
  [object_layout]: "BpfApplicationStateStatus_type k = TStruct
     [(''UpdateCount'', TPrim), (''Node'', TPrim), (''AppLoadStatus'', TPrim),
      (''Programs'', TSlice BpfApplicationProgramState_type), (''Conditions'', TSlice (k8_Condition k))]"

definition BpfApplicationStateStatus_DeepCopyInto :: "K8sMeta \<Rightarrow> copier" where
  [object_layout]: "BpfApplicationStateStatus_DeepCopyInto k = copyStruct
     [(''Programs'', copySlice BpfApplicationProgramState_DeepCopyInto), (''Conditions'', copySlice (dc_Condition k))]"

definition ClBpfApplicationProgram_type :: "K8sMeta \<Rightarrow> gty" where
  [object_layout]: "ClBpfApplicationProgram_type k = TStruct
     [(''Name'', TPrim), (''Type'', TPrim), (''XDP'', TPtr (ClXdpProgramInfo_type k)),
      (''TC'', TPtr (ClTcProgramInfo_type k)), (''TCX'', TPtr (ClTcxProgramInfo_type k)),
      (''FEntry'', TPtr ClFentryProgramInfo_type), (''FExit'', TPtr ClFexitProgramInfo_type),
      (''KProbe'', TPtr ClKprobeProgramInfo_type), (''KRetProbe'', TPtr ClKretprobeProgramInfo_type),
      (''UProbe'', TPtr (ClUprobeProgramInfo_type k)), (''URetProbe'', TPtr (ClUprobeProgramInfo_type k)),
      (''TracePoint'', TPtr ClTracepointProgramInfo_type)]"

definition ClBpfApplicationProgram_DeepCopyInto :: "K8sMeta \<Rightarrow> copier" where
  [object_layout]: "ClBpfApplicationProgram_DeepCopyInto k = copyStruct
     [(''XDP'', copyPtr (ClXdpProgramInfo_DeepCopyInto k)), (''TC'', copyPtr (ClTcProgramInfo_DeepCopyInto k)),
      (''TCX'', copyPtr (ClTcxProgramInfo_DeepCopyInto k)), (''FEntry'', copyPtr ClFentryProgramInfo_DeepCopyInto),
      (''FExit'', copyPtr ClFexitProgramInfo_DeepCopyInto), (''KProbe'', copyPtr ClKprobeProgramInfo_DeepCopyInto),
      (''KRetProbe'', copyPtr ClKretprobeProgramInfo_DeepCopyInto),
      (''UProbe'', copyPtr (ClUprobeProgramInfo_DeepCopyInto k)),
      (''URetProbe'', copyPtr (ClUprobeProgramInfo_DeepCopyInto k)),
      (''TracePoint'', copyPtr ClTracepointProgramInfo_DeepCopyInto)]"

definition ClBpfApplicationStateStatus_type :: "K8sMeta \<Rightarrow> gty" where
  [object_layout]: "ClBpfApplicationStateStatus_type k = TStruct
     [(''UpdateCount'', TPrim), (''Node'', TPrim), (''AppLoadStatus'', TPrim),
      (''Programs'', TSlice ClBpfApplicationProgramState_type), (''Conditions'', TSlice (k8_Condition k))]"

definition ClBpfApplicationStateStatus_DeepCopyInto :: "K8sMeta \<Rightarrow> copier" where
  [object_layout]: "ClBpfApplicationStateStatus_DeepCopyInto k = copyStruct
     [(''Programs'', copySlice ClBpfApplicationProgramState_DeepCopyInto),
      (''Conditions'', copySlice (dc_Condition k))]"

definition BpfApplicationSpec_type :: "K8sMeta \<Rightarrow> gty" where
  [object_layout]: "BpfApplicationSpec_type k = TStruct
     [(''BpfAppCommon'', BpfAppCommon_type k), (''Programs'', TSlice (BpfApplicationProgram_type k))]"

definition BpfApplicationSpec_DeepCopyInto :: "K8sMeta \<Rightarrow> copier" where
  [object_layout]: "BpfApplicationSpec_DeepCopyInto k = copyStruct
     [(''BpfAppCommon'', BpfAppCommon_DeepCopyInto k),
      (''Programs'', copySlice (BpfApplicationProgram_DeepCopyInto k))]"

definition BpfApplicationState_type :: "K8sMeta \<Rightarrow> gty" where
  [object_layout]: "BpfApplicationState_type k = TStruct
     [(''TypeMeta'', k8_TypeMeta k), (''ObjectMeta'', k8_ObjectMeta k),
      (''Status'', BpfApplicationStateStatus_type k)]"

definition BpfApplicationState_DeepCopyInto :: "K8sMeta \<Rightarrow> copier" where
  [object_layout]: "BpfApplicationState_DeepCopyInto k = copyStruct
     [(''TypeMeta'', shallow), (''ObjectMeta'', dc_ObjectMeta k),
      (''Status'', BpfApplicationStateStatus_DeepCopyInto k)]"

definition ClBpfApplicationSpec_type :: "K8sMeta \<Rightarrow> gty" where
  [object_layout]: "ClBpfApplicationSpec_type k = TStruct
     [(''BpfAppCommon'', BpfAppCommon_type k), (''Programs'', TSlice (ClBpfApplicationProgram_type k))]"

definition ClBpfApplicationSpec_DeepCopyInto :: "K8sMeta \<Rightarrow> copier" where
  [object_layout]: "ClBpfApplicationSpec_DeepCopyInto k = copyStruct
     [(''BpfAppCommon'', BpfAppCommon_DeepCopyInto k),
      (''Programs'', copySlice (ClBpfApplicationProgram_DeepCopyInto k))]"

definition ClusterBpfApplicationState_type :: "K8sMeta \<Rightarrow> gty" where
  [object_layout]: "ClusterBpfApplicationState_type k = TStruct
     [(''TypeMeta'', k8_TypeMeta k), (''ObjectMeta'', k8_ObjectMeta k),
      (''Status'', ClBpfApplicationStateStatus_type k)]"

definition ClusterBpfApplicationState_DeepCopyInto :: "K8sMeta \<Rightarrow> copier" where
  [object_layout]: "ClusterBpfApplicationState_DeepCopyInto k = copyStruct
     [(''TypeMeta'', shallow), (''ObjectMeta'', dc_ObjectMeta k),
      (''Status'', ClBpfApplicationStateStatus_DeepCopyInto k)]"

definition BpfApplication_type :: "K8sMeta \<Rightarrow> gty" where
  [object_layout]: "BpfApplication_type k = TStruct
     [(''TypeMeta'', k8_TypeMeta k), (''ObjectMeta'', k8_ObjectMeta k), (''Spec'', BpfApplicationSpec_type k),
      (''Status'', BpfAppStatus_type k)]"

definition BpfApplication_DeepCopyInto :: "K8sMeta \<Rightarrow> copier" where
  [object_layout]: "BpfApplication_DeepCopyInto k = copyStruct
     [(''TypeMeta'', shallow), (''ObjectMeta'', dc_ObjectMeta k), (''Spec'', BpfApplicationSpec_DeepCopyInto k),
      (''Status'', BpfAppStatus_DeepCopyInto k)]"

definition BpfApplicationStateList_type :: "K8sMeta \<Rightarrow> gty" where
  [object_layout]: "BpfApplicationStateList_type k = TStruct
     [(''TypeMeta'', k8_TypeMeta k), (''ListMeta'', k8_ListMeta k), (''Items'', TSlice (BpfApplicationState_type k))]"

definition BpfApplicationStateList_DeepCopyInto :: "K8sMeta \<Rightarrow> copier" where
  [object_layout]: "BpfApplicationStateList_DeepCopyInto k = copyStruct
     [(''TypeMeta'', shallow), (''ListMeta'', dc_ListMeta k),
      (''Items'', copySlice (BpfApplicationState_DeepCopyInto k))]"

definition ClusterBpfApplication_type :: "K8sMeta \<Rightarrow> gty" where
  [object_layout]: "ClusterBpfApplication_type k = TStruct
     [(''TypeMeta'', k8_TypeMeta k), (''ObjectMeta'', k8_ObjectMeta k), (''Spec'', ClBpfApplicationSpec_type k),
      (''Status'', BpfAppStatus_type k)]"

definition ClusterBpfApplication_DeepCopyInto :: "K8sMeta \<Rightarrow> copier" where
  [object_layout]: "ClusterBpfApplication_DeepCopyInto k = copyStruct
     [(''TypeMeta'', shallow), (''ObjectMeta'', dc_ObjectMeta k), (''Spec'', ClBpfApplicationSpec_DeepCopyInto k),
      (''Status'', BpfAppStatus_DeepCopyInto k)]"

definition ClusterBpfApplicationStateList_type :: "K8sMeta \<Rightarrow> gty" where
  [object_layout]: "ClusterBpfApplicationStateList_type k = TStruct
     [(''TypeMeta'', k8_TypeMeta k), (''ListMeta'', k8_ListMeta k),
      (''Items'', TSlice (ClusterBpfApplicationState_type k))]"

definition ClusterBpfApplicationStateList_DeepCopyInto :: "K8sMeta \<Rightarrow> copier" where
  [object_layout]: "ClusterBpfApplicationStateList_DeepCopyInto k = copyStruct
     [(''TypeMeta'', shallow), (''ListMeta'', dc_ListMeta k),
      (''Items'', copySlice (ClusterBpfApplicationState_DeepCopyInto k))]"

definition BpfApplicationList_type :: "K8sMeta \<Rightarrow> gty" where
  [object_layout]: "BpfApplicationList_type k = TStruct
     [(''TypeMeta'', k8_TypeMeta k), (''ListMeta'', k8_ListMeta k), (''Items'', TSlice (BpfApplication_type k))]"

definition BpfApplicationList_DeepCopyInto :: "K8sMeta \<Rightarrow> copier" where
  [object_layout]: "BpfApplicationList_DeepCopyInto k = copyStruct
     [(''TypeMeta'', shallow), (''ListMeta'', dc_ListMeta k), (''Items'', copySlice (BpfApplication_DeepCopyInto k))]"

definition ClusterBpfApplicationList_type :: "K8sMeta \<Rightarrow> gty" where
  [object_layout]: "ClusterBpfApplicationList_type k = TStruct
     [(''TypeMeta'', k8_TypeMeta k), (''ListMeta'', k8_ListMeta k),
      (''Items'', TSlice (ClusterBpfApplication_type k))]"

definition ClusterBpfApplicationList_DeepCopyInto :: "K8sMeta \<Rightarrow> copier" where
  [object_layout]: "ClusterBpfApplicationList_DeepCopyInto k = copyStruct
     [(''TypeMeta'', shallow), (''ListMeta'', dc_ListMeta k),
      (''Items'', copySlice (ClusterBpfApplication_DeepCopyInto k))]"

text \<open>
  \<^verbatim>\<open>DeepCopy\<close> copies what a pointer points to, and nil to nil; \<^verbatim>\<open>DeepCopyObject\<close> is the same as a value of an interface type, for the types that
  are objects of the API.
\<close>

definition BpfApplication_DeepCopy :: "K8sMeta \<Rightarrow> copier" where
  "BpfApplication_DeepCopy k = copyPtr (BpfApplication_DeepCopyInto k)"

definition BpfApplication_DeepCopyObject :: "K8sMeta \<Rightarrow> copier" where
  "BpfApplication_DeepCopyObject k = BpfApplication_DeepCopy k"

definition BpfApplicationList_DeepCopy :: "K8sMeta \<Rightarrow> copier" where
  "BpfApplicationList_DeepCopy k = copyPtr (BpfApplicationList_DeepCopyInto k)"

definition BpfApplicationList_DeepCopyObject :: "K8sMeta \<Rightarrow> copier" where
  "BpfApplicationList_DeepCopyObject k = BpfApplicationList_DeepCopy k"

definition BpfApplicationState_DeepCopy :: "K8sMeta \<Rightarrow> copier" where
  "BpfApplicationState_DeepCopy k = copyPtr (BpfApplicationState_DeepCopyInto k)"

definition BpfApplicationState_DeepCopyObject :: "K8sMeta \<Rightarrow> copier" where
  "BpfApplicationState_DeepCopyObject k = BpfApplicationState_DeepCopy k"

definition BpfApplicationStateList_DeepCopy :: "K8sMeta \<Rightarrow> copier" where
  "BpfApplicationStateList_DeepCopy k = copyPtr (BpfApplicationStateList_DeepCopyInto k)"

definition BpfApplicationStateList_DeepCopyObject :: "K8sMeta \<Rightarrow> copier" where
  "BpfApplicationStateList_DeepCopyObject k = BpfApplicationStateList_DeepCopy k"

definition ClusterBpfApplication_DeepCopy :: "K8sMeta \<Rightarrow> copier" where
  "ClusterBpfApplication_DeepCopy k = copyPtr (ClusterBpfApplication_DeepCopyInto k)"

definition ClusterBpfApplication_DeepCopyObject :: "K8sMeta \<Rightarrow> copier" where
  "ClusterBpfApplication_DeepCopyObject k = ClusterBpfApplication_DeepCopy k"

definition ClusterBpfApplicationList_DeepCopy :: "K8sMeta \<Rightarrow> copier" where
  "ClusterBpfApplicationList_DeepCopy k = copyPtr (ClusterBpfApplicationList_DeepCopyInto k)"

definition ClusterBpfApplicationList_DeepCopyObject :: "K8sMeta \<Rightarrow> copier" where
  "ClusterBpfApplicationList_DeepCopyObject k = ClusterBpfApplicationList_DeepCopy k"

definition ClusterBpfApplicationState_DeepCopy :: "K8sMeta \<Rightarrow> copier" where
  "ClusterBpfApplicationState_DeepCopy k = copyPtr (ClusterBpfApplicationState_DeepCopyInto k)"

definition ClusterBpfApplicationState_DeepCopyObject :: "K8sMeta \<Rightarrow> copier" where
  "ClusterBpfApplicationState_DeepCopyObject k = ClusterBpfApplicationState_DeepCopy k"

definition ClusterBpfApplicationStateList_DeepCopy :: "K8sMeta \<Rightarrow> copier" where
  "ClusterBpfApplicationStateList_DeepCopy k = copyPtr (ClusterBpfApplicationStateList_DeepCopyInto k)"

definition ClusterBpfApplicationStateList_DeepCopyObject :: "K8sMeta \<Rightarrow> copier" where
  "ClusterBpfApplicationStateList_DeepCopyObject k = ClusterBpfApplicationStateList_DeepCopy k"

definition Config_DeepCopy :: "K8sMeta \<Rightarrow> copier" where
  "Config_DeepCopy k = copyPtr (Config_DeepCopyInto k)"

definition Config_DeepCopyObject :: "K8sMeta \<Rightarrow> copier" where
  "Config_DeepCopyObject k = Config_DeepCopy k"

definition ConfigList_DeepCopy :: "K8sMeta \<Rightarrow> copier" where
  "ConfigList_DeepCopy k = copyPtr (ConfigList_DeepCopyInto k)"

definition ConfigList_DeepCopyObject :: "K8sMeta \<Rightarrow> copier" where
  "ConfigList_DeepCopyObject k = ConfigList_DeepCopy k"

section \<open>All of them copy deeply\<close>

text \<open>The types with their copying functions.\<close>

definition partTypes :: "K8sMeta \<Rightarrow> (string \<times> gty \<times> copier) list" where
  "partTypes k =
     [(''AgentSpec'', AgentSpec_type, AgentSpec_DeepCopyInto),
      (''AttachInfoStateCommon'', AttachInfoStateCommon_type, AttachInfoStateCommon_DeepCopyInto),
      (''BpfAppStatus'', BpfAppStatus_type k, BpfAppStatus_DeepCopyInto k),
      (''BpfProgramStateCommon'', BpfProgramStateCommon_type, BpfProgramStateCommon_DeepCopyInto),
      (''ClContainerSelector'', ClContainerSelector_type k, ClContainerSelector_DeepCopyInto k),
      (''ClFentryAttachInfo'', ClFentryAttachInfo_type, ClFentryAttachInfo_DeepCopyInto),
      (''ClFentryLoadInfo'', ClFentryLoadInfo_type, ClFentryLoadInfo_DeepCopyInto),
      (''ClFexitAttachInfo'', ClFexitAttachInfo_type, ClFexitAttachInfo_DeepCopyInto),
      (''ClFexitLoadInfo'', ClFexitLoadInfo_type, ClFexitLoadInfo_DeepCopyInto),
      (''ClKprobeAttachInfo'', ClKprobeAttachInfo_type, ClKprobeAttachInfo_DeepCopyInto),
      (''ClKretprobeAttachInfo'', ClKretprobeAttachInfo_type, ClKretprobeAttachInfo_DeepCopyInto),
      (''ClNetworkNamespaceSelector'', ClNetworkNamespaceSelector_type k, ClNetworkNamespaceSelector_DeepCopyInto k),
      (''ClTracepointAttachInfo'', ClTracepointAttachInfo_type, ClTracepointAttachInfo_DeepCopyInto),
      (''ComponentOverride'', ComponentOverride_type, ComponentOverride_DeepCopyInto),
      (''ConfigStatus'', ConfigStatus_type k, ConfigStatus_DeepCopyInto k),
      (''ContainerSelector'', ContainerSelector_type k, ContainerSelector_DeepCopyInto k),
      (''DaemonSpec'', DaemonSpec_type, DaemonSpec_DeepCopyInto),
      (''ImagePullSecretSelector'', ImagePullSecretSelector_type, ImagePullSecretSelector_DeepCopyInto),
      (''InterfaceDiscovery'', InterfaceDiscovery_type, InterfaceDiscovery_DeepCopyInto),
      (''NetworkNamespaceSelector'', NetworkNamespaceSelector_type k, NetworkNamespaceSelector_DeepCopyInto k),
      (''ByteCodeImage'', ByteCodeImage_type, ByteCodeImage_DeepCopyInto),
      (''ClFentryAttachInfoState'', ClFentryAttachInfoState_type, ClFentryAttachInfoState_DeepCopyInto),
      (''ClFentryProgramInfo'', ClFentryProgramInfo_type, ClFentryProgramInfo_DeepCopyInto),
      (''ClFexitAttachInfoState'', ClFexitAttachInfoState_type, ClFexitAttachInfoState_DeepCopyInto),
      (''ClFexitProgramInfo'', ClFexitProgramInfo_type, ClFexitProgramInfo_DeepCopyInto),
      (''ClKprobeAttachInfoState'', ClKprobeAttachInfoState_type, ClKprobeAttachInfoState_DeepCopyInto),
      (''ClKprobeProgramInfo'', ClKprobeProgramInfo_type, ClKprobeProgramInfo_DeepCopyInto),
      (''ClKretprobeAttachInfoState'', ClKretprobeAttachInfoState_type, ClKretprobeAttachInfoState_DeepCopyInto),
      (''ClKretprobeProgramInfo'', ClKretprobeProgramInfo_type, ClKretprobeProgramInfo_DeepCopyInto),
      (''ClTcAttachInfoState'', ClTcAttachInfoState_type, ClTcAttachInfoState_DeepCopyInto),
      (''ClTcxAttachInfoState'', ClTcxAttachInfoState_type, ClTcxAttachInfoState_DeepCopyInto),
      (''ClTracepointAttachInfoState'', ClTracepointAttachInfoState_type, ClTracepointAttachInfoState_DeepCopyInto),
      (''ClTracepointProgramInfo'', ClTracepointProgramInfo_type, ClTracepointProgramInfo_DeepCopyInto),
      (''ClUprobeAttachInfo'', ClUprobeAttachInfo_type k, ClUprobeAttachInfo_DeepCopyInto k),
      (''ClUprobeAttachInfoState'', ClUprobeAttachInfoState_type, ClUprobeAttachInfoState_DeepCopyInto),
      (''ClXdpAttachInfoState'', ClXdpAttachInfoState_type, ClXdpAttachInfoState_DeepCopyInto),
      (''ConfigSpec'', ConfigSpec_type, ConfigSpec_DeepCopyInto),
      (''InterfaceSelector'', InterfaceSelector_type, InterfaceSelector_DeepCopyInto),
      (''TcAttachInfoState'', TcAttachInfoState_type, TcAttachInfoState_DeepCopyInto),
      (''TcxAttachInfoState'', TcxAttachInfoState_type, TcxAttachInfoState_DeepCopyInto),
      (''UprobeAttachInfo'', UprobeAttachInfo_type k, UprobeAttachInfo_DeepCopyInto k),
      (''UprobeAttachInfoState'', UprobeAttachInfoState_type, UprobeAttachInfoState_DeepCopyInto),
      (''XdpAttachInfoState'', XdpAttachInfoState_type, XdpAttachInfoState_DeepCopyInto)]"

definition programTypes :: "K8sMeta \<Rightarrow> (string \<times> gty \<times> copier) list" where
  "programTypes k =
     [(''ByteCodeSelector'', ByteCodeSelector_type, ByteCodeSelector_DeepCopyInto),
      (''ClFentryProgramInfoState'', ClFentryProgramInfoState_type, ClFentryProgramInfoState_DeepCopyInto),
      (''ClFexitProgramInfoState'', ClFexitProgramInfoState_type, ClFexitProgramInfoState_DeepCopyInto),
      (''ClKprobeProgramInfoState'', ClKprobeProgramInfoState_type, ClKprobeProgramInfoState_DeepCopyInto),
      (''ClKretprobeProgramInfoState'', ClKretprobeProgramInfoState_type, ClKretprobeProgramInfoState_DeepCopyInto),
      (''ClTcAttachInfo'', ClTcAttachInfo_type k, ClTcAttachInfo_DeepCopyInto k),
      (''ClTcProgramInfoState'', ClTcProgramInfoState_type, ClTcProgramInfoState_DeepCopyInto),
      (''ClTcxAttachInfo'', ClTcxAttachInfo_type k, ClTcxAttachInfo_DeepCopyInto k),
      (''ClTcxProgramInfoState'', ClTcxProgramInfoState_type, ClTcxProgramInfoState_DeepCopyInto),
      (''ClTracepointProgramInfoState'', ClTracepointProgramInfoState_type, ClTracepointProgramInfoState_DeepCopyInto),
      (''ClUprobeProgramInfo'', ClUprobeProgramInfo_type k, ClUprobeProgramInfo_DeepCopyInto k),
      (''ClUprobeProgramInfoState'', ClUprobeProgramInfoState_type, ClUprobeProgramInfoState_DeepCopyInto),
      (''ClXdpAttachInfo'', ClXdpAttachInfo_type k, ClXdpAttachInfo_DeepCopyInto k),
      (''ClXdpProgramInfoState'', ClXdpProgramInfoState_type, ClXdpProgramInfoState_DeepCopyInto),
      (''Config'', Config_type k, Config_DeepCopyInto k),
      (''TcAttachInfo'', TcAttachInfo_type k, TcAttachInfo_DeepCopyInto k),
      (''TcProgramInfoState'', TcProgramInfoState_type, TcProgramInfoState_DeepCopyInto),
      (''TcxAttachInfo'', TcxAttachInfo_type k, TcxAttachInfo_DeepCopyInto k),
      (''TcxProgramInfoState'', TcxProgramInfoState_type, TcxProgramInfoState_DeepCopyInto),
      (''UprobeProgramInfo'', UprobeProgramInfo_type k, UprobeProgramInfo_DeepCopyInto k),
      (''UprobeProgramInfoState'', UprobeProgramInfoState_type, UprobeProgramInfoState_DeepCopyInto),
      (''XdpAttachInfo'', XdpAttachInfo_type k, XdpAttachInfo_DeepCopyInto k),
      (''XdpProgramInfoState'', XdpProgramInfoState_type, XdpProgramInfoState_DeepCopyInto),
      (''BpfAppCommon'', BpfAppCommon_type k, BpfAppCommon_DeepCopyInto k),
      (''BpfApplicationProgramState'', BpfApplicationProgramState_type, BpfApplicationProgramState_DeepCopyInto),
      (''ClBpfApplicationProgramState'', ClBpfApplicationProgramState_type, ClBpfApplicationProgramState_DeepCopyInto),
      (''ClTcProgramInfo'', ClTcProgramInfo_type k, ClTcProgramInfo_DeepCopyInto k),
      (''ClTcxProgramInfo'', ClTcxProgramInfo_type k, ClTcxProgramInfo_DeepCopyInto k),
      (''ClXdpProgramInfo'', ClXdpProgramInfo_type k, ClXdpProgramInfo_DeepCopyInto k),
      (''ConfigList'', ConfigList_type k, ConfigList_DeepCopyInto k),
      (''TcProgramInfo'', TcProgramInfo_type k, TcProgramInfo_DeepCopyInto k),
      (''TcxProgramInfo'', TcxProgramInfo_type k, TcxProgramInfo_DeepCopyInto k),
      (''XdpProgramInfo'', XdpProgramInfo_type k, XdpProgramInfo_DeepCopyInto k)]"

definition objectTypes :: "K8sMeta \<Rightarrow> (string \<times> gty \<times> copier) list" where
  "objectTypes k =
     [(''BpfApplicationProgram'', BpfApplicationProgram_type k, BpfApplicationProgram_DeepCopyInto k),
      (''BpfApplicationStateStatus'', BpfApplicationStateStatus_type k, BpfApplicationStateStatus_DeepCopyInto k),
      (''ClBpfApplicationProgram'', ClBpfApplicationProgram_type k, ClBpfApplicationProgram_DeepCopyInto k),
      (''ClBpfApplicationStateStatus'', ClBpfApplicationStateStatus_type k, ClBpfApplicationStateStatus_DeepCopyInto k),
      (''BpfApplicationSpec'', BpfApplicationSpec_type k, BpfApplicationSpec_DeepCopyInto k),
      (''BpfApplicationState'', BpfApplicationState_type k, BpfApplicationState_DeepCopyInto k),
      (''ClBpfApplicationSpec'', ClBpfApplicationSpec_type k, ClBpfApplicationSpec_DeepCopyInto k),
      (''ClusterBpfApplicationState'', ClusterBpfApplicationState_type k, ClusterBpfApplicationState_DeepCopyInto k),
      (''BpfApplication'', BpfApplication_type k, BpfApplication_DeepCopyInto k),
      (''BpfApplicationStateList'', BpfApplicationStateList_type k, BpfApplicationStateList_DeepCopyInto k),
      (''ClusterBpfApplication'', ClusterBpfApplication_type k, ClusterBpfApplication_DeepCopyInto k),
      (''ClusterBpfApplicationStateList'', ClusterBpfApplicationStateList_type k, ClusterBpfApplicationStateList_DeepCopyInto k),
      (''BpfApplicationList'', BpfApplicationList_type k, BpfApplicationList_DeepCopyInto k),
      (''ClusterBpfApplicationList'', ClusterBpfApplicationList_type k, ClusterBpfApplicationList_DeepCopyInto k)]"

definition apiTypes :: "K8sMeta \<Rightarrow> (string \<times> gty \<times> copier) list" where
  "apiTypes k = partTypes k @ programTypes k @ objectTypes k"

text \<open>The structs that are copied by an assignment.\<close>

lemma refFree_types:
  "refFree AgentSpec_type"
  "refFree ClFentryAttachInfo_type"
  "refFree ClFentryLoadInfo_type"
  "refFree ClFexitAttachInfo_type"
  "refFree ClFexitLoadInfo_type"
  "refFree ClKprobeAttachInfo_type"
  "refFree ClKretprobeAttachInfo_type"
  "refFree ClTracepointAttachInfo_type"
  "refFree ComponentOverride_type"
  "refFree DaemonSpec_type"
  "refFree ImagePullSecretSelector_type"
  by (simp_all add: part_layout)

locale k8s_meta =
  fixes k :: K8sMeta
  assumes typeMeta: "refFree (k8_TypeMeta k)"
    and objectMeta: "deep_copier (k8_ObjectMeta k) (dc_ObjectMeta k)"
    and listMeta: "deep_copier (k8_ListMeta k) (dc_ListMeta k)"
    and labelSelector: "deep_copier (k8_LabelSelector k) (dc_LabelSelector k)"
    and condition: "deep_copier (k8_Condition k) (dc_Condition k)"
begin

lemmas meta_rules = typeMeta objectMeta listMeta labelSelector condition deep_rules

text \<open>The rules apply along the layout of each type, group by group.\<close>

lemma parts_deep: "list_all (\<lambda>(n, t, f). deep_copier t f) (partTypes k)"
  unfolding partTypes_def list.pred_inject split_conv
  by (intro conjI) (simp_all add: part_layout meta_rules)

lemmas part_rules = parts_deep [unfolded partTypes_def list.pred_inject split_conv]

lemma programs_deep: "list_all (\<lambda>(n, t, f). deep_copier t f) (programTypes k)"
  unfolding programTypes_def list.pred_inject split_conv
  by (intro conjI) (simp_all add: program_layout part_rules refFree_types meta_rules)

lemmas program_rules = programs_deep [unfolded programTypes_def list.pred_inject split_conv]

lemma objects_deep: "list_all (\<lambda>(n, t, f). deep_copier t f) (objectTypes k)"
  unfolding objectTypes_def list.pred_inject split_conv
  by (intro conjI) (simp_all add: object_layout program_rules part_rules refFree_types meta_rules)

lemma api_deep: "list_all (\<lambda>(n, t, f). deep_copier t f) (apiTypes k)"
  using parts_deep programs_deep objects_deep by (simp add: apiTypes_def)

end

text \<open>The two copies the agent keeps while it reconciles an application, and the parts of them that need no library type.\<close>

sublocale k8s_meta \<subseteq> clStateCopy: deep_copier "TPtr (ClusterBpfApplicationState_type k)" "ClusterBpfApplicationState_DeepCopy k"
  using objects_deep by (simp add: objectTypes_def ClusterBpfApplicationState_DeepCopy_def deep_copyPtr)

sublocale k8s_meta \<subseteq> nsStateCopy: deep_copier "TPtr (BpfApplicationState_type k)" "BpfApplicationState_DeepCopy k"
  using objects_deep by (simp add: objectTypes_def BpfApplicationState_DeepCopy_def deep_copyPtr)

interpretation linkCopy: deep_copier AttachInfoStateCommon_type AttachInfoStateCommon_DeepCopyInto
  by (simp add: part_layout deep_rules)

interpretation programCopy: deep_copier BpfProgramStateCommon_type BpfProgramStateCommon_DeepCopyInto
  by (simp add: part_layout deep_rules)

end
