(* ===== verification/Snapshot_Properties.thy ===== *)
theory Snapshot_Properties
  imports Api_DeepCopy
begin

text \<open>
  What the agent relies on when it keeps a copy of the state object before a reconcile and compares it with the object
  afterwards: the copy is a snapshot. The other theories pass that copy as a value.
\<close>

section \<open>A concrete library\<close>

text \<open>The metadata types with the fields that show the kinds of reference they hold.\<close>

definition plainMeta :: K8sMeta where
  "plainMeta =
     \<lparr>k8_TypeMeta = TStruct [(''Kind'', TPrim), (''APIVersion'', TPrim)],
      k8_ObjectMeta = TStruct [(''Name'', TPrim), (''Labels'', TMap TPrim), (''Finalizers'', TSlice TPrim)],
      k8_ListMeta = TStruct [(''ResourceVersion'', TPrim), (''RemainingItemCount'', TPtr TPrim)],
      k8_LabelSelector = TStruct [(''MatchLabels'', TMap TPrim)],
      k8_Condition = TStruct [(''Type'', TPrim), (''Status'', TPrim)],
      dc_ObjectMeta = copyStruct [(''Labels'', copyMap shallow), (''Finalizers'', copySlice shallow)],
      dc_ListMeta = copyStruct [(''RemainingItemCount'', copyPtr shallow)],
      dc_LabelSelector = copyStruct [(''MatchLabels'', copyMap shallow)],
      dc_Condition = copyStruct []\<rparr>"

interpretation plainMeta: k8s_meta plainMeta
  by (rule k8s_meta.intro) (simp_all add: plainMeta_def deep_rules)

section \<open>The property\<close>

text \<open>
  C28: a deep copy of any type of the API is a snapshot. \<^verbatim>\<open>DeepCopy\<close> of a pointer writes to no memory that was in use,
  and whatever is written afterwards to that memory or to memory allocated later, the copy reads as the
  value the original had when it was copied.
\<close>

theorem deepcopy_snapshot:
  assumes "k8s_meta k" and "(n, t, f) \<in> set (apiTypes k)" and "wfMem m" and "readVal (mem_cells m) (TPtr t) p = Some x"
    and "copyPtr f p m = (p', m')"
    and "\<And>a. mem_next m \<le> a \<Longrightarrow> a < mem_next m' \<Longrightarrow> h a = mem_cells m' a"
  shows "readVal h (TPtr t) p' = Some x \<and> (\<forall>a < mem_next m. mem_cells m' a = mem_cells m a)"
proof -
  from k8s_meta.api_deep [OF assms(1)] assms(2) have "deep_copier t f" by (auto simp: list_all_iff)
  then have d: "deep_copier (TPtr t) (copyPtr f)" by (rule deep_copyPtr)
  from deep_copier.snapshot [OF d assms(3-6)] deep_copier.deep [OF d assms(3-5)] show ?thesis by (simp add: extends_def)
qed

text \<open>A state object with a TC program whose link has an id, in cells 0 to 9.\<close>

definition nilPtrs :: "string list \<Rightarrow> (string \<times> gval) list" where
  "nilPtrs = map (\<lambda>n. (n, Ref None))"

definition tcLink :: gval where
  "tcLink = Struct
     [(''AttachInfoStateCommon'', Struct [(''ShouldAttach'', Prim ''true''), (''UUID'', Prim ''u''), (''LinkId'', Ref (Some 0)), (''LinkStatus'', Prim ''Attached'')]),
      (''InterfaceName'', Prim ''eth0''), (''NetnsPath'', Prim ''''), (''Direction'', Prim ''Ingress''), (''Priority'', Prim ''55''),
      (''ProceedOn'', Ref (Some 1))]"

definition tcProgramCell :: gval where
  "tcProgramCell = Struct
     ([(''BpfProgramStateCommon'', Struct [(''Name'', Prim ''tc_pass''), (''ProgramLinkStatus'', Prim ''Success''), (''ProgramId'', Ref (Some 4))]),
       (''Type'', Prim ''TC''), (''XDP'', Ref None), (''TC'', Ref (Some 3))] @
      nilPtrs [''TCX'', ''FEntry'', ''FExit'', ''KProbe'', ''KRetProbe'', ''UProbe'', ''URetProbe'', ''TracePoint''])"

definition stateCell :: gval where
  "stateCell = Struct
     [(''TypeMeta'', Struct [(''Kind'', Prim ''ClusterBpfApplicationState''), (''APIVersion'', Prim ''v1alpha1'')]),
      (''ObjectMeta'', Struct [(''Name'', Prim ''app-0''), (''Labels'', Ref (Some 7)), (''Finalizers'', Ref (Some 8))]),
      (''Status'', Struct [(''UpdateCount'', Prim ''1''), (''Node'', Prim ''n1''), (''AppLoadStatus'', Prim ''LoadSuccess''),
         (''Programs'', Ref (Some 5)), (''Conditions'', Ref (Some 6))])]"

definition stateMem :: mem where
  "stateMem =
     \<lparr>mem_cells = (\<lambda>a. map_of (zip [0..<10]
        [Prim ''7'', Elems [Prim ''Pipe''], Elems [tcLink], Struct [(''Links'', Ref (Some 2))], Prim ''42'', Elems [tcProgramCell],
         Elems [Struct [(''Type'', Prim ''Success''), (''Status'', Prim ''True'')]], Entries [(''owner'', Prim ''app'')],
         Elems [Prim ''finalizer''], stateCell]) a),
      mem_next = 10\<rparr>"

text \<open>The reconcile clears the id of the link in place.\<close>

definition clearedMem :: "mem \<Rightarrow> cells" where
  "clearedMem m = (mem_cells m)(0 \<mapsto> Prim ''0'')"

definition readState :: "cells \<Rightarrow> gval \<Rightarrow> gtree option" where
  "readState h p = readVal h (TPtr (ClusterBpfApplicationState_type plainMeta)) p"

lemma state_run:
  "readState (mem_cells stateMem) (Ref (Some 9)) \<noteq> None \<and>
   (case ClusterBpfApplicationState_DeepCopy plainMeta (Ref (Some 9)) stateMem of
      (p', m') \<Rightarrow> p' = Ref (Some 19) \<and> mem_next m' = 20 \<and>
        readState (clearedMem m') (Ref (Some 9)) \<noteq> readState (mem_cells stateMem) (Ref (Some 9)))"
  by code_simp

lemma deepcopy_snapshot_witness:
  "\<exists>p' m' x. ClusterBpfApplicationState_DeepCopy plainMeta (Ref (Some 9)) stateMem = (p', m') \<and>
     readState (mem_cells stateMem) (Ref (Some 9)) = Some x \<and> readState (clearedMem m') (Ref (Some 9)) \<noteq> Some x \<and>
     readState (clearedMem m') p' = Some x"
proof -
  obtain x where x: "readState (mem_cells stateMem) (Ref (Some 9)) = Some x" using state_run by blast
  obtain p' m' where c: "ClusterBpfApplicationState_DeepCopy plainMeta (Ref (Some 9)) stateMem = (p', m')" by fastforce
  have "(''ClusterBpfApplicationState'', ClusterBpfApplicationState_type plainMeta, ClusterBpfApplicationState_DeepCopyInto plainMeta)
      \<in> set (apiTypes plainMeta)" by (simp add: apiTypes_def objectTypes_def)
  moreover have "wfMem stateMem" by (auto simp: wfMem_def stateMem_def map_of_eq_None_iff set_zip)
  ultimately have "readState (clearedMem m') p' = Some x"
    unfolding readState_def
    by (rule deepcopy_snapshot [OF plainMeta.k8s_meta_axioms, THEN conjunct1])
      (use x c in \<open>auto simp: readState_def ClusterBpfApplicationState_DeepCopy_def clearedMem_def stateMem_def\<close>)
  with x c state_run show ?thesis by auto
qed

end
