(* ===== verification/Spec2Isabelle.thy ===== *)
theory Spec2Isabelle
  imports Selector_Properties Link_Properties App_Properties Operator_Properties Startup_Properties
    Container_Properties Runtime_Properties Registry_Properties Listing_Properties Bpffs_Properties
    Fleet_Properties Wiring_Properties Ns_Isolation
    Snapshot_Properties
begin

text \<open>
  \<^bold>\<open>The program.\<close> The bpfman operator manages eBPF programs on the nodes of a Kubernetes cluster. A user
  writes a \<^verbatim>\<open>ClusterBpfApplication\<close> or a \<^verbatim>\<open>BpfApplication\<close>: bytecode, a node selector, and a list of
  programs with the links (attach points) each should have. Its parts:

  \<^item> the \<^emph>\<open>agent\<close>, one per node (\<^verbatim>\<open>src/controllers/bpfman-agent\<close>), keeps one state object per application
    and node. It asks the local bpfman daemon over gRPC to load the bytecode, to attach missing links and to
    detach links that are not wanted any more, and records ids and statuses in the state object;
  \<^item> the \<^emph>\<open>operator\<close>, one per cluster (\<^verbatim>\<open>src/controllers/bpfman-operator\<close>), reads the state objects of all
    nodes, writes one condition into the application, and holds the application with a finalizer until every
    agent has dropped its own finalizer from its state object;
  \<^item> the operator's \<^emph>\<open>configuration controller\<close> (\<^verbatim>\<open>config.go\<close>) deploys daemon, agent and metrics proxy from a
    \<^verbatim>\<open>Config\<close> object and keeps the deployed objects as they should be;
  \<^item> the \<^emph>\<open>processes\<close> (\<^verbatim>\<open>src/cmd\<close>): the start of the operator, the start and the supervision of the agent, the metrics
    proxy, and the tool \<^verbatim>\<open>bpfman-crictl\<close>; with the libraries they use under \<^verbatim>\<open>src/internal\<close> and \<^verbatim>\<open>src/pkg\<close>: the container
    runtime client, the BPF file system mount, registry credentials, platform tests, version information.

  \<^bold>\<open>The model.\<close> Go code becomes executable functions. A panic is \<open>None\<close> (\<open>'a go\<close>), an \<^verbatim>\<open>error\<close> result is
  \<open>Inl\<close> (\<open>'a result\<close>), a pointer or a slice that may be nil is an option, and fixed-width integers are words. Code
  outside the repository (the daemon, the API server, system calls, interface discovery, the container runtime,
  UUIDs, regular expressions, registry references, gRPC and controller libraries) is a field of an environment record:
  \<open>Env\<close>, extended by \<open>KEnv\<close> for the agent's API calls, \<open>OEnv\<close> and \<open>CEnv\<close> for the operator's, \<open>StartEnv\<close>,
  \<open>AgentEnv\<close>, \<open>ProxyEnv\<close>, \<open>SocketEnv\<close>, \<open>OsEnv\<close> for the processes; every call threads an arbitrary world
  \<open>'w\<close>. Mutable fields of the reconcilers are passed explicitly, with the network-namespace cache (\<open>rst\<close>).

  \<^bold>\<open>The theories,\<close> in the order of their imports:

  \<^item> \<^verbatim>\<open>Prelude\<close>, \<^verbatim>\<open>Go_Strings\<close>: result and panic types, decimal printing and its injectivity, searching and
    removing by index; Go's string functions.
  \<^item> \<^verbatim>\<open>Api_Types\<close>: the resource types of \<^verbatim>\<open>src/apis/v1alpha1\<close> and the condition tables of
    \<^verbatim>\<open>shared_types.go\<close>.
  \<^item> \<^verbatim>\<open>Agent_Env\<close>, \<^verbatim>\<open>Registry_Auth\<close>, \<^verbatim>\<open>Daemon_Listing\<close>: the environment, the namespace cache of \<^verbatim>\<open>common.go\<close>, the
    daemon calls, bytecode selection and listing of \<^verbatim>\<open>internal/bpfman_core.go\<close>, the decoding of credentials of
    \<^verbatim>\<open>internal/auth.go\<close>, and the program types of both packages that define them.
  \<^item> \<^verbatim>\<open>Link_Reconcile\<close>: \<^verbatim>\<open>reconcileProgram\<close>, \<^verbatim>\<open>reconcileBpfLink\<close>, \<^verbatim>\<open>doesLinkExist\<close> and the two passes
    \<^verbatim>\<open>updateLinks\<close> and \<^verbatim>\<open>processLinks\<close> every program type repeats.
  \<^item> \<^verbatim>\<open>Selectors\<close>, \<^verbatim>\<open>Containers\<close>: priorities, interface discovery and allow lists, the primary interface, one container
    per pod, node selection, event predicates, condition tests; the container runtime client of \<^verbatim>\<open>pkg/crictl\<close>,
    the agent's container getter and the commands of \<^verbatim>\<open>bpfman-crictl\<close>.
  \<^item> \<^verbatim>\<open>Link_Contract\<close>, \<^verbatim>\<open>Daemon_Contract\<close>, \<^verbatim>\<open>Program_Contract\<close>: the interfaces. \<open>link_finder\<close> and
    \<open>program_reconciler\<close> say what the two passes need from \<^verbatim>\<open>findLink\<close>, \<^verbatim>\<open>getExpectedLinks\<close> and
    \<^verbatim>\<open>getAttachRequest\<close>; \<open>daemon_contract\<close> says what a daemon does with links (it issues fresh ids, a detached
    link is gone, \<^verbatim>\<open>Get\<close> lists the live ones and changes nothing); \<open>program_type\<close> adds the store of links in
    the program state. The locales carry the lemmas: no panic once loaded, the list after success, no leaked
    link, no duplicates, what deletion leaves.
  \<^item> \<^verbatim>\<open>Tracing_Programs\<close>, \<^verbatim>\<open>Net_Programs\<close>: the thirteen program types (fentry, fexit, kprobe, kretprobe,
    tracepoint, uprobe, TC, TCX, XDP; namespaced TC, TCX, XDP, uprobe), each with an interpretation of
    \<open>program_type\<close>.
  \<^item> \<^verbatim>\<open>App_Reconcile\<close>: the application reconcilers (\<^verbatim>\<open>cl_application_program.go\<close>,
    \<^verbatim>\<open>ns_application_program.go\<close>, \<^verbatim>\<open>reconcileLoad\<close>), whose methods agree up to a record of operations.
    \<^verbatim>\<open>App_Contract\<close> states what they need from that record as the locale \<open>app_ops\<close>; \<^verbatim>\<open>Cl_Application\<close>,
    \<^verbatim>\<open>Cl_Contract\<close> and \<^verbatim>\<open>Ns_Application\<close> provide and interpret the two records.
  \<^item> \<^verbatim>\<open>Operator\<close>, \<^verbatim>\<open>Controller_Watches\<close>: the operator's application controllers, the abstract \<open>verdict\<close>, and the locale
    \<open>operator_app\<close> in which the reconcile is shown to implement it, interpreted for both instances; and what wakes the
    controllers of both sides.
  \<^item> \<^verbatim>\<open>Config_Types\<close>, \<^verbatim>\<open>Config_Reconcile\<close>: the configuration controller. \<^verbatim>\<open>Config_Contract\<close> (locale \<open>update_test\<close>, interpreted for
    the seven comparisons of stored and wanted objects), \<^verbatim>\<open>Config_Cluster\<close> (locale \<open>api_server\<close>, and when a deployment is
    ready), \<^verbatim>\<open>Config_Steps\<close> and \<^verbatim>\<open>Config_Reconcile_Contract\<close> hold its lemmas step by step; \<^verbatim>\<open>Operator_Main\<close> the start of the operator, with
    the locale \<open>config_store\<close> that extends the API server by the \<^verbatim>\<open>Config\<close> itself.
  \<^item> \<^verbatim>\<open>Agent_Runtime\<close>, \<^verbatim>\<open>Agent_Main\<close>, \<^verbatim>\<open>Bpffs\<close>, \<^verbatim>\<open>Metrics_Proxy\<close>: the agent process as a step relation over the choices of its
    goroutines, its set-up, the init-container mode with the mountinfo parser (locale \<open>mount_os\<close>), and the proxy with version.
  \<^item> \<^verbatim>\<open>Agent_Frame\<close>, \<^verbatim>\<open>Fleet_Protocol\<close>, \<^verbatim>\<open>Fleet_Agent\<close>, \<^verbatim>\<open>Fleet\<close>: the composition of all agents, the operator, the daemons and the
    API server. \<^verbatim>\<open>Fleet_Protocol\<close> is the abstract protocol with its invariant; the locales \<open>fleet_server\<close>, \<open>fleet_agent\<close> and \<open>fleet\<close>
    say what the reconcilers rely on, and in them the reconcilers are shown to implement the protocol. \<open>fleet_agent\<close>
    is interpreted on the cluster reconciler by a \<^verbatim>\<open>sublocale\<close> of \<open>fleet\<close>.
  \<^item> \<^verbatim>\<open>Fleet_Shape\<close>, \<^verbatim>\<open>Fleet_Teardown\<close>: the state objects of every reachable cluster are well formed, and the locale \<open>fleet_up\<close>, which
    adds to \<open>fleet\<close> that the calls deletion depends on are answered; in it a count of what is left to do falls with the turns of
    the agents until a deletion is complete.
  \<^item> \<^verbatim>\<open>Ns_Isolation\<close>: the methods of the namespaced reconciler, and the locale \<open>namespace_server\<close> in which its reconcile is shown to
    stay within the namespace of its application; \<open>twoTenants\<close> interprets it on an API server with namespaces.
  \<^item> \<^verbatim>\<open>Go_Memory\<close>, \<^verbatim>\<open>Api_DeepCopy\<close>: Go values in memory, with references, and on them the copying functions of
    \<^verbatim>\<open>zz_generated.deepcopy.go\<close> for every struct type of the API. The contract of such a function is the locale \<open>deep_copier\<close>;
    \<open>k8s_meta\<close> assumes it of the functions of \<^verbatim>\<open>k8s.io/apimachinery\<close>, and gives it for all of the file, for the copies the agent keeps
    by a \<^verbatim>\<open>sublocale\<close>. This is why the other theories may treat the objects of the API as values.
  \<^item> \<^verbatim>\<open>Fake_Env\<close>, \<^verbatim>\<open>Fake_Fleet\<close>: a concrete daemon and API server, and a concrete cluster, that meet the contracts; the witnesses
    run the model in them. \<open>fakeServer\<close>, \<open>fakeConfigs\<close>, \<open>restingCri\<close>, \<open>tableOs\<close>, \<open>plainMeta\<close>, \<open>fakeFleet\<close> and \<open>fakeFleetUp\<close> are the interpretations
    of the contracts of code outside the repository.
  \<^item> The theories named \<^verbatim>\<open>..._Properties\<close> and this one: the properties, each over the definitions of the code.

  \<^bold>\<open>What is shown.\<close> For programs: success means every wanted link is attached and known to the daemon; no link
  id is lost; no attach point is listed twice; a loaded program never panics; a second pass changes nothing. For
  applications: loading is all or nothing, unloading covers every program, the condition \<^verbatim>\<open>Success\<close> means every program
  is loaded and attached, deletion unloads and then releases the finalizer; a namespaced application reaches no object of another
  namespace. For the operator: the reconcile
  refines the verdict, and what does not wake it can not change the verdict. For the cluster as a whole, over every
  interleaving of reconciles and user actions: an application is let go only when no daemon holds a program of it, and \<^verbatim>\<open>Success\<close> is
  reported only when the daemons of all selected nodes hold its programs; and deletion ends, in any order of the agents. For the configuration: a reconcile that returns
  no error leaves the deployment ready, the next one changes nothing, overrides are respected, drift is noticed, and
  the start of the operator on an empty cluster ends in a ready deployment. For the processes: supervision is
  coordinated and ends, discovery follows the interface events, the exit code of the mount mode is truthful, and
  a scrape reaches the agent through the proxy. Container discovery, mountinfo and credentials have exact
  characterisations or round trips, and a deep copy of any type of the API is a snapshot. Where the code falls short the theorems say so: the panic on nodes that are not selected, an
  application that blocks the ones after it, the state object that stays empty, the failure that is reported as success, the stale message,
  the allow list that fails open, the pods of one name, the annotation that is never set.

  \<^bold>\<open>Bounds.\<close> All loops are recursion over lists, so they end. The two polls run at most \<open>pollAttempts\<close> times, the
  number of times a two-minute poll evaluates its condition; every theorem holds for any number. An execution of the
  agent process has at most five steps that are not the handling of an interface event: a signal, the return of each of the three
  components, and the return of \<^verbatim>\<open>Wait\<close>. A deletion is complete
  after two reconciles per application of each agent that has a state object, one to unload and one to release, and one of the operator.

  \<^bold>\<open>Abstractions.\<close> Logging is left out, as are positions and format verbs in error texts. An update of a status compares the
  old and the new status as values; Go's \<^verbatim>\<open>DeepEqual\<close> also tells a nil list of links from an empty one. Go visits the names
  left over in \<^verbatim>\<open>validateProgramList\<close> in an unspecified order, here it is the order of the list; only the text of the error
  depends on it. Fields of manifests the configuration controller does not read are one opaque remainder. Reads come from a
  cache that is up to date. White space is ASCII, the conversion of floating-point numbers is a parameter, the API
  groups do not change during the start. A controller runs one reconcile at a time; in the cluster, a reconcile is one atomic
  step, a panicking one is none, status updates of objects as they are stored succeed, an unload unloads, a query of the daemon
  tells the truth, and the name of an application is not used again while state objects of it exist. Creating objects,
  loading, reading, and removing the finalizer may fail at any time; that deletion ends is shown for a cluster in which they do not.

  \<^bold>\<open>Not modelled.\<close> The composition covers cluster applications; the namespaced reconcilers are modelled and proved against the same contracts,
  and to keep to their namespace, but not composed. Flag parsing and the options of loggers and managers are arguments or left out. The watcher
  of certificates is a parameter. Generated clients and registration, test helpers, and \<^verbatim>\<open>internal/cmp.go\<close>,
  which is commented out, have no logic of their own. Time-outs of the container runtime calls are left out.
\<close>

section \<open>Agent and operator together\<close>

text \<open>
  The operator's view of a state object is the one the agent writes: its labels and finalizer when it is
  created, and the condition it records.
\<close>

text \<open>
  The state object an agent creates for a cluster application is the one both sides look for: it carries the labels the
  agent's own lookup and the operator's list select by, the operator finds it under the agent's node, and its finalizer is
  the one the operator waits for. Setting the owner reference is assumed to leave labels and finalizers alone.
\<close>

theorem created_state_is_found:
  assumes "initBpfAppState env (Cl_ops env ourNode) app s = (Inr st, s')"
    and "\<And>m m'. SetControllerReference env (app_Meta app) m = Inr m' \<Longrightarrow>
           om_Labels m' = om_Labels m \<and> om_Finalizers m' = om_Finalizers m"
  shows "map_of (om_Labels (st_Meta st)) BpfAppStateOwner = Some (om_Name (app_Meta app)) \<and>
         map_of (om_Labels (st_Meta st)) K8sHostLabel = Some (NodeName env) \<and>
         map_of (om_Labels (st_Meta st)) OwnerLabel = Some (om_Name (app_Meta app)) \<and>
         hostOf st = NodeName env \<and>
         ContainsFinalizer (st_Meta st) (orc_getFinalizer (Cluster_OperRec oenv))"
proof -
  obtain n t where "generateUniqueName env (om_Name (app_Meta app)) s = (n, t)" by fastforce
  moreover define m where "m = \<lparr>om_Name = n, om_Namespace = [], om_UID = [],
    om_Labels = [(BpfAppStateOwner, om_Name (app_Meta app)), (K8sHostLabel, NodeName env)],
    om_Finalizers = [ClBpfApplicationControllerFinalizer], om_DeletionTimestamp = None, om_OwnerReferences = []\<rparr>"
  ultimately have "SetControllerReference env (app_Meta app) m = Inr (st_Meta st)"
    using assms(1) by (auto simp: initBpfAppState_def Let_def Cl_ops_def split: sum.splits)
  with assms(2) [of m "st_Meta st"] m_def show ?thesis
    by (simp add: BpfAppStateOwner_def K8sHostLabel_def OwnerLabel_def HostLabel_def hostOf_def ContainsFinalizer_def
        Cluster_OperRec_def ClBpfApplicationControllerFinalizer_def)
qed

lemma created_state_is_found_witness:
  "\<exists>st s'. initBpfAppState fakeEnv (Cl_ops fakeEnv fakeNode) (mkApp ''app'' None [] [tcProg]) sStart = (Inr st, s') \<and>
     hostOf st = ''n1'' \<and> ContainsFinalizer (st_Meta st) (orc_getFinalizer (Cluster_OperRec (fakeOper [] [])))"
proof -
  let ?e = "fakeEnv :: ((ClBpfApplicationProgram, ClBpfApplicationProgramState) fw, _, _) KEnv"
  let ?app = "mkApp ''app'' None [] [tcProg]"
  have "\<exists>st s'. initBpfAppState ?e (Cl_ops ?e fakeNode) ?app sStart = (Inr st, s')"
    by (simp add: initBpfAppState_def generateUniqueName_def eval_defs)
  then obtain st s' where i: "initBpfAppState ?e (Cl_ops ?e fakeNode) ?app sStart = (Inr st, s')" by blast
  moreover have "SetControllerReference ?e (app_Meta ?app) m = Inr m' \<Longrightarrow>
      om_Labels m' = om_Labels m \<and> om_Finalizers m' = om_Finalizers m" for m m' by (simp add: fakeEnv_def)
  moreover have "NodeName ?e = ''n1''" by (simp add: fakeEnv_def)
  ultimately show ?thesis using created_state_is_found [OF i, of "fakeOper [] []"] by auto
qed

text \<open>What the operator makes of a condition an agent has recorded.\<close>

lemma recorded_condition:
  "stateFailed (snd (updateBpfAppStateCondition now c st)) \<longleftrightarrow>
     c \<in> {BpfAppStateCondError, BpfAppStateCondUnloadError} \<or>
     c = BpfAppStateCondProgramListChangedError \<and> \<not> fst (updateBpfAppStateCondition now c st)"
  "statePending (snd (updateBpfAppStateCondition now c st)) \<longleftrightarrow> c = BpfAppStateCondPending"
proof -
  have "\<exists>k. Conditions (st_Status (snd (updateBpfAppStateCondition now c st))) = [k] \<and>
      cond_Type k = (if c = BpfAppStateCondProgramListChangedError \<and> fst (updateBpfAppStateCondition now c st)
                     then '''' else BpfAppStateCond_string c)"
  proof (cases "fst (updateBpfAppStateCondition now c st)")
    case True
    then obtain st' where u: "updateBpfAppStateCondition now c st = (True, st')" by (metis prod.collapse)
    from updateBpfAppStateCondition_single [OF u] u show ?thesis by (simp add: BpfAppStateCond_type)
  next
    case False
    then show ?thesis by (auto simp: updateBpfAppStateCondition_def split: list.splits if_splits)
  qed
  then obtain k where k: "Conditions (st_Status (snd (updateBpfAppStateCondition now c st))) = [k]"
      "cond_Type k = (if c = BpfAppStateCondProgramListChangedError \<and> fst (updateBpfAppStateCondition now c st)
                      then '''' else BpfAppStateCond_string c)" by blast
  show "stateFailed (snd (updateBpfAppStateCondition now c st)) \<longleftrightarrow>
     c \<in> {BpfAppStateCondError, BpfAppStateCondUnloadError} \<or>
     c = BpfAppStateCondProgramListChangedError \<and> \<not> fst (updateBpfAppStateCondition now c st)"
    using k by (cases c) (simp_all add: stateFailed_def IsBpfAppStateConditionFailure_def)
  show "statePending (snd (updateBpfAppStateCondition now c st)) \<longleftrightarrow> c = BpfAppStateCondPending"
    using k by (cases c) (simp_all add: statePending_def stateFailed_def IsBpfAppStateConditionFailure_def
        IsBpfAppStateConditionPending_def)
qed


text \<open>Success is reported when the condition last recorded in every state object of a cluster application is \<^verbatim>\<open>Success\<close>.\<close>

theorem agents_success_reported:
  assumes "ContainsFinalizer (app_Meta app) BpfmanOperatorFinalizer" and "\<not> appDeleted app"
    and "oe_ListStates env None [(OwnerLabel, om_Name (app_Meta app))] w = (Inr states, w1)"
    and "oe_ListNodes env w1 = (Inr nodes, w2)" and "nd_Name ` set nodes \<subseteq> hostOf ` set states"
    and "\<And>x. x \<in> set states \<Longrightarrow> \<exists>now st. x = snd (updateBpfAppStateCondition now BpfAppStateCondSuccess st)"
  shows "reconcileBpfApplication env (Cluster_OperRec env) app w =
           oper_updateStatus env '''' (om_Name (app_Meta app)) BpfAppCondSuccess '''' w2"
proof -
  have "\<not> stateFailed x \<and> \<not> statePending x" if "x \<in> set states" for x
    using assms(6) [OF that] recorded_condition [where c = BpfAppStateCondSuccess] by auto
  with assms(2,5) have "verdict fin (appDeleted app) states nodes = Report BpfAppCondSuccess ''''" for fin
    by (simp add: verdict_success)
  with clOper.reconcile_verdict [OF assms(1,3,4)] show ?thesis by simp
qed


text \<open>The state object of node \<^verbatim>\<open>n1\<close> after a condition was recorded in it.\<close>

definition recorded :: "BpfApplicationStateConditionType \<Rightarrow> ClusterBpfApplicationState" where
  "recorded c = snd (updateBpfAppStateCondition 5 c (mkState ''app'' AppLoadSuccess [] []))"

lemma recorded_host: "hostOf (recorded c) = ''n1''"
  by (simp add: recorded_def updateBpfAppStateCondition_def setAppStateConditions_def updStatus_def mkState_def hostOf_def
      HostLabel_def K8sHostLabel_def BpfAppStateOwner_def)

lemma oper_lists:
  "ContainsFinalizer (app_Meta (operApp '''' None)) BpfmanOperatorFinalizer" "\<not> appDeleted (operApp '''' None)"
  "oe_ListStates (fakeOper states nodes) ns ls w = (Inr states, w)" "oe_ListNodes (fakeOper states nodes) w = (Inr nodes, w)"
  by (simp_all add: oper_eval)


lemma agents_success_reported_witness:
  "reconcileBpfApplication (fakeOper [recorded BpfAppStateCondSuccess] [operNode ''n1''])
     (Cluster_OperRec (fakeOper [recorded BpfAppStateCondSuccess] [operNode ''n1''])) (operApp '''' None) (operApp '''' None) =
   oper_updateStatus (fakeOper [recorded BpfAppStateCondSuccess] [operNode ''n1'']) ''''
     (om_Name (app_Meta (operApp '''' None :: ClusterBpfApplication))) BpfAppCondSuccess '''' (operApp '''' None)"
proof (rule agents_success_reported [OF oper_lists(1,2,3,4)])
  fix x assume "x \<in> set [recorded BpfAppStateCondSuccess]"
  then show "\<exists>now st. x = snd (updateBpfAppStateCondition now BpfAppStateCondSuccess st)" by (auto simp: recorded_def)
qed (simp add: recorded_host operNode_def)


end
